(* ===== verification/Prelude.thy ===== *)
theory Prelude
  imports Complex_Main "HOL-Library.Word"
begin

text \<open>
  What every theory of the development shares: the part of Go's standard library the
  service calls (\<^verbatim>\<open>strings\<close>, instants and dates), the service's sentinel errors,
  and the calculus for code that reads and writes the outside world and may return an
  error.

  Strings are lists of bytes in the ASCII range, which is what plates, serials, codes and
  identifiers are; the Unicode cases of \<^verbatim>\<open>strings.ToLower\<close> and
  \<^verbatim>\<open>strings.TrimSpace\<close> are outside the model. An instant is an \<open>int\<close>
  counting milliseconds from the Unix epoch, the resolution at which BSON stores dates.
\<close>

section \<open>Named collections\<close>

named_theorems io_simps \<open>how the control-flow combinators compute\<close>
named_theorems triples \<open>Hoare rules of the combinators and of the operations\<close>
named_theorems go_strings \<open>facts about the string functions\<close>

section \<open>Strings\<close>

definition isSpace :: "char \<Rightarrow> bool" where
  "isSpace c \<longleftrightarrow> c \<in> {CHR '' '', CHR 0x09, CHR 0x0A, CHR 0x0B, CHR 0x0C, CHR 0x0D}"

definition isDigit :: "char \<Rightarrow> bool" where
  "isDigit c \<longleftrightarrow> 48 \<le> (of_char c :: nat) \<and> (of_char c :: nat) \<le> 57"

definition isUpper :: "char \<Rightarrow> bool" where
  "isUpper c \<longleftrightarrow> 65 \<le> (of_char c :: nat) \<and> (of_char c :: nat) \<le> 90"

definition isLower :: "char \<Rightarrow> bool" where
  "isLower c \<longleftrightarrow> 97 \<le> (of_char c :: nat) \<and> (of_char c :: nat) \<le> 122"

definition upperChar :: "char \<Rightarrow> char" where
  "upperChar c = (if isLower c then char_of ((of_char c :: nat) - 32) else c)"

definition lowerChar :: "char \<Rightarrow> char" where
  "lowerChar c = (if isUpper c then char_of ((of_char c :: nat) + 32) else c)"

definition TrimSpace :: "string \<Rightarrow> string" where
  "TrimSpace s = rev (dropWhile isSpace (rev (dropWhile isSpace s)))"

definition ToUpper :: "string \<Rightarrow> string" where
  "ToUpper s = map upperChar s"

definition ToLower :: "string \<Rightarrow> string" where
  "ToLower s = map lowerChar s"

definition HasPrefix :: "string \<Rightarrow> string \<Rightarrow> bool" where
  "HasPrefix s p \<longleftrightarrow> take (length p) s = p"

fun Contains :: "string \<Rightarrow> string \<Rightarrow> bool" where
  "Contains [] sub = (sub = [])"
| "Contains (c # s) sub = (HasPrefix (c # s) sub \<or> Contains s sub)"

text \<open>\<open>Cut s sep\<close> is \<^verbatim>\<open>strings.Cut\<close>: the text around the first \<open>sep\<close>, if there is one.\<close>

fun Cut :: "string \<Rightarrow> string \<Rightarrow> string \<times> string \<times> bool" where
  "Cut [] sep = (if sep = [] then ([], [], True) else ([], [], False))"
| "Cut (c # s) sep =
     (if HasPrefix (c # s) sep then ([], drop (length sep) (c # s), True)
      else (case Cut s sep of (before, after, found) \<Rightarrow> (c # before, after, found)))"

definition ReplaceChar :: "char \<Rightarrow> char \<Rightarrow> string \<Rightarrow> string" where
  "ReplaceChar old new s = map (\<lambda>c. if c = old then new else c) s"

fun Join :: "string list \<Rightarrow> string \<Rightarrow> string" where
  "Join [] sep = []"
| "Join [x] sep = x"
| "Join (x # y # xs) sep = x @ sep @ Join (y # xs) sep"

text \<open>\<open>SplitOn c s\<close> is \<^verbatim>\<open>strings.Split\<close> for a one-character separator.\<close>

fun SplitOn :: "char \<Rightarrow> string \<Rightarrow> string list" where
  "SplitOn c [] = [[]]"
| "SplitOn c (x # xs) =
     (if x = c then [] # SplitOn c xs
      else (case SplitOn c xs of [] \<Rightarrow> [[x]] | p # ps \<Rightarrow> (x # p) # ps))"

text \<open>The two defaults the code fills in: for an empty string and for a \<^verbatim>\<open>nil\<close>.\<close>

definition ifEmpty :: "string \<Rightarrow> string \<Rightarrow> string" where
  "ifEmpty s d = (if s = [] then d else s)"

definition ifNil :: "'a option \<Rightarrow> 'a \<Rightarrow> 'a option" where
  "ifNil v d = (case v of None \<Rightarrow> Some d | Some x \<Rightarrow> Some x)"

lemma ifEmpty_simps [simp]:
  "ifEmpty [] d = d" "s \<noteq> [] \<Longrightarrow> ifEmpty s d = s" "ifEmpty s d = [] \<longleftrightarrow> s = [] \<and> d = []"
  by (auto simp: ifEmpty_def)

lemma ifNil_simps [simp]: "ifNil None d = Some d" "ifNil (Some x) d = Some x" "ifNil v d \<noteq> None"
  by (auto simp: ifNil_def split: option.splits)

subsection \<open>Facts about the string functions\<close>

lemma upperChar_idem [simp]: "upperChar (upperChar c) = upperChar c"
  by (auto simp: upperChar_def isLower_def)

lemma lowerChar_idem [simp]: "lowerChar (lowerChar c) = lowerChar c"
  by (auto simp: lowerChar_def isUpper_def)

lemma ToUpper_idem [simp]: "ToUpper (ToUpper s) = ToUpper s"
  by (simp add: ToUpper_def)

lemma ToLower_idem [simp]: "ToLower (ToLower s) = ToLower s"
  by (simp add: ToLower_def)

lemma ToUpper_append [simp]: "ToUpper (s @ t) = ToUpper s @ ToUpper t"
  by (simp add: ToUpper_def)

lemma isSpace_code: "isSpace c \<longleftrightarrow> (of_char c :: nat) \<in> {32, 9, 10, 11, 12, 13}"
proof -
  have "isSpace c \<longleftrightarrow>
      (of_char c :: nat) \<in> of_char ` {CHR '' '', CHR 0x09, CHR 0x0A, CHR 0x0B, CHR 0x0C, CHR 0x0D}"
    by (simp only: isSpace_def inj_image_mem_iff [OF inj_of_char])
  then show ?thesis by simp
qed

lemma of_char_lowerChar:
  "(of_char (lowerChar c) :: nat) = (if isUpper c then of_char c + 32 else of_char c)"
  by (auto simp: lowerChar_def isUpper_def)

lemma isSpace_lowerChar [simp]: "isSpace (lowerChar c) = isSpace c"
  by (auto simp: isSpace_code of_char_lowerChar isUpper_def)

lemma TrimSpace_Nil [simp]: "TrimSpace [] = []"
  by (simp add: TrimSpace_def)

text \<open>A trimmed string has no space at either end; on such a string trimming does nothing.\<close>

definition trimmed :: "string \<Rightarrow> bool" where
  "trimmed s \<longleftrightarrow> (s \<noteq> [] \<longrightarrow> \<not> isSpace (hd s) \<and> \<not> isSpace (last s))"

lemma dropWhile_trimmed_hd: "s \<noteq> [] \<Longrightarrow> \<not> p (hd s) \<Longrightarrow> dropWhile p s = s"
  by (cases s) auto

lemma TrimSpace_of_trimmed [simp]: "trimmed s \<Longrightarrow> TrimSpace s = s"
  by (cases "s = []")
    (simp_all add: trimmed_def TrimSpace_def dropWhile_trimmed_hd hd_rev)

lemma last_dropWhile: "dropWhile p s \<noteq> [] \<Longrightarrow> last (dropWhile p s) = last s"
  by (induction s) auto

lemma trimmed_TrimSpace [simp]: "trimmed (TrimSpace s)"
proof (cases "TrimSpace s = []")
  case True
  then show ?thesis by (simp add: trimmed_def)
next
  case False
  let ?l = "dropWhile isSpace s"
  let ?r = "dropWhile isSpace (rev ?l)"
  have r: "?r \<noteq> []" using False by (simp add: TrimSpace_def)
  have l: "?l \<noteq> []" using r by (metis dropWhile.simps(1) rev.simps(1))
  have "\<not> isSpace (hd ?r)" using r by (rule hd_dropWhile)
  moreover have "last ?r = hd ?l" using last_dropWhile [OF r] l by (simp add: last_rev)
  moreover have "\<not> isSpace (hd ?l)" using l by (rule hd_dropWhile)
  ultimately show ?thesis
    using r by (simp add: trimmed_def TrimSpace_def hd_rev last_rev)
qed

lemma TrimSpace_idem [simp]: "TrimSpace (TrimSpace s) = TrimSpace s"
  by simp

lemma HasPrefix_append [simp]: "HasPrefix (p @ s) p"
  by (simp add: HasPrefix_def)

lemma HasPrefix_iff: "HasPrefix s p \<longleftrightarrow> (\<exists>r. s = p @ r)"
  by (metis HasPrefix_append HasPrefix_def append_take_drop_id)

lemma Contains_iff: "Contains s sub \<longleftrightarrow> (\<exists>a b. s = a @ sub @ b)"
proof (induction s)
  case Nil
  show ?case by auto
next
  case (Cons c s)
  have "(\<exists>a b. c # s = a @ sub @ b) \<longleftrightarrow>
        (\<exists>b. c # s = sub @ b) \<or> (\<exists>a b. s = a @ sub @ b)"
    by (metis append_Cons append_Nil list.inject neq_Nil_conv)
  then show ?case using Cons by (simp add: HasPrefix_iff)
qed

section \<open>Instants and calendar dates\<close>

type_synonym Time = int

definition zeroTime :: Time where
  "zeroTime = -62135596800000"

definition msPerDay :: int where
  "msPerDay = 86400000"

definition msPerMinute :: int where
  "msPerMinute = 60000"

text \<open>Midnight UTC of the day an instant falls on: \<^verbatim>\<open>time.Date(y, m, d, 0, 0, 0, 0, UTC)\<close>.\<close>

definition midnight :: "Time \<Rightarrow> Time" where
  "midnight t = t div msPerDay * msPerDay"

lemma midnight_idem [simp]: "midnight (midnight t) = midnight t"
  by (simp add: midnight_def msPerDay_def)

definition isLeap :: "int \<Rightarrow> bool" where
  "isLeap y \<longleftrightarrow> y mod 4 = 0 \<and> (y mod 100 \<noteq> 0 \<or> y mod 400 = 0)"

definition daysIn :: "int \<Rightarrow> int \<Rightarrow> int" where
  "daysIn m y =
     (if m = 2 then (if isLeap y then 29 else 28)
      else if m \<in> {4, 6, 9, 11} then 30 else 31)"

text \<open>Days from the epoch to the first of a month, by counting whole years and months.\<close>

definition daysBeforeYear :: "int \<Rightarrow> int" where
  "daysBeforeYear y = (let p = y - 1 in 365 * p + p div 4 - p div 100 + p div 400)"

definition daysBeforeMonth :: "int \<Rightarrow> int \<Rightarrow> int" where
  "daysBeforeMonth m y = sum_list (map (\<lambda>k. daysIn k y) [1..m - 1])"

definition dateUTC :: "int \<Rightarrow> int \<Rightarrow> int \<Rightarrow> Time" where
  "dateUTC y m d =
     (daysBeforeYear y - daysBeforeYear 1970 + daysBeforeMonth m y + (d - 1)) * msPerDay"

definition digitVal :: "char \<Rightarrow> int" where
  "digitVal c = int (of_char c) - 48"

definition decimal :: "string \<Rightarrow> int" where
  "decimal s = foldl (\<lambda>n c. 10 * n + digitVal c) 0 s"

text \<open>\<open>ParseDate\<close> is \<^verbatim>\<open>time.Parse("2006-01-02", v)\<close>: four digits, two, two, each in range.\<close>

definition ParseDate :: "string \<Rightarrow> Time option" where
  "ParseDate v =
     (if length v = 10 \<and> v ! 4 = CHR ''-'' \<and> v ! 7 = CHR ''-''
         \<and> list_all isDigit (take 4 v @ take 2 (drop 5 v) @ drop 8 v)
      then (let y = decimal (take 4 v); m = decimal (take 2 (drop 5 v)); d = decimal (drop 8 v)
            in if 1 \<le> m \<and> m \<le> 12 \<and> 1 \<le> d \<and> d \<le> daysIn m y
               then Some (dateUTC y m d) else None)
      else None)"

lemma midnight_dateUTC [simp]: "midnight (dateUTC y m d) = dateUTC y m d"
  by (simp add: midnight_def dateUTC_def msPerDay_def)

lemma ParseDate_midnight: "ParseDate v = Some t \<Longrightarrow> midnight t = t"
  by (auto simp: ParseDate_def Let_def split: if_splits)

section \<open>Errors\<close>

text \<open>
  The sentinel errors of \<^verbatim>\<open>internal/services\<close>, \<^verbatim>\<open>internal/repository\<close> and
  \<^verbatim>\<open>internal/models\<close>. A sentinel wrapped with \<^verbatim>\<open>fmt.Errorf("%w: ...")\<close> is the
  sentinel with its text. \<open>ErrDriver\<close> is what the MongoDB driver reports.
\<close>

datatype mongo_error = DuplicateKey | MongoFault string

datatype error =
    ErrNotFound
  | ErrValidation string
  | ErrUnknownKind string
  | ErrForbidden string
  | ErrConflict string
  | RepoErrNotFound
  | RepoErrDuplicate
  | ErrPlateRequired
  | ErrDriverNameRequired
  | ErrDriverStatus
  | ErrDriver mongo_error

section \<open>Code that runs in the world and may fail\<close>

text \<open>
  \<open>('w, 'a) io\<close> is a Go function with result \<open>('a, error)\<close> running in a world of type
  \<open>'w\<close>: the database, the clock and the message channel, about which nothing is known
  but what the interfaces promise. \<open>andThen\<close> is the early return
  \<^verbatim>\<open>x, err := m(); if err != nil { return err }; ...\<close>.
\<close>

type_synonym ('w, 'a) io = "'w \<Rightarrow> (error + 'a) \<times> 'w"

definition ok :: "'a \<Rightarrow> ('w, 'a) io" where
  "ok x = (\<lambda>w. (Inr x, w))"

definition fail :: "error \<Rightarrow> ('w, 'a) io" where
  "fail e = (\<lambda>w. (Inl e, w))"

definition andThen :: "('w, 'a) io \<Rightarrow> ('a \<Rightarrow> ('w, 'b) io) \<Rightarrow> ('w, 'b) io" where
  "andThen m k = (\<lambda>w. case m w of (Inl e, w') \<Rightarrow> (Inl e, w') | (Inr x, w') \<Rightarrow> k x w')"

text \<open>\<open>onErr m f\<close> maps the error \<open>m\<close> returns; \<open>attempt m\<close> hands the error to the code that follows.\<close>

definition onErr :: "('w, 'a) io \<Rightarrow> (error \<Rightarrow> error) \<Rightarrow> ('w, 'a) io" where
  "onErr m f = (\<lambda>w. case m w of (Inl e, w') \<Rightarrow> (Inl (f e), w') | (Inr x, w') \<Rightarrow> (Inr x, w'))"

definition attempt :: "('w, 'a) io \<Rightarrow> ('w, error + 'a) io" where
  "attempt m = (\<lambda>w. case m w of (r, w') \<Rightarrow> (Inr r, w'))"

text \<open>A call that cannot fail, and one that computes without touching the world.\<close>

definition call :: "('w \<Rightarrow> 'a \<times> 'w) \<Rightarrow> ('w, 'a) io" where
  "call f = (\<lambda>w. case f w of (x, w') \<Rightarrow> (Inr x, w'))"

definition lift :: "error + 'a \<Rightarrow> ('w, 'a) io" where
  "lift r = (\<lambda>w. (r, w))"

definition unless :: "bool \<Rightarrow> error \<Rightarrow> ('w, unit) io" where
  "unless good e = (if good then ok () else fail e)"

fun forEach :: "'a list \<Rightarrow> ('a \<Rightarrow> ('w, unit) io) \<Rightarrow> ('w, unit) io" where
  "forEach [] f = ok ()"
| "forEach (x # xs) f = andThen (f x) (\<lambda>_. forEach xs f)"

declare ok_def [io_simps] fail_def [io_simps] andThen_def [io_simps] onErr_def [io_simps]
  attempt_def [io_simps] call_def [io_simps] lift_def [io_simps] unless_def [io_simps]

lemma andThen_id: "andThen m ok = m"
  by (auto simp: fun_eq_iff io_simps split: prod.splits sum.splits)

lemma andThen_ok [simp]: "andThen (ok x) k = k x"
  by (simp add: io_simps)

lemma andThen_fail [simp]: "andThen (fail e) k = fail e"
  by (simp add: io_simps)

lemma andThen_assoc: "andThen (andThen m k) h = andThen m (\<lambda>x. andThen (k x) h)"
  by (rule ext) (auto simp: io_simps split: prod.splits sum.splits)

lemma andThen_InrE:
  assumes "andThen m k w = (Inr y, w')"
  obtains x w1 where "m w = (Inr x, w1)" and "k x w1 = (Inr y, w')"
  using assms by (auto simp: andThen_def split: prod.splits sum.splits)

lemma andThen_InlE:
  assumes "andThen m k w = (Inl e, w')"
  obtains "m w = (Inl e, w')" | x w1 where "m w = (Inr x, w1)" and "k x w1 = (Inl e, w')"
  using assms by (auto simp: andThen_def split: prod.splits sum.splits)

lemma ok_eq [simp]: "ok x w = (r, w') \<longleftrightarrow> r = Inr x \<and> w' = w"
  by (auto simp: ok_def)

lemma fail_eq [simp]: "fail e w = (r, w') \<longleftrightarrow> r = Inl e \<and> w' = w"
  by (auto simp: fail_def)

lemma lift_eq [simp]: "lift x w = (r, w') \<longleftrightarrow> r = x \<and> w' = w"
  by (auto simp: lift_def)

lemma unless_Inr [simp]: "unless b e w = (Inr u, w') \<longleftrightarrow> b \<and> w' = w"
  by (auto simp: unless_def)

lemma unless_Inl [simp]: "unless b e w = (Inl e', w') \<longleftrightarrow> \<not> b \<and> e' = e \<and> w' = w"
  by (auto simp: unless_def)

lemma onErr_Inr [simp]: "onErr m f w = (Inr x, w') \<longleftrightarrow> m w = (Inr x, w')"
  by (auto simp: onErr_def split: prod.splits sum.splits)

lemma attempt_eq [simp]: "attempt m w = (r, w') \<longleftrightarrow> (\<exists>x. m w = (x, w') \<and> r = Inr x)"
  by (auto simp: attempt_def split: prod.splits)

lemma call_eq [simp]: "call f w = (r, w') \<longleftrightarrow> (\<exists>x. f w = (x, w') \<and> r = Inr x)"
  by (auto simp: call_def split: prod.splits)

subsection \<open>Hoare triples\<close>

text \<open>
  \<open>triple P m Q E\<close>: run from a world satisfying \<open>P\<close>, \<open>m\<close> either returns some \<open>x\<close> in
  a world satisfying \<open>Q x\<close> or returns an error in a world satisfying \<open>E\<close>. Operations are total
  functions, so every run ends in one of the two.
\<close>

definition triple ::
  "('w \<Rightarrow> bool) \<Rightarrow> ('w, 'a) io \<Rightarrow> ('a \<Rightarrow> 'w \<Rightarrow> bool) \<Rightarrow> ('w \<Rightarrow> bool) \<Rightarrow> bool" where
  "triple P m Q E \<longleftrightarrow>
     (\<forall>w. P w \<longrightarrow> (case m w of (Inl e, w') \<Rightarrow> E w' | (Inr x, w') \<Rightarrow> Q x w'))"

lemma tripleI:
  assumes "\<And>w x w'. P w \<Longrightarrow> m w = (Inr x, w') \<Longrightarrow> Q x w'"
    and "\<And>w e w'. P w \<Longrightarrow> m w = (Inl e, w') \<Longrightarrow> E w'"
  shows "triple P m Q E"
  using assms by (auto simp: triple_def split: prod.splits sum.splits)

lemma triple_InrD: "triple P m Q E \<Longrightarrow> P w \<Longrightarrow> m w = (Inr x, w') \<Longrightarrow> Q x w'"
  by (fastforce simp: triple_def)

lemma triple_InlD: "triple P m Q E \<Longrightarrow> P w \<Longrightarrow> m w = (Inl e, w') \<Longrightarrow> E w'"
  by (fastforce simp: triple_def)

lemma triple_worldD:
  "triple P m (\<lambda>_. I) I \<Longrightarrow> P w \<Longrightarrow> m w = (r, w') \<Longrightarrow> I w'"
  by (cases r) (auto dest: triple_InrD triple_InlD)

lemma triple_conseq:
  assumes "triple P' m Q' E'"
    and "\<And>w. P w \<Longrightarrow> P' w"
    and "\<And>x w. Q' x w \<Longrightarrow> Q x w"
    and "\<And>w. E' w \<Longrightarrow> E w"
  shows "triple P m Q E"
  by (rule tripleI) (blast intro: assms(2-4) triple_InrD [OF assms(1)] triple_InlD [OF assms(1)])+

lemma triple_pre: "triple P' m Q E \<Longrightarrow> (\<And>w. P w \<Longrightarrow> P' w) \<Longrightarrow> triple P m Q E"
  by (erule triple_conseq)

lemma triple_post: "triple P m Q' E \<Longrightarrow> (\<And>x w. Q' x w \<Longrightarrow> Q x w) \<Longrightarrow> triple P m Q E"
  by (erule triple_conseq)

lemma triple_ok: "(\<And>w. P w \<Longrightarrow> Q x w) \<Longrightarrow> triple P (ok x) Q E"
  by (simp add: triple_def ok_def)

lemma triple_fail: "(\<And>w. P w \<Longrightarrow> E w) \<Longrightarrow> triple P (fail e) Q E"
  by (simp add: triple_def fail_def)

lemma triple_andThen:
  assumes "triple P m Q' E" and "\<And>x. triple (Q' x) (k x) Q E"
  shows "triple P (andThen m k) Q E"
proof (rule tripleI)
  fix w y w' assume P: "P w" and "andThen m k w = (Inr y, w')"
  then obtain x w1 where "m w = (Inr x, w1)" "k x w1 = (Inr y, w')"
    by (auto elim: andThen_InrE)
  then show "Q y w'"
    by (rule triple_InrD [OF assms(2) triple_InrD [OF assms(1) P]])
next
  fix w e w' assume P: "P w" and "andThen m k w = (Inl e, w')"
  then consider "m w = (Inl e, w')" | x w1 where "m w = (Inr x, w1)" "k x w1 = (Inl e, w')"
    by (auto elim: andThen_InlE)
  then show "E w'"
  proof cases
    case 1
    with P show ?thesis by (rule triple_InlD [OF assms(1)])
  next
    case 2
    show ?thesis
      by (rule triple_InlD [OF assms(2) triple_InrD [OF assms(1) P 2(1)] 2(2)])
  qed
qed

lemma triple_onErr: "triple P m Q E \<Longrightarrow> triple P (onErr m f) Q E"
  by (force simp: triple_def onErr_def split: prod.splits sum.splits)

lemma triple_lift:
  assumes "\<And>w x. P w \<Longrightarrow> r = Inr x \<Longrightarrow> Q x w" and "\<And>w. P w \<Longrightarrow> E w"
  shows "triple P (lift r) Q E"
  using assms by (cases r) (auto simp: triple_def lift_def)

lemma triple_unless:
  assumes "\<And>w. P w \<Longrightarrow> b \<Longrightarrow> Q () w" and "\<And>w. P w \<Longrightarrow> E w"
  shows "triple P (unless b e) Q E"
  using assms by (auto simp: triple_def unless_def ok_def fail_def)

lemma triple_attempt:
  assumes "triple P m (\<lambda>x. Q (Inr x)) (\<lambda>w. \<forall>e. Q (Inl e) w)"
  shows "triple P (attempt m) Q E"
proof (rule tripleI)
  fix w r w' assume P: "P w" and "attempt m w = (Inr r, w')"
  then have "m w = (r, w')" by simp
  then show "Q r w'"
    by (cases r) (auto dest: triple_InrD [OF assms P] triple_InlD [OF assms P])
qed simp

lemma triple_if:
  assumes "b \<Longrightarrow> triple P m Q E" and "\<not> b \<Longrightarrow> triple P n Q E"
  shows "triple P (if b then m else n) Q E"
  using assms by simp

lemma triple_forEach:
  assumes "\<And>x. x \<in> set xs \<Longrightarrow> triple I (f x) (\<lambda>_. I) I"
  shows "triple I (forEach xs f) (\<lambda>_. I) I"
  using assms
  by (induction xs) (auto intro!: triple_ok triple_andThen)

lemma triple_pre_pure:
  assumes "b \<Longrightarrow> triple P m Q E"
  shows "triple (\<lambda>w. b \<and> P w) m Q E"
  using assms by (auto simp: triple_def)

section \<open>Maps\<close>

text \<open>A Go map filled in a loop: a later entry for a key replaces an earlier one.\<close>

definition lastWins :: "('k \<times> 'a) list \<Rightarrow> 'k \<rightharpoonup> 'a" where
  "lastWins kvs = fold (\<lambda>(k, x) m. m(k \<mapsto> x)) kvs Map.empty"

lemma lastWins_Some: "lastWins kvs k = Some x \<Longrightarrow> (k, x) \<in> set kvs"
proof -
  have "fold (\<lambda>(k, x) m. m(k \<mapsto> x)) kvs m k = Some x \<Longrightarrow> m k = Some x \<or> (k, x) \<in> set kvs" for m
  proof (induction kvs arbitrary: m)
    case (Cons kv kvs)
    obtain a b where "kv = (a, b)" by force
    with Cons.prems Cons.IH [of "m(a \<mapsto> b)"] show ?case by (auto split: if_splits)
  qed simp
  then show "lastWins kvs k = Some x \<Longrightarrow> (k, x) \<in> set kvs" by (auto simp: lastWins_def)
qed

text \<open>
  \<open>modify S p f m\<close> applies \<open>f\<close> to the documents of the collection \<open>m\<close> that match \<open>p\<close> and
  whose id is in \<open>S\<close>; \<open>S = UNIV\<close> is a completed update, a smaller \<open>S\<close> one that
  stopped part-way.
\<close>

definition modify ::
  "'k set \<Rightarrow> ('d \<Rightarrow> bool) \<Rightarrow> ('d \<Rightarrow> 'd) \<Rightarrow> ('k \<rightharpoonup> 'd) \<Rightarrow> ('k \<rightharpoonup> 'd)" where
  "modify S p f m = (\<lambda>i. map_option (\<lambda>d. if i \<in> S \<and> p d then f d else d) (m i))"

lemma modify_Some:
  "modify S p f m i = Some d \<longleftrightarrow>
     (\<exists>d0. m i = Some d0 \<and> d = (if i \<in> S \<and> p d0 then f d0 else d0))"
  by (cases "m i") (auto simp add: modify_def)

lemma modify_None [simp]: "modify S p f m i = None \<longleftrightarrow> m i = None"
  by (simp add: modify_def)

lemma dom_modify [simp]: "dom (modify S p f m) = dom m"
  by (auto simp: modify_def dom_def)

lemma modify_nomatch: "(\<And>i d. m i = Some d \<Longrightarrow> \<not> p d) \<Longrightarrow> modify S p f m = m"
  by (rule ext) (auto simp: modify_def map_option_case split: option.splits)

text \<open>\<open>only p m\<close> is the part of a collection whose documents satisfy \<open>p\<close>.\<close>

definition only :: "('d \<Rightarrow> bool) \<Rightarrow> ('k \<rightharpoonup> 'd) \<Rightarrow> ('k \<rightharpoonup> 'd)" where
  "only p m = (\<lambda>i. case m i of Some d \<Rightarrow> if p d then Some d else None | None \<Rightarrow> None)"

lemma only_Some [simp]: "only p m i = Some d \<longleftrightarrow> m i = Some d \<and> p d"
  by (auto simp: only_def split: option.splits)

lemma only_upd [simp]:
  "only p (m(i \<mapsto> d)) = (if p d then (only p m)(i \<mapsto> d) else (only p m)(i := None))"
  by (auto simp: only_def fun_eq_iff)

lemma only_modify:
  assumes "\<And>d. p d \<Longrightarrow> q d \<Longrightarrow> False"
    and "\<And>d. q d \<Longrightarrow> p (f d) = p d"
  shows "only p (modify S q f m) = only p m"
  using assms by (auto simp: only_def modify_def fun_eq_iff split: option.splits)

end
