(* ===== verification/Normalise.thy ===== *)
theory Normalise
  imports Prelude
begin

text \<open>
  \<^verbatim>\<open>internal/platform/normalise\<close> and the search escaping of
  \<^verbatim>\<open>internal/services/helpers.go\<close>: the folded forms every unique index of the schema is
  built on. \<open>Words\<close> is the abstract reading of a name; \<open>Name_words\<close> shows
  that two names fold alike exactly when they are the same words up to case.
\<close>

section \<open>The folding functions\<close>

definition isAlnum :: "char \<Rightarrow> bool" where
  "isAlnum c \<longleftrightarrow> isUpper c \<or> isLower c \<or> isDigit c"

text \<open>The class \<^verbatim>\<open>\s\<close> of Go's regular expressions; it lacks the vertical tab \<open>isSpace\<close> has.\<close>

definition reSpace :: "char \<Rightarrow> bool" where
  "reSpace c \<longleftrightarrow> c \<in> {CHR '' '', CHR 0x09, CHR 0x0A, CHR 0x0C, CHR 0x0D}"

definition removeNonAlphanumeric :: "string \<Rightarrow> string" where
  "removeNonAlphanumeric v = filter isAlnum v"

definition removeNonDigits :: "string \<Rightarrow> string" where
  "removeNonDigits v = filter isDigit v"

text \<open>Every maximal run of white space becomes one blank.\<close>

fun collapseSpace :: "string \<Rightarrow> string" where
  "collapseSpace [] = []"
| "collapseSpace (c # s) =
     (if reSpace c
      then (if s \<noteq> [] \<and> reSpace (hd s) then collapseSpace s else CHR '' '' # collapseSpace s)
      else c # collapseSpace s)"

definition Plate :: "string \<Rightarrow> string" where
  "Plate v = ToUpper (removeNonAlphanumeric v)"

definition Serial :: "string \<Rightarrow> string" where
  "Serial v = Plate v"

definition IMEI :: "string \<Rightarrow> string" where
  "IMEI v = removeNonDigits v"

definition ICCID :: "string \<Rightarrow> string" where
  "ICCID v = removeNonDigits v"

definition Name :: "string \<Rightarrow> string" where
  "Name v = ToLower (collapseSpace (TrimSpace v))"

definition Code :: "string \<Rightarrow> string" where
  "Code v = Plate v"

definition ChannelKey :: "string option \<Rightarrow> string" where
  "ChannelKey channel = (case channel of None \<Rightarrow> [] | Some c \<Rightarrow> ToUpper (TrimSpace c))"

definition Optional :: "(string \<Rightarrow> string) \<Rightarrow> string option \<Rightarrow> string option" where
  "Optional fn v =
     (case v of None \<Rightarrow> None
      | Some x \<Rightarrow>
          if TrimSpace x = [] then None
          else (let out = fn x in if out = [] then None else Some out))"

text \<open>\<^verbatim>\<open>escapeRegex\<close>: a backslash before each character that is special in an expression.\<close>

definition regexSpecial :: "char \<Rightarrow> bool" where
  "regexSpecial c \<longleftrightarrow> c \<in> set ''.*+?()[]{}|^$'' \<or> c = CHR 0x5C"

definition escapeRegex :: "string \<Rightarrow> string" where
  "escapeRegex s = concat (map (\<lambda>c. if regexSpecial c then [CHR 0x5C, c] else [c]) s)"

section \<open>Plates, serials and device numbers\<close>

lemma isAlnum_upperChar [simp]: "isAlnum (upperChar c) = isAlnum c"
  by (auto simp: isAlnum_def upperChar_def isLower_def isUpper_def)

lemma upperChar_lowerChar [simp]: "upperChar (lowerChar c) = upperChar c"
  by (auto simp: upperChar_def lowerChar_def isLower_def isUpper_def)

lemma isAlnum_lowerChar [simp]: "isAlnum (lowerChar c) = isAlnum c"
  by (auto simp: isAlnum_def lowerChar_def isLower_def isUpper_def)

lemma Plate_append [simp]: "Plate (s @ t) = Plate s @ Plate t"
  by (simp add: Plate_def removeNonAlphanumeric_def)

lemma Plate_Nil [simp]: "Plate [] = []"
  by (simp add: Plate_def removeNonAlphanumeric_def ToUpper_def)

lemma filter_map_alnum: "filter isAlnum (map upperChar s) = map upperChar (filter isAlnum s)"
  by (induction s) auto

lemma Plate_Plate [simp]: "Plate (Plate v) = Plate v"
  by (simp add: Plate_def removeNonAlphanumeric_def ToUpper_def filter_map_alnum)

lemma Plate_ToLower: "Plate (ToLower v) = Plate v"
  by (induction v) (auto simp: Plate_def removeNonAlphanumeric_def ToUpper_def ToLower_def)

lemma Plate_separators: "(\<And>c. c \<in> set sep \<Longrightarrow> \<not> isAlnum c) \<Longrightarrow> Plate sep = []"
  by (auto simp: Plate_def removeNonAlphanumeric_def ToUpper_def filter_empty_conv)

lemma Plate_eq_Nil: "Plate v = [] \<longleftrightarrow> (\<forall>c \<in> set v. \<not> isAlnum c)"
  by (auto simp: Plate_def removeNonAlphanumeric_def ToUpper_def filter_empty_conv)

lemma IMEI_IMEI [simp]: "IMEI (IMEI v) = IMEI v"
  by (simp add: IMEI_def removeNonDigits_def)

lemma IMEI_digits: "list_all isDigit (IMEI v)"
  by (simp add: IMEI_def removeNonDigits_def list_all_iff)

lemma isDigit_not_space: "isDigit c \<Longrightarrow> \<not> isSpace c"
  by (auto simp: isSpace_code isDigit_def)

lemma TrimSpace_eq_Nil: "TrimSpace s = [] \<longleftrightarrow> (\<forall>c \<in> set s. isSpace c)"
  by (metis TrimSpace_def dropWhile_eq_Nil_conv dropWhile.simps(1) rev.simps(1) rev_is_Nil_conv
      set_rev hd_dropWhile hd_in_set)

section \<open>Optional fields\<close>

lemma Optional_None [simp]: "Optional fn None = None"
  by (simp add: Optional_def)

lemma Optional_not_empty: "Optional fn v = Some x \<Longrightarrow> x \<noteq> []"
  by (auto simp: Optional_def Let_def split: option.splits if_splits)

lemma Optional_Some: "Optional fn v = Some x \<Longrightarrow> \<exists>y. v = Some y \<and> x = fn y"
  by (auto simp: Optional_def Let_def split: option.splits if_splits)

lemma Optional_idem:
  assumes "\<And>x. fn (fn x) = fn x"
    and "\<And>x. fn x \<noteq> [] \<Longrightarrow> TrimSpace (fn x) \<noteq> []"
  shows "Optional fn (Optional fn v) = Optional fn v"
  using assms by (auto simp: Optional_def Let_def split: option.splits)

lemma Optional_TrimSpace_idem [simp]:
  "Optional TrimSpace (Optional TrimSpace v) = Optional TrimSpace v"
  by (rule Optional_idem) auto

lemma isAlnum_not_space: "isAlnum c \<Longrightarrow> \<not> isSpace c"
  by (auto simp: isSpace_code isAlnum_def isUpper_def isLower_def isDigit_def)

lemma Plate_alnum: "c \<in> set (Plate v) \<Longrightarrow> isAlnum c"
  by (auto simp: Plate_def removeNonAlphanumeric_def ToUpper_def)

lemma Optional_Serial_idem [simp]: "Optional Serial (Optional Serial v) = Optional Serial v"
proof (rule Optional_idem)
  show "Serial (Serial x) = Serial x" for x by (simp add: Serial_def)
  show "TrimSpace (Serial x) \<noteq> []" if "Serial x \<noteq> []" for x
    using that Plate_alnum [of _ x] isAlnum_not_space
    by (auto simp: Serial_def TrimSpace_eq_Nil neq_Nil_conv)
qed

section \<open>Names\<close>

lemma reSpace_isSpace: "reSpace c \<Longrightarrow> isSpace c"
  by (auto simp: reSpace_def isSpace_def)

lemma reSpace_code: "reSpace c \<longleftrightarrow> (of_char c :: nat) \<in> {32, 9, 10, 12, 13}"
proof -
  have "reSpace c \<longleftrightarrow>
      (of_char c :: nat) \<in> of_char ` {CHR '' '', CHR 0x09, CHR 0x0A, CHR 0x0C, CHR 0x0D}"
    by (simp only: reSpace_def inj_image_mem_iff [OF inj_of_char])
  then show ?thesis by simp
qed

lemma reSpace_lowerChar [simp]: "reSpace (lowerChar c) = reSpace c"
  by (auto simp: reSpace_code of_char_lowerChar isUpper_def)

lemma lowerChar_space: "reSpace c \<Longrightarrow> lowerChar c = c"
  by (auto simp: reSpace_code lowerChar_def isUpper_def)

text \<open>The words of a text, and the text written with one blank between them.\<close>

fun Words :: "string \<Rightarrow> string list" where
  "Words [] = []"
| "Words (c # s) =
     (if reSpace c then Words s
      else (case Words s of
              [] \<Rightarrow> [[c]]
            | w # ws \<Rightarrow> if s \<noteq> [] \<and> reSpace (hd s) then [c] # w # ws else (c # w) # ws))"

definition properWords :: "string list \<Rightarrow> bool" where
  "properWords ws \<longleftrightarrow> (\<forall>w \<in> set ws. w \<noteq> [] \<and> (\<forall>c \<in> set w. \<not> reSpace c))"

lemma properWords_Words: "properWords (Words s)"
  by (induction s) (auto simp: properWords_def split: list.splits)

lemma Words_eq_Nil: "Words s = [] \<longleftrightarrow> (\<forall>c \<in> set s. reSpace c)"
  by (induction s) (auto split: list.splits)

lemma collapse_Words:
  "s \<noteq> [] \<Longrightarrow> \<not> reSpace (last s) \<Longrightarrow>
     collapseSpace s = (if reSpace (hd s) then CHR '' '' # Join (Words s) '' '' else Join (Words s) '' '')"
proof (induction s)
  case Nil
  then show ?case by simp
next
  case (Cons c s)
  show ?case
  proof (cases "s = []")
    case True
    with Cons.prems show ?thesis by simp
  next
    case False
    then have IH: "collapseSpace s =
        (if reSpace (hd s) then CHR '' '' # Join (Words s) '' '' else Join (Words s) '' '')"
      using Cons by simp
    obtain w ws where w: "Words s = w # ws"
      using False Cons.prems by (metis Words_eq_Nil last.simps last_in_set neq_Nil_conv)
    show ?thesis using False IH w by (cases ws) auto
  qed
qed

lemma Words_Join:
  "properWords ws \<Longrightarrow> Words (Join ws '' '') = ws"
proof (induction ws rule: induct_list012)
  case (2 x)
  then have "x \<noteq> []" "\<forall>c \<in> set x. \<not> reSpace c" by (auto simp: properWords_def)
  then show ?case by simp (induction x rule: list_nonempty_induct; simp)
next
  case (3 x y xs)
  then have IH: "Words (Join (y # xs) '' '') = y # xs"
    and x: "x \<noteq> []" "\<forall>c \<in> set x. \<not> reSpace c" by (auto simp: properWords_def)
  from x show ?case
  proof (induction x)
    case (Cons c x)
    then show ?case using IH by (cases x) (auto simp: reSpace_def)
  qed simp
qed simp

lemma collapse_trimmed:
  assumes "trimmed s" shows "collapseSpace s = Join (Words s) '' ''"
proof (cases "s = []")
  case False
  then have "\<not> reSpace (hd s)" "\<not> reSpace (last s)"
    using assms reSpace_isSpace by (auto simp: trimmed_def)
  then show ?thesis using False by (simp add: collapse_Words)
qed simp

lemma ToLower_collapse: "ToLower (collapseSpace s) = collapseSpace (ToLower s)"
  by (induction s) (auto simp: ToLower_def hd_map, auto simp: lowerChar_def isUpper_def)

lemma trimmed_ToLower [simp]: "trimmed (ToLower s) = trimmed s"
  by (simp add: trimmed_def ToLower_def hd_map last_map)

lemma TrimSpace_ToLower: "TrimSpace (ToLower s) = ToLower (TrimSpace s)"
proof -
  have "isSpace \<circ> lowerChar = isSpace" by auto
  then show ?thesis by (simp add: TrimSpace_def ToLower_def dropWhile_map rev_map)
qed

lemma Name_as_words: "Name v = Join (Words (ToLower (TrimSpace v))) '' ''"
  by (simp only: Name_def ToLower_collapse) (rule collapse_trimmed, simp)

lemma Words_Name: "Words (Name v) = Words (ToLower (TrimSpace v))"
  by (simp add: Name_as_words Words_Join properWords_Words)

lemma Name_words: "Name a = Name b \<longleftrightarrow> Words (ToLower (TrimSpace a)) = Words (ToLower (TrimSpace b))"
  by (metis Name_as_words Words_Name)

lemma hd_collapse: "s \<noteq> [] \<Longrightarrow> \<not> reSpace (hd s) \<Longrightarrow> hd (collapseSpace s) = hd s"
  by (cases s) auto

lemma collapse_eq_Nil [simp]: "collapseSpace s = [] \<longleftrightarrow> s = []"
  by (induction s) auto

lemma last_collapse: "s \<noteq> [] \<Longrightarrow> \<not> reSpace (last s) \<Longrightarrow> last (collapseSpace s) = last s"
  by (induction s) auto

lemma trimmed_Name: "trimmed (Name v)"
proof (cases "TrimSpace v = []")
  case True
  then show ?thesis by (simp add: Name_def ToLower_def trimmed_def)
next
  case False
  let ?t = "TrimSpace v"
  have ends: "\<not> isSpace (hd ?t)" "\<not> isSpace (last ?t)"
    using trimmed_TrimSpace [of v] False by (simp_all add: trimmed_def)
  then have "\<not> reSpace (hd ?t)" "\<not> reSpace (last ?t)" using reSpace_isSpace by blast+
  then have "trimmed (collapseSpace ?t)"
    using False ends by (simp add: trimmed_def hd_collapse last_collapse)
  then show ?thesis by (simp add: Name_def)
qed

lemma ToLower_Name [simp]: "ToLower (Name v) = Name v"
  by (simp add: Name_def)

lemma Name_Name [simp]: "Name (Name v) = Name v"
  by (simp add: Name_words trimmed_Name Words_Name)

lemma Name_ToLower: "Name (ToLower v) = Name v"
  by (simp add: Name_words TrimSpace_ToLower)

lemma Name_TrimSpace [simp]: "Name (TrimSpace v) = Name v"
  by (simp add: Name_def)

section \<open>Search patterns\<close>

text \<open>
  What a regular expression without operators spells, as the manual of PCRE, the engine of the
  database, has it: a character that is not one of the metacharacters stands for itself, and a
  backslash takes any special meaning from the character after it, unless that is a letter or a
  digit. The list of metacharacters is the manual's, not the service's.
\<close>

definition pcreMeta :: "char \<Rightarrow> bool" where
  "pcreMeta c \<longleftrightarrow> c \<in> set ''^$.[|()?*+{'' \<or> c = CHR 0x5C"

inductive spells :: "string \<Rightarrow> string \<Rightarrow> bool" where
  spells_end: "spells [] []"
| spells_char: "\<not> pcreMeta c \<Longrightarrow> spells pat l \<Longrightarrow> spells (c # pat) (c # l)"
| spells_escape: "\<not> isAlnum c \<Longrightarrow> spells pat l \<Longrightarrow> spells (CHR 0x5C # c # pat) (c # l)"

lemma spells_escapeRegex: "spells (escapeRegex s) s"
proof (induction s)
  case Nil
  show ?case by (simp add: escapeRegex_def spells_end)
next
  case (Cons c s)
  have meta: "\<not> isAlnum c" if "regexSpecial c"
    using that by (auto simp: regexSpecial_def isAlnum_def isUpper_def isLower_def isDigit_def)
  have plain: "\<not> pcreMeta c" if "\<not> regexSpecial c"
    using that by (auto simp: regexSpecial_def pcreMeta_def)
  have "escapeRegex (c # s) = (if regexSpecial c then [CHR 0x5C, c] else [c]) @ escapeRegex s"
    by (simp add: escapeRegex_def)
  then show ?case using spells_escape [OF meta Cons.IH] spells_char [OF plain Cons.IH] by simp
qed

lemma escapeRegex_chars: "c \<in> set (escapeRegex s) \<Longrightarrow> c = CHR 0x5C \<or> c \<in> set s"
  by (auto simp: escapeRegex_def split: if_splits)

end
