(* ===== verification/Query.thy ===== *)
theory Query
  imports Normalise "HOL-Library.Signed_Division" "HOL-Library.List_Lexorder" "HOL-Library.Char_ord"
begin

text \<open>
  \<^verbatim>\<open>internal/platform/query\<close> and \<^verbatim>\<open>internal/platform/safeconv\<close>: how a listing
  request is read. Page numbers and sizes are Go \<^verbatim>\<open>int\<close>s, kept as \<open>int\<close> with the
  64-bit wrap written out. A JSON text is represented by what it denotes: absent, not JSON, or
  a value; a number is the decimal text \<^verbatim>\<open>strconv.FormatFloat(t, 'f', -1, 64)\<close> gives for
  it. A \<^verbatim>\<open>FieldSet\<close> is its list of pairs.
\<close>

section \<open>Bounded conversions\<close>

definition MaxInt32 :: int where "MaxInt32 = 2147483647"
definition MinInt32 :: int where "MinInt32 = - 2147483648"
definition MaxInt64 :: int where "MaxInt64 = 9223372036854775807"
definition MinInt64 :: int where "MinInt64 = - 9223372036854775808"

text \<open>The value a 64-bit signed register holds after an operation with result \<open>x\<close>.\<close>

definition int64 :: "int \<Rightarrow> int" where
  "int64 x = (x + 9223372036854775808) mod 18446744073709551616 - 9223372036854775808"

definition Int32 :: "int \<Rightarrow> int" where
  "Int32 v = (if v > MaxInt32 then MaxInt32 else if v < MinInt32 then MinInt32 else v)"

definition Int32From64 :: "int \<Rightarrow> int" where
  "Int32From64 v = (if v > MaxInt32 then MaxInt32 else if v < MinInt32 then MinInt32 else v)"

definition NonNegativeInt32 :: "int \<Rightarrow> int" where
  "NonNegativeInt32 v = (if v < 0 then 0 else Int32 v)"

definition Digit :: "int \<Rightarrow> char" where
  "Digit v = (let v = (if v < 0 then 0 else v); v = (if v > 9 then 9 else v)
              in char_of (nat (48 + v)))"

lemma int64_id: "MinInt64 \<le> x \<Longrightarrow> x \<le> MaxInt64 \<Longrightarrow> int64 x = x"
  by (simp add: int64_def MinInt64_def MaxInt64_def)

lemma int64_range: "MinInt64 \<le> int64 x \<and> int64 x \<le> MaxInt64"
proof -
  have "0 \<le> (x + 9223372036854775808) mod 18446744073709551616"
    and "(x + 9223372036854775808) mod 18446744073709551616 < 18446744073709551616"
    by (rule pos_mod_sign, simp) (rule pos_mod_bound, simp)
  then show ?thesis by (simp add: int64_def MinInt64_def MaxInt64_def)
qed

lemma NonNegativeInt32_range: "0 \<le> NonNegativeInt32 v \<and> NonNegativeInt32 v \<le> MaxInt32"
  by (simp add: NonNegativeInt32_def Int32_def MaxInt32_def MinInt32_def)

lemma NonNegativeInt32_id: "0 \<le> v \<Longrightarrow> v \<le> MaxInt32 \<Longrightarrow> NonNegativeInt32 v = v"
  by (simp add: NonNegativeInt32_def Int32_def MinInt32_def)

lemma Digit_isDigit: "isDigit (Digit v)"
proof -
  define u where "u = (if v < 0 then 0 else if v > 9 then 9 else v)"
  have "0 \<le> u" "u \<le> 9" by (auto simp: u_def)
  then have "(of_char (char_of (nat (48 + u)) :: char) :: nat) = nat (48 + u)"
    by simp
  moreover have "Digit v = char_of (nat (48 + u))"
    by (simp add: Digit_def u_def Let_def)
  ultimately show ?thesis using \<open>0 \<le> u\<close> \<open>u \<le> 9\<close> by (simp add: isDigit_def le_nat_iff nat_le_iff)
qed

section \<open>Reading an integer\<close>

text \<open>
  \<open>Atoi\<close> is \<^verbatim>\<open>strconv.Atoi\<close>: the value and whether it succeeded. A number out of range
  is reported as an error together with the nearest representable value. The digits are read from
  the left: the text is refused at the first character that is none, and is out of range, whatever
  follows, at the first digit that takes the value beyond 64 bits.
\<close>

definition MaxUint64 :: int where "MaxUint64 = 18446744073709551615"

fun ParseUint :: "int \<Rightarrow> string \<Rightarrow> int option" where
  "ParseUint n [] = Some n"
| "ParseUint n (c # s) =
     (if \<not> isDigit c then None
      else (let n1 = 10 * n + digitVal c in if n1 > MaxUint64 then Some MaxUint64 else ParseUint n1 s))"

definition Atoi :: "string \<Rightarrow> int \<times> bool" where
  "Atoi s =
     (let neg = (s \<noteq> [] \<and> hd s = CHR ''-'');
          ds = (if s \<noteq> [] \<and> (hd s = CHR ''-'' \<or> hd s = CHR ''+'') then tl s else s)
      in if ds = [] then (0, False)
         else (case ParseUint 0 ds of
                 None \<Rightarrow> (0, False)
               | Some un \<Rightarrow>
                   if \<not> neg \<and> un > MaxInt64 then (MaxInt64, False)
                   else if neg \<and> un > - MinInt64 then (MinInt64, False)
                   else (if neg then - un else un, True)))"

section \<open>Listing parameters\<close>

datatype Operator =
    OpEq | OpNeq | OpLike | OpIn | OpGt | OpGte | OpLt | OpLte | OpBetween | opUnknown

record Filter =
  Field :: string
  Value :: string
  Operator :: Operator
  Values :: "string list"

record Sort =
  Field :: string
  Desc :: bool

datatype query_error =
    MalformedFilters
  | FilterFieldNotAllowed string "string list"
  | UnknownOperator string string
  | EmptyIn string
  | MalformedSorts
  | SortFieldNotAllowed string "string list"

record Params =
  Err :: "query_error option"
  Page :: int
  PageSize :: int
  Filters :: "Filter list"
  Sorts :: "Sort list"
  Search :: string

definition MaxPageSize :: int where "MaxPageSize = 200"
definition DefaultPageSize :: int where "DefaultPageSize = 20"

definition Offset :: "Params \<Rightarrow> int" where
  "Offset p = (if Page p < 1 then 0 else int64 (Page p * PageSize p))"

definition TotalPages :: "Params \<Rightarrow> int \<Rightarrow> int" where
  "TotalPages p totalRows =
     (if PageSize p \<le> 0 then 0
      else (let pages = totalRows sdiv PageSize p
            in if totalRows smod PageSize p \<noteq> 0 then int64 (pages + 1) else pages))"

type_synonym FieldSet = "(string \<times> string) list"

definition Resolve :: "FieldSet \<Rightarrow> string \<Rightarrow> string option" where
  "Resolve f name = map_of f name"

definition Names :: "FieldSet \<Rightarrow> string list" where
  "Names f = sort (map fst f)"

section \<open>Filters and sorts from JSON\<close>

datatype jval =
    JNull
  | JBool bool
  | JNum string
  | JStr string
  | JArr "jval list"
  | JObj "(string \<times> jval) list"

datatype jtext = NoText | NotJson | Json jval

record rawFilter =
  ID :: string
  Value :: "string list"
  Operator :: string
  Type :: string

record rawSort =
  ID :: string
  Desc :: bool

definition boolText :: "bool \<Rightarrow> string" where
  "boolText b = (if b then ''true'' else ''false'')"

text \<open>
  \<^verbatim>\<open>filterValue.UnmarshalJSON\<close>: a scalar is one value; an array adds its scalar elements
  to the values already there; an object is refused.
\<close>

fun scalarText :: "jval \<Rightarrow> string list" where
  "scalarText (JStr t) = [t]"
| "scalarText (JNum t) = [t]"
| "scalarText (JBool b) = [boolText b]"
| "scalarText _ = []"

fun unmarshalValue :: "string list \<Rightarrow> jval \<Rightarrow> string list option" where
  "unmarshalValue vs (JStr t) = Some [t]"
| "unmarshalValue vs (JNum t) = Some [t]"
| "unmarshalValue vs (JBool b) = Some [boolText b]"
| "unmarshalValue vs JNull = Some []"
| "unmarshalValue vs (JArr items) = Some (vs @ concat (map scalarText items))"
| "unmarshalValue vs (JObj _) = None"

text \<open>A string or boolean field: \<^verbatim>\<open>null\<close> leaves it as it is, another kind is an error.\<close>

fun unmarshalString :: "string \<Rightarrow> jval \<Rightarrow> string option" where
  "unmarshalString old (JStr t) = Some t"
| "unmarshalString old JNull = Some old"
| "unmarshalString old _ = None"

fun unmarshalBool :: "bool \<Rightarrow> jval \<Rightarrow> bool option" where
  "unmarshalBool old (JBool b) = Some b"
| "unmarshalBool old JNull = Some old"
| "unmarshalBool old _ = None"

text \<open>Keys are matched without regard to case; one that names no field is skipped.\<close>

fun unmarshalFilterMembers :: "rawFilter \<Rightarrow> (string \<times> jval) list \<Rightarrow> rawFilter option" where
  "unmarshalFilterMembers r [] = Some r"
| "unmarshalFilterMembers r ((k, v) # ms) =
     (let key = ToLower k;
          r' = (if key = ''id'' then map_option (\<lambda>t. r\<lparr>rawFilter.ID := t\<rparr>) (unmarshalString (rawFilter.ID r) v)
                else if key = ''value'' then map_option (\<lambda>vs. r\<lparr>rawFilter.Value := vs\<rparr>) (unmarshalValue (rawFilter.Value r) v)
                else if key = ''operator'' then map_option (\<lambda>t. r\<lparr>rawFilter.Operator := t\<rparr>) (unmarshalString (rawFilter.Operator r) v)
                else if key = ''type'' then map_option (\<lambda>t. r\<lparr>rawFilter.Type := t\<rparr>) (unmarshalString (rawFilter.Type r) v)
                else Some r)
      in case r' of None \<Rightarrow> None | Some r' \<Rightarrow> unmarshalFilterMembers r' ms)"

definition emptyRawFilter :: rawFilter where
  "emptyRawFilter = \<lparr>rawFilter.ID = [], Value = [], Operator = [], Type = []\<rparr>"

fun unmarshalRawFilter :: "jval \<Rightarrow> rawFilter option" where
  "unmarshalRawFilter (JObj ms) = unmarshalFilterMembers emptyRawFilter ms"
| "unmarshalRawFilter JNull = Some emptyRawFilter"
| "unmarshalRawFilter _ = None"

fun unmarshalSortMembers :: "rawSort \<Rightarrow> (string \<times> jval) list \<Rightarrow> rawSort option" where
  "unmarshalSortMembers r [] = Some r"
| "unmarshalSortMembers r ((k, v) # ms) =
     (let key = ToLower k;
          r' = (if key = ''id'' then map_option (\<lambda>t. r\<lparr>rawSort.ID := t\<rparr>) (unmarshalString (rawSort.ID r) v)
                else if key = ''desc'' then map_option (\<lambda>b. r\<lparr>rawSort.Desc := b\<rparr>) (unmarshalBool (rawSort.Desc r) v)
                else Some r)
      in case r' of None \<Rightarrow> None | Some r' \<Rightarrow> unmarshalSortMembers r' ms)"

definition emptyRawSort :: rawSort where
  "emptyRawSort = \<lparr>rawSort.ID = [], Desc = False\<rparr>"

fun unmarshalRawSort :: "jval \<Rightarrow> rawSort option" where
  "unmarshalRawSort (JObj ms) = unmarshalSortMembers emptyRawSort ms"
| "unmarshalRawSort JNull = Some emptyRawSort"
| "unmarshalRawSort _ = None"

text \<open>A slice: an array of elements, \<^verbatim>\<open>null\<close> for none.\<close>

fun unmarshalAll :: "(jval \<Rightarrow> 'a option) \<Rightarrow> jval list \<Rightarrow> 'a list option" where
  "unmarshalAll f [] = Some []"
| "unmarshalAll f (v # vs) =
     (case (f v, unmarshalAll f vs) of (Some x, Some xs) \<Rightarrow> Some (x # xs) | _ \<Rightarrow> None)"

fun unmarshalSlice :: "(jval \<Rightarrow> 'a option) \<Rightarrow> jval \<Rightarrow> 'a list option" where
  "unmarshalSlice f (JArr vs) = unmarshalAll f vs"
| "unmarshalSlice f JNull = Some []"
| "unmarshalSlice f _ = None"

definition scalar :: "string list \<Rightarrow> string" where
  "scalar vs = (if vs = [] then [] else hd vs)"

definition listValues :: "string list \<Rightarrow> string list" where
  "listValues vs =
     (if length vs = 1 \<and> Contains (hd vs) '',''
      then filter (\<lambda>t. t \<noteq> []) (map TrimSpace (SplitOn (CHR '','') (hd vs)))
      else vs)"

fun firstNonEmpty :: "string list \<Rightarrow> string" where
  "firstNonEmpty [] = []"
| "firstNonEmpty (v # vs) = (if v \<noteq> [] then v else firstNonEmpty vs)"

definition normaliseOperator :: "string \<Rightarrow> Operator" where
  "normaliseOperator s =
     (let o' = ToLower s in
      if o' \<in> {''neq'', ''ne'', ''!=''} then OpNeq
      else if o' \<in> {''like'', ''contains''} then OpLike
      else if o' = ''in'' then OpIn
      else if o' \<in> {''gt'', ''>''} then OpGt
      else if o' \<in> {''gte'', ''>=''} then OpGte
      else if o' \<in> {''lt'', ''<''} then OpLt
      else if o' \<in> {''lte'', ''<=''} then OpLte
      else if o' = ''between'' then OpBetween
      else if o' \<in> {''regex'', ''match''} then OpLike
      else if o' \<in> {[], ''eq'', ''equal'', ''equals'', ''='', ''=='', ''is''} then OpEq
      else opUnknown)"

definition filterOf :: "FieldSet \<Rightarrow> rawFilter \<Rightarrow> query_error + Filter" where
  "filterOf allowed it =
     (case Resolve allowed (rawFilter.ID it) of
        None \<Rightarrow> Inl (FilterFieldNotAllowed (rawFilter.ID it) (Names allowed))
      | Some col \<Rightarrow>
          (let opName = firstNonEmpty [rawFilter.Operator it, Type it];
               op = normaliseOperator opName;
               values = listValues (rawFilter.Value it)
           in if op = opUnknown then Inl (UnknownOperator opName (rawFilter.ID it))
              else if op = OpIn \<and> values = [] then Inl (EmptyIn (rawFilter.ID it))
              else Inr \<lparr>Filter.Field = col, Value = scalar (rawFilter.Value it), Operator = op,
                        Values = values\<rparr>))"

fun filtersOf :: "FieldSet \<Rightarrow> rawFilter list \<Rightarrow> query_error + Filter list" where
  "filtersOf allowed [] = Inr []"
| "filtersOf allowed (it # items) =
     (case filterOf allowed it of
        Inl e \<Rightarrow> Inl e
      | Inr f \<Rightarrow> (case filtersOf allowed items of Inl e \<Rightarrow> Inl e | Inr fs \<Rightarrow> Inr (f # fs)))"

definition parseFilters :: "jtext \<Rightarrow> FieldSet \<Rightarrow> query_error + Filter list" where
  "parseFilters raw allowed =
     (case raw of
        NoText \<Rightarrow> Inr []
      | NotJson \<Rightarrow> Inl MalformedFilters
      | Json v \<Rightarrow> (case unmarshalSlice unmarshalRawFilter v of
                    None \<Rightarrow> Inl MalformedFilters
                  | Some items \<Rightarrow> filtersOf allowed items))"

fun sortsOf :: "FieldSet \<Rightarrow> rawSort list \<Rightarrow> query_error + Sort list" where
  "sortsOf allowed [] = Inr []"
| "sortsOf allowed (it # items) =
     (case Resolve allowed (rawSort.ID it) of
        None \<Rightarrow> Inl (SortFieldNotAllowed (rawSort.ID it) (Names allowed))
      | Some col \<Rightarrow>
          (case sortsOf allowed items of
             Inl e \<Rightarrow> Inl e
           | Inr ss \<Rightarrow> Inr (\<lparr>Sort.Field = col, Desc = rawSort.Desc it\<rparr> # ss)))"

definition parseSorts :: "jtext \<Rightarrow> FieldSet \<Rightarrow> query_error + Sort list" where
  "parseSorts raw allowed =
     (case raw of
        NoText \<Rightarrow> Inr []
      | NotJson \<Rightarrow> Inl MalformedSorts
      | Json v \<Rightarrow> (case unmarshalSlice unmarshalRawSort v of
                    None \<Rightarrow> Inl MalformedSorts
                  | Some items \<Rightarrow> sortsOf allowed items))"

definition Parse ::
  "string \<Rightarrow> string \<Rightarrow> jtext \<Rightarrow> jtext \<Rightarrow> string \<Rightarrow> FieldSet \<Rightarrow> Params" where
  "Parse pageStr pageSizeStr filteredJSON sortedJSON search allowed =
     (let pg = fst (Atoi pageStr);
          pg = (if pg < 0 then 0 else pg);
          sz = fst (Atoi pageSizeStr);
          sz = (if \<not> snd (Atoi pageSizeStr) \<or> sz \<le> 0 then DefaultPageSize else sz);
          sz = (if sz > MaxPageSize then MaxPageSize else sz);
          refused = (\<lambda>e. \<lparr>Err = Some e, Page = pg, PageSize = sz, Filters = [], Sorts = [],
                          Search = TrimSpace search\<rparr>)
      in case parseFilters filteredJSON allowed of
           Inl e \<Rightarrow> refused e
         | Inr fs \<Rightarrow>
             (case parseSorts sortedJSON allowed of
                Inl e \<Rightarrow> refused e
              | Inr ss \<Rightarrow> \<lparr>Err = None, Page = pg, PageSize = sz, Filters = fs, Sorts = ss,
                           Search = TrimSpace search\<rparr>))"

section \<open>The gRPC form of a listing request\<close>

datatype ProtoOperator =
    OPERATOR_EQ | OPERATOR_NEQ | OPERATOR_LIKE | OPERATOR_IN | OPERATOR_GT | OPERATOR_GTE
  | OPERATOR_LT | OPERATOR_LTE | OPERATOR_BETWEEN | OPERATOR_UNSPECIFIED

record ProtoFilter =
  Id :: string
  Value :: string
  Operator :: ProtoOperator

record ProtoSort =
  Id :: string
  Desc :: bool

record ProtoQuery =
  PageRequest :: "(int \<times> int) option"
  Filtered :: "ProtoFilter list"
  Sorted :: "ProtoSort list"
  SearchText :: string

fun operatorFromProto :: "ProtoOperator \<Rightarrow> Operator" where
  "operatorFromProto OPERATOR_NEQ = OpNeq"
| "operatorFromProto OPERATOR_LIKE = OpLike"
| "operatorFromProto OPERATOR_IN = OpIn"
| "operatorFromProto OPERATOR_GT = OpGt"
| "operatorFromProto OPERATOR_GTE = OpGte"
| "operatorFromProto OPERATOR_LT = OpLt"
| "operatorFromProto OPERATOR_LTE = OpLte"
| "operatorFromProto OPERATOR_BETWEEN = OpBetween"
| "operatorFromProto _ = OpEq"

definition filtersFromProto :: "FieldSet \<Rightarrow> ProtoFilter list \<Rightarrow> Filter list" where
  "filtersFromProto allowed fs =
     concat (map (\<lambda>f. case Resolve allowed (ProtoFilter.Id f) of
                     None \<Rightarrow> []
                   | Some col \<Rightarrow>
                       [\<lparr>Filter.Field = col, Value = ProtoFilter.Value f,
                         Operator = operatorFromProto (ProtoFilter.Operator f), Values = []\<rparr>]) fs)"

definition sortsFromProto :: "FieldSet \<Rightarrow> ProtoSort list \<Rightarrow> Sort list" where
  "sortsFromProto allowed ss =
     concat (map (\<lambda>s. case Resolve allowed (ProtoSort.Id s) of
                     None \<Rightarrow> []
                   | Some col \<Rightarrow> [\<lparr>Sort.Field = col, Desc = ProtoSort.Desc s\<rparr>]) ss)"

definition FromProto :: "ProtoQuery option \<Rightarrow> FieldSet \<Rightarrow> Params" where
  "FromProto q allowed =
     (case q of
        None \<Rightarrow> \<lparr>Err = None, Page = 0, PageSize = DefaultPageSize, Filters = [], Sorts = [], Search = []\<rparr>
      | Some q \<Rightarrow>
          (let pg = (case PageRequest q of None \<Rightarrow> 0 | Some (n, _) \<Rightarrow> if n < 0 then 0 else n);
               sz = (case PageRequest q of
                       None \<Rightarrow> DefaultPageSize
                     | Some (_, sz) \<Rightarrow> if sz > 0 then min sz MaxPageSize else DefaultPageSize)
           in \<lparr>Err = None, Page = pg, PageSize = sz,
               Filters = filtersFromProto allowed (Filtered q),
               Sorts = sortsFromProto allowed (Sorted q),
               Search = TrimSpace (SearchText q)\<rparr>))"

section \<open>The page count, computed in three places\<close>

text \<open>The counts of \<^verbatim>\<open>commonv1.PageInfo\<close> and of \<^verbatim>\<open>response.Meta\<close>.\<close>

record PageInfo =
  InfoPage :: int
  InfoPageSize :: int
  InfoTotalRows :: int
  InfoTotalPages :: int

definition ParamsPageInfo :: "Params \<Rightarrow> int \<Rightarrow> PageInfo" where
  "ParamsPageInfo p totalRows =
     \<lparr>InfoPage = NonNegativeInt32 (Page p),
      InfoPageSize = NonNegativeInt32 (PageSize p),
      InfoTotalRows = totalRows,
      InfoTotalPages = NonNegativeInt32 (TotalPages p totalRows)\<rparr>"

text \<open>
  \<^verbatim>\<open>handlers.meta\<close>: the ceiling of a quotient of two \<^verbatim>\<open>float64\<close>s, which is exact
  for counts below 2 to the 53.
\<close>

definition meta :: "Params \<Rightarrow> int \<Rightarrow> PageInfo" where
  "meta p totalRows =
     \<lparr>InfoPage = Page p, InfoPageSize = PageSize p, InfoTotalRows = totalRows,
      InfoTotalPages = (if PageSize p > 0
                    then \<lceil>rat_of_int totalRows / rat_of_int (PageSize p)\<rceil> else 0)\<rparr>"

definition int32 :: "int \<Rightarrow> int" where
  "int32 x = (x + 2147483648) mod 4294967296 - 2147483648"

definition pageInfo :: "Params \<Rightarrow> int \<Rightarrow> PageInfo" where
  "pageInfo p totalRows =
     (let pages = (if PageSize p > 0
                   then int64 (totalRows + PageSize p - 1) sdiv PageSize p else 0)
      in \<lparr>InfoPage = int32 (Page p), InfoPageSize = int32 (PageSize p),
          InfoTotalRows = totalRows, InfoTotalPages = int32 pages\<rparr>)"

section \<open>Facts about listing requests\<close>

definition allowedParams :: "FieldSet \<Rightarrow> Params \<Rightarrow> bool" where
  "allowedParams allowed p \<longleftrightarrow>
     0 \<le> Page p \<and> 0 < PageSize p \<and> PageSize p \<le> MaxPageSize \<and>
     (\<forall>f \<in> set (Filters p). Filter.Field f \<in> snd ` set allowed) \<and>
     (\<forall>s \<in> set (Sorts p). Sort.Field s \<in> snd ` set allowed)"

lemma Resolve_column: "Resolve allowed name = Some col \<Longrightarrow> col \<in> snd ` set allowed"
  by (auto simp: Resolve_def dest: map_of_SomeD intro: rev_image_eqI)

lemma filterOf_column: "filterOf allowed it = Inr f \<Longrightarrow> Filter.Field f \<in> snd ` set allowed"
  by (auto simp: filterOf_def Let_def Resolve_column split: option.splits if_splits)

lemma filtersOf_column:
  "filtersOf allowed items = Inr fs \<Longrightarrow> f \<in> set fs \<Longrightarrow> Filter.Field f \<in> snd ` set allowed"
  by (induction items arbitrary: fs) (auto dest: filterOf_column split: sum.splits)

lemma sortsOf_column:
  "sortsOf allowed items = Inr ss \<Longrightarrow> s \<in> set ss \<Longrightarrow> Sort.Field s \<in> snd ` set allowed"
  by (induction items arbitrary: ss) (fastforce dest: Resolve_column split: sum.splits option.splits)+

lemma parseFilters_column:
  "parseFilters raw allowed = Inr fs \<Longrightarrow> f \<in> set fs \<Longrightarrow> Filter.Field f \<in> snd ` set allowed"
  by (auto simp: parseFilters_def dest: filtersOf_column split: jtext.splits option.splits)

lemma parseSorts_column:
  "parseSorts raw allowed = Inr ss \<Longrightarrow> s \<in> set ss \<Longrightarrow> Sort.Field s \<in> snd ` set allowed"
  by (auto simp: parseSorts_def dest: sortsOf_column split: jtext.splits option.splits)

lemma ParseUint_nonneg: "ParseUint n s = Some u \<Longrightarrow> 0 \<le> n \<Longrightarrow> 0 \<le> u"
proof (induction n s rule: ParseUint.induct)
  case (2 n c s)
  then have c: "isDigit c" by (simp split: if_splits)
  then have "0 \<le> digitVal c" by (auto simp: isDigit_def digitVal_def)
  then show ?case using 2 c by (auto simp: Let_def MaxUint64_def split: if_splits)
qed simp

lemma Atoi_range: "MinInt64 \<le> fst (Atoi s) \<and> fst (Atoi s) \<le> MaxInt64"
  by (auto simp: Atoi_def Let_def MinInt64_def MaxInt64_def dest: ParseUint_nonneg split: option.splits)

lemma Atoi_samples:
  "Atoi [] = (0, False)" "Atoi ''-1'' = (-1, True)" "Atoi ''2'' = (2, True)" "Atoi ''3'' = (3, True)"
  "Atoi ''20'' = (20, True)" "Atoi ''50'' = (50, True)" "Atoi ''200'' = (200, True)"
  "Atoi ''500'' = (500, True)" "Atoi ''92233720368547758'' = (92233720368547758, True)"
  "Atoi ''-9223372036854775808'' = (-9223372036854775808, True)"
  "Atoi ''9223372036854775808'' = (9223372036854775807, False)" "Atoi ''1x'' = (0, False)"
  "Atoi ''99999999999999999999x'' = (9223372036854775807, False)"
  by code_simp+

lemma Parse_allowed: "allowedParams allowed (Parse pg sz flt srt search allowed)"
  by (auto simp: allowedParams_def Parse_def Let_def MaxPageSize_def DefaultPageSize_def
      dest: parseFilters_column parseSorts_column split: sum.splits)

lemma filtersFromProto_column:
  "f \<in> set (filtersFromProto allowed fs) \<Longrightarrow> Filter.Field f \<in> snd ` set allowed"
  by (auto simp: filtersFromProto_def split: option.splits intro: Resolve_column [OF sym])

lemma sortsFromProto_column:
  "s \<in> set (sortsFromProto allowed ss) \<Longrightarrow> Sort.Field s \<in> snd ` set allowed"
  by (auto simp: sortsFromProto_def split: option.splits intro: Resolve_column [OF sym])

lemma FromProto_allowed: "allowedParams allowed (FromProto q allowed)"
  by (auto simp: allowedParams_def FromProto_def Let_def MaxPageSize_def DefaultPageSize_def
      dest: filtersFromProto_column sortsFromProto_column split: option.splits)

lemma Parse_refused:
  "Err (Parse pg sz flt srt search allowed) \<noteq> None \<Longrightarrow>
     Filters (Parse pg sz flt srt search allowed) = [] \<and> Sorts (Parse pg sz flt srt search allowed) = []"
  by (auto simp: Parse_def Let_def split: sum.splits)

lemma sdiv_pos: "0 \<le> (a::int) \<Longrightarrow> 0 < b \<Longrightarrow> a sdiv b = a div b"
  by (cases "a = 0") (simp_all add: signed_divide_int_def)

lemma smod_pos: "0 \<le> (a::int) \<Longrightarrow> 0 < b \<Longrightarrow> a smod b = a mod b"
  by (cases "a = 0") (simp_all add: signed_modulo_int_def)

lemma rows_div:
  assumes "0 < sz"
  shows "(rows + sz - 1) div sz = rows div sz + (if rows mod sz = 0 then 0 else (1::int))"
proof -
  let ?m = "rows mod sz + sz - 1"
  have eq: "rows + sz - 1 = ?m + rows div sz * sz" by simp
  have "(rows + sz - 1) div sz = (?m + rows div sz * sz) div sz"
    by (rule arg_cong [where f = "\<lambda>x. x div sz", OF eq])
  also have "\<dots> = rows div sz + ?m div sz"
    by (rule div_mult_self1) (use assms in simp)
  finally have "(rows + sz - 1) div sz = rows div sz + ?m div sz" .
  moreover have "(rows mod sz + sz - 1) div sz = (if rows mod sz = 0 then 0 else 1)"
  proof (cases "rows mod sz = 0")
    case True
    then show ?thesis using assms by simp
  next
    case False
    then have "0 \<le> rows mod sz - 1" "rows mod sz - 1 < sz"
      using assms pos_mod_sign [of sz rows] pos_mod_bound [of sz rows] by linarith+
    then have "(rows mod sz - 1 + 1 * sz) div sz = 1"
      using assms by (subst div_mult_self1) (simp_all add: div_pos_pos_trivial)
    then show ?thesis using False by (simp add: algebra_simps)
  qed
  ultimately show ?thesis by simp
qed

lemma ceiling_quotient:
  assumes "0 < (b::int)"
  shows "\<lceil>rat_of_int a / rat_of_int b\<rceil> = (a + b - 1) div b"
  using assms by (simp add: ceiling_divide_eq_div zdiv_zminus1_eq_if rows_div)

lemma div_le_rows: "0 \<le> rows \<Longrightarrow> 0 < (sz::int) \<Longrightarrow> 0 \<le> rows div sz \<and> rows div sz \<le> rows"
  using zdiv_mono2 [of rows 1 sz] by (simp add: pos_imp_zdiv_nonneg_iff)

lemma TotalPages_eq:
  assumes "0 \<le> rows" "rows \<le> MaxInt32" "0 < PageSize p"
  shows "TotalPages p rows = (rows + PageSize p - 1) div PageSize p"
proof -
  have "int64 (rows div PageSize p + 1) = rows div PageSize p + 1"
    using assms div_le_rows [of rows "PageSize p"]
    by (intro int64_id) (auto simp: MinInt64_def MaxInt64_def MaxInt32_def)
  then show ?thesis
    using assms by (simp add: TotalPages_def Let_def sdiv_pos smod_pos rows_div)
qed

lemma pages_range:
  assumes "0 \<le> rows" "rows \<le> MaxInt32" "0 < (sz::int)"
  shows "0 \<le> (rows + sz - 1) div sz \<and> (rows + sz - 1) div sz \<le> MaxInt32"
proof (cases "rows mod sz = 0")
  case True
  then show ?thesis using assms div_le_rows [of rows sz] by (simp add: rows_div)
next
  case False
  then have "sz \<noteq> 1" "rows \<noteq> 0" by auto
  then have "1 < sz" "0 < rows" using assms by linarith+
  then have "rows div sz < rows" by (intro int_div_less_self)
  then show ?thesis using assms False div_le_rows [of rows sz] by (simp add: rows_div)
qed

section \<open>Properties\<close>

text \<open>C18. 
  Whatever a client sends, a parsed listing request asks for a
  non-negative page of between 1 and 200 rows and names only storage columns of the allowlist,
  over HTTP and over gRPC; and a request that could not be understood carries no filter and no
  sort.
\<close>

theorem listing_request_bounded:
  "allowedParams allowed (Parse page sz filterText sortText search allowed) \<and>
   allowedParams allowed (FromProto q allowed) \<and>
   (Err (Parse page sz filterText sortText search allowed) = None \<or>
    Filters (Parse page sz filterText sortText search allowed) = [] \<and>
    Sorts (Parse page sz filterText sortText search allowed) = [])"
  using Parse_allowed FromProto_allowed Parse_refused by auto

text \<open>
  The three places that compute how many pages a result has agree: the
  HTTP envelope, the gRPC envelope and \<^verbatim>\<open>Params.PageInfo\<close> give the same page count, and
  it is the smallest number of pages that holds every row.
\<close>

theorem page_counts_agree:
  assumes "allowedParams allowed p" and "0 \<le> rows" and "rows \<le> MaxInt32"
  shows "InfoTotalPages (meta p rows) = InfoTotalPages (pageInfo p rows) \<and>
    InfoTotalPages (ParamsPageInfo p rows) = InfoTotalPages (meta p rows) \<and>
    rows \<le> InfoTotalPages (meta p rows) * PageSize p \<and>
    (InfoTotalPages (meta p rows) - 1) * PageSize p < max 1 rows"
proof -
  let ?s = "PageSize p" let ?n = "(rows + ?s - 1) div ?s"
  have s: "0 < ?s" "?s \<le> MaxPageSize" using assms by (simp_all add: allowedParams_def)
  have n: "0 \<le> ?n" "?n \<le> MaxInt32" using pages_range assms s by blast+
  have "InfoTotalPages (meta p rows) = ?n" using s by (simp add: meta_def ceiling_quotient)
  moreover have "InfoTotalPages (ParamsPageInfo p rows) = ?n"
    using n TotalPages_eq assms s by (simp add: ParamsPageInfo_def NonNegativeInt32_id)
  moreover have "int64 (rows + ?s - 1) = rows + ?s - 1"
    using assms s by (intro int64_id)
      (auto simp: MinInt64_def MaxInt64_def MaxInt32_def MaxPageSize_def)
  then have "InfoTotalPages (pageInfo p rows) = ?n"
    using n s assms by (simp add: pageInfo_def sdiv_pos int32_def MaxInt32_def)
  moreover have "?n * ?s = rows + ?s - 1 - (rows + ?s - 1) mod ?s"
    by (simp add: minus_mod_eq_div_mult)
  then have "rows \<le> ?n * ?s" "(?n - 1) * ?s < max 1 rows"
    using s pos_mod_sign [of ?s "rows + ?s - 1"] pos_mod_bound [of ?s "rows + ?s - 1"]
    unfolding left_diff_distrib by linarith+
  ultimately show ?thesis by simp
qed

lemma page_counts_agree_witness:
  "InfoTotalPages (meta (Parse ''2'' ''20'' NoText NoText [] []) 41) = 3"
proof -
  let ?p = "Parse ''2'' ''20'' NoText NoText [] []"
  have p: "?p = \<lparr>Err = None, Page = 2, PageSize = 20, Filters = [], Sorts = [], Search = []\<rparr>"
    by (simp add: Parse_def Atoi_samples parseFilters_def parseSorts_def MaxPageSize_def DefaultPageSize_def)
  have "41 \<le> MaxInt32" by (simp add: MaxInt32_def)
  from page_counts_agree [OF Parse_allowed [of "[]" "''2''" "''20''" NoText NoText "[]"] _ this]
  show ?thesis unfolding p by simp
qed

text \<open>
  As long as the page number leaves room for the multiplication, the offset
  is the exact number of rows before the page, so consecutive pages neither skip nor repeat a row.
\<close>

theorem offset_is_exact:
  assumes "allowedParams allowed p" and "Page p \<le> MaxInt64 div MaxPageSize"
  shows "Offset p = Page p * PageSize p \<and> Offset (p\<lparr>Page := 0\<rparr>) = 0"
proof -
  have p: "0 \<le> Page p" "0 < PageSize p" "PageSize p \<le> 200" "Page p \<le> 46116860184273879"
    using assms by (simp_all add: allowedParams_def MaxPageSize_def MaxInt64_def)
  then have "Page p * PageSize p \<le> 46116860184273879 * 200"
    by (intro mult_mono) auto
  moreover have "0 \<le> Page p * PageSize p" using p by simp
  ultimately have "int64 (Page p * PageSize p) = Page p * PageSize p"
    by (intro int64_id) (simp_all add: MinInt64_def MaxInt64_def)
  then show ?thesis using p by (auto simp: Offset_def)
qed

lemma offset_is_exact_witness:
  "Offset (Parse ''3'' ''50'' NoText NoText [] []) = 150"
proof -
  let ?p = "Parse ''3'' ''50'' NoText NoText [] []"
  have p: "?p = \<lparr>Err = None, Page = 3, PageSize = 50, Filters = [], Sorts = [], Search = []\<rparr>"
    by (simp add: Parse_def Atoi_samples parseFilters_def parseSorts_def MaxPageSize_def DefaultPageSize_def)
  show ?thesis
    using offset_is_exact [OF Parse_allowed [of "[]"], of "''3''" "''50''" NoText NoText "[]"]
    by (simp add: p MaxInt64_def MaxPageSize_def)
qed

text \<open>Beyond that bound the product wraps: this page number, which parses, skips a negative count.\<close>

lemma offset_wraps:
  "Offset (Parse ''92233720368547758'' ''200'' NoText NoText [] []) < 0"
  by (simp add: Parse_def Atoi_samples parseFilters_def parseSorts_def MaxPageSize_def DefaultPageSize_def
      Offset_def int64_def)

end
