(* ===== verification/Models.thy ===== *)
theory Models
  imports Query
begin

text \<open>
  \<^verbatim>\<open>internal/models\<close>: the documents of the service with their constructors' rules.
  A Go struct is a record and an embedded struct is the record it extends; a pointer is an
  \<open>option\<close>; a slice or map whose \<^verbatim>\<open>nil\<close> is told from an empty one is an
  \<open>option\<close> too. The string types (\<^verbatim>\<open>UnitType\<close>, \<^verbatim>\<open>TrackerKind\<close>, ...) stay
  strings, because a stored document may hold any. A \<^verbatim>\<open>float64\<close> is a rational. An
  object id is 96 bits. What BSON does to a document on its way to the database and back is
  taken to be the identity on these records.
\<close>

section \<open>Identifiers and string types\<close>

type_synonym ObjectID = "96 word"
type_synonym Attrs = "string \<rightharpoonup> jval"
type_synonym UnitType = string
type_synonym TrackerKind = string
type_synonym TrackerOwner = string
type_synonym SiteType = string
type_synonym SiteRelation = string

definition NilObjectID :: ObjectID where "NilObjectID = 0"

definition UnitRigid :: UnitType where "UnitRigid = ''rigid''"
definition UnitHead :: UnitType where "UnitHead = ''head''"
definition UnitBody :: UnitType where "UnitBody = ''body''"

definition TrackerGPS :: TrackerKind where "TrackerGPS = ''gps''"
definition TrackerDashcam :: TrackerKind where "TrackerDashcam = ''dashcam''"

definition OwnerKarlo :: TrackerOwner where "OwnerKarlo = ''karlo''"
definition OwnerCustomer :: TrackerOwner where "OwnerCustomer = ''customer''"
definition OwnerVendor :: TrackerOwner where "OwnerVendor = ''vendor''"

definition SiteWarehouse :: SiteType where "SiteWarehouse = ''warehouse''"
definition SiteDepot :: SiteType where "SiteDepot = ''depot''"
definition SitePort :: SiteType where "SitePort = ''port''"
definition SiteCustomer :: SiteType where "SiteCustomer = ''customer''"
definition SiteOther :: SiteType where "SiteOther = ''other''"

lemmas enum_defs = UnitRigid_def UnitHead_def UnitBody_def TrackerGPS_def TrackerDashcam_def
  OwnerKarlo_def OwnerCustomer_def OwnerVendor_def
  SiteWarehouse_def SiteDepot_def SitePort_def SiteCustomer_def SiteOther_def

section \<open>The envelopes\<close>

record Base =
  ID :: ObjectID
  CreatedAt :: Time
  UpdatedAt :: Time
  Deleted :: bool

record Owned = Base +
  CompanyID :: "string option"
  CreatedByUserID :: "string option"
  IsActive :: bool

definition SetID :: "ObjectID \<Rightarrow> 'a Base_scheme \<Rightarrow> 'a Base_scheme" where
  "SetID i b = b\<lparr>Base.ID := i\<rparr>"

definition Stamp :: "Time \<Rightarrow> bool \<Rightarrow> 'a Base_scheme \<Rightarrow> 'a Base_scheme" where
  "Stamp now creating b =
     (let b = (if creating then b\<lparr>Base.CreatedAt := now\<rparr> else b) in b\<lparr>Base.UpdatedAt := now\<rparr>)"

text \<open>The zero value of the envelope, as the literal \<^verbatim>\<open>models.X{...}\<close> has it.\<close>

definition zeroBase :: Base where
  "zeroBase = \<lparr>Base.ID = NilObjectID, CreatedAt = zeroTime, UpdatedAt = zeroTime, Deleted = False\<rparr>"

section \<open>Reference lists\<close>

record Brand = Owned +
  Name :: string
  NameNormalised :: string

definition Brand_BeforeWrite :: "Brand \<Rightarrow> Brand" where
  "Brand_BeforeWrite b = b\<lparr>Brand.NameNormalised := Normalise.Name (Brand.Name b)\<rparr>"

record CargoType = Owned +
  Name :: string
  NameNormalised :: string
  Description :: "string option"
  Characteristics :: "string list option"

definition CargoType_BeforeWrite :: "CargoType \<Rightarrow> CargoType" where
  "CargoType_BeforeWrite c =
     c\<lparr>CargoType.NameNormalised := Normalise.Name (CargoType.Name c),
       Characteristics := ifNil (Characteristics c) []\<rparr>"

record ItemCategory = Owned +
  Name :: string
  NameNormalised :: string
  Description :: "string option"

definition ItemCategory_BeforeWrite :: "ItemCategory \<Rightarrow> ItemCategory" where
  "ItemCategory_BeforeWrite c = c\<lparr>ItemCategory.NameNormalised := Normalise.Name (ItemCategory.Name c)\<rparr>"

record ItemSubCategory = Owned +
  CategoryID :: string
  Name :: string
  NameNormalised :: string
  Description :: "string option"

definition ItemSubCategory_BeforeWrite :: "ItemSubCategory \<Rightarrow> ItemSubCategory" where
  "ItemSubCategory_BeforeWrite c =
     c\<lparr>ItemSubCategory.NameNormalised := Normalise.Name (ItemSubCategory.Name c)\<rparr>"

record Item = Base +
  CompanyID :: string
  CategoryID :: "string option"
  SubCategoryID :: "string option"
  CargoTypeID :: "string option"
  Name :: string
  Code :: "string option"
  CodeNormalised :: "string option"
  Description :: "string option"
  Unit :: "string option"
  WeightKg :: "rat option"
  VolumeM3 :: "rat option"
  IsActive :: bool
  Attributes :: "Attrs option"
  CreatedByUserID :: "string option"

definition Item_BeforeWrite :: "Item \<Rightarrow> Item" where
  "Item_BeforeWrite i =
     i\<lparr>Item.CodeNormalised := Optional Normalise.Code (Item.Code i),
       Item.Attributes := ifNil (Item.Attributes i) Map.empty\<rparr>"

record TruckHead = Owned +
  Name :: string
  NameNormalised :: string
  Code :: "string option"
  Axles :: "int option"
  Configuration :: "string option"
  ImageKey :: "string option"

definition TruckHead_BeforeWrite :: "TruckHead \<Rightarrow> TruckHead" where
  "TruckHead_BeforeWrite h = h\<lparr>TruckHead.NameNormalised := Normalise.Name (TruckHead.Name h)\<rparr>"

record TruckBody = Owned +
  Name :: string
  NameNormalised :: string
  Code :: "string option"
  MaxWeightKg :: "rat option"
  VolumeM3 :: "rat option"
  LengthM :: "rat option"
  WidthM :: "rat option"
  HeightM :: "rat option"
  CargoTypeIDs :: "string list option"
  ImageKey :: "string option"

definition TruckBody_BeforeWrite :: "TruckBody \<Rightarrow> TruckBody" where
  "TruckBody_BeforeWrite b =
     b\<lparr>TruckBody.NameNormalised := Normalise.Name (TruckBody.Name b),
       CargoTypeIDs := ifNil (CargoTypeIDs b) []\<rparr>"

record TruckClass = Owned +
  Name :: string
  NameNormalised :: string
  Code :: "string option"
  TypicalMaxWeightKg :: "rat option"
  Axles :: "int option"
  SortOrder :: "int option"

definition TruckClass_BeforeWrite :: "TruckClass \<Rightarrow> TruckClass" where
  "TruckClass_BeforeWrite c = c\<lparr>TruckClass.NameNormalised := Normalise.Name (TruckClass.Name c)\<rparr>"

section \<open>Vehicles and groups\<close>

record Vehicle = Base +
  CompanyID :: string
  LicensePlate :: string
  PlateNormalised :: string
  ChassisNumber :: "string option"
  ChassisNormalised :: "string option"
  EngineNumber :: "string option"
  UnitType :: UnitType
  TruckHeadID :: "string option"
  TruckBodyID :: "string option"
  BrandID :: "string option"
  TruckGroupID :: "string option"
  UnitYear :: "int option"
  Color :: "string option"
  TrackerID :: "string option"
  CurrentDriverID :: "string option"
  CurrentDriverUserID :: "string option"
  Status :: string
  IsAvailable :: bool
  OdometerKm :: "rat option"
  HourmeterHours :: "rat option"
  FuelTankLiters :: "rat option"
  FuelRatioKmpl :: "rat option"
  Notes :: "string option"
  Attributes :: "Attrs option"

definition Vehicle_BeforeWrite :: "Vehicle \<Rightarrow> Vehicle" where
  "Vehicle_BeforeWrite v =
     v\<lparr>PlateNormalised := Plate (LicensePlate v),
       ChassisNormalised := Optional Serial (ChassisNumber v),
       UnitType := ifEmpty (UnitType v) UnitRigid,
       Vehicle.Status := ifEmpty (Vehicle.Status v) ''active'',
       Vehicle.Attributes := ifNil (Vehicle.Attributes v) Map.empty\<rparr>"

definition Vehicle_Validate :: "Vehicle \<Rightarrow> error option" where
  "Vehicle_Validate v =
     (if LicensePlate v = [] \<or> PlateNormalised v = [] then Some ErrPlateRequired else None)"

record VehicleGroup = Base +
  CompanyID :: string
  Name :: string
  NameNormalised :: string
  Description :: "string option"
  PICUserIDs :: "string list option"

definition VehicleGroup_BeforeWrite :: "VehicleGroup \<Rightarrow> VehicleGroup" where
  "VehicleGroup_BeforeWrite g =
     g\<lparr>VehicleGroup.NameNormalised := Normalise.Name (VehicleGroup.Name g),
       VehicleGroup.PICUserIDs := ifNil (VehicleGroup.PICUserIDs g) []\<rparr>"

record VehicleGroupMember =
  ID :: ObjectID
  CompanyID :: string
  GroupID :: string
  VehicleID :: string
  AddedByUserID :: "string option"
  CreatedAt :: Time

section \<open>Drivers and customers\<close>

record Driver = Base +
  CompanyID :: string
  FullName :: string
  NameNormalised :: string
  Phone :: "string option"
  PhoneNormalised :: "string option"
  EmployeeNo :: "string option"
  LicenseNo :: "string option"
  LicenseClass :: "string option"
  LicenseExpiry :: "Time option"
  Status :: string
  UserID :: "string option"
  Notes :: "string option"
  Attributes :: "Attrs option"

definition Driver_BeforeWrite :: "Driver \<Rightarrow> Driver" where
  "Driver_BeforeWrite d =
     (let fullName = TrimSpace (FullName d);
          phone = Optional TrimSpace (Phone d)
      in d\<lparr>FullName := fullName,
           Driver.NameNormalised := Normalise.Name fullName,
           Phone := phone,
           PhoneNormalised := Optional Normalise.IMEI phone,
           EmployeeNo := Optional TrimSpace (EmployeeNo d),
           LicenseNo := Optional Serial (LicenseNo d),
           LicenseClass := Optional TrimSpace (LicenseClass d),
           LicenseExpiry := map_option midnight (LicenseExpiry d),
           Driver.Status := ifEmpty (Driver.Status d) ''active'',
           Driver.Attributes := ifNil (Driver.Attributes d) Map.empty\<rparr>)"

definition Driver_Validate :: "Driver \<Rightarrow> error option" where
  "Driver_Validate d =
     (if FullName d = [] then Some ErrDriverNameRequired
      else if Driver.Status d \<noteq> ''active'' \<and> Driver.Status d \<noteq> ''inactive'' then Some ErrDriverStatus
      else None)"

record Customer = Base +
  CompanyID :: string
  Name :: string
  NameNormalised :: string
  Code :: "string option"
  NPWP :: "string option"
  Address :: "string option"
  ContactName :: "string option"
  ContactPhone :: "string option"
  ContactEmail :: "string option"

definition Customer_BeforeWrite :: "Customer \<Rightarrow> Customer" where
  "Customer_BeforeWrite c = c\<lparr>Customer.NameNormalised := Normalise.Name (Customer.Name c)\<rparr>"

section \<open>Devices\<close>

record TrackerModel =
  ID :: ObjectID
  Vendor :: string
  Model :: string
  Kind :: TrackerKind
  Protocol :: "string option"
  Attributes :: "Attrs option"
  IsActive :: bool
  CreatedAt :: Time
  UpdatedAt :: Time

definition TrackerModel_SetID :: "ObjectID \<Rightarrow> TrackerModel \<Rightarrow> TrackerModel" where
  "TrackerModel_SetID i m = m\<lparr>TrackerModel.ID := i\<rparr>"

definition TrackerModel_Stamp :: "Time \<Rightarrow> bool \<Rightarrow> TrackerModel \<Rightarrow> TrackerModel" where
  "TrackerModel_Stamp now creating m =
     (let m = (if creating then m\<lparr>TrackerModel.CreatedAt := now\<rparr> else m)
      in m\<lparr>TrackerModel.UpdatedAt := now\<rparr>)"

definition TrackerModel_BeforeWrite :: "TrackerModel \<Rightarrow> TrackerModel" where
  "TrackerModel_BeforeWrite m =
     m\<lparr>Vendor := TrimSpace (Vendor m), Model := TrimSpace (Model m),
       TrackerModel.Kind := ifEmpty (TrackerModel.Kind m) TrackerGPS, TrackerModel.IsActive := True\<rparr>"

text \<open>(An inactive entry is made active by the code's \<^verbatim>\<open>if !m.IsActive\<close>, so either way it is.)\<close>

record Tracker = Base +
  CompanyID :: "string option"
  Owner :: TrackerOwner
  OwnerName :: "string option"
  Kind :: TrackerKind
  DeviceID :: string
  IMEI :: string
  ICCID :: "string option"
  SIMProvider :: "string option"
  PhoneNo :: "string option"
  ModelID :: "string option"
  Status :: string
  Attributes :: "Attrs option"

definition Tracker_BeforeWrite :: "Tracker \<Rightarrow> Tracker" where
  "Tracker_BeforeWrite t =
     (let kind = ifEmpty (Tracker.Kind t) TrackerGPS;
          device = (if kind = TrackerGPS
                    then Normalise.IMEI (ifEmpty (Tracker.DeviceID t) (Tracker.IMEI t))
                    else TrimSpace (Tracker.DeviceID t))
      in t\<lparr>Tracker.Kind := kind,
           Tracker.DeviceID := device,
           Tracker.IMEI := (if kind = TrackerGPS then device else []),
           Tracker.ICCID := Optional Normalise.ICCID (Tracker.ICCID t),
           Owner := ifEmpty (Owner t) OwnerKarlo,
           Tracker.Status := ifEmpty (Tracker.Status t) ''active''\<rparr>)"

record SensorType =
  ID :: ObjectID
  Code :: string
  Name :: string
  Unit :: "string option"
  ValueKind :: string
  Description :: "string option"
  IsActive :: bool
  CreatedAt :: Time

definition SensorType_SetID :: "ObjectID \<Rightarrow> SensorType \<Rightarrow> SensorType" where
  "SensorType_SetID i t = t\<lparr>SensorType.ID := i\<rparr>"

definition SensorType_Stamp :: "Time \<Rightarrow> bool \<Rightarrow> SensorType \<Rightarrow> SensorType" where
  "SensorType_Stamp now creating t = (if creating then t\<lparr>SensorType.CreatedAt := now\<rparr> else t)"

definition SensorType_BeforeWrite :: "SensorType \<Rightarrow> SensorType" where
  "SensorType_BeforeWrite t =
     t\<lparr>SensorType.Code := ToUpper (TrimSpace (SensorType.Code t)),
       SensorType.Name := TrimSpace (SensorType.Name t),
       ValueKind := ifEmpty (ValueKind t) ''number'', SensorType.IsActive := True\<rparr>"

record TrackerSensor =
  ID :: ObjectID
  TrackerID :: string
  SensorTypeID :: string
  Channel :: "string option"
  ChannelKey :: string
  Calibration :: "Attrs option"
  FittedAt :: Time
  RemovedAt :: "Time option"
  CreatedAt :: Time

definition TrackerSensor_BeforeWrite :: "TrackerSensor \<Rightarrow> TrackerSensor" where
  "TrackerSensor_BeforeWrite s =
     s\<lparr>TrackerSensor.ChannelKey := Normalise.ChannelKey (Channel s),
       Calibration := ifNil (Calibration s) Map.empty\<rparr>"

record TrackerAssignment =
  ID :: ObjectID
  CompanyID :: string
  TrackerID :: "string option"
  VehicleID :: string
  Kind :: TrackerKind
  DeviceID :: string
  IMEI :: string
  FittedAt :: Time
  UnfittedAt :: "Time option"
  InstallPhotoKey :: "string option"
  InstalledByUserID :: "string option"
  InstallNotes :: "string option"
  CreatedAt :: Time

definition TrackerAssignment_BeforeWrite :: "TrackerAssignment \<Rightarrow> TrackerAssignment" where
  "TrackerAssignment_BeforeWrite a =
     (let kind = ifEmpty (TrackerAssignment.Kind a) TrackerGPS;
          device = (if kind = TrackerGPS
                    then Normalise.IMEI (ifEmpty (TrackerAssignment.DeviceID a) (TrackerAssignment.IMEI a))
                    else TrackerAssignment.DeviceID a)
      in a\<lparr>TrackerAssignment.Kind := kind,
           TrackerAssignment.DeviceID := device,
           TrackerAssignment.IMEI := (if kind = TrackerGPS then device else [])\<rparr>)"

section \<open>Sites and documents\<close>

record GeoPoint =
  Type :: string
  Coordinates :: "rat list"

record SitePIC =
  ID :: string
  Name :: string
  Phone :: string
  IsDefault :: bool

record Site = Base +
  CompanyID :: string
  SiteType :: SiteType
  Name :: string
  NameNormalised :: string
  Address :: "string option"
  Street :: "string option"
  District :: "string option"
  City :: "string option"
  Province :: "string option"
  Postcode :: "string option"
  Location :: "GeoPoint option"
  GeofenceRadiusM :: "int option"
  PICs :: "SitePIC list option"
  SitePICName :: "string option"
  SitePICPhone :: "string option"
  Notes :: "string option"
  PICUserIDs :: "string list option"
  CustomerCompanyID :: "string option"
  IsActive :: bool
  Attributes :: "Attrs option"

definition Site_BeforeWrite :: "Site \<Rightarrow> Site" where
  "Site_BeforeWrite s =
     s\<lparr>Site.NameNormalised := Normalise.Name (Site.Name s),
       PICs := ifNil (PICs s) [],
       SiteType := ifEmpty (SiteType s) SiteWarehouse,
       Site.PICUserIDs := ifNil (Site.PICUserIDs s) []\<rparr>"

record SiteLink =
  ID :: ObjectID
  SiteID :: string
  CompanyID :: string
  Relation :: SiteRelation
  LinkedByUserID :: "string option"
  CreatedAt :: Time

record Document = Base +
  CompanyID :: string
  VehicleID :: string
  DriverID :: "string option"
  DocType :: string
  Number :: "string option"
  IssuedOn :: "Time option"
  ExpiresOn :: "Time option"
  FileKey :: "string option"
  IsVerified :: bool
  VerifiedByUserID :: "string option"
  Notes :: "string option"

definition Document_BeforeWrite :: "Document \<Rightarrow> Document" where
  "Document_BeforeWrite d =
     d\<lparr>DocType := ToUpper (TrimSpace (DocType d)), Number := Optional TrimSpace (Number d)\<rparr>"

section \<open>What the database keeps of a document\<close>

text \<open>
  A map tagged \<^verbatim>\<open>omitempty\<close> is not written when it is empty, and reads back as nil. The
  other fields with that tag are texts and pointers, which read back as they were.
\<close>

definition omitEmpty :: "Attrs option \<Rightarrow> Attrs option" where
  "omitEmpty a = (case a of None \<Rightarrow> None | Some m \<Rightarrow> if dom m = {} then None else Some m)"

definition Vehicle_AsStored :: "Vehicle \<Rightarrow> Vehicle" where
  "Vehicle_AsStored v = v\<lparr>Vehicle.Attributes := omitEmpty (Vehicle.Attributes v)\<rparr>"

definition Driver_AsStored :: "Driver \<Rightarrow> Driver" where
  "Driver_AsStored d = d\<lparr>Driver.Attributes := omitEmpty (Driver.Attributes d)\<rparr>"

definition Tracker_AsStored :: "Tracker \<Rightarrow> Tracker" where
  "Tracker_AsStored t = t\<lparr>Tracker.Attributes := omitEmpty (Tracker.Attributes t)\<rparr>"

definition Site_AsStored :: "Site \<Rightarrow> Site" where
  "Site_AsStored s = s\<lparr>Site.Attributes := omitEmpty (Site.Attributes s)\<rparr>"

lemma AsStored_Base [simp]:
  "Base.ID (Vehicle_AsStored v) = Base.ID v" "Base.Deleted (Vehicle_AsStored v) = Base.Deleted v"
  "Base.ID (Driver_AsStored d) = Base.ID d" "Base.Deleted (Driver_AsStored d) = Base.Deleted d"
  "Base.ID (Tracker_AsStored t) = Base.ID t" "Base.Deleted (Tracker_AsStored t) = Base.Deleted t"
  "Base.ID (Site_AsStored s) = Base.ID s" "Base.Deleted (Site_AsStored s) = Base.Deleted s"
  by (simp_all add: Vehicle_AsStored_def Driver_AsStored_def Tracker_AsStored_def Site_AsStored_def)

lemma AsStored_id [simp]:
  "(Vehicle_AsStored v)\<lparr>Base.ID := i\<rparr> = Vehicle_AsStored (v\<lparr>Base.ID := i\<rparr>)"
  "(Driver_AsStored d)\<lparr>Base.ID := i\<rparr> = Driver_AsStored (d\<lparr>Base.ID := i\<rparr>)"
  "(Tracker_AsStored t)\<lparr>Base.ID := i\<rparr> = Tracker_AsStored (t\<lparr>Base.ID := i\<rparr>)"
  "(Site_AsStored s)\<lparr>Base.ID := i\<rparr> = Site_AsStored (s\<lparr>Base.ID := i\<rparr>)"
  by (simp_all add: Vehicle_AsStored_def Driver_AsStored_def Tracker_AsStored_def Site_AsStored_def)

lemma Vehicle_AsStored_simps [simp]:
  "Vehicle.CompanyID (Vehicle_AsStored v) = Vehicle.CompanyID v"
  "LicensePlate (Vehicle_AsStored v) = LicensePlate v"
  "PlateNormalised (Vehicle_AsStored v) = PlateNormalised v"
  "ChassisNormalised (Vehicle_AsStored v) = ChassisNormalised v"
  "UnitType (Vehicle_AsStored v) = UnitType v"
  "Vehicle.TrackerID (Vehicle_AsStored v) = Vehicle.TrackerID v"
  "CurrentDriverID (Vehicle_AsStored v) = CurrentDriverID v"
  "CurrentDriverUserID (Vehicle_AsStored v) = CurrentDriverUserID v"
  "Vehicle_Validate (Vehicle_AsStored v) = Vehicle_Validate v"
  by (simp_all add: Vehicle_AsStored_def Vehicle_Validate_def)

lemma Driver_AsStored_simps [simp]:
  "Driver.CompanyID (Driver_AsStored d) = Driver.CompanyID d" "FullName (Driver_AsStored d) = FullName d"
  "Driver.Status (Driver_AsStored d) = Driver.Status d" "UserID (Driver_AsStored d) = UserID d"
  "Driver_Validate (Driver_AsStored d) = Driver_Validate d"
  by (simp_all add: Driver_AsStored_def Driver_Validate_def)

lemma Tracker_AsStored_simps [simp]:
  "Tracker.CompanyID (Tracker_AsStored t) = Tracker.CompanyID t" "Tracker.Kind (Tracker_AsStored t) = Tracker.Kind t"
  "Tracker.DeviceID (Tracker_AsStored t) = Tracker.DeviceID t" "Tracker.IMEI (Tracker_AsStored t) = Tracker.IMEI t"
  "Tracker.Status (Tracker_AsStored t) = Tracker.Status t"
  by (simp_all add: Tracker_AsStored_def)

section \<open>What a write keeps\<close>

text \<open>The rules of \<^verbatim>\<open>BeforeWrite\<close> leave identity, tenancy, retirement and pairings alone.\<close>

lemma SetID_simps [simp]: "Base.ID (SetID i d) = i" "Base.Deleted (SetID i d) = Base.Deleted d"
  by (simp_all add: SetID_def)

lemma Stamp_simps [simp]:
  "Base.ID (Stamp now cr d) = Base.ID d"
  "Base.Deleted (Stamp now cr d) = Base.Deleted d"
  "Base.UpdatedAt (Stamp now cr d) = now"
  "Base.more (Stamp now cr d) = Base.more d"
  by (simp_all add: Stamp_def)

lemma Stamp_more:
  "f (Base.more d) = g d \<Longrightarrow> (\<And>x. f (Base.more x) = g x) \<Longrightarrow> g (Stamp now cr d) = g d"
  by (metis Stamp_simps(4))

lemma Stamp_Vehicle [simp]:
  "Vehicle.CompanyID (Stamp now cr v) = Vehicle.CompanyID v"
  "LicensePlate (Stamp now cr v) = LicensePlate v"
  "PlateNormalised (Stamp now cr v) = PlateNormalised v"
  "ChassisNumber (Stamp now cr v) = ChassisNumber v"
  "ChassisNormalised (Stamp now cr v) = ChassisNormalised v"
  "Vehicle.TrackerID (Stamp now cr v) = Vehicle.TrackerID v"
  "CurrentDriverID (Stamp now cr v) = CurrentDriverID v"
  "CurrentDriverUserID (Stamp now cr v) = CurrentDriverUserID v"
  by (simp_all add: Stamp_def)

lemma Vehicle_BeforeWrite_simps [simp]:
  "Base.ID (Vehicle_BeforeWrite v) = Base.ID v"
  "Base.Deleted (Vehicle_BeforeWrite v) = Base.Deleted v"
  "Vehicle.CompanyID (Vehicle_BeforeWrite v) = Vehicle.CompanyID v"
  "LicensePlate (Vehicle_BeforeWrite v) = LicensePlate v"
  "PlateNormalised (Vehicle_BeforeWrite v) = Plate (LicensePlate v)"
  "ChassisNumber (Vehicle_BeforeWrite v) = ChassisNumber v"
  "ChassisNormalised (Vehicle_BeforeWrite v) = Optional Serial (ChassisNumber v)"
  "Vehicle.TrackerID (Vehicle_BeforeWrite v) = Vehicle.TrackerID v"
  "CurrentDriverID (Vehicle_BeforeWrite v) = CurrentDriverID v"
  "CurrentDriverUserID (Vehicle_BeforeWrite v) = CurrentDriverUserID v"
  by (simp_all add: Vehicle_BeforeWrite_def Let_def)

lemma Stamp_Driver [simp]:
  "Driver.CompanyID (Stamp now cr d) = Driver.CompanyID d"
  "FullName (Stamp now cr d) = FullName d"
  "Driver.Status (Stamp now cr d) = Driver.Status d"
  "UserID (Stamp now cr d) = UserID d"
  by (simp_all add: Stamp_def)

lemma Driver_BeforeWrite_simps [simp]:
  "Base.ID (Driver_BeforeWrite d) = Base.ID d"
  "Base.Deleted (Driver_BeforeWrite d) = Base.Deleted d"
  "Driver.CompanyID (Driver_BeforeWrite d) = Driver.CompanyID d"
  "FullName (Driver_BeforeWrite d) = TrimSpace (FullName d)"
  "UserID (Driver_BeforeWrite d) = UserID d"
  by (simp_all add: Driver_BeforeWrite_def Let_def)

lemma Stamp_Tracker [simp]:
  "Tracker.CompanyID (Stamp now cr t) = Tracker.CompanyID t"
  "Tracker.Kind (Stamp now cr t) = Tracker.Kind t"
  "Tracker.DeviceID (Stamp now cr t) = Tracker.DeviceID t"
  "Tracker.IMEI (Stamp now cr t) = Tracker.IMEI t"
  "Tracker.Status (Stamp now cr t) = Tracker.Status t"
  by (simp_all add: Stamp_def)

lemma Tracker_BeforeWrite_simps [simp]:
  "Base.ID (Tracker_BeforeWrite t) = Base.ID t"
  "Base.Deleted (Tracker_BeforeWrite t) = Base.Deleted t"
  "Tracker.CompanyID (Tracker_BeforeWrite t) = Tracker.CompanyID t"
  "Tracker.Kind (Tracker_BeforeWrite t) = ifEmpty (Tracker.Kind t) TrackerGPS"
  by (simp_all add: Tracker_BeforeWrite_def Let_def)

text \<open>A device's identity is its device id: digits for a GPS device, which then equals the IMEI.\<close>

definition wellTyped_Tracker :: "Tracker \<Rightarrow> bool" where
  "wellTyped_Tracker t \<longleftrightarrow>
     Tracker.Kind t \<noteq> [] \<and> Owner t \<noteq> [] \<and> Tracker.Status t \<noteq> [] \<and>
     (if Tracker.Kind t = TrackerGPS
      then list_all isDigit (Tracker.DeviceID t) \<and> Tracker.IMEI t = Tracker.DeviceID t
      else trimmed (Tracker.DeviceID t) \<and> Tracker.IMEI t = [])"

lemma wellTyped_Tracker_BeforeWrite: "wellTyped_Tracker (Tracker_BeforeWrite t)"
  by (simp add: wellTyped_Tracker_def Tracker_BeforeWrite_def Let_def enum_defs IMEI_digits)

lemma Optional_IMEI_idem [simp]: "Optional Normalise.ICCID (Optional Normalise.ICCID v) = Optional Normalise.ICCID v"
proof (rule Optional_idem)
  show "Normalise.ICCID (Normalise.ICCID x) = Normalise.ICCID x" for x
    by (simp add: Normalise.ICCID_def removeNonDigits_def)
  show "TrimSpace (Normalise.ICCID x) \<noteq> []" if "Normalise.ICCID x \<noteq> []" for x
    using that by (auto simp: Normalise.ICCID_def removeNonDigits_def TrimSpace_eq_Nil
        isDigit_not_space filter_empty_conv)
qed

text \<open>
  A document is settled when it is as \<^verbatim>\<open>BeforeWrite\<close> leaves it: its normalised twins
  follow the fields they are made from and its defaults are filled in. The attributes do not
  count: the empty map the hook puts there is not stored.
\<close>

definition settled_Vehicle :: "Vehicle \<Rightarrow> bool" where
  "settled_Vehicle v \<longleftrightarrow>
     PlateNormalised v = Plate (LicensePlate v) \<and>
     ChassisNormalised v = Optional Serial (ChassisNumber v) \<and>
     UnitType v \<noteq> [] \<and> Vehicle.Status v \<noteq> []"

definition settled_Driver :: "Driver \<Rightarrow> bool" where
  "settled_Driver d \<longleftrightarrow>
     TrimSpace (FullName d) = FullName d \<and>
     Driver.NameNormalised d = Normalise.Name (FullName d) \<and>
     Optional TrimSpace (Driver.Phone d) = Driver.Phone d \<and>
     PhoneNormalised d = Optional Normalise.IMEI (Driver.Phone d) \<and>
     Optional TrimSpace (EmployeeNo d) = EmployeeNo d \<and>
     Optional Serial (LicenseNo d) = LicenseNo d \<and>
     Optional TrimSpace (LicenseClass d) = LicenseClass d \<and>
     map_option midnight (LicenseExpiry d) = LicenseExpiry d \<and>
     Driver.Status d \<noteq> []"

definition settled_Tracker :: "Tracker \<Rightarrow> bool" where
  "settled_Tracker t \<longleftrightarrow>
     wellTyped_Tracker t \<and> Optional Normalise.ICCID (Tracker.ICCID t) = Tracker.ICCID t"

definition settled_TrackerAssignment :: "TrackerAssignment \<Rightarrow> bool" where
  "settled_TrackerAssignment a \<longleftrightarrow>
     TrackerAssignment.Kind a \<noteq> [] \<and>
     (if TrackerAssignment.Kind a = TrackerGPS
      then list_all isDigit (TrackerAssignment.DeviceID a) \<and>
           TrackerAssignment.IMEI a = TrackerAssignment.DeviceID a
      else TrackerAssignment.IMEI a = [])"

definition settled_Site :: "Site \<Rightarrow> bool" where
  "settled_Site s \<longleftrightarrow>
     Site.NameNormalised s = Normalise.Name (Site.Name s) \<and> PICs s \<noteq> None \<and> SiteType s \<noteq> [] \<and>
     Site.PICUserIDs s \<noteq> None"

lemma BeforeWrite_attributes:
  "Vehicle.Attributes (Vehicle_BeforeWrite v) \<noteq> None" "Driver.Attributes (Driver_BeforeWrite d) \<noteq> None"
  by (simp_all add: Vehicle_BeforeWrite_def Driver_BeforeWrite_def Let_def)

lemma IMEI_of_digits: "list_all isDigit s \<Longrightarrow> Normalise.IMEI s = s"
  by (simp add: Normalise.IMEI_def removeNonDigits_def list_all_iff)

lemma map_option_midnight_idem [simp]:
  "map_option midnight (map_option midnight x) = map_option midnight x"
  by (cases x) simp_all

lemma settled_Vehicle_BeforeWrite: "settled_Vehicle (Vehicle_BeforeWrite v)"
  by (simp add: settled_Vehicle_def Vehicle_BeforeWrite_def enum_defs)

lemma settled_Driver_BeforeWrite: "settled_Driver (Driver_BeforeWrite d)"
  by (simp add: settled_Driver_def Driver_BeforeWrite_def Let_def)

lemma settled_Tracker_BeforeWrite: "settled_Tracker (Tracker_BeforeWrite t)"
  by (simp add: settled_Tracker_def wellTyped_Tracker_BeforeWrite)
    (simp add: Tracker_BeforeWrite_def Let_def)

lemma settled_TrackerAssignment_BeforeWrite:
  "settled_TrackerAssignment (TrackerAssignment_BeforeWrite a)"
  by (simp add: settled_TrackerAssignment_def TrackerAssignment_BeforeWrite_def Let_def enum_defs
      IMEI_digits)

lemma settled_Site_BeforeWrite: "settled_Site (Site_BeforeWrite s)"
  by (simp add: settled_Site_def Site_BeforeWrite_def enum_defs)

lemma settled_AsStored [simp]:
  "settled_Vehicle (Vehicle_AsStored v) = settled_Vehicle v" "settled_Driver (Driver_AsStored d) = settled_Driver d"
  "settled_Tracker (Tracker_AsStored t) = settled_Tracker t" "settled_Site (Site_AsStored s) = settled_Site s"
  by (simp_all add: settled_Vehicle_def settled_Driver_def settled_Tracker_def wellTyped_Tracker_def settled_Site_def
      Vehicle_AsStored_def Driver_AsStored_def Tracker_AsStored_def Site_AsStored_def)

lemma ifNil_not_None [simp]: "v \<noteq> None \<Longrightarrow> ifNil v d = v"
  by auto

lemma Vehicle_BeforeWrite_settled:
  "settled_Vehicle v \<Longrightarrow> Vehicle.Attributes v \<noteq> None \<Longrightarrow> Vehicle_BeforeWrite v = v"
  by (cases v) (simp add: settled_Vehicle_def Vehicle_BeforeWrite_def del: not_None_eq)

lemma Driver_BeforeWrite_settled:
  "settled_Driver d \<Longrightarrow> Driver.Attributes d \<noteq> None \<Longrightarrow> Driver_BeforeWrite d = d"
  by (cases d) (simp add: settled_Driver_def Driver_BeforeWrite_def Let_def del: not_None_eq)

lemma Tracker_BeforeWrite_settled: "settled_Tracker t \<Longrightarrow> Tracker_BeforeWrite t = t"
  by (cases t; cases "Tracker.Kind t = TrackerGPS"; cases "Tracker.DeviceID t = []")
    (simp_all add: settled_Tracker_def wellTyped_Tracker_def Tracker_BeforeWrite_def Let_def
      IMEI_of_digits)

lemma TrackerAssignment_BeforeWrite_settled:
  "settled_TrackerAssignment a \<Longrightarrow> TrackerAssignment_BeforeWrite a = a"
  by (cases a; cases "TrackerAssignment.Kind a = TrackerGPS"; cases "TrackerAssignment.DeviceID a = []")
    (simp_all add: settled_TrackerAssignment_def TrackerAssignment_BeforeWrite_def Let_def IMEI_of_digits)

lemma Site_BeforeWrite_settled: "settled_Site s \<Longrightarrow> Site_BeforeWrite s = s"
  by (cases s) (simp add: settled_Site_def Site_BeforeWrite_def del: not_None_eq)

lemma ToUpper_isSpace: "isSpace (upperChar c) = isSpace c"
  by (auto simp: isSpace_code upperChar_def isLower_def)

lemma trimmed_ToUpper [simp]: "trimmed (ToUpper s) = trimmed s"
  by (simp add: trimmed_def ToUpper_def hd_map last_map ToUpper_isSpace)

lemma Document_BeforeWrite_idem: "Document_BeforeWrite (Document_BeforeWrite d) = Document_BeforeWrite d"
  by (simp add: Document_BeforeWrite_def Let_def)

lemma SensorType_BeforeWrite_idem:
  "SensorType_BeforeWrite (SensorType_BeforeWrite t) = SensorType_BeforeWrite t"
  by (simp add: SensorType_BeforeWrite_def Let_def)

lemma TrackerModel_BeforeWrite_idem:
  "TrackerModel_BeforeWrite (TrackerModel_BeforeWrite m) = TrackerModel_BeforeWrite m"
  by (simp add: TrackerModel_BeforeWrite_def Let_def enum_defs)

end
