(* ===== verification/Mongo.thy ===== *)
theory Mongo
  imports Models "HOL-Library.Monad_Syntax"
begin

text \<open>
  The MongoDB driver, as the service uses it. The driver, the server, object ids, the clock and
  the notice channel are not under \<^verbatim>\<open>src/\<close>: a collection is a handle whose
  operations are parameters, and the world \<open>'w\<close> they act on is opaque; \<open>vw w\<close> is what the
  database holds. What the code relies on is the locale \<open>mongo_collection\<close>: documents
  are keyed by \<^verbatim>\<open>_id\<close>, the unique indexes of the schema hold, a read changes nothing and
  sees what is there, and a write changes the documents it matches and nothing else. A write
  that reports an error may still have taken effect, wholly for one document or on some of the
  documents for many. Nobody else writes between two calls of one operation.

  A filter is the predicate it denotes, and \<^verbatim>\<open>$set\<close> is a record update.
\<close>

section \<open>Collections\<close>

datatype bval = BNull | BString string | BObjectID ObjectID

record FindOptions =
  Skip :: int
  Limit :: int
  SortBy :: "(string \<times> int) list"

record ('w, 'd) Collection =
  Find :: "('d \<Rightarrow> bool) \<Rightarrow> FindOptions option \<Rightarrow> ('w, 'd list) io"
  FindOne :: "('d \<Rightarrow> bool) \<Rightarrow> ('w, 'd option) io"
  CountDocuments :: "('d \<Rightarrow> bool) \<Rightarrow> ('w, int) io"
  Distinct :: "('d \<Rightarrow> bval) \<Rightarrow> ('d \<Rightarrow> bool) \<Rightarrow> ('w, bval list) io"
  InsertOne :: "'d \<Rightarrow> ('w, ObjectID) io"
  ReplaceOne :: "('d \<Rightarrow> bool) \<Rightarrow> 'd \<Rightarrow> ('w, int) io"
  UpdateOne :: "('d \<Rightarrow> bool) \<Rightarrow> ('d \<Rightarrow> 'd) \<Rightarrow> ('w, int) io"
  UpdateMany :: "('d \<Rightarrow> bool) \<Rightarrow> ('d \<Rightarrow> 'd) \<Rightarrow> ('w, int) io"
  DeleteMany :: "('d \<Rightarrow> bool) \<Rightarrow> ('w, int) io"

text \<open>
  The documents of a collection, and what a write may leave of them. \<open>inserted\<close>,
  \<open>replaced\<close> and \<open>updated\<close> relate the documents before and after.
\<close>

type_synonym 'd docs = "ObjectID \<rightharpoonup> 'd"

definition matching :: "('d \<Rightarrow> bool) \<Rightarrow> 'd docs \<Rightarrow> ObjectID set" where
  "matching p m = {i. \<exists>d. m i = Some d \<and> p d}"

definition inserted ::
  "('d \<Rightarrow> ObjectID) \<Rightarrow> (ObjectID \<Rightarrow> 'd \<Rightarrow> 'd) \<Rightarrow> 'd \<Rightarrow> ObjectID \<Rightarrow> 'd docs \<Rightarrow> 'd docs \<Rightarrow> bool" where
  "inserted idof setid d i m m' \<longleftrightarrow>
     m i = None \<and> i \<noteq> NilObjectID \<and> (idof d \<noteq> NilObjectID \<longrightarrow> i = idof d) \<and> m' = m(i \<mapsto> setid i d)"

definition updated :: "('d \<Rightarrow> bool) \<Rightarrow> ('d \<Rightarrow> 'd) \<Rightarrow> 'd docs \<Rightarrow> 'd docs \<Rightarrow> bool" where
  "updated p f m m' \<longleftrightarrow> (\<exists>i \<in> matching p m. m' = modify {i} p f m)"

text \<open>
  A unique index is the key it gives a document, \<open>None\<close> for a document outside its partial
  filter: no two documents have the same key.
\<close>

type_synonym 'd index = "'d \<Rightarrow> string option list option"

definition indexed :: "'d index list \<Rightarrow> 'd docs \<Rightarrow> bool" where
  "indexed ixs m \<longleftrightarrow>
     (\<forall>ix \<in> set ixs. \<forall>i j d e. m i = Some d \<longrightarrow> m j = Some e \<longrightarrow> ix d \<noteq> None \<longrightarrow> ix d = ix e \<longrightarrow> i = j)"

section \<open>The contract\<close>

text \<open>A query is complete unless it skips or limits; a positive limit bounds the rows it returns.\<close>

definition unlimited :: "FindOptions option \<Rightarrow> bool" where
  "unlimited opts \<longleftrightarrow> (case opts of None \<Rightarrow> True | Some o' \<Rightarrow> Skip o' = 0 \<and> Limit o' = 0)"

definition withinLimit :: "FindOptions option \<Rightarrow> 'd list \<Rightarrow> bool" where
  "withinLimit opts ds \<longleftrightarrow>
     (case opts of None \<Rightarrow> True | Some o' \<Rightarrow> 0 < Limit o' \<longrightarrow> int (length ds) \<le> Limit o')"

lemma limit_simps [simp]: "unlimited None" "withinLimit None ds"
  by (simp_all add: unlimited_def withinLimit_def)

definition found :: "('d \<Rightarrow> ObjectID) \<Rightarrow> ('d \<Rightarrow> bool) \<Rightarrow> FindOptions option \<Rightarrow> 'd docs \<Rightarrow> 'd list \<Rightarrow> bool" where
  "found idof p opts m ds \<longleftrightarrow>
     (\<forall>d \<in> set ds. p d \<and> m (idof d) = Some d) \<and> distinct (map idof ds) \<and>
     (unlimited opts \<longrightarrow> idof ` set ds = matching p m) \<and> withinLimit opts ds"

definition foundOne :: "('d \<Rightarrow> ObjectID) \<Rightarrow> ('d \<Rightarrow> bool) \<Rightarrow> 'd docs \<Rightarrow> 'd option \<Rightarrow> bool" where
  "foundOne idof p m x \<longleftrightarrow>
     (case x of None \<Rightarrow> matching p m = {} | Some d \<Rightarrow> p d \<and> m (idof d) = Some d)"

definition inWorld :: "('w \<Rightarrow> bool) \<Rightarrow> ('w \<Rightarrow> 'v) \<Rightarrow> ('v \<Rightarrow> bool) \<Rightarrow> 'w \<Rightarrow> bool" where
  "inWorld good vw P w \<longleftrightarrow> good w \<and> P (vw w)"

text \<open>The worlds the laws speak of, and what the database holds in them.\<close>

locale world =
  fixes good :: "'w \<Rightarrow> bool"
    and vw :: "'w \<Rightarrow> 'v"
begin

abbreviation holds :: "('v \<Rightarrow> bool) \<Rightarrow> 'w \<Rightarrow> bool" where
  "holds \<equiv> inWorld good vw"

lemma holdsD: "holds P w \<Longrightarrow> good w" "holds P w \<Longrightarrow> P (vw w)"
  by (simp_all add: inWorld_def)

end

locale mongo_collection = world good vw
  for good :: "'w \<Rightarrow> bool"
    and vw :: "'w \<Rightarrow> 'v" +
  fixes c :: "('w, 'd) Collection"
    and get :: "'v \<Rightarrow> 'd docs"
    and put :: "'d docs \<Rightarrow> 'v \<Rightarrow> 'v"
    and idof :: "'d \<Rightarrow> ObjectID"
    and setid :: "ObjectID \<Rightarrow> 'd \<Rightarrow> 'd"
    and ixs :: "'d index list"
  assumes idof_setid: "idof (setid i d) = i"
    and get_put: "get (put m v) = m"
    and put_get: "put (get v) v = v"
    and keyed: "good w \<Longrightarrow> get (vw w) i = Some d \<Longrightarrow> idof d = i \<and> i \<noteq> NilObjectID"
    and finite_docs: "good w \<Longrightarrow> finite (dom (get (vw w)))"
    and indexed_docs: "good w \<Longrightarrow> indexed ixs (get (vw w))"
    and find: "good w \<Longrightarrow> Find c p opts w = (rf, w') \<Longrightarrow>
        good w' \<and> vw w' = vw w \<and> (\<forall>ds. rf = Inr ds \<longrightarrow> found idof p opts (get (vw w)) ds)"
    and find_one: "good w \<Longrightarrow> FindOne c p w = (ro, w') \<Longrightarrow>
        good w' \<and> vw w' = vw w \<and> (\<forall>x. ro = Inr x \<longrightarrow> foundOne idof p (get (vw w)) x)"
    and count: "good w \<Longrightarrow> CountDocuments c p w = (rc, w') \<Longrightarrow>
        good w' \<and> vw w' = vw w \<and> (\<forall>n. rc = Inr n \<longrightarrow> n = int (card (matching p (get (vw w)))))"
    and distinct_values: "good w \<Longrightarrow> Distinct c key p w = (rd, w') \<Longrightarrow>
        good w' \<and> vw w' = vw w \<and>
        (\<forall>vs. rd = Inr vs \<longrightarrow> set vs = {key d | d i. get (vw w) i = Some d \<and> p d})"
    and insert_one: "good w \<Longrightarrow> InsertOne c d w = (ri, w') \<Longrightarrow>
        good w' \<and> vw w' = put (get (vw w')) (vw w) \<and>
        (\<forall>i. ri = Inr i \<longrightarrow> inserted idof setid d i (get (vw w)) (get (vw w'))) \<and>
        (\<forall>e. ri = Inl e \<longrightarrow> vw w' = vw w \<or>
           e \<noteq> ErrDriver DuplicateKey \<and> (\<exists>i. inserted idof setid d i (get (vw w)) (get (vw w'))))"
    and replace_one: "good w \<Longrightarrow> (\<And>x. p x \<Longrightarrow> idof x = idof d) \<Longrightarrow> ReplaceOne c p d w = (rr, w') \<Longrightarrow>
        good w' \<and> vw w' = put (get (vw w')) (vw w) \<and>
        (\<forall>n. rr = Inr n \<longrightarrow>
           (if matching p (get (vw w)) = {} then n = 0 \<and> vw w' = vw w
            else n = 1 \<and> updated p (\<lambda>_. d) (get (vw w)) (get (vw w')))) \<and>
        (\<forall>e. rr = Inl e \<longrightarrow> vw w' = vw w \<or>
           e \<noteq> ErrDriver DuplicateKey \<and> updated p (\<lambda>_. d) (get (vw w)) (get (vw w')))"
    and update_one: "good w \<Longrightarrow> (\<And>x. idof (f x) = idof x) \<Longrightarrow> UpdateOne c p f w = (ru, w') \<Longrightarrow>
        good w' \<and> vw w' = put (get (vw w')) (vw w) \<and>
        (\<forall>n. ru = Inr n \<longrightarrow>
           (if matching p (get (vw w)) = {} then n = 0 \<and> vw w' = vw w
            else n = 1 \<and> updated p f (get (vw w)) (get (vw w')))) \<and>
        (\<forall>e. ru = Inl e \<longrightarrow> vw w' = vw w \<or> updated p f (get (vw w)) (get (vw w')))"
    and update_many: "good w \<Longrightarrow> (\<And>x. idof (f x) = idof x) \<Longrightarrow> UpdateMany c p f w = (rm, w') \<Longrightarrow>
        good w' \<and> (\<exists>S. vw w' = put (modify S p f (get (vw w))) (vw w)) \<and>
        (\<forall>n. rm = Inr n \<longrightarrow>
           n = int (card (matching p (get (vw w)))) \<and>
           vw w' = put (modify UNIV p f (get (vw w))) (vw w))"
    and delete_many: "good w \<Longrightarrow> DeleteMany c p w = (rx, w') \<Longrightarrow>
        good w' \<and>
        (\<exists>S \<subseteq> matching p (get (vw w)). vw w' = put (get (vw w) |` (- S)) (vw w) \<and>
           (\<forall>n. rx = Inr n \<longrightarrow> S = matching p (get (vw w)) \<and> n = int (card S)))"
begin

text \<open>The contract as Hoare rules on what the database holds.\<close>

lemma find_triple:
  "triple (holds P) (Find c p opts) (\<lambda>ds. holds (\<lambda>v. P v \<and> found idof p opts (get v) ds)) (holds P)"
  by (rule tripleI) (auto simp: inWorld_def dest: find)

lemma find_one_triple:
  "triple (holds P) (FindOne c p) (\<lambda>x. holds (\<lambda>v. P v \<and> foundOne idof p (get v) x)) (holds P)"
  by (rule tripleI) (auto simp: inWorld_def dest: find_one)

lemma count_triple:
  "triple (holds P) (CountDocuments c p)
     (\<lambda>n. holds (\<lambda>v. P v \<and> n = int (card (matching p (get v))))) (holds P)"
  by (rule tripleI) (auto simp: inWorld_def dest: count)

lemma distinct_triple:
  "triple (holds P) (Distinct c key p)
     (\<lambda>vs. holds (\<lambda>v. P v \<and> set vs = {key d | d i. get v i = Some d \<and> p d})) (holds P)"
proof (rule tripleI)
  fix w vs w' assume P: "holds P w" and run: "Distinct c key p w = (Inr vs, w')"
  from P have "good w" by (simp add: inWorld_def)
  from distinct_values [OF this run]
  have "good w'" "vw w' = vw w" "set vs = {key d | d i. get (vw w) i = Some d \<and> p d}" by simp_all
  with P show "holds (\<lambda>v. P v \<and> set vs = {key d | d i. get v i = Some d \<and> p d}) w'"
    by (simp add: inWorld_def)
next
  fix w e w' assume P: "holds P w" and run: "Distinct c key p w = (Inl e, w')"
  from P have "good w" by (simp add: inWorld_def)
  from distinct_values [OF this run] P show "holds P w'" by (simp add: inWorld_def)
qed

lemma insert_triple:
  assumes step: "\<And>v i m'. P v \<Longrightarrow> (\<And>j x. get v j = Some x \<Longrightarrow> idof x = j \<and> j \<noteq> NilObjectID) \<Longrightarrow> inserted idof setid d i (get v) m' \<Longrightarrow> indexed ixs m' \<Longrightarrow>
             Q i (put m' v) \<and> E (put m' v)"
    and none: "\<And>v. P v \<Longrightarrow> E v"
  shows "triple (holds P) (InsertOne c d) (\<lambda>i. holds (Q i)) (holds E)"
proof (rule tripleI)
  fix w i w' assume P: "holds P w" and run: "InsertOne c d w = (Inr i, w')"
  have key: "get (vw w) j = Some x \<Longrightarrow> idof x = j \<and> j \<noteq> NilObjectID" for j x
    using keyed [OF holdsD(1) [OF P]] by blast
  note w' = insert_one [OF holdsD(1) [OF P] run]
  then have "Q i (put (get (vw w')) (vw w))"
    using step [OF holdsD(2) [OF P] key, of i "get (vw w')"] indexed_docs [of w'] by simp
  then show "holds (Q i) w'" using w' by (simp add: inWorld_def)
next
  fix w e w' assume P: "holds P w" and run: "InsertOne c d w = (Inl e, w')"
  have key: "get (vw w) j = Some x \<Longrightarrow> idof x = j \<and> j \<noteq> NilObjectID" for j x
    using keyed [OF holdsD(1) [OF P]] by blast
  note w' = insert_one [OF holdsD(1) [OF P] run]
  then consider "vw w' = vw w" | i where "inserted idof setid d i (get (vw w)) (get (vw w'))" by auto
  then have "E (vw w')"
  proof cases
    case 1
    then show ?thesis using none holdsD(2) [OF P] by simp
  next
    case 2
    then have "E (put (get (vw w')) (vw w))"
      using step [OF holdsD(2) [OF P] key] w' indexed_docs [of w'] by blast
    then show ?thesis using w' by simp
  qed
  then show "holds E w'" using w' by (simp add: inWorld_def)
qed

text \<open>Replacing and updating one document obey the same rule.\<close>

lemma write_one_triple:
  assumes law: "\<And>w r w'. good w \<Longrightarrow> m w = (r, w') \<Longrightarrow>
        good w' \<and> vw w' = put (get (vw w')) (vw w) \<and>
        (\<forall>n. r = Inr n \<longrightarrow>
           (if matching p (get (vw w)) = {} then n = 0 \<and> vw w' = vw w
            else n = (1::int) \<and> updated p f (get (vw w)) (get (vw w')))) \<and>
        (\<forall>e. r = Inl e \<longrightarrow> vw w' = vw w \<or> updated p f (get (vw w)) (get (vw w')))"
    and step: "\<And>v m'. P v \<Longrightarrow> (\<And>j x. get v j = Some x \<Longrightarrow> idof x = j) \<Longrightarrow> updated p f (get v) m' \<Longrightarrow> indexed ixs m' \<Longrightarrow>
           Q 1 (put m' v) \<and> E (put m' v)"
    and none: "\<And>v. P v \<Longrightarrow> matching p (get v) = {} \<Longrightarrow> Q 0 v"
    and fail: "\<And>v. P v \<Longrightarrow> E v"
  shows "triple (holds P) m (\<lambda>n. holds (Q n)) (holds E)"
proof (rule tripleI)
  fix w n w' assume P: "holds P w" and run: "m w = (Inr n, w')"
  have key: "get (vw w) j = Some x \<Longrightarrow> idof x = j" for j x using keyed [OF holdsD(1) [OF P]] by blast
  note w' = law [OF holdsD(1) [OF P] run]
  show "holds (Q n) w'"
  proof (cases "matching p (get (vw w)) = {}")
    case True
    then show ?thesis using w' none [OF holdsD(2) [OF P]] by (simp add: inWorld_def)
  next
    case False
    then have "n = 1" "Q 1 (put (get (vw w')) (vw w))" "vw w' = put (get (vw w')) (vw w)"
      using w' step [OF holdsD(2) [OF P] key, of "get (vw w')"] indexed_docs [of w'] by auto
    then show ?thesis using w' by (metis inWorld_def)
  qed
next
  fix w e w' assume P: "holds P w" and run: "m w = (Inl e, w')"
  have key: "get (vw w) j = Some x \<Longrightarrow> idof x = j" for j x using keyed [OF holdsD(1) [OF P]] by blast
  note w' = law [OF holdsD(1) [OF P] run]
  then consider "vw w' = vw w" | "updated p f (get (vw w)) (get (vw w'))" by auto
  then have "E (vw w')"
  proof cases
    case 1
    then show ?thesis using fail holdsD(2) [OF P] by simp
  next
    case 2
    then have "E (put (get (vw w')) (vw w))"
      using step [OF holdsD(2) [OF P] key] w' indexed_docs [of w'] by blast
    then show ?thesis using w' by simp
  qed
  then show "holds E w'" using w' by (simp add: inWorld_def)
qed

lemma replace_triple:
  assumes id: "\<And>x. p x \<Longrightarrow> idof x = idof d"
    and "\<And>v m'. P v \<Longrightarrow> (\<And>j x. get v j = Some x \<Longrightarrow> idof x = j) \<Longrightarrow> updated p (\<lambda>_. d) (get v) m' \<Longrightarrow> indexed ixs m' \<Longrightarrow>
           Q 1 (put m' v) \<and> E (put m' v)"
    and "\<And>v. P v \<Longrightarrow> matching p (get v) = {} \<Longrightarrow> Q 0 v"
    and "\<And>v. P v \<Longrightarrow> E v"
  shows "triple (holds P) (ReplaceOne c p d) (\<lambda>n. holds (Q n)) (holds E)"
proof (rule write_one_triple [where p = p and f = "\<lambda>_. d"])
  fix w r w' assume "good w" "ReplaceOne c p d w = (r, w')"
  note law = replace_one [OF this(1) id this(2)]
  show "good w' \<and> vw w' = put (get (vw w')) (vw w) \<and>
      (\<forall>n. r = Inr n \<longrightarrow>
         (if matching p (get (vw w)) = {} then n = 0 \<and> vw w' = vw w
          else n = 1 \<and> updated p (\<lambda>_. d) (get (vw w)) (get (vw w')))) \<and>
      (\<forall>e. r = Inl e \<longrightarrow> vw w' = vw w \<or> updated p (\<lambda>_. d) (get (vw w)) (get (vw w')))"
    by (insert law, drule meta_mp, assumption, elim conjE, intro conjI) (assumption | blast)+
qed (use assms(2-4) in blast)+

lemma update_one_triple:
  assumes id: "\<And>x. idof (f x) = idof x"
    and "\<And>v m'. P v \<Longrightarrow> (\<And>j x. get v j = Some x \<Longrightarrow> idof x = j) \<Longrightarrow> updated p f (get v) m' \<Longrightarrow> indexed ixs m' \<Longrightarrow>
           Q 1 (put m' v) \<and> E (put m' v)"
    and "\<And>v. P v \<Longrightarrow> matching p (get v) = {} \<Longrightarrow> Q 0 v"
    and "\<And>v. P v \<Longrightarrow> E v"
  shows "triple (holds P) (UpdateOne c p f) (\<lambda>n. holds (Q n)) (holds E)"
  by (rule write_one_triple [where p = p and f = f])
    (use update_one [OF _ id] assms(2-4) in \<open>assumption | blast\<close>)+

lemma update_many_triple:
  assumes id: "\<And>x. idof (f x) = idof x"
    and step: "\<And>v. P v \<Longrightarrow>
           Q (int (card (matching p (get v)))) (put (modify UNIV p f (get v)) v)"
    and part: "\<And>v S. P v \<Longrightarrow> E (put (modify S p f (get v)) v)"
  shows "triple (holds P) (UpdateMany c p f) (\<lambda>n. holds (Q n)) (holds E)"
proof (rule tripleI)
  fix w n w' assume P: "holds P w" and run: "UpdateMany c p f w = (Inr n, w')"
  from update_many [OF holdsD(1) [OF P] id run] step [OF holdsD(2) [OF P]]
  show "holds (Q n) w'" by (auto simp: inWorld_def)
next
  fix w e w' assume P: "holds P w" and run: "UpdateMany c p f w = (Inl e, w')"
  from update_many [OF holdsD(1) [OF P] id run] part [OF holdsD(2) [OF P]]
  show "holds E w'" by (auto simp: inWorld_def)
qed

lemma delete_many_triple:
  assumes step: "\<And>v. P v \<Longrightarrow> Q (int (card (matching p (get v)))) (put (get v |` (- matching p (get v))) v)"
    and part: "\<And>v S. P v \<Longrightarrow> S \<subseteq> matching p (get v) \<Longrightarrow> E (put (get v |` (- S)) v)"
  shows "triple (holds P) (DeleteMany c p) (\<lambda>n. holds (Q n)) (holds E)"
proof (rule tripleI)
  fix w n w' assume P: "holds P w" and run: "DeleteMany c p w = (Inr n, w')"
  from delete_many [OF holdsD(1) [OF P] run] step [OF holdsD(2) [OF P]]
  show "holds (Q n) w'" by (auto simp: inWorld_def)
next
  fix w e w' assume P: "holds P w" and run: "DeleteMany c p w = (Inl e, w')"
  from delete_many [OF holdsD(1) [OF P] run] part [OF holdsD(2) [OF P]]
  show "holds E w'" by (auto simp: inWorld_def)
qed

lemma holds_keyed:
  assumes "holds P w"
  shows "holds (\<lambda>v. P v \<and> (\<forall>i d. get v i = Some d \<longrightarrow> idof d = i \<and> i \<noteq> NilObjectID) \<and>
           finite (dom (get v)) \<and> indexed ixs (get v)) w"
  using assms keyed [of w] finite_docs [of w] indexed_docs [of w] by (auto simp: inWorld_def)

end

end
