(* ===== verification/Platform.thy ===== *)
theory Platform
  imports Mongo
begin

text \<open>
  What the services use besides collections: object ids and their hexadecimal form, the clock,
  the notice channel, session transactions and the database's regular expressions, all parameters
  of the model (\<open>Platform\<close>) with the laws the code relies on (locale \<open>platform\<close>).
  \<open>MatchRegex opts pat s\<close> is whether the text \<open>s\<close> satisfies \<^verbatim>\<open>$regex: pat\<close> with
  \<^verbatim>\<open>$options: opts\<close>.
\<close>

section \<open>Change notices\<close>

text \<open>The payload of a notice, the JSON object \<^verbatim>\<open>announce\<close> builds.\<close>

record Notice =
  NoticeKind :: string
  NoticeCompany :: string
  NoticeID :: string
  NoticeOp :: string

section \<open>The interface\<close>

record 'w Platform =
  Now :: "'w \<Rightarrow> Time \<times> 'w"
  NewObjectID :: "'w \<Rightarrow> ObjectID \<times> 'w"
  Hex :: "ObjectID \<Rightarrow> string"
  ObjectIDFromHex :: "string \<Rightarrow> ObjectID option"
  Publish :: "string \<Rightarrow> Notice \<Rightarrow> 'w \<Rightarrow> unit \<times> 'w"
  StartSession :: "'w \<Rightarrow> bool \<times> 'w"
  WithTransaction :: "('w, ObjectID option) io \<Rightarrow> ('w, ObjectID option) io"
  MatchRegex :: "string \<Rightarrow> string \<Rightarrow> string \<Rightarrow> bool"

text \<open>The text of an error, as \<^verbatim>\<open>err.Error()\<close> gives it.\<close>

fun errorText :: "error \<Rightarrow> string" where
  "errorText ErrNotFound = ''not found''"
| "errorText (ErrValidation s) = ''validation failed: '' @ s"
| "errorText (ErrUnknownKind s) = ''unknown catalogue: '' @ s"
| "errorText (ErrForbidden s) = ''forbidden: '' @ s"
| "errorText (ErrConflict s) = ''conflict: '' @ s"
| "errorText RepoErrNotFound = ''repository: not found''"
| "errorText RepoErrDuplicate = ''repository: already exists''"
| "errorText ErrPlateRequired =
     ''a licence plate is required, and it must contain at least one letter or digit: '' @
     ''the unique index is on the normalised form, and a plate that normalises to '' @
     ''nothing would slip past it''"
| "errorText ErrDriverNameRequired = ''a driver needs a name''"
| "errorText ErrDriverStatus = ''driver status must be active or inactive''"
| "errorText (ErrDriver DuplicateKey) = ''E11000 duplicate key error''"
| "errorText (ErrDriver (MongoFault s)) = s"

definition isNoTransactions :: "error \<Rightarrow> bool" where
  "isNoTransactions err =
     (let msg = errorText err
      in Contains msg ''Transaction numbers are only allowed'' \<or>
         Contains msg ''replica set'' \<or>
         Contains msg ''IllegalOperation'')"

text \<open>
  Reading the clock, minting an id, publishing a notice and opening a session leave the
  database as it is. A transaction runs its callback on the database as it was and either
  commits all of its effects with the callback's result, or reports an error and leaves none of
  them, unless the outcome of the commit itself is unknown; a deployment without transactions
  refuses before anything is written.

  A regular expression is searched for anywhere in a text, a leading \<^verbatim>\<open>^\<close> asks for it
  at the start, and the option \<^verbatim>\<open>i\<close> ignores the case of ASCII letters. The laws speak of
  the expressions that spell a text (\<open>spells\<close>) and hold no null character, which the
  database refuses; ignoring case they speak of ASCII texts, for a few letters beyond ASCII fold to
  ASCII ones.
\<close>

definition isAscii :: "char \<Rightarrow> bool" where
  "isAscii c \<longleftrightarrow> (of_char c :: nat) < 128"

locale platform = world good vw
  for good :: "'w \<Rightarrow> bool"
    and vw :: "'w \<Rightarrow> 'v" +
  fixes P :: "'w Platform"
  assumes now: "good w \<Longrightarrow> Now P w = (t, w') \<Longrightarrow> good w' \<and> vw w' = vw w"
    and new_id: "good w \<Longrightarrow> NewObjectID P w = (i, w') \<Longrightarrow> good w' \<and> vw w' = vw w \<and> i \<noteq> NilObjectID"
    and publish: "good w \<Longrightarrow> Publish P chan n w = (u, w') \<Longrightarrow> good w' \<and> vw w' = vw w"
    and start_session: "good w \<Longrightarrow> StartSession P w = (sn, w') \<Longrightarrow> good w' \<and> vw w' = vw w"
    and from_hex: "ObjectIDFromHex P (Hex P i) = Some i"
    and hex_text: "trimmed (Hex P i) \<and> Hex P i \<noteq> []"
    and hex_digits: "ObjectIDFromHex P s = Some i \<Longrightarrow> ToLower s = Hex P i"
    and transaction: "\<forall>w1 r1 w2. good w1 \<longrightarrow> f w1 = (r1, w2) \<longrightarrow> good w2 \<Longrightarrow>
        good w \<Longrightarrow> WithTransaction P f w = (r, w') \<Longrightarrow>
        good w' \<and>
        ((\<exists>w1 w2 x. good w1 \<and> vw w1 = vw w \<and> f w1 = (Inr x, w2) \<and> vw w' = vw w2 \<and>
            (r = Inr x \<or> (\<exists>e. r = Inl e \<and> \<not> isNoTransactions e))) \<or>
         (\<exists>e. r = Inl e \<and> vw w' = vw w))"
    and regex: "spells pat l \<Longrightarrow> CHR 0x00 \<notin> set pat \<Longrightarrow> MatchRegex P [] pat s \<longleftrightarrow> Contains s l"
    and regex_anchored: "spells pat l \<Longrightarrow> CHR 0x00 \<notin> set pat \<Longrightarrow>
        MatchRegex P [] (CHR ''^'' # pat) s \<longleftrightarrow> HasPrefix s l"
    and regex_caseless: "spells pat l \<Longrightarrow> CHR 0x00 \<notin> set pat \<Longrightarrow> list_all isAscii (l @ s) \<Longrightarrow>
        MatchRegex P ''i'' pat s \<longleftrightarrow> Contains (ToLower s) (ToLower l)"
    and regex_caseless_anchored: "spells pat l \<Longrightarrow> CHR 0x00 \<notin> set pat \<Longrightarrow> list_all isAscii (l @ s) \<Longrightarrow>
        MatchRegex P ''i'' (CHR ''^'' # pat) s \<longleftrightarrow> HasPrefix (ToLower s) (ToLower l)"
begin

text \<open>An escaped text is searched for as it is.\<close>

lemma escaped_plain: "CHR 0x00 \<notin> set l \<Longrightarrow> CHR 0x00 \<notin> set (escapeRegex l)"
  by (auto dest: escapeRegex_chars)

lemmas regex_escaped =
  regex [OF spells_escapeRegex escaped_plain] regex_anchored [OF spells_escapeRegex escaped_plain]
  regex_caseless [OF spells_escapeRegex escaped_plain] regex_caseless_anchored [OF spells_escapeRegex escaped_plain]

lemma now_triple: "triple (holds Q) (call (Now P)) (\<lambda>_. holds Q) (holds E)"
  by (rule tripleI) (auto simp: inWorld_def dest: now)

lemma new_id_triple:
  "triple (holds Q) (call (NewObjectID P)) (\<lambda>i. holds (\<lambda>v. Q v \<and> i \<noteq> NilObjectID)) (holds E)"
  by (rule tripleI) (auto simp: inWorld_def dest: new_id)

lemma publish_triple: "triple (holds Q) (call (Publish P chan n)) (\<lambda>_. holds Q) (holds E)"
  by (rule tripleI) (auto simp: inWorld_def dest: publish)

lemma session_triple: "triple (holds Q) (call (StartSession P)) (\<lambda>_. holds Q) (holds E)"
  by (rule tripleI) (auto simp: inWorld_def dest: start_session)

lemma hex_inj: "Hex P i = Hex P j \<longleftrightarrow> i = j"
  using from_hex by (metis option.inject)

lemma hex_trim [simp]: "TrimSpace (Hex P i) = Hex P i"
  using hex_text by simp

lemma total_run:
  assumes "triple (holds (\<lambda>_. True)) f (\<lambda>_. holds (\<lambda>_. True)) (holds (\<lambda>_. True))"
  shows "\<forall>w1 r1 w2. good w1 \<longrightarrow> f w1 = (r1, w2) \<longrightarrow> good w2"
  using triple_worldD [OF assms] by (simp add: inWorld_def)

text \<open>
  A transaction ends in what its callback establishes, or with an error in a state that the
  precondition or the callback's result describes; the first when the deployment has none.
\<close>

lemma transaction_triple:
  assumes total: "triple (holds (\<lambda>_. True)) f (\<lambda>_. holds (\<lambda>_. True)) (holds (\<lambda>_. True))"
    and run: "triple (holds Q) f (\<lambda>x. holds (R x)) (\<lambda>_. True)"
    and "\<And>v. Q v \<Longrightarrow> E v" and "\<And>v x. R x v \<Longrightarrow> E v"
  shows "triple (holds Q) (attempt (WithTransaction P f))
    (\<lambda>r. holds (\<lambda>v. case r of Inr x \<Rightarrow> R x v | Inl e \<Rightarrow> if isNoTransactions e then Q v else E v)) F"
proof (rule tripleI)
  fix w r w' assume Q: "holds Q w" and "attempt (WithTransaction P f) w = (Inr r, w')"
  then have tx: "WithTransaction P f w = (r, w')" and "good w" by (simp_all add: inWorld_def)
  note law = transaction [OF total_run [OF total] \<open>good w\<close> tx]
  then consider
      w1 w2 x where "good w'" "good w1" "vw w1 = vw w" "f w1 = (Inr x, w2)" "vw w' = vw w2"
        "r = Inr x \<or> (\<exists>e. r = Inl e \<and> \<not> isNoTransactions e)"
    | e where "good w'" "r = Inl e" "vw w' = vw w"
    by blast
  then show "holds (\<lambda>v. case r of Inr x \<Rightarrow> R x v | Inl e \<Rightarrow> if isNoTransactions e then Q v else E v) w'"
  proof cases
    case 1
    then have "holds (R x) w2" using Q by (intro triple_InrD [OF run]) (simp_all add: inWorld_def)
    then have "R x (vw w')" using 1(5) by (simp add: inWorld_def)
    then show ?thesis using 1(1,6) assms(4) by (auto simp: inWorld_def)
  next
    case 2
    then have "Q (vw w')" using Q by (simp add: inWorld_def)
    then show ?thesis using 2(1,2) assms(3) by (simp add: inWorld_def)
  qed
qed simp

end

end
