(* ===== verification/Schema.thy ===== *)
theory Schema
  imports Platform
begin

text \<open>
  What the database holds (\<open>MasterData\<close>, one map per collection the modelled services
  use) and the unique indexes of \<^verbatim>\<open>schema/master_data.js\<close>. An index is the key it
  gives a document, \<open>None\<close> where its partial filter leaves the document out; inside a key
  a null is \<open>None\<close>.
\<close>

section \<open>The collections\<close>

text \<open>A stored device model has a \<^verbatim>\<open>deleted\<close> field the Go struct does not declare.\<close>

record StoredModel = TrackerModel +
  Retired :: bool

record MasterData =
  Drivers :: "Driver docs"
  Vehicles :: "Vehicle docs"
  Trackers :: "Tracker docs"
  Assignments :: "TrackerAssignment docs"
  Members :: "VehicleGroupMember docs"
  Documents :: "Document docs"
  TrackerModels :: "StoredModel docs"
  Groups :: "VehicleGroup docs"
  Sites :: "Site docs"

section \<open>The unique indexes\<close>

definition live :: "bool \<Rightarrow> string option list \<Rightarrow> string option list option" where
  "live deleted key = (if deleted then None else Some key)"

definition liveString :: "bool \<Rightarrow> string option \<Rightarrow> string option list \<Rightarrow> string option list option" where
  "liveString deleted s key = (if deleted \<or> s = None then None else Some (s # key))"

definition uq_vehicle_plate :: "Vehicle index" where
  "uq_vehicle_plate v = live (Base.Deleted v) [Some (Vehicle.CompanyID v), Some (PlateNormalised v)]"

definition uq_vehicle_chassis :: "Vehicle index" where
  "uq_vehicle_chassis v = liveString (Base.Deleted v) (ChassisNormalised v) []"

definition uq_driver_phone :: "Driver index" where
  "uq_driver_phone d = liveString (Base.Deleted d) (PhoneNormalised d) [Some (Driver.CompanyID d)]"

definition uq_driver_employee_no :: "Driver index" where
  "uq_driver_employee_no d = liveString (Base.Deleted d) (EmployeeNo d) [Some (Driver.CompanyID d)]"

definition uq_driver_license :: "Driver index" where
  "uq_driver_license d = liveString (Base.Deleted d) (LicenseNo d) [Some (Driver.CompanyID d)]"

definition uq_driver_user :: "Driver index" where
  "uq_driver_user d = liveString (Base.Deleted d) (UserID d) []"

definition uq_tracker_device :: "Tracker index" where
  "uq_tracker_device t = live (Base.Deleted t) [Some (Tracker.Kind t), Some (Tracker.DeviceID t)]"

text \<open>\<^verbatim>\<open>imei\<close> is stored with \<^verbatim>\<open>omitempty\<close>: an empty one is absent.\<close>

definition uq_tracker_imei_gps :: "Tracker index" where
  "uq_tracker_imei_gps t =
     liveString (Base.Deleted t) (if Tracker.IMEI t = [] then None else Some (Tracker.IMEI t)) []"

definition uq_tracker_iccid :: "Tracker index" where
  "uq_tracker_iccid t = liveString (Base.Deleted t) (Tracker.ICCID t) []"

definition uq_assignment_live :: "TrackerAssignment index" where
  "uq_assignment_live a =
     liveString (UnfittedAt a \<noteq> None) (TrackerAssignment.TrackerID a) []"

definition uq_group_member :: "VehicleGroupMember index" where
  "uq_group_member g = Some [Some (GroupID g), Some (VehicleGroupMember.VehicleID g)]"

definition uq_tracker_model :: "StoredModel index" where
  "uq_tracker_model m = Some [Some (Vendor m), Some (Model m)]"

definition uq_vehicle_group :: "VehicleGroup index" where
  "uq_vehicle_group g = live (Base.Deleted g) [Some (VehicleGroup.CompanyID g), Some (VehicleGroup.NameNormalised g)]"

definition uq_site_name_per_customer :: "Site index" where
  "uq_site_name_per_customer s =
     live (Base.Deleted s)
       [Some (Site.CompanyID s), Some (SiteType s), CustomerCompanyID s, Some (Site.NameNormalised s)]"

definition vehicle_indexes :: "Vehicle index list" where
  "vehicle_indexes = [uq_vehicle_plate, uq_vehicle_chassis]"

definition driver_indexes :: "Driver index list" where
  "driver_indexes = [uq_driver_phone, uq_driver_employee_no, uq_driver_license, uq_driver_user]"

definition tracker_indexes :: "Tracker index list" where
  "tracker_indexes = [uq_tracker_device, uq_tracker_imei_gps, uq_tracker_iccid]"

definition assignment_indexes :: "TrackerAssignment index list" where
  "assignment_indexes = [uq_assignment_live]"

definition member_indexes :: "VehicleGroupMember index list" where
  "member_indexes = [uq_group_member]"

definition document_indexes :: "Document index list" where
  "document_indexes = []"

definition model_indexes :: "StoredModel index list" where
  "model_indexes = [uq_tracker_model]"

definition group_indexes :: "VehicleGroup index list" where
  "group_indexes = [uq_vehicle_group]"

definition site_indexes :: "Site index list" where
  "site_indexes = [uq_site_name_per_customer]"

text \<open>What the indexes say of the documents they hold.\<close>

lemma indexedD:
  assumes "indexed ixs m" "ix \<in> set ixs" "m i = Some d" "m j = Some e" "ix d = Some k" "ix e = Some k"
  shows "i = j"
proof -
  from assms(5,6) have "ix d \<noteq> None" "ix d = ix e" by simp_all
  with assms(1-4) show ?thesis unfolding indexed_def by blast
qed

lemma indexed_plates:
  assumes "indexed vehicle_indexes m" "m i = Some v" "m j = Some u"
    and "\<not> Base.Deleted v" "\<not> Base.Deleted u"
    and "Vehicle.CompanyID v = Vehicle.CompanyID u" "PlateNormalised v = PlateNormalised u"
  shows "i = j"
  using indexedD [OF assms(1), of uq_vehicle_plate i v j u] assms(2-)
  by (simp add: vehicle_indexes_def uq_vehicle_plate_def live_def)

lemma indexed_chassis:
  assumes "indexed vehicle_indexes m" "m i = Some v" "m j = Some u"
    and "\<not> Base.Deleted v" "\<not> Base.Deleted u"
    and "ChassisNormalised v = Some c" "ChassisNormalised u = Some c"
  shows "i = j"
  using indexedD [OF assms(1), of uq_vehicle_chassis i v j u] assms(2-)
  by (simp add: vehicle_indexes_def uq_vehicle_chassis_def liveString_def)

lemma indexed_open:
  assumes "indexed assignment_indexes m" "m i = Some a" "m j = Some b"
    and "UnfittedAt a = None" "UnfittedAt b = None"
    and "TrackerAssignment.TrackerID a = Some t" "TrackerAssignment.TrackerID b = Some t"
  shows "i = j"
  using indexedD [OF assms(1), of uq_assignment_live i a j b] assms(2-)
  by (simp add: assignment_indexes_def uq_assignment_live_def liveString_def)

lemma indexed_devices:
  assumes "indexed tracker_indexes m" "m i = Some s" "m j = Some t"
    and "\<not> Base.Deleted s" "\<not> Base.Deleted t"
    and "Tracker.Kind s = Tracker.Kind t" "Tracker.DeviceID s = Tracker.DeviceID t"
  shows "i = j"
  using indexedD [OF assms(1), of uq_tracker_device i s j t] assms(2-)
  by (simp add: tracker_indexes_def uq_tracker_device_def live_def)

end
