(* ===== verification/Memory.thy ===== *)
theory Memory
  imports Schema
begin

text \<open>
  An executable database: a list of documents per collection, with the schema's unique indexes
  enforced, object ids with their hexadecimal form, a clock and a list of published notices. It
  satisfies every law of \<open>mongo_collection\<close> and \<open>platform\<close>, so the laws are
  consistent, and it is the store on which the properties are evaluated.
\<close>

section \<open>A collection as a list\<close>

definition toMap :: "('d \<Rightarrow> ObjectID) \<Rightarrow> 'd list \<Rightarrow> 'd docs" where
  "toMap idof l = map_of (map (\<lambda>d. (idof d, d)) l)"

definition keysOf :: "'d index \<Rightarrow> 'd list \<Rightarrow> string option list list" where
  "keysOf ix l = List.map_filter ix l"

definition uniqueKeys :: "'d index list \<Rightarrow> 'd list \<Rightarrow> bool" where
  "uniqueKeys ixs l = list_all (\<lambda>ix. distinct (keysOf ix l)) ixs"

definition goodList :: "('d \<Rightarrow> ObjectID) \<Rightarrow> 'd index list \<Rightarrow> 'd list \<Rightarrow> bool" where
  "goodList idof ixs l \<longleftrightarrow>
     distinct (map idof l) \<and> NilObjectID \<notin> idof ` set l \<and> uniqueKeys ixs l"

definition window :: "FindOptions option \<Rightarrow> 'd list \<Rightarrow> 'd list" where
  "window opts ds =
     (case opts of None \<Rightarrow> ds
      | Some o' \<Rightarrow> (let ds = drop (nat (Skip o')) ds
                  in if Limit o' = 0 then ds else take (nat \<bar>Limit o'\<bar>) ds))"

definition negativeSkip :: "FindOptions option \<Rightarrow> bool" where
  "negativeSkip opts = (case opts of None \<Rightarrow> False | Some o' \<Rightarrow> Skip o' < 0)"

definition nextID :: "('d \<Rightarrow> ObjectID) \<Rightarrow> 'd list \<Rightarrow> ObjectID" where
  "nextID idof l = foldr (\<lambda>d m. max (idof d) m) l 0 + 1"

definition memFault :: "error + 'a" where
  "memFault = Inl (ErrDriver (MongoFault ''refused''))"

definition memInsert ::
  "('w \<Rightarrow> 'd list) \<Rightarrow> ('d list \<Rightarrow> 'w \<Rightarrow> 'w) \<Rightarrow> ('d \<Rightarrow> ObjectID) \<Rightarrow> (ObjectID \<Rightarrow> 'd \<Rightarrow> 'd) \<Rightarrow>
   'd index list \<Rightarrow> 'd \<Rightarrow> ('w, ObjectID) io" where
  "memInsert getl putl idof setid ixs d w =
     (let l = getl w;
          i = (if idof d = NilObjectID then nextID idof l else idof d);
          l' = l @ [setid i d]
      in if i = NilObjectID \<or> i \<in> set (map idof l) \<or> \<not> uniqueKeys ixs l'
         then (Inl (ErrDriver DuplicateKey), w)
         else (Inr i, putl l' w))"

definition memUpdateOne ::
  "('w \<Rightarrow> 'd list) \<Rightarrow> ('d list \<Rightarrow> 'w \<Rightarrow> 'w) \<Rightarrow> ('d \<Rightarrow> ObjectID) \<Rightarrow> 'd index list \<Rightarrow>
   ('d \<Rightarrow> bool) \<Rightarrow> ('d \<Rightarrow> 'd) \<Rightarrow> ('w, int) io" where
  "memUpdateOne getl putl idof ixs p f w =
     (case List.find p (getl w) of
        None \<Rightarrow> (Inr 0, w)
      | Some x \<Rightarrow>
          (let l' = map (\<lambda>y. if idof y = idof x then f y else y) (getl w)
           in if uniqueKeys ixs l' then (Inr 1, putl l' w) else (Inl (ErrDriver DuplicateKey), w)))"

definition memUpdateMany ::
  "('w \<Rightarrow> 'd list) \<Rightarrow> ('d list \<Rightarrow> 'w \<Rightarrow> 'w) \<Rightarrow> 'd index list \<Rightarrow>
   ('d \<Rightarrow> bool) \<Rightarrow> ('d \<Rightarrow> 'd) \<Rightarrow> ('w, int) io" where
  "memUpdateMany getl putl ixs p f w =
     (let l' = map (\<lambda>y. if p y then f y else y) (getl w)
      in if uniqueKeys ixs l' then (Inr (int (length (filter p (getl w)))), putl l' w)
         else (Inl (ErrDriver DuplicateKey), w))"

definition memCollection ::
  "('w \<Rightarrow> 'd list) \<Rightarrow> ('d list \<Rightarrow> 'w \<Rightarrow> 'w) \<Rightarrow> ('d \<Rightarrow> ObjectID) \<Rightarrow> (ObjectID \<Rightarrow> 'd \<Rightarrow> 'd) \<Rightarrow>
   'd index list \<Rightarrow> ('w, 'd) Collection" where
  "memCollection getl putl idof setid ixs =
     \<lparr>Find = (\<lambda>p opts w. if negativeSkip opts then (memFault, w)
                        else (Inr (window opts (filter p (getl w))), w)),
      FindOne = (\<lambda>p w. (Inr (List.find p (getl w)), w)),
      CountDocuments = (\<lambda>p w. (Inr (int (length (filter p (getl w)))), w)),
      Distinct = (\<lambda>key p w. (Inr (remdups (map key (filter p (getl w)))), w)),
      InsertOne = memInsert getl putl idof setid ixs,
      ReplaceOne = (\<lambda>p d. memUpdateOne getl putl idof ixs p (\<lambda>_. d)),
      UpdateOne = memUpdateOne getl putl idof ixs,
      UpdateMany = memUpdateMany getl putl ixs,
      DeleteMany = (\<lambda>p w. (Inr (int (length (filter p (getl w)))),
                          putl (filter (\<lambda>d. \<not> p d) (getl w)) w))\<rparr>"

lemma memCollection_simps [simp]:
  "Find (memCollection getl putl idof setid ixs) p opts w =
     (if negativeSkip opts then (memFault, w) else (Inr (window opts (filter p (getl w))), w))"
  "FindOne (memCollection getl putl idof setid ixs) p w = (Inr (List.find p (getl w)), w)"
  "CountDocuments (memCollection getl putl idof setid ixs) p w =
     (Inr (int (length (filter p (getl w)))), w)"
  "Distinct (memCollection getl putl idof setid ixs) key p w =
     (Inr (remdups (map key (filter p (getl w)))), w)"
  "InsertOne (memCollection getl putl idof setid ixs) = memInsert getl putl idof setid ixs"
  "ReplaceOne (memCollection getl putl idof setid ixs) p d = memUpdateOne getl putl idof ixs p (\<lambda>_. d)"
  "UpdateOne (memCollection getl putl idof setid ixs) = memUpdateOne getl putl idof ixs"
  "UpdateMany (memCollection getl putl idof setid ixs) = memUpdateMany getl putl ixs"
  "DeleteMany (memCollection getl putl idof setid ixs) p w =
     (Inr (int (length (filter p (getl w)))), putl (filter (\<lambda>d. \<not> p d) (getl w)) w)"
  by (simp_all add: memCollection_def)

section \<open>Lists and maps\<close>

lemma toMap_Some:
  "distinct (map idof l) \<Longrightarrow> toMap idof l i = Some d \<longleftrightarrow> d \<in> set l \<and> idof d = i"
  by (auto simp: toMap_def map_of_eq_Some_iff distinct_map inj_on_def)

lemma toMap_None: "toMap idof l i = None \<longleftrightarrow> i \<notin> idof ` set l"
  by (auto simp: toMap_def map_of_eq_None_iff image_iff)

lemma dom_toMap: "dom (toMap idof l) = idof ` set l"
  by (auto simp: toMap_def dom_map_of_conv_image_fst image_image)

lemma toMap_snoc:
  assumes "idof x \<notin> idof ` set l"
  shows "toMap idof (l @ [x]) = (toMap idof l)(idof x \<mapsto> x)"
  using assms by (induction l) (auto simp: toMap_def fun_eq_iff)

lemma toMap_map:
  "(\<And>d. idof (g d) = idof d) \<Longrightarrow> toMap idof (map g l) i = map_option g (toMap idof l i)"
  by (induction l) (auto simp: toMap_def)

lemma toMap_filter:
  "distinct (map idof l) \<Longrightarrow> toMap idof (filter q l) i = Option.bind (toMap idof l i) (\<lambda>d. if q d then Some d else None)"
  by (induction l) (force simp: toMap_def map_of_eq_None_iff)+

lemma matching_toMap:
  "distinct (map idof l) \<Longrightarrow> matching p (toMap idof l) = idof ` set (filter p l)"
  by (auto simp: matching_def toMap_Some)

lemma in_keysOf: "k \<in> set (keysOf ix l) \<longleftrightarrow> (\<exists>e \<in> set l. ix e = Some k)"
  by (induction l) (auto simp: keysOf_def List.map_filter_def)

lemma keysOf_Cons: "keysOf ix (d # l) = (case ix d of None \<Rightarrow> keysOf ix l | Some k \<Rightarrow> k # keysOf ix l)"
  by (auto simp: keysOf_def List.map_filter_def split: option.splits)

lemma distinct_keysOf:
  "distinct l \<Longrightarrow> distinct (keysOf ix l) \<longleftrightarrow>
     (\<forall>d \<in> set l. \<forall>e \<in> set l. ix d \<noteq> None \<longrightarrow> ix d = ix e \<longrightarrow> d = e)"
proof (induction l)
  case (Cons d l)
  then have IH: "distinct (keysOf ix l) \<longleftrightarrow>
      (\<forall>d \<in> set l. \<forall>e \<in> set l. ix d \<noteq> None \<longrightarrow> ix d = ix e \<longrightarrow> d = e)" and d: "d \<notin> set l"
    by simp_all
  show ?case
  proof (cases "ix d")
    case None
    have "(\<forall>a \<in> set (d # l). \<forall>e \<in> set (d # l). ix a \<noteq> None \<longrightarrow> ix a = ix e \<longrightarrow> a = e) \<longleftrightarrow>
        (\<forall>a \<in> set l. \<forall>e \<in> set l. ix a \<noteq> None \<longrightarrow> ix a = ix e \<longrightarrow> a = e)"
      using None by simp (rule ball_cong [OF refl], auto)
    then show ?thesis using None by (simp only: keysOf_Cons IH option.case)
  next
    case (Some k)
    have "distinct (keysOf ix (d # l)) \<longleftrightarrow> (\<forall>e \<in> set l. ix e \<noteq> Some k) \<and>
        (\<forall>d \<in> set l. \<forall>e \<in> set l. ix d \<noteq> None \<longrightarrow> ix d = ix e \<longrightarrow> d = e)"
      by (simp add: keysOf_Cons Some in_keysOf IH)
    moreover have "(\<forall>e \<in> set l. ix e \<noteq> Some k) \<longleftrightarrow>
        (\<forall>e \<in> set l. (ix d = ix e \<longrightarrow> d = e) \<and> (ix e \<noteq> None \<longrightarrow> ix e = ix d \<longrightarrow> e = d))"
      using Some d by fastforce
    ultimately show ?thesis using Some by (simp add: ball_conj_distrib) blast
  qed
qed (simp add: keysOf_def List.map_filter_def)

lemma indexed_toMap:
  assumes "distinct (map idof l)"
  shows "indexed ixs (toMap idof l) \<longleftrightarrow> uniqueKeys ixs l"
proof -
  have "distinct l" using assms by (simp add: distinct_map)
  then show ?thesis
    using assms
    by (auto simp: indexed_def uniqueKeys_def list_all_iff distinct_keysOf toMap_Some)
      (metis distinct_map inj_onD)+
qed

section \<open>The list implementation satisfies the contract\<close>

lemma goodListD:
  "goodList idof ixs l \<Longrightarrow> distinct (map idof l)"
  "goodList idof ixs l \<Longrightarrow> indexed ixs (toMap idof l)"
  "goodList idof ixs l \<Longrightarrow> toMap idof l i = Some d \<Longrightarrow> idof d = i \<and> i \<noteq> NilObjectID"
  by (auto simp: goodList_def indexed_toMap toMap_Some image_iff)

lemma set_window: "set (window opts ds) \<subseteq> set ds"
proof -
  have "set (take n (drop m ds)) \<subseteq> set ds" for n m
    by (rule order_trans [OF set_take_subset set_drop_subset])
  then show ?thesis by (auto simp: window_def Let_def set_drop_subset split: option.splits dest: in_set_dropD)
qed

lemma distinct_window: "distinct (map idof ds) \<Longrightarrow> distinct (map idof (window opts ds))"
  by (auto simp: window_def Let_def take_map [symmetric] drop_map [symmetric] split: option.splits)

lemma found_window:
  assumes ids: "distinct (map idof l)"
  shows "found idof p opts (toMap idof l) (window opts (filter p l))"
proof -
  let ?w = "window opts (filter p l)"
  have "distinct (map idof (filter p l))" using ids by (rule distinct_map_filter)
  then have 1: "distinct (map idof ?w)" by (rule distinct_window)
  have 2: "\<forall>d \<in> set ?w. p d \<and> toMap idof l (idof d) = Some d"
  proof
    fix d assume "d \<in> set ?w"
    then have "d \<in> set (filter p l)" using set_window by (rule rev_subsetD)
    then show "p d \<and> toMap idof l (idof d) = Some d" using toMap_Some [OF ids] by simp
  qed
  have 3: "unlimited opts \<longrightarrow> idof ` set ?w = matching p (toMap idof l)"
    using matching_toMap [OF ids] by (simp add: window_def unlimited_def split: option.splits)
  have "int (min a (nat k)) \<le> k" if "0 < k" for a :: nat and k :: int
    using that by (simp add: min_def nat_le_iff) linarith
  then have 4: "withinLimit opts ?w"
    by (simp add: window_def withinLimit_def Let_def split: option.splits)
  show ?thesis unfolding found_def using 1 2 3 4 by blast
qed

lemma foundOne_find:
  assumes "distinct (map idof l)"
  shows "foundOne idof p (toMap idof l) (List.find p l)"
  using assms by (auto simp: foundOne_def toMap_Some matching_toMap find_None_iff filter_empty_conv
      find_Some_iff split: option.splits)

lemma count_filter:
  assumes "distinct (map idof l)"
  shows "length (filter p l) = card (matching p (toMap idof l))"
  using distinct_card [of "map idof (filter p l)"] assms
  by (simp add: matching_toMap distinct_map_filter)

lemma map_one_eq_map:
  assumes "distinct (map idof l)" "x \<in> set l"
  shows "map (\<lambda>y. if idof y = idof x then f y else y) l = map (\<lambda>y. if y = x then f y else y) l"
  using assms by (auto simp: distinct_map dest: inj_onD)

lemma idof_map_one:
  assumes "distinct (map idof l)" "x \<in> set l" "idof (f x) = idof x"
  shows "map idof (map (\<lambda>y. if idof y = idof x then f y else y) l) = map idof l"
  using assms by (auto simp: distinct_map dest: inj_onD)

lemma toMap_map_ids:
  "map idof (map g l) = map idof l \<Longrightarrow> toMap idof (map g l) i = map_option g (toMap idof l i)"
  by (induction l) (auto simp: toMap_def)

lemma updated_map_one:
  assumes d: "distinct (map idof l)" and x: "List.find p l = Some x" and f: "idof (f x) = idof x"
  shows "updated p f (toMap idof l) (toMap idof (map (\<lambda>y. if idof y = idof x then f y else y) l))"
proof -
  have xs: "x \<in> set l" "p x" using x by (auto simp: find_Some_iff)
  then have "idof x \<in> matching p (toMap idof l)" using d by (auto simp: matching_toMap)
  moreover have "toMap idof (map (\<lambda>y. if idof y = idof x then f y else y) l) =
      modify {idof x} p f (toMap idof l)"
  proof
    fix i
    have "toMap idof (map (\<lambda>y. if idof y = idof x then f y else y) l) i =
        map_option (\<lambda>y. if idof y = idof x then f y else y) (toMap idof l i)"
      by (rule toMap_map_ids) (rule idof_map_one [where f = f, OF d xs(1) f])
    also have "\<dots> = modify {idof x} p f (toMap idof l) i"
    proof (cases "toMap idof l i")
      case (Some y)
      then have "y \<in> set l" "idof y = i" using d by (simp_all add: toMap_Some)
      moreover have "p y" if "idof y = idof x"
        using that d xs \<open>y \<in> set l\<close> by (metis distinct_map inj_onD)
      ultimately show ?thesis using Some by (auto simp: modify_def)
    qed (simp add: modify_def)
    finally show "toMap idof (map (\<lambda>y. if idof y = idof x then f y else y) l) i =
        modify {idof x} p f (toMap idof l) i" .
  qed
  ultimately show ?thesis by (auto simp: updated_def)
qed

lemma toMap_map_many:
  assumes "\<And>x. idof (f x) = idof x"
  shows "toMap idof (map (\<lambda>y. if p y then f y else y) l) = modify UNIV p f (toMap idof l)"
  using assms by (intro ext) (simp add: toMap_map modify_def)

lemma toMap_filter_not:
  assumes "distinct (map idof l)"
  shows "toMap idof (filter (\<lambda>d. \<not> p d) l) = toMap idof l |` (- matching p (toMap idof l))"
proof
  fix i show "toMap idof (filter (\<lambda>d. \<not> p d) l) i = (toMap idof l |` (- matching p (toMap idof l))) i"
    using assms
    by (cases "toMap idof l i") (auto simp: toMap_filter restrict_map_def matching_def)
qed

lemma uniqueKeys_filter: "uniqueKeys ixs l \<Longrightarrow> uniqueKeys ixs (filter q l)"
proof -
  have "distinct (keysOf ix l) \<Longrightarrow> distinct (keysOf ix (filter q l))" for ix
    by (induction l) (auto simp: keysOf_Cons in_keysOf split: option.splits)
  then show "uniqueKeys ixs l \<Longrightarrow> uniqueKeys ixs (filter q l)"
    by (auto simp: uniqueKeys_def list_all_iff)
qed

lemma nextID_fresh: "nextID idof l \<noteq> NilObjectID \<Longrightarrow> nextID idof l \<notin> idof ` set l"
proof
  let ?m = "foldr (\<lambda>d m. max (idof d) m) l 0"
  assume "nextID idof l \<noteq> NilObjectID" and "nextID idof l \<in> idof ` set l"
  then have "?m + 1 \<noteq> 0" and mem: "?m + 1 \<in> idof ` set l"
    by (simp_all add: nextID_def NilObjectID_def)
  have "d \<in> set l \<Longrightarrow> idof d \<le> ?m" for d by (induction l) (auto simp: le_max_iff_disj)
  then have "?m + 1 \<le> ?m" using mem by auto
  then show False using \<open>?m + 1 \<noteq> 0\<close> by (simp add: inc_less_eq_self_iff_eq)
qed

locale memory =
  fixes getl :: "'w \<Rightarrow> 'd list"
    and putl :: "'d list \<Rightarrow> 'w \<Rightarrow> 'w"
    and good :: "'w \<Rightarrow> bool"
    and vw :: "'w \<Rightarrow> 'v"
    and get :: "'v \<Rightarrow> 'd docs"
    and put :: "'d docs \<Rightarrow> 'v \<Rightarrow> 'v"
    and idof :: "'d \<Rightarrow> ObjectID"
    and setid :: "ObjectID \<Rightarrow> 'd \<Rightarrow> 'd"
    and ixs :: "'d index list"
  assumes mem_setid: "idof (setid i d) = i"
    and mem_get_put: "get (put m v) = m"
    and mem_put_get: "put (get v) v = v"
    and getl_putl: "getl (putl l w) = l"
    and get_view: "get (vw w) = toMap idof (getl w)"
    and put_view: "vw (putl l w) = put (toMap idof l) (vw w)"
    and good_list: "good w \<Longrightarrow> goodList idof ixs (getl w)"
    and good_put: "good w \<Longrightarrow> goodList idof ixs l \<Longrightarrow> good (putl l w)"
begin

lemma ids: "good w \<Longrightarrow> distinct (map idof (getl w))"
  by (rule goodListD(1) [OF good_list])

lemma wrote: "good w \<Longrightarrow> goodList idof ixs l \<Longrightarrow>
    good (putl l w) \<and> vw (putl l w) = put (toMap idof l) (vw w) \<and>
    get (vw (putl l w)) = toMap idof l"
  by (simp add: good_put put_view mem_get_put)

lemma mem_insert:
  assumes "good w" and run: "memInsert getl putl idof setid ixs d w = (ri, w')"
  shows "good w' \<and> vw w' = put (get (vw w')) (vw w) \<and>
    (\<forall>i. ri = Inr i \<longrightarrow> inserted idof setid d i (get (vw w)) (get (vw w'))) \<and>
    (\<forall>e. ri = Inl e \<longrightarrow> vw w' = vw w)"
proof -
  define i where "i = (if idof d = NilObjectID then nextID idof (getl w) else idof d)"
  let ?l = "getl w @ [setid i d]"
  show ?thesis
  proof (cases "i = NilObjectID \<or> i \<in> idof ` set (getl w) \<or> \<not> uniqueKeys ixs ?l")
    case True
    then have "ri = Inl (ErrDriver DuplicateKey)" "w' = w"
      using run by (simp_all add: memInsert_def Let_def i_def [symmetric] split: if_splits)
    then show ?thesis using assms(1) by (simp add: mem_put_get)
  next
    case False
    then have r: "ri = Inr i" "w' = putl ?l w"
      using run by (auto simp: memInsert_def Let_def i_def [symmetric])
    have "goodList idof ixs ?l"
      using False good_list [OF assms(1)] by (auto simp: goodList_def mem_setid)
    note w = wrote [OF assms(1) this]
    have "toMap idof ?l = (toMap idof (getl w))(i \<mapsto> setid i d)"
      using False toMap_snoc [of idof "setid i d" "getl w"] by (simp add: mem_setid)
    then have "inserted idof setid d i (get (vw w)) (get (vw w'))"
      using False w r by (auto simp: inserted_def get_view toMap_None i_def mem_get_put)
    then show ?thesis using w r by (simp add: mem_get_put)
  qed
qed

lemma mem_update_one:
  assumes good: "good w" and f: "\<And>x. p x \<Longrightarrow> idof (f x) = idof x"
    and run: "memUpdateOne getl putl idof ixs p f w = (ru, w')"
  shows "good w' \<and> vw w' = put (get (vw w')) (vw w) \<and>
    (\<forall>n. ru = Inr n \<longrightarrow>
       (if matching p (get (vw w)) = {} then n = 0 \<and> vw w' = vw w
        else n = 1 \<and> updated p f (get (vw w)) (get (vw w')))) \<and>
    (\<forall>e. ru = Inl e \<longrightarrow> vw w' = vw w)"
proof (cases "List.find p (getl w)")
  case None
  then have "matching p (get (vw w)) = {}"
    using ids [OF good] by (auto simp: get_view matching_toMap find_None_iff)
  then show ?thesis using None run good by (auto simp add: memUpdateOne_def mem_put_get)
next
  case (Some x)
  then have x: "x \<in> set (getl w)" "p x" by (auto simp: find_Some_iff)
  define l where "l = map (\<lambda>y. if idof y = idof x then f y else y) (getl w)"
  have "idof x \<in> matching p (get (vw w))" using x ids [OF good] by (auto simp: get_view matching_toMap)
  then have ne: "matching p (get (vw w)) \<noteq> {}" by blast
  have run': "(ru, w') = (if uniqueKeys ixs l then (Inr 1, putl l w) else (Inl (ErrDriver DuplicateKey), w))"
    using run [symmetric] Some by (simp add: memUpdateOne_def Let_def l_def)
  show ?thesis
  proof (cases "uniqueKeys ixs l")
    case True
    then have r: "ru = Inr 1" "w' = putl l w" using run' by simp_all
    have idl: "map idof l = map idof (getl w)"
      unfolding l_def by (rule idof_map_one [where f = f, OF ids [OF good] x(1) f [OF x(2)]])
    then have "goodList idof ixs l"
      using True good_list [OF good] unfolding goodList_def by (metis list.set_map)
    note w = wrote [OF good this]
    have up: "updated p f (toMap idof (getl w)) (toMap idof l)"
      unfolding l_def by (rule updated_map_one [where f = f, OF ids [OF good] Some f [OF x(2)]])
    show ?thesis using r ne up w by (simp add: get_view [of w] mem_get_put)
  next
    case False
    then show ?thesis using run' good by (simp add: mem_put_get)
  qed
qed

lemma mem_update_many:
  assumes good: "good w" and f: "\<And>x. idof (f x) = idof x"
    and run: "memUpdateMany getl putl ixs p f w = (rm, w')"
  shows "good w' \<and> (\<exists>S. vw w' = put (modify S p f (get (vw w))) (vw w)) \<and>
    (\<forall>n. rm = Inr n \<longrightarrow>
       n = int (card (matching p (get (vw w)))) \<and> vw w' = put (modify UNIV p f (get (vw w))) (vw w))"
proof -
  define l where "l = map (\<lambda>y. if p y then f y else y) (getl w)"
  have run': "(rm, w') = (if uniqueKeys ixs l then (Inr (int (length (filter p (getl w)))), putl l w)
      else (Inl (ErrDriver DuplicateKey), w))"
    using run [symmetric] by (simp add: memUpdateMany_def Let_def l_def)
  show ?thesis
  proof (cases "uniqueKeys ixs l")
    case True
    then have r: "rm = Inr (int (length (filter p (getl w))))" "w' = putl l w" using run' by simp_all
    have idl: "map idof l = map idof (getl w)" using f by (simp add: l_def)
    then have "goodList idof ixs l"
      using True good_list [OF good] unfolding goodList_def by (metis list.set_map)
    note w = wrote [OF good this]
    moreover have "toMap idof l = modify UNIV p f (get (vw w))"
      unfolding l_def get_view by (rule toMap_map_many) (rule f)
    moreover have "length (filter p (getl w)) = card (matching p (get (vw w)))"
      unfolding get_view by (rule count_filter) (rule ids [OF good])
    ultimately show ?thesis using r by auto
  next
    case False
    then have "rm = Inl (ErrDriver DuplicateKey)" "w' = w" using run' by simp_all
    moreover have "modify {} p f (get (vw w)) = get (vw w)"
      by (rule ext) (simp add: modify_def option.map_ident)
    then have "vw w = put (modify {} p f (get (vw w))) (vw w)" by (simp add: mem_put_get)
    ultimately show ?thesis using good by auto
  qed
qed

lemma mem_delete_many:
  assumes good: "good w"
  shows "good (putl (filter (\<lambda>d. \<not> p d) (getl w)) w) \<and>
    vw (putl (filter (\<lambda>d. \<not> p d) (getl w)) w) =
      put (get (vw w) |` (- matching p (get (vw w)))) (vw w) \<and>
    length (filter p (getl w)) = card (matching p (get (vw w)))"
proof -
  have "goodList idof ixs (filter (\<lambda>d. \<not> p d) (getl w))"
    using good_list [OF good] uniqueKeys_filter by (auto simp: goodList_def distinct_map_filter)
  from wrote [OF good this] show ?thesis
    using count_filter [OF ids [OF good]] toMap_filter_not [OF ids [OF good]]
    by (simp add: get_view)
qed

end

sublocale memory \<subseteq> mem: mongo_collection good vw "memCollection getl putl idof setid ixs" get put idof setid ixs
proof
  fix w i d assume good: "good w" and d: "get (vw w) i = Some d"
  then show "idof d = i \<and> i \<noteq> NilObjectID" using goodListD(3) [OF good_list] by (simp add: get_view)
next
  fix w p opts rf w' assume "good w" "Find (memCollection getl putl idof setid ixs) p opts w = (rf, w')"
  then show "good w' \<and> vw w' = vw w \<and> (\<forall>ds. rf = Inr ds \<longrightarrow> found idof p opts (get (vw w)) ds)"
    using found_window [OF ids] by (auto simp: get_view memFault_def split: if_splits)
next
  fix w p ro w' assume "good w" "FindOne (memCollection getl putl idof setid ixs) p w = (ro, w')"
  then show "good w' \<and> vw w' = vw w \<and> (\<forall>x. ro = Inr x \<longrightarrow> foundOne idof p (get (vw w)) x)"
    using foundOne_find [OF ids] by (auto simp: get_view)
next
  fix w p rc w' assume "good w" "CountDocuments (memCollection getl putl idof setid ixs) p w = (rc, w')"
  then show "good w' \<and> vw w' = vw w \<and> (\<forall>n. rc = Inr n \<longrightarrow> n = int (card (matching p (get (vw w)))))"
    using count_filter [OF ids] by (auto simp: get_view)
next
  fix w key p rd w' assume "good w" "Distinct (memCollection getl putl idof setid ixs) key p w = (rd, w')"
  then show "good w' \<and> vw w' = vw w \<and>
      (\<forall>vs. rd = Inr vs \<longrightarrow> set vs = {key d | d i. get (vw w) i = Some d \<and> p d})"
    using toMap_Some [OF ids] by (auto simp: get_view)
next
  fix w d ri w' assume "good w" "InsertOne (memCollection getl putl idof setid ixs) d w = (ri, w')"
  then show "good w' \<and> vw w' = put (get (vw w')) (vw w) \<and>
      (\<forall>i. ri = Inr i \<longrightarrow> inserted idof setid d i (get (vw w)) (get (vw w'))) \<and>
      (\<forall>e. ri = Inl e \<longrightarrow> vw w' = vw w \<or> e \<noteq> ErrDriver DuplicateKey \<and>
         (\<exists>i. inserted idof setid d i (get (vw w)) (get (vw w'))))"
    using mem_insert by (simp only: memCollection_simps) blast
next
  fix w p d rr w' assume "good w" and id: "\<And>x. p x \<Longrightarrow> idof x = idof d"
    and "ReplaceOne (memCollection getl putl idof setid ixs) p d w = (rr, w')"
  then have "memUpdateOne getl putl idof ixs p (\<lambda>_. d) w = (rr, w')" by simp
  note w = mem_update_one [OF \<open>good w\<close> _ this]
  show "good w' \<and> vw w' = put (get (vw w')) (vw w) \<and>
      (\<forall>n. rr = Inr n \<longrightarrow> (if matching p (get (vw w)) = {} then n = 0 \<and> vw w' = vw w
         else n = 1 \<and> updated p (\<lambda>_. d) (get (vw w)) (get (vw w')))) \<and>
      (\<forall>e. rr = Inl e \<longrightarrow> vw w' = vw w \<or> e \<noteq> ErrDriver DuplicateKey \<and>
         updated p (\<lambda>_. d) (get (vw w)) (get (vw w')))"
    using w id by metis
next
  fix w f p ru w' assume "good w" and id: "\<And>x. idof (f x) = idof x"
    and "UpdateOne (memCollection getl putl idof setid ixs) p f w = (ru, w')"
  then have "memUpdateOne getl putl idof ixs p f w = (ru, w')" by simp
  from mem_update_one [OF \<open>good w\<close> id this]
  show "good w' \<and> vw w' = put (get (vw w')) (vw w) \<and>
      (\<forall>n. ru = Inr n \<longrightarrow> (if matching p (get (vw w)) = {} then n = 0 \<and> vw w' = vw w
         else n = 1 \<and> updated p f (get (vw w)) (get (vw w')))) \<and>
      (\<forall>e. ru = Inl e \<longrightarrow> vw w' = vw w \<or> updated p f (get (vw w)) (get (vw w')))"
    by blast
next
  fix w f p rm w' assume "good w" and id: "\<And>x. idof (f x) = idof x"
    and "UpdateMany (memCollection getl putl idof setid ixs) p f w = (rm, w')"
  then have "memUpdateMany getl putl ixs p f w = (rm, w')" by simp
  from mem_update_many [OF \<open>good w\<close> id this]
  show "good w' \<and> (\<exists>S. vw w' = put (modify S p f (get (vw w))) (vw w)) \<and>
      (\<forall>n. rm = Inr n \<longrightarrow> n = int (card (matching p (get (vw w)))) \<and>
         vw w' = put (modify UNIV p f (get (vw w))) (vw w))" .
next
  fix w p rx w' assume "good w" "DeleteMany (memCollection getl putl idof setid ixs) p w = (rx, w')"
  then show "good w' \<and> (\<exists>S \<subseteq> matching p (get (vw w)). vw w' = put (get (vw w) |` (- S)) (vw w) \<and>
      (\<forall>n. rx = Inr n \<longrightarrow> S = matching p (get (vw w)) \<and> n = int (card S)))"
    using mem_delete_many by fastforce
qed (use goodListD(2) [OF good_list] in \<open>simp_all add: mem_setid mem_get_put mem_put_get get_view dom_toMap\<close>)

end
