(* ===== verification/MemStore.thy ===== *)
theory MemStore
  imports Memory
begin

text \<open>
  The executable database of the service: one list per collection, a clock, a counter of object
  ids and the notices published. Every collection is an interpretation of \<open>memory\<close>, and
  the rest an interpretation of \<open>platform\<close>.
\<close>

section \<open>Object ids in hexadecimal\<close>

definition hexDigit :: "nat \<Rightarrow> char" where
  "hexDigit n = (if n < 10 then char_of (48 + n) else char_of (87 + n))"

definition hexVal :: "char \<Rightarrow> nat option" where
  "hexVal c =
     (let n = of_char c in
      if 48 \<le> n \<and> n \<le> 57 then Some (n - 48)
      else if 97 \<le> n \<and> n \<le> 102 then Some (n - 87)
      else if 65 \<le> n \<and> n \<le> 70 then Some (n - 55)
      else None)"

fun hexN :: "nat \<Rightarrow> nat \<Rightarrow> string" where
  "hexN 0 n = []"
| "hexN (Suc k) n = hexN k (n div 16) @ [hexDigit (n mod 16)]"

fun valHex :: "nat \<Rightarrow> string \<Rightarrow> nat option" where
  "valHex acc [] = Some acc"
| "valHex acc (c # s) = (case hexVal c of None \<Rightarrow> None | Some d \<Rightarrow> valHex (16 * acc + d) s)"

definition memHex :: "ObjectID \<Rightarrow> string" where
  "memHex i = hexN 24 (unat i)"

definition memFromHex :: "string \<Rightarrow> ObjectID option" where
  "memFromHex s = (if length s = 24 then map_option word_of_nat (valHex 0 s) else None)"

lemma hexVal_hexDigit: "n < 16 \<Longrightarrow> hexVal (hexDigit n) = Some n"
  by (auto simp: hexVal_def hexDigit_def Let_def)

lemma length_hexN [simp]: "length (hexN k n) = k"
  by (induction k arbitrary: n) auto

lemma valHex_append:
  "valHex acc (s @ t) = (case valHex acc s of None \<Rightarrow> None | Some a \<Rightarrow> valHex a t)"
  by (induction s arbitrary: acc) (auto split: option.splits)

lemma valHex_hexN: "n < 16 ^ k \<Longrightarrow> valHex acc (hexN k n) = Some (16 ^ k * acc + n)"
proof (induction k arbitrary: n)
  case (Suc k)
  have "n div 16 < 16 ^ k" using Suc.prems by (simp add: less_mult_imp_div_less mult.commute)
  then show ?case
    using Suc.IH [of "n div 16"] by (simp add: valHex_append hexVal_hexDigit algebra_simps)
qed simp

lemma memFromHex_memHex: "memFromHex (memHex i) = Some i"
proof -
  have "unat i < 16 ^ 24" using unsigned_less [of i, where ?'a = nat] by simp
  then show ?thesis by (simp add: memFromHex_def memHex_def valHex_hexN)
qed

lemma hexDigit_not_space: "n < 16 \<Longrightarrow> \<not> isSpace (hexDigit n)"
  by (auto simp: isSpace_code hexDigit_def)

lemma hexN_chars: "c \<in> set (hexN k n) \<Longrightarrow> \<not> isSpace c"
  by (induction k arbitrary: n) (auto simp: hexDigit_not_space)

lemma memHex_trimmed: "trimmed (memHex i) \<and> memHex i \<noteq> []"
proof -
  have "length (memHex i) = 24" by (simp add: memHex_def)
  then have "memHex i \<noteq> []" by auto
  then show ?thesis
    using hexN_chars [of _ 24 "unat i"] by (simp add: trimmed_def memHex_def)
qed

lemma hexVal_digit: "hexVal c = Some d \<Longrightarrow> d < 16 \<and> lowerChar c = hexDigit d"
proof -
  assume d: "hexVal c = Some d"
  have "of_char (lowerChar c) = (of_char (hexDigit d) :: nat)" "d < 16"
    using d by (auto simp: hexVal_def hexDigit_def Let_def of_char_lowerChar isUpper_def split: if_splits)
  then show ?thesis by simp
qed

lemma valHex_lower:
  "valHex 0 s = Some n \<Longrightarrow> n < 16 ^ length s \<and> ToLower s = hexN (length s) n"
proof (induction s arbitrary: n rule: rev_induct)
  case (snoc c s)
  from snoc.prems obtain a d where a: "valHex 0 s = Some a" and d: "hexVal c = Some d" and n: "n = 16 * a + d"
    by (auto simp: valHex_append split: option.splits)
  note IH = snoc.IH [OF a] and c = hexVal_digit [OF d]
  have "n div 16 = a" "n mod 16 = d" using n c by simp_all
  moreover have "n < 16 ^ Suc (length s)" using IH c n by simp
  ultimately show ?case using IH c by (simp add: ToLower_def)
qed (simp add: ToLower_def)

lemma memFromHex_lower: "memFromHex s = Some i \<Longrightarrow> ToLower s = memHex i"
proof -
  assume "memFromHex s = Some i"
  then obtain n where s: "length s = 24" "valHex 0 s = Some n" "i = word_of_nat n"
    by (auto simp: memFromHex_def split: if_splits)
  then have n: "n < 16 ^ 24" "ToLower s = hexN 24 n" using valHex_lower by fastforce+
  then have "unat i = n" using s by (simp add: unat_of_nat)
  then show ?thesis using n by (simp add: memHex_def)
qed

section \<open>The world\<close>

record MemWorld =
  mDrivers :: "Driver list"
  mVehicles :: "Vehicle list"
  mTrackers :: "Tracker list"
  mAssignments :: "TrackerAssignment list"
  mMembers :: "VehicleGroupMember list"
  mDocuments :: "Document list"
  mModels :: "StoredModel list"
  mGroups :: "VehicleGroup list"
  mSites :: "Site list"
  clock :: Time
  nextOid :: ObjectID
  published :: "(string \<times> Notice) list"

definition emptyWorld :: MemWorld where
  "emptyWorld = \<lparr>mDrivers = [], mVehicles = [], mTrackers = [], mAssignments = [], mMembers = [],
     mDocuments = [], mModels = [], mGroups = [], mSites = [], clock = 0, nextOid = 1, published = []\<rparr>"

definition memView :: "MemWorld \<Rightarrow> MasterData" where
  "memView w =
     \<lparr>Drivers = toMap Base.ID (mDrivers w),
      Vehicles = toMap Base.ID (mVehicles w),
      Trackers = toMap Base.ID (mTrackers w),
      Assignments = toMap TrackerAssignment.ID (mAssignments w),
      Members = toMap VehicleGroupMember.ID (mMembers w),
      Documents = toMap Base.ID (mDocuments w),
      TrackerModels = toMap TrackerModel.ID (mModels w),
      Groups = toMap Base.ID (mGroups w),
      Sites = toMap Base.ID (mSites w)\<rparr>"

definition memGood :: "MemWorld \<Rightarrow> bool" where
  "memGood w \<longleftrightarrow>
     goodList Base.ID driver_indexes (mDrivers w) \<and>
     goodList Base.ID vehicle_indexes (mVehicles w) \<and>
     goodList Base.ID tracker_indexes (mTrackers w) \<and>
     goodList TrackerAssignment.ID assignment_indexes (mAssignments w) \<and>
     goodList VehicleGroupMember.ID member_indexes (mMembers w) \<and>
     goodList Base.ID document_indexes (mDocuments w) \<and>
     goodList TrackerModel.ID model_indexes (mModels w) \<and>
     goodList Base.ID group_indexes (mGroups w) \<and>
     goodList Base.ID site_indexes (mSites w)"

interpretation md: memory mDrivers "\<lambda>l w. w\<lparr>mDrivers := l\<rparr>" memGood memView
  Drivers "\<lambda>m v. v\<lparr>Drivers := m\<rparr>" Base.ID "\<lambda>i d. d\<lparr>Base.ID := i\<rparr>" driver_indexes
  by unfold_locales (simp_all add: memView_def memGood_def)

interpretation mv: memory mVehicles "\<lambda>l w. w\<lparr>mVehicles := l\<rparr>" memGood memView
  Vehicles "\<lambda>m v. v\<lparr>Vehicles := m\<rparr>" Base.ID "\<lambda>i d. d\<lparr>Base.ID := i\<rparr>" vehicle_indexes
  by unfold_locales (simp_all add: memView_def memGood_def)

interpretation mt: memory mTrackers "\<lambda>l w. w\<lparr>mTrackers := l\<rparr>" memGood memView
  Trackers "\<lambda>m v. v\<lparr>Trackers := m\<rparr>" Base.ID "\<lambda>i d. d\<lparr>Base.ID := i\<rparr>" tracker_indexes
  by unfold_locales (simp_all add: memView_def memGood_def)

interpretation ma: memory mAssignments "\<lambda>l w. w\<lparr>mAssignments := l\<rparr>" memGood memView
  Assignments "\<lambda>m v. v\<lparr>Assignments := m\<rparr>" TrackerAssignment.ID
  "\<lambda>i d. d\<lparr>TrackerAssignment.ID := i\<rparr>" assignment_indexes
  by unfold_locales (simp_all add: memView_def memGood_def)

interpretation mm: memory mMembers "\<lambda>l w. w\<lparr>mMembers := l\<rparr>" memGood memView
  Members "\<lambda>m v. v\<lparr>Members := m\<rparr>" VehicleGroupMember.ID
  "\<lambda>i d. d\<lparr>VehicleGroupMember.ID := i\<rparr>" member_indexes
  by unfold_locales (simp_all add: memView_def memGood_def)

interpretation mdoc: memory mDocuments "\<lambda>l w. w\<lparr>mDocuments := l\<rparr>" memGood memView
  Documents "\<lambda>m v. v\<lparr>Documents := m\<rparr>" Base.ID "\<lambda>i d. d\<lparr>Base.ID := i\<rparr>" document_indexes
  by unfold_locales (simp_all add: memView_def memGood_def)

interpretation mmod: memory mModels "\<lambda>l w. w\<lparr>mModels := l\<rparr>" memGood memView
  TrackerModels "\<lambda>m v. v\<lparr>TrackerModels := m\<rparr>" TrackerModel.ID
  "\<lambda>i d. d\<lparr>TrackerModel.ID := i\<rparr>" model_indexes
  by unfold_locales (simp_all add: memView_def memGood_def)

interpretation mg: memory mGroups "\<lambda>l w. w\<lparr>mGroups := l\<rparr>" memGood memView
  Groups "\<lambda>m v. v\<lparr>Groups := m\<rparr>" Base.ID "\<lambda>i d. d\<lparr>Base.ID := i\<rparr>" group_indexes
  by unfold_locales (simp_all add: memView_def memGood_def)

interpretation ms: memory mSites "\<lambda>l w. w\<lparr>mSites := l\<rparr>" memGood memView
  Sites "\<lambda>m v. v\<lparr>Sites := m\<rparr>" Base.ID "\<lambda>i d. d\<lparr>Base.ID := i\<rparr>" site_indexes
  by unfold_locales (simp_all add: memView_def memGood_def)

section \<open>The platform\<close>

text \<open>The reader of expressions without operators: the text one spells, if it spells one.\<close>

fun readPattern :: "string \<Rightarrow> string option" where
  "readPattern [] = Some []"
| "readPattern (c # s) =
     (if c = CHR 0x5C
      then (case s of [] \<Rightarrow> None | d # s' \<Rightarrow> if isAlnum d then None else map_option ((#) d) (readPattern s'))
      else if pcreMeta c then None
      else map_option ((#) c) (readPattern s))"

lemma readPattern_spells: "spells pat l \<Longrightarrow> readPattern pat = Some l"
  by (induction rule: spells.induct) (auto simp: pcreMeta_def)

definition memRegex :: "string \<Rightarrow> string \<Rightarrow> string \<Rightarrow> bool" where
  "memRegex opts pat s =
     (let fold = (if opts = ''i'' then ToLower else (\<lambda>x. x)); anchored = HasPrefix pat ''^''
      in case readPattern (if anchored then tl pat else pat) of
           None \<Rightarrow> False
         | Some l \<Rightarrow> if anchored then HasPrefix (fold s) (fold l) else Contains (fold s) (fold l))"

lemma spells_not_anchored: "spells pat l \<Longrightarrow> \<not> HasPrefix pat ''^''"
  by (cases rule: spells.cases) (auto simp: HasPrefix_def pcreMeta_def)

lemma memRegex_spells:
  assumes "spells pat l"
  shows "memRegex [] pat s = Contains s l" "memRegex [] (CHR ''^'' # pat) s = HasPrefix s l"
    "memRegex ''i'' pat s = Contains (ToLower s) (ToLower l)"
    "memRegex ''i'' (CHR ''^'' # pat) s = HasPrefix (ToLower s) (ToLower l)"
  using readPattern_spells [OF assms] spells_not_anchored [OF assms]
  by (simp_all add: memRegex_def Let_def) (simp_all add: HasPrefix_def)

text \<open>A transaction that fails leaves the world it started from.\<close>

definition memTransaction :: "(MemWorld, ObjectID option) io \<Rightarrow> (MemWorld, ObjectID option) io" where
  "memTransaction f w = (case f w of (Inr x, w') \<Rightarrow> (Inr x, w') | (Inl e, w') \<Rightarrow> (Inl e, w))"

definition memPlatform :: "MemWorld Platform" where
  "memPlatform =
     \<lparr>Now = (\<lambda>w. (clock w, w)),
      NewObjectID = (\<lambda>w. let i = (if nextOid w = NilObjectID then 1 else nextOid w)
                         in (i, w\<lparr>nextOid := i + 1\<rparr>)),
      Hex = memHex,
      ObjectIDFromHex = memFromHex,
      Publish = (\<lambda>chan n w. ((), w\<lparr>published := published w @ [(chan, n)]\<rparr>)),
      StartSession = (\<lambda>w. (True, w)),
      WithTransaction = memTransaction,
      MatchRegex = memRegex\<rparr>"

lemma memPlatform_simps [simp]:
  "Now memPlatform w = (clock w, w)"
  "NewObjectID memPlatform w =
     (let i = (if nextOid w = NilObjectID then 1 else nextOid w) in (i, w\<lparr>nextOid := i + 1\<rparr>))"
  "Hex memPlatform = memHex"
  "ObjectIDFromHex memPlatform = memFromHex"
  "Publish memPlatform chan n w = ((), w\<lparr>published := published w @ [(chan, n)]\<rparr>)"
  "StartSession memPlatform w = (True, w)"
  "WithTransaction memPlatform f w = memTransaction f w"
  "MatchRegex memPlatform = memRegex"
  by (simp_all add: memPlatform_def)

interpretation mw: world memGood memView .

interpretation mp: platform memGood memView memPlatform
proof
  fix f w r w'
  assume "\<forall>w1 r1 w2. memGood w1 \<longrightarrow> f w1 = (r1, w2) \<longrightarrow> memGood w2" and "memGood w"
    and "WithTransaction memPlatform f w = (r, w')"
  then show "memGood w' \<and>
    ((\<exists>w1 w2 x. memGood w1 \<and> memView w1 = memView w \<and> f w1 = (Inr x, w2) \<and> memView w' = memView w2 \<and>
        (r = Inr x \<or> (\<exists>e. r = Inl e \<and> \<not> isNoTransactions e))) \<or>
     (\<exists>e. r = Inl e \<and> memView w' = memView w))"
    by (cases "f w"; cases "fst (f w)") (fastforce simp: memTransaction_def)+
qed (auto simp: memView_def memGood_def Let_def NilObjectID_def memFromHex_memHex memHex_trimmed
    memFromHex_lower memRegex_spells split: if_splits)

end
