(* ===== verification/Repository.thy ===== *)
theory Repository
  imports MemStore
begin

text \<open>
  \<^verbatim>\<open>internal/repository/repository.go\<close>: the generic store. The interfaces
  \<^verbatim>\<open>Document\<close> and \<^verbatim>\<open>Validated\<close> a model implements are the record
  \<open>Methods\<close>, together with what the database keeps of a document of the model; a \<open>Store\<close> is a collection with them. \<open>stored\<close> is the abstract
  reading of a write: what \<open>Create\<close> and \<open>Update\<close> put in the database is a settled,
  valid document.
\<close>

section \<open>The store\<close>

record 'd Methods =
  BeforeWrite :: "'d \<Rightarrow> 'd"
  Validate :: "'d \<Rightarrow> error option"
  StampDoc :: "Time \<Rightarrow> bool \<Rightarrow> 'd \<Rightarrow> 'd"
  IDOf :: "'d \<Rightarrow> ObjectID"
  CompanyOf :: "'d \<Rightarrow> string option"
  DeletedOf :: "'d \<Rightarrow> bool"
  MarkDeleted :: "Time \<Rightarrow> 'd \<Rightarrow> 'd"
  AsStored :: "'d \<Rightarrow> 'd"

record ('w, 'd) Store =
  col :: "('w, 'd) Collection"
  methods :: "'d Methods"

definition createError :: "error \<Rightarrow> error" where
  "createError e = (if e = ErrDriver DuplicateKey then RepoErrDuplicate else e)"

definition stampCreate :: "'d Methods \<Rightarrow> Time \<Rightarrow> 'd \<Rightarrow> 'd" where
  "stampCreate M now doc = StampDoc M now True doc"

definition stampUpdate :: "'d Methods \<Rightarrow> Time \<Rightarrow> 'd \<Rightarrow> 'd" where
  "stampUpdate M now doc = StampDoc M now False doc"

text \<open>Both return the document as the call leaves it, which the caller's pointer then shows;
  \<open>AsStored\<close> is what the driver keeps of it, by the tags of the struct.\<close>

definition Create :: "'w Platform \<Rightarrow> ('w, 'd) Store \<Rightarrow> 'd \<Rightarrow> ('w, 'd) io" where
  "Create P s doc =
     (let doc = BeforeWrite (methods s) doc in
      case Validate (methods s) doc of
        Some e \<Rightarrow> fail e
      | None \<Rightarrow>
          andThen (call (Now P)) (\<lambda>now.
          let doc = stampCreate (methods s) now doc in
          andThen (onErr (InsertOne (col s) (AsStored (methods s) doc)) createError) (\<lambda>_. ok doc)))"

definition Update :: "'w Platform \<Rightarrow> ('w, 'd) Store \<Rightarrow> ObjectID \<Rightarrow> 'd \<Rightarrow> ('w, 'd) io" where
  "Update P s i doc =
     (let doc = BeforeWrite (methods s) doc in
      case Validate (methods s) doc of
        Some e \<Rightarrow> fail e
      | None \<Rightarrow>
          andThen (call (Now P)) (\<lambda>now.
          let doc = stampUpdate (methods s) now doc in
          andThen (onErr (ReplaceOne (col s) (\<lambda>x. IDOf (methods s) x = i) (AsStored (methods s) doc)) createError) (\<lambda>n.
          if n = 0 then fail RepoErrNotFound else ok doc)))"

definition FindByID :: "('w, 'd) Store \<Rightarrow> string \<Rightarrow> ObjectID \<Rightarrow> ('w, 'd) io" where
  "FindByID s companyID i =
     (let M = methods s;
          p = (\<lambda>x. IDOf M x = i \<and> \<not> DeletedOf M x \<and>
                   (companyID \<noteq> [] \<longrightarrow> CompanyOf M x = Some companyID \<or> CompanyOf M x = None))
      in andThen (FindOne (col s) p) (\<lambda>x.
         case x of None \<Rightarrow> fail RepoErrNotFound | Some d \<Rightarrow> ok d))"

text \<open>
  \<open>extra\<close> is a further condition; the code's also allows it to replace the condition on
  \<^verbatim>\<open>deleted\<close>, which no caller does.
\<close>

definition ListDocs ::
  "('w, 'd) Store \<Rightarrow> string \<Rightarrow> ('d \<Rightarrow> bool) \<Rightarrow> int \<Rightarrow> int \<Rightarrow> (string \<times> int) list \<Rightarrow> ('w, 'd list \<times> int) io" where
  "ListDocs s companyID extra skip limit srt =
     (let M = methods s;
          p = (\<lambda>x. \<not> DeletedOf M x \<and> extra x \<and>
                   (companyID \<noteq> [] \<longrightarrow> CompanyOf M x = Some companyID \<or> CompanyOf M x = None))
      in andThen (CountDocuments (col s) p) (\<lambda>n.
         andThen (Find (col s) p (Some \<lparr>Skip = skip, Limit = limit, SortBy = srt\<rparr>)) (\<lambda>out.
         ok (out, n))))"

definition SoftDelete :: "'w Platform \<Rightarrow> ('w, 'd) Store \<Rightarrow> string \<Rightarrow> ObjectID \<Rightarrow> ('w, unit) io" where
  "SoftDelete P s companyID i =
     (let M = methods s;
          p = (\<lambda>x. IDOf M x = i \<and> (companyID \<noteq> [] \<longrightarrow> CompanyOf M x = Some companyID))
      in andThen (call (Now P)) (\<lambda>now.
         andThen (UpdateOne (col s) p (MarkDeleted M now)) (\<lambda>n.
         if n = 0 then fail RepoErrNotFound else ok ())))"

section \<open>The models' methods\<close>

definition markDeleted :: "Time \<Rightarrow> 'a Base_scheme \<Rightarrow> 'a Base_scheme" where
  "markDeleted now d = d\<lparr>Base.Deleted := True, Base.UpdatedAt := now\<rparr>"

definition vehicleMethods :: "Vehicle Methods" where
  "vehicleMethods = \<lparr>BeforeWrite = Vehicle_BeforeWrite, Validate = Vehicle_Validate, StampDoc = Stamp,
     IDOf = Base.ID, CompanyOf = (\<lambda>v. Some (Vehicle.CompanyID v)), DeletedOf = Base.Deleted,
     MarkDeleted = markDeleted, AsStored = Vehicle_AsStored\<rparr>"

definition driverMethods :: "Driver Methods" where
  "driverMethods = \<lparr>BeforeWrite = Driver_BeforeWrite, Validate = Driver_Validate, StampDoc = Stamp,
     IDOf = Base.ID, CompanyOf = (\<lambda>d. Some (Driver.CompanyID d)), DeletedOf = Base.Deleted,
     MarkDeleted = markDeleted, AsStored = Driver_AsStored\<rparr>"

definition trackerMethods :: "Tracker Methods" where
  "trackerMethods = \<lparr>BeforeWrite = Tracker_BeforeWrite, Validate = (\<lambda>_. None), StampDoc = Stamp,
     IDOf = Base.ID, CompanyOf = Tracker.CompanyID, DeletedOf = Base.Deleted,
     MarkDeleted = markDeleted, AsStored = Tracker_AsStored\<rparr>"

definition documentMethods :: "Document Methods" where
  "documentMethods = \<lparr>BeforeWrite = Document_BeforeWrite, Validate = (\<lambda>_. None), StampDoc = Stamp,
     IDOf = Base.ID, CompanyOf = (\<lambda>d. Some (Document.CompanyID d)), DeletedOf = Base.Deleted,
     MarkDeleted = markDeleted, AsStored = (\<lambda>d. d)\<rparr>"

definition siteMethods :: "Site Methods" where
  "siteMethods = \<lparr>BeforeWrite = Site_BeforeWrite, Validate = (\<lambda>_. None), StampDoc = Stamp,
     IDOf = Base.ID, CompanyOf = (\<lambda>s. Some (Site.CompanyID s)), DeletedOf = Base.Deleted,
     MarkDeleted = markDeleted, AsStored = Site_AsStored\<rparr>"

section \<open>The contract of a write\<close>

definition stored :: "'d Methods \<Rightarrow> 'd \<Rightarrow> 'd \<Rightarrow> bool" where
  "stored M doc d \<longleftrightarrow>
     (\<exists>now cr. d = StampDoc M now cr (BeforeWrite M doc)) \<and> Validate M (BeforeWrite M doc) = None"

locale store = mongo_collection good vw "col s" get put "IDOf (methods s)" setid ixs + platform good vw P
  for s :: "('w, 'd) Store" and P :: "'w Platform"
    and good :: "'w \<Rightarrow> bool" and vw :: "'w \<Rightarrow> 'v"
    and get :: "'v \<Rightarrow> 'd docs" and put :: "'d docs \<Rightarrow> 'v \<Rightarrow> 'v"
    and setid :: "ObjectID \<Rightarrow> 'd \<Rightarrow> 'd" and ixs :: "'d index list" +
  assumes stamp_id: "IDOf (methods s) (StampDoc (methods s) now cr d) = IDOf (methods s) d"
    and before_id: "IDOf (methods s) (BeforeWrite (methods s) d) = IDOf (methods s) d"
    and mark_id: "IDOf (methods s) (MarkDeleted (methods s) now d) = IDOf (methods s) d"
    and as_stored_id: "IDOf (methods s) (AsStored (methods s) d) = IDOf (methods s) d"
begin

lemma stored_id: "stored (methods s) doc d \<Longrightarrow> IDOf (methods s) d = IDOf (methods s) doc"
  by (auto simp: stored_def stamp_id before_id)

lemma Create_triple:
  assumes step: "\<And>v d i m'. Q v \<Longrightarrow>
      (\<And>j x. get v j = Some x \<Longrightarrow> IDOf (methods s) x = j \<and> j \<noteq> NilObjectID) \<Longrightarrow> stored (methods s) doc d \<Longrightarrow>
      inserted (IDOf (methods s)) setid (AsStored (methods s) d) i (get v) m' \<Longrightarrow> indexed ixs m' \<Longrightarrow>
      R d (put m' v) \<and> E (put m' v)"
    and none: "\<And>v. Q v \<Longrightarrow> E v"
  shows "triple (holds Q) (Create P s doc) (\<lambda>d. holds (R d)) (holds E)"
proof (cases "Validate (methods s) (BeforeWrite (methods s) doc)")
  case None
  have st: "stored (methods s) doc (stampCreate (methods s) now (BeforeWrite (methods s) doc))" for now
    using None by (auto simp: stored_def stampCreate_def)
  show ?thesis
    unfolding Create_def Let_def None option.case
  proof (rule triple_andThen [where Q' = "\<lambda>_. holds Q"], rule now_triple)
    fix now
    let ?d = "stampCreate (methods s) now (BeforeWrite (methods s) doc)"
    show "triple (holds Q) (andThen (onErr (InsertOne (col s) (AsStored (methods s) ?d)) createError) (\<lambda>_. ok ?d))
        (\<lambda>d. holds (R d)) (holds E)"
      by (rule triple_andThen [where Q' = "\<lambda>_. holds (R ?d)"], rule triple_onErr,
          rule insert_triple, rule step [OF _ _ st], assumption+, erule none, rule triple_ok)
  qed
next
  case (Some e)
  then show ?thesis
    unfolding Create_def Let_def by (auto intro!: triple_fail simp: inWorld_def none)
qed

lemma Update_triple:
  assumes id: "IDOf (methods s) doc = i"
    and step: "\<And>v d m'. Q v \<Longrightarrow> (\<And>j x. get v j = Some x \<Longrightarrow> IDOf (methods s) x = j) \<Longrightarrow>
      stored (methods s) doc d \<Longrightarrow>
      updated (\<lambda>x. IDOf (methods s) x = i) (\<lambda>_. AsStored (methods s) d) (get v) m' \<Longrightarrow> indexed ixs m' \<Longrightarrow>
      R d (put m' v) \<and> E (put m' v)"
    and none: "\<And>v. Q v \<Longrightarrow> E v"
  shows "triple (holds Q) (Update P s i doc) (\<lambda>d. holds (R d)) (holds E)"
proof (cases "Validate (methods s) (BeforeWrite (methods s) doc)")
  case None
  have st: "stored (methods s) doc (stampUpdate (methods s) now (BeforeWrite (methods s) doc))" for now
    using None by (auto simp: stored_def stampUpdate_def)
  show ?thesis
    unfolding Update_def Let_def None option.case
  proof (rule triple_andThen [where Q' = "\<lambda>_. holds Q"], rule now_triple)
    fix now
    let ?d = "stampUpdate (methods s) now (BeforeWrite (methods s) doc)"
    have idd: "IDOf (methods s) (AsStored (methods s) ?d) = i" using stored_id [OF st] id by (simp add: as_stored_id)
    show "triple (holds Q)
        (andThen (onErr (ReplaceOne (col s) (\<lambda>x. IDOf (methods s) x = i) (AsStored (methods s) ?d)) createError)
          (\<lambda>n. if n = 0 then fail RepoErrNotFound else ok ?d))
        (\<lambda>d. holds (R d)) (holds E)"
    proof (rule triple_andThen [where Q' = "\<lambda>n. holds (\<lambda>v. if n = 0 then Q v else R ?d v)"],
        rule triple_onErr, rule replace_triple)
      fix v m' assume "Q v" "\<And>j x. get v j = Some x \<Longrightarrow> IDOf (methods s) x = j"
        "updated (\<lambda>x. IDOf (methods s) x = i) (\<lambda>_. AsStored (methods s) ?d) (get v) m'" "indexed ixs m'"
      then show "(if (1::int) = 0 then Q (put m' v) else R ?d (put m' v)) \<and> E (put m' v)"
        using step [OF _ _ st] by simp
    next
      fix n :: int
      show "triple (holds (\<lambda>v. if n = 0 then Q v else R ?d v))
          (if n = 0 then fail RepoErrNotFound else ok ?d) (\<lambda>d. holds (R d)) (holds E)"
        by (auto intro!: triple_fail triple_ok simp: inWorld_def none)
    qed (use idd none in auto)
  qed
next
  case (Some e)
  then show ?thesis
    unfolding Update_def Let_def by (auto intro!: triple_fail simp: inWorld_def none)
qed

lemma SoftDelete_triple:
  assumes step: "\<And>v now m'. Q v \<Longrightarrow> (\<And>j x. get v j = Some x \<Longrightarrow> IDOf (methods s) x = j) \<Longrightarrow>
      updated (\<lambda>x. IDOf (methods s) x = i \<and> (co \<noteq> [] \<longrightarrow> CompanyOf (methods s) x = Some co))
        (MarkDeleted (methods s) now) (get v) m' \<Longrightarrow> indexed ixs m' \<Longrightarrow> R (put m' v) \<and> E (put m' v)"
    and none: "\<And>v. Q v \<Longrightarrow> E v"
  shows "triple (holds Q) (SoftDelete P s co i) (\<lambda>_. holds R) (holds E)"
  unfolding SoftDelete_def Let_def
proof (rule triple_andThen [where Q' = "\<lambda>_. holds Q"], rule now_triple)
  fix now
  let ?p = "\<lambda>x. IDOf (methods s) x = i \<and> (co \<noteq> [] \<longrightarrow> CompanyOf (methods s) x = Some co)"
  show "triple (holds Q) (andThen (UpdateOne (col s) ?p (MarkDeleted (methods s) now))
      (\<lambda>n. if n = 0 then fail RepoErrNotFound else ok ())) (\<lambda>_. holds R) (holds E)"
  proof (rule triple_andThen [where Q' = "\<lambda>n. holds (\<lambda>v. if n = 0 then Q v else R v)"],
      rule update_one_triple)
    fix v m' assume "Q v" "\<And>j x. get v j = Some x \<Longrightarrow> IDOf (methods s) x = j"
      "updated ?p (MarkDeleted (methods s) now) (get v) m'" "indexed ixs m'"
    then show "(if (1::int) = 0 then Q (put m' v) else R (put m' v)) \<and> E (put m' v)"
      using step by simp
  next
    fix n :: int
    show "triple (holds (\<lambda>v. if n = 0 then Q v else R v))
        (if n = 0 then fail RepoErrNotFound else ok ()) (\<lambda>_. holds R) (holds E)"
      by (auto intro!: triple_fail triple_ok simp: inWorld_def none)
  qed (use none mark_id in auto)
qed

end

end
