(* ===== verification/Database.thy ===== *)
theory Database
  imports Repository
begin

text \<open>
  The database handle every service is built on: a collection per model, the stores
  \<^verbatim>\<open>NewStore\<close> makes of them, and the platform. The locale \<open>database\<close> gathers the
  contracts; the executable database \<open>memDB\<close> is its interpretation.
\<close>

record 'w Database =
  driverCol :: "('w, Driver) Collection"
  vehicleCol :: "('w, Vehicle) Collection"
  trackerCol :: "('w, Tracker) Collection"
  assignments :: "('w, TrackerAssignment) Collection"
  members :: "('w, VehicleGroupMember) Collection"
  documentCol :: "('w, Document) Collection"
  models :: "('w, StoredModel) Collection"
  groups :: "('w, VehicleGroup) Collection"
  siteCol :: "('w, Site) Collection"
  env :: "'w Platform"

definition drivers :: "'w Database \<Rightarrow> ('w, Driver) Store" where
  "drivers D = \<lparr>col = driverCol D, methods = driverMethods\<rparr>"

definition vehicles :: "'w Database \<Rightarrow> ('w, Vehicle) Store" where
  "vehicles D = \<lparr>col = vehicleCol D, methods = vehicleMethods\<rparr>"

definition trackers :: "'w Database \<Rightarrow> ('w, Tracker) Store" where
  "trackers D = \<lparr>col = trackerCol D, methods = trackerMethods\<rparr>"

definition documents :: "'w Database \<Rightarrow> ('w, Document) Store" where
  "documents D = \<lparr>col = documentCol D, methods = documentMethods\<rparr>"

definition sites :: "'w Database \<Rightarrow> ('w, Site) Store" where
  "sites D = \<lparr>col = siteCol D, methods = siteMethods\<rparr>"

lemma store_simps [simp]:
  "col (drivers D) = driverCol D" "methods (drivers D) = driverMethods"
  "col (vehicles D) = vehicleCol D" "methods (vehicles D) = vehicleMethods"
  "col (trackers D) = trackerCol D" "methods (trackers D) = trackerMethods"
  "col (documents D) = documentCol D" "methods (documents D) = documentMethods"
  "col (sites D) = siteCol D" "methods (sites D) = siteMethods"
  by (simp_all add: drivers_def vehicles_def trackers_def documents_def sites_def)

lemma markDeleted_simps [simp]:
  "Base.ID (markDeleted now d) = Base.ID d"
  "Base.Deleted (markDeleted now d) = True"
  "Base.more (markDeleted now d) = Base.more d"
  by (simp_all add: markDeleted_def)

lemma methods_simps [simp]:
  "IDOf driverMethods = Base.ID" "BeforeWrite driverMethods = Driver_BeforeWrite"
  "Validate driverMethods = Driver_Validate" "StampDoc driverMethods = Stamp"
  "CompanyOf driverMethods = (\<lambda>d. Some (Driver.CompanyID d))" "MarkDeleted driverMethods = markDeleted"
  "AsStored driverMethods = Driver_AsStored"
  "IDOf vehicleMethods = Base.ID" "BeforeWrite vehicleMethods = Vehicle_BeforeWrite"
  "Validate vehicleMethods = Vehicle_Validate" "StampDoc vehicleMethods = Stamp"
  "CompanyOf vehicleMethods = (\<lambda>v. Some (Vehicle.CompanyID v))" "MarkDeleted vehicleMethods = markDeleted"
  "AsStored vehicleMethods = Vehicle_AsStored"
  "IDOf trackerMethods = Base.ID" "BeforeWrite trackerMethods = Tracker_BeforeWrite"
  "Validate trackerMethods = (\<lambda>_. None)" "StampDoc trackerMethods = Stamp"
  "CompanyOf trackerMethods = Tracker.CompanyID" "MarkDeleted trackerMethods = markDeleted"
  "AsStored trackerMethods = Tracker_AsStored"
  "IDOf documentMethods = Base.ID" "BeforeWrite documentMethods = Document_BeforeWrite"
  "Validate documentMethods = (\<lambda>_. None)" "StampDoc documentMethods = Stamp"
  "CompanyOf documentMethods = (\<lambda>d. Some (Document.CompanyID d))" "MarkDeleted documentMethods = markDeleted"
  "AsStored documentMethods = (\<lambda>d. d)"
  "IDOf siteMethods = Base.ID" "BeforeWrite siteMethods = Site_BeforeWrite"
  "Validate siteMethods = (\<lambda>_. None)" "StampDoc siteMethods = Stamp"
  "CompanyOf siteMethods = (\<lambda>s. Some (Site.CompanyID s))" "MarkDeleted siteMethods = markDeleted"
  "AsStored siteMethods = Site_AsStored"
  by (simp_all add: driverMethods_def vehicleMethods_def trackerMethods_def documentMethods_def
      siteMethods_def)

lemma methods_ID [simp]:
  "Base.ID (Site_BeforeWrite s) = Base.ID s"
  "Base.ID (Document_BeforeWrite d) = Base.ID d"
  by (simp_all add: Site_BeforeWrite_def Document_BeforeWrite_def)

locale database = world good vw + platform good vw "env D"
  + drv: store "drivers D" "env D" good vw Drivers "\<lambda>m v. v\<lparr>Drivers := m\<rparr>" "\<lambda>i d. d\<lparr>Base.ID := i\<rparr>" driver_indexes
  + veh: store "vehicles D" "env D" good vw Vehicles "\<lambda>m v. v\<lparr>Vehicles := m\<rparr>" "\<lambda>i d. d\<lparr>Base.ID := i\<rparr>" vehicle_indexes
  + trk: store "trackers D" "env D" good vw Trackers "\<lambda>m v. v\<lparr>Trackers := m\<rparr>" "\<lambda>i d. d\<lparr>Base.ID := i\<rparr>" tracker_indexes
  + dcm: store "documents D" "env D" good vw Documents "\<lambda>m v. v\<lparr>Documents := m\<rparr>" "\<lambda>i d. d\<lparr>Base.ID := i\<rparr>" document_indexes
  + sit: store "sites D" "env D" good vw Sites "\<lambda>m v. v\<lparr>Sites := m\<rparr>" "\<lambda>i d. d\<lparr>Base.ID := i\<rparr>" site_indexes
  + asg: mongo_collection good vw "assignments D" Assignments "\<lambda>m v. v\<lparr>Assignments := m\<rparr>"
      TrackerAssignment.ID "\<lambda>i d. d\<lparr>TrackerAssignment.ID := i\<rparr>" assignment_indexes
  + mem: mongo_collection good vw "members D" Members "\<lambda>m v. v\<lparr>Members := m\<rparr>"
      VehicleGroupMember.ID "\<lambda>i d. d\<lparr>VehicleGroupMember.ID := i\<rparr>" member_indexes
  + mdl: mongo_collection good vw "models D" TrackerModels "\<lambda>m v. v\<lparr>TrackerModels := m\<rparr>"
      TrackerModel.ID "\<lambda>i d. d\<lparr>TrackerModel.ID := i\<rparr>" model_indexes
  + grp: mongo_collection good vw "groups D" Groups "\<lambda>m v. v\<lparr>Groups := m\<rparr>"
      Base.ID "\<lambda>i d. d\<lparr>Base.ID := i\<rparr>" group_indexes
  for D :: "'w Database" and good :: "'w \<Rightarrow> bool" and vw :: "'w \<Rightarrow> MasterData"
begin
end

section \<open>The executable database\<close>

definition memDB :: "MemWorld Database" where
  "memDB =
     \<lparr>driverCol = memCollection mDrivers (\<lambda>l w. w\<lparr>mDrivers := l\<rparr>) Base.ID (\<lambda>i d. d\<lparr>Base.ID := i\<rparr>) driver_indexes,
      vehicleCol = memCollection mVehicles (\<lambda>l w. w\<lparr>mVehicles := l\<rparr>) Base.ID (\<lambda>i d. d\<lparr>Base.ID := i\<rparr>) vehicle_indexes,
      trackerCol = memCollection mTrackers (\<lambda>l w. w\<lparr>mTrackers := l\<rparr>) Base.ID (\<lambda>i d. d\<lparr>Base.ID := i\<rparr>) tracker_indexes,
      assignments = memCollection mAssignments (\<lambda>l w. w\<lparr>mAssignments := l\<rparr>) TrackerAssignment.ID
        (\<lambda>i d. d\<lparr>TrackerAssignment.ID := i\<rparr>) assignment_indexes,
      members = memCollection mMembers (\<lambda>l w. w\<lparr>mMembers := l\<rparr>) VehicleGroupMember.ID
        (\<lambda>i d. d\<lparr>VehicleGroupMember.ID := i\<rparr>) member_indexes,
      documentCol = memCollection mDocuments (\<lambda>l w. w\<lparr>mDocuments := l\<rparr>) Base.ID (\<lambda>i d. d\<lparr>Base.ID := i\<rparr>) document_indexes,
      models = memCollection mModels (\<lambda>l w. w\<lparr>mModels := l\<rparr>) TrackerModel.ID
        (\<lambda>i d. d\<lparr>TrackerModel.ID := i\<rparr>) model_indexes,
      groups = memCollection mGroups (\<lambda>l w. w\<lparr>mGroups := l\<rparr>) Base.ID (\<lambda>i d. d\<lparr>Base.ID := i\<rparr>) group_indexes,
      siteCol = memCollection mSites (\<lambda>l w. w\<lparr>mSites := l\<rparr>) Base.ID (\<lambda>i d. d\<lparr>Base.ID := i\<rparr>) site_indexes,
      env = memPlatform\<rparr>"

lemma memDB_simps [simp]:
  "driverCol memDB = memCollection mDrivers (\<lambda>l w. w\<lparr>mDrivers := l\<rparr>) Base.ID (\<lambda>i d. d\<lparr>Base.ID := i\<rparr>) driver_indexes"
  "vehicleCol memDB = memCollection mVehicles (\<lambda>l w. w\<lparr>mVehicles := l\<rparr>) Base.ID (\<lambda>i d. d\<lparr>Base.ID := i\<rparr>) vehicle_indexes"
  "trackerCol memDB = memCollection mTrackers (\<lambda>l w. w\<lparr>mTrackers := l\<rparr>) Base.ID (\<lambda>i d. d\<lparr>Base.ID := i\<rparr>) tracker_indexes"
  "assignments memDB = memCollection mAssignments (\<lambda>l w. w\<lparr>mAssignments := l\<rparr>) TrackerAssignment.ID
     (\<lambda>i d. d\<lparr>TrackerAssignment.ID := i\<rparr>) assignment_indexes"
  "members memDB = memCollection mMembers (\<lambda>l w. w\<lparr>mMembers := l\<rparr>) VehicleGroupMember.ID
     (\<lambda>i d. d\<lparr>VehicleGroupMember.ID := i\<rparr>) member_indexes"
  "documentCol memDB = memCollection mDocuments (\<lambda>l w. w\<lparr>mDocuments := l\<rparr>) Base.ID (\<lambda>i d. d\<lparr>Base.ID := i\<rparr>) document_indexes"
  "models memDB = memCollection mModels (\<lambda>l w. w\<lparr>mModels := l\<rparr>) TrackerModel.ID
     (\<lambda>i d. d\<lparr>TrackerModel.ID := i\<rparr>) model_indexes"
  "groups memDB = memCollection mGroups (\<lambda>l w. w\<lparr>mGroups := l\<rparr>) Base.ID (\<lambda>i d. d\<lparr>Base.ID := i\<rparr>) group_indexes"
  "siteCol memDB = memCollection mSites (\<lambda>l w. w\<lparr>mSites := l\<rparr>) Base.ID (\<lambda>i d. d\<lparr>Base.ID := i\<rparr>) site_indexes"
  "env memDB = memPlatform"
  by (simp_all add: memDB_def)

lemma memDB_database: "database memDB memGood memView"
  unfolding database_def store_def store_axioms_def store_simps methods_simps memDB_simps
  by (simp add: md.mem.mongo_collection_axioms mv.mem.mongo_collection_axioms
      mt.mem.mongo_collection_axioms mdoc.mem.mongo_collection_axioms ms.mem.mongo_collection_axioms
      ma.mem.mongo_collection_axioms mm.mem.mongo_collection_axioms mmod.mem.mongo_collection_axioms
      mg.mem.mongo_collection_axioms mp.platform_axioms)

interpretation mdb: database memDB memGood memView
  by (rule memDB_database)

end
