(* ===== verification/RegistryBase.thy ===== *)
theory RegistryBase
  imports Database
begin

text \<open>
  The shared plumbing of \<^verbatim>\<open>internal/services/registry.go\<close> and
  \<^verbatim>\<open>helpers.go\<close>: ids, scoped reads, paging, the two "present means set" patches, error
  mapping, notices and transactions.
\<close>

section \<open>Definitions\<close>

definition ChangeChannel :: string where
  "ChangeChannel = ''karlo:masterdata''"

definition oid :: "'w Database \<Rightarrow> string \<Rightarrow> error + ObjectID" where
  "oid D ident =
     (case ObjectIDFromHex (env D) (TrimSpace ident) of None \<Rightarrow> Inl ErrNotFound | Some o' \<Rightarrow> Inr o')"

definition scoped ::
  "('a Base_scheme \<Rightarrow> string) \<Rightarrow> string \<Rightarrow> ObjectID \<Rightarrow> 'a Base_scheme \<Rightarrow> bool" where
  "scoped companyOf companyID i d \<longleftrightarrow>
     Base.ID d = i \<and> companyOf d = companyID \<and> \<not> Base.Deleted d"

definition decodeOne :: "('w, 'd) Collection \<Rightarrow> ('d \<Rightarrow> bool) \<Rightarrow> ('w, 'd) io" where
  "decodeOne c p = andThen (FindOne c p) (\<lambda>x. case x of None \<Rightarrow> fail ErrNotFound | Some d \<Rightarrow> ok d)"

definition findOptions :: "Params \<Rightarrow> FindOptions" where
  "findOptions p =
     \<lparr>Skip = Offset p, Limit = PageSize p,
      SortBy = (if Sorts p \<noteq> []
                then map (\<lambda>s. (Sort.Field s, if Sort.Desc s then -1 else 1)) (Sorts p)
                else [(''_id'', 1)])\<rparr>"

definition page :: "('w, 'd) Collection \<Rightarrow> ('d \<Rightarrow> bool) \<Rightarrow> Params \<Rightarrow> ('w, 'd list \<times> int) io" where
  "page c p params =
     andThen (CountDocuments c p) (\<lambda>n.
     andThen (Find c p (Some (findOptions params))) (\<lambda>out.
     ok (out, n)))"

text \<open>\<open>str\<close> and \<open>date\<close> patch a field: absent keeps, blank clears, anything else sets.\<close>

definition str :: "string option \<Rightarrow> string option \<Rightarrow> string option" where
  "str dst src =
     (case src of None \<Rightarrow> dst
      | Some s \<Rightarrow> (let v = TrimSpace s in if v = [] then None else Some v))"

definition date :: "string \<Rightarrow> Time option \<Rightarrow> string option \<Rightarrow> error + Time option" where
  "date msg dst src =
     (case src of None \<Rightarrow> Inr dst
      | Some s \<Rightarrow>
          (let v = TrimSpace s
           in if v = [] then Inr None
              else (case ParseDate v of None \<Rightarrow> Inl (ErrValidation msg) | Some t \<Rightarrow> Inr (Some t))))"

definition mergeAttributes :: "Attrs option \<Rightarrow> Attrs option \<Rightarrow> Attrs option" where
  "mergeAttributes dst src =
     (case src of None \<Rightarrow> dst
      | Some a \<Rightarrow> Some ((case dst of None \<Rightarrow> Map.empty | Some m \<Rightarrow> m) ++ a))"

definition dup :: "string \<Rightarrow> error \<Rightarrow> error" where
  "dup what err = (if err = RepoErrDuplicate then ErrConflict what else err)"

definition validation :: "error \<Rightarrow> error" where
  "validation err =
     (if err \<in> {ErrDriverNameRequired, ErrDriverStatus, ErrPlateRequired}
      then ErrValidation (errorText err) else err)"

definition announce :: "'w Database \<Rightarrow> string \<Rightarrow> string \<Rightarrow> string \<Rightarrow> string \<Rightarrow> ('w, unit) io" where
  "announce D kind companyID ident op =
     call (Publish (env D) ChangeChannel
       \<lparr>NoticeKind = kind, NoticeCompany = companyID, NoticeID = ident, NoticeOp = op\<rparr>)"

definition transact ::
  "'w Database \<Rightarrow> ('w, ObjectID option) io \<Rightarrow> ('w, ObjectID option) io" where
  "transact D fn =
     andThen (call (StartSession (env D))) (\<lambda>started.
     if \<not> started then fn
     else andThen (attempt (WithTransaction (env D) fn)) (\<lambda>r.
       case r of
         Inl e \<Rightarrow> if isNoTransactions e then fn else fail e
       | Inr x \<Rightarrow> ok x))"

text \<open>A condition on an optional field: an absent field satisfies no regular expression.\<close>

definition matchOptional :: "(string \<Rightarrow> bool) \<Rightarrow> string option \<Rightarrow> bool" where
  "matchOptional f s = (case s of None \<Rightarrow> False | Some x \<Rightarrow> f x)"

section \<open>Facts\<close>

lemma own_id: "Base.ID d = i \<Longrightarrow> d\<lparr>Base.ID := i\<rparr> = d"
  by (cases d) simp

lemma str_None [simp]: "str dst None = dst"
  by (simp add: str_def)

lemma str_clears: "str dst (Some '''') = None"
  by (simp add: str_def)

lemma str_trimmed: "str dst (Some s) = Some v \<Longrightarrow> trimmed v \<and> v \<noteq> []"
  by (auto simp: str_def Let_def split: if_splits)

lemma oid_Inr: "oid D ident = Inr i \<longleftrightarrow> ObjectIDFromHex (env D) (TrimSpace ident) = Some i"
  by (auto simp: oid_def split: option.splits)

text \<open>Rules that walk through an operation call by call.\<close>

context world
begin

lemma weaken: "triple (holds Q) m R E \<Longrightarrow> (\<And>v. P v \<Longrightarrow> Q v) \<Longrightarrow> triple (holds P) m R E"
  by (erule triple_pre) (simp add: inWorld_def)

lemma pure: "(b \<Longrightarrow> triple (holds Q) m R E) \<Longrightarrow> triple (holds (\<lambda>v. Q v \<and> b)) m R E"
  by (auto simp: triple_def inWorld_def)

lemma ok_triple: "(\<And>v. Q v \<Longrightarrow> R v) \<Longrightarrow> triple (holds Q) (ok x) (\<lambda>_. holds R) E"
  by (rule triple_ok) (simp add: inWorld_def)

lemma ok_here: "(\<And>v. Q v \<Longrightarrow> R x v) \<Longrightarrow> triple (holds Q) (ok x) (\<lambda>x. holds (R x)) E"
  by (rule triple_ok) (simp add: inWorld_def)

lemma fail_triple: "(\<And>v. Q v \<Longrightarrow> E v) \<Longrightarrow> triple (holds Q) (fail e) R (holds E)"
  by (rule triple_fail) (simp add: inWorld_def)

lemma bind_lift:
  assumes "\<And>x. r = Inr x \<Longrightarrow> triple (holds Q) (k x) R (holds E)" and "\<And>v. Q v \<Longrightarrow> E v"
  shows "triple (holds Q) (andThen (lift r) k) R (holds E)"
proof (cases r)
  case (Inl e)
  then have "andThen (lift r) k = fail e" by (simp add: fun_eq_iff andThen_def lift_def fail_def)
  then show ?thesis using assms(2) by (simp add: fail_triple)
next
  case (Inr x)
  then have "andThen (lift r) k = k x" by (simp add: fun_eq_iff andThen_def lift_def)
  then show ?thesis using assms(1) Inr by simp
qed

lemma bind_unless:
  assumes "b \<Longrightarrow> triple (holds Q) (k ()) R (holds E)" and "\<And>v. Q v \<Longrightarrow> E v"
  shows "triple (holds Q) (andThen (unless b e) k) R (holds E)"
  using assms by (cases b) (simp_all add: unless_def fail_triple)

end

context platform
begin

lemma bind_now:
  "(\<And>t. triple (holds Q) (k t) R (holds E)) \<Longrightarrow> triple (holds Q) (andThen (call (Now P)) k) R (holds E)"
  by (rule triple_andThen [OF now_triple])

lemma bind_new_id:
  "(\<And>i. i \<noteq> NilObjectID \<Longrightarrow> triple (holds Q) (k i) R (holds E)) \<Longrightarrow>
     triple (holds Q) (andThen (call (NewObjectID P)) k) R (holds E)"
  by (rule triple_andThen [OF new_id_triple]) (rule pure)

end

context mongo_collection
begin

lemma bind_decodeOne:
  assumes "\<And>d. p d \<Longrightarrow> triple (holds (\<lambda>v. Q v \<and> get v (idof d) = Some d)) (k d) R (holds E)"
    and "\<And>v. Q v \<Longrightarrow> E v"
  shows "triple (holds Q) (andThen (decodeOne c p) k) R (holds E)"
proof -
  have one: "triple (holds Q) (FindOne c p) (\<lambda>x. holds (\<lambda>v. Q v \<and> foundOne idof p (get v) x)) (holds E)"
    by (rule triple_conseq [OF find_one_triple [where P = Q]]) (auto simp: inWorld_def assms(2))
  have "triple (holds (\<lambda>v. Q v \<and> foundOne idof p (get v) x))
      (andThen (case x of None \<Rightarrow> fail ErrNotFound | Some d \<Rightarrow> ok d) k) R (holds E)" for x
  proof (cases x)
    case None
    have "triple (holds (\<lambda>v. Q v \<and> foundOne idof p (get v) x)) (fail ErrNotFound) R (holds E)"
      by (rule fail_triple) (simp add: assms(2))
    then show ?thesis using None by simp
  next
    case (Some d)
    then show ?thesis
      using assms(1) [of d] by (cases "p d") (auto simp: foundOne_def triple_def inWorld_def)
  qed
  from triple_andThen [OF one this] show ?thesis unfolding decodeOne_def andThen_assoc .
qed

lemma bind_count:
  assumes "\<And>n. triple (holds (\<lambda>v. Q v \<and> n = int (card (matching p (get v))))) (k n) R (holds E)"
    and "\<And>v. Q v \<Longrightarrow> E v"
  shows "triple (holds Q) (andThen (CountDocuments c p) k) R (holds E)"
proof -
  have "triple (holds Q) (CountDocuments c p) (\<lambda>n. holds (\<lambda>v. Q v \<and> n = int (card (matching p (get v))))) (holds E)"
    by (rule triple_conseq [OF count_triple [where P = Q]]) (auto simp: inWorld_def assms(2))
  from triple_andThen [OF this assms(1)] show ?thesis .
qed

lemma bind_find:
  assumes "\<And>ds. triple (holds (\<lambda>v. Q v \<and> found idof p opts (get v) ds)) (k ds) R (holds E)"
    and "\<And>v. Q v \<Longrightarrow> E v"
  shows "triple (holds Q) (andThen (Find c p opts) k) R (holds E)"
proof -
  have "triple (holds Q) (Find c p opts) (\<lambda>ds. holds (\<lambda>v. Q v \<and> found idof p opts (get v) ds)) (holds E)"
    by (rule triple_conseq [OF find_triple [where P = Q]]) (auto simp: inWorld_def assms(2))
  from triple_andThen [OF this assms(1)] show ?thesis .
qed

lemma count_none:
  "good w \<Longrightarrow> int (card (matching p (get (vw w)))) = 0 \<Longrightarrow> get (vw w) i = Some d \<Longrightarrow> \<not> p d"
  using finite_docs [of w] finite_subset [of "matching p (get (vw w))" "dom (get (vw w))"]
  by (auto simp: matching_def)

lemma bind_count_none:
  assumes "triple (holds (\<lambda>v. Q v \<and> (\<forall>i d. get v i = Some d \<longrightarrow> \<not> p d))) m R (holds E)"
  shows "triple (holds (\<lambda>v. Q v \<and> 0 = int (card (matching p (get v))))) m R (holds E)"
  using assms by (rule triple_pre) (auto simp: inWorld_def dest: count_none)

lemma bind_attempt_many:
  assumes id: "\<And>x. idof (f x) = idof x"
    and step: "\<And>v S. Q v \<Longrightarrow> Q' (put (modify S p f (get v)) v)"
    and k: "\<And>r. triple (holds Q') (k r) R (holds E)"
  shows "triple (holds Q) (andThen (attempt (UpdateMany c p f)) k) R (holds E)"
proof (rule triple_andThen [OF triple_attempt])
  show "triple (holds Q) (UpdateMany c p f) (\<lambda>n. holds Q') (\<lambda>w. \<forall>e::error. holds Q' w)"
    by (rule triple_conseq [OF update_many_triple [where P = Q and Q = "\<lambda>_. Q'" and E = Q', OF id]])
      (auto simp: step)
qed (rule k)

lemma bind_many:
  assumes id: "\<And>x. idof (f x) = idof x"
    and step: "\<And>v. Q v \<Longrightarrow> Q' (put (modify UNIV p f (get v)) v)"
    and part: "\<And>v S. Q v \<Longrightarrow> E (put (modify S p f (get v)) v)"
    and k: "\<And>n. triple (holds Q') (k n) R (holds E)"
  shows "triple (holds Q) (andThen (UpdateMany c p f) k) R (holds E)"
  by (rule triple_andThen [OF update_many_triple [where P = Q and Q = "\<lambda>_. Q'" and E = E, OF id]])
    (use step part k in auto)

lemma bind_attempt_find:
  assumes "\<And>r. triple (holds Q) (k r) R (holds E)"
  shows "triple (holds Q) (andThen (attempt (Find c p opts)) k) R (holds E)"
proof (rule triple_andThen [OF triple_attempt])
  show "triple (holds Q) (Find c p opts) (\<lambda>_. holds Q) (\<lambda>w. \<forall>e::error. holds Q w)"
    by (rule triple_conseq [OF find_triple [where P = Q]]) (auto simp: inWorld_def)
qed (rule assms)

lemma bind_attempt_delete:
  assumes "\<And>v S. Q v \<Longrightarrow> S \<subseteq> matching p (get v) \<Longrightarrow> Q' (put (get v |` (- S)) v)"
    and k: "\<And>r. triple (holds Q') (k r) R (holds E)"
  shows "triple (holds Q) (andThen (attempt (DeleteMany c p)) k) R (holds E)"
proof (rule triple_andThen [OF triple_attempt])
  show "triple (holds Q) (DeleteMany c p) (\<lambda>_. holds Q') (\<lambda>w. \<forall>e::error. holds Q' w)"
    by (rule triple_conseq [OF delete_many_triple [where P = Q and Q = "\<lambda>_. Q'" and E = Q']])
      (use assms(1) in auto)
qed (rule k)

lemma with_keys:
  assumes "triple (holds (\<lambda>v. Q v \<and> (\<forall>i d. get v i = Some d \<longrightarrow> idof d = i \<and> i \<noteq> NilObjectID) \<and>
      finite (dom (get v)) \<and> indexed ixs (get v))) m R E"
  shows "triple (holds Q) m R E"
  by (rule triple_pre [OF assms]) (rule holds_keyed)

lemma decodeOne_triple:
  "triple (holds P) (decodeOne c p) (\<lambda>d. holds (\<lambda>v. P v \<and> p d \<and> get v (idof d) = Some d)) (holds P)"
  unfolding decodeOne_def
proof (rule triple_andThen, rule find_one_triple)
  fix x
  show "triple (holds (\<lambda>v. P v \<and> foundOne idof p (get v) x))
      (case x of None \<Rightarrow> fail ErrNotFound | Some d \<Rightarrow> ok d)
      (\<lambda>d. holds (\<lambda>v. P v \<and> p d \<and> get v (idof d) = Some d)) (holds P)"
    by (cases x) (auto intro!: triple_ok triple_fail simp: inWorld_def foundOne_def)
qed

lemma page_triple:
  "triple (holds P) (page c p prm)
     (\<lambda>(ds, n). holds (\<lambda>v. P v \<and> found idof p (Some (findOptions prm)) (get v) ds \<and>
        n = int (card (matching p (get v))))) (holds P)"
  unfolding page_def
proof (rule triple_andThen [OF count_triple])
  fix n
  let ?P = "\<lambda>v. P v \<and> n = int (card (matching p (get v)))"
  have "triple (holds ?P) (Find c p (Some (findOptions prm)))
      (\<lambda>ds. holds (\<lambda>v. ?P v \<and> found idof p (Some (findOptions prm)) (get v) ds)) (holds P)"
    by (rule triple_conseq [OF find_triple [where P = ?P]]) (auto simp: inWorld_def)
  then show "triple (holds ?P) (andThen (Find c p (Some (findOptions prm))) (\<lambda>out. ok (out, n)))
      (\<lambda>(ds, n). holds (\<lambda>v. P v \<and> found idof p (Some (findOptions prm)) (get v) ds \<and>
        n = int (card (matching p (get v))))) (holds P)"
    by (rule triple_andThen) (rule triple_ok, simp add: inWorld_def)
qed

end

context mongo_collection
begin

lemma bind_page:
  assumes "\<And>ds n. list_all p ds \<Longrightarrow> distinct (map idof ds) \<Longrightarrow> int (length ds) \<le> n \<Longrightarrow>
      (0 < PageSize prm \<Longrightarrow> int (length ds) \<le> PageSize prm) \<Longrightarrow>
      triple (holds (\<lambda>v. Q v \<and> (\<forall>d \<in> set ds. get v (idof d) = Some d))) (k (ds, n)) R (holds Q)"
  shows "triple (holds Q) (andThen (page c p prm) k) R (holds Q)"
proof (rule triple_andThen [OF page_triple])
  fix x :: "'d list \<times> int"
  obtain ds n where x: "x = (ds, n)" by force
  show "triple ((\<lambda>(ds, n). holds (\<lambda>v. Q v \<and> found idof p (Some (findOptions prm)) (get v) ds \<and>
      n = int (card (matching p (get v))))) x) (k x) R (holds Q)"
  proof (cases "list_all p ds \<and> distinct (map idof ds) \<and> int (length ds) \<le> n \<and> withinLimit (Some (findOptions prm)) ds")
    case True
    then show ?thesis
      unfolding x by (intro triple_pre [OF assms]) (auto simp: inWorld_def found_def withinLimit_def findOptions_def)
  next
    case False
    have "\<not> holds (\<lambda>v. Q v \<and> found idof p (Some (findOptions prm)) (get v) ds \<and> n = int (card (matching p (get v)))) w" for w
    proof
      assume w: "holds (\<lambda>v. Q v \<and> found idof p (Some (findOptions prm)) (get v) ds \<and> n = int (card (matching p (get v)))) w"
      then have f: "found idof p (Some (findOptions prm)) (get (vw w)) ds" and n: "n = int (card (matching p (get (vw w))))"
        and "good w" by (simp_all add: inWorld_def)
      then have "finite (matching p (get (vw w)))"
        using finite_docs [of w] finite_subset [of "matching p (get (vw w))" "dom (get (vw w))"]
        by (auto simp: matching_def)
      moreover have "idof ` set ds \<subseteq> matching p (get (vw w))" using f by (auto simp: found_def matching_def)
      ultimately have "card (set (map idof ds)) \<le> card (matching p (get (vw w)))" by (simp add: card_mono)
      moreover have "distinct (map idof ds)" using f by (simp add: found_def)
      ultimately have "length ds \<le> card (matching p (get (vw w)))" using distinct_card by fastforce
      then show False using False f n by (simp add: found_def list_all_iff)
    qed
    then show ?thesis unfolding x by (simp add: triple_def)
  qed
qed

lemma bind_distinct:
  assumes "\<And>vs. triple (holds (\<lambda>v. Q v \<and> set vs = {key d | d i. get v i = Some d \<and> p d})) (k vs) R (holds Q)"
  shows "triple (holds Q) (andThen (Distinct c key p) k) R (holds Q)"
  by (rule triple_andThen [OF distinct_triple]) (rule assms)

end

context database
begin

lemma oid_triple:
  "triple (holds Q) (lift (oid D ident))
     (\<lambda>i. holds (\<lambda>v. Q v \<and> ObjectIDFromHex (env D) (TrimSpace ident) = Some i)) (holds Q)"
  by (rule triple_lift) (auto simp: oid_Inr inWorld_def)

lemma bind_announce:
  "triple (holds Q) (k ()) R (holds E) \<Longrightarrow>
     triple (holds Q) (andThen (announce D kd co i op) k) R (holds E)"
  unfolding announce_def by (rule triple_andThen [OF publish_triple]) simp

lemma announce_triple: "triple (holds Q) (announce D kd co i op) (\<lambda>_. holds Q) (holds E)"
  unfolding announce_def by (rule publish_triple)

text \<open>
  A step run in a transaction where the deployment has them: its effect on success, and on
  failure whatever a run cut short may have left.
\<close>

lemma transact_triple:
  assumes run: "triple (holds Q) f (\<lambda>x. holds (R x)) (holds E)"
    and total: "triple (holds (\<lambda>_. True)) f (\<lambda>_. holds (\<lambda>_. True)) (holds (\<lambda>_. True))"
    and "\<And>v. Q v \<Longrightarrow> E v" and "\<And>v x. R x v \<Longrightarrow> E v"
  shows "triple (holds Q) (transact D f) (\<lambda>x. holds (R x)) (holds E)"
  unfolding transact_def
proof (rule triple_andThen [where Q' = "\<lambda>_. holds Q"], rule session_triple)
  fix started
  show "triple (holds Q) (if \<not> started then f else
      andThen (attempt (WithTransaction (env D) f))
        (\<lambda>r. case r of Inl e \<Rightarrow> if isNoTransactions e then f else fail e | Inr x \<Rightarrow> ok x))
      (\<lambda>x. holds (R x)) (holds E)"
  proof (cases started)
    case True
    have "triple (holds Q) (attempt (WithTransaction (env D) f))
        (\<lambda>r. holds (\<lambda>v. case r of Inr x \<Rightarrow> R x v | Inl e \<Rightarrow> if isNoTransactions e then Q v else E v))
        (holds E)"
      by (rule transaction_triple [OF total triple_conseq [OF run]]) (use assms(3,4) in auto)
    moreover have "triple (holds (\<lambda>v. case r of Inr x \<Rightarrow> R x v | Inl e \<Rightarrow> if isNoTransactions e then Q v else E v))
        (case r of Inl e \<Rightarrow> if isNoTransactions e then f else fail e | Inr x \<Rightarrow> ok x)
        (\<lambda>x. holds (R x)) (holds E)" for r
      using run by (cases r) (auto intro!: triple_ok triple_fail)
    ultimately show ?thesis using True by (simp add: triple_andThen)
  qed (use run in simp)
qed

end

end
