(* ===== verification/Devices.thy ===== *)
theory Devices
  imports RegistryBase
begin

text \<open>
  The device resolver (\<^verbatim>\<open>internal/repository/devices.go\<close>): which device a vehicle
  carried at a moment, which vehicle carried a device, and the stretches of time between. All
  three read the fitting history the register writes.
\<close>

section \<open>The queries\<close>

text \<open>A fitting covers a moment when it had begun by then and had not ended.\<close>

definition coversAt :: "Time \<Rightarrow> TrackerAssignment \<Rightarrow> bool" where
  "coversAt at' a \<longleftrightarrow>
     TrackerAssignment.FittedAt a \<le> at' \<and> (case UnfittedAt a of None \<Rightarrow> True | Some u \<Rightarrow> at' < u)"

definition fittedAtOf :: "'w Database \<Rightarrow> string \<Rightarrow> string \<Rightarrow> ('w, Time option) io" where
  "fittedAtOf D vehicleID imei =
     andThen (attempt (FindOne (assignments D)
       (\<lambda>a. TrackerAssignment.VehicleID a = vehicleID \<and> TrackerAssignment.IMEI a = imei))) (\<lambda>r.
     ok (case r of Inr (Some a) \<Rightarrow> Some (TrackerAssignment.FittedAt a) | _ \<Rightarrow> None))"

text \<open>The loop over the cursor; \<open>out\<close> is the map it fills.\<close>

fun imeiLoop ::
  "'w Database \<Rightarrow> TrackerAssignment list \<Rightarrow> (string \<rightharpoonup> string) \<Rightarrow> ('w, string \<rightharpoonup> string) io" where
  "imeiLoop D [] out = ok out"
| "imeiLoop D (a # as) out =
     (let v = TrackerAssignment.VehicleID a; imei = TrackerAssignment.IMEI a;
          store = imeiLoop D as (out(v \<mapsto> imei))
      in if imei = [] then imeiLoop D as out
         else (case out v of
                 None \<Rightarrow> store
               | Some existing \<Rightarrow>
                   if existing = imei then store
                   else andThen (fittedAtOf D v existing) (\<lambda>prev.
                        case prev of
                          None \<Rightarrow> store
                        | Some t \<Rightarrow> if t > TrackerAssignment.FittedAt a then imeiLoop D as out else store)))"

definition IMEIsAt ::
  "'w Database \<Rightarrow> string \<Rightarrow> string list \<Rightarrow> Time \<Rightarrow> ('w, string \<rightharpoonup> string) io" where
  "IMEIsAt D companyID vehicleIDs at' =
     (if vehicleIDs = [] then ok Map.empty
      else andThen (Find (assignments D)
             (\<lambda>a. TrackerAssignment.CompanyID a = companyID \<and>
                  TrackerAssignment.VehicleID a \<in> set vehicleIDs \<and> coversAt at' a) None) (\<lambda>as.
           imeiLoop D as Map.empty))"

definition VehicleAt :: "'w Database \<Rightarrow> string \<Rightarrow> Time \<Rightarrow> ('w, string \<times> bool) io" where
  "VehicleAt D imei at' =
     andThen (FindOne (assignments D) (\<lambda>a. TrackerAssignment.IMEI a = imei \<and> coversAt at' a)) (\<lambda>r.
     ok (case r of None \<Rightarrow> ([], False) | Some a \<Rightarrow> (TrackerAssignment.VehicleID a, True)))"

record AssignmentPeriod =
  IMEI :: string
  VehicleID :: string
  FittedAt :: Time
  UnfittedAt :: "Time option"

definition periodOf :: "TrackerAssignment \<Rightarrow> AssignmentPeriod" where
  "periodOf a =
     \<lparr>AssignmentPeriod.IMEI = TrackerAssignment.IMEI a, VehicleID = TrackerAssignment.VehicleID a,
      FittedAt = TrackerAssignment.FittedAt a, UnfittedAt = TrackerAssignment.UnfittedAt a\<rparr>"

text \<open>Overlap, not containment: begun before the window ends, not ended when it begins.\<close>

definition overlaps :: "Time \<Rightarrow> Time \<Rightarrow> TrackerAssignment \<Rightarrow> bool" where
  "overlaps from' to' a \<longleftrightarrow>
     TrackerAssignment.FittedAt a \<le> to' \<and>
     (case TrackerAssignment.UnfittedAt a of None \<Rightarrow> True | Some u \<Rightarrow> from' < u)"

definition PeriodsFor ::
  "'w Database \<Rightarrow> string \<Rightarrow> string \<Rightarrow> Time \<Rightarrow> Time \<Rightarrow> ('w, AssignmentPeriod list) io" where
  "PeriodsFor D companyID vehicleID from' to' =
     andThen (Find (assignments D)
       (\<lambda>a. TrackerAssignment.CompanyID a = companyID \<and> overlaps from' to' a \<and>
            (vehicleID \<noteq> [] \<longrightarrow> TrackerAssignment.VehicleID a = vehicleID))
       (Some \<lparr>Skip = 0, Limit = 0, SortBy = [(''vehicleId'', 1), (''fittedAt'', 1)]\<rparr>)) (\<lambda>as.
     ok (map periodOf (filter (\<lambda>a. TrackerAssignment.IMEI a \<noteq> []) as)))"

section \<open>What the answers say of the history\<close>

text \<open>A device is on a vehicle from the moment it is fitted up to, and not at, the moment it is taken
  off: the reading of a fitting the answers are measured by, stated apart from the query.\<close>

definition onAt :: "Time \<Rightarrow> TrackerAssignment \<Rightarrow> bool" where
  "onAt at' a \<longleftrightarrow> TrackerAssignment.FittedAt a \<le> at' \<and>
     (TrackerAssignment.UnfittedAt a = None \<or> (\<exists>u. TrackerAssignment.UnfittedAt a = Some u \<and> u > at'))"

lemma coversAt_onAt: "coversAt at' a = onAt at' a"
  by (auto simp: coversAt_def onAt_def split: option.splits)

text \<open>A fitting of the company that covered the moment with a device that reports positions.\<close>

definition carried ::
  "MasterData \<Rightarrow> string \<Rightarrow> Time \<Rightarrow> string \<Rightarrow> string \<Rightarrow> bool" where
  "carried v companyID at' vehicleID imei \<longleftrightarrow>
     imei \<noteq> [] \<and>
     (\<exists>j a. Assignments v j = Some a \<and> TrackerAssignment.CompanyID a = companyID \<and>
        TrackerAssignment.VehicleID a = vehicleID \<and> TrackerAssignment.IMEI a = imei \<and> onAt at' a)"

lemma overlaps_covers: "onAt t a \<Longrightarrow> from' \<le> t \<Longrightarrow> t \<le> to' \<Longrightarrow> overlaps from' to' a"
  by (auto simp: onAt_def overlaps_def split: option.splits)

text \<open>
  Where a vehicle has several fittings at one moment the latest is meant to win. The vehicle
  \<open>x\<close> is answered by a fitting no other of the moment is later than; \<open>fittedOnce\<close> says that
  no device was fitted to the vehicle twice.
\<close>

definition latestOn :: "MasterData \<Rightarrow> string \<Rightarrow> Time \<Rightarrow> string \<Rightarrow> string \<Rightarrow> bool" where
  "latestOn v companyID at' x imei \<longleftrightarrow>
     (\<exists>j a. Assignments v j = Some a \<and> TrackerAssignment.CompanyID a = companyID \<and>
        TrackerAssignment.VehicleID a = x \<and> TrackerAssignment.IMEI a = imei \<and> onAt at' a \<and>
        (\<forall>k b. Assignments v k = Some b \<longrightarrow> TrackerAssignment.CompanyID b = companyID \<longrightarrow>
           TrackerAssignment.VehicleID b = x \<longrightarrow> TrackerAssignment.IMEI b \<noteq> [] \<longrightarrow> onAt at' b \<longrightarrow>
           TrackerAssignment.FittedAt b \<le> TrackerAssignment.FittedAt a))"

definition fittedOnce :: "MasterData \<Rightarrow> string \<Rightarrow> bool" where
  "fittedOnce v x \<longleftrightarrow> (\<forall>i j a b. Assignments v i = Some a \<longrightarrow> Assignments v j = Some b \<longrightarrow>
     TrackerAssignment.VehicleID a = x \<longrightarrow> TrackerAssignment.VehicleID b = x \<longrightarrow>
     TrackerAssignment.IMEI a = TrackerAssignment.IMEI b \<longrightarrow> a = b)"

text \<open>The fitting the map answers for \<open>x\<close> is none before another of those read.\<close>

definition newest :: "string \<Rightarrow> TrackerAssignment list \<Rightarrow> (string \<rightharpoonup> string) \<Rightarrow> bool" where
  "newest x as out \<longleftrightarrow>
     (\<forall>m. out x = Some m \<longrightarrow> (\<exists>a \<in> set as. TrackerAssignment.VehicleID a = x \<and> TrackerAssignment.IMEI a = m \<and>
        (\<forall>b \<in> set as. TrackerAssignment.VehicleID b = x \<longrightarrow> TrackerAssignment.IMEI b \<noteq> [] \<longrightarrow>
           TrackerAssignment.FittedAt b \<le> TrackerAssignment.FittedAt a))) \<and>
     (out x = None \<longrightarrow> (\<forall>b \<in> set as. TrackerAssignment.VehicleID b = x \<longrightarrow> TrackerAssignment.IMEI b = []))"

lemma newest_skip:
  assumes "newest x as out"
    and "TrackerAssignment.VehicleID a = x \<Longrightarrow> TrackerAssignment.IMEI a \<noteq> [] \<Longrightarrow>
      \<exists>m b. out x = Some m \<and> (\<forall>c \<in> set as. TrackerAssignment.VehicleID c = x \<longrightarrow> TrackerAssignment.IMEI c = m \<longrightarrow> c = b) \<and>
        TrackerAssignment.FittedAt a \<le> TrackerAssignment.FittedAt b"
  shows "newest x (as @ [a]) out"
proof (cases "TrackerAssignment.VehicleID a = x \<and> TrackerAssignment.IMEI a \<noteq> []")
  case True
  then obtain m b where m: "out x = Some m" "TrackerAssignment.FittedAt a \<le> TrackerAssignment.FittedAt b"
    and b: "\<And>c. c \<in> set as \<Longrightarrow> TrackerAssignment.VehicleID c = x \<Longrightarrow> TrackerAssignment.IMEI c = m \<Longrightarrow> c = b"
    using assms(2) by blast
  obtain c where c: "c \<in> set as" "TrackerAssignment.VehicleID c = x" "TrackerAssignment.IMEI c = m"
    "\<forall>b \<in> set as. TrackerAssignment.VehicleID b = x \<longrightarrow> TrackerAssignment.IMEI b \<noteq> [] \<longrightarrow>
       TrackerAssignment.FittedAt b \<le> TrackerAssignment.FittedAt c"
    using assms(1) m(1) unfolding newest_def by blast
  with b [OF c(1-3)] m show ?thesis unfolding newest_def by auto
next
  case False
  then show ?thesis using assms(1) unfolding newest_def by (auto; blast)
qed

lemma newest_store:
  assumes "newest x as out" and "TrackerAssignment.IMEI a \<noteq> []"
    and "TrackerAssignment.VehicleID a = x \<Longrightarrow> out x = None \<or>
      (\<exists>m b. out x = Some m \<and> (\<forall>c \<in> set as. TrackerAssignment.VehicleID c = x \<longrightarrow> TrackerAssignment.IMEI c = m \<longrightarrow> c = b) \<and>
        TrackerAssignment.FittedAt b \<le> TrackerAssignment.FittedAt a)"
  shows "newest x (as @ [a]) (out(TrackerAssignment.VehicleID a \<mapsto> TrackerAssignment.IMEI a))"
proof (cases "TrackerAssignment.VehicleID a = x")
  case True
  have "TrackerAssignment.FittedAt c \<le> TrackerAssignment.FittedAt a"
    if c: "c \<in> set as" "TrackerAssignment.VehicleID c = x" "TrackerAssignment.IMEI c \<noteq> []" for c
  proof -
    have "out x \<noteq> None" using assms(1) c unfolding newest_def by blast
    then have "\<exists>m b. out x = Some m \<and> (\<forall>c \<in> set as. TrackerAssignment.VehicleID c = x \<longrightarrow> TrackerAssignment.IMEI c = m \<longrightarrow> c = b) \<and>
        TrackerAssignment.FittedAt b \<le> TrackerAssignment.FittedAt a"
      using assms(3) [OF True] by auto
    then obtain m b where m: "out x = Some m" "TrackerAssignment.FittedAt b \<le> TrackerAssignment.FittedAt a"
      and b: "\<And>c. c \<in> set as \<Longrightarrow> TrackerAssignment.VehicleID c = x \<Longrightarrow> TrackerAssignment.IMEI c = m \<Longrightarrow> c = b"
      by blast
    obtain d where d: "d \<in> set as" "TrackerAssignment.VehicleID d = x" "TrackerAssignment.IMEI d = m"
      "TrackerAssignment.FittedAt c \<le> TrackerAssignment.FittedAt d"
      using assms(1) m(1) c unfolding newest_def by blast
    with b [OF d(1-3)] m(2) show ?thesis by simp
  qed
  then show ?thesis using True assms(2) unfolding newest_def by auto
next
  case False
  then show ?thesis using assms(1) unfolding newest_def by (auto; blast)
qed

text \<open>What the loop has seen, as a relation between the fittings read and the map built.\<close>

definition answers :: "TrackerAssignment list \<Rightarrow> (string \<rightharpoonup> string) \<Rightarrow> bool" where
  "answers as out \<longleftrightarrow>
     (\<forall>v m. out v = Some m \<longrightarrow> m \<noteq> [] \<and>
        (\<exists>a \<in> set as. TrackerAssignment.VehicleID a = v \<and> TrackerAssignment.IMEI a = m)) \<and>
     (\<forall>a \<in> set as. TrackerAssignment.IMEI a \<noteq> [] \<longrightarrow> out (TrackerAssignment.VehicleID a) \<noteq> None)"

lemma answersI:
  assumes "\<And>v m. out v = Some m \<Longrightarrow> m \<noteq> [] \<and>
      (\<exists>a \<in> set as. TrackerAssignment.VehicleID a = v \<and> TrackerAssignment.IMEI a = m)"
    and "\<And>a. a \<in> set as \<Longrightarrow> TrackerAssignment.IMEI a \<noteq> [] \<Longrightarrow> out (TrackerAssignment.VehicleID a) \<noteq> None"
  shows "answers as out"
  using assms unfolding answers_def by blast

lemma answersD:
  "answers as out \<Longrightarrow> out v = Some m \<Longrightarrow> m \<noteq> [] \<and>
     (\<exists>a \<in> set as. TrackerAssignment.VehicleID a = v \<and> TrackerAssignment.IMEI a = m)"
  "answers as out \<Longrightarrow> a \<in> set as \<Longrightarrow> TrackerAssignment.IMEI a \<noteq> [] \<Longrightarrow> out (TrackerAssignment.VehicleID a) \<noteq> None"
  unfolding answers_def by blast+

lemma answers_skip:
  assumes "answers as out" and "TrackerAssignment.IMEI a \<noteq> [] \<longrightarrow> out (TrackerAssignment.VehicleID a) \<noteq> None"
  shows "answers (as @ [a]) out"
  by (rule answersI) (use assms answersD [OF assms(1)] in \<open>(auto; blast)\<close>)+

lemma answers_store:
  assumes "answers as out" and "TrackerAssignment.IMEI a \<noteq> []"
  shows "answers (as @ [a]) (out(TrackerAssignment.VehicleID a \<mapsto> TrackerAssignment.IMEI a))"
proof (rule answersI)
  fix v m assume "(out(TrackerAssignment.VehicleID a \<mapsto> TrackerAssignment.IMEI a)) v = Some m"
  then show "m \<noteq> [] \<and> (\<exists>b \<in> set (as @ [a]). TrackerAssignment.VehicleID b = v \<and> TrackerAssignment.IMEI b = m)"
    using assms(2) answersD(1) [OF assms(1), of v m] by (auto split: if_splits)
next
  fix b assume "b \<in> set (as @ [a])" "TrackerAssignment.IMEI b \<noteq> []"
  then show "(out(TrackerAssignment.VehicleID a \<mapsto> TrackerAssignment.IMEI a)) (TrackerAssignment.VehicleID b) \<noteq> None"
    using answersD(2) [OF assms(1), of b] by auto
qed

lemma found_rows:
  assumes "found idof p opts m ds" "unlimited opts" "\<And>j a. m j = Some a \<Longrightarrow> idof a = j"
  shows "a \<in> set ds \<longleftrightarrow> (\<exists>j. m j = Some a) \<and> p a"
proof
  assume "a \<in> set ds"
  then show "(\<exists>j. m j = Some a) \<and> p a" using assms(1) unfolding found_def by blast
next
  assume "(\<exists>j. m j = Some a) \<and> p a"
  then obtain j where j: "m j = Some a" "p a" by blast
  then have "j \<in> idof ` set ds" using assms(1,2) unfolding found_def matching_def by blast
  then obtain b where "b \<in> set ds" "j = idof b" by blast
  then have "m j = Some b" using assms(1) unfolding found_def by blast
  then show "a \<in> set ds" using j \<open>b \<in> set ds\<close> by simp
qed

context mongo_collection
begin

lemma bind_attempt_one:
  assumes "\<And>r. triple (holds Q) (k r) R (holds E)"
  shows "triple (holds Q) (andThen (attempt (FindOne c p)) k) R (holds E)"
proof (rule triple_andThen [OF triple_attempt])
  show "triple (holds Q) (FindOne c p) (\<lambda>_. holds Q) (\<lambda>w. \<forall>e::error. holds Q w)"
    by (rule triple_conseq [OF find_one_triple [where P = Q]]) (auto simp: inWorld_def)
qed (rule assms)

lemma bind_find_all:
  assumes "\<And>ds. triple (holds (\<lambda>v. Q v \<and> (\<forall>a. a \<in> set ds \<longleftrightarrow> (\<exists>j. get v j = Some a) \<and> p a))) (k ds) R (holds E)"
    and "\<And>v. Q v \<Longrightarrow> E v" and "unlimited opts"
  shows "triple (holds Q) (andThen (Find c p opts) k) R (holds E)"
proof (rule bind_find)
  fix ds
  show "triple (holds (\<lambda>v. Q v \<and> found idof p opts (get v) ds)) (k ds) R (holds E)"
  proof (rule triple_pre [OF assms(1)])
    fix w assume w: "holds (\<lambda>v. Q v \<and> found idof p opts (get v) ds) w"
    then have "a \<in> set ds \<longleftrightarrow> (\<exists>j. get (vw w) j = Some a) \<and> p a" for a
      using found_rows [of idof p opts "get (vw w)" ds a] keyed [of w] assms(3) by (auto simp: inWorld_def)
    then show "holds (\<lambda>v. Q v \<and> (\<forall>a. a \<in> set ds \<longleftrightarrow> (\<exists>j. get v j = Some a) \<and> p a)) w"
      using w by (simp add: inWorld_def)
  qed
qed (rule assms(2))

end

context database
begin

lemma fittedAtOf_triple: "triple (holds Q) (fittedAtOf D v m) (\<lambda>_. holds Q) (holds E)"
  unfolding fittedAtOf_def
  by (rule asg.bind_attempt_one) (rule ok_triple)

lemma imeiLoop_triple:
  "answers seen out \<Longrightarrow>
     triple (holds Q) (imeiLoop D as out) (\<lambda>r. holds (\<lambda>v. Q v \<and> answers (seen @ as) r)) (holds E)"
proof (induction as arbitrary: seen out)
  case Nil
  then show ?case by (auto intro!: ok_here)
next
  case (Cons a as)
  have skip: "triple (holds Q) (imeiLoop D as out) (\<lambda>r. holds (\<lambda>v. Q v \<and> answers (seen @ a # as) r)) (holds E)"
    if "TrackerAssignment.IMEI a \<noteq> [] \<longrightarrow> out (TrackerAssignment.VehicleID a) \<noteq> None"
    using Cons.IH [OF answers_skip [OF Cons.prems that]] by (simp only: append_assoc append_Cons append_Nil)
  have store: "triple (holds Q) (imeiLoop D as (out(TrackerAssignment.VehicleID a \<mapsto> TrackerAssignment.IMEI a)))
      (\<lambda>r. holds (\<lambda>v. Q v \<and> answers (seen @ a # as) r)) (holds E)"
    if "TrackerAssignment.IMEI a \<noteq> []"
    using Cons.IH [OF answers_store [OF Cons.prems that]] by (simp only: append_assoc append_Cons append_Nil)
  show ?case
  proof (cases "TrackerAssignment.IMEI a = []")
    case True
    have "triple (holds Q) (imeiLoop D as out) (\<lambda>r. holds (\<lambda>v. Q v \<and> answers (seen @ a # as) r)) (holds E)"
      by (rule skip) (simp add: True)
    then show ?thesis using True by simp
  next
    case False
    show ?thesis
    proof (cases "out (TrackerAssignment.VehicleID a)")
      case None
      then show ?thesis using False store by simp
    next
      case (Some existing)
      have keep: "triple (holds Q) (imeiLoop D as out) (\<lambda>r. holds (\<lambda>v. Q v \<and> answers (seen @ a # as) r)) (holds E)"
        by (rule skip) (simp add: Some)
      have "triple (holds Q) (andThen (fittedAtOf D (TrackerAssignment.VehicleID a) existing) (\<lambda>prev.
          case prev of
            None \<Rightarrow> imeiLoop D as (out(TrackerAssignment.VehicleID a \<mapsto> TrackerAssignment.IMEI a))
          | Some t \<Rightarrow> if t > TrackerAssignment.FittedAt a then imeiLoop D as out
                      else imeiLoop D as (out(TrackerAssignment.VehicleID a \<mapsto> TrackerAssignment.IMEI a))))
          (\<lambda>r. holds (\<lambda>v. Q v \<and> answers (seen @ a # as) r)) (holds E)"
        by (rule triple_andThen [OF fittedAtOf_triple])
          (use False store keep in \<open>auto split: option.splits\<close>)
      then show ?thesis using False Some store by (simp add: Let_def)
    qed
  qed
qed

text \<open>The lookups of one fitting within the loop answer; the code takes a failed one for no answer.\<close>

definition lookupsAnswer :: bool where
  "lookupsAnswer \<longleftrightarrow> (\<forall>p w e w'. good w \<longrightarrow> FindOne (assignments D) p w \<noteq> (Inl e, w'))"

lemma fittedAtOf_reads:
  assumes lookupsAnswer
  shows "triple (holds (\<lambda>v. v = v0)) (fittedAtOf D x m) (\<lambda>r. holds (\<lambda>v. v = v0 \<and>
     (case r of None \<Rightarrow> \<forall>j a. Assignments v0 j = Some a \<longrightarrow> TrackerAssignment.VehicleID a = x \<longrightarrow> TrackerAssignment.IMEI a \<noteq> m
      | Some t \<Rightarrow> \<exists>j a. Assignments v0 j = Some a \<and> TrackerAssignment.VehicleID a = x \<and>
          TrackerAssignment.IMEI a = m \<and> TrackerAssignment.FittedAt a = t))) (holds E)"
proof -
  let ?p = "\<lambda>a. TrackerAssignment.VehicleID a = x \<and> TrackerAssignment.IMEI a = m"
  let ?Q = "\<lambda>r. holds (\<lambda>v. v = v0 \<and> (\<exists>o'. r = Inr o' \<and> foundOne TrackerAssignment.ID ?p (Assignments v) o'))"
  have one: "triple (holds (\<lambda>v. v = v0)) (FindOne (assignments D) ?p) (\<lambda>o'. ?Q (Inr o')) (\<lambda>w. \<forall>e::error. ?Q (Inl e) w)"
  proof (rule tripleI)
    fix w o' w' assume "holds (\<lambda>v. v = v0) w" "FindOne (assignments D) ?p w = (Inr o', w')"
    then show "?Q (Inr o') w'" using asg.find_one [of w ?p "Inr o'" w'] by (simp add: inWorld_def)
  next
    fix w e w' assume "holds (\<lambda>v. v = v0) w" "FindOne (assignments D) ?p w = (Inl e, w')"
    then show "\<forall>e::error. ?Q (Inl e) w'" using assms by (auto simp: lookupsAnswer_def inWorld_def)
  qed
  show ?thesis
    unfolding fittedAtOf_def
    by (rule triple_andThen [OF triple_attempt [OF one]], rule triple_ok)
      (auto simp: inWorld_def foundOne_def matching_def split: option.splits, blast+)
qed

lemma imeiLoop_newest:
  assumes sure: lookupsAnswer and once: "fittedOnce v0 x"
  shows "newest x seen out \<Longrightarrow> \<forall>a \<in> set (seen @ as). \<exists>j. Assignments v0 j = Some a \<Longrightarrow>
     triple (holds (\<lambda>v. v = v0)) (imeiLoop D as out) (\<lambda>r. holds (\<lambda>v. v = v0 \<and> newest x (seen @ as) r)) (holds E)"
proof (induction as arbitrary: seen out)
  case Nil
  then show ?case by (auto intro!: ok_here)
next
  case (Cons a as)
  let ?R = "\<lambda>r. holds (\<lambda>v. v = v0 \<and> newest x (seen @ a # as) r)"
  let ?put = "out(TrackerAssignment.VehicleID a \<mapsto> TrackerAssignment.IMEI a)"
  have all: "\<forall>a \<in> set ((seen @ [a]) @ as). \<exists>j. Assignments v0 j = Some a" using Cons.prems(2) by simp
  have same: "c = b" if "c \<in> set (seen @ [a])" "TrackerAssignment.VehicleID c = x" "Assignments v0 j = Some b"
    "TrackerAssignment.VehicleID b = x" "TrackerAssignment.IMEI c = TrackerAssignment.IMEI b" for c b j
    using that all once unfolding fittedOnce_def by (metis Un_iff set_append)
  have skip: "triple (holds (\<lambda>v. v = v0)) (imeiLoop D as out) ?R (holds E)"
    if "newest x (seen @ [a]) out"
    using Cons.IH [OF that all] by (simp only: append_assoc append_Cons append_Nil)
  have store: "triple (holds (\<lambda>v. v = v0)) (imeiLoop D as ?put) ?R (holds E)"
    if "newest x (seen @ [a]) ?put"
    using Cons.IH [OF that all] by (simp only: append_assoc append_Cons append_Nil)
  show ?case
  proof (cases "TrackerAssignment.IMEI a = []")
    case True
    then show ?thesis using skip [OF newest_skip [OF Cons.prems(1)]] by simp
  next
    case some: False
    show ?thesis
    proof (cases "out (TrackerAssignment.VehicleID a)")
      case None
      have n: "newest x (seen @ [a]) ?put" by (rule newest_store [OF Cons.prems(1) some]) (use None in auto)
      have "imeiLoop D (a # as) out = imeiLoop D as ?put" using None some by simp
      then show ?thesis by (simp only: store [OF n])
    next
      case (Some m)
      obtain i where i: "Assignments v0 i = Some a" using all by auto
      have again: "triple (holds (\<lambda>v. v = v0)) (imeiLoop D as ?put) ?R (holds E)" if m: "m = TrackerAssignment.IMEI a"
        by (rule store, rule newest_store [OF Cons.prems(1) some]) (use same [OF _ _ i] m Some in auto)
      have later: "triple (holds (\<lambda>v. v = v0)) (case prev of None \<Rightarrow> imeiLoop D as ?put
          | Some t \<Rightarrow> if t > TrackerAssignment.FittedAt a then imeiLoop D as out else imeiLoop D as ?put) ?R (holds E)"
        if prev: "case prev of
            None \<Rightarrow> \<forall>j b. Assignments v0 j = Some b \<longrightarrow> TrackerAssignment.VehicleID b = TrackerAssignment.VehicleID a \<longrightarrow> TrackerAssignment.IMEI b \<noteq> m
          | Some t \<Rightarrow> \<exists>j b. Assignments v0 j = Some b \<and> TrackerAssignment.VehicleID b = TrackerAssignment.VehicleID a \<and>
              TrackerAssignment.IMEI b = m \<and> TrackerAssignment.FittedAt b = t" for prev
      proof (cases prev)
        case None
        have "newest x (seen @ [a]) ?put"
        proof (rule newest_store [OF Cons.prems(1) some])
          assume v: "TrackerAssignment.VehicleID a = x"
          then obtain c where "c \<in> set seen" "TrackerAssignment.VehicleID c = x" "TrackerAssignment.IMEI c = m"
            using Cons.prems(1) Some unfolding newest_def by blast
          then show "out x = None \<or> (\<exists>m b. out x = Some m \<and> (\<forall>c \<in> set seen. TrackerAssignment.VehicleID c = x \<longrightarrow>
              TrackerAssignment.IMEI c = m \<longrightarrow> c = b) \<and> TrackerAssignment.FittedAt b \<le> TrackerAssignment.FittedAt a)"
            using prev None v Cons.prems(2) by fastforce
        qed
        then show ?thesis using None store by simp
      next
        case t: (Some t)
        then obtain j b where b: "Assignments v0 j = Some b" "TrackerAssignment.VehicleID b = TrackerAssignment.VehicleID a"
          "TrackerAssignment.IMEI b = m" "TrackerAssignment.FittedAt b = t" using prev by auto
        have only: "\<forall>c \<in> set seen. TrackerAssignment.VehicleID c = x \<longrightarrow> TrackerAssignment.IMEI c = m \<longrightarrow> c = b"
          if "TrackerAssignment.VehicleID a = x" using same [OF _ _ b(1)] b that by auto
        show ?thesis
        proof (cases "t > TrackerAssignment.FittedAt a")
          case True
          have "newest x (seen @ [a]) out"
            by (rule newest_skip [OF Cons.prems(1)]) (use only Some b True in \<open>intro exI [of _ m] exI [of _ b], auto\<close>)
          then show ?thesis using t True skip by simp
        next
          case False
          have "newest x (seen @ [a]) ?put"
            by (rule newest_store [OF Cons.prems(1) some], rule disjI2)
              (use only Some b False in \<open>intro exI [of _ m] exI [of _ b], auto\<close>)
          then show ?thesis using t False store by simp
        qed
      qed
      have "triple (holds (\<lambda>v. v = v0)) (andThen (fittedAtOf D (TrackerAssignment.VehicleID a) m) (\<lambda>prev.
          case prev of None \<Rightarrow> imeiLoop D as ?put
          | Some t \<Rightarrow> if t > TrackerAssignment.FittedAt a then imeiLoop D as out else imeiLoop D as ?put)) ?R (holds E)"
      proof (rule triple_andThen [OF fittedAtOf_reads [OF sure]])
        fix prev
        let ?prev = "case prev of
            None \<Rightarrow> \<forall>j b. Assignments v0 j = Some b \<longrightarrow> TrackerAssignment.VehicleID b = TrackerAssignment.VehicleID a \<longrightarrow> TrackerAssignment.IMEI b \<noteq> m
          | Some t \<Rightarrow> \<exists>j b. Assignments v0 j = Some b \<and> TrackerAssignment.VehicleID b = TrackerAssignment.VehicleID a \<and>
              TrackerAssignment.IMEI b = m \<and> TrackerAssignment.FittedAt b = t"
        show "triple (holds (\<lambda>v. v = v0 \<and> ?prev)) (case prev of None \<Rightarrow> imeiLoop D as ?put
          | Some t \<Rightarrow> if t > TrackerAssignment.FittedAt a then imeiLoop D as out else imeiLoop D as ?put) ?R (holds E)"
        proof (cases ?prev)
          case True
          then show ?thesis using later [OF True] by simp
        next
          case False
          then show ?thesis by (simp add: triple_def inWorld_def)
        qed
      qed
      then show ?thesis using some Some again by (simp add: Let_def)
    qed
  qed
qed

lemma IMEIsAt_latest:
  assumes sure: lookupsAnswer and once: "fittedOnce v0 x"
  shows "triple (holds (\<lambda>v. v = v0)) (IMEIsAt D co vids at') (\<lambda>out. holds (\<lambda>v. v = v0 \<and>
     (\<forall>m. out x = Some m \<longrightarrow> x \<in> set vids \<longrightarrow> latestOn v0 co at' x m))) (holds (\<lambda>_. True))"
proof (cases "vids = []")
  case True
  then show ?thesis by (auto simp: IMEIsAt_def intro!: ok_here)
next
  case False
  let ?p = "\<lambda>a. TrackerAssignment.CompanyID a = co \<and> TrackerAssignment.VehicleID a \<in> set vids \<and> coversAt at' a"
  let ?S = "\<lambda>out. holds (\<lambda>v. v = v0 \<and> (\<forall>m. out x = Some m \<longrightarrow> x \<in> set vids \<longrightarrow> latestOn v0 co at' x m))"
  have "triple (holds (\<lambda>v. v = v0 \<and> (\<forall>a. a \<in> set as \<longleftrightarrow> (\<exists>j. Assignments v j = Some a) \<and> ?p a)))
      (imeiLoop D as Map.empty) ?S (holds (\<lambda>_. True))" for as
  proof (cases "\<forall>a. a \<in> set as \<longleftrightarrow> (\<exists>j. Assignments v0 j = Some a) \<and> ?p a")
    case rows: True
    have loop: "triple (holds (\<lambda>v. v = v0)) (imeiLoop D as Map.empty) (\<lambda>r. holds (\<lambda>v. v = v0 \<and> newest x ([] @ as) r)) (holds (\<lambda>_. True))"
      by (rule imeiLoop_newest [OF sure once]) (use rows in \<open>auto simp: newest_def\<close>)
    have latest: "latestOn v0 co at' x m" if n: "newest x as out" and o: "out x = Some m" and vids: "x \<in> set vids" for out m
    proof -
      obtain a where a: "a \<in> set as" "TrackerAssignment.VehicleID a = x" "TrackerAssignment.IMEI a = m"
        and least: "\<And>b. b \<in> set as \<Longrightarrow> TrackerAssignment.VehicleID b = x \<Longrightarrow> TrackerAssignment.IMEI b \<noteq> [] \<Longrightarrow>
          TrackerAssignment.FittedAt b \<le> TrackerAssignment.FittedAt a"
        using n o unfolding newest_def by blast
      obtain j where j: "Assignments v0 j = Some a" "TrackerAssignment.CompanyID a = co" "onAt at' a"
        using rows a(1) by (auto simp: coversAt_onAt)
      have "TrackerAssignment.FittedAt b \<le> TrackerAssignment.FittedAt a"
        if "Assignments v0 k = Some b" "TrackerAssignment.CompanyID b = co" "TrackerAssignment.VehicleID b = x"
          "TrackerAssignment.IMEI b \<noteq> []" "onAt at' b" for k b
        by (rule least) (use that rows vids in \<open>auto simp: coversAt_onAt\<close>)
      then show ?thesis using j a unfolding latestOn_def by blast
    qed
    have "triple (holds (\<lambda>v. v = v0)) (imeiLoop D as Map.empty) ?S (holds (\<lambda>_. True))"
    proof (rule triple_post [OF loop])
      fix out w assume "holds (\<lambda>v. v = v0 \<and> newest x ([] @ as) out) w"
      then have "good w" "vw w = v0" "newest x as out" by (simp_all add: inWorld_def)
      then show "?S out w" unfolding inWorld_def using latest by blast
    qed
    then show ?thesis by (rule triple_pre) (simp add: inWorld_def)
  next
    case False
    then show ?thesis unfolding triple_def inWorld_def by blast
  qed
  then show ?thesis
    using False unfolding IMEIsAt_def by (simp only: if_False) (rule asg.bind_find_all; simp)
qed

lemma IMEIsAt_triple:
  "triple (holds Q) (IMEIsAt D co vids at') (\<lambda>out. holds (\<lambda>v. Q v \<and>
     (\<forall>x m. out x = Some m \<longrightarrow> x \<in> set vids \<and> carried v co at' x m) \<and>
     (\<forall>x m. x \<in> set vids \<longrightarrow> carried v co at' x m \<longrightarrow> out x \<noteq> None))) (holds Q)"
proof (cases "vids = []")
  case True
  then show ?thesis by (auto simp: IMEIsAt_def intro!: ok_here)
next
  case False
  let ?p = "\<lambda>a. TrackerAssignment.CompanyID a = co \<and> TrackerAssignment.VehicleID a \<in> set vids \<and> coversAt at' a"
  let ?rows = "\<lambda>as v. Q v \<and> (\<forall>a. a \<in> set as \<longleftrightarrow> (\<exists>j. Assignments v j = Some a) \<and> ?p a)"
  let ?R = "\<lambda>out v. Q v \<and> (\<forall>x m. out x = Some m \<longrightarrow> x \<in> set vids \<and> carried v co at' x m) \<and>
     (\<forall>x m. x \<in> set vids \<longrightarrow> carried v co at' x m \<longrightarrow> out x \<noteq> None)"
  have "triple (holds (?rows as)) (imeiLoop D as Map.empty) (\<lambda>out. holds (?R out)) (holds Q)" for as
  proof (rule triple_conseq [OF imeiLoop_triple [where seen = "[]" and Q = "?rows as" and E = Q]])
    show "answers [] Map.empty" by (simp add: answers_def)
    fix out w assume "holds (\<lambda>v. ?rows as v \<and> answers ([] @ as) out) w"
    then have w: "good w" "Q (vw w)" and rows: "\<And>a. a \<in> set as \<longleftrightarrow> (\<exists>j. Assignments (vw w) j = Some a) \<and> ?p a"
      and o': "answers as out" by (simp_all add: inWorld_def)
    have "x \<in> set vids \<and> carried (vw w) co at' x m" if "out x = Some m" for x m
      using answersD(1) [OF o' that] rows unfolding carried_def coversAt_onAt by blast
    moreover have "out x \<noteq> None" if "x \<in> set vids" "carried (vw w) co at' x m" for x m
      using that answersD(2) [OF o'] rows unfolding carried_def coversAt_onAt by blast
    ultimately show "holds (?R out) w" unfolding inWorld_def using w by blast
  qed simp_all
  then show ?thesis
    using False unfolding IMEIsAt_def by (simp only: if_False) (rule asg.bind_find_all; simp)
qed

lemma VehicleAt_triple:
  "triple (holds Q) (VehicleAt D imei at') (\<lambda>(x, ok'). holds (\<lambda>v. Q v \<and>
     (if ok' then (\<exists>j a. Assignments v j = Some a \<and> TrackerAssignment.VehicleID a = x \<and>
           TrackerAssignment.IMEI a = imei \<and> onAt at' a)
      else (\<forall>j a. Assignments v j = Some a \<longrightarrow> TrackerAssignment.IMEI a = imei \<longrightarrow> \<not> onAt at' a)))) (holds Q)"
  unfolding VehicleAt_def coversAt_onAt
  by (rule triple_andThen [OF asg.find_one_triple], rule triple_ok)
    (auto simp: inWorld_def foundOne_def matching_def split: option.splits)

lemma PeriodsFor_triple:
  "triple (holds Q) (PeriodsFor D co vid from' to') (\<lambda>ps. holds (\<lambda>v. Q v \<and>
     set ps = {periodOf a | a j. Assignments v j = Some a \<and> TrackerAssignment.CompanyID a = co \<and>
       overlaps from' to' a \<and> (vid \<noteq> [] \<longrightarrow> TrackerAssignment.VehicleID a = vid) \<and>
       TrackerAssignment.IMEI a \<noteq> []})) (holds Q)"
  unfolding PeriodsFor_def
  by (rule asg.bind_find_all, rule triple_ok) (auto simp: inWorld_def unlimited_def)

end

section \<open>A small history\<close>

definition fittingOf :: "ObjectID \<Rightarrow> string \<Rightarrow> string \<Rightarrow> Time \<Rightarrow> Time option \<Rightarrow> TrackerAssignment" where
  "fittingOf i vehicle imei from' until =
     \<lparr>TrackerAssignment.ID = i, CompanyID = ''acme'', TrackerID = Some (CHR ''t'' # imei), VehicleID = vehicle,
      Kind = TrackerGPS, DeviceID = imei, IMEI = imei, FittedAt = from', UnfittedAt = until,
      InstallPhotoKey = None, InstalledByUserID = None, InstallNotes = None, CreatedAt = from'\<rparr>"

lemma fittingOf_simps [simp]:
  "TrackerAssignment.ID (fittingOf i v m f u) = i" "TrackerAssignment.CompanyID (fittingOf i v m f u) = ''acme''"
  "TrackerAssignment.VehicleID (fittingOf i v m f u) = v" "TrackerAssignment.IMEI (fittingOf i v m f u) = m"
  "TrackerAssignment.FittedAt (fittingOf i v m f u) = f" "TrackerAssignment.UnfittedAt (fittingOf i v m f u) = u"
  "TrackerAssignment.TrackerID (fittingOf i v m f u) = Some (CHR ''t'' # m)"
  by (simp_all add: fittingOf_def)

text \<open>Vehicle 7 carried device 1 until 50 and device 2 since; device 1 is on vehicle 8 since 60.\<close>

definition historyWorld :: MemWorld where
  "historyWorld = emptyWorld\<lparr>mAssignments :=
     [fittingOf 1 ''7'' ''1'' 10 (Some 50), fittingOf 2 ''7'' ''2'' 50 None, fittingOf 3 ''8'' ''1'' 60 None]\<rparr>"

lemma history_simps [simp]:
  "mAssignments historyWorld =
     [fittingOf 1 ''7'' ''1'' 10 (Some 50), fittingOf 2 ''7'' ''2'' 50 None, fittingOf 3 ''8'' ''1'' 60 None]"
  by (simp add: historyWorld_def)

lemma history_good: "memGood historyWorld"
  by (simp add: memGood_def historyWorld_def emptyWorld_def goodList_def NilObjectID_def uniqueKeys_def
      keysOf_Cons keysOf_def List.map_filter_def assignment_indexes_def uq_assignment_live_def liveString_def
      list_all_iff)


text \<open>Vehicle 7 has two open fittings, device 1 since 10 and device 2 since 50.\<close>

definition doubleWorld :: MemWorld where
  "doubleWorld = emptyWorld\<lparr>mAssignments := [fittingOf 2 ''7'' ''2'' 50 None, fittingOf 1 ''7'' ''1'' 10 None]\<rparr>"

lemma double_simps [simp]:
  "mAssignments doubleWorld = [fittingOf 2 ''7'' ''2'' 50 None, fittingOf 1 ''7'' ''1'' 10 None]"
  by (simp add: doubleWorld_def)

lemma double_good: "memGood doubleWorld"
  by (simp add: memGood_def doubleWorld_def emptyWorld_def goodList_def NilObjectID_def uniqueKeys_def
      keysOf_Cons keysOf_def List.map_filter_def assignment_indexes_def uq_assignment_live_def liveString_def
      list_all_iff)

lemma double_imeis:
  "IMEIsAt memDB ''acme'' [''7'', ''8''] 55 doubleWorld = (Inr [''7'' \<mapsto> ''2''], doubleWorld)"
  by (simp add: IMEIsAt_def io_simps negativeSkip_def window_def coversAt_def fittedAtOf_def Let_def)

lemma double_once: "fittedOnce (memView doubleWorld) ''7''"
  by (auto simp: fittedOnce_def memView_def toMap_def split: if_splits)


text \<open>Asked which vehicle carried a device at a moment, the resolver names a vehicle that did,
  and denies it only when none did.\<close>

theorem vehicle_is_one_that_carried:
  assumes "database D good vw" and "good w" and "VehicleAt D imei at' w = (Inr (x, known), w')"
  shows "vw w' = vw w \<and>
     (if known then \<exists>j a. Assignments (vw w) j = Some a \<and> TrackerAssignment.VehicleID a = x \<and>
           TrackerAssignment.IMEI a = imei \<and> onAt at' a
      else \<forall>j a. Assignments (vw w) j = Some a \<and> TrackerAssignment.IMEI a = imei \<longrightarrow> \<not> onAt at' a)"
proof -
  note run = triple_InrD [OF database.VehicleAt_triple [OF assms(1), where Q = "\<lambda>v. v = vw w"] _ assms(3),
      unfolded inWorld_def prod.case, OF conjI [OF assms(2) refl]]
  then have "vw w' = vw w" by blast
  with run show ?thesis by auto
qed

lemma history_vehicle: "VehicleAt memDB ''1'' 20 historyWorld = (Inr (''7'', True), historyWorld)"
  by (simp add: VehicleAt_def io_simps coversAt_def)

lemma vehicle_is_one_that_carried_witness:
  "\<exists>j a. Assignments (memView historyWorld) j = Some a \<and> TrackerAssignment.VehicleID a = ''7'' \<and>
     TrackerAssignment.IMEI a = ''1'' \<and> onAt 20 a"
  using vehicle_is_one_that_carried [OF memDB_database history_good history_vehicle] by auto


lemma history_periods:
  "PeriodsFor memDB ''acme'' ''7'' 40 100 historyWorld =
     (Inr [periodOf (fittingOf 1 ''7'' ''1'' 10 (Some 50)), periodOf (fittingOf 2 ''7'' ''2'' 50 None)], historyWorld)"
  by (simp add: PeriodsFor_def io_simps negativeSkip_def window_def overlaps_def)


text \<open>Where a vehicle has two open fittings the later one is meant to win; when the device of
  the later one was on the vehicle before, its first fitting decides, and the earlier fitting is
  answered.\<close>

definition clashWorld :: MemWorld where
  "clashWorld = emptyWorld\<lparr>mAssignments :=
     [fittingOf 1 ''7'' ''1'' 10 (Some 20), fittingOf 2 ''7'' ''1'' 90 None, fittingOf 3 ''7'' ''2'' 50 None]\<rparr>"

theorem clash_may_answer_the_earlier_fitting:
  "IMEIsAt memDB ''acme'' [''7''] 100 clashWorld = (Inr [''7'' \<mapsto> ''2''], clashWorld)"
  by (simp add: IMEIsAt_def io_simps negativeSkip_def window_def coversAt_def fittedAtOf_def clashWorld_def
      Let_def)

end
