(* ===== verification/RegistryMachine.thy ===== *)
theory RegistryMachine
  imports RegistryBase
begin

text \<open>
  The abstract specification of the fleet register: a state machine on what the database holds.
  \<open>registry_step hex canon co\<close> lists the atomic changes an operation of company \<open>co\<close>
  may make and the conditions under which it may make them; \<open>canon\<close> says whether requests name
  records by their canonical hexadecimal id. The theories of the operations show that each
  operation, successful or not, moves the database along these steps; the invariants of the
  register are proved here once, by induction on the step.
\<close>

section \<open>The steps\<close>

definition clearDriver :: "Time \<Rightarrow> Vehicle \<Rightarrow> Vehicle" where
  "clearDriver now x = x\<lparr>CurrentDriverID := None, CurrentDriverUserID := None, Base.UpdatedAt := now\<rparr>"

definition setShortcut :: "string option \<Rightarrow> Time \<Rightarrow> Vehicle \<Rightarrow> Vehicle" where
  "setShortcut t at' x = x\<lparr>Vehicle.TrackerID := t, Base.UpdatedAt := at'\<rparr>"

definition closeFitting :: "Time \<Rightarrow> TrackerAssignment \<Rightarrow> TrackerAssignment" where
  "closeFitting at' a = a\<lparr>UnfittedAt := Some at'\<rparr>"

text \<open>No vehicle of the company but \<open>i\<close> has the driver \<open>x\<close> is paired with.\<close>

definition unclaimed :: "MasterData \<Rightarrow> string \<Rightarrow> ObjectID \<Rightarrow> string option \<Rightarrow> bool" where
  "unclaimed v co i driver \<longleftrightarrow>
     (driver \<noteq> None \<longrightarrow>
        (\<forall>j y. Vehicles v j = Some y \<longrightarrow> j \<noteq> i \<longrightarrow> Vehicle.CompanyID y = co \<longrightarrow> CurrentDriverID y \<noteq> driver))"

definition goodVehicle :: "Vehicle \<Rightarrow> bool" where
  "goodVehicle x \<longleftrightarrow> settled_Vehicle x \<and> Vehicle_Validate x = None"

definition goodDriver :: "Driver \<Rightarrow> bool" where
  "goodDriver d \<longleftrightarrow> settled_Driver d \<and> Driver_Validate d = None"

text \<open>A document of exactly one owner.\<close>

definition oneOwner :: "Document \<Rightarrow> bool" where
  "oneOwner d \<longleftrightarrow> (Document.VehicleID d \<noteq> []) \<noteq> (DriverID d \<noteq> None) \<and> DriverID d \<noteq> Some []"

definition goodDocument :: "Document \<Rightarrow> bool" where
  "goodDocument d \<longleftrightarrow> Document_BeforeWrite d = d"

inductive registry_step ::
  "(ObjectID \<Rightarrow> string) \<Rightarrow> bool \<Rightarrow> string \<Rightarrow> MasterData \<Rightarrow> MasterData \<Rightarrow> bool"
  for hex :: "ObjectID \<Rightarrow> string" and canon :: bool and co :: string
where
  driver_added:
    "Drivers v i = None \<Longrightarrow> Base.ID d = i \<Longrightarrow> Driver.CompanyID d = co \<Longrightarrow> \<not> Base.Deleted d \<Longrightarrow>
     goodDriver d \<Longrightarrow>
     registry_step hex canon co v (v\<lparr>Drivers := (Drivers v)(i \<mapsto> d)\<rparr>)"
| driver_changed:
    "Drivers v i = Some d0 \<Longrightarrow> Driver.CompanyID d0 = co \<Longrightarrow> \<not> Base.Deleted d0 \<Longrightarrow>
     Base.ID d = i \<Longrightarrow> Driver.CompanyID d = co \<Longrightarrow> \<not> Base.Deleted d \<Longrightarrow> goodDriver d \<Longrightarrow>
     registry_step hex canon co v (v\<lparr>Drivers := (Drivers v)(i \<mapsto> d)\<rparr>)"
| driver_retired:
    "Drivers v i = Some d0 \<Longrightarrow> Driver.CompanyID d0 = co \<Longrightarrow>
     registry_step hex canon co v (v\<lparr>Drivers := (Drivers v)(i \<mapsto> markDeleted now d0)\<rparr>)"
| drivers_unpaired:
    "(\<And>x. p x \<Longrightarrow> Vehicle.CompanyID x = co) \<Longrightarrow>
     registry_step hex canon co v (v\<lparr>Vehicles := modify S p (clearDriver now) (Vehicles v)\<rparr>)"
| vehicle_added:
    "Vehicles v i = None \<Longrightarrow> Base.ID x = i \<Longrightarrow> Vehicle.CompanyID x = co \<Longrightarrow> \<not> Base.Deleted x \<Longrightarrow>
     goodVehicle x \<Longrightarrow> Vehicle.TrackerID x = None \<Longrightarrow> unclaimed v co i (CurrentDriverID x) \<Longrightarrow>
     registry_step hex canon co v (v\<lparr>Vehicles := (Vehicles v)(i \<mapsto> x)\<rparr>)"
| vehicle_changed:
    "Vehicles v i = Some x0 \<Longrightarrow> Vehicle.CompanyID x0 = co \<Longrightarrow> \<not> Base.Deleted x0 \<Longrightarrow>
     Base.ID x = i \<Longrightarrow> Vehicle.CompanyID x = co \<Longrightarrow> \<not> Base.Deleted x \<Longrightarrow> goodVehicle x \<Longrightarrow>
     Vehicle.TrackerID x = Vehicle.TrackerID x0 \<Longrightarrow> (CurrentDriverID x \<noteq> CurrentDriverID x0 \<Longrightarrow> unclaimed v co i (CurrentDriverID x)) \<Longrightarrow>
     registry_step hex canon co v (v\<lparr>Vehicles := (Vehicles v)(i \<mapsto> x)\<rparr>)"
| vehicle_retired:
    "Vehicles v i = Some x0 \<Longrightarrow> Vehicle.CompanyID x0 = co \<Longrightarrow> Vehicle.TrackerID x0 = None \<Longrightarrow>
     (\<And>j a. Assignments v j = Some a \<Longrightarrow> UnfittedAt a = None \<Longrightarrow> TrackerAssignment.VehicleID a \<noteq> name) \<Longrightarrow>
     (canon \<Longrightarrow> name = hex i) \<Longrightarrow>
     registry_step hex canon co v (v\<lparr>Vehicles := (Vehicles v)(i \<mapsto> markDeleted now x0)\<rparr>)"
| members_removed:
    "(\<And>i m. i \<in> S \<Longrightarrow> Members v i = Some m \<Longrightarrow> VehicleGroupMember.CompanyID m = co) \<Longrightarrow>
     registry_step hex canon co v (v\<lparr>Members := Members v |` (- S)\<rparr>)"
| tracker_added:
    "Trackers v i = None \<Longrightarrow> Base.ID t = i \<Longrightarrow>
     Tracker.CompanyID t = (if co = [] then None else Some co) \<Longrightarrow> \<not> Base.Deleted t \<Longrightarrow>
     settled_Tracker t \<Longrightarrow> Tracker.DeviceID t \<noteq> [] \<Longrightarrow>
     (Tracker.Kind t = TrackerGPS \<Longrightarrow> length (Tracker.DeviceID t) = 15) \<Longrightarrow>
     registry_step hex canon co v (v\<lparr>Trackers := (Trackers v)(i \<mapsto> t)\<rparr>)"
| tracker_changed:
    "Trackers v i = Some t0 \<Longrightarrow> (co \<noteq> [] \<Longrightarrow> Tracker.CompanyID t0 = Some co) \<Longrightarrow> \<not> Base.Deleted t0 \<Longrightarrow>
     Base.ID t = i \<Longrightarrow> \<not> Base.Deleted t \<Longrightarrow> settled_Tracker t \<Longrightarrow>
     (co \<noteq> [] \<Longrightarrow> Tracker.CompanyID t = Some co) \<Longrightarrow>
     (settled_Tracker t0 \<Longrightarrow> Tracker.DeviceID t0 \<noteq> [] \<Longrightarrow>
        Tracker.Kind t = Tracker.Kind t0 \<and> Tracker.DeviceID t = Tracker.DeviceID t0) \<Longrightarrow>
     registry_step hex canon co v (v\<lparr>Trackers := (Trackers v)(i \<mapsto> t)\<rparr>)"
| tracker_retired:
    "Trackers v i = Some t0 \<Longrightarrow> (co \<noteq> [] \<Longrightarrow> Tracker.CompanyID t0 = Some co) \<Longrightarrow>
     (\<And>j a. Assignments v j = Some a \<Longrightarrow> UnfittedAt a = None \<Longrightarrow>
        TrackerAssignment.TrackerID a \<noteq> Some name) \<Longrightarrow>
     (canon \<Longrightarrow> name = hex i) \<Longrightarrow>
     registry_step hex canon co v (v\<lparr>Trackers := (Trackers v)(i \<mapsto> markDeleted now t0)\<rparr>)"
| fittings_closed:
    "(\<And>a. p a \<Longrightarrow> UnfittedAt a = None) \<Longrightarrow>
     registry_step hex canon co v (v\<lparr>Assignments := modify S p (closeFitting at') (Assignments v)\<rparr>)"
| device_fitted:
    "Assignments v i = None \<Longrightarrow> TrackerAssignment.ID a = i \<Longrightarrow> TrackerAssignment.CompanyID a = co \<Longrightarrow>
     UnfittedAt a = None \<Longrightarrow> settled_TrackerAssignment a \<Longrightarrow>
     Trackers v ti = Some t \<Longrightarrow> \<not> Base.Deleted t \<Longrightarrow> TrackerAssignment.TrackerID a = Some (hex ti) \<Longrightarrow>
     TrackerAssignment.Kind a = ifEmpty (Tracker.Kind t) TrackerGPS \<Longrightarrow>
     Vehicles v vi = Some x \<Longrightarrow> Vehicle.CompanyID x = co \<Longrightarrow> \<not> Base.Deleted x \<Longrightarrow>
     TrackerAssignment.VehicleID a = hex vi \<Longrightarrow>
     (\<And>j b. Assignments v j = Some b \<Longrightarrow> UnfittedAt b = None \<Longrightarrow>
        TrackerAssignment.TrackerID b \<noteq> Some (hex ti) \<and>
        (TrackerAssignment.VehicleID b = hex vi \<longrightarrow>
           \<not> (\<exists>tj s. TrackerAssignment.TrackerID b = Some (hex tj) \<and> Trackers v tj = Some s \<and>
                \<not> Base.Deleted s \<and> Tracker.Kind s = Tracker.Kind t))) \<Longrightarrow>
     registry_step hex canon co v (v\<lparr>Assignments := (Assignments v)(i \<mapsto> a)\<rparr>)"
| shortcuts_cleared:
    "registry_step hex canon co v (v\<lparr>Vehicles := modify S p (setShortcut None at') (Vehicles v)\<rparr>)"
| shortcut_set:
    "Vehicles v i = Some x \<Longrightarrow> Vehicle.CompanyID x = co \<Longrightarrow>
     registry_step hex canon co v (v\<lparr>Vehicles := (Vehicles v)(i \<mapsto> setShortcut (Some t) at' x)\<rparr>)"
| document_added:
    "Documents v i = None \<Longrightarrow> Base.ID d = i \<Longrightarrow> Document.CompanyID d = co \<Longrightarrow> \<not> Base.Deleted d \<Longrightarrow>
     goodDocument d \<Longrightarrow> oneOwner d \<Longrightarrow>
     registry_step hex canon co v (v\<lparr>Documents := (Documents v)(i \<mapsto> d)\<rparr>)"
| document_changed:
    "Documents v i = Some d0 \<Longrightarrow> Document.CompanyID d0 = co \<Longrightarrow> \<not> Base.Deleted d0 \<Longrightarrow>
     Base.ID d = i \<Longrightarrow> Document.CompanyID d = co \<Longrightarrow> \<not> Base.Deleted d \<Longrightarrow> goodDocument d \<Longrightarrow>
     Document.VehicleID d = Document.VehicleID d0 \<Longrightarrow> DriverID d = DriverID d0 \<Longrightarrow>
     registry_step hex canon co v (v\<lparr>Documents := (Documents v)(i \<mapsto> d)\<rparr>)"
| document_retired:
    "Documents v i = Some d0 \<Longrightarrow> Document.CompanyID d0 = co \<Longrightarrow>
     registry_step hex canon co v (v\<lparr>Documents := (Documents v)(i \<mapsto> markDeleted now d0)\<rparr>)"

lemma clearDriver_simps [simp]:
  "Base.ID (clearDriver now x) = Base.ID x"
  "Base.Deleted (clearDriver now x) = Base.Deleted x"
  "Vehicle.CompanyID (clearDriver now x) = Vehicle.CompanyID x"
  "CurrentDriverID (clearDriver now x) = None"
  "Vehicle.TrackerID (clearDriver now x) = Vehicle.TrackerID x"
  "PlateNormalised (clearDriver now x) = PlateNormalised x"
  "goodVehicle (clearDriver now x) = goodVehicle x"
  by (simp_all add: clearDriver_def goodVehicle_def settled_Vehicle_def Vehicle_Validate_def)

lemma setShortcut_simps [simp]:
  "Base.ID (setShortcut t at' x) = Base.ID x"
  "Base.Deleted (setShortcut t at' x) = Base.Deleted x"
  "Vehicle.CompanyID (setShortcut t at' x) = Vehicle.CompanyID x"
  "CurrentDriverID (setShortcut t at' x) = CurrentDriverID x"
  "Vehicle.TrackerID (setShortcut t at' x) = t"
  "PlateNormalised (setShortcut t at' x) = PlateNormalised x"
  "goodVehicle (setShortcut t at' x) = goodVehicle x"
  by (simp_all add: setShortcut_def goodVehicle_def settled_Vehicle_def Vehicle_Validate_def)

lemma closeFitting_simps [simp]:
  "TrackerAssignment.ID (closeFitting at' a) = TrackerAssignment.ID a"
  "UnfittedAt (closeFitting at' a) = Some at'"
  "TrackerAssignment.TrackerID (closeFitting at' a) = TrackerAssignment.TrackerID a"
  "TrackerAssignment.VehicleID (closeFitting at' a) = TrackerAssignment.VehicleID a"
  "TrackerAssignment.Kind (closeFitting at' a) = TrackerAssignment.Kind a"
  by (simp_all add: closeFitting_def)

lemma markDeleted_models [simp]:
  "Vehicle.CompanyID (markDeleted now x) = Vehicle.CompanyID x"
  "CurrentDriverID (markDeleted now x) = CurrentDriverID x"
  "Vehicle.TrackerID (markDeleted now x) = Vehicle.TrackerID x"
  "PlateNormalised (markDeleted now x) = PlateNormalised x"
  "goodVehicle (markDeleted now x) = goodVehicle x"
  "Driver.CompanyID (markDeleted now d) = Driver.CompanyID d"
  "goodDriver (markDeleted now d) = goodDriver d"
  "Tracker.CompanyID (markDeleted now t) = Tracker.CompanyID t"
  "Tracker.Kind (markDeleted now t) = Tracker.Kind t"
  "Tracker.DeviceID (markDeleted now t) = Tracker.DeviceID t"
  "settled_Tracker (markDeleted now t) = settled_Tracker t"
  "Document.CompanyID (markDeleted now e) = Document.CompanyID e"
  "Document.VehicleID (markDeleted now e) = Document.VehicleID e"
  "DriverID (markDeleted now e) = DriverID e"
  by (simp_all add: markDeleted_def goodVehicle_def settled_Vehicle_def Vehicle_Validate_def
      goodDriver_def settled_Driver_def Driver_Validate_def settled_Tracker_def wellTyped_Tracker_def)

end
