(* ===== verification/RegistryDrivers.thy ===== *)
theory RegistryDrivers
  imports RegistryMachine
begin

text \<open>
  The drivers of \<^verbatim>\<open>internal/services/registry.go\<close> (\<^verbatim>\<open>ListDrivers\<close> to
  \<^verbatim>\<open>DeleteDriver\<close>), each operation with its triple: what it returns, and the steps of
  the register it takes, whether it succeeds or not.
\<close>

section \<open>Inputs\<close>

definition newDriver :: "string \<Rightarrow> Driver" where
  "newDriver companyID =
     \<lparr>Base.ID = NilObjectID, CreatedAt = zeroTime, UpdatedAt = zeroTime, Deleted = False,
      Driver.CompanyID = companyID, FullName = [], NameNormalised = [], Phone = None,
      PhoneNormalised = None, EmployeeNo = None, LicenseNo = None, LicenseClass = None,
      LicenseExpiry = None, Status = [], UserID = None, Notes = None, Attributes = None\<rparr>"

record DriverInput =
  FullName :: "string option"
  Phone :: "string option"
  EmployeeNo :: "string option"
  LicenseNo :: "string option"
  LicenseClass :: "string option"
  LicenseExpiry :: "string option"
  Status :: "string option"
  UserID :: "string option"
  Notes :: "string option"
  Attributes :: "Attrs option"

definition noDriverInput :: DriverInput where
  "noDriverInput = \<lparr>DriverInput.FullName = None, Phone = None, EmployeeNo = None, LicenseNo = None,
     LicenseClass = None, LicenseExpiry = None, Status = None, UserID = None, Notes = None,
     Attributes = None\<rparr>"

definition applyDriver :: "DriverInput \<Rightarrow> Driver \<Rightarrow> error + Driver" where
  "applyDriver inp d =
     (let d = d\<lparr>Driver.FullName := (case DriverInput.FullName inp of None \<Rightarrow> Driver.FullName d | Some x \<Rightarrow> x),
                Driver.Phone := str (Driver.Phone d) (DriverInput.Phone inp),
                Driver.EmployeeNo := str (Driver.EmployeeNo d) (DriverInput.EmployeeNo inp),
                Driver.LicenseNo := str (Driver.LicenseNo d) (DriverInput.LicenseNo inp),
                Driver.LicenseClass := str (Driver.LicenseClass d) (DriverInput.LicenseClass inp),
                Driver.UserID := str (Driver.UserID d) (DriverInput.UserID inp),
                Driver.Notes := str (Driver.Notes d) (DriverInput.Notes inp),
                Driver.Status := (case DriverInput.Status inp of None \<Rightarrow> Driver.Status d
                                  | Some x \<Rightarrow> ToLower (TrimSpace x))\<rparr>
      in case date ''licenseExpiry must be YYYY-MM-DD'' (Driver.LicenseExpiry d) (DriverInput.LicenseExpiry inp) of
           Inl e \<Rightarrow> Inl e
         | Inr t \<Rightarrow>
             Inr (d\<lparr>Driver.LicenseExpiry := t,
                    Driver.Attributes := mergeAttributes (Driver.Attributes d) (DriverInput.Attributes inp)\<rparr>))"

section \<open>Operations\<close>

definition ListDrivers ::
  "'w Database \<Rightarrow> string \<Rightarrow> Params \<Rightarrow> string \<Rightarrow> ('w, Driver list \<times> int) io" where
  "ListDrivers D companyID p status =
     page (col (drivers D))
       (\<lambda>d. Driver.CompanyID d = companyID \<and> \<not> Base.Deleted d \<and>
            (status \<noteq> [] \<longrightarrow> Driver.Status d = status) \<and>
            (Search p \<noteq> [] \<longrightarrow>
               MatchRegex (env D) [] (escapeRegex (Normalise.Name (Search p))) (Driver.NameNormalised d) \<or>
               matchOptional (MatchRegex (env D) [] (CHR ''^'' # escapeRegex (Normalise.IMEI (Search p)))) (PhoneNormalised d) \<or>
               matchOptional (MatchRegex (env D) ''i'' (CHR ''^'' # escapeRegex (Search p))) (Driver.EmployeeNo d)))
       p"

definition ListDriversForSync ::
  "'w Database \<Rightarrow> string \<Rightarrow> int \<Rightarrow> int \<Rightarrow> Time option \<Rightarrow> ('w, Driver list \<times> int) io" where
  "ListDriversForSync D companyID pageNo pageSize updatedSince =
     page (col (drivers D))
       (\<lambda>d. Driver.CompanyID d = companyID \<and>
            (case updatedSince of None \<Rightarrow> True | Some t \<Rightarrow> t \<le> Base.UpdatedAt d))
       \<lparr>Err = None, Page = pageNo, PageSize = pageSize, Filters = [],
        Sorts = [\<lparr>Sort.Field = ''_id'', Desc = False\<rparr>], Search = []\<rparr>"

definition GetDriver :: "'w Database \<Rightarrow> string \<Rightarrow> string \<Rightarrow> ('w, Driver) io" where
  "GetDriver D companyID ident =
     andThen (lift (oid D ident)) (\<lambda>o'.
     decodeOne (col (drivers D)) (scoped Driver.CompanyID companyID o'))"

definition GetDriverByID :: "'w Database \<Rightarrow> string \<Rightarrow> ('w, Driver) io" where
  "GetDriverByID D ident =
     andThen (lift (oid D ident)) (\<lambda>o'.
     decodeOne (col (drivers D)) (\<lambda>d. Base.ID d = o' \<and> \<not> Base.Deleted d))"

definition driverClash :: string where
  "driverClash = ''a driver with that phone, employee number, licence or login already exists''"

definition CreateDriver :: "'w Database \<Rightarrow> string \<Rightarrow> DriverInput \<Rightarrow> ('w, Driver) io" where
  "CreateDriver D companyID inp =
     andThen (lift (applyDriver inp (newDriver companyID))) (\<lambda>d.
     andThen (call (NewObjectID (env D))) (\<lambda>i.
     let d = d\<lparr>Base.ID := i\<rparr> in
     andThen (onErr (Create (env D) (drivers D) d) (\<lambda>e. dup driverClash (validation e))) (\<lambda>d.
     andThen (announce D ''driver'' companyID (Hex (env D) (Base.ID d)) ''create'') (\<lambda>_.
     ok d))))"

definition UpdateDriver :: "'w Database \<Rightarrow> string \<Rightarrow> string \<Rightarrow> DriverInput \<Rightarrow> ('w, Driver) io" where
  "UpdateDriver D companyID ident inp =
     andThen (GetDriver D companyID ident) (\<lambda>d.
     andThen (lift (applyDriver inp d)) (\<lambda>d.
     andThen (onErr (Update (env D) (drivers D) (Base.ID d) d) (\<lambda>e. dup driverClash (validation e))) (\<lambda>d.
     andThen (announce D ''driver'' companyID ident ''update'') (\<lambda>_.
     ok d))))"

definition DeleteDriver :: "'w Database \<Rightarrow> string \<Rightarrow> string \<Rightarrow> ('w, unit) io" where
  "DeleteDriver D companyID ident =
     andThen (GetDriver D companyID ident) (\<lambda>d.
     andThen (SoftDelete (env D) (drivers D) companyID (Base.ID d)) (\<lambda>_.
     andThen (call (Now (env D))) (\<lambda>now.
     andThen (attempt (UpdateMany (col (vehicles D))
         (\<lambda>x. Vehicle.CompanyID x = companyID \<and> CurrentDriverID x = Some ident) (clearDriver now))) (\<lambda>r.
     andThen (announce D ''driver'' companyID ident ''delete'') (\<lambda>_.
     case r of Inl e \<Rightarrow> fail e | Inr n \<Rightarrow> ok ())))))"

section \<open>What the operations do\<close>

lemma applyDriver_keeps:
  "applyDriver inp d = Inr d' \<Longrightarrow>
     Base.ID d' = Base.ID d \<and> Base.Deleted d' = Base.Deleted d \<and> Driver.CompanyID d' = Driver.CompanyID d"
  by (auto simp: applyDriver_def Let_def split: sum.splits)

lemma settled_Driver_Stamp [simp]:
  "settled_Driver (Stamp now cr d) = settled_Driver d" "Driver_Validate (Stamp now cr d) = Driver_Validate d"
  by (simp_all add: settled_Driver_def Driver_Validate_def Stamp_def)

lemma goodDriver_AsStored [simp]: "goodDriver (Driver_AsStored d) = goodDriver d"
  by (simp add: goodDriver_def)

lemma stored_driver:
  assumes "stored driverMethods doc d"
  shows "goodDriver d \<and> Base.ID d = Base.ID doc \<and> Base.Deleted d = Base.Deleted doc \<and>
    Driver.CompanyID d = Driver.CompanyID doc"
  using assms by (auto simp: stored_def goodDriver_def settled_Driver_BeforeWrite)

text \<open>A replaced document is the one document with its id.\<close>

lemma updated_by_id:
  assumes "updated p (\<lambda>_. d) m m'" and "\<And>x. p x \<Longrightarrow> idof x = i"
    and "\<And>j x. m j = Some x \<Longrightarrow> idof x = j"
  shows "\<exists>d0. m i = Some d0 \<and> p d0 \<and> m' = m(i \<mapsto> d)"
proof -
  from assms(1) obtain j d0 where j: "m j = Some d0" "p d0" "m' = modify {j} p (\<lambda>_. d) m"
    by (auto simp: updated_def matching_def)
  then have "j = i" using assms(2,3) by metis
  moreover have "modify {j} p (\<lambda>_. d) m = m(j \<mapsto> d)"
    using j by (auto simp: modify_def fun_eq_iff map_option_case split: option.splits)
  ultimately show ?thesis using j by blast
qed

lemma updated_by_id_fun:
  assumes "updated p f m m'" and "\<And>x. p x \<Longrightarrow> idof x = i"
    and "\<And>j x. m j = Some x \<Longrightarrow> idof x = j"
  shows "\<exists>d0. m i = Some d0 \<and> p d0 \<and> m' = m(i \<mapsto> f d0)"
proof -
  from assms(1) obtain j d0 where j: "m j = Some d0" "p d0" "m' = modify {j} p f m"
    by (auto simp: updated_def matching_def)
  then have "j = i" using assms(2,3) by metis
  moreover have "modify {j} p f m = m(j \<mapsto> f d0)"
    using j by (auto simp: modify_def fun_eq_iff map_option_case split: option.splits)
  ultimately show ?thesis using j by blast
qed

context database
begin

text \<open>Along the steps of the register from \<open>v0\<close>.\<close>

abbreviation moved :: "bool \<Rightarrow> string \<Rightarrow> MasterData \<Rightarrow> MasterData \<Rightarrow> bool" where
  "moved canon co \<equiv> (registry_step (Hex (env D)) canon co)\<^sup>*\<^sup>*"

lemma moved_step: "moved canon co v0 v \<Longrightarrow> registry_step (Hex (env D)) canon co v v' \<Longrightarrow> moved canon co v0 v'"
  by (rule rtranclp.rtrancl_into_rtrancl)

lemma bind_GetDriver:
  assumes "\<And>d. ObjectIDFromHex (env D) (TrimSpace ident) = Some (Base.ID d) \<Longrightarrow>
      Driver.CompanyID d = co \<Longrightarrow> \<not> Base.Deleted d \<Longrightarrow>
      triple (holds (\<lambda>v. Q v \<and> Drivers v (Base.ID d) = Some d)) (k d) R (holds E)"
    and "\<And>v. Q v \<Longrightarrow> E v"
  shows "triple (holds Q) (andThen (GetDriver D co ident) k) R (holds E)"
  unfolding GetDriver_def andThen_assoc
proof (rule bind_lift)
  fix i assume i: "oid D ident = Inr i"
  show "triple (holds Q) (andThen (decodeOne (col (drivers D)) (scoped Driver.CompanyID co i)) k) R (holds E)"
    by (rule drv.bind_decodeOne) (use i assms in \<open>auto simp: scoped_def oid_Inr\<close>)
qed (rule assms(2))

lemma driver_written:
  assumes "stored driverMethods doc d" "Driver.CompanyID doc = co" "\<not> Base.Deleted doc"
  shows "inserted Base.ID (\<lambda>i d. d\<lparr>Base.ID := i\<rparr>) (Driver_AsStored d) i (Drivers v) m' \<Longrightarrow> Base.ID doc \<noteq> NilObjectID \<Longrightarrow>
      registry_step (Hex (env D)) canon co v (v\<lparr>Drivers := m'\<rparr>) \<and> m' (Base.ID doc) = Some (Driver_AsStored d)"
    and "updated (\<lambda>x. Base.ID x = Base.ID doc) (\<lambda>_. Driver_AsStored d) (Drivers v) m' \<Longrightarrow>
      Drivers v (Base.ID doc) = Some d0 \<Longrightarrow> Driver.CompanyID d0 = co \<Longrightarrow> \<not> Base.Deleted d0 \<Longrightarrow>
      (\<And>j x. Drivers v j = Some x \<Longrightarrow> Base.ID x = j) \<Longrightarrow>
      registry_step (Hex (env D)) canon co v (v\<lparr>Drivers := m'\<rparr>) \<and> m' (Base.ID doc) = Some (Driver_AsStored d)"
proof -
  note d = stored_driver [OF assms(1)]
  assume "inserted Base.ID (\<lambda>i d. d\<lparr>Base.ID := i\<rparr>) (Driver_AsStored d) i (Drivers v) m'" "Base.ID doc \<noteq> NilObjectID"
  then have "Drivers v (Base.ID doc) = None" "m' = (Drivers v)(Base.ID doc \<mapsto> Driver_AsStored d)"
    using d by (auto simp: inserted_def own_id)
  then show "registry_step (Hex (env D)) canon co v (v\<lparr>Drivers := m'\<rparr>) \<and> m' (Base.ID doc) = Some (Driver_AsStored d)"
    using d assms by (auto intro: registry_step.driver_added)
next
  note d = stored_driver [OF assms(1)]
  assume up: "updated (\<lambda>x. Base.ID x = Base.ID doc) (\<lambda>_. Driver_AsStored d) (Drivers v) m'"
    and old: "Drivers v (Base.ID doc) = Some d0" "Driver.CompanyID d0 = co" "\<not> Base.Deleted d0"
    and "\<And>j x. Drivers v j = Some x \<Longrightarrow> Base.ID x = j"
  then have "m' = (Drivers v)(Base.ID doc \<mapsto> Driver_AsStored d)" using updated_by_id [OF up] by blast
  then show "registry_step (Hex (env D)) canon co v (v\<lparr>Drivers := m'\<rparr>) \<and> m' (Base.ID doc) = Some (Driver_AsStored d)"
    using d old assms by (auto intro: registry_step.driver_changed)
qed

lemma CreateDriver_triple:
  "triple (holds (moved canon co v0)) (CreateDriver D co inp)
     (\<lambda>d. holds (\<lambda>v. moved canon co v0 v \<and> Drivers v (Base.ID d) = Some (Driver_AsStored d) \<and> goodDriver d \<and>
        Driver.CompanyID d = co \<and> \<not> Base.Deleted d))
     (holds (moved canon co v0))"
  unfolding CreateDriver_def Let_def
proof (intro bind_lift bind_new_id)
  fix d :: Driver and i assume "applyDriver inp (newDriver co) = Inr d" and i: "i \<noteq> NilObjectID"
  then have d: "Driver.CompanyID d = co" "\<not> Base.Deleted d"
    using applyDriver_keeps [of inp "newDriver co" d] by (simp_all add: newDriver_def)
  let ?doc = "d\<lparr>Base.ID := i\<rparr>"
  let ?R = "\<lambda>d v. moved canon co v0 v \<and> Drivers v (Base.ID d) = Some (Driver_AsStored d) \<and> goodDriver d \<and>
        Driver.CompanyID d = co \<and> \<not> Base.Deleted d"
  show "triple (holds (moved canon co v0))
      (andThen (onErr (Create (env D) (drivers D) ?doc) (\<lambda>e. dup driverClash (validation e)))
        (\<lambda>d. andThen (announce D ''driver'' co (Hex (env D) (Base.ID d)) ''create'') (\<lambda>_. ok d)))
      (\<lambda>d. holds (?R d)) (holds (moved canon co v0))"
  proof (rule triple_andThen [OF triple_onErr [OF drv.Create_triple [where R = ?R]]])
    fix v e j m'
    assume v: "moved canon co v0 v"
      and st: "stored (methods (drivers D)) ?doc e"
      and ins: "inserted (IDOf (methods (drivers D))) (\<lambda>i d. d\<lparr>Base.ID := i\<rparr>) (AsStored (methods (drivers D)) e) j (Drivers v) m'"
    have "registry_step (Hex (env D)) canon co v (v\<lparr>Drivers := m'\<rparr>)" "m' i = Some (Driver_AsStored e)"
      using driver_written(1) [of ?doc e co j v m' canon] st ins d i by simp_all
    moreover have "goodDriver e \<and> Base.ID e = i \<and> Driver.CompanyID e = co \<and> \<not> Base.Deleted e"
      using stored_driver [of ?doc e] st d by simp
    ultimately show "?R e (v\<lparr>Drivers := m'\<rparr>) \<and> moved canon co v0 (v\<lparr>Drivers := m'\<rparr>)"
      using v moved_step [of canon co v0 v] by simp
  qed (auto intro!: bind_announce ok_here)
qed

lemma UpdateDriver_triple:
  "triple (holds (moved canon co v0)) (UpdateDriver D co ident inp)
     (\<lambda>d. holds (\<lambda>v. moved canon co v0 v \<and> Drivers v (Base.ID d) = Some (Driver_AsStored d) \<and> goodDriver d \<and>
        Driver.CompanyID d = co \<and> \<not> Base.Deleted d))
     (holds (moved canon co v0))"
  unfolding UpdateDriver_def
proof (intro bind_GetDriver bind_lift)
  fix d0 d :: Driver assume d0: "Driver.CompanyID d0 = co" "\<not> Base.Deleted d0"
    and "applyDriver inp d0 = Inr d"
  then have d: "Driver.CompanyID d = co" "\<not> Base.Deleted d" "Base.ID d = Base.ID d0"
    using applyDriver_keeps [of inp d0 d] by simp_all
  let ?Q = "\<lambda>v. moved canon co v0 v \<and> Drivers v (Base.ID d0) = Some d0"
  let ?R = "\<lambda>d v. moved canon co v0 v \<and> Drivers v (Base.ID d) = Some (Driver_AsStored d) \<and> goodDriver d \<and>
        Driver.CompanyID d = co \<and> \<not> Base.Deleted d"
  show "triple (holds ?Q)
      (andThen (onErr (Update (env D) (drivers D) (Base.ID d) d) (\<lambda>e. dup driverClash (validation e)))
        (\<lambda>d. andThen (announce D ''driver'' co ident ''update'') (\<lambda>_. ok d)))
      (\<lambda>d. holds (?R d)) (holds (moved canon co v0))"
  proof (rule triple_andThen [OF triple_onErr [OF drv.Update_triple [where R = ?R]]])
    fix v e m'
    assume v: "?Q v" and key: "\<And>j x. Drivers v j = Some x \<Longrightarrow> IDOf (methods (drivers D)) x = j"
      and st: "stored (methods (drivers D)) d e"
      and up: "updated (\<lambda>x. IDOf (methods (drivers D)) x = Base.ID d) (\<lambda>_. AsStored (methods (drivers D)) e) (Drivers v) m'"
    have "Drivers v (Base.ID d) = Some d0" using v d by simp
    note written = driver_written(2) [OF st [unfolded store_simps] d(1,2)
        up [unfolded store_simps methods_simps] this d0 key [unfolded store_simps methods_simps]]
    have "registry_step (Hex (env D)) canon co v (v\<lparr>Drivers := m'\<rparr>)" "m' (Base.ID d) = Some (Driver_AsStored e)"
      by (rule conjunct1 [OF written], assumption) (rule conjunct2 [OF written])
    moreover have "goodDriver e \<and> Base.ID e = Base.ID d \<and> Driver.CompanyID e = co \<and> \<not> Base.Deleted e"
      using stored_driver [of d e] st d by simp
    ultimately show "?R e (v\<lparr>Drivers := m'\<rparr>) \<and> moved canon co v0 (v\<lparr>Drivers := m'\<rparr>)"
      using v moved_step [of canon co v0 v] by simp
  qed (auto intro!: bind_announce ok_here)
qed auto

lemma DeleteDriver_triple:
  "triple (holds (moved canon co v0)) (DeleteDriver D co ident) (\<lambda>_. holds (moved canon co v0))
     (holds (moved canon co v0))"
  unfolding DeleteDriver_def
proof (rule bind_GetDriver)
  fix d :: Driver assume d: "Driver.CompanyID d = co"
  let ?Q = "\<lambda>v. moved canon co v0 v \<and> Drivers v (Base.ID d) = Some d"
  show "triple (holds ?Q)
      (andThen (SoftDelete (env D) (drivers D) co (Base.ID d)) (\<lambda>_.
       andThen (call (Now (env D))) (\<lambda>now.
       andThen (attempt (UpdateMany (col (vehicles D))
         (\<lambda>x. Vehicle.CompanyID x = co \<and> CurrentDriverID x = Some ident) (clearDriver now))) (\<lambda>r.
       andThen (announce D ''driver'' co ident ''delete'') (\<lambda>_.
       case r of Inl e \<Rightarrow> fail e | Inr n \<Rightarrow> ok ())))))
      (\<lambda>_. holds (moved canon co v0)) (holds (moved canon co v0))"
  proof (rule triple_andThen [OF drv.SoftDelete_triple [where R = "moved canon co v0"]])
    fix v now m'
    assume v: "?Q v" and key: "\<And>j x. Drivers v j = Some x \<Longrightarrow> IDOf (methods (drivers D)) x = j"
      and up: "updated (\<lambda>x. IDOf (methods (drivers D)) x = Base.ID d \<and>
          (co \<noteq> [] \<longrightarrow> CompanyOf (methods (drivers D)) x = Some co))
        (MarkDeleted (methods (drivers D)) now) (Drivers v) m'"
    have "m' = (Drivers v)(Base.ID d \<mapsto> markDeleted now d)"
      using updated_by_id_fun [OF up, of Base.ID "Base.ID d"] key v by auto
    then have "registry_step (Hex (env D)) canon co v (v\<lparr>Drivers := m'\<rparr>)"
      using v d by (auto intro: registry_step.driver_retired)
    then show "moved canon co v0 (v\<lparr>Drivers := m'\<rparr>) \<and> moved canon co v0 (v\<lparr>Drivers := m'\<rparr>)"
      using v moved_step [of canon co v0 v] by simp
  next
    show "triple (holds (moved canon co v0))
       (andThen (call (Now (env D))) (\<lambda>now.
       andThen (attempt (UpdateMany (col (vehicles D))
         (\<lambda>x. Vehicle.CompanyID x = co \<and> CurrentDriverID x = Some ident) (clearDriver now))) (\<lambda>r.
       andThen (announce D ''driver'' co ident ''delete'') (\<lambda>_.
       case r of Inl e \<Rightarrow> fail e | Inr n \<Rightarrow> ok ()))))
      (\<lambda>_. holds (moved canon co v0)) (holds (moved canon co v0))"
    proof (rule bind_now, rule veh.bind_attempt_many [where Q' = "moved canon co v0"])
      fix r :: "error + int"
      show "triple (holds (moved canon co v0)) (andThen (announce D ''driver'' co ident ''delete'')
          (\<lambda>_. case r of Inl e \<Rightarrow> fail e | Inr n \<Rightarrow> ok ()))
          (\<lambda>_. holds (moved canon co v0)) (holds (moved canon co v0))"
        by (rule bind_announce) (cases r; auto intro: fail_triple ok_triple)
    qed (auto intro: moved_step registry_step.drivers_unpaired)
  qed auto
qed auto

end

end
