(* ===== verification/Fleet.thy ===== *)
theory Fleet
  imports Devices RegistryDrivers
begin

text \<open>
  The fleet reads of \<^verbatim>\<open>internal/services/fleet.go\<close>: vehicles shown as the trucks and
  sites shown as the warehouses of the TMS contract. A truck carries the device it has at the
  moment of the read, resolved from the fitting history.
\<close>

section \<open>Views\<close>

record Truck =
  ID :: string
  CompanyID :: string
  PoliceNumber :: string
  TruckTypeID :: string
  TruckHeadID :: string
  TruckBodyID :: string
  BrandID :: string
  TruckGroupID :: string
  Year :: int
  ChassisNumber :: string
  EngineNumber :: string
  DriverIDs :: "string list"
  Status :: string
  IsAvailable :: bool
  IMEI :: string
  CreatedAt :: Time
  UpdatedAt :: Time

record Warehouse =
  ID :: string
  CompanyID :: string
  CustomerCompanyID :: string
  Name :: string
  Address :: string
  City :: string
  District :: string
  Province :: string
  Latitude :: rat
  Longitude :: rat
  GeofenceRadiusMeters :: int
  PICName :: string
  PICPhone :: string
  PICs :: "SitePIC list"
  PICUserIDs :: "string list"
  CreatedAt :: Time
  UpdatedAt :: Time

definition deref :: "string option \<Rightarrow> string" where
  "deref s = (case s of None \<Rightarrow> [] | Some x \<Rightarrow> x)"

definition toTruck :: "'w Database \<Rightarrow> (string \<rightharpoonup> string) \<Rightarrow> Vehicle \<Rightarrow> Truck" where
  "toTruck D imeis v =
     (let i = Hex (env D) (Base.ID v) in
      \<lparr>Truck.ID = i, CompanyID = Vehicle.CompanyID v, PoliceNumber = Vehicle.LicensePlate v,
       TruckTypeID = (if Vehicle.UnitType v = UnitHead then deref (Vehicle.TruckHeadID v)
                      else deref (Vehicle.TruckBodyID v)),
       TruckHeadID = deref (Vehicle.TruckHeadID v), TruckBodyID = deref (Vehicle.TruckBodyID v),
       BrandID = deref (Vehicle.BrandID v), TruckGroupID = deref (Vehicle.TruckGroupID v),
       Year = (case Vehicle.UnitYear v of None \<Rightarrow> 0 | Some y \<Rightarrow> y),
       ChassisNumber = deref (Vehicle.ChassisNumber v), EngineNumber = deref (Vehicle.EngineNumber v),
       DriverIDs = (case Vehicle.CurrentDriverID v of None \<Rightarrow> [] | Some d \<Rightarrow> if d = [] then [] else [d]),
       Status = Vehicle.Status v, IsAvailable = Vehicle.IsAvailable v,
       IMEI = (case imeis i of None \<Rightarrow> [] | Some m \<Rightarrow> m),
       CreatedAt = Base.CreatedAt v, UpdatedAt = Base.UpdatedAt v\<rparr>)"

definition toWarehouse :: "'w Database \<Rightarrow> Site \<Rightarrow> Warehouse" where
  "toWarehouse D s =
     (let at' = (case Site.Location s of None \<Rightarrow> (0, 0)
                 | Some g \<Rightarrow> if length (Coordinates g) = 2 then (Coordinates g ! 0, Coordinates g ! 1) else (0, 0))
      in \<lparr>Warehouse.ID = Hex (env D) (Base.ID s), CompanyID = Site.CompanyID s,
          CustomerCompanyID = deref (Site.CustomerCompanyID s), Name = Site.Name s,
          Address = deref (Site.Address s), City = deref (Site.City s), District = deref (Site.District s),
          Province = deref (Site.Province s), Latitude = snd at', Longitude = fst at',
          GeofenceRadiusMeters = (case Site.GeofenceRadiusM s of None \<Rightarrow> 0 | Some r \<Rightarrow> r),
          PICName = deref (SitePICName s), PICPhone = deref (SitePICPhone s),
          PICs = (case Site.PICs s of None \<Rightarrow> [] | Some l \<Rightarrow> l),
          PICUserIDs = (case Site.PICUserIDs s of None \<Rightarrow> [] | Some l \<Rightarrow> l),
          CreatedAt = Base.CreatedAt s, UpdatedAt = Base.UpdatedAt s\<rparr>)"

section \<open>Trucks\<close>

text \<open>The kinds that can take a load on their own; a trailer body cannot.\<close>

definition haulingUnits :: "UnitType list" where
  "haulingUnits = [UnitRigid, UnitHead]"

definition withDevices :: "'w Database \<Rightarrow> string \<Rightarrow> Vehicle list \<Rightarrow> ('w, Truck list) io" where
  "withDevices D companyID vs =
     andThen (call (Now (env D))) (\<lambda>now.
     andThen (attempt (IMEIsAt D companyID (map (\<lambda>v. Hex (env D) (Base.ID v)) vs) now)) (\<lambda>r.
     let imeis = (case r of Inl e \<Rightarrow> Map.empty | Inr m \<Rightarrow> m)
     in ok (map (toTruck D imeis) vs)))"

definition truckFilter :: "'w Database \<Rightarrow> string \<Rightarrow> Params \<Rightarrow> bool \<Rightarrow> Vehicle \<Rightarrow> bool" where
  "truckFilter D companyID p availableOnly x \<longleftrightarrow>
     Vehicle.CompanyID x = companyID \<and> \<not> Base.Deleted x \<and> Vehicle.UnitType x \<in> set haulingUnits \<and>
     (availableOnly \<longrightarrow> Vehicle.IsAvailable x) \<and>
     (Search p \<noteq> [] \<longrightarrow> MatchRegex (env D) [] (CHR ''^'' # escapeRegex (Plate (Search p))) (PlateNormalised x))"

definition ListTrucks ::
  "'w Database \<Rightarrow> string \<Rightarrow> Params \<Rightarrow> bool \<Rightarrow> ('w, Truck list \<times> int) io" where
  "ListTrucks D companyID p availableOnly =
     andThen (page (col (vehicles D)) (truckFilter D companyID p availableOnly) p) (\<lambda>(vs, n).
     andThen (withDevices D companyID vs) (\<lambda>ts. ok (ts, n)))"

text \<open>The fleet service's own \<^verbatim>\<open>findVehicle\<close>: an empty company reads across companies.\<close>

definition fleetVehicle :: "'w Database \<Rightarrow> string \<Rightarrow> string \<Rightarrow> ('w, Vehicle) io" where
  "fleetVehicle D companyID ident =
     (case ObjectIDFromHex (env D) ident of
        None \<Rightarrow> fail ErrNotFound
      | Some i \<Rightarrow> decodeOne (col (vehicles D))
          (\<lambda>x. Base.ID x = i \<and> \<not> Base.Deleted x \<and> (companyID \<noteq> [] \<longrightarrow> Vehicle.CompanyID x = companyID)))"

definition GetTruck :: "'w Database \<Rightarrow> string \<Rightarrow> string \<Rightarrow> ('w, Truck) io" where
  "GetTruck D companyID ident =
     andThen (fleetVehicle D companyID ident) (\<lambda>v.
     andThen (withDevices D (Vehicle.CompanyID v) [v]) (\<lambda>ts. ok (hd ts)))"

definition TrucksByDriver :: "'w Database \<Rightarrow> string \<Rightarrow> string \<Rightarrow> ('w, Truck list) io" where
  "TrucksByDriver D companyID driverID =
     andThen (Find (col (vehicles D))
       (\<lambda>x. \<not> Base.Deleted x \<and>
            (Vehicle.CurrentDriverID x = Some driverID \<or> CurrentDriverUserID x = Some driverID) \<and>
            (companyID \<noteq> [] \<longrightarrow> Vehicle.CompanyID x = companyID) \<and>
            Vehicle.UnitType x \<in> set haulingUnits) None) (\<lambda>vs.
     withDevices D companyID vs)"

section \<open>Warehouses\<close>

text \<open>
  Of the filters only those on the customer count, and of those the last; \<open>own\<close> stands for the
  sites of no customer.
\<close>

definition customerScope :: "Filter list \<Rightarrow> Site \<Rightarrow> bool" where
  "customerScope fs s =
     (let own = filter (\<lambda>f. Filter.Field f = ''customerCompanyId'') fs in
      own \<noteq> [] \<longrightarrow>
        (if Filter.Value (last own) = ''own'' then Site.CustomerCompanyID s = None \<or> Site.CustomerCompanyID s = Some []
         else Site.CustomerCompanyID s = Some (Filter.Value (last own))))"

definition ListWarehouses ::
  "'w Database \<Rightarrow> string \<Rightarrow> Params \<Rightarrow> ('w, Warehouse list \<times> int) io" where
  "ListWarehouses D companyID p =
     andThen (page (col (sites D))
       (\<lambda>s. Site.CompanyID s = companyID \<and> \<not> Base.Deleted s \<and> customerScope (Filters p) s \<and>
            (Search p \<noteq> [] \<longrightarrow>
               MatchRegex (env D) [] (CHR ''^'' # escapeRegex (Normalise.Name (Search p))) (Site.NameNormalised s)))
       p) (\<lambda>(ss, n). ok (map (toWarehouse D) ss, n))"

definition GetWarehouse :: "'w Database \<Rightarrow> string \<Rightarrow> string \<Rightarrow> ('w, Warehouse) io" where
  "GetWarehouse D companyID ident =
     (case ObjectIDFromHex (env D) ident of
        None \<Rightarrow> fail ErrNotFound
      | Some i \<Rightarrow>
          andThen (decodeOne (col (sites D))
            (\<lambda>s. Base.ID s = i \<and> \<not> Base.Deleted s \<and> (companyID \<noteq> [] \<longrightarrow> Site.CompanyID s = companyID))) (\<lambda>s.
          ok (toWarehouse D s)))"

definition DeviceAssignments ::
  "'w Database \<Rightarrow> string \<Rightarrow> string \<Rightarrow> Time \<Rightarrow> Time \<Rightarrow> ('w, AssignmentPeriod list) io" where
  "DeviceAssignments D companyID vehicleID from' to' = PeriodsFor D companyID vehicleID from' to'"

section \<open>What a truck shows\<close>

text \<open>
  \<open>truckOf D v co at' x t\<close>: the truck \<open>t\<close> is a view of the vehicle \<open>x\<close>, and the device it
  shows was on the vehicle at the moment \<open>at'\<close>. \<open>devicesShown\<close>: each vehicle of a list that
  carried a device then shows one, unless the history could not be read and none does.
\<close>

definition truckOf :: "'w Database \<Rightarrow> MasterData \<Rightarrow> string \<Rightarrow> Time \<Rightarrow> Vehicle \<Rightarrow> Truck \<Rightarrow> bool" where
  "truckOf D v co at' x t \<longleftrightarrow>
     (\<exists>imeis. t = toTruck D imeis x) \<and>
     (Truck.IMEI t \<noteq> [] \<longrightarrow> carried v co at' (Hex (env D) (Base.ID x)) (Truck.IMEI t))"

definition devicesShown :: "'w Database \<Rightarrow> MasterData \<Rightarrow> string \<Rightarrow> Time \<Rightarrow> Vehicle list \<Rightarrow> Truck list \<Rightarrow> bool" where
  "devicesShown D v co at' xs ts \<longleftrightarrow>
     list_all2 (truckOf D v co at') xs ts \<and>
     ((\<forall>t \<in> set ts. Truck.IMEI t = []) \<or>
      list_all2 (\<lambda>x t. (\<exists>m. carried v co at' (Hex (env D) (Base.ID x)) m) \<longrightarrow> Truck.IMEI t \<noteq> []) xs ts)"

lemma toTruck_simps [simp]:
  "Truck.ID (toTruck D imeis x) = Hex (env D) (Base.ID x)" "Truck.CompanyID (toTruck D imeis x) = Vehicle.CompanyID x"
  "Truck.PoliceNumber (toTruck D imeis x) = Vehicle.LicensePlate x"
  "Truck.IMEI (toTruck D imeis x) = (case imeis (Hex (env D) (Base.ID x)) of None \<Rightarrow> [] | Some m \<Rightarrow> m)"
  "Truck.IsAvailable (toTruck D imeis x) = Vehicle.IsAvailable x"
  by (simp_all add: toTruck_def Let_def)

lemma map_list_all2: "list_all2 P xs ts \<Longrightarrow> (\<And>x t. P x t \<Longrightarrow> f t = g x) \<Longrightarrow> map f ts = map g xs"
  by (induction rule: list_all2_induct) auto

context database
begin

lemma devicesAt_triple:
  "triple (holds Q)
     (andThen (attempt (IMEIsAt D co (map (\<lambda>v. Hex (env D) (Base.ID v)) xs) now)) (\<lambda>r.
      ok (map (toTruck D (case r of Inl e \<Rightarrow> Map.empty | Inr m \<Rightarrow> m)) xs)))
     (\<lambda>ts. holds (\<lambda>v. Q v \<and> devicesShown D v co now xs ts)) (holds E)"
proof (rule triple_andThen [OF triple_attempt])
  let ?ids = "map (\<lambda>v. Hex (env D) (Base.ID v)) xs"
  let ?Q = "\<lambda>r. holds (\<lambda>v. Q v \<and> (case r of Inl e \<Rightarrow> True | Inr out \<Rightarrow>
     (\<forall>i m. out i = Some m \<longrightarrow> i \<in> set ?ids \<and> carried v co now i m) \<and>
     (\<forall>i m. i \<in> set ?ids \<longrightarrow> carried v co now i m \<longrightarrow> out i \<noteq> None)))"
  show "triple (holds Q) (IMEIsAt D co ?ids now) (\<lambda>out. ?Q (Inr out)) (\<lambda>w. \<forall>e::error. ?Q (Inl e) w)"
    by (rule triple_conseq [OF IMEIsAt_triple [where Q = Q and co = co and vids = ?ids and at' = now]])
      (simp_all add: inWorld_def)
  fix r :: "error + (string \<rightharpoonup> string)"
  have "devicesShown D v co now xs (map (toTruck D out) xs)"
    if "\<forall>i m. out i = Some m \<longrightarrow> i \<in> set ?ids \<and> carried v co now i m"
      and "\<forall>i m. i \<in> set ?ids \<longrightarrow> carried v co now i m \<longrightarrow> out i \<noteq> None" for out v
    unfolding devicesShown_def
  proof (rule conjI, goal_cases)
    case 1
    show ?case using that(1) by (auto simp: list_all2_conv_all_nth truckOf_def split: option.splits)
  next
    case 2
    have "list_all2 (\<lambda>x t. (\<exists>m. carried v co now (Hex (env D) (Base.ID x)) m) \<longrightarrow> Truck.IMEI t \<noteq> [])
        xs (map (toTruck D out) xs)"
      using that by (fastforce simp: list_all2_conv_all_nth carried_def split: option.splits)
    then show ?case ..
  qed
  moreover have "devicesShown D v co now xs (map (toTruck D Map.empty) xs)" for v
    by (simp add: devicesShown_def list_all2_conv_all_nth truckOf_def) blast
  ultimately show "triple (?Q r) (ok (map (toTruck D (case r of Inl e \<Rightarrow> Map.empty | Inr m \<Rightarrow> m)) xs))
      (\<lambda>ts. holds (\<lambda>v. Q v \<and> devicesShown D v co now xs ts)) (holds E)"
    by (cases r) (intro ok_here, simp)+
qed

text \<open>The devices shown are those of the moment the clock gives as the read begins.\<close>

lemma withDevices_at:
  assumes "good w1" and "withDevices D co xs w1 = (Inr ts, w')"
  shows "\<exists>now w2. Now (env D) w1 = (now, w2) \<and> vw w' = vw w1 \<and> devicesShown D (vw w1) co now xs ts"
proof -
  obtain now w2 where n: "Now (env D) w1 = (now, w2)" by force
  have w2: "good w2" "vw w2 = vw w1" using now [OF assms(1) n] by simp_all
  have "andThen (attempt (IMEIsAt D co (map (\<lambda>v. Hex (env D) (Base.ID v)) xs) now)) (\<lambda>r.
      ok (map (toTruck D (case r of Inl e \<Rightarrow> Map.empty | Inr m \<Rightarrow> m)) xs)) w2 = (Inr ts, w')"
    using assms(2) n by (simp add: withDevices_def Let_def andThen_def call_def)
  from triple_InrD [OF devicesAt_triple [where Q = "\<lambda>v. v = vw w1" and E = "\<lambda>_. True"] _ this]
  show ?thesis using w2 n by (auto simp: inWorld_def)
qed

lemma withDevices_triple:
  "triple (holds Q) (withDevices D co xs) (\<lambda>ts. holds (\<lambda>v. Q v \<and> (\<exists>at'. list_all2 (truckOf D v co at') xs ts))) (holds Q)"
  unfolding withDevices_def Let_def
  by (rule bind_now, rule triple_post [OF devicesAt_triple]) (auto simp: inWorld_def devicesShown_def)

lemma bind_withDevices:
  assumes "\<And>ts. triple (holds (\<lambda>v. Q v \<and> (\<exists>at'. list_all2 (truckOf D v co at') xs ts))) (k ts) R (holds Q)"
  shows "triple (holds Q) (andThen (withDevices D co xs) k) R (holds Q)"
  by (rule triple_andThen [OF withDevices_triple assms])

abbreviation trucksOf :: "(Vehicle \<Rightarrow> bool) \<Rightarrow> string \<Rightarrow> Truck list \<Rightarrow> MasterData \<Rightarrow> bool" where
  "trucksOf p co ts v \<equiv> \<exists>at' xs. list_all2 (truckOf D v co at') xs ts \<and>
     (\<forall>x \<in> set xs. Vehicles v (Base.ID x) = Some x \<and> p x)"

lemma trucks_shown:
  assumes p: "\<forall>x \<in> set xs. p x"
  shows "triple (holds (\<lambda>v. Q v \<and> (\<forall>x \<in> set xs. Vehicles v (Base.ID x) = Some x))) (withDevices D co xs)
    (\<lambda>ts. holds (\<lambda>v. Q v \<and> map Truck.ID ts = map (\<lambda>x. Hex (env D) (Base.ID x)) xs \<and> trucksOf p co ts v)) (holds Q)"
proof (rule triple_conseq [OF withDevices_triple [where Q = "\<lambda>v. Q v \<and> (\<forall>x \<in> set xs. Vehicles v (Base.ID x) = Some x)"]])
  fix ts w
  assume "holds (\<lambda>v. (Q v \<and> (\<forall>x \<in> set xs. Vehicles v (Base.ID x) = Some x)) \<and>
      (\<exists>at'. list_all2 (truckOf D v co at') xs ts)) w"
  then have w: "good w" "Q (vw w)" "\<forall>x \<in> set xs. Vehicles (vw w) (Base.ID x) = Some x"
    and l: "\<exists>at'. list_all2 (truckOf D (vw w) co at') xs ts" by (simp_all add: inWorld_def)
  from l obtain at' where "list_all2 (truckOf D (vw w) co at') xs ts" ..
  then have "map Truck.ID ts = map (\<lambda>x. Hex (env D) (Base.ID x)) xs"
    by (rule map_list_all2) (auto simp: truckOf_def)
  then show "holds (\<lambda>v. Q v \<and> map Truck.ID ts = map (\<lambda>x. Hex (env D) (Base.ID x)) xs \<and> trucksOf p co ts v) w"
    unfolding inWorld_def using w l p by blast
qed (simp_all add: inWorld_def)

lemma ListTrucks_triple:
  "triple (holds Q) (ListTrucks D co prm free)
     (\<lambda>(ts, n). holds (\<lambda>v. Q v \<and> int (length ts) \<le> n \<and> (0 < PageSize prm \<longrightarrow> int (length ts) \<le> PageSize prm) \<and>
        trucksOf (\<lambda>x. Vehicle.CompanyID x = co \<and> \<not> Base.Deleted x \<and> Vehicle.UnitType x \<in> set haulingUnits \<and>
          (free \<longrightarrow> Vehicle.IsAvailable x)) co ts v)) (holds Q)"
  unfolding ListTrucks_def
proof (rule veh.bind_page, simp only: prod.case store_simps methods_simps)
  fix ds :: "Vehicle list" and n
  let ?p = "\<lambda>x :: Vehicle. Vehicle.CompanyID x = co \<and> \<not> Base.Deleted x \<and> Vehicle.UnitType x \<in> set haulingUnits \<and>
          (free \<longrightarrow> Vehicle.IsAvailable x)"
  assume "list_all (truckFilter D co prm free) ds"
    and n: "int (length ds) \<le> n" "0 < PageSize prm \<Longrightarrow> int (length ds) \<le> PageSize prm"
  then have p: "\<forall>x \<in> set ds. ?p x" unfolding list_all_iff truckFilter_def by blast
  show "triple (holds (\<lambda>v. Q v \<and> (\<forall>d \<in> set ds. Vehicles v (Base.ID d) = Some d)))
     (andThen (withDevices D co ds) (\<lambda>ts. ok (ts, n)))
     (\<lambda>(ts, n). holds (\<lambda>v. Q v \<and> int (length ts) \<le> n \<and> (0 < PageSize prm \<longrightarrow> int (length ts) \<le> PageSize prm) \<and>
        trucksOf ?p co ts v)) (holds Q)"
    by (rule triple_andThen [OF trucks_shown [OF p]], rule triple_ok)
      (use n in \<open>auto simp: inWorld_def dest!: map_eq_imp_length_eq\<close>)
qed

lemma page_rows:
  assumes "good w" and "page (col (vehicles D)) p prm w = (Inr (xs, n), w1)"
  shows "\<forall>x \<in> set xs. p x \<and> Vehicles (vw w) (Base.ID x) = Some x"
  using triple_InrD [OF veh.page_triple [where P = "\<lambda>v. v = vw w"] _ assms(2)] assms(1)
  by (auto simp: inWorld_def found_def)

lemma ListTrucks_at:
  assumes "good w" and "ListTrucks D co prm free w = (Inr (ts, n), w')"
  shows "\<exists>xs w1 now w2. page (col (vehicles D)) (truckFilter D co prm free) prm w = (Inr (xs, n), w1) \<and>
     Now (env D) w1 = (now, w2) \<and> vw w1 = vw w \<and> vw w' = vw w \<and> devicesShown D (vw w) co now xs ts"
proof -
  obtain xs w1 where p: "page (col (vehicles D)) (truckFilter D co prm free) prm w = (Inr (xs, n), w1)"
    and d: "withDevices D co xs w1 = (Inr ts, w')"
    using assms(2) by (auto simp: ListTrucks_def ok_def elim!: andThen_InrE)
  have "good w1" "vw w1 = vw w"
    using triple_InrD [OF veh.page_triple [where P = "\<lambda>v. v = vw w"] _ p] assms(1) by (auto simp: inWorld_def)
  with withDevices_at [OF _ d] p show ?thesis by metis
qed

lemma fleetVehicle_triple:
  "triple (holds Q) (fleetVehicle D co ident) (\<lambda>x. holds (\<lambda>v. Q v \<and> Vehicles v (Base.ID x) = Some x \<and>
     ObjectIDFromHex (env D) ident = Some (Base.ID x) \<and> \<not> Base.Deleted x \<and>
     (co \<noteq> [] \<longrightarrow> Vehicle.CompanyID x = co))) (holds Q)"
proof (cases "ObjectIDFromHex (env D) ident")
  case None
  then show ?thesis by (simp add: fleetVehicle_def fail_triple)
next
  case (Some i)
  show ?thesis
    unfolding fleetVehicle_def Some option.case
    by (rule triple_conseq [OF veh.decodeOne_triple [where P = Q]]) (auto simp: inWorld_def)
qed

lemma GetTruck_triple:
  "triple (holds Q) (GetTruck D co ident) (\<lambda>t. holds (\<lambda>v. Q v \<and> (\<exists>x at'. Vehicles v (Base.ID x) = Some x \<and>
     ObjectIDFromHex (env D) ident = Some (Base.ID x) \<and> \<not> Base.Deleted x \<and>
     (co \<noteq> [] \<longrightarrow> Vehicle.CompanyID x = co) \<and> truckOf D v (Vehicle.CompanyID x) at' x t))) (holds Q)"
  unfolding GetTruck_def
proof (rule triple_andThen [OF fleetVehicle_triple])
  fix x
  let ?Q = "\<lambda>v. Q v \<and> Vehicles v (Base.ID x) = Some x \<and> ObjectIDFromHex (env D) ident = Some (Base.ID x) \<and>
     \<not> Base.Deleted x \<and> (co \<noteq> [] \<longrightarrow> Vehicle.CompanyID x = co)"
  show "triple (holds ?Q) (andThen (withDevices D (Vehicle.CompanyID x) [x]) (\<lambda>ts. ok (hd ts)))
     (\<lambda>t. holds (\<lambda>v. Q v \<and> (\<exists>x at'. Vehicles v (Base.ID x) = Some x \<and>
     ObjectIDFromHex (env D) ident = Some (Base.ID x) \<and> \<not> Base.Deleted x \<and>
     (co \<noteq> [] \<longrightarrow> Vehicle.CompanyID x = co) \<and> truckOf D v (Vehicle.CompanyID x) at' x t))) (holds Q)"
    by (rule triple_andThen [OF triple_conseq [OF withDevices_triple [where Q = ?Q]]], assumption, assumption,
        simp add: inWorld_def, rule triple_ok)
      (fastforce simp: inWorld_def list_all2_Cons1)
qed

lemma TrucksByDriver_triple:
  "triple (holds Q) (TrucksByDriver D co driver) (\<lambda>ts. holds (\<lambda>v. Q v \<and>
     trucksOf (\<lambda>x. \<not> Base.Deleted x \<and> Vehicle.UnitType x \<in> set haulingUnits \<and>
       (Vehicle.CurrentDriverID x = Some driver \<or> CurrentDriverUserID x = Some driver) \<and>
       (co \<noteq> [] \<longrightarrow> Vehicle.CompanyID x = co)) co ts v \<and>
     (\<forall>i x. Vehicles v i = Some x \<longrightarrow> \<not> Base.Deleted x \<longrightarrow> Vehicle.UnitType x \<in> set haulingUnits \<longrightarrow>
        Vehicle.CurrentDriverID x = Some driver \<or> CurrentDriverUserID x = Some driver \<longrightarrow>
        (co \<noteq> [] \<longrightarrow> Vehicle.CompanyID x = co) \<longrightarrow> Hex (env D) i \<in> Truck.ID ` set ts))) (holds Q)"
  unfolding TrucksByDriver_def
proof (rule veh.bind_find_all, simp_all only: store_simps methods_simps)
  fix ds :: "Vehicle list"
  let ?p = "\<lambda>x :: Vehicle. \<not> Base.Deleted x \<and> Vehicle.UnitType x \<in> set haulingUnits \<and>
       (Vehicle.CurrentDriverID x = Some driver \<or> CurrentDriverUserID x = Some driver) \<and>
       (co \<noteq> [] \<longrightarrow> Vehicle.CompanyID x = co)"
  let ?r = "\<lambda>v. \<forall>x. x \<in> set ds \<longleftrightarrow> (\<exists>j. Vehicles v j = Some x) \<and> \<not> Base.Deleted x \<and>
       (Vehicle.CurrentDriverID x = Some driver \<or> CurrentDriverUserID x = Some driver) \<and>
       (co \<noteq> [] \<longrightarrow> Vehicle.CompanyID x = co) \<and> Vehicle.UnitType x \<in> set haulingUnits"
  let ?R = "\<lambda>ts v. Q v \<and> trucksOf ?p co ts v \<and>
     (\<forall>i x. Vehicles v i = Some x \<longrightarrow> \<not> Base.Deleted x \<longrightarrow> Vehicle.UnitType x \<in> set haulingUnits \<longrightarrow>
        Vehicle.CurrentDriverID x = Some driver \<or> CurrentDriverUserID x = Some driver \<longrightarrow>
        (co \<noteq> [] \<longrightarrow> Vehicle.CompanyID x = co) \<longrightarrow> Hex (env D) i \<in> Truck.ID ` set ts)"
  show "triple (holds (\<lambda>v. Q v \<and> ?r v)) (withDevices D co ds) (\<lambda>ts. holds (?R ts)) (holds Q)"
  proof (cases "\<forall>x \<in> set ds. ?p x")
    case True
    show ?thesis
    proof (rule triple_conseq [OF trucks_shown [OF True, where Q = "\<lambda>v. Q v \<and> ?r v"]])
      fix w assume w: "holds (\<lambda>v. Q v \<and> ?r v) w"
      then have "Vehicles (vw w) (Base.ID x) = Some x" if "x \<in> set ds" for x
        using that veh.keyed [of w] unfolding inWorld_def by fastforce
      then show "holds (\<lambda>v. (Q v \<and> ?r v) \<and> (\<forall>x \<in> set ds. Vehicles v (Base.ID x) = Some x)) w"
        using w unfolding inWorld_def by blast
    next
      fix ts w assume w: "holds (\<lambda>v. (Q v \<and> ?r v) \<and> map Truck.ID ts = map (\<lambda>x. Hex (env D) (Base.ID x)) ds \<and>
          trucksOf ?p co ts v) w"
      then have rows: "?r (vw w)" and ids: "Truck.ID ` set ts = (\<lambda>x. Hex (env D) (Base.ID x)) ` set ds"
        by (auto simp: inWorld_def dest!: arg_cong [where f = set])
      have "Hex (env D) i \<in> Truck.ID ` set ts"
        if x: "Vehicles (vw w) i = Some x" and "?p x" for i x
      proof -
        have "x \<in> set ds" using rows x \<open>?p x\<close> by blast
        moreover have "Base.ID x = i" using veh.keyed [of w i x] x w unfolding inWorld_def by simp
        ultimately show ?thesis unfolding ids by blast
      qed
      then show "holds (?R ts) w" using w unfolding inWorld_def by blast
    qed (simp add: inWorld_def)
  next
    case False
    then have "\<not> ?r v" for v by blast
    then show ?thesis unfolding triple_def inWorld_def by blast
  qed
qed simp_all

lemma ListWarehouses_triple:
  "triple (holds Q) (ListWarehouses D co prm)
     (\<lambda>(ws, n). holds (\<lambda>v. Q v \<and> int (length ws) \<le> n \<and> (0 < PageSize prm \<longrightarrow> int (length ws) \<le> PageSize prm) \<and>
        (\<exists>ss. ws = map (toWarehouse D) ss \<and> (\<forall>s \<in> set ss. Sites v (Base.ID s) = Some s \<and>
           Site.CompanyID s = co \<and> \<not> Base.Deleted s \<and> customerScope (Filters prm) s)))) (holds Q)"
  unfolding ListWarehouses_def
proof (rule sit.bind_page, simp only: prod.case, rule triple_ok, goal_cases)
  case (1 ds n w)
  then have "\<forall>s \<in> set ds. Site.CompanyID s = co \<and> \<not> Base.Deleted s \<and> customerScope (Filters prm) s"
    unfolding list_all_iff by blast
  then show ?case using 1 by (auto simp: inWorld_def intro!: exI [of _ ds])
qed

end

end
