(* ===== verification/Sites.thy ===== *)
theory Sites
  imports Fleet
begin

text \<open>
  The sites of \<^verbatim>\<open>internal/services/site_write.go\<close>: loading and unloading points, with
  their contact lists, their place on the map and their arrival radius. Creating, updating and
  retiring a site take steps of \<open>site_step\<close>, the abstract machine of the site register.
\<close>

section \<open>Inputs\<close>

record SitePICInput =
  ID :: string
  Name :: string
  Phone :: string
  IsDefault :: bool

record SiteInput =
  Name :: string
  SiteType :: string
  Address :: string
  Street :: string
  District :: string
  City :: string
  Province :: string
  Postcode :: string
  Latitude :: "rat option"
  Longitude :: "rat option"
  GeofenceRadiusM :: "int option"
  PICPhone :: string
  PICName :: string
  PICs :: "SitePICInput list option"
  Notes :: string
  CustomerCompanyID :: "string option"

definition newSite :: "string \<Rightarrow> Site" where
  "newSite companyID =
     \<lparr>Base.ID = NilObjectID, CreatedAt = zeroTime, UpdatedAt = zeroTime, Deleted = False,
      Site.CompanyID = companyID, SiteType = [], Name = [], NameNormalised = [], Address = None,
      Street = None, District = None, City = None, Province = None, Postcode = None,
      Location = None, GeofenceRadiusM = None, PICs = None, SitePICName = None,
      SitePICPhone = None, Notes = None, PICUserIDs = None, CustomerCompanyID = None,
      IsActive = True, Attributes = None\<rparr>"

definition setOptional :: "string option \<Rightarrow> string \<Rightarrow> string option" where
  "setOptional target value = (let t = TrimSpace value in if t = [] then target else Some t)"

definition nilIfBlank :: "string \<Rightarrow> string option" where
  "nilIfBlank v = (let t = TrimSpace v in if t = [] then None else Some t)"

section \<open>Contacts\<close>

text \<open>The loop over the contacts sent; the flag says whether a default has been seen.\<close>

definition picID :: "'w Database \<Rightarrow> SitePICInput \<Rightarrow> ('w, string) io" where
  "picID D p =
     (if TrimSpace (SitePICInput.ID p) = []
      then andThen (call (NewObjectID (env D))) (\<lambda>i. ok (Hex (env D) i))
      else ok (TrimSpace (SitePICInput.ID p)))"

fun picLoop ::
  "'w Database \<Rightarrow> SitePICInput list \<Rightarrow> SitePIC list \<Rightarrow> bool \<Rightarrow> ('w, SitePIC list \<times> bool) io" where
  "picLoop D [] acc seen = ok (acc, seen)"
| "picLoop D (p # ps) acc seen =
     (let name = TrimSpace (SitePICInput.Name p); phone = TrimSpace (SitePICInput.Phone p)
      in if name = [] \<and> phone = [] then picLoop D ps acc seen
         else if name = [] then fail (ErrValidation ''a PIC needs a name'')
         else andThen (picID D p) (\<lambda>ident.
              let isDefault = (SitePICInput.IsDefault p \<and> \<not> seen)
              in picLoop D ps
                   (acc @ [\<lparr>SitePIC.ID = ident, Name = name, Phone = phone, IsDefault = isDefault\<rparr>])
                   (seen \<or> isDefault)))"

definition firstDefault :: "SitePIC list \<Rightarrow> SitePIC list" where
  "firstDefault l = (case l of [] \<Rightarrow> [] | p # ps \<Rightarrow> p\<lparr>SitePIC.IsDefault := True\<rparr> # ps)"

text \<open>The single-contact form edits the first default entry, or appends one.\<close>

fun editDefault :: "string \<Rightarrow> string \<Rightarrow> SitePIC list \<Rightarrow> SitePIC list" where
  "editDefault name phone [] = []"
| "editDefault name phone (p # ps) =
     (if SitePIC.IsDefault p
      then p\<lparr>SitePIC.Name := (if name = [] then SitePIC.Name p else name),
             SitePIC.Phone := (if phone = [] then SitePIC.Phone p else phone)\<rparr> # ps
      else p # editDefault name phone ps)"

definition appendDefault :: "string \<Rightarrow> string \<Rightarrow> string \<Rightarrow> SitePIC list \<Rightarrow> SitePIC list" where
  "appendDefault ident name phone l =
     map (\<lambda>p. p\<lparr>SitePIC.IsDefault := False\<rparr>) l @
       [\<lparr>SitePIC.ID = ident, Name = (if name = [] then ''PIC'' else name), Phone = phone, IsDefault = True\<rparr>]"

text \<open>The old single fields repeat the default entry.\<close>

definition mirrorDefault :: "Site \<Rightarrow> Site" where
  "mirrorDefault s =
     (let p = List.find SitePIC.IsDefault (case Site.PICs s of None \<Rightarrow> [] | Some l \<Rightarrow> l)
      in s\<lparr>SitePICName := Option.bind p (\<lambda>p. nilIfBlank (SitePIC.Name p)),
           SitePICPhone := Option.bind p (\<lambda>p. nilIfBlank (SitePIC.Phone p))\<rparr>)"

definition contactsOf :: "'w Database \<Rightarrow> SiteInput \<Rightarrow> SitePIC list option \<Rightarrow> ('w, SitePIC list option) io" where
  "contactsOf D inp old =
     (case SiteInput.PICs inp of
        Some ps \<Rightarrow>
          andThen (picLoop D ps [] False) (\<lambda>(l, seen). ok (Some (if seen then l else firstDefault l)))
      | None \<Rightarrow>
          (let name = TrimSpace (SiteInput.PICName inp); phone = TrimSpace (SiteInput.PICPhone inp);
               l = (case old of None \<Rightarrow> [] | Some l \<Rightarrow> l)
           in if name = [] \<and> phone = [] then ok old
              else if list_ex SitePIC.IsDefault l then ok (Some (editDefault name phone l))
              else andThen (call (NewObjectID (env D))) (\<lambda>i.
                   ok (Some (appendDefault (Hex (env D) i) name phone l)))))"

definition ApplyPICs :: "'w Database \<Rightarrow> Site \<Rightarrow> SiteInput \<Rightarrow> ('w, Site) io" where
  "ApplyPICs D s inp =
     andThen (contactsOf D inp (Site.PICs s)) (\<lambda>pics. ok (mirrorDefault (s\<lparr>Site.PICs := pics\<rparr>)))"

section \<open>Place and radius\<close>

text \<open>
  The texts of \<^verbatim>\<open>%.6f\<close> (rounded to nearest, ties to even) and of \<^verbatim>\<open>%q\<close>, for
  ASCII text.
\<close>

fun natText :: "nat \<Rightarrow> string" where
  "natText n = (if n < 10 then [char_of (48 + n)] else natText (n div 10) @ [char_of (48 + n mod 10)])"

declare natText.simps [simp del]

definition fixed6 :: "rat \<Rightarrow> string" where
  "fixed6 r =
     (let q = \<bar>r\<bar> * 1000000; f = \<lfloor>q\<rfloor>; rest = q - of_int f;
          n = nat (if rest > 1 / 2 \<or> rest = 1 / 2 \<and> odd f then f + 1 else f)
      in (if r < 0 then ''-'' else []) @ natText (n div 1000000) @ ''.'' @
         map (\<lambda>k. char_of (48 + n div 10 ^ k mod 10)) [5, 4, 3, 2, 1, 0])"

definition quoteChar :: "char \<Rightarrow> string" where
  "quoteChar c =
     (let n = (of_char c :: nat) in
      if n = 34 \<or> n = 92 then [CHR 0x5C, c]
      else if 32 \<le> n \<and> n < 127 then [c]
      else if n = 7 then [CHR 0x5C, CHR ''a''] else if n = 8 then [CHR 0x5C, CHR ''b'']
      else if n = 9 then [CHR 0x5C, CHR ''t''] else if n = 10 then [CHR 0x5C, CHR ''n'']
      else if n = 11 then [CHR 0x5C, CHR ''v''] else if n = 12 then [CHR 0x5C, CHR ''f'']
      else if n = 13 then [CHR 0x5C, CHR ''r'']
      else [CHR 0x5C, CHR ''x'', hexDigit (n div 16), hexDigit (n mod 16)])"

definition quote :: "string \<Rightarrow> string" where
  "quote s = [CHR 0x22] @ concat (map quoteChar s) @ [CHR 0x22]"

definition geoPoint :: "rat option \<Rightarrow> rat option \<Rightarrow> error + GeoPoint option" where
  "geoPoint lat lon =
     (case (lat, lon) of
        (None, None) \<Rightarrow> Inr None
      | (Some a, Some b) \<Rightarrow>
          if a < -90 \<or> a > 90 then Inl (ErrValidation (''latitude '' @ fixed6 a @ '' is out of range''))
          else if b < -180 \<or> b > 180 then Inl (ErrValidation (''longitude '' @ fixed6 b @ '' is out of range''))
          else if a = 0 \<and> b = 0 then Inl (ErrValidation ''pick a point on the map'')
          else Inr (Some \<lparr>GeoPoint.Type = ''Point'', Coordinates = [b, a]\<rparr>)
      | _ \<Rightarrow> Inl (ErrValidation ''a location needs both a latitude and a longitude''))"

definition DefaultGeofenceRadiusM :: int where
  "DefaultGeofenceRadiusM = 200"

definition radiusOf :: "int option \<Rightarrow> int option \<Rightarrow> error + int option" where
  "radiusOf old inp =
     (case inp of None \<Rightarrow> Inr old
      | Some r \<Rightarrow> if r \<le> 0 then Inl (ErrValidation ''a geofence radius must be positive'') else Inr (Some r))"

definition duplicateSiteName :: "string \<Rightarrow> string option \<Rightarrow> error" where
  "duplicateSiteName name customer =
     ErrValidation ((if customer \<noteq> None \<and> customer \<noteq> Some []
                     then ''this customer already has a site called ''
                     else ''your company already has a site called '') @ quote name)"

section \<open>Operations\<close>

definition describe :: "SiteInput \<Rightarrow> Site \<Rightarrow> Site" where
  "describe inp s =
     s\<lparr>Site.Address := setOptional (Site.Address s) (SiteInput.Address inp),
       Site.Street := setOptional (Site.Street s) (SiteInput.Street inp),
       Site.District := setOptional (Site.District s) (SiteInput.District inp),
       Site.City := setOptional (Site.City s) (SiteInput.City inp),
       Site.Province := setOptional (Site.Province s) (SiteInput.Province inp),
       Site.Postcode := setOptional (Site.Postcode s) (SiteInput.Postcode inp)\<rparr>"

definition CreateSite :: "'w Database \<Rightarrow> string \<Rightarrow> SiteInput \<Rightarrow> ('w, Warehouse) io" where
  "CreateSite D companyID inp =
     andThen (unless (TrimSpace (SiteInput.Name inp) \<noteq> []) (ErrValidation ''a name is required'')) (\<lambda>_.
     andThen (unless (companyID \<noteq> []) (ErrValidation ''a site belongs to a company'')) (\<lambda>_.
     let s = describe inp ((newSite companyID)\<lparr>Site.Name := TrimSpace (SiteInput.Name inp),
                             Site.SiteType := SiteInput.SiteType inp\<rparr>) in
     andThen (ApplyPICs D s inp) (\<lambda>s.
     let s = s\<lparr>Site.Notes := setOptional (Site.Notes s) (SiteInput.Notes inp),
               Site.CustomerCompanyID := (case SiteInput.CustomerCompanyID inp of
                  None \<Rightarrow> Site.CustomerCompanyID s | Some c \<Rightarrow> nilIfBlank c)\<rparr> in
     andThen (lift (geoPoint (SiteInput.Latitude inp) (SiteInput.Longitude inp))) (\<lambda>point.
     andThen (lift (radiusOf (Some DefaultGeofenceRadiusM) (SiteInput.GeofenceRadiusM inp))) (\<lambda>radius.
     andThen (call (NewObjectID (env D))) (\<lambda>i.
     let s = s\<lparr>Site.Location := point, Site.GeofenceRadiusM := radius, Base.ID := i\<rparr> in
     andThen (onErr (Create (env D) (sites D) s)
       (\<lambda>e. if e = RepoErrDuplicate then duplicateSiteName (Site.Name s) (Site.CustomerCompanyID s) else e)) (\<lambda>s.
     ok (toWarehouse D s))))))))"

text \<open>The customer a site belongs to is not among what an update changes.\<close>

definition UpdateSite ::
  "'w Database \<Rightarrow> string \<Rightarrow> string \<Rightarrow> SiteInput \<Rightarrow> ('w, Warehouse) io" where
  "UpdateSite D companyID ident inp =
     (case ObjectIDFromHex (env D) ident of
        None \<Rightarrow> fail ErrNotFound
      | Some i \<Rightarrow>
     andThen (decodeOne (col (sites D)) (scoped Site.CompanyID companyID i)) (\<lambda>s.
     let s = describe inp
       (s\<lparr>Site.Name := (if TrimSpace (SiteInput.Name inp) \<noteq> [] then TrimSpace (SiteInput.Name inp) else Site.Name s),
          Site.SiteType := (if SiteInput.SiteType inp \<noteq> [] then SiteInput.SiteType inp else Site.SiteType s)\<rparr>) in
     andThen (ApplyPICs D s inp) (\<lambda>s.
     let s = s\<lparr>Site.Notes := setOptional (Site.Notes s) (SiteInput.Notes inp)\<rparr> in
     andThen (if SiteInput.Latitude inp \<noteq> None \<or> SiteInput.Longitude inp \<noteq> None
              then lift (geoPoint (SiteInput.Latitude inp) (SiteInput.Longitude inp))
              else ok (Site.Location s)) (\<lambda>point.
     andThen (lift (radiusOf (Site.GeofenceRadiusM s) (SiteInput.GeofenceRadiusM inp))) (\<lambda>radius.
     let s = s\<lparr>Site.Location := point, Site.GeofenceRadiusM := radius\<rparr> in
     andThen (onErr (Update (env D) (sites D) i s)
       (\<lambda>e. if e = RepoErrDuplicate then duplicateSiteName (Site.Name s) (Site.CustomerCompanyID s) else e)) (\<lambda>s.
     ok (toWarehouse D s)))))))"

definition DeleteSite :: "'w Database \<Rightarrow> string \<Rightarrow> string \<Rightarrow> ('w, unit) io" where
  "DeleteSite D companyID ident =
     (case ObjectIDFromHex (env D) ident of
        None \<Rightarrow> fail ErrNotFound
      | Some i \<Rightarrow>
     andThen (call (Now (env D))) (\<lambda>now.
     andThen (UpdateOne (col (sites D)) (scoped Site.CompanyID companyID i) (markDeleted now)) (\<lambda>n.
     if n = 0 then fail ErrNotFound else ok ())))"

section \<open>What a site keeps\<close>

definition contacts :: "Site \<Rightarrow> SitePIC list" where
  "contacts s = (case Site.PICs s of None \<Rightarrow> [] | Some l \<Rightarrow> l)"

text \<open>Exactly one contact of a list is the default, and every contact has a name and an id.\<close>

definition named :: "SitePIC \<Rightarrow> bool" where
  "named p \<longleftrightarrow> SitePIC.Name p \<noteq> [] \<and> SitePIC.ID p \<noteq> []"

definition contactsOK :: "SitePIC list \<Rightarrow> bool" where
  "contactsOK l \<longleftrightarrow> (l \<noteq> [] \<longrightarrow> length (filter SitePIC.IsDefault l) = 1) \<and> list_all named l"

text \<open>A point in GeoJSON order, within the bounds of the earth and not nought, nought.\<close>

definition onMap :: "GeoPoint \<Rightarrow> bool" where
  "onMap g \<longleftrightarrow> GeoPoint.Type g = ''Point'' \<and>
     (case Coordinates g of
        [lon, lat] \<Rightarrow> -180 \<le> lon \<and> lon \<le> 180 \<and> -90 \<le> lat \<and> lat \<le> 90 \<and> \<not> (lon = 0 \<and> lat = 0)
      | _ \<Rightarrow> False)"

definition goodSite :: "Site \<Rightarrow> bool" where
  "goodSite s \<longleftrightarrow> settled_Site s \<and> Site.Name s \<noteq> [] \<and> contactsOK (contacts s) \<and> mirrorDefault s = s \<and>
     pred_option onMap (Site.Location s) \<and> pred_option (\<lambda>r. 0 < r) (Site.GeofenceRadiusM s)"

text \<open>
  The machine of the site register: a site is added, changed within its company and for the same
  customer, or retired. A change keeps a good site good.
\<close>

inductive site_step :: "string \<Rightarrow> MasterData \<Rightarrow> MasterData \<Rightarrow> bool" for co :: string where
  site_added:
    "Sites v i = None \<Longrightarrow> Base.ID s = i \<Longrightarrow> Site.CompanyID s = co \<Longrightarrow> co \<noteq> [] \<Longrightarrow> \<not> Base.Deleted s \<Longrightarrow>
     goodSite s \<Longrightarrow> site_step co v (v\<lparr>Sites := (Sites v)(i \<mapsto> s)\<rparr>)"
| site_changed:
    "Sites v i = Some s0 \<Longrightarrow> Site.CompanyID s0 = co \<Longrightarrow> \<not> Base.Deleted s0 \<Longrightarrow>
     Base.ID s = i \<Longrightarrow> Site.CompanyID s = co \<Longrightarrow> \<not> Base.Deleted s \<Longrightarrow>
     Site.CustomerCompanyID s = Site.CustomerCompanyID s0 \<Longrightarrow> (goodSite s0 \<Longrightarrow> goodSite s) \<Longrightarrow>
     site_step co v (v\<lparr>Sites := (Sites v)(i \<mapsto> s)\<rparr>)"
| site_retired:
    "Sites v i = Some s0 \<Longrightarrow> Site.CompanyID s0 = co \<Longrightarrow> \<not> Base.Deleted s0 \<Longrightarrow>
     site_step co v (v\<lparr>Sites := (Sites v)(i \<mapsto> markDeleted now s0)\<rparr>)"

section \<open>Contacts stay in order\<close>

abbreviation counted :: "SitePIC list \<Rightarrow> bool \<Rightarrow> bool" where
  "counted l seen \<equiv> length (filter SitePIC.IsDefault l) = (if seen then 1 else 0) \<and> list_all named l"

lemma firstDefault_ok: "counted l False \<Longrightarrow> contactsOK (firstDefault l)"
  by (cases l) (auto simp: firstDefault_def contactsOK_def named_def split: if_splits)

lemma counted_ok: "counted l True \<Longrightarrow> contactsOK l"
  by (simp add: contactsOK_def)

lemma editDefault_ok:
  "list_all named l \<Longrightarrow>
     list_all named (editDefault name phone l) \<and>
     map SitePIC.IsDefault (editDefault name phone l) = map SitePIC.IsDefault l"
  by (induction l) (auto simp: named_def)

lemma length_filter_map: "length (filter P (l :: 'a list)) = length (filter id (map P l))"
  by (simp add: filter_map o_def)

lemma contactsOK_editDefault: "contactsOK l \<Longrightarrow> contactsOK (editDefault name phone l)"
  using editDefault_ok [of l name phone] length_filter_map [of SitePIC.IsDefault "editDefault name phone l"]
    length_filter_map [of SitePIC.IsDefault l]
  by (cases l) (simp_all add: contactsOK_def split: if_splits)

lemma appendDefault_ok:
  "list_all named l \<Longrightarrow> ident \<noteq> [] \<Longrightarrow> contactsOK (appendDefault ident name phone l)"
  by (simp add: appendDefault_def contactsOK_def named_def list_all_iff filter_map o_def)

lemma describe_simps [simp]:
  "Base.ID (describe inp s) = Base.ID s" "Base.Deleted (describe inp s) = Base.Deleted s"
  "Site.CompanyID (describe inp s) = Site.CompanyID s" "Site.Name (describe inp s) = Site.Name s"
  "Site.PICs (describe inp s) = Site.PICs s" "Site.SiteType (describe inp s) = Site.SiteType s"
  "Site.CustomerCompanyID (describe inp s) = Site.CustomerCompanyID s"
  "Site.Location (describe inp s) = Site.Location s"
  "Site.GeofenceRadiusM (describe inp s) = Site.GeofenceRadiusM s"
  by (simp_all add: describe_def)

lemma mirrorDefault_simps [simp]:
  "Base.ID (mirrorDefault s) = Base.ID s" "Base.Deleted (mirrorDefault s) = Base.Deleted s"
  "Site.CompanyID (mirrorDefault s) = Site.CompanyID s" "Site.Name (mirrorDefault s) = Site.Name s"
  "Site.PICs (mirrorDefault s) = Site.PICs s" "Site.SiteType (mirrorDefault s) = Site.SiteType s"
  "Site.CustomerCompanyID (mirrorDefault s) = Site.CustomerCompanyID s"
  "Site.Location (mirrorDefault s) = Site.Location s" "contacts (mirrorDefault s) = contacts s"
  "Site.GeofenceRadiusM (mirrorDefault s) = Site.GeofenceRadiusM s"
  by (simp_all add: mirrorDefault_def Let_def contacts_def)

text \<open>What the mirror reads.\<close>

lemma mirrored:
  "mirrorDefault s = s \<longleftrightarrow>
     SitePICName s = Option.bind (List.find SitePIC.IsDefault (contacts s)) (\<lambda>p. nilIfBlank (SitePIC.Name p)) \<and>
     SitePICPhone s = Option.bind (List.find SitePIC.IsDefault (contacts s)) (\<lambda>p. nilIfBlank (SitePIC.Phone p))"
  by (cases s) (auto simp: mirrorDefault_def Let_def contacts_def)

lemma mirrorDefault_idem: "mirrorDefault (mirrorDefault s) = mirrorDefault s"
  by (simp add: mirrorDefault_def Let_def)

lemma geoPoint_onMap: "geoPoint lat lon = Inr (Some g) \<Longrightarrow> onMap g"
  by (auto simp: geoPoint_def onMap_def split: option.splits if_splits)

lemma geoPoint_shown:
  "geoPoint (Some a) (Some b) = Inr p \<Longrightarrow> Site.Location s = p \<Longrightarrow>
     Warehouse.Latitude (toWarehouse D s) = a \<and> Warehouse.Longitude (toWarehouse D s) = b"
  by (drule sym) (auto simp: geoPoint_def toWarehouse_def Let_def split: if_splits)

lemma radiusOf_positive:
  "radiusOf old inp = Inr r \<Longrightarrow> pred_option (\<lambda>r. 0 < r) old \<Longrightarrow> pred_option (\<lambda>r. 0 < r) r"
  by (auto simp: radiusOf_def split: option.splits if_splits)

lemma Site_AsStored_simps [simp]:
  "Site.CompanyID (Site_AsStored s) = Site.CompanyID s" "Site.CustomerCompanyID (Site_AsStored s) = Site.CustomerCompanyID s"
  "Site.Name (Site_AsStored s) = Site.Name s" "Site.NameNormalised (Site_AsStored s) = Site.NameNormalised s"
  "Site.SiteType (Site_AsStored s) = Site.SiteType s"
  "Site.Location (Site_AsStored s) = Site.Location s" "Site.GeofenceRadiusM (Site_AsStored s) = Site.GeofenceRadiusM s"
  "contacts (Site_AsStored s) = contacts s" "mirrorDefault (Site_AsStored s) = Site_AsStored (mirrorDefault s)"
  "toWarehouse D (Site_AsStored s) = toWarehouse D s"
  by (simp_all add: Site_AsStored_def contacts_def mirrorDefault_def Let_def toWarehouse_def)

lemma goodSite_AsStored [simp]: "goodSite s \<Longrightarrow> goodSite (Site_AsStored s)"
  by (simp add: goodSite_def)

text \<open>The hook and the stamp of the store keep a good site good and fill its twins.\<close>

lemma stored_site:
  assumes "stored siteMethods doc d"
  shows "Base.ID d = Base.ID doc" "Base.Deleted d = Base.Deleted doc" "Site.CompanyID d = Site.CompanyID doc"
    "Site.CustomerCompanyID d = Site.CustomerCompanyID doc" "Site.Name d = Site.Name doc"
    "Site.Location d = Site.Location doc" "Site.GeofenceRadiusM d = Site.GeofenceRadiusM doc"
    "contacts d = contacts doc" "settled_Site d" "mirrorDefault doc = doc \<Longrightarrow> mirrorDefault d = d"
proof -
  from assms obtain now cr where d: "d = Stamp now cr (Site_BeforeWrite doc)" by (auto simp: stored_def)
  have c: "contacts d = contacts doc" "SitePICName d = SitePICName doc" "SitePICPhone d = SitePICPhone doc"
    by (simp_all add: d contacts_def Stamp_def Site_BeforeWrite_def split: option.splits)
  show "Base.ID d = Base.ID doc" "Base.Deleted d = Base.Deleted doc" "Site.CompanyID d = Site.CompanyID doc"
    "Site.CustomerCompanyID d = Site.CustomerCompanyID doc" "Site.Name d = Site.Name doc"
    "Site.Location d = Site.Location doc" "Site.GeofenceRadiusM d = Site.GeofenceRadiusM doc"
    by (simp_all add: d Stamp_def Site_BeforeWrite_def)
  show "contacts d = contacts doc" by (rule c)
  show "settled_Site d"
    using settled_Site_BeforeWrite [of doc] by (simp add: d settled_Site_def Stamp_def)
  show "mirrorDefault d = d" if "mirrorDefault doc = doc" using that by (simp add: mirrored c)
qed

section \<open>The operations take steps of the machine\<close>

context database
begin

abbreviation smoved :: "string \<Rightarrow> MasterData \<Rightarrow> MasterData \<Rightarrow> bool" where
  "smoved co \<equiv> (site_step co)\<^sup>*\<^sup>*"

lemma picID_triple:
  "triple (holds Q) (picID D p) (\<lambda>i. holds (\<lambda>v. Q v \<and> i \<noteq> [])) (holds Q)"
  unfolding picID_def using hex_text by (auto intro!: bind_new_id ok_here)

lemma picLoop_triple:
  "counted acc seen \<Longrightarrow>
     triple (holds Q) (picLoop D ps acc seen) (\<lambda>(l, d). holds (\<lambda>v. Q v \<and> counted l d)) (holds Q)"
proof (induction ps arbitrary: acc seen)
  case Nil
  then show ?case by (auto intro!: triple_ok simp: inWorld_def)
next
  case (Cons p ps)
  let ?name = "TrimSpace (SitePICInput.Name p)" and ?phone = "TrimSpace (SitePICInput.Phone p)"
  let ?d = "SitePICInput.IsDefault p \<and> \<not> seen"
  have "triple (holds (\<lambda>v. Q v \<and> i \<noteq> []))
      (picLoop D ps (acc @ [\<lparr>SitePIC.ID = i, Name = ?name, Phone = ?phone, IsDefault = ?d\<rparr>]) (seen \<or> ?d))
      (\<lambda>(l, d). holds (\<lambda>v. Q v \<and> counted l d)) (holds Q)" if "?name \<noteq> []" for i
  proof (rule pure)
    assume "i \<noteq> []"
    then show "triple (holds Q)
      (picLoop D ps (acc @ [\<lparr>SitePIC.ID = i, Name = ?name, Phone = ?phone, IsDefault = ?d\<rparr>]) (seen \<or> ?d))
      (\<lambda>(l, d). holds (\<lambda>v. Q v \<and> counted l d)) (holds Q)"
      using that Cons.prems by (intro Cons.IH) (auto simp: named_def)
  qed
  then show ?case
    using Cons by (auto simp: Let_def intro!: fail_triple triple_andThen [OF picID_triple])
qed

lemma contactsOf_triple:
  "triple (holds Q) (contactsOf D inp old)
     (\<lambda>new. holds (\<lambda>v. Q v \<and> (contactsOK (case old of None \<Rightarrow> [] | Some l \<Rightarrow> l) \<longrightarrow>
        contactsOK (case new of None \<Rightarrow> [] | Some l \<Rightarrow> l)))) (holds Q)"
proof (cases "SiteInput.PICs inp")
  case (Some ps)
  show ?thesis
    unfolding contactsOf_def Some option.case
  proof (rule triple_andThen [OF picLoop_triple], simp, rule prod.induct, unfold prod.case, rule pure)
    fix l d assume "counted l d"
    then have "contactsOK (if d then l else firstDefault l)"
      using firstDefault_ok [of l] counted_ok [of l] by (cases d) simp_all
    then show "triple (holds Q) (ok (Some (if d then l else firstDefault l)))
      (\<lambda>new. holds (\<lambda>v. Q v \<and> (contactsOK (case old of None \<Rightarrow> [] | Some l \<Rightarrow> l) \<longrightarrow>
        contactsOK (case new of None \<Rightarrow> [] | Some l \<Rightarrow> l)))) (holds Q)"
      by (intro ok_here) simp
  qed
next
  case None
  show ?thesis
    using hex_text contactsOK_editDefault appendDefault_ok
    by (auto simp: contactsOf_def None Let_def contactsOK_def [of "case old of None \<Rightarrow> [] | Some l \<Rightarrow> l"]
          contactsOK_def [of "[]"] intro!: ok_here bind_new_id)
qed

lemma ApplyPICs_triple:
  "triple (holds Q) (ApplyPICs D s inp)
     (\<lambda>s'. holds (\<lambda>v. Q v \<and> (\<exists>p. s' = mirrorDefault (s\<lparr>Site.PICs := p\<rparr>)) \<and>
        (contactsOK (contacts s) \<longrightarrow> contactsOK (contacts s')))) (holds Q)"
  unfolding ApplyPICs_def
  by (rule triple_andThen [OF contactsOf_triple], rule ok_here) (auto simp: contacts_def)

lemma bind_ApplyPICs:
  assumes "\<And>s'. \<exists>p. s' = mirrorDefault (s\<lparr>Site.PICs := p\<rparr>) \<Longrightarrow>
      (contactsOK (contacts s) \<Longrightarrow> contactsOK (contacts s')) \<Longrightarrow> triple (holds Q) (k s') R (holds E)"
    and "\<And>v. Q v \<Longrightarrow> E v"
  shows "triple (holds Q) (andThen (ApplyPICs D s inp) k) R (holds E)"
proof (rule triple_andThen)
  show "triple (holds Q) (ApplyPICs D s inp) (\<lambda>s'. holds (\<lambda>v. Q v \<and>
      (\<exists>p. s' = mirrorDefault (s\<lparr>Site.PICs := p\<rparr>)) \<and> (contactsOK (contacts s) \<longrightarrow> contactsOK (contacts s')))) (holds E)"
    by (rule triple_conseq [OF ApplyPICs_triple [where Q = Q]]) (auto simp: inWorld_def assms(2))
  show "triple (holds (\<lambda>v. Q v \<and> (\<exists>p. s' = mirrorDefault (s\<lparr>Site.PICs := p\<rparr>)) \<and>
      (contactsOK (contacts s) \<longrightarrow> contactsOK (contacts s')))) (k s') R (holds E)" for s'
    by (rule pure, rule assms(1)) blast+
qed

lemma site_written:
  assumes st: "stored siteMethods doc d" and co: "Site.CompanyID doc = co" "\<not> Base.Deleted doc"
  shows "inserted Base.ID (\<lambda>i d. d\<lparr>Base.ID := i\<rparr>) (Site_AsStored d) i (Sites v) m' \<Longrightarrow> Base.ID doc \<noteq> NilObjectID \<Longrightarrow>
      co \<noteq> [] \<Longrightarrow> goodSite d \<Longrightarrow> site_step co v (v\<lparr>Sites := m'\<rparr>) \<and> m' (Base.ID d) = Some (Site_AsStored d)"
    and "updated (\<lambda>x. Base.ID x = Base.ID doc) (\<lambda>_. Site_AsStored d) (Sites v) m' \<Longrightarrow>
      Sites v (Base.ID doc) = Some s0 \<Longrightarrow> Site.CompanyID s0 = co \<Longrightarrow> \<not> Base.Deleted s0 \<Longrightarrow>
      Site.CustomerCompanyID doc = Site.CustomerCompanyID s0 \<Longrightarrow> (goodSite s0 \<Longrightarrow> goodSite d) \<Longrightarrow>
      (\<And>j x. Sites v j = Some x \<Longrightarrow> Base.ID x = j) \<Longrightarrow>
      site_step co v (v\<lparr>Sites := m'\<rparr>) \<and> m' (Base.ID d) = Some (Site_AsStored d)"
proof -
  note d = stored_site [OF st]
  assume ins: "inserted Base.ID (\<lambda>i d. d\<lparr>Base.ID := i\<rparr>) (Site_AsStored d) i (Sites v) m'" "Base.ID doc \<noteq> NilObjectID"
    and "co \<noteq> []" "goodSite d"
  from ins have "Sites v (Base.ID doc) = None" "m' = (Sites v)(Base.ID doc \<mapsto> Site_AsStored d)"
    using d by (auto simp: inserted_def own_id)
  then show "site_step co v (v\<lparr>Sites := m'\<rparr>) \<and> m' (Base.ID d) = Some (Site_AsStored d)"
    using d co \<open>co \<noteq> []\<close> \<open>goodSite d\<close> by (auto intro: site_step.site_added)
next
  note d = stored_site [OF st]
  assume up: "updated (\<lambda>x. Base.ID x = Base.ID doc) (\<lambda>_. Site_AsStored d) (Sites v) m'"
    and old: "Sites v (Base.ID doc) = Some s0" "Site.CompanyID s0 = co" "\<not> Base.Deleted s0"
    and keep: "Site.CustomerCompanyID doc = Site.CustomerCompanyID s0" "goodSite s0 \<Longrightarrow> goodSite d"
    and key: "\<And>j x. Sites v j = Some x \<Longrightarrow> Base.ID x = j"
  have "m' = (Sites v)(Base.ID doc \<mapsto> Site_AsStored d)" using updated_by_id [OF up, of Base.ID] key by blast
  moreover have "site_step co v (v\<lparr>Sites := (Sites v)(Base.ID doc \<mapsto> Site_AsStored d)\<rparr>)"
    by (rule site_step.site_changed [OF old]) (use d co keep in auto)
  ultimately show "site_step co v (v\<lparr>Sites := m'\<rparr>) \<and> m' (Base.ID d) = Some (Site_AsStored d)" using d(1) by simp
qed

lemma good_stored_site:
  assumes "stored siteMethods doc d" "mirrorDefault doc = doc" "Site.Name doc \<noteq> []" "contactsOK (contacts doc)"
    "pred_option onMap (Site.Location doc)" "pred_option (\<lambda>r. 0 < r) (Site.GeofenceRadiusM doc)"
  shows "goodSite d"
  using stored_site [OF assms(1)] assms(2-) by (simp add: goodSite_def)

lemma mirror_ignores [simp]:
  "mirrorDefault (s\<lparr>Site.Notes := n\<rparr>) = (mirrorDefault s)\<lparr>Site.Notes := n\<rparr>"
  "mirrorDefault (s\<lparr>Site.CustomerCompanyID := c\<rparr>) = (mirrorDefault s)\<lparr>Site.CustomerCompanyID := c\<rparr>"
  "mirrorDefault (s\<lparr>Site.Location := l\<rparr>) = (mirrorDefault s)\<lparr>Site.Location := l\<rparr>"
  "mirrorDefault (s\<lparr>Site.GeofenceRadiusM := r\<rparr>) = (mirrorDefault s)\<lparr>Site.GeofenceRadiusM := r\<rparr>"
  "mirrorDefault (s\<lparr>Base.ID := i\<rparr>) = (mirrorDefault s)\<lparr>Base.ID := i\<rparr>"
  by (simp_all add: mirrorDefault_def Let_def)

lemma contacts_ignores [simp]:
  "contacts (s\<lparr>Site.Notes := n\<rparr>) = contacts s"
  "contacts (s\<lparr>Site.CustomerCompanyID := c\<rparr>) = contacts s"
  "contacts (s\<lparr>Site.Location := l\<rparr>) = contacts s" "contacts (s\<lparr>Site.GeofenceRadiusM := r\<rparr>) = contacts s"
  "contacts (s\<lparr>Base.ID := i\<rparr>) = contacts s" "contacts (describe inp s) = contacts s"
  "contacts (s\<lparr>Site.Name := nm, Site.SiteType := ty\<rparr>) = contacts s"
  by (simp_all add: contacts_def)

abbreviation recorded :: "string \<Rightarrow> Warehouse \<Rightarrow> (Site \<Rightarrow> bool) \<Rightarrow> MasterData \<Rightarrow> bool" where
  "recorded co w p v \<equiv> \<exists>s. Sites v (Base.ID s) = Some s \<and> w = toWarehouse D s \<and> Site.CompanyID s = co \<and>
     \<not> Base.Deleted s \<and> p s"

lemma recorded_stored:
  "Sites v (Base.ID s) = Some (Site_AsStored s) \<Longrightarrow> Site.CompanyID s = co \<Longrightarrow> \<not> Base.Deleted s \<Longrightarrow>
     p (Site_AsStored s) \<Longrightarrow> recorded co (toWarehouse D s) p v"
  by (intro exI [of _ "Site_AsStored s"]) simp

lemma CreateSite_triple:
  "triple (holds (smoved co v0)) (CreateSite D co inp)
     (\<lambda>w. holds (\<lambda>v. smoved co v0 v \<and> recorded co w (\<lambda>s. goodSite s \<and>
        Site.Name s = TrimSpace (SiteInput.Name inp) \<and>
        geoPoint (SiteInput.Latitude inp) (SiteInput.Longitude inp) = Inr (Site.Location s) \<and>
        Site.GeofenceRadiusM s = Some (case SiteInput.GeofenceRadiusM inp of None \<Rightarrow> DefaultGeofenceRadiusM | Some r \<Rightarrow> r) \<and>
        Site.CustomerCompanyID s = Option.bind (SiteInput.CustomerCompanyID inp) nilIfBlank) v))
     (holds (smoved co v0))"
  unfolding CreateSite_def Let_def
proof (intro bind_unless bind_ApplyPICs bind_lift bind_new_id)
  fix s :: Site and point radius and i :: ObjectID
  let ?name = "TrimSpace (SiteInput.Name inp)"
  let ?s0 = "describe inp ((newSite co)\<lparr>Site.Name := ?name, Site.SiteType := SiteInput.SiteType inp\<rparr>)"
  let ?doc = "s\<lparr>Site.Notes := setOptional (Site.Notes s) (SiteInput.Notes inp),
                Site.CustomerCompanyID := (case SiteInput.CustomerCompanyID inp of
                  None \<Rightarrow> Site.CustomerCompanyID s | Some c \<Rightarrow> nilIfBlank c)\<rparr>"
  let ?full = "?doc\<lparr>Site.Location := point, Site.GeofenceRadiusM := radius, Base.ID := i\<rparr>"
  let ?shown = "\<lambda>s. goodSite s \<and> Site.Name s = ?name \<and>
        geoPoint (SiteInput.Latitude inp) (SiteInput.Longitude inp) = Inr (Site.Location s) \<and>
        Site.GeofenceRadiusM s = Some (case SiteInput.GeofenceRadiusM inp of None \<Rightarrow> DefaultGeofenceRadiusM | Some r \<Rightarrow> r) \<and>
        Site.CustomerCompanyID s = Option.bind (SiteInput.CustomerCompanyID inp) nilIfBlank"
  let ?R = "\<lambda>s v. smoved co v0 v \<and> Sites v (Base.ID s) = Some (Site_AsStored s) \<and> Site.CompanyID s = co \<and> \<not> Base.Deleted s \<and> ?shown s"
  assume name: "?name \<noteq> []" and co: "co \<noteq> []" and i: "i \<noteq> NilObjectID"
    and s: "\<exists>p. s = mirrorDefault (?s0\<lparr>Site.PICs := p\<rparr>)" "contactsOK (contacts ?s0) \<Longrightarrow> contactsOK (contacts s)"
    and point: "geoPoint (SiteInput.Latitude inp) (SiteInput.Longitude inp) = Inr point"
    and radius: "radiusOf (Some DefaultGeofenceRadiusM) (SiteInput.GeofenceRadiusM inp) = Inr radius"
  have base: "Site.Name s = ?name" "Site.CompanyID s = co" "\<not> Base.Deleted s" "mirrorDefault s = s"
    "Site.CustomerCompanyID s = None"
    using s(1) by (auto simp: newSite_def mirrorDefault_idem)
  have c: "contactsOK (contacts s)" using s(2) by (simp add: contactsOK_def contacts_def newSite_def)
  have p: "pred_option onMap point" using geoPoint_onMap point by (cases point) auto
  have r: "pred_option (\<lambda>r. 0 < r) radius"
    by (rule radiusOf_positive [OF radius]) (simp add: DefaultGeofenceRadiusM_def)
  have r': "radius = Some (case SiteInput.GeofenceRadiusM inp of None \<Rightarrow> DefaultGeofenceRadiusM | Some r \<Rightarrow> r)"
    using radius by (auto simp: radiusOf_def split: option.splits if_splits)
  show "triple (holds (smoved co v0))
      (andThen (onErr (Create (env D) (sites D) ?full)
         (\<lambda>e. if e = RepoErrDuplicate then duplicateSiteName (Site.Name ?full) (Site.CustomerCompanyID ?full) else e))
       (\<lambda>s. ok (toWarehouse D s)))
      (\<lambda>w. holds (\<lambda>v. smoved co v0 v \<and> recorded co w ?shown v)) (holds (smoved co v0))"
  proof (rule triple_andThen [OF triple_onErr [OF sit.Create_triple [where R = ?R]]])
    fix v e j m'
    assume v: "smoved co v0 v" and st: "stored (methods (sites D)) ?full e"
      and ins: "inserted (IDOf (methods (sites D))) (\<lambda>i d. d\<lparr>Base.ID := i\<rparr>) (AsStored (methods (sites D)) e) j (Sites v) m'"
    note st = st [unfolded store_simps] and ins = ins [unfolded store_simps methods_simps]
    have "goodSite e" by (rule good_stored_site [OF st]) (use base name c p r in simp_all)
    moreover have e: "Base.ID e = i" "Site.CompanyID e = co" "\<not> Base.Deleted e" "Site.Name e = ?name"
      "Site.Location e = point" "Site.GeofenceRadiusM e = radius"
      "Site.CustomerCompanyID e = Option.bind (SiteInput.CustomerCompanyID inp) nilIfBlank"
      using stored_site [OF st] base by (simp_all split: option.split)
    ultimately have "site_step co v (v\<lparr>Sites := m'\<rparr>) \<and> m' (Base.ID e) = Some (Site_AsStored e)"
      by (intro site_written(1) [OF st _ _ ins]) (use i co base in simp_all)
    then show "?R e (v\<lparr>Sites := m'\<rparr>) \<and> smoved co v0 (v\<lparr>Sites := m'\<rparr>)"
      using v e \<open>goodSite e\<close> point r' by (auto intro: rtranclp.rtrancl_into_rtrancl)
  qed (auto intro!: ok_here recorded_stored)
qed auto

lemma UpdateSite_triple:
  "triple (holds (smoved co v0)) (UpdateSite D co ident inp)
     (\<lambda>w. holds (\<lambda>v. smoved co v0 v \<and> recorded co w (\<lambda>s.
        ObjectIDFromHex (env D) ident = Some (Base.ID s) \<and> settled_Site s \<and> mirrorDefault s = s \<and>
        (TrimSpace (SiteInput.Name inp) \<noteq> [] \<longrightarrow> Site.Name s = TrimSpace (SiteInput.Name inp)) \<and>
        (\<forall>a b. SiteInput.Latitude inp = Some a \<longrightarrow> SiteInput.Longitude inp = Some b \<longrightarrow>
           geoPoint (Some a) (Some b) = Inr (Site.Location s)) \<and>
        (\<forall>r. SiteInput.GeofenceRadiusM inp = Some r \<longrightarrow> Site.GeofenceRadiusM s = Some r)) v))
     (holds (smoved co v0))"
proof (cases "ObjectIDFromHex (env D) ident")
  case None
  then show ?thesis by (simp add: UpdateSite_def fail_triple)
next
  case (Some i)
  show ?thesis
    unfolding UpdateSite_def Some option.case Let_def store_simps
  proof (rule sit.bind_decodeOne [unfolded store_simps methods_simps], intro bind_ApplyPICs bind_lift)
    fix old s :: Site
    let ?name = "TrimSpace (SiteInput.Name inp)"
    let ?s0 = "describe inp (old\<lparr>Site.Name := (if ?name \<noteq> [] then ?name else Site.Name old),
          Site.SiteType := (if SiteInput.SiteType inp \<noteq> [] then SiteInput.SiteType inp else Site.SiteType old)\<rparr>)"
    let ?doc = "s\<lparr>Site.Notes := setOptional (Site.Notes s) (SiteInput.Notes inp)\<rparr>"
    let ?Q = "\<lambda>v. smoved co v0 v \<and> Sites v (Base.ID old) = Some old"
    let ?sent = "SiteInput.Latitude inp \<noteq> None \<or> SiteInput.Longitude inp \<noteq> None"
    let ?shown = "\<lambda>s. Some i = Some (Base.ID s) \<and> settled_Site s \<and> mirrorDefault s = s \<and>
        (?name \<noteq> [] \<longrightarrow> Site.Name s = ?name) \<and>
        (\<forall>a b. SiteInput.Latitude inp = Some a \<longrightarrow> SiteInput.Longitude inp = Some b \<longrightarrow>
           geoPoint (Some a) (Some b) = Inr (Site.Location s)) \<and>
        (\<forall>r. SiteInput.GeofenceRadiusM inp = Some r \<longrightarrow> Site.GeofenceRadiusM s = Some r)"
    let ?R = "\<lambda>s v. smoved co v0 v \<and> Sites v (Base.ID s) = Some (Site_AsStored s) \<and> Site.CompanyID s = co \<and> \<not> Base.Deleted s \<and> ?shown s"
    let ?place = "if ?sent then lift (geoPoint (SiteInput.Latitude inp) (SiteInput.Longitude inp))
        else ok (Site.Location ?doc) :: ('w, GeoPoint option) io"
    let ?placed = "\<lambda>p. if ?sent then geoPoint (SiteInput.Latitude inp) (SiteInput.Longitude inp) = Inr p else p = Site.Location ?doc"
    assume old: "scoped Site.CompanyID co i old"
      and s: "\<exists>p. s = mirrorDefault (?s0\<lparr>Site.PICs := p\<rparr>)" "contactsOK (contacts ?s0) \<Longrightarrow> contactsOK (contacts s)"
    have base: "Site.Name s = (if ?name \<noteq> [] then ?name else Site.Name old)" "Site.CompanyID s = co" "Base.ID s = i"
      "\<not> Base.Deleted s" "mirrorDefault s = s" "Site.CustomerCompanyID s = Site.CustomerCompanyID old"
      "Site.Location s = Site.Location old" "Site.GeofenceRadiusM s = Site.GeofenceRadiusM old"
      using s(1) old by (auto simp: scoped_def mirrorDefault_idem)
    have "triple (holds ?Q) (andThen (lift (radiusOf (Site.GeofenceRadiusM ?doc) (SiteInput.GeofenceRadiusM inp)))
        (\<lambda>radius. andThen (onErr (Update (env D) (sites D) i (?doc\<lparr>Site.Location := point, Site.GeofenceRadiusM := radius\<rparr>))
          (\<lambda>e. if e = RepoErrDuplicate then duplicateSiteName (Site.Name (?doc\<lparr>Site.Location := point, Site.GeofenceRadiusM := radius\<rparr>))
                 (Site.CustomerCompanyID (?doc\<lparr>Site.Location := point, Site.GeofenceRadiusM := radius\<rparr>)) else e))
          (\<lambda>s. ok (toWarehouse D s))))
        (\<lambda>w. holds (\<lambda>v. smoved co v0 v \<and> recorded co w ?shown v)) (holds (smoved co v0))"
      if place: "?placed point" for point
    proof (rule bind_lift, rule triple_andThen [OF triple_onErr [OF sit.Update_triple [where R = ?R]]])
      fix radius v e m'
      let ?full = "?doc\<lparr>Site.Location := point, Site.GeofenceRadiusM := radius\<rparr>"
      assume radius: "radiusOf (Site.GeofenceRadiusM ?doc) (SiteInput.GeofenceRadiusM inp) = Inr radius"
        and v: "?Q v" and key: "\<And>j x. Sites v j = Some x \<Longrightarrow> IDOf (methods (sites D)) x = j"
        and st: "stored (methods (sites D)) ?full e"
        and up: "updated (\<lambda>x. IDOf (methods (sites D)) x = i) (\<lambda>_. AsStored (methods (sites D)) e) (Sites v) m'"
      note st = st [unfolded store_simps] and up = up [unfolded store_simps methods_simps]
        and key = key [unfolded store_simps methods_simps]
      have good: "goodSite e" if g: "goodSite old"
      proof (rule good_stored_site [OF st])
        show "pred_option onMap (Site.Location ?full)"
          using place geoPoint_onMap g base(7) by (cases point) (auto simp: goodSite_def split: if_splits)
        show "pred_option (\<lambda>r. 0 < r) (Site.GeofenceRadiusM ?full)"
          using radiusOf_positive [OF radius] g base(8) by (simp add: goodSite_def)
      qed (use base s(2) g in \<open>simp_all add: goodSite_def\<close>)
      have e: "Base.ID e = i" "Site.CompanyID e = co" "\<not> Base.Deleted e"
        "Site.Name e = (if ?name \<noteq> [] then ?name else Site.Name old)"
        "Site.Location e = point" "Site.GeofenceRadiusM e = radius" "settled_Site e" "mirrorDefault e = e"
        using stored_site [OF st] base by simp_all
      have "site_step co v (v\<lparr>Sites := m'\<rparr>) \<and> m' (Base.ID e) = Some (Site_AsStored e)"
        by (rule site_written(2) [OF st _ _ _ _ _ _ _ good key, where ?s0.0 = old])
          (use up v base old in \<open>simp_all add: scoped_def\<close>)
      moreover have "SiteInput.GeofenceRadiusM inp = Some r \<Longrightarrow> radius = Some r" for r
        using radius by (auto simp: radiusOf_def split: if_splits)
      moreover have "SiteInput.Latitude inp = Some a \<Longrightarrow> SiteInput.Longitude inp = Some b \<Longrightarrow>
          geoPoint (Some a) (Some b) = Inr point" for a b
        using place by simp
      ultimately show "?R e (v\<lparr>Sites := m'\<rparr>) \<and> smoved co v0 (v\<lparr>Sites := m'\<rparr>)"
        using v e by (auto intro: rtranclp.rtrancl_into_rtrancl)
    qed (use base in \<open>auto intro!: ok_here recorded_stored\<close>)
    note rest = this
    show "triple (holds ?Q) (andThen ?place (\<lambda>point. andThen (lift (radiusOf (Site.GeofenceRadiusM ?doc) (SiteInput.GeofenceRadiusM inp)))
        (\<lambda>radius. andThen (onErr (Update (env D) (sites D) i (?doc\<lparr>Site.Location := point, Site.GeofenceRadiusM := radius\<rparr>))
          (\<lambda>e. if e = RepoErrDuplicate then duplicateSiteName (Site.Name (?doc\<lparr>Site.Location := point, Site.GeofenceRadiusM := radius\<rparr>))
                 (Site.CustomerCompanyID (?doc\<lparr>Site.Location := point, Site.GeofenceRadiusM := radius\<rparr>)) else e))
          (\<lambda>s. ok (toWarehouse D s)))))
        (\<lambda>w. holds (\<lambda>v. smoved co v0 v \<and> recorded co w ?shown v)) (holds (smoved co v0))"
    proof (cases ?sent)
      case True
      then show ?thesis unfolding if_P [OF True] by (intro bind_lift rest) auto
    next
      case False
      then show ?thesis unfolding if_not_P [OF False] by (simp only: andThen_ok, intro rest) simp
    qed
  qed auto
qed

lemma DeleteSite_triple:
  "triple (holds (smoved co v0)) (DeleteSite D co ident)
     (\<lambda>_. holds (\<lambda>v. smoved co v0 v \<and> (\<exists>i s. ObjectIDFromHex (env D) ident = Some i \<and> Sites v i = Some s \<and>
        Site.CompanyID s = co \<and> Base.Deleted s))) (holds (smoved co v0))"
proof (cases "ObjectIDFromHex (env D) ident")
  case None
  then show ?thesis by (simp add: DeleteSite_def fail_triple)
next
  case (Some i)
  let ?R = "\<lambda>n v. smoved co v0 v \<and> ((n :: int) \<noteq> 0 \<longrightarrow>
      (\<exists>s. Sites v i = Some s \<and> Site.CompanyID s = co \<and> Base.Deleted s))"
  show ?thesis
    unfolding DeleteSite_def Some option.case
  proof (rule bind_now, rule triple_andThen [OF sit.update_one_triple [where Q = ?R]])
    fix now v m'
    assume v: "smoved co v0 v" and key: "\<And>j x. Sites v j = Some x \<Longrightarrow> IDOf (methods (sites D)) x = j"
      and up: "updated (scoped Site.CompanyID co i) (markDeleted now) (Sites v) m'"
    obtain s where s: "Sites v i = Some s" "scoped Site.CompanyID co i s" "m' = (Sites v)(i \<mapsto> markDeleted now s)"
      using updated_by_id_fun [OF up, of Base.ID i] key by (auto simp: scoped_def)
    then have "site_step co v (v\<lparr>Sites := m'\<rparr>)" by (auto simp: scoped_def intro: site_step.site_retired)
    moreover have "Site.CompanyID (markDeleted now s) = co" using s(2) by (simp add: scoped_def markDeleted_def)
    ultimately show "?R 1 (v\<lparr>Sites := m'\<rparr>) \<and> smoved co v0 (v\<lparr>Sites := m'\<rparr>)"
      using v s by (auto intro: rtranclp.rtrancl_into_rtrancl)
  next
    fix n :: int
    show "triple (holds (?R n)) (if n = 0 then fail ErrNotFound else ok ())
       (\<lambda>_. holds (\<lambda>v. smoved co v0 v \<and> (\<exists>i' s. Some i = Some i' \<and> Sites v i' = Some s \<and>
        Site.CompanyID s = co \<and> Base.Deleted s))) (holds (smoved co v0))"
      by (auto intro!: fail_triple ok_triple)
  qed auto
qed

end

end
