(* ===== verification/RegistryVehicles.thy ===== *)
theory RegistryVehicles
  imports RegistryDrivers
begin

text \<open>
  The vehicles of \<^verbatim>\<open>internal/services/registry.go\<close>: listing and resolving,
  \<^verbatim>\<open>CreateVehicle\<close>, \<^verbatim>\<open>UpdateVehicle\<close>, \<^verbatim>\<open>setDriver\<close> with
  \<^verbatim>\<open>unpairDriverElsewhere\<close>, \<^verbatim>\<open>checkGroup\<close> and
  \<^verbatim>\<open>DeleteVehicle\<close>, each with the steps of the register it takes.
\<close>

section \<open>Inputs and views\<close>

definition newVehicle :: "string \<Rightarrow> Vehicle" where
  "newVehicle companyID =
     \<lparr>Base.ID = NilObjectID, CreatedAt = zeroTime, UpdatedAt = zeroTime, Deleted = False,
      Vehicle.CompanyID = companyID, LicensePlate = [], PlateNormalised = [], ChassisNumber = None,
      ChassisNormalised = None, EngineNumber = None, UnitType = [], TruckHeadID = None,
      TruckBodyID = None, BrandID = None, TruckGroupID = None, UnitYear = None, Color = None,
      TrackerID = None, CurrentDriverID = None, CurrentDriverUserID = None, Status = [],
      IsAvailable = True, OdometerKm = None, HourmeterHours = None, FuelTankLiters = None,
      FuelRatioKmpl = None, Notes = None, Attributes = None\<rparr>"

record VehicleInput =
  LicensePlate :: "string option"
  ChassisNumber :: "string option"
  EngineNumber :: "string option"
  UnitType :: "string option"
  TruckHeadID :: "string option"
  TruckBodyID :: "string option"
  BrandID :: "string option"
  TruckGroupID :: "string option"
  UnitYear :: "int option"
  Color :: "string option"
  Status :: "string option"
  IsAvailable :: "bool option"
  OdometerKm :: "rat option"
  HourmeterHours :: "rat option"
  FuelTankLiters :: "rat option"
  FuelRatioKmpl :: "rat option"
  CurrentDriverID :: "string option"
  Notes :: "string option"
  Attributes :: "Attrs option"

definition noVehicleInput :: VehicleInput where
  "noVehicleInput = \<lparr>VehicleInput.LicensePlate = None, ChassisNumber = None, EngineNumber = None,
     UnitType = None, TruckHeadID = None, TruckBodyID = None, BrandID = None, TruckGroupID = None,
     UnitYear = None, Color = None, Status = None, IsAvailable = None, OdometerKm = None,
     HourmeterHours = None, FuelTankLiters = None, FuelRatioKmpl = None, CurrentDriverID = None,
     Notes = None, Attributes = None\<rparr>"

text \<open>A number sent replaces the stored one; there is no way to clear it.\<close>

definition num :: "'a option \<Rightarrow> 'a option \<Rightarrow> 'a option" where
  "num dst src = (case src of None \<Rightarrow> dst | Some x \<Rightarrow> Some x)"

definition unitTypeOf :: "string option \<Rightarrow> UnitType \<Rightarrow> error + UnitType" where
  "unitTypeOf inp old =
     (case inp of None \<Rightarrow> Inr old
      | Some s \<Rightarrow>
          (let ut = ToLower (TrimSpace s)
           in if ut \<in> {UnitRigid, UnitHead, UnitBody} then Inr ut
              else Inl (ErrValidation ''unitType must be rigid, head or body'')))"

definition applyVehicle :: "VehicleInput \<Rightarrow> Vehicle \<Rightarrow> error + Vehicle" where
  "applyVehicle inp v =
     (case unitTypeOf (VehicleInput.UnitType inp) (Vehicle.UnitType v) of
        Inl e \<Rightarrow> Inl e
      | Inr ut \<Rightarrow>
          Inr (v\<lparr>Vehicle.LicensePlate := (case VehicleInput.LicensePlate inp of
                     None \<Rightarrow> Vehicle.LicensePlate v | Some s \<Rightarrow> TrimSpace s),
                 Vehicle.ChassisNumber := str (Vehicle.ChassisNumber v) (VehicleInput.ChassisNumber inp),
                 Vehicle.EngineNumber := str (Vehicle.EngineNumber v) (VehicleInput.EngineNumber inp),
                 Vehicle.TruckHeadID := str (Vehicle.TruckHeadID v) (VehicleInput.TruckHeadID inp),
                 Vehicle.TruckBodyID := str (Vehicle.TruckBodyID v) (VehicleInput.TruckBodyID inp),
                 Vehicle.BrandID := str (Vehicle.BrandID v) (VehicleInput.BrandID inp),
                 Vehicle.TruckGroupID := str (Vehicle.TruckGroupID v) (VehicleInput.TruckGroupID inp),
                 Vehicle.Color := str (Vehicle.Color v) (VehicleInput.Color inp),
                 Vehicle.Notes := str (Vehicle.Notes v) (VehicleInput.Notes inp),
                 Vehicle.UnitType := ut,
                 Vehicle.UnitYear := (case VehicleInput.UnitYear inp of
                     None \<Rightarrow> Vehicle.UnitYear v | Some y \<Rightarrow> if y = 0 then None else Some y),
                 Vehicle.Status := (case VehicleInput.Status inp of
                     None \<Rightarrow> Vehicle.Status v | Some s \<Rightarrow> ToLower (TrimSpace s)),
                 Vehicle.IsAvailable := (case VehicleInput.IsAvailable inp of
                     None \<Rightarrow> Vehicle.IsAvailable v | Some b \<Rightarrow> b),
                 Vehicle.OdometerKm := num (Vehicle.OdometerKm v) (VehicleInput.OdometerKm inp),
                 Vehicle.HourmeterHours := num (Vehicle.HourmeterHours v) (VehicleInput.HourmeterHours inp),
                 Vehicle.FuelTankLiters := num (Vehicle.FuelTankLiters v) (VehicleInput.FuelTankLiters inp),
                 Vehicle.FuelRatioKmpl := num (Vehicle.FuelRatioKmpl v) (VehicleInput.FuelRatioKmpl inp),
                 Vehicle.Attributes := mergeAttributes (Vehicle.Attributes v) (VehicleInput.Attributes inp)\<rparr>))"

record TrackerRef =
  ID :: string
  Kind :: string
  DeviceID :: string

record DriverRef =
  ID :: string
  FullName :: string
  Phone :: "string option"

record VehicleView = Vehicle +
  Tracker :: "TrackerRef option"
  Driver :: "DriverRef option"

section \<open>Reads\<close>

definition findVehicle :: "'w Database \<Rightarrow> string \<Rightarrow> string \<Rightarrow> ('w, Vehicle) io" where
  "findVehicle D companyID ident =
     andThen (lift (oid D ident)) (\<lambda>o'.
     decodeOne (col (vehicles D)) (scoped Vehicle.CompanyID companyID o'))"

definition hexIDs :: "'w Database \<Rightarrow> string option list \<Rightarrow> ObjectID list" where
  "hexIDs D refs =
     concat (map (\<lambda>r. case r of None \<Rightarrow> [] | Some h \<Rightarrow>
       (case ObjectIDFromHex (env D) h of None \<Rightarrow> [] | Some o' \<Rightarrow> [o'])) refs)"

text \<open>The rows with the given ids, none when the query fails, which the view does without.\<close>

definition lookupRows ::
  "('w, 'a Base_scheme) Collection \<Rightarrow> ObjectID list \<Rightarrow> ('w, 'a Base_scheme list) io" where
  "lookupRows c ids =
     (if ids = [] then ok []
      else andThen (attempt (Find c (\<lambda>d. Base.ID d \<in> set ids) None)) (\<lambda>r.
           ok (case r of Inl e \<Rightarrow> [] | Inr rows \<Rightarrow> rows)))"

definition resolveVehicles :: "'w Database \<Rightarrow> Vehicle list \<Rightarrow> ('w, VehicleView list) io" where
  "resolveVehicles D vs =
     andThen (lookupRows (col (trackers D)) (hexIDs D (map Vehicle.TrackerID vs))) (\<lambda>trows.
     let trackers' = lastWins (map (\<lambda>t. (Hex (env D) (Base.ID t),
           \<lparr>TrackerRef.ID = Hex (env D) (Base.ID t), Kind = Tracker.Kind t, DeviceID = Tracker.DeviceID t\<rparr>)) trows) in
     andThen (lookupRows (col (drivers D)) (hexIDs D (map Vehicle.CurrentDriverID vs))) (\<lambda>drows.
     let drivers' = lastWins (map (\<lambda>d. (Hex (env D) (Base.ID d),
           \<lparr>DriverRef.ID = Hex (env D) (Base.ID d), FullName = Driver.FullName d, Phone = Driver.Phone d\<rparr>)) drows) in
     ok (map (\<lambda>v. Vehicle.extend v
           (VehicleView.fields (Option.bind (Vehicle.TrackerID v) trackers')
              (Option.bind (Vehicle.CurrentDriverID v) drivers'))) vs)))"

definition ListVehicles ::
  "'w Database \<Rightarrow> string \<Rightarrow> Params \<Rightarrow> string \<Rightarrow> bool option \<Rightarrow> string \<Rightarrow> ('w, VehicleView list \<times> int) io" where
  "ListVehicles D companyID p status available groupID =
     andThen (page (col (vehicles D))
       (\<lambda>x. Vehicle.CompanyID x = companyID \<and> \<not> Base.Deleted x \<and>
            (status \<noteq> [] \<longrightarrow> Vehicle.Status x = status) \<and>
            (case available of None \<Rightarrow> True | Some b \<Rightarrow> Vehicle.IsAvailable x = b) \<and>
            (groupID \<noteq> [] \<longrightarrow> Vehicle.TruckGroupID x = Some groupID) \<and>
            (Search p \<noteq> [] \<longrightarrow>
               MatchRegex (env D) [] (CHR ''^'' # escapeRegex (Plate (Search p))) (PlateNormalised x) \<or>
               matchOptional (MatchRegex (env D) [] (CHR ''^'' # escapeRegex (Serial (Search p)))) (ChassisNormalised x)))
       p) (\<lambda>(vs, n).
     andThen (resolveVehicles D vs) (\<lambda>views. ok (views, n)))"

definition GetVehicle :: "'w Database \<Rightarrow> string \<Rightarrow> string \<Rightarrow> ('w, VehicleView) io" where
  "GetVehicle D companyID ident =
     andThen (findVehicle D companyID ident) (\<lambda>v.
     andThen (resolveVehicles D [v]) (\<lambda>views. ok (hd views)))"

section \<open>Writes\<close>

text \<open>The ids of the vehicles another pairing was cleared from, for their notices.\<close>

definition unpairDriverElsewhere ::
  "'w Database \<Rightarrow> string \<Rightarrow> string \<Rightarrow> ObjectID \<Rightarrow> ('w, string list) io" where
  "unpairDriverElsewhere D companyID driverID except =
     (let filt = (\<lambda>x. Vehicle.CompanyID x = companyID \<and> Vehicle.CurrentDriverID x = Some driverID \<and>
            Base.ID x \<noteq> except)
      in andThen (Find (col (vehicles D)) filt None) (\<lambda>found.
         if found = [] then ok []
         else andThen (call (Now (env D))) (\<lambda>now.
              andThen (UpdateMany (col (vehicles D)) filt (clearDriver now)) (\<lambda>_.
              ok (map (\<lambda>r. Hex (env D) (Base.ID r)) found)))))"

definition setDriver ::
  "'w Database \<Rightarrow> string \<Rightarrow> Vehicle \<Rightarrow> string option \<Rightarrow> ('w, Vehicle) io" where
  "setDriver D companyID v driverID =
     (case driverID of
        None \<Rightarrow> ok v
      | Some ident \<Rightarrow>
          if TrimSpace ident = []
          then ok (v\<lparr>Vehicle.CurrentDriverID := None, CurrentDriverUserID := None\<rparr>)
          else
            andThen (onErr (GetDriver D companyID ident)
              (\<lambda>e. if e = ErrNotFound then ErrValidation ''no such driver'' else e)) (\<lambda>d.
            andThen (unless (Driver.Status d = ''active'') (ErrValidation ''that driver is inactive'')) (\<lambda>_.
            let hex = Hex (env D) (Base.ID d)
            in if Vehicle.CurrentDriverID v = Some hex then ok v
               else
                 andThen (unpairDriverElsewhere D companyID hex (Base.ID v)) (\<lambda>others.
                 andThen (forEach others (\<lambda>i. announce D ''vehicle'' companyID i ''update'')) (\<lambda>_.
                 ok (v\<lparr>Vehicle.CurrentDriverID := Some hex, CurrentDriverUserID := Driver.UserID d\<rparr>))))))"

definition checkGroup :: "'w Database \<Rightarrow> string \<Rightarrow> string option \<Rightarrow> ('w, unit) io" where
  "checkGroup D companyID groupID =
     (case groupID of
        None \<Rightarrow> ok ()
      | Some g \<Rightarrow>
          if g = [] then ok ()
          else (case ObjectIDFromHex (env D) g of
                  None \<Rightarrow> fail (ErrValidation ''truckGroupId is not a valid id'')
                | Some o' \<Rightarrow>
                    andThen (CountDocuments (groups D) (scoped VehicleGroup.CompanyID companyID o')) (\<lambda>n.
                    unless (n \<noteq> 0) (ErrValidation ''no such vehicle group''))))"

definition vehicleClash :: string where
  "vehicleClash = ''a vehicle with that plate or chassis number already exists''"

definition CreateVehicle :: "'w Database \<Rightarrow> string \<Rightarrow> VehicleInput \<Rightarrow> ('w, VehicleView) io" where
  "CreateVehicle D companyID inp =
     andThen (lift (applyVehicle inp (newVehicle companyID))) (\<lambda>v.
     andThen (checkGroup D companyID (Vehicle.TruckGroupID v)) (\<lambda>_.
     andThen (setDriver D companyID v (VehicleInput.CurrentDriverID inp)) (\<lambda>v.
     andThen (call (NewObjectID (env D))) (\<lambda>i.
     let v = v\<lparr>Base.ID := i\<rparr> in
     andThen (onErr (Create (env D) (vehicles D) v) (\<lambda>e. dup vehicleClash (validation e))) (\<lambda>v.
     andThen (announce D ''vehicle'' companyID (Hex (env D) (Base.ID v)) ''create'') (\<lambda>_.
     GetVehicle D companyID (Hex (env D) (Base.ID v))))))))"

definition UpdateVehicle ::
  "'w Database \<Rightarrow> string \<Rightarrow> string \<Rightarrow> VehicleInput \<Rightarrow> ('w, VehicleView) io" where
  "UpdateVehicle D companyID ident inp =
     andThen (findVehicle D companyID ident) (\<lambda>v.
     andThen (lift (applyVehicle inp v)) (\<lambda>v.
     andThen (checkGroup D companyID (Vehicle.TruckGroupID v)) (\<lambda>_.
     andThen (setDriver D companyID v (VehicleInput.CurrentDriverID inp)) (\<lambda>v.
     andThen (onErr (Update (env D) (vehicles D) (Base.ID v) v) (\<lambda>e. dup vehicleClash (validation e))) (\<lambda>_.
     andThen (announce D ''vehicle'' companyID ident ''update'') (\<lambda>_.
     GetVehicle D companyID ident))))))"

definition DeleteVehicle :: "'w Database \<Rightarrow> string \<Rightarrow> string \<Rightarrow> ('w, unit) io" where
  "DeleteVehicle D companyID ident =
     andThen (findVehicle D companyID ident) (\<lambda>v.
     andThen (CountDocuments (assignments D)
       (\<lambda>a. TrackerAssignment.VehicleID a = ident \<and> UnfittedAt a = None)) (\<lambda>opened.
     andThen (unless (\<not> (opened > 0 \<or> Vehicle.TrackerID v \<noteq> None))
       (ErrConflict ''a device is still fitted to this vehicle; unfit it first'')) (\<lambda>_.
     andThen (SoftDelete (env D) (vehicles D) companyID (Base.ID v)) (\<lambda>_.
     andThen (attempt (DeleteMany (members D)
       (\<lambda>m. VehicleGroupMember.CompanyID m = companyID \<and> VehicleGroupMember.VehicleID m = ident))) (\<lambda>r.
     andThen (announce D ''vehicle'' companyID ident ''delete'') (\<lambda>_.
     case r of Inl e \<Rightarrow> fail e | Inr n \<Rightarrow> ok ()))))))"

section \<open>What the operations do\<close>

lemma Vehicle_view: "Vehicle.truncate (Vehicle.extend x f) = x" for x :: Vehicle
  by (cases x) (simp add: Vehicle.defs)

lemma applyVehicle_keeps:
  "applyVehicle inp x = Inr x' \<Longrightarrow>
     Base.ID x' = Base.ID x \<and> Base.Deleted x' = Base.Deleted x \<and> Vehicle.CompanyID x' = Vehicle.CompanyID x \<and>
     Vehicle.TrackerID x' = Vehicle.TrackerID x \<and> Vehicle.CurrentDriverID x' = Vehicle.CurrentDriverID x"
  by (auto simp: applyVehicle_def split: sum.splits)

lemma settled_Vehicle_Stamp [simp]:
  "settled_Vehicle (Stamp now cr x) = settled_Vehicle x" "Vehicle_Validate (Stamp now cr x) = Vehicle_Validate x"
  by (simp_all add: settled_Vehicle_def Vehicle_Validate_def Stamp_def)

lemma goodVehicle_AsStored [simp]: "goodVehicle (Vehicle_AsStored x) = goodVehicle x"
  by (simp add: goodVehicle_def)

lemma stored_vehicle:
  assumes "stored vehicleMethods doc x"
  shows "goodVehicle x \<and> Base.ID x = Base.ID doc \<and> Base.Deleted x = Base.Deleted doc \<and>
    Vehicle.CompanyID x = Vehicle.CompanyID doc \<and> Vehicle.TrackerID x = Vehicle.TrackerID doc \<and>
    Vehicle.CurrentDriverID x = Vehicle.CurrentDriverID doc"
  using assms by (auto simp: stored_def goodVehicle_def settled_Vehicle_BeforeWrite)

context database
begin

lemma lookupRows_triple:
  "triple (holds Q) (lookupRows (col (trackers D)) ids) (\<lambda>_. holds Q) (holds E)"
  "triple (holds Q) (lookupRows (col (drivers D)) ids) (\<lambda>_. holds Q) (holds E)"
proof -
  have "triple (holds Q) (lookupRows c ids) (\<lambda>_. holds Q) (holds E)"
    if "\<And>(k :: _ \<Rightarrow> ('w, 'c Base_scheme list) io) p. (\<And>r. triple (holds Q) (k r) (\<lambda>_. holds Q) (holds E)) \<Longrightarrow>
      triple (holds Q) (andThen (attempt (Find c p None)) k) (\<lambda>_. holds Q) (holds E)"
    for c :: "('w, 'c Base_scheme) Collection"
    unfolding lookupRows_def by (cases "ids = []") (simp_all add: that ok_triple)
  from this [OF trk.bind_attempt_find] this [OF drv.bind_attempt_find]
  show "triple (holds Q) (lookupRows (col (trackers D)) ids) (\<lambda>_. holds Q) (holds E)"
    "triple (holds Q) (lookupRows (col (drivers D)) ids) (\<lambda>_. holds Q) (holds E)"
    by simp_all
qed

lemma bind_resolveVehicles:
  assumes "\<And>views. map Vehicle.truncate views = xs \<Longrightarrow> triple (holds Q) (k views) R (holds E)"
  shows "triple (holds Q) (andThen (resolveVehicles D xs) k) R (holds E)"
  unfolding resolveVehicles_def andThen_assoc Let_def andThen_ok
  by (rule triple_andThen [OF lookupRows_triple(1)], rule triple_andThen [OF lookupRows_triple(2)],
      rule assms) (simp add: comp_def Vehicle_view)

lemma bind_findVehicle:
  assumes "\<And>x. ObjectIDFromHex (env D) (TrimSpace ident) = Some (Base.ID x) \<Longrightarrow>
      Vehicle.CompanyID x = co \<Longrightarrow> \<not> Base.Deleted x \<Longrightarrow>
      triple (holds (\<lambda>v. Q v \<and> Vehicles v (Base.ID x) = Some x)) (k x) R (holds E)"
    and "\<And>v. Q v \<Longrightarrow> E v"
  shows "triple (holds Q) (andThen (findVehicle D co ident) k) R (holds E)"
  unfolding findVehicle_def andThen_assoc
proof (rule bind_lift)
  fix i assume i: "oid D ident = Inr i"
  show "triple (holds Q) (andThen (decodeOne (col (vehicles D)) (scoped Vehicle.CompanyID co i)) k) R (holds E)"
    by (rule veh.bind_decodeOne) (use i assms in \<open>auto simp: scoped_def oid_Inr\<close>)
qed (rule assms(2))

lemma GetVehicle_triple:
  "(\<And>v. Q v \<Longrightarrow> E v) \<Longrightarrow>
   triple (holds Q) (GetVehicle D co ident)
     (\<lambda>x. holds (\<lambda>v. Q v \<and> Vehicles v (Base.ID x) = Some (Vehicle.truncate x) \<and>
        ObjectIDFromHex (env D) (TrimSpace ident) = Some (Base.ID x) \<and>
        Vehicle.CompanyID x = co \<and> \<not> Base.Deleted x)) (holds E)"
  unfolding GetVehicle_def
proof (intro bind_findVehicle bind_resolveVehicles)
  fix x views assume x: "ObjectIDFromHex (env D) (TrimSpace ident) = Some (Base.ID x)"
    "Vehicle.CompanyID x = co" "\<not> Base.Deleted x" and "map Vehicle.truncate views = [x]"
  then obtain y where y: "views = [y]" "Vehicle.truncate y = x" by (cases views) auto
  then have "Base.ID y = Base.ID x" "Vehicle.CompanyID y = Vehicle.CompanyID x" "Base.Deleted y = Base.Deleted x"
    by (auto simp: Vehicle.truncate_def)
  then show "triple (holds (\<lambda>v. Q v \<and> Vehicles v (Base.ID x) = Some x)) (ok (hd views))
      (\<lambda>x. holds (\<lambda>v. Q v \<and> Vehicles v (Base.ID x) = Some (Vehicle.truncate x) \<and>
        ObjectIDFromHex (env D) (TrimSpace ident) = Some (Base.ID x) \<and>
        Vehicle.CompanyID x = co \<and> \<not> Base.Deleted x)) (holds E)"
    using x y by (auto intro!: ok_here)
qed auto

lemma bind_checkGroup:
  assumes "triple (holds Q) (k ()) R (holds E)" and "\<And>v. Q v \<Longrightarrow> E v"
  shows "triple (holds Q) (andThen (checkGroup D co g) k) R (holds E)"
proof (cases "g = None \<or> g = Some []")
  case True
  then show ?thesis using assms by (auto simp: checkGroup_def)
next
  case False
  then obtain h where h: "g = Some h" "h \<noteq> []" by auto
  show ?thesis
  proof (cases "ObjectIDFromHex (env D) h")
    case None
    then show ?thesis using h assms(2) by (simp add: checkGroup_def fail_triple)
  next
    case (Some i)
    have "triple (holds Q) (andThen (CountDocuments (groups D) (scoped VehicleGroup.CompanyID co i))
        (\<lambda>n. andThen (unless (n \<noteq> 0) (ErrValidation ''no such vehicle group'')) k)) R (holds E)"
      by (rule grp.bind_count, rule bind_unless) (auto intro: weaken [OF assms(1)] assms(2))
    then show ?thesis using h Some by (simp add: checkGroup_def andThen_assoc)
  qed
qed

text \<open>
  \<open>setDriver\<close> leaves the vehicle's driver as it was, or no vehicle of the company but this one
  holds the new driver; on the way it may only have unpaired other vehicles.
\<close>

definition samePairing :: "Vehicle \<Rightarrow> Vehicle \<Rightarrow> bool" where
  "samePairing x x' \<longleftrightarrow>
     (\<exists>d u. x' = x\<lparr>Vehicle.CurrentDriverID := d, CurrentDriverUserID := u\<rparr>)"

lemma unclaimedI:
  assumes "\<And>j y. Vehicles v j = Some y \<Longrightarrow> Base.ID y = j"
    and "\<And>j y. Vehicles v j = Some y \<Longrightarrow> Vehicle.CompanyID y = co \<Longrightarrow> Base.ID y \<noteq> i \<Longrightarrow>
           Vehicle.CurrentDriverID y \<noteq> drv"
  shows "unclaimed v co i drv"
  unfolding unclaimed_def using assms by blast

lemma unclaimed_after:
  assumes key: "\<And>j y. Vehicles v j = Some y \<Longrightarrow> Base.ID y = j"
  shows "unclaimed (v\<lparr>Vehicles := modify UNIV (\<lambda>x. Vehicle.CompanyID x = co \<and>
      Vehicle.CurrentDriverID x = Some hex \<and> Base.ID x \<noteq> i) (clearDriver now) (Vehicles v)\<rparr>) co i (Some hex)"
  (is "unclaimed ?v' _ _ _")
proof (rule unclaimedI)
  fix j y assume "Vehicles ?v' j = Some y"
  then obtain y0 where y0: "Vehicles v j = Some y0"
    and y: "y = (if Vehicle.CompanyID y0 = co \<and> Vehicle.CurrentDriverID y0 = Some hex \<and> Base.ID y0 \<noteq> i
                 then clearDriver now y0 else y0)"
    by (auto simp: modify_Some)
  show "Base.ID y = j" using key [OF y0] y by simp
  show "Vehicle.CurrentDriverID y \<noteq> Some hex" if "Vehicle.CompanyID y = co" "Base.ID y \<noteq> i"
    using y that by (auto split: if_splits)
qed

lemma bind_unpair:
  assumes k: "\<And>ids. triple (holds (\<lambda>v. Q v \<and> unclaimed v co i (Some hex))) (k ids) R (holds E)"
    and step: "\<And>v p S now. Q v \<Longrightarrow> (\<And>y. p y \<Longrightarrow> Vehicle.CompanyID y = co \<and> Base.ID y \<noteq> i) \<Longrightarrow>
        Q (v\<lparr>Vehicles := modify S p (clearDriver now) (Vehicles v)\<rparr>)"
    and "\<And>v. Q v \<Longrightarrow> E v"
  shows "triple (holds Q) (andThen (unpairDriverElsewhere D co hex i) k) R (holds E)"
proof -
  let ?p = "\<lambda>x. Vehicle.CompanyID x = co \<and> Vehicle.CurrentDriverID x = Some hex \<and> Base.ID x \<noteq> i"
  show ?thesis
    unfolding unpairDriverElsewhere_def Let_def andThen_assoc
  proof (rule veh.with_keys, rule veh.bind_find)
    fix ds :: "Vehicle list"
    let ?K = "\<lambda>v. Q v \<and> (\<forall>j y. Vehicles v j = Some y \<longrightarrow> Base.ID y = j)"
    have none: "triple (holds (\<lambda>v. ?K v \<and> found Base.ID ?p None (Vehicles v) [])) (k []) R (holds E)"
      by (rule weaken [OF k]) (auto simp: found_def matching_def intro!: unclaimedI)
    have some: "triple (holds ?K)
        (andThen (call (Now (env D))) (\<lambda>now. andThen (UpdateMany (col (vehicles D)) ?p (clearDriver now))
           (\<lambda>_. k (map (\<lambda>r. Hex (env D) (Base.ID r)) ds)))) R (holds E)"
    proof (rule bind_now, rule veh.bind_many [OF _ _ _ k])
      fix v now assume v: "?K v"
      have "Q (v\<lparr>Vehicles := modify UNIV ?p (clearDriver now) (Vehicles v)\<rparr>)"
        using step [of v ?p] v by blast
      moreover have "unclaimed (v\<lparr>Vehicles := modify UNIV ?p (clearDriver now) (Vehicles v)\<rparr>) co i (Some hex)"
        by (rule unclaimed_after) (use v in blast)
      ultimately show "Q (v\<lparr>Vehicles := modify UNIV ?p (clearDriver now) (Vehicles v)\<rparr>) \<and>
          unclaimed (v\<lparr>Vehicles := modify UNIV ?p (clearDriver now) (Vehicles v)\<rparr>) co i (Some hex)"
        by blast
    next
      fix v S now assume "?K v"
      then show "E (v\<lparr>Vehicles := modify S ?p (clearDriver now) (Vehicles v)\<rparr>)"
        using step [of v ?p S now] assms(3) by blast
    qed simp
    show "triple (holds (\<lambda>v. (Q v \<and> (\<forall>j y. Vehicles v j = Some y \<longrightarrow>
              IDOf (methods (vehicles D)) y = j \<and> j \<noteq> NilObjectID) \<and>
            finite (dom (Vehicles v)) \<and> indexed vehicle_indexes (Vehicles v)) \<and>
          found (IDOf (methods (vehicles D))) ?p None (Vehicles v) ds))
        (andThen (if ds = [] then ok [] else andThen (call (Now (env D))) (\<lambda>now.
           andThen (UpdateMany (col (vehicles D)) ?p (clearDriver now)) (\<lambda>_.
           ok (map (\<lambda>r. Hex (env D) (Base.ID r)) ds)))) k) R (holds E)"
    proof (cases "ds = []")
      case True
      then show ?thesis by (simp only: simp_thms if_True andThen_ok) (rule weaken [OF none], simp)
    next
      case False
      then show ?thesis by (simp only: if_False andThen_assoc andThen_ok) (rule weaken [OF some], simp)
    qed
  qed (use assms(3) in blast)
qed

lemma GetDriver_keeps:
  assumes "\<And>v. Q v \<Longrightarrow> E v"
  shows "triple (holds Q) (GetDriver D co ident) (\<lambda>_. holds Q) (holds E)"
proof -
  have "triple (holds Q) (andThen (GetDriver D co ident) ok) (\<lambda>_. holds Q) (holds E)"
    by (rule bind_GetDriver) (auto intro: ok_triple assms)
  then show ?thesis by (simp only: andThen_id)
qed

lemma bind_announce_all:
  assumes "triple (holds Q) (k ()) R (holds E)"
  shows "triple (holds Q) (andThen (forEach ids (\<lambda>i. announce D kd co i op)) k) R (holds E)"
  by (induction ids) (auto simp: andThen_assoc intro: bind_announce assms)

lemma bind_setDriver:
  assumes k: "\<And>x'. samePairing x x' \<Longrightarrow>
      triple (holds (\<lambda>v. Q v \<and> (Vehicle.CurrentDriverID x' \<noteq> Vehicle.CurrentDriverID x \<longrightarrow>
        unclaimed v co (Base.ID x) (Vehicle.CurrentDriverID x')))) (k x') R (holds E)"
    and step: "\<And>v p S now. Q v \<Longrightarrow> (\<And>y. p y \<Longrightarrow> Vehicle.CompanyID y = co \<and> Base.ID y \<noteq> Base.ID x) \<Longrightarrow>
        Q (v\<lparr>Vehicles := modify S p (clearDriver now) (Vehicles v)\<rparr>)"
    and E: "\<And>v. Q v \<Longrightarrow> E v"
  shows "triple (holds Q) (andThen (setDriver D co x drv) k) R (holds E)"
proof -
  have same: "triple (holds Q) (k x) R (holds E)"
  proof (rule weaken [OF k])
    have "x = x\<lparr>Vehicle.CurrentDriverID := Vehicle.CurrentDriverID x, CurrentDriverUserID := CurrentDriverUserID x\<rparr>"
      by (cases x) simp
    then show "samePairing x x" unfolding samePairing_def by blast
  qed simp
  consider "drv = None" | s where "drv = Some s" "TrimSpace s = []" | s where "drv = Some s" "TrimSpace s \<noteq> []"
    by (cases drv) auto
  then show ?thesis
  proof cases
    case 1
    then show ?thesis using same by (simp add: setDriver_def)
  next
    case 2
    have "triple (holds Q) (k (x\<lparr>Vehicle.CurrentDriverID := None, CurrentDriverUserID := None\<rparr>)) R (holds E)"
      by (rule weaken [OF k]) (auto simp: samePairing_def unclaimed_def)
    then show ?thesis using 2 by (simp add: setDriver_def)
  next
    case 3
    let ?hex = "\<lambda>d. Hex (env D) (Base.ID (d::Driver))"
    have others: "triple (holds Q)
        (andThen (unpairDriverElsewhere D co (?hex d) (Base.ID x)) (\<lambda>others.
         andThen (forEach others (\<lambda>i. announce D ''vehicle'' co i ''update'')) (\<lambda>_.
         k (x\<lparr>Vehicle.CurrentDriverID := Some (?hex d), CurrentDriverUserID := Driver.UserID d\<rparr>)))) R (holds E)" for d
    proof (rule bind_unpair, rule bind_announce_all)
      show "triple (holds (\<lambda>v. Q v \<and> unclaimed v co (Base.ID x) (Some (?hex d))))
          (k (x\<lparr>Vehicle.CurrentDriverID := Some (?hex d), CurrentDriverUserID := Driver.UserID d\<rparr>)) R (holds E)"
        by (rule weaken [OF k]) (auto simp: samePairing_def)
    qed (use step E in blast)+
    have "triple (holds Q)
        (andThen (onErr (GetDriver D co s) (\<lambda>e. if e = ErrNotFound then ErrValidation ''no such driver'' else e)) (\<lambda>d.
         andThen (unless (Driver.Status d = ''active'') (ErrValidation ''that driver is inactive'')) (\<lambda>_.
         andThen (if Vehicle.CurrentDriverID x = Some (?hex d) then ok x
                  else andThen (unpairDriverElsewhere D co (?hex d) (Base.ID x)) (\<lambda>others.
                       andThen (forEach others (\<lambda>i. announce D ''vehicle'' co i ''update'')) (\<lambda>_.
                       ok (x\<lparr>Vehicle.CurrentDriverID := Some (?hex d), CurrentDriverUserID := Driver.UserID d\<rparr>)))) k)))
        R (holds E)"
      using same others E
      by (intro triple_andThen [OF triple_onErr [OF GetDriver_keeps]] bind_unless)
        (auto simp: andThen_assoc)
    then show ?thesis using 3 by (simp only: setDriver_def option.case if_False Let_def andThen_assoc)
  qed
qed

lemma vehicle_written:
  assumes "stored vehicleMethods doc x" "Vehicle.CompanyID doc = co" "\<not> Base.Deleted doc"
  shows "inserted Base.ID (\<lambda>i d. d\<lparr>Base.ID := i\<rparr>) (Vehicle_AsStored x) i (Vehicles v) m' \<Longrightarrow> Base.ID doc \<noteq> NilObjectID \<Longrightarrow>
      Vehicle.TrackerID doc = None \<Longrightarrow> unclaimed v co (Base.ID doc) (Vehicle.CurrentDriverID doc) \<Longrightarrow>
      registry_step (Hex (env D)) canon co v (v\<lparr>Vehicles := m'\<rparr>) \<and> m' (Base.ID doc) = Some (Vehicle_AsStored x)"
    and "updated (\<lambda>x. Base.ID x = Base.ID doc) (\<lambda>_. Vehicle_AsStored x) (Vehicles v) m' \<Longrightarrow>
      Vehicles v (Base.ID doc) = Some x0 \<Longrightarrow> Vehicle.CompanyID x0 = co \<Longrightarrow> \<not> Base.Deleted x0 \<Longrightarrow>
      Vehicle.TrackerID doc = Vehicle.TrackerID x0 \<Longrightarrow>
      (Vehicle.CurrentDriverID doc \<noteq> Vehicle.CurrentDriverID x0 \<Longrightarrow>
         unclaimed v co (Base.ID doc) (Vehicle.CurrentDriverID doc)) \<Longrightarrow>
      (\<And>j x. Vehicles v j = Some x \<Longrightarrow> Base.ID x = j) \<Longrightarrow>
      registry_step (Hex (env D)) canon co v (v\<lparr>Vehicles := m'\<rparr>) \<and> m' (Base.ID doc) = Some (Vehicle_AsStored x)"
proof -
  note x = stored_vehicle [OF assms(1)]
  assume ins: "inserted Base.ID (\<lambda>i d. d\<lparr>Base.ID := i\<rparr>) (Vehicle_AsStored x) i (Vehicles v) m'" "Base.ID doc \<noteq> NilObjectID"
    and "Vehicle.TrackerID doc = None" "unclaimed v co (Base.ID doc) (Vehicle.CurrentDriverID doc)"
  from ins have "Vehicles v (Base.ID doc) = None" "m' = (Vehicles v)(Base.ID doc \<mapsto> Vehicle_AsStored x)"
    using x by (auto simp: inserted_def own_id)
  then show "registry_step (Hex (env D)) canon co v (v\<lparr>Vehicles := m'\<rparr>) \<and> m' (Base.ID doc) = Some (Vehicle_AsStored x)"
    using x assms \<open>Vehicle.TrackerID doc = None\<close> \<open>unclaimed v co (Base.ID doc) (Vehicle.CurrentDriverID doc)\<close>
    by (auto intro!: registry_step.vehicle_added)
next
  note x = stored_vehicle [OF assms(1)]
  assume up: "updated (\<lambda>x. Base.ID x = Base.ID doc) (\<lambda>_. Vehicle_AsStored x) (Vehicles v) m'"
    and old: "Vehicles v (Base.ID doc) = Some x0" "Vehicle.CompanyID x0 = co" "\<not> Base.Deleted x0"
      "Vehicle.TrackerID doc = Vehicle.TrackerID x0"
    and free: "Vehicle.CurrentDriverID doc \<noteq> Vehicle.CurrentDriverID x0 \<Longrightarrow>
         unclaimed v co (Base.ID doc) (Vehicle.CurrentDriverID doc)"
    and "\<And>j x. Vehicles v j = Some x \<Longrightarrow> Base.ID x = j"
  then have "m' = (Vehicles v)(Base.ID doc \<mapsto> Vehicle_AsStored x)" using updated_by_id [OF up] by blast
  moreover have "registry_step (Hex (env D)) canon co v (v\<lparr>Vehicles := (Vehicles v)(Base.ID doc \<mapsto> Vehicle_AsStored x)\<rparr>)"
    by (rule registry_step.vehicle_changed [OF old(1)]) (use x old free assms in simp_all)
  ultimately show "registry_step (Hex (env D)) canon co v (v\<lparr>Vehicles := m'\<rparr>) \<and> m' (Base.ID doc) = Some (Vehicle_AsStored x)"
    by simp
qed

text \<open>The vehicle an operation returns is the one the database holds.\<close>

abbreviation shown :: "bool \<Rightarrow> string \<Rightarrow> MasterData \<Rightarrow> VehicleView \<Rightarrow> MasterData \<Rightarrow> bool" where
  "shown canon co v0 x v \<equiv> moved canon co v0 v \<and> Vehicles v (Base.ID x) = Some (Vehicle.truncate x) \<and>
     goodVehicle (Vehicle.truncate x) \<and> Vehicle.CompanyID x = co \<and> \<not> Base.Deleted x"

lemma shown_triple:
  assumes "ObjectIDFromHex (env D) (TrimSpace ident) = Some i"
  shows "triple (holds (\<lambda>v. moved canon co v0 v \<and> Vehicles v i = Some e \<and> goodVehicle e))
    (GetVehicle D co ident) (\<lambda>x. holds (shown canon co v0 x)) (holds (moved canon co v0))"
  by (rule triple_conseq [OF GetVehicle_triple [where Q = "\<lambda>v. moved canon co v0 v \<and> Vehicles v i = Some e \<and> goodVehicle e"
      and E = "moved canon co v0"]]) (use assms in \<open>auto simp: inWorld_def\<close>)

lemma CreateVehicle_triple:
  "triple (holds (moved canon co v0)) (CreateVehicle D co inp)
     (\<lambda>x. holds (shown canon co v0 x)) (holds (moved canon co v0))"
  unfolding CreateVehicle_def Let_def
proof (intro bind_lift bind_checkGroup bind_setDriver bind_new_id)
  fix x x' :: Vehicle and i assume "applyVehicle inp (newVehicle co) = Inr x" "samePairing x x'"
    and i: "i \<noteq> NilObjectID"
  then have x: "Vehicle.CompanyID x' = co" "\<not> Base.Deleted x'" "Vehicle.TrackerID x' = None"
    "Base.ID x = NilObjectID" "Vehicle.CurrentDriverID x = None"
    using applyVehicle_keeps [of inp "newVehicle co" x] by (auto simp: newVehicle_def samePairing_def)
  let ?doc = "x'\<lparr>Base.ID := i\<rparr>"
  let ?Q = "\<lambda>v. moved canon co v0 v \<and> (Vehicle.CurrentDriverID x' \<noteq> Vehicle.CurrentDriverID x \<longrightarrow>
        unclaimed v co (Base.ID x) (Vehicle.CurrentDriverID x'))"
  let ?R = "\<lambda>e v. moved canon co v0 v \<and> Base.ID e = i \<and> Vehicles v i = Some (Vehicle_AsStored e) \<and> goodVehicle e"
  show "triple (holds ?Q)
      (andThen (onErr (Create (env D) (vehicles D) ?doc) (\<lambda>e. dup vehicleClash (validation e)))
        (\<lambda>v. andThen (announce D ''vehicle'' co (Hex (env D) (Base.ID v)) ''create'')
          (\<lambda>_. GetVehicle D co (Hex (env D) (Base.ID v)))))
      (\<lambda>x. holds (shown canon co v0 x)) (holds (moved canon co v0))"
  proof (rule triple_andThen [OF triple_onErr [OF veh.Create_triple [where R = ?R]]])
    fix v e j m'
    assume v: "?Q v" and key: "\<And>j x. Vehicles v j = Some x \<Longrightarrow> IDOf (methods (vehicles D)) x = j \<and> j \<noteq> NilObjectID"
      and st: "stored (methods (vehicles D)) ?doc e"
      and ins: "inserted (IDOf (methods (vehicles D))) (\<lambda>i d. d\<lparr>Base.ID := i\<rparr>) (AsStored (methods (vehicles D)) e) j (Vehicles v) m'"
    have "unclaimed v co i (Vehicle.CurrentDriverID x')"
      using v x(4,5) key unfolding unclaimed_def by (cases "Vehicle.CurrentDriverID x'") auto
    then have "registry_step (Hex (env D)) canon co v (v\<lparr>Vehicles := m'\<rparr>)" "m' i = Some (Vehicle_AsStored e)"
      using vehicle_written(1) [of ?doc e co j v m' canon] st ins x i by simp_all
    moreover have "goodVehicle e \<and> Base.ID e = i" using stored_vehicle [of ?doc e] st by simp
    ultimately show "?R e (v\<lparr>Vehicles := m'\<rparr>) \<and> moved canon co v0 (v\<lparr>Vehicles := m'\<rparr>)"
      using v moved_step [of canon co v0 v] by simp
  next
    fix e
    show "triple (holds (?R e)) (andThen (announce D ''vehicle'' co (Hex (env D) (Base.ID e)) ''create'')
          (\<lambda>_. GetVehicle D co (Hex (env D) (Base.ID e))))
      (\<lambda>x. holds (shown canon co v0 x)) (holds (moved canon co v0))"
      by (rule bind_announce, rule weaken [OF shown_triple [where i = "Base.ID e" and e = "Vehicle_AsStored e"]])
        (auto simp: from_hex)
  qed simp
qed (auto intro: moved_step registry_step.drivers_unpaired)

lemma UpdateVehicle_triple:
  "triple (holds (moved canon co v0)) (UpdateVehicle D co ident inp)
     (\<lambda>x. holds (shown canon co v0 x)) (holds (moved canon co v0))"
  unfolding UpdateVehicle_def
proof (intro bind_findVehicle bind_lift bind_checkGroup bind_setDriver)
  fix x0 x x' :: Vehicle assume x0: "ObjectIDFromHex (env D) (TrimSpace ident) = Some (Base.ID x0)"
      "Vehicle.CompanyID x0 = co" "\<not> Base.Deleted x0"
    and "applyVehicle inp x0 = Inr x" "samePairing x x'"
  then have x: "Base.ID x = Base.ID x0" "Base.ID x' = Base.ID x0" "Vehicle.CompanyID x' = co"
    "\<not> Base.Deleted x'" "Vehicle.TrackerID x' = Vehicle.TrackerID x0"
    "Vehicle.CurrentDriverID x = Vehicle.CurrentDriverID x0"
    using applyVehicle_keeps [of inp x0 x] by (auto simp: samePairing_def)
  let ?Q = "\<lambda>v. (moved canon co v0 v \<and> Vehicles v (Base.ID x0) = Some x0) \<and>
      (Vehicle.CurrentDriverID x' \<noteq> Vehicle.CurrentDriverID x \<longrightarrow>
        unclaimed v co (Base.ID x) (Vehicle.CurrentDriverID x'))"
  let ?R = "\<lambda>e v. moved canon co v0 v \<and> Vehicles v (Base.ID x0) = Some (Vehicle_AsStored e) \<and> goodVehicle e"
  show "triple (holds ?Q)
      (andThen (onErr (Update (env D) (vehicles D) (Base.ID x') x') (\<lambda>e. dup vehicleClash (validation e)))
        (\<lambda>_. andThen (announce D ''vehicle'' co ident ''update'') (\<lambda>_. GetVehicle D co ident)))
      (\<lambda>x. holds (shown canon co v0 x)) (holds (moved canon co v0))"
  proof (rule triple_andThen [OF triple_onErr [OF veh.Update_triple [where R = ?R]]])
    fix v e m'
    assume v: "?Q v" and key: "\<And>j x. Vehicles v j = Some x \<Longrightarrow> IDOf (methods (vehicles D)) x = j"
      and st: "stored (methods (vehicles D)) x' e"
      and up: "updated (\<lambda>x. IDOf (methods (vehicles D)) x = Base.ID x') (\<lambda>_. AsStored (methods (vehicles D)) e) (Vehicles v) m'"
    have old: "Vehicles v (Base.ID x') = Some x0" using v x by simp
    have "registry_step (Hex (env D)) canon co v (v\<lparr>Vehicles := m'\<rparr>) \<and> m' (Base.ID x') = Some (Vehicle_AsStored e)"
      by (rule vehicle_written(2) [OF st [unfolded store_simps] x(3,4)
        up [unfolded store_simps methods_simps] old x0(2,3) x(5) _ key [unfolded store_simps methods_simps]])
        (use v x in simp_all)
    moreover have "goodVehicle e" using stored_vehicle [of x' e] st by simp
    ultimately show "?R e (v\<lparr>Vehicles := m'\<rparr>) \<and> moved canon co v0 (v\<lparr>Vehicles := m'\<rparr>)"
      using v x moved_step [of canon co v0 v] by simp
  next
    fix e
    show "triple (holds (?R e)) (andThen (announce D ''vehicle'' co ident ''update'')
          (\<lambda>_. GetVehicle D co ident))
      (\<lambda>x. holds (shown canon co v0 x)) (holds (moved canon co v0))"
      by (rule bind_announce, rule weaken [OF shown_triple [OF x0(1), where e = "Vehicle_AsStored e"]]) simp_all
  qed simp_all
next
  fix x0 x :: Vehicle and v :: MasterData and p :: "Vehicle \<Rightarrow> bool" and S now
  assume "applyVehicle inp x0 = Inr x"
    and v: "moved canon co v0 v \<and> Vehicles v (Base.ID x0) = Some x0"
    and p: "\<And>y. p y \<Longrightarrow> Vehicle.CompanyID y = co \<and> Base.ID y \<noteq> Base.ID x"
  then have np: "\<not> p x0" using applyVehicle_keeps [of inp x0 x] p [of x0] by auto
  have "registry_step (Hex (env D)) canon co v (v\<lparr>Vehicles := modify S p (clearDriver now) (Vehicles v)\<rparr>)"
    by (rule registry_step.drivers_unpaired) (simp add: p)
  then show "moved canon co v0 (v\<lparr>Vehicles := modify S p (clearDriver now) (Vehicles v)\<rparr>) \<and>
      Vehicles (v\<lparr>Vehicles := modify S p (clearDriver now) (Vehicles v)\<rparr>) (Base.ID x0) = Some x0"
    using v np moved_step [of canon co v0 v] by (simp add: modify_Some)
qed auto

text \<open>A vehicle that was deleted is retired, and nothing open names it.\<close>

abbreviation vehicleGone :: "bool \<Rightarrow> string \<Rightarrow> MasterData \<Rightarrow> string \<Rightarrow> MasterData \<Rightarrow> bool" where
  "vehicleGone canon co v0 ident v \<equiv> moved canon co v0 v \<and>
     (\<exists>i y. ObjectIDFromHex (env D) (TrimSpace ident) = Some i \<and> Vehicles v i = Some y \<and>
        Base.Deleted y \<and> Vehicle.CompanyID y = co \<and> Vehicle.TrackerID y = None) \<and>
     (\<forall>j a. Assignments v j = Some a \<longrightarrow> \<not> (TrackerAssignment.VehicleID a = ident \<and> UnfittedAt a = None))"

lemma DeleteVehicle_triple:
  assumes "canon \<Longrightarrow> \<exists>i. ident = Hex (env D) i"
  shows "triple (holds (moved canon co v0)) (DeleteVehicle D co ident) (\<lambda>_. holds (vehicleGone canon co v0 ident))
     (holds (moved canon co v0))"
  unfolding DeleteVehicle_def
proof (rule bind_findVehicle, rule asg.bind_count, rule bind_unless)
  fix x :: Vehicle and n :: int
  assume x: "ObjectIDFromHex (env D) (TrimSpace ident) = Some (Base.ID x)" "Vehicle.CompanyID x = co"
    and "\<not> (0 < n \<or> Vehicle.TrackerID x \<noteq> None)"
  then have free: "\<not> 0 < n" "Vehicle.TrackerID x = None" by simp_all
  have canon: "ident = Hex (env D) (Base.ID x)" if canon using assms [OF that] x by (auto simp: from_hex)
  let ?p = "\<lambda>a. TrackerAssignment.VehicleID a = ident \<and> UnfittedAt a = None"
  let ?Q = "\<lambda>v. (moved canon co v0 v \<and> Vehicles v (Base.ID x) = Some x) \<and> n = int (card (matching ?p (Assignments v)))"
  let ?Q' = "\<lambda>v. moved canon co v0 v \<and> Vehicles v (Base.ID x) = Some x \<and>
      (\<forall>i a. Assignments v i = Some a \<longrightarrow> \<not> ?p a)"
  have "triple (holds ?Q')
      (andThen (SoftDelete (env D) (vehicles D) co (Base.ID x)) (\<lambda>_.
       andThen (attempt (DeleteMany (members D)
         (\<lambda>m. VehicleGroupMember.CompanyID m = co \<and> VehicleGroupMember.VehicleID m = ident))) (\<lambda>r.
       andThen (announce D ''vehicle'' co ident ''delete'') (\<lambda>_.
       case r of Inl e \<Rightarrow> fail e | Inr n \<Rightarrow> ok ()))))
      (\<lambda>_. holds (vehicleGone canon co v0 ident)) (holds (moved canon co v0))"
  proof (rule triple_andThen [OF veh.SoftDelete_triple [where R = "vehicleGone canon co v0 ident"]])
    fix v now m'
    assume v: "?Q' v" and key: "\<And>j x. Vehicles v j = Some x \<Longrightarrow> IDOf (methods (vehicles D)) x = j"
      and up: "updated (\<lambda>x'. IDOf (methods (vehicles D)) x' = Base.ID x \<and>
          (co \<noteq> [] \<longrightarrow> CompanyOf (methods (vehicles D)) x' = Some co))
        (MarkDeleted (methods (vehicles D)) now) (Vehicles v) m'"
    have "m' = (Vehicles v)(Base.ID x \<mapsto> markDeleted now x)"
      using updated_by_id_fun [OF up, of Base.ID "Base.ID x"] key v by auto
    moreover have "registry_step (Hex (env D)) canon co v
        (v\<lparr>Vehicles := (Vehicles v)(Base.ID x \<mapsto> markDeleted now x)\<rparr>)"
      by (rule registry_step.vehicle_retired [where name = ident]) (use v x free canon in blast)+
    ultimately show "vehicleGone canon co v0 ident (v\<lparr>Vehicles := m'\<rparr>) \<and> moved canon co v0 (v\<lparr>Vehicles := m'\<rparr>)"
      using v x free moved_step [of canon co v0 v] by auto
  next
    show "triple (holds (vehicleGone canon co v0 ident))
       (andThen (attempt (DeleteMany (members D)
         (\<lambda>m. VehicleGroupMember.CompanyID m = co \<and> VehicleGroupMember.VehicleID m = ident))) (\<lambda>r.
       andThen (announce D ''vehicle'' co ident ''delete'') (\<lambda>_.
       case r of Inl e \<Rightarrow> fail e | Inr n \<Rightarrow> ok ())))
      (\<lambda>_. holds (vehicleGone canon co v0 ident)) (holds (moved canon co v0))"
    proof (rule mem.bind_attempt_delete)
      fix v S assume v: "vehicleGone canon co v0 ident v"
        and S: "S \<subseteq> matching (\<lambda>m. VehicleGroupMember.CompanyID m = co \<and> VehicleGroupMember.VehicleID m = ident) (Members v)"
      have "registry_step (Hex (env D)) canon co v (v\<lparr>Members := Members v |` (- S)\<rparr>)"
        by (rule registry_step.members_removed) (use S in \<open>auto simp: matching_def\<close>)
      then show "vehicleGone canon co v0 ident (v\<lparr>Members := Members v |` (- S)\<rparr>)"
        using v moved_step [of canon co v0 v] by simp
    next
      fix r :: "error + int"
      show "triple (holds (vehicleGone canon co v0 ident)) (andThen (announce D ''vehicle'' co ident ''delete'')
          (\<lambda>_. case r of Inl e \<Rightarrow> fail e | Inr n \<Rightarrow> ok ()))
          (\<lambda>_. holds (vehicleGone canon co v0 ident)) (holds (moved canon co v0))"
        by (rule bind_announce) (cases r; auto intro: fail_triple ok_triple)
    qed
  qed auto
  then show "triple (holds ?Q)
      (andThen (SoftDelete (env D) (vehicles D) co (Base.ID x)) (\<lambda>_.
       andThen (attempt (DeleteMany (members D)
         (\<lambda>m. VehicleGroupMember.CompanyID m = co \<and> VehicleGroupMember.VehicleID m = ident))) (\<lambda>r.
       andThen (announce D ''vehicle'' co ident ''delete'') (\<lambda>_.
       case r of Inl e \<Rightarrow> fail e | Inr n \<Rightarrow> ok ()))))
      (\<lambda>_. holds (vehicleGone canon co v0 ident)) (holds (moved canon co v0))"
    by (rule triple_pre) (use free in \<open>auto simp: inWorld_def dest: asg.count_none\<close>)
qed auto

end

end
