(* ===== verification/RegistryTrackers.thy ===== *)
theory RegistryTrackers
  imports RegistryVehicles
begin

text \<open>
  The devices of \<^verbatim>\<open>internal/services/registry.go\<close>: listing and resolving,
  \<^verbatim>\<open>CreateTracker\<close>, \<^verbatim>\<open>UpdateTracker\<close> for a company and for platform
  staff, \<^verbatim>\<open>checkModel\<close> and \<^verbatim>\<open>DeleteTracker\<close>, each with the steps of the
  register it takes.
\<close>

section \<open>Inputs and views\<close>

definition newTracker :: Tracker where
  "newTracker =
     \<lparr>Base.ID = NilObjectID, CreatedAt = zeroTime, UpdatedAt = zeroTime, Deleted = False,
      Tracker.CompanyID = None, Owner = [], OwnerName = None, Kind = [], DeviceID = [], IMEI = [],
      ICCID = None, SIMProvider = None, PhoneNo = None, ModelID = None, Status = [],
      Attributes = None\<rparr>"

record TrackerInput =
  Kind :: "string option"
  DeviceID :: "string option"
  IMEI :: "string option"
  ICCID :: "string option"
  SIMProvider :: "string option"
  PhoneNo :: "string option"
  ModelID :: "string option"
  CompanyID :: "string option"
  Owner :: "string option"
  OwnerName :: "string option"
  Status :: "string option"
  Attributes :: "Attrs option"

definition noTrackerInput :: TrackerInput where
  "noTrackerInput = \<lparr>TrackerInput.Kind = None, DeviceID = None, IMEI = None, ICCID = None,
     SIMProvider = None, PhoneNo = None, ModelID = None, CompanyID = None, Owner = None,
     OwnerName = None, Status = None, Attributes = None\<rparr>"

record TrackerView = Tracker +
  CurrentVehicleID :: "string option"
  FittedAt :: "Time option"

definition normaliseDevice :: "TrackerKind \<Rightarrow> string \<Rightarrow> string" where
  "normaliseDevice kind v =
     (if kind = TrackerGPS \<or> kind = [] then Normalise.IMEI v else TrimSpace v)"

definition applyKind :: "TrackerInput \<Rightarrow> bool \<Rightarrow> TrackerKind \<Rightarrow> error + TrackerKind" where
  "applyKind inp creating old =
     (case TrackerInput.Kind inp of None \<Rightarrow> Inr old
      | Some s \<Rightarrow>
          (let k = ToLower (TrimSpace s)
           in if k \<in> {TrackerGPS, TrackerDashcam}
              then if \<not> creating \<and> old \<noteq> [] \<and> old \<noteq> k
                   then Inl (ErrConflict ''a device's kind cannot change'')
                   else Inr k
              else Inl (ErrValidation ''kind must be gps or dashcam'')))"

definition applyDevice :: "TrackerInput \<Rightarrow> bool \<Rightarrow> TrackerKind \<Rightarrow> string \<Rightarrow> error + string" where
  "applyDevice inp creating kind old =
     (case (case TrackerInput.DeviceID inp of None \<Rightarrow> TrackerInput.IMEI inp | Some d \<Rightarrow> Some d) of
        None \<Rightarrow> Inr old
      | Some s \<Rightarrow>
          (let v = TrimSpace s
           in if \<not> creating \<and> old \<noteq> [] \<and> normaliseDevice kind v \<noteq> old
              then Inl (ErrConflict ''a device's id cannot change; retire it and register the new one'')
              else Inr v))"

definition applyOwner :: "TrackerInput \<Rightarrow> TrackerOwner \<Rightarrow> error + TrackerOwner" where
  "applyOwner inp old =
     (case TrackerInput.Owner inp of None \<Rightarrow> Inr old
      | Some s \<Rightarrow>
          (let w = ToLower (TrimSpace s)
           in if w \<in> {OwnerKarlo, OwnerCustomer, OwnerVendor} then Inr w
              else Inl (ErrValidation ''owner must be karlo, customer or vendor'')))"

definition applyTracker :: "TrackerInput \<Rightarrow> bool \<Rightarrow> Tracker \<Rightarrow> error + Tracker" where
  "applyTracker inp creating t =
     (case applyKind inp creating (Tracker.Kind t) of Inl e \<Rightarrow> Inl e | Inr k \<Rightarrow>
      case applyDevice inp creating k (Tracker.DeviceID t) of Inl e \<Rightarrow> Inl e | Inr d \<Rightarrow>
      case applyOwner inp (Tracker.Owner t) of Inl e \<Rightarrow> Inl e | Inr w \<Rightarrow>
        Inr (t\<lparr>Tracker.Kind := k,
               Tracker.DeviceID := d,
               Tracker.ICCID := str (Tracker.ICCID t) (TrackerInput.ICCID inp),
               Tracker.SIMProvider := str (Tracker.SIMProvider t) (TrackerInput.SIMProvider inp),
               Tracker.PhoneNo := str (Tracker.PhoneNo t) (TrackerInput.PhoneNo inp),
               Tracker.ModelID := str (Tracker.ModelID t) (TrackerInput.ModelID inp),
               Tracker.OwnerName := str (Tracker.OwnerName t) (TrackerInput.OwnerName inp),
               Tracker.Owner := w,
               Tracker.Status := (case TrackerInput.Status inp of None \<Rightarrow> Tracker.Status t
                                  | Some s \<Rightarrow> ToLower (TrimSpace s)),
               Tracker.Attributes := mergeAttributes (Tracker.Attributes t) (TrackerInput.Attributes inp)\<rparr>))"

section \<open>Reads\<close>

definition resolveTrackers :: "'w Database \<Rightarrow> Tracker list \<Rightarrow> ('w, TrackerView list) io" where
  "resolveTrackers D ts =
     (let ids = map (\<lambda>t. Hex (env D) (Base.ID t)) ts
      in andThen
        (if ids = [] then ok []
         else andThen (attempt (Find (assignments D)
             (\<lambda>a. TrackerAssignment.TrackerID a \<in> Some ` set ids \<and> UnfittedAt a = None) None)) (\<lambda>r.
           ok (case r of Inl e \<Rightarrow> [] | Inr rows \<Rightarrow> rows))) (\<lambda>as.
         let current = lastWins (concat (map (\<lambda>a. case TrackerAssignment.TrackerID a of
               None \<Rightarrow> [] | Some t \<Rightarrow> [(t, a)]) as))
         in ok (map (\<lambda>t.
              let a = current (Hex (env D) (Base.ID t))
              in Tracker.extend t (TrackerView.fields
                   (map_option TrackerAssignment.VehicleID a) (map_option TrackerAssignment.FittedAt a))) ts)))"

definition ListTrackers ::
  "'w Database \<Rightarrow> string \<Rightarrow> Params \<Rightarrow> string \<Rightarrow> bool option \<Rightarrow> string \<Rightarrow> ('w, TrackerView list \<times> int) io" where
  "ListTrackers D companyID p kind fitted vehicleID =
     andThen
       (if fitted \<noteq> None \<or> vehicleID \<noteq> []
        then andThen (Distinct (assignments D)
               (\<lambda>a. case TrackerAssignment.TrackerID a of None \<Rightarrow> BNull | Some t \<Rightarrow> BString t)
               (\<lambda>a. UnfittedAt a = None \<and> (vehicleID \<noteq> [] \<longrightarrow> TrackerAssignment.VehicleID a = vehicleID))) (\<lambda>ids.
             ok (Some (hexIDs D (map (\<lambda>i. case i of BString h \<Rightarrow> Some h | _ \<Rightarrow> None) ids))))
        else ok None) (\<lambda>oids.
     andThen (page (col (trackers D))
       (\<lambda>t. \<not> Base.Deleted t \<and>
            (companyID \<noteq> [] \<longrightarrow> Tracker.CompanyID t = Some companyID) \<and>
            (kind \<noteq> [] \<longrightarrow> Tracker.Kind t = kind) \<and>
            (Search p \<noteq> [] \<longrightarrow>
               MatchRegex (env D) ''i'' (CHR ''^'' # escapeRegex (TrimSpace (Search p))) (Tracker.DeviceID t)) \<and>
            (case oids of None \<Rightarrow> True
             | Some os \<Rightarrow> if vehicleID \<noteq> [] \<or> fitted = Some True
                         then Base.ID t \<in> set os else Base.ID t \<notin> set os))
       p) (\<lambda>(ts, n).
     andThen (resolveTrackers D ts) (\<lambda>views. ok (views, n))))"

definition findTracker :: "'w Database \<Rightarrow> string \<Rightarrow> string \<Rightarrow> ('w, Tracker) io" where
  "findTracker D companyID ident =
     andThen (lift (oid D ident)) (\<lambda>o'.
     decodeOne (col (trackers D))
       (\<lambda>t. Base.ID t = o' \<and> \<not> Base.Deleted t \<and> (companyID \<noteq> [] \<longrightarrow> Tracker.CompanyID t = Some companyID)))"

definition GetTracker :: "'w Database \<Rightarrow> string \<Rightarrow> string \<Rightarrow> ('w, TrackerView) io" where
  "GetTracker D companyID ident =
     andThen (findTracker D companyID ident) (\<lambda>t.
     andThen (resolveTrackers D [t]) (\<lambda>views. ok (hd views)))"

section \<open>Writes\<close>

definition wrongModel :: "StoredModel \<Rightarrow> Tracker \<Rightarrow> string" where
  "wrongModel m t = ''model '' @ Vendor m @ '' '' @ Model m @ '' is a '' @
     TrackerModel.Kind m @ '' model, not '' @ Tracker.Kind t"

definition checkModel :: "'w Database \<Rightarrow> Tracker \<Rightarrow> ('w, unit) io" where
  "checkModel D t =
     (case Tracker.ModelID t of
        None \<Rightarrow> ok ()
      | Some h \<Rightarrow>
          (case ObjectIDFromHex (env D) h of
             None \<Rightarrow> fail (ErrValidation ''no such tracker model'')
           | Some o' \<Rightarrow>
               andThen (attempt (FindOne (models D) (\<lambda>m. TrackerModel.ID m = o' \<and> \<not> Retired m))) (\<lambda>r.
               case r of
                 Inr (Some m) \<Rightarrow>
                   unless (TrackerModel.Kind m = [] \<or> TrackerModel.Kind m = Tracker.Kind t)
                     (ErrValidation (wrongModel m t))
               | _ \<Rightarrow> fail (ErrValidation ''no such tracker model''))))"

definition deviceClash :: string where
  "deviceClash = ''a device with that id is already registered''"

definition CreateTracker ::
  "'w Database \<Rightarrow> string \<Rightarrow> bool \<Rightarrow> TrackerInput \<Rightarrow> ('w, TrackerView) io" where
  "CreateTracker D companyID staff inp =
     (let t = newTracker\<lparr>Tracker.CompanyID := (if companyID \<noteq> [] then Some companyID else None),
                         Tracker.Owner := (if staff then OwnerKarlo else OwnerCustomer)\<rparr>
      in andThen (lift (applyTracker inp True t)) (\<lambda>t.
      let t = t\<lparr>Tracker.Kind := ifEmpty (Tracker.Kind t) TrackerGPS\<rparr> in
      andThen (unless (normaliseDevice (Tracker.Kind t) (Tracker.DeviceID t) \<noteq> [])
        (ErrValidation ''deviceId is required'')) (\<lambda>_.
      andThen (unless (\<not> (Tracker.Kind t = TrackerGPS \<and> length (Normalise.IMEI (Tracker.DeviceID t)) \<noteq> 15))
        (ErrValidation ''a GPS tracker's IMEI is 15 digits'')) (\<lambda>_.
      andThen (checkModel D t) (\<lambda>_.
      andThen (call (NewObjectID (env D))) (\<lambda>i.
      let t = t\<lparr>Base.ID := i\<rparr> in
      andThen (onErr (Create (env D) (trackers D) t) (dup deviceClash)) (\<lambda>t.
      andThen (announce D ''tracker'' companyID (Hex (env D) (Base.ID t)) ''create'') (\<lambda>_.
      GetTracker D companyID (Hex (env D) (Base.ID t))))))))))"

definition updateTracker ::
  "'w Database \<Rightarrow> string \<Rightarrow> string \<Rightarrow> TrackerInput \<Rightarrow> bool \<Rightarrow> ('w, TrackerView) io" where
  "updateTracker D companyID ident inp staff =
     andThen (findTracker D companyID ident) (\<lambda>t.
     andThen (lift (applyTracker inp False t)) (\<lambda>t.
     let owner = (if staff then map_option TrimSpace (TrackerInput.CompanyID inp) else None);
         t = (case owner of None \<Rightarrow> t
              | Some c \<Rightarrow> t\<lparr>Tracker.CompanyID := (if c = [] then None else Some c)\<rparr>);
         companyID = (case owner of None \<Rightarrow> companyID | Some c \<Rightarrow> if c = [] then companyID else c)
     in
     andThen (checkModel D t) (\<lambda>_.
     andThen (onErr (Update (env D) (trackers D) (Base.ID t) t) (dup deviceClash)) (\<lambda>_.
     andThen (announce D ''tracker'' companyID ident ''update'') (\<lambda>_.
     if staff then GetTracker D [] ident else GetTracker D companyID ident)))))"

definition UpdateTracker ::
  "'w Database \<Rightarrow> string \<Rightarrow> string \<Rightarrow> TrackerInput \<Rightarrow> ('w, TrackerView) io" where
  "UpdateTracker D companyID ident inp = updateTracker D companyID ident inp False"

definition UpdateTrackerAsStaff ::
  "'w Database \<Rightarrow> string \<Rightarrow> TrackerInput \<Rightarrow> ('w, TrackerView) io" where
  "UpdateTrackerAsStaff D ident inp = updateTracker D [] ident inp True"

definition DeleteTracker :: "'w Database \<Rightarrow> string \<Rightarrow> string \<Rightarrow> ('w, unit) io" where
  "DeleteTracker D companyID ident =
     andThen (findTracker D companyID ident) (\<lambda>t.
     andThen (CountDocuments (assignments D)
       (\<lambda>a. TrackerAssignment.TrackerID a = Some ident \<and> UnfittedAt a = None)) (\<lambda>opened.
     andThen (unless (\<not> opened > 0)
       (ErrConflict ''this device is fitted to a vehicle; unfit it first'')) (\<lambda>_.
     andThen (SoftDelete (env D) (trackers D) [] (Base.ID t)) (\<lambda>_.
     announce D ''tracker'' companyID ident ''delete''))))"

section \<open>What the operations do\<close>

lemma IMEI_Nil: "Normalise.IMEI [] = []"
  by (simp add: IMEI_of_digits)

lemma Tracker_view: "Tracker.truncate (Tracker.extend x f) = x" for x :: Tracker
  by (cases x) (simp add: Tracker.defs)

lemma applyTracker_keeps:
  assumes "applyTracker inp cr t = Inr t'"
  shows "Base.ID t' = Base.ID t" "Base.Deleted t' = Base.Deleted t"
    "Tracker.CompanyID t' = Tracker.CompanyID t" "Tracker.IMEI t' = Tracker.IMEI t"
  using assms by (auto simp: applyTracker_def split: sum.splits)

lemma settled_Tracker_Stamp [simp]: "settled_Tracker (Stamp now cr t) = settled_Tracker t"
  by (simp add: settled_Tracker_def wellTyped_Tracker_def Stamp_def)

lemma stored_tracker:
  assumes "stored trackerMethods doc t"
  shows "settled_Tracker t" "Base.ID t = Base.ID doc" "Base.Deleted t = Base.Deleted doc"
    "Tracker.CompanyID t = Tracker.CompanyID doc" "Tracker.Kind t = ifEmpty (Tracker.Kind doc) TrackerGPS"
    "Tracker.DeviceID t = (if ifEmpty (Tracker.Kind doc) TrackerGPS = TrackerGPS
       then Normalise.IMEI (ifEmpty (Tracker.DeviceID doc) (Tracker.IMEI doc))
       else TrimSpace (Tracker.DeviceID doc))"
  using assms by (auto simp: stored_def settled_Tracker_BeforeWrite)
    (auto simp: Tracker_BeforeWrite_def Let_def)

text \<open>What a newly registered device is: identified, a GPS device by fifteen digits.\<close>

definition newDevice :: "Tracker \<Rightarrow> bool" where
  "newDevice t \<longleftrightarrow> settled_Tracker t \<and> Tracker.DeviceID t \<noteq> [] \<and>
     (Tracker.Kind t = TrackerGPS \<longrightarrow> length (Tracker.DeviceID t) = 15)"

lemma newDevice_AsStored [simp]: "newDevice (Tracker_AsStored t) = newDevice t"
  by (simp add: newDevice_def)

text \<open>An accepted update leaves a registered device's kind and id what they were.\<close>

lemma applyTracker_identity:
  assumes "applyTracker inp False t = Inr t'" and "settled_Tracker t" and "Tracker.DeviceID t \<noteq> []"
  shows "Tracker.Kind t' = Tracker.Kind t"
    and "Tracker.Kind t' = TrackerGPS \<Longrightarrow>
           Normalise.IMEI (ifEmpty (Tracker.DeviceID t') (Tracker.IMEI t')) = Tracker.DeviceID t"
    and "Tracker.Kind t' \<noteq> TrackerGPS \<Longrightarrow> TrimSpace (Tracker.DeviceID t') = Tracker.DeviceID t"
proof -
  have k: "Tracker.Kind t \<noteq> []" and
    d: "if Tracker.Kind t = TrackerGPS then list_all isDigit (Tracker.DeviceID t)
        else trimmed (Tracker.DeviceID t)"
    using assms(2) by (simp_all add: settled_Tracker_def wellTyped_Tracker_def split: if_splits)
  from assms(1) obtain kd dv where kd: "applyKind inp False (Tracker.Kind t) = Inr kd" "Tracker.Kind t' = kd"
    and dv: "applyDevice inp False kd (Tracker.DeviceID t) = Inr dv" "Tracker.DeviceID t' = dv"
    by (auto simp: applyTracker_def split: sum.splits)
  show same: "Tracker.Kind t' = Tracker.Kind t"
    using kd k by (auto simp: applyKind_def Let_def split: option.splits if_splits)
  have "dv = Tracker.DeviceID t \<or> normaliseDevice kd dv = Tracker.DeviceID t"
    using dv(1) assms(3) by (auto simp: applyDevice_def Let_def split: option.splits if_splits)
  then show "Tracker.Kind t' = TrackerGPS \<Longrightarrow>
      Normalise.IMEI (ifEmpty (Tracker.DeviceID t') (Tracker.IMEI t')) = Tracker.DeviceID t"
    and "Tracker.Kind t' \<noteq> TrackerGPS \<Longrightarrow> TrimSpace (Tracker.DeviceID t') = Tracker.DeviceID t"
    using d k dv(2) kd(2) same assms(3)
    by (auto simp: normaliseDevice_def IMEI_of_digits ifEmpty_def split: if_splits)
qed

context database
begin

lemma resolveTrackers_rows:
  "triple (holds Q) (if ids = [] then ok []
         else andThen (attempt (Find (assignments D) p None)) (\<lambda>r.
           ok (case r of Inl e \<Rightarrow> [] | Inr rows \<Rightarrow> rows))) (\<lambda>_. holds Q) (holds E)"
  by (cases "ids = []") (auto intro!: ok_triple asg.bind_attempt_find)

lemma bind_resolveTrackers:
  assumes "\<And>views. map Tracker.truncate views = xs \<Longrightarrow> triple (holds Q) (k views) R (holds E)"
  shows "triple (holds Q) (andThen (resolveTrackers D xs) k) R (holds E)"
  unfolding resolveTrackers_def andThen_assoc Let_def andThen_ok
  by (rule triple_andThen [OF resolveTrackers_rows], rule assms)
    (simp add: comp_def Tracker_view)

lemma bind_findTracker:
  assumes "\<And>x. ObjectIDFromHex (env D) (TrimSpace ident) = Some (Base.ID x) \<Longrightarrow>
      (co \<noteq> [] \<Longrightarrow> Tracker.CompanyID x = Some co) \<Longrightarrow> \<not> Base.Deleted x \<Longrightarrow>
      triple (holds (\<lambda>v. Q v \<and> Trackers v (Base.ID x) = Some x)) (k x) R (holds E)"
    and "\<And>v. Q v \<Longrightarrow> E v"
  shows "triple (holds Q) (andThen (findTracker D co ident) k) R (holds E)"
  unfolding findTracker_def andThen_assoc
proof (rule bind_lift)
  fix i assume i: "oid D ident = Inr i"
  show "triple (holds Q) (andThen (decodeOne (col (trackers D)) (\<lambda>t. Base.ID t = i \<and> \<not> Base.Deleted t \<and>
      (co \<noteq> [] \<longrightarrow> Tracker.CompanyID t = Some co))) k) R (holds E)"
    by (rule trk.bind_decodeOne) (use i assms in \<open>auto simp: oid_Inr\<close>)
qed (rule assms(2))

lemma GetTracker_triple:
  "(\<And>v. Q v \<Longrightarrow> E v) \<Longrightarrow>
   triple (holds Q) (GetTracker D co ident)
     (\<lambda>x. holds (\<lambda>v. Q v \<and> Trackers v (Base.ID x) = Some (Tracker.truncate x) \<and>
        ObjectIDFromHex (env D) (TrimSpace ident) = Some (Base.ID x) \<and>
        (co \<noteq> [] \<longrightarrow> Tracker.CompanyID x = Some co) \<and> \<not> Base.Deleted x)) (holds E)"
  unfolding GetTracker_def
proof (intro bind_findTracker bind_resolveTrackers)
  fix x views assume x: "ObjectIDFromHex (env D) (TrimSpace ident) = Some (Base.ID x)"
    "co \<noteq> [] \<Longrightarrow> Tracker.CompanyID x = Some co" "\<not> Base.Deleted x" and "map Tracker.truncate views = [x]"
  then obtain y where y: "views = [y]" "Tracker.truncate y = x" by (cases views) auto
  then have "Base.ID y = Base.ID x" "Tracker.CompanyID y = Tracker.CompanyID x" "Base.Deleted y = Base.Deleted x"
    by (auto simp: Tracker.truncate_def)
  then show "triple (holds (\<lambda>v. Q v \<and> Trackers v (Base.ID x) = Some x)) (ok (hd views))
      (\<lambda>x. holds (\<lambda>v. Q v \<and> Trackers v (Base.ID x) = Some (Tracker.truncate x) \<and>
        ObjectIDFromHex (env D) (TrimSpace ident) = Some (Base.ID x) \<and>
        (co \<noteq> [] \<longrightarrow> Tracker.CompanyID x = Some co) \<and> \<not> Base.Deleted x)) (holds E)"
    using x y by (auto intro!: ok_here)
qed auto

lemma bind_checkModel:
  assumes "triple (holds Q) (k ()) R (holds E)" and "\<And>v. Q v \<Longrightarrow> E v"
  shows "triple (holds Q) (andThen (checkModel D t) k) R (holds E)"
proof (cases "Option.bind (Tracker.ModelID t) (ObjectIDFromHex (env D))")
  case None
  then show ?thesis
    using assms by (cases "Tracker.ModelID t") (auto simp: checkModel_def fail_triple)
next
  case (Some i)
  let ?chk = "\<lambda>r. case r of Inr (Some m) \<Rightarrow>
      unless (TrackerModel.Kind m = [] \<or> TrackerModel.Kind m = Tracker.Kind t)
        (ErrValidation (wrongModel m t))
    | _ \<Rightarrow> fail (ErrValidation ''no such tracker model'')"
  have "triple (holds Q) (FindOne (models D) p) (\<lambda>_. holds Q) (\<lambda>w. \<forall>e::error. holds Q w)" for p
    by (rule triple_conseq [OF mdl.find_one_triple [where P = Q]]) (auto simp: inWorld_def)
  then have "triple (holds Q) (andThen (attempt (FindOne (models D) p)) (\<lambda>r. andThen (?chk r) k)) R (holds E)" for p
  proof (rule triple_andThen [OF triple_attempt])
    fix r :: "error + StoredModel option"
    show "triple (holds Q) (andThen (?chk r) k) R (holds E)"
    proof (cases "\<exists>m. r = Inr (Some m)")
      case True
      then obtain m where "r = Inr (Some m)" ..
      moreover have "triple (holds Q) (andThen (unless b e) k) R (holds E)" for b e
        by (rule bind_unless) (rule assms, erule assms)
      ultimately show ?thesis by simp
    next
      case False
      then show ?thesis using assms(2) by (auto split: sum.split option.split intro!: fail_triple)
    qed
  qed
  then show ?thesis
    using Some by (cases "Tracker.ModelID t") (simp_all add: checkModel_def andThen_assoc)
qed

text \<open>The device an operation returns is the one the database holds, and \<open>G\<close> of it.\<close>

abbreviation trackerShown ::
  "bool \<Rightarrow> string \<Rightarrow> MasterData \<Rightarrow> (Tracker \<Rightarrow> bool) \<Rightarrow> TrackerView \<Rightarrow> MasterData \<Rightarrow> bool" where
  "trackerShown canon co v0 G x v \<equiv> moved canon co v0 v \<and>
     Trackers v (Base.ID x) = Some (Tracker.truncate x) \<and> G (Tracker.truncate x) \<and> \<not> Base.Deleted x"

lemma trackerShown_triple:
  assumes "ObjectIDFromHex (env D) (TrimSpace ident) = Some i"
  shows "triple (holds (\<lambda>v. moved canon co v0 v \<and> Trackers v i = Some e \<and> G e))
    (GetTracker D co' ident) (\<lambda>x. holds (trackerShown canon co v0 G x)) (holds (moved canon co v0))"
  by (rule triple_conseq [OF GetTracker_triple [where Q = "\<lambda>v. moved canon co v0 v \<and> Trackers v i = Some e \<and> G e"
      and E = "moved canon co v0"]]) (use assms in \<open>auto simp: inWorld_def\<close>)

lemma CreateTracker_triple:
  "triple (holds (moved canon co v0)) (CreateTracker D co staff inp)
     (\<lambda>x. holds (trackerShown canon co v0 newDevice x)) (holds (moved canon co v0))"
  unfolding CreateTracker_def Let_def
proof (intro bind_lift bind_unless bind_checkModel bind_new_id)
  let ?t = "newTracker\<lparr>Tracker.CompanyID := (if co \<noteq> [] then Some co else None),
              Tracker.Owner := (if staff then OwnerKarlo else OwnerCustomer)\<rparr>"
  fix t :: Tracker and i
  let ?doc = "t\<lparr>Tracker.Kind := ifEmpty (Tracker.Kind t) TrackerGPS, Base.ID := i\<rparr>"
  assume t: "applyTracker inp True ?t = Inr t"
    and some: "normaliseDevice (Tracker.Kind (t\<lparr>Tracker.Kind := ifEmpty (Tracker.Kind t) TrackerGPS\<rparr>))
        (Tracker.DeviceID (t\<lparr>Tracker.Kind := ifEmpty (Tracker.Kind t) TrackerGPS\<rparr>)) \<noteq> []"
    and digits: "\<not> (Tracker.Kind (t\<lparr>Tracker.Kind := ifEmpty (Tracker.Kind t) TrackerGPS\<rparr>) = TrackerGPS \<and>
        length (Normalise.IMEI (Tracker.DeviceID (t\<lparr>Tracker.Kind := ifEmpty (Tracker.Kind t) TrackerGPS\<rparr>))) \<noteq> 15)"
    and i: "i \<noteq> NilObjectID"
  have d: "Tracker.CompanyID ?doc = (if co = [] then None else Some co)" "\<not> Base.Deleted ?doc" "Base.ID ?doc = i"
    using applyTracker_keeps [OF t] by (auto simp: newTracker_def)
  let ?R = "\<lambda>e v. moved canon co v0 v \<and> Base.ID e = i \<and> Trackers v i = Some (Tracker_AsStored e) \<and> newDevice e"
  show "triple (holds (moved canon co v0))
      (andThen (onErr (Create (env D) (trackers D) ?doc) (dup deviceClash))
        (\<lambda>t. andThen (announce D ''tracker'' co (Hex (env D) (Base.ID t)) ''create'')
          (\<lambda>_. GetTracker D co (Hex (env D) (Base.ID t)))))
      (\<lambda>x. holds (trackerShown canon co v0 newDevice x)) (holds (moved canon co v0))"
  proof (rule triple_andThen [OF triple_onErr [OF trk.Create_triple [where R = ?R]]])
    fix v e j m'
    assume v: "moved canon co v0 v"
      and st: "stored (methods (trackers D)) ?doc e"
      and ins: "inserted (IDOf (methods (trackers D))) (\<lambda>i d. d\<lparr>Base.ID := i\<rparr>) (AsStored (methods (trackers D)) e) j (Trackers v) m'"
    note e = stored_tracker [OF st [unfolded store_simps]]
    have device: "Tracker.DeviceID e \<noteq> [] \<and> (Tracker.Kind e = TrackerGPS \<longrightarrow> length (Tracker.DeviceID e) = 15)"
      using e(5,6) some digits by (auto simp: normaliseDevice_def ifEmpty_def IMEI_Nil split: if_splits)
    have "Trackers v i = None" "m' = (Trackers v)(i \<mapsto> Tracker_AsStored e)"
      using ins e(2) d(3) i by (auto simp: inserted_def own_id)
    then have "registry_step (Hex (env D)) canon co v (v\<lparr>Trackers := m'\<rparr>)" "m' i = Some (Tracker_AsStored e)"
      using e d device by (auto intro!: registry_step.tracker_added)
    moreover have "newDevice e" using e(1) device by (simp add: newDevice_def)
    ultimately show "?R e (v\<lparr>Trackers := m'\<rparr>) \<and> moved canon co v0 (v\<lparr>Trackers := m'\<rparr>)"
      using v e d moved_step [of canon co v0 v] by simp
  next
    fix e
    show "triple (holds (?R e)) (andThen (announce D ''tracker'' co (Hex (env D) (Base.ID e)) ''create'')
          (\<lambda>_. GetTracker D co (Hex (env D) (Base.ID e))))
      (\<lambda>x. holds (trackerShown canon co v0 newDevice x)) (holds (moved canon co v0))"
      by (rule bind_announce, rule weaken [OF trackerShown_triple [where i = "Base.ID e" and e = "Tracker_AsStored e"]])
        (auto simp: from_hex)
  qed simp
qed auto

lemma updateTracker_triple:
  assumes staff: "staff \<Longrightarrow> co = []"
  shows "triple (holds (moved canon co v0)) (updateTracker D co ident inp staff)
     (\<lambda>x. holds (trackerShown canon co v0 settled_Tracker x)) (holds (moved canon co v0))"
  unfolding updateTracker_def Let_def
proof (intro bind_findTracker bind_lift bind_checkModel)
  fix t0 t :: Tracker
  assume t0: "ObjectIDFromHex (env D) (TrimSpace ident) = Some (Base.ID t0)"
      "co \<noteq> [] \<Longrightarrow> Tracker.CompanyID t0 = Some co" "\<not> Base.Deleted t0"
    and t: "applyTracker inp False t0 = Inr t"
  let ?owner = "if staff then map_option TrimSpace (TrackerInput.CompanyID inp) else None"
  let ?doc = "case ?owner of None \<Rightarrow> t
      | Some c \<Rightarrow> t\<lparr>Tracker.CompanyID := (if c = [] then None else Some c)\<rparr>"
  let ?co = "case ?owner of None \<Rightarrow> co | Some c \<Rightarrow> if c = [] then co else c"
  have d: "Base.ID ?doc = Base.ID t0" "\<not> Base.Deleted ?doc"
    "co \<noteq> [] \<Longrightarrow> Tracker.CompanyID ?doc = Some co" "Tracker.Kind ?doc = Tracker.Kind t"
    "Tracker.DeviceID ?doc = Tracker.DeviceID t" "Tracker.IMEI ?doc = Tracker.IMEI t"
    using applyTracker_keeps [OF t] t0 staff by (auto split: option.splits)
  let ?Q = "\<lambda>v. moved canon co v0 v \<and> Trackers v (Base.ID t0) = Some t0"
  let ?R = "\<lambda>e v. moved canon co v0 v \<and> Trackers v (Base.ID t0) = Some (Tracker_AsStored e) \<and> settled_Tracker e"
  show "triple (holds ?Q)
      (andThen (onErr (Update (env D) (trackers D) (Base.ID ?doc) ?doc) (dup deviceClash))
        (\<lambda>_. andThen (announce D ''tracker'' ?co ident ''update'')
          (\<lambda>_. if staff then GetTracker D [] ident else GetTracker D ?co ident)))
      (\<lambda>x. holds (trackerShown canon co v0 settled_Tracker x)) (holds (moved canon co v0))"
  proof (rule triple_andThen [OF triple_onErr [OF trk.Update_triple [where R = ?R]]])
    fix v e m'
    assume v: "?Q v" and key: "\<And>j x. Trackers v j = Some x \<Longrightarrow> IDOf (methods (trackers D)) x = j"
      and st: "stored (methods (trackers D)) ?doc e"
      and up: "updated (\<lambda>x. IDOf (methods (trackers D)) x = Base.ID ?doc) (\<lambda>_. AsStored (methods (trackers D)) e) (Trackers v) m'"
    note e = stored_tracker [OF st [unfolded store_simps], unfolded d]
    have m': "m' = (Trackers v)(Base.ID t0 \<mapsto> Tracker_AsStored e)"
      using updated_by_id [OF up, of Base.ID "Base.ID t0"] d(1) key by auto
    have same: "Tracker.Kind e = Tracker.Kind t0 \<and> Tracker.DeviceID e = Tracker.DeviceID t0"
      if "settled_Tracker t0" "Tracker.DeviceID t0 \<noteq> []"
    proof -
      have "Tracker.Kind t0 \<noteq> []" using that(1) by (simp add: settled_Tracker_def wellTyped_Tracker_def)
      then show ?thesis using applyTracker_identity [OF t that] e(5,6) by (auto simp: ifEmpty_def)
    qed
    have "registry_step (Hex (env D)) canon co v (v\<lparr>Trackers := (Trackers v)(Base.ID t0 \<mapsto> Tracker_AsStored e)\<rparr>)"
      by (rule registry_step.tracker_changed [where ?t0.0 = t0]) (use v e d t0 same in auto)
    then show "?R e (v\<lparr>Trackers := m'\<rparr>) \<and> moved canon co v0 (v\<lparr>Trackers := m'\<rparr>)"
      using v e m' moved_step [of canon co v0 v] by simp
  next
    fix e
    show "triple (holds (?R e)) (andThen (announce D ''tracker'' ?co ident ''update'')
          (\<lambda>_. if staff then GetTracker D [] ident else GetTracker D ?co ident))
      (\<lambda>x. holds (trackerShown canon co v0 settled_Tracker x)) (holds (moved canon co v0))"
      by (rule bind_announce) (use trackerShown_triple [OF t0(1), where e = "Tracker_AsStored e" and G = settled_Tracker] in simp)
  qed (simp_all add: d)
qed auto

lemma UpdateTracker_triple:
  "triple (holds (moved canon co v0)) (UpdateTracker D co ident inp)
     (\<lambda>x. holds (trackerShown canon co v0 settled_Tracker x)) (holds (moved canon co v0))"
  unfolding UpdateTracker_def by (rule updateTracker_triple) simp

lemma UpdateTrackerAsStaff_triple:
  "triple (holds (moved canon [] v0)) (UpdateTrackerAsStaff D ident inp)
     (\<lambda>x. holds (trackerShown canon [] v0 settled_Tracker x)) (holds (moved canon [] v0))"
  unfolding UpdateTrackerAsStaff_def by (rule updateTracker_triple) simp

abbreviation trackerGone :: "bool \<Rightarrow> string \<Rightarrow> MasterData \<Rightarrow> string \<Rightarrow> MasterData \<Rightarrow> bool" where
  "trackerGone canon co v0 ident v \<equiv> moved canon co v0 v \<and>
     (\<exists>i y. ObjectIDFromHex (env D) (TrimSpace ident) = Some i \<and> Trackers v i = Some y \<and> Base.Deleted y \<and>
        (co \<noteq> [] \<longrightarrow> Tracker.CompanyID y = Some co)) \<and>
     (\<forall>j a. Assignments v j = Some a \<longrightarrow> \<not> (TrackerAssignment.TrackerID a = Some ident \<and> UnfittedAt a = None))"

lemma DeleteTracker_triple:
  assumes "canon \<Longrightarrow> \<exists>i. ident = Hex (env D) i"
  shows "triple (holds (moved canon co v0)) (DeleteTracker D co ident) (\<lambda>_. holds (trackerGone canon co v0 ident))
     (holds (moved canon co v0))"
  unfolding DeleteTracker_def
proof (rule bind_findTracker, rule asg.bind_count, rule bind_unless)
  fix t :: Tracker and n :: int
  assume t: "ObjectIDFromHex (env D) (TrimSpace ident) = Some (Base.ID t)" "co \<noteq> [] \<Longrightarrow> Tracker.CompanyID t = Some co"
    and free: "\<not> 0 < n"
  have canon: "ident = Hex (env D) (Base.ID t)" if canon using assms [OF that] t by (auto simp: from_hex)
  let ?p = "\<lambda>a. TrackerAssignment.TrackerID a = Some ident \<and> UnfittedAt a = None"
  let ?Q' = "\<lambda>v. moved canon co v0 v \<and> Trackers v (Base.ID t) = Some t \<and>
      (\<forall>i a. Assignments v i = Some a \<longrightarrow> \<not> ?p a)"
  have "triple (holds ?Q')
      (andThen (SoftDelete (env D) (trackers D) [] (Base.ID t)) (\<lambda>_. announce D ''tracker'' co ident ''delete''))
      (\<lambda>_. holds (trackerGone canon co v0 ident)) (holds (moved canon co v0))"
  proof (rule triple_andThen [OF trk.SoftDelete_triple [where R = "trackerGone canon co v0 ident"] announce_triple])
    fix v now m'
    assume v: "?Q' v" and key: "\<And>j x. Trackers v j = Some x \<Longrightarrow> IDOf (methods (trackers D)) x = j"
      and up: "updated (\<lambda>x. IDOf (methods (trackers D)) x = Base.ID t \<and>
          ([] \<noteq> [] \<longrightarrow> CompanyOf (methods (trackers D)) x = Some []))
        (MarkDeleted (methods (trackers D)) now) (Trackers v) m'"
    have "m' = (Trackers v)(Base.ID t \<mapsto> markDeleted now t)"
      using updated_by_id_fun [OF up, of Base.ID "Base.ID t"] key v by auto
    moreover have "registry_step (Hex (env D)) canon co v
        (v\<lparr>Trackers := (Trackers v)(Base.ID t \<mapsto> markDeleted now t)\<rparr>)"
      by (rule registry_step.tracker_retired [where name = ident]) (use v t canon in blast)+
    ultimately show "trackerGone canon co v0 ident (v\<lparr>Trackers := m'\<rparr>) \<and> moved canon co v0 (v\<lparr>Trackers := m'\<rparr>)"
      using v t moved_step [of canon co v0 v] by auto
  qed simp
  then show "triple (holds (\<lambda>v. (moved canon co v0 v \<and> Trackers v (Base.ID t) = Some t) \<and>
        n = int (card (matching ?p (Assignments v)))))
      (andThen (SoftDelete (env D) (trackers D) [] (Base.ID t)) (\<lambda>_. announce D ''tracker'' co ident ''delete''))
      (\<lambda>_. holds (trackerGone canon co v0 ident)) (holds (moved canon co v0))"
    by (rule triple_pre) (use free in \<open>auto simp: inWorld_def dest: asg.count_none\<close>)
qed auto

end

end
