(* ===== verification/RegistryFittings.thy ===== *)
theory RegistryFittings
  imports RegistryTrackers
begin

text \<open>
  Fittings (\<^verbatim>\<open>Fit\<close>, \<^verbatim>\<open>Unfit\<close>, \<^verbatim>\<open>Assignments\<close> of
  \<^verbatim>\<open>internal/services/registry.go\<close>): which device is on which vehicle. The writes of
  one fitting run in a transaction where the deployment has them and in a fixed order where it
  has not; in both cases every state they pass through is reached by steps of the register.
\<close>

section \<open>Operations\<close>

record FitInput =
  VehicleID :: string
  FittedAt :: "Time option"
  InstallPhotoKey :: "string option"
  InstalledByUserID :: "string option"
  InstallNotes :: "string option"

definition openOn :: "string \<Rightarrow> TrackerAssignment \<Rightarrow> bool" where
  "openOn tid a \<longleftrightarrow> TrackerAssignment.TrackerID a = Some tid \<and> UnfittedAt a = None"

definition openAmong :: "string \<Rightarrow> string list \<Rightarrow> TrackerAssignment \<Rightarrow> bool" where
  "openAmong vid kindIDs a \<longleftrightarrow>
     TrackerAssignment.VehicleID a = vid \<and> UnfittedAt a = None \<and>
     TrackerAssignment.TrackerID a \<in> Some ` set kindIDs"

text \<open>The four writes of a fitting; the result is the id of the new assignment.\<close>

definition fitRun ::
  "'w Database \<Rightarrow> Tracker \<Rightarrow> Vehicle \<Rightarrow> string list \<Rightarrow> Time \<Rightarrow> TrackerAssignment \<Rightarrow> ('w, ObjectID option) io" where
  "fitRun D t v kindIDs at' assignment =
     (let tid = Hex (env D) (Base.ID t)
      in andThen (UpdateMany (assignments D) (openOn tid) (closeFitting at')) (\<lambda>_.
         andThen (UpdateMany (assignments D) (openAmong (Hex (env D) (Base.ID v)) kindIDs) (closeFitting at')) (\<lambda>_.
         andThen (InsertOne (assignments D) assignment) (\<lambda>i.
         if Tracker.Kind t = TrackerGPS
         then andThen (UpdateMany (col (vehicles D))
                (\<lambda>x. Vehicle.TrackerID x = Some tid \<and> Base.ID x \<noteq> Base.ID v) (setShortcut None at')) (\<lambda>_.
              andThen (UpdateOne (col (vehicles D)) (\<lambda>x. Base.ID x = Base.ID v) (setShortcut (Some tid) at')) (\<lambda>_.
              ok (Some i)))
         else ok (Some i)))))"

definition newAssignment ::
  "'w Database \<Rightarrow> string \<Rightarrow> Tracker \<Rightarrow> Vehicle \<Rightarrow> FitInput \<Rightarrow> Time \<Rightarrow> Time \<Rightarrow> TrackerAssignment" where
  "newAssignment D companyID t v inp at' now =
     TrackerAssignment_BeforeWrite
       \<lparr>TrackerAssignment.ID = NilObjectID, CompanyID = companyID,
        TrackerID = Some (Hex (env D) (Base.ID t)), VehicleID = Hex (env D) (Base.ID v),
        Kind = Tracker.Kind t, DeviceID = Tracker.DeviceID t, IMEI = Tracker.IMEI t,
        FittedAt = at', UnfittedAt = None,
        InstallPhotoKey = FitInput.InstallPhotoKey inp,
        InstalledByUserID = FitInput.InstalledByUserID inp,
        InstallNotes = FitInput.InstallNotes inp, CreatedAt = now\<rparr>"

text \<open>\<open>Fit\<close> once the device and the vehicle are known.\<close>

definition fitOn ::
  "'w Database \<Rightarrow> string \<Rightarrow> string \<Rightarrow> FitInput \<Rightarrow> Tracker \<Rightarrow> Vehicle \<Rightarrow> ('w, TrackerAssignment) io" where
  "fitOn D companyID trackerID inp t v =
     andThen (call (Now (env D))) (\<lambda>now.
     let at' = (case FitInput.FittedAt inp of None \<Rightarrow> now | Some t \<Rightarrow> t) in
     andThen (call (Now (env D))) (\<lambda>now.
     andThen (unless (\<not> at' > now + msPerMinute) (ErrValidation ''fittedAt is in the future'')) (\<lambda>_.
     andThen (Distinct (col (trackers D)) (\<lambda>s. BObjectID (Base.ID s))
       (\<lambda>s. Tracker.Kind s = Tracker.Kind t \<and> \<not> Base.Deleted s)) (\<lambda>sameKind.
     let kindIDs = concat (map (\<lambda>b. case b of BObjectID o' \<Rightarrow> [Hex (env D) o'] | _ \<Rightarrow> []) sameKind) in
     andThen (call (Now (env D))) (\<lambda>now.
     let assignment = newAssignment D companyID t v inp at' now in
     andThen (transact D (fitRun D t v kindIDs at' assignment)) (\<lambda>i.
     andThen (announce D ''tracker'' companyID trackerID ''fit'') (\<lambda>_.
     andThen (announce D ''vehicle'' companyID (FitInput.VehicleID inp) ''update'') (\<lambda>_.
     ok (case i of None \<Rightarrow> assignment | Some i \<Rightarrow> assignment\<lparr>TrackerAssignment.ID := i\<rparr>)))))))))"

definition Fit ::
  "'w Database \<Rightarrow> string \<Rightarrow> string \<Rightarrow> FitInput \<Rightarrow> ('w, TrackerAssignment) io" where
  "Fit D companyID trackerID inp =
     andThen (findTracker D companyID trackerID) (\<lambda>t.
     andThen (unless (Tracker.Status t = ''active'' \<or> Tracker.Status t = [])
       (ErrValidation (''device is '' @ Tracker.Status t))) (\<lambda>_.
     andThen (onErr (findVehicle D companyID (FitInput.VehicleID inp))
       (\<lambda>e. if e = ErrNotFound then ErrValidation ''no such vehicle'' else e))
       (fitOn D companyID trackerID inp t)))"

definition unfitRun :: "'w Database \<Rightarrow> Tracker \<Rightarrow> Time \<Rightarrow> ('w, ObjectID option) io" where
  "unfitRun D t at' =
     (let tid = Hex (env D) (Base.ID t)
      in andThen (UpdateMany (assignments D) (openOn tid) (closeFitting at')) (\<lambda>n.
         andThen (unless (n \<noteq> 0) (ErrConflict ''this device is not fitted to anything'')) (\<lambda>_.
         if Tracker.Kind t = TrackerGPS
         then andThen (UpdateMany (col (vehicles D)) (\<lambda>x. Vehicle.TrackerID x = Some tid) (setShortcut None at'))
                (\<lambda>_. ok None)
         else ok None)))"

definition Unfit :: "'w Database \<Rightarrow> string \<Rightarrow> string \<Rightarrow> Time option \<Rightarrow> ('w, unit) io" where
  "Unfit D companyID trackerID unfittedAt =
     andThen (findTracker D companyID trackerID) (\<lambda>t.
     andThen (call (Now (env D))) (\<lambda>now.
     let at' = (case unfittedAt of None \<Rightarrow> now | Some t \<Rightarrow> t) in
     andThen (attempt (FindOne (assignments D) (openOn (Hex (env D) (Base.ID t))))) (\<lambda>r.
     let vehicleID = (case r of Inr (Some a) \<Rightarrow> TrackerAssignment.VehicleID a | _ \<Rightarrow> []) in
     andThen (transact D (unfitRun D t at')) (\<lambda>_.
     andThen (announce D ''tracker'' companyID trackerID ''unfit'') (\<lambda>_.
     if vehicleID \<noteq> [] then announce D ''vehicle'' companyID vehicleID ''update'' else ok ())))))"

definition AssignmentsOf ::
  "'w Database \<Rightarrow> string \<Rightarrow> string \<Rightarrow> ('w, TrackerAssignment list) io" where
  "AssignmentsOf D companyID trackerID =
     andThen (findTracker D companyID trackerID) (\<lambda>t.
     Find (assignments D) (\<lambda>a. TrackerAssignment.TrackerID a = Some (Hex (env D) (Base.ID t)))
       (Some (findOptions \<lparr>Err = None, Page = 0, PageSize = 500, Filters = [],
          Sorts = [\<lparr>Sort.Field = ''fittedAt'', Desc = True\<rparr>], Search = []\<rparr>)))"

section \<open>What the operations do\<close>

text \<open>
  What a fitting of the device \<open>t\<close> to the vehicle \<open>vi\<close> promises: it is open, no other open
  assignment is of that device, none is of a live device of the same kind on that vehicle, and for
  a GPS device that vehicle and no other has it as its shortcut.
\<close>

definition fitted ::
  "(ObjectID \<Rightarrow> string) \<Rightarrow> Tracker \<Rightarrow> ObjectID \<Rightarrow> TrackerAssignment \<Rightarrow> MasterData \<Rightarrow> bool" where
  "fitted hex t vi a v \<longleftrightarrow>
     Trackers v (Base.ID t) = Some t \<and>
     Assignments v (TrackerAssignment.ID a) = Some a \<and>
     openOn (hex (Base.ID t)) a \<and> TrackerAssignment.VehicleID a = hex vi \<and>
     (\<forall>j b. Assignments v j = Some b \<longrightarrow> UnfittedAt b = None \<longrightarrow> j \<noteq> TrackerAssignment.ID a \<longrightarrow>
        TrackerAssignment.TrackerID b \<noteq> Some (hex (Base.ID t)) \<and>
        (TrackerAssignment.VehicleID b = hex vi \<longrightarrow>
           \<not> (\<exists>tj s. TrackerAssignment.TrackerID b = Some (hex tj) \<and> Trackers v tj = Some s \<and>
                \<not> Base.Deleted s \<and> Tracker.Kind s = Tracker.Kind t))) \<and>
     (Tracker.Kind t = TrackerGPS \<longrightarrow>
        (\<exists>y. Vehicles v vi = Some y \<and> Vehicle.TrackerID y = Some (hex (Base.ID t))) \<and>
        (\<forall>j y. Vehicles v j = Some y \<longrightarrow> Vehicle.TrackerID y = Some (hex (Base.ID t)) \<longrightarrow> j = vi))"

text \<open>And what taking it off promises, of the device as it is stored.\<close>

definition unfitted :: "(ObjectID \<Rightarrow> string) \<Rightarrow> Tracker \<Rightarrow> MasterData \<Rightarrow> bool" where
  "unfitted hex t v \<longleftrightarrow>
     Trackers v (Base.ID t) = Some t \<and>
     (\<forall>j b. Assignments v j = Some b \<longrightarrow> \<not> openOn (hex (Base.ID t)) b) \<and>
     (Tracker.Kind t = TrackerGPS \<longrightarrow>
        (\<forall>j y. Vehicles v j = Some y \<longrightarrow> Vehicle.TrackerID y \<noteq> Some (hex (Base.ID t))))"

context database
begin

lemma total_many:
  "(\<And>x. TrackerAssignment.ID (f x) = TrackerAssignment.ID x) \<Longrightarrow>
     (\<And>n. triple (holds (\<lambda>_. True)) (k n) (\<lambda>_. holds (\<lambda>_. True)) (holds (\<lambda>_. True))) \<Longrightarrow>
     triple (holds (\<lambda>_. True)) (andThen (UpdateMany (assignments D) p f) k)
       (\<lambda>_. holds (\<lambda>_. True)) (holds (\<lambda>_. True))"
  "(\<And>x. Base.ID (g x) = Base.ID x) \<Longrightarrow>
     (\<And>n. triple (holds (\<lambda>_. True)) (k n) (\<lambda>_. holds (\<lambda>_. True)) (holds (\<lambda>_. True))) \<Longrightarrow>
     triple (holds (\<lambda>_. True)) (andThen (UpdateMany (col (vehicles D)) q g) k)
       (\<lambda>_. holds (\<lambda>_. True)) (holds (\<lambda>_. True))"
  by (rule asg.bind_many [where Q' = "\<lambda>_. True"]; simp)
    (rule veh.bind_many [where Q' = "\<lambda>_. True"]; simp)

lemma fitRun_total:
  "triple (holds (\<lambda>_. True)) (fitRun D t x kindIDs at' a) (\<lambda>_. holds (\<lambda>_. True)) (holds (\<lambda>_. True))"
proof -
  have ins: "triple (holds (\<lambda>_. True)) (InsertOne (assignments D) a) (\<lambda>_. holds (\<lambda>_. True)) (holds (\<lambda>_. True))"
    by (rule asg.insert_triple) simp_all
  have one: "triple (holds (\<lambda>_. True)) (UpdateOne (col (vehicles D)) (\<lambda>y. Base.ID y = Base.ID x) (setShortcut h at'))
      (\<lambda>_. holds (\<lambda>_. True)) (holds (\<lambda>_. True))" for h
    by (rule veh.update_one_triple) simp_all
  show ?thesis
    unfolding fitRun_def Let_def
    by (rule total_many(1), simp, rule total_many(1), simp, rule triple_andThen [OF ins])
      (auto intro!: total_many(2) triple_andThen [OF one] ok_triple simp del: store_simps)
qed

lemma unfitRun_total:
  "triple (holds (\<lambda>_. True)) (unfitRun D t at') (\<lambda>_. holds (\<lambda>_. True)) (holds (\<lambda>_. True))"
  unfolding unfitRun_def Let_def
  by (rule total_many(1), simp, rule bind_unless)
    (auto intro!: total_many(2) ok_triple simp del: store_simps)

lemma bind_close:
  assumes k: "\<And>n. triple (holds (\<lambda>v. Q v \<and> (\<forall>j b. Assignments v j = Some b \<longrightarrow> \<not> p b))) (k n) R (holds E)"
    and p: "\<And>a. p a \<Longrightarrow> UnfittedAt a = None"
    and Q: "\<And>v S. Q v \<Longrightarrow> Q (v\<lparr>Assignments := modify S p (closeFitting at') (Assignments v)\<rparr>)"
    and E: "\<And>v. Q v \<Longrightarrow> E v"
  shows "triple (holds Q) (andThen (UpdateMany (assignments D) p (closeFitting at')) k) R (holds E)"
proof (rule asg.bind_many [OF _ _ _ k])
  fix v assume v: "Q v"
  have "\<not> p b" if "modify UNIV p (closeFitting at') (Assignments v) j = Some b" for j b
  proof -
    from that obtain b0 where "b = (if p b0 then closeFitting at' b0 else b0)" by (auto simp: modify_Some)
    then show ?thesis using p [of b] by (cases "p b0") auto
  qed
  then show "Q (v\<lparr>Assignments := modify UNIV p (closeFitting at') (Assignments v)\<rparr>) \<and>
      (\<forall>j b. Assignments (v\<lparr>Assignments := modify UNIV p (closeFitting at') (Assignments v)\<rparr>) j = Some b \<longrightarrow> \<not> p b)"
    using Q [OF v] by simp
qed (use Q E in simp_all)

lemma openOn_open: "openOn tid a \<Longrightarrow> UnfittedAt a = None"
  by (simp add: openOn_def)

lemma openAmong_open: "openAmong vid ids a \<Longrightarrow> UnfittedAt a = None"
  by (simp add: openAmong_def)

lemma close_keeps_free:
  assumes "\<forall>j b. m j = Some b \<longrightarrow> \<not> openOn tid b"
  shows "\<forall>j b. modify S p (closeFitting at') m j = Some b \<longrightarrow> \<not> openOn tid b"
proof (intro allI impI)
  fix j b assume "modify S p (closeFitting at') m j = Some b"
  then obtain b0 where "m j = Some b0" "b = closeFitting at' b0 \<or> b = b0" by (auto simp: modify_Some)
  then show "\<not> openOn tid b" using assms by (auto simp: openOn_def)
qed

lemma moved_close:
  assumes "\<And>a. p a \<Longrightarrow> UnfittedAt a = None" and "moved canon co v0 v"
  shows "moved canon co v0 (v\<lparr>Assignments := modify S p (closeFitting at') (Assignments v)\<rparr>)"
  using moved_step [OF assms(2) registry_step.fittings_closed [of p]] assms(1) by blast

lemma moved_clear:
  "moved canon co v0 v \<Longrightarrow>
     moved canon co v0 (v\<lparr>Vehicles := modify S p (setShortcut None at') (Vehicles v)\<rparr>)"
  using moved_step registry_step.shortcuts_cleared by blast

text \<open>The documents the writes of a fitting do not touch.\<close>

definition fitting :: "bool \<Rightarrow> string \<Rightarrow> MasterData \<Rightarrow> Tracker \<Rightarrow> ObjectID \<Rightarrow> string list \<Rightarrow> MasterData \<Rightarrow> bool" where
  "fitting canon co v0 t vi kindIDs v \<longleftrightarrow>
     moved canon co v0 v \<and> Trackers v (Base.ID t) = Some t \<and> \<not> Base.Deleted t \<and>
     (\<exists>y. Vehicles v vi = Some y \<and> Vehicle.CompanyID y = co \<and> \<not> Base.Deleted y) \<and>
     (\<forall>tj s. Trackers v tj = Some s \<longrightarrow> \<not> Base.Deleted s \<longrightarrow> Tracker.Kind s = Tracker.Kind t \<longrightarrow>
        Hex (env D) tj \<in> set kindIDs)"

lemma fitting_close:
  "(\<And>a. p a \<Longrightarrow> UnfittedAt a = None) \<Longrightarrow> fitting canon co v0 t vi kindIDs v \<Longrightarrow>
     fitting canon co v0 t vi kindIDs (v\<lparr>Assignments := modify S p (closeFitting at') (Assignments v)\<rparr>)"
  by (simp add: fitting_def moved_close)

lemma fitting_clear:
  assumes "fitting canon co v0 t vi kindIDs v"
  shows "fitting canon co v0 t vi kindIDs (v\<lparr>Vehicles := modify S p (setShortcut None at') (Vehicles v)\<rparr>)"
proof -
  from assms obtain y where "Vehicles v vi = Some y" "Vehicle.CompanyID y = co" "\<not> Base.Deleted y"
    by (auto simp: fitting_def)
  then have "\<exists>y. modify S p (setShortcut None at') (Vehicles v) vi = Some y \<and>
      Vehicle.CompanyID y = co \<and> \<not> Base.Deleted y"
    by (auto simp: modify_Some)
  then show ?thesis using assms moved_clear [of canon co v0 v] by (simp add: fitting_def)
qed

text \<open>After the insertion the assignment is there and nothing competes with it.\<close>

definition opened :: "Tracker \<Rightarrow> ObjectID \<Rightarrow> string list \<Rightarrow> TrackerAssignment \<Rightarrow> MasterData \<Rightarrow> bool" where
  "opened t vi kindIDs a v \<longleftrightarrow>
     Assignments v (TrackerAssignment.ID a) = Some a \<and>
     openOn (Hex (env D) (Base.ID t)) a \<and> TrackerAssignment.VehicleID a = Hex (env D) vi \<and>
     (\<forall>j b. Assignments v j = Some b \<longrightarrow> j \<noteq> TrackerAssignment.ID a \<longrightarrow>
        \<not> openOn (Hex (env D) (Base.ID t)) b \<and> \<not> openAmong (Hex (env D) vi) kindIDs b)"

lemma fitting_insert:
  assumes v: "fitting canon co v0 t vi kindIDs v"
    and free: "\<forall>j b. Assignments v j = Some b \<longrightarrow> \<not> openOn (Hex (env D) (Base.ID t)) b"
      "\<forall>j b. Assignments v j = Some b \<longrightarrow> \<not> openAmong (Hex (env D) vi) kindIDs b"
    and a: "TrackerAssignment.CompanyID a = co" "openOn (Hex (env D) (Base.ID t)) a"
      "TrackerAssignment.VehicleID a = Hex (env D) vi" "settled_TrackerAssignment a"
      "TrackerAssignment.Kind a = ifEmpty (Tracker.Kind t) TrackerGPS"
    and new: "Assignments v i = None"
  shows "fitting canon co v0 t vi kindIDs (v\<lparr>Assignments := (Assignments v)(i \<mapsto> a\<lparr>TrackerAssignment.ID := i\<rparr>)\<rparr>)"
    and "opened t vi kindIDs (a\<lparr>TrackerAssignment.ID := i\<rparr>)
           (v\<lparr>Assignments := (Assignments v)(i \<mapsto> a\<lparr>TrackerAssignment.ID := i\<rparr>)\<rparr>)"
proof -
  let ?a = "a\<lparr>TrackerAssignment.ID := i\<rparr>"
  from v obtain y where y: "Vehicles v vi = Some y" "Vehicle.CompanyID y = co" "\<not> Base.Deleted y"
    and t: "Trackers v (Base.ID t) = Some t" "\<not> Base.Deleted t"
    and kind: "\<And>tj s. Trackers v tj = Some s \<Longrightarrow> \<not> Base.Deleted s \<Longrightarrow> Tracker.Kind s = Tracker.Kind t \<Longrightarrow>
        Hex (env D) tj \<in> set kindIDs"
    by (auto simp: fitting_def)
  have "registry_step (Hex (env D)) canon co v (v\<lparr>Assignments := (Assignments v)(i \<mapsto> ?a)\<rparr>)"
  proof (rule registry_step.device_fitted [OF new _ _ _ _ t _ _ y])
    fix j b assume b: "Assignments v j = Some b" "UnfittedAt b = None"
    have "TrackerAssignment.TrackerID b \<noteq> Some (Hex (env D) (Base.ID t))"
      using free(1) b unfolding openOn_def by blast
    moreover have "\<not> (\<exists>tj s. TrackerAssignment.TrackerID b = Some (Hex (env D) tj) \<and> Trackers v tj = Some s \<and>
        \<not> Base.Deleted s \<and> Tracker.Kind s = Tracker.Kind t)"
      if "TrackerAssignment.VehicleID b = Hex (env D) vi"
      using free(2) b kind that unfolding openAmong_def by blast
    ultimately show "TrackerAssignment.TrackerID b \<noteq> Some (Hex (env D) (Base.ID t)) \<and>
        (TrackerAssignment.VehicleID b = Hex (env D) vi \<longrightarrow>
         \<not> (\<exists>tj s. TrackerAssignment.TrackerID b = Some (Hex (env D) tj) \<and> Trackers v tj = Some s \<and>
              \<not> Base.Deleted s \<and> Tracker.Kind s = Tracker.Kind t))" by blast
  qed (use a in \<open>simp_all add: openOn_def settled_TrackerAssignment_def\<close>)
  then show "fitting canon co v0 t vi kindIDs (v\<lparr>Assignments := (Assignments v)(i \<mapsto> ?a)\<rparr>)"
    using v moved_step [of canon co v0 v] by (simp add: fitting_def)
  show "opened t vi kindIDs ?a (v\<lparr>Assignments := (Assignments v)(i \<mapsto> ?a)\<rparr>)"
    using free a by (simp add: opened_def openOn_def)
qed

text \<open>The two writes of the vehicles' shortcuts.\<close>

lemma opened_vehicles [simp]: "opened t vi kindIDs a (v\<lparr>Vehicles := m\<rparr>) = opened t vi kindIDs a v"
  by (simp add: opened_def)

lemma shortcut_alone:
  assumes "\<forall>j y. Vehicles v j = Some y \<longrightarrow> Base.ID y = j \<and> j \<noteq> NilObjectID"
  shows "\<forall>j y. Vehicles (v\<lparr>Vehicles := modify UNIV (\<lambda>x. Vehicle.TrackerID x = Some tid \<and> Base.ID x \<noteq> vi)
      (setShortcut None at') (Vehicles v)\<rparr>) j = Some y \<longrightarrow> Vehicle.TrackerID y = Some tid \<longrightarrow> j = vi"
proof (intro allI impI)
  fix j y assume "Vehicles (v\<lparr>Vehicles := modify UNIV (\<lambda>x. Vehicle.TrackerID x = Some tid \<and> Base.ID x \<noteq> vi)
      (setShortcut None at') (Vehicles v)\<rparr>) j = Some y" and tid: "Vehicle.TrackerID y = Some tid"
  then obtain y0 where y0: "Vehicles v j = Some y0"
    "y = (if Vehicle.TrackerID y0 = Some tid \<and> Base.ID y0 \<noteq> vi then setShortcut None at' y0 else y0)"
    by (auto simp: modify_Some)
  then have "Base.ID y0 = vi" using tid by (auto split: if_splits)
  then show "j = vi" using assms y0(1) by blast
qed

lemma fitting_shortcut:
  assumes v: "fitting canon co v0 t vi kindIDs v"
    and up: "updated (\<lambda>y. Base.ID y = vi) (setShortcut (Some h) at') (Vehicles v) m'"
    and key: "\<And>j y. Vehicles v j = Some y \<Longrightarrow> Base.ID y = j"
  obtains y where "m' = (Vehicles v)(vi \<mapsto> setShortcut (Some h) at' y)"
    and "moved canon co v0 (v\<lparr>Vehicles := m'\<rparr>)"
proof -
  from v obtain y where y: "Vehicles v vi = Some y" "Vehicle.CompanyID y = co" by (auto simp: fitting_def)
  then have m': "m' = (Vehicles v)(vi \<mapsto> setShortcut (Some h) at' y)"
    using updated_by_id_fun [OF up, of Base.ID vi] key by auto
  moreover have "moved canon co v0 (v\<lparr>Vehicles := m'\<rparr>)"
    unfolding m' by (rule moved_step [OF _ registry_step.shortcut_set [OF y]]) (use v in \<open>simp add: fitting_def\<close>)
  ultimately show ?thesis by (rule that)
qed

lemma opened_fitted:
  assumes "opened t vi kindIDs a v" "fitting canon co v0 t vi kindIDs v"
    and "Tracker.Kind t = TrackerGPS \<Longrightarrow>
        (\<exists>y. m' vi = Some y \<and> Vehicle.TrackerID y = Some (Hex (env D) (Base.ID t))) \<and>
        (\<forall>j y. m' j = Some y \<longrightarrow> Vehicle.TrackerID y = Some (Hex (env D) (Base.ID t)) \<longrightarrow> j = vi)"
  shows "fitted (Hex (env D)) t vi a (v\<lparr>Vehicles := m'\<rparr>)"
proof -
  have "TrackerAssignment.TrackerID b \<noteq> Some (Hex (env D) (Base.ID t)) \<and>
      (TrackerAssignment.VehicleID b = Hex (env D) vi \<longrightarrow>
       \<not> (\<exists>tj s. TrackerAssignment.TrackerID b = Some (Hex (env D) tj) \<and> Trackers v tj = Some s \<and>
            \<not> Base.Deleted s \<and> Tracker.Kind s = Tracker.Kind t))"
    if "Assignments v j = Some b" "UnfittedAt b = None" "j \<noteq> TrackerAssignment.ID a" for j b
    using assms(1,2) that unfolding opened_def fitting_def openOn_def openAmong_def by blast
  then show ?thesis using assms by (simp add: fitted_def opened_def fitting_def)
qed

lemma fitRun_triple:
  assumes a: "TrackerAssignment.CompanyID a = co" "openOn (Hex (env D) (Base.ID t)) a"
      "TrackerAssignment.VehicleID a = Hex (env D) (Base.ID x)" "settled_TrackerAssignment a"
      "TrackerAssignment.Kind a = ifEmpty (Tracker.Kind t) TrackerGPS"
  shows "triple (holds (fitting canon co v0 t (Base.ID x) kindIDs)) (fitRun D t x kindIDs at' a)
    (\<lambda>r. holds (\<lambda>v. moved canon co v0 v \<and>
       (\<exists>i. r = Some i \<and> fitted (Hex (env D)) t (Base.ID x) (a\<lparr>TrackerAssignment.ID := i\<rparr>) v)))
    (holds (moved canon co v0))"
  unfolding fitRun_def Let_def
proof (intro bind_close)
  let ?tid = "Hex (env D) (Base.ID t)" and ?vi = "Base.ID x"
  let ?Q = "fitting canon co v0 t ?vi kindIDs"
  let ?done = "\<lambda>r v. moved canon co v0 v \<and>
       (\<exists>i. r = Some i \<and> fitted (Hex (env D)) t ?vi (a\<lparr>TrackerAssignment.ID := i\<rparr>) v)"
  let ?I = "\<lambda>i v. ?Q v \<and> opened t ?vi kindIDs (a\<lparr>TrackerAssignment.ID := i\<rparr>) v"
  let ?J = "\<lambda>i v. ?I i v \<and> (\<forall>j y. Vehicles v j = Some y \<longrightarrow> Vehicle.TrackerID y = Some ?tid \<longrightarrow> j = ?vi)"
  have set_one: "triple (holds (?J i))
      (andThen (UpdateOne (col (vehicles D)) (\<lambda>y. Base.ID y = ?vi) (setShortcut (Some ?tid) at')) (\<lambda>_. ok (Some i)))
      (\<lambda>r. holds (?done r)) (holds (moved canon co v0))" for i
  proof (rule veh.with_keys, rule triple_andThen [OF veh.update_one_triple [where Q = "\<lambda>_. ?done (Some i)"]])
    fix v m'
    assume v: "?J i v \<and> (\<forall>i d. Vehicles v i = Some d \<longrightarrow> IDOf (methods (vehicles D)) d = i \<and> i \<noteq> NilObjectID) \<and>
        finite (dom (Vehicles v)) \<and> indexed vehicle_indexes (Vehicles v)"
      and key: "\<And>j y. Vehicles v j = Some y \<Longrightarrow> IDOf (methods (vehicles D)) y = j"
      and up: "updated (\<lambda>y. Base.ID y = ?vi) (setShortcut (Some ?tid) at') (Vehicles v) m'"
    from v have q: "?Q v" by blast
    obtain y where m': "m' = (Vehicles v)(?vi \<mapsto> setShortcut (Some ?tid) at' y)"
      and moved: "moved canon co v0 (v\<lparr>Vehicles := m'\<rparr>)"
      by (rule fitting_shortcut [OF q up key [unfolded store_simps methods_simps]])
    have "fitted (Hex (env D)) t ?vi (a\<lparr>TrackerAssignment.ID := i\<rparr>) (v\<lparr>Vehicles := m'\<rparr>)"
      by (rule opened_fitted [OF _ q]) (use v m' in auto)
    then show "?done (Some i) (v\<lparr>Vehicles := m'\<rparr>) \<and> moved canon co v0 (v\<lparr>Vehicles := m'\<rparr>)"
      using moved by blast
  next
    fix v assume "?J i v \<and> (\<forall>i d. Vehicles v i = Some d \<longrightarrow> IDOf (methods (vehicles D)) d = i \<and> i \<noteq> NilObjectID) \<and>
        finite (dom (Vehicles v)) \<and> indexed vehicle_indexes (Vehicles v)"
      and "matching (\<lambda>y. Base.ID y = ?vi) (Vehicles v) = {}"
    then show "?done (Some i) v" by (auto simp: matching_def fitting_def)
  next
    show "triple (holds (?done (Some i))) (ok (Some i)) (\<lambda>r. holds (?done r)) (holds (moved canon co v0))"
      by (rule triple_ok)
  qed (simp_all add: fitting_def)
  have gps: "triple (holds (?I i)) (andThen (UpdateMany (col (vehicles D))
         (\<lambda>y. Vehicle.TrackerID y = Some ?tid \<and> Base.ID y \<noteq> ?vi) (setShortcut None at')) (\<lambda>_.
       andThen (UpdateOne (col (vehicles D)) (\<lambda>y. Base.ID y = ?vi) (setShortcut (Some ?tid) at')) (\<lambda>_. ok (Some i))))
      (\<lambda>r. holds (?done r)) (holds (moved canon co v0))" for i
  proof (rule veh.with_keys, rule veh.bind_many [OF _ _ _ set_one])
    let ?p = "\<lambda>y. Vehicle.TrackerID y = Some ?tid \<and> Base.ID y \<noteq> ?vi"
    fix v assume v: "?I i v \<and> (\<forall>i d. Vehicles v i = Some d \<longrightarrow> IDOf (methods (vehicles D)) d = i \<and> i \<noteq> NilObjectID) \<and>
        finite (dom (Vehicles v)) \<and> indexed vehicle_indexes (Vehicles v)"
    then have "?I i (v\<lparr>Vehicles := modify UNIV ?p (setShortcut None at') (Vehicles v)\<rparr>)"
      using fitting_clear [of canon co v0 t ?vi kindIDs v UNIV ?p at'] by simp
    moreover have "\<forall>j y. Vehicles v j = Some y \<longrightarrow> Base.ID y = j \<and> j \<noteq> NilObjectID"
      using v by simp
    ultimately show "?J i (v\<lparr>Vehicles := modify UNIV ?p (setShortcut None at') (Vehicles v)\<rparr>)"
      using shortcut_alone [of v ?tid ?vi at'] by blast
  next
    fix v S assume "?I i v \<and> (\<forall>i d. Vehicles v i = Some d \<longrightarrow> IDOf (methods (vehicles D)) d = i \<and> i \<noteq> NilObjectID) \<and>
        finite (dom (Vehicles v)) \<and> indexed vehicle_indexes (Vehicles v)"
    then have "moved canon co v0 v" by (simp add: fitting_def)
    then show "moved canon co v0 (v\<lparr>Vehicles := modify S (\<lambda>y. Vehicle.TrackerID y = Some ?tid \<and> Base.ID y \<noteq> ?vi)
        (setShortcut None at') (Vehicles v)\<rparr>)"
      by (rule moved_clear)
  qed simp
  show "triple (holds (\<lambda>v. (?Q v \<and> (\<forall>j b. Assignments v j = Some b \<longrightarrow> \<not> openOn ?tid b)) \<and>
        (\<forall>j b. Assignments v j = Some b \<longrightarrow> \<not> openAmong (Hex (env D) ?vi) kindIDs b)))
      (andThen (InsertOne (assignments D) a) (\<lambda>i. if Tracker.Kind t = TrackerGPS
         then andThen (UpdateMany (col (vehicles D))
                (\<lambda>y. Vehicle.TrackerID y = Some ?tid \<and> Base.ID y \<noteq> ?vi) (setShortcut None at')) (\<lambda>_.
              andThen (UpdateOne (col (vehicles D)) (\<lambda>y. Base.ID y = ?vi) (setShortcut (Some ?tid) at')) (\<lambda>_.
              ok (Some i)))
         else ok (Some i)))
      (\<lambda>r. holds (?done r)) (holds (moved canon co v0))"
  proof (rule triple_andThen [OF asg.insert_triple [where Q = ?I]])
    fix v i m'
    assume v: "(?Q v \<and> (\<forall>j b. Assignments v j = Some b \<longrightarrow> \<not> openOn ?tid b)) \<and>
        (\<forall>j b. Assignments v j = Some b \<longrightarrow> \<not> openAmong (Hex (env D) ?vi) kindIDs b)"
      and "inserted TrackerAssignment.ID (\<lambda>i d. d\<lparr>TrackerAssignment.ID := i\<rparr>) a i (Assignments v) m'"
    then have new: "Assignments v i = None" and m': "m' = (Assignments v)(i \<mapsto> a\<lparr>TrackerAssignment.ID := i\<rparr>)"
      by (auto simp: inserted_def)
    have "?I i (v\<lparr>Assignments := m'\<rparr>)"
      unfolding m' using fitting_insert [OF _ _ _ a new] v by blast
    then show "?I i (v\<lparr>Assignments := m'\<rparr>) \<and> moved canon co v0 (v\<lparr>Assignments := m'\<rparr>)"
      by (simp add: fitting_def)
  next
    fix i
    have "?I i v \<Longrightarrow> Tracker.Kind t \<noteq> TrackerGPS \<Longrightarrow> ?done (Some i) v" for v
      using opened_fitted [of t ?vi kindIDs _ v canon co v0 "Vehicles v"] by (simp add: fitting_def)
    then have "triple (holds (?I i)) (ok (Some i)) (\<lambda>r. holds (?done r)) (holds (moved canon co v0))"
      if "Tracker.Kind t \<noteq> TrackerGPS"
      using that by (intro triple_ok) (simp add: inWorld_def)
    then show "triple (holds (?I i)) (if Tracker.Kind t = TrackerGPS
         then andThen (UpdateMany (col (vehicles D))
                (\<lambda>y. Vehicle.TrackerID y = Some ?tid \<and> Base.ID y \<noteq> ?vi) (setShortcut None at')) (\<lambda>_.
              andThen (UpdateOne (col (vehicles D)) (\<lambda>y. Base.ID y = ?vi) (setShortcut (Some ?tid) at')) (\<lambda>_.
              ok (Some i)))
         else ok (Some i)) (\<lambda>r. holds (?done r)) (holds (moved canon co v0))"
      using gps by simp
  qed (simp add: fitting_def)
next
  fix v S
  assume v: "fitting canon co v0 t (Base.ID x) kindIDs v \<and>
      (\<forall>j b. Assignments v j = Some b \<longrightarrow> \<not> openOn (Hex (env D) (Base.ID t)) b)"
  have "\<forall>j b. modify S (openAmong (Hex (env D) (Base.ID x)) kindIDs) (closeFitting at') (Assignments v) j = Some b \<longrightarrow>
      \<not> openOn (Hex (env D) (Base.ID t)) b"
    by (rule close_keeps_free) (use v in blast)
  then show "fitting canon co v0 t (Base.ID x) kindIDs
        (v\<lparr>Assignments := modify S (openAmong (Hex (env D) (Base.ID x)) kindIDs) (closeFitting at') (Assignments v)\<rparr>) \<and>
      (\<forall>j b. Assignments (v\<lparr>Assignments := modify S (openAmong (Hex (env D) (Base.ID x)) kindIDs) (closeFitting at')
           (Assignments v)\<rparr>) j = Some b \<longrightarrow> \<not> openOn (Hex (env D) (Base.ID t)) b)"
    using v fitting_close [OF openAmong_open] by simp
next
  fix v S assume "fitting canon co v0 t (Base.ID x) kindIDs v"
  then show "fitting canon co v0 t (Base.ID x) kindIDs
      (v\<lparr>Assignments := modify S (openOn (Hex (env D) (Base.ID t))) (closeFitting at') (Assignments v)\<rparr>)"
    by (rule fitting_close [rotated]) (rule openOn_open)
qed (simp_all add: fitting_def openOn_open openAmong_open)

lemma bind_findVehicle_onErr:
  assumes "\<And>x. ObjectIDFromHex (env D) (TrimSpace ident) = Some (Base.ID x) \<Longrightarrow>
      Vehicle.CompanyID x = co \<Longrightarrow> \<not> Base.Deleted x \<Longrightarrow>
      triple (holds (\<lambda>v. Q v \<and> Vehicles v (Base.ID x) = Some x)) (k x) R (holds E)"
    and "\<And>v. Q v \<Longrightarrow> E v"
  shows "triple (holds Q) (andThen (onErr (findVehicle D co ident) f) k) R (holds E)"
proof -
  let ?x = "\<lambda>x. ObjectIDFromHex (env D) (TrimSpace ident) = Some (Base.ID x) \<and>
      Vehicle.CompanyID x = co \<and> \<not> Base.Deleted x"
  have "triple (holds Q) (andThen (findVehicle D co ident) ok)
      (\<lambda>x. holds (\<lambda>v. (Q v \<and> Vehicles v (Base.ID x) = Some x) \<and> ?x x)) (holds E)"
    by (rule bind_findVehicle) (auto intro!: ok_here assms(2))
  then have "triple (holds Q) (findVehicle D co ident)
      (\<lambda>x. holds (\<lambda>v. (Q v \<and> Vehicles v (Base.ID x) = Some x) \<and> ?x x)) (holds E)"
    by (simp only: andThen_id)
  then show ?thesis
  proof (rule triple_andThen [OF triple_onErr])
    fix x
    show "triple (holds (\<lambda>v. (Q v \<and> Vehicles v (Base.ID x) = Some x) \<and> ?x x)) (k x) R (holds E)"
      by (rule pure) (use assms(1) in blast)
  qed
qed

lemma bind_sameKind:
  assumes "\<And>ids. triple (holds (\<lambda>v. Q v \<and> (\<forall>tj s. Trackers v tj = Some s \<longrightarrow> \<not> Base.Deleted s \<longrightarrow>
        Tracker.Kind s = kd \<longrightarrow> Hex (env D) tj \<in> set ids))) (k ids) R (holds E)"
    and "\<And>v. Q v \<Longrightarrow> E v"
  shows "triple (holds Q)
      (andThen (Distinct (col (trackers D)) (\<lambda>s. BObjectID (Base.ID s))
         (\<lambda>s. Tracker.Kind s = kd \<and> \<not> Base.Deleted s)) (\<lambda>sameKind.
       k (concat (map (\<lambda>b. case b of BObjectID o' \<Rightarrow> [Hex (env D) o'] | _ \<Rightarrow> []) sameKind)))) R (holds E)"
proof (rule trk.with_keys)
  let ?K = "\<lambda>v. Q v \<and> (\<forall>i d. Trackers v i = Some d \<longrightarrow> Base.ID d = i)"
  let ?p = "\<lambda>s. Tracker.Kind s = kd \<and> \<not> Base.Deleted s"
  let ?ids = "\<lambda>vs. concat (map (\<lambda>b. case b of BObjectID o' \<Rightarrow> [Hex (env D) o'] | _ \<Rightarrow> []) vs)"
  have dist: "triple (holds ?K) (Distinct (col (trackers D)) (\<lambda>s. BObjectID (Base.ID s)) ?p)
      (\<lambda>vs. holds (\<lambda>v. ?K v \<and> set vs = {BObjectID (Base.ID d) |d i. Trackers v i = Some d \<and> ?p d})) (holds E)"
    by (rule triple_conseq [OF trk.distinct_triple [where P = ?K]]) (auto simp: inWorld_def assms(2))
  have k: "triple (holds (\<lambda>v. ?K v \<and> set vs = {BObjectID (Base.ID d) |d i. Trackers v i = Some d \<and> ?p d}))
      (k (?ids vs)) R (holds E)" for vs
  proof (rule weaken [OF assms(1)], intro conjI allI impI)
    fix v tj s
    assume v: "?K v \<and> set vs = {BObjectID (Base.ID d) |d i. Trackers v i = Some d \<and> ?p d}"
      and s: "Trackers v tj = Some s" "\<not> Base.Deleted s" "Tracker.Kind s = kd"
    have "BObjectID (Base.ID s) \<in> set vs" using v s by blast
    moreover have "Base.ID s = tj" using v s(1) by blast
    ultimately show "Hex (env D) tj \<in> set (?ids vs)" by force
  qed blast
  show "triple (holds (\<lambda>v. Q v \<and> (\<forall>i d. Trackers v i = Some d \<longrightarrow> IDOf (methods (trackers D)) d = i \<and> i \<noteq> NilObjectID) \<and>
      finite (dom (Trackers v)) \<and> indexed tracker_indexes (Trackers v)))
    (andThen (Distinct (col (trackers D)) (\<lambda>s. BObjectID (Base.ID s)) ?p) (\<lambda>vs. k (?ids vs))) R (holds E)"
    by (rule weaken [OF triple_andThen [OF dist k]]) simp
qed

lemma newAssignment_facts:
  "TrackerAssignment.CompanyID (newAssignment D co t x inp at' now) = co"
  "openOn (Hex (env D) (Base.ID t)) (newAssignment D co t x inp at' now)"
  "TrackerAssignment.VehicleID (newAssignment D co t x inp at' now) = Hex (env D) (Base.ID x)"
  "settled_TrackerAssignment (newAssignment D co t x inp at' now)"
  "TrackerAssignment.Kind (newAssignment D co t x inp at' now) = ifEmpty (Tracker.Kind t) TrackerGPS"
  by (simp_all add: newAssignment_def settled_TrackerAssignment_BeforeWrite)
    (simp_all add: TrackerAssignment_BeforeWrite_def Let_def openOn_def)

abbreviation fitDone ::
  "bool \<Rightarrow> string \<Rightarrow> MasterData \<Rightarrow> string \<Rightarrow> FitInput \<Rightarrow> TrackerAssignment \<Rightarrow> MasterData \<Rightarrow> bool" where
  "fitDone canon co v0 ident inp a v \<equiv> moved canon co v0 v \<and>
     (\<exists>t vi. ObjectIDFromHex (env D) (TrimSpace ident) = Some (Base.ID t) \<and>
        ObjectIDFromHex (env D) (TrimSpace (FitInput.VehicleID inp)) = Some vi \<and>
        fitted (Hex (env D)) t vi a v)"

lemma fitOn_triple:
  assumes t: "ObjectIDFromHex (env D) (TrimSpace ident) = Some (Base.ID t)" "\<not> Base.Deleted t"
    and x: "ObjectIDFromHex (env D) (TrimSpace (FitInput.VehicleID inp)) = Some (Base.ID x)"
      "Vehicle.CompanyID x = co" "\<not> Base.Deleted x"
  shows "triple (holds (\<lambda>v. (moved canon co v0 v \<and> Trackers v (Base.ID t) = Some t) \<and> Vehicles v (Base.ID x) = Some x))
    (fitOn D co ident inp t x) (\<lambda>a. holds (fitDone canon co v0 ident inp a)) (holds (moved canon co v0))"
  unfolding fitOn_def Let_def
proof (rule bind_now, rule bind_now, rule bind_unless, rule bind_sameKind, rule bind_now)
  fix now ids created
  let ?at = "case FitInput.FittedAt inp of None \<Rightarrow> now | Some t \<Rightarrow> t"
  let ?a = "newAssignment D co t x inp ?at created"
  let ?F = "\<lambda>r v. moved canon co v0 v \<and>
     (\<exists>i. r = Some i \<and> fitted (Hex (env D)) t (Base.ID x) (?a\<lparr>TrackerAssignment.ID := i\<rparr>) v)"
  let ?close = "\<lambda>r. andThen (announce D ''tracker'' co ident ''fit'') (\<lambda>_.
     andThen (announce D ''vehicle'' co (FitInput.VehicleID inp) ''update'') (\<lambda>_.
     ok (case r of None \<Rightarrow> ?a | Some i \<Rightarrow> ?a\<lparr>TrackerAssignment.ID := i\<rparr>)))"
  have finish: "triple (holds (?F r)) (?close r) (\<lambda>a. holds (fitDone canon co v0 ident inp a))
      (holds (moved canon co v0))" for r
  proof (cases r)
    case (Some i)
    have "triple (holds (?F (Some i))) (ok (?a\<lparr>TrackerAssignment.ID := i\<rparr>))
        (\<lambda>a. holds (fitDone canon co v0 ident inp a)) (holds (moved canon co v0))"
      by (rule ok_here) (use x t in auto)
    then show ?thesis using Some by (auto intro!: bind_announce)
  qed (simp add: triple_def inWorld_def)
  have "triple (holds (fitting canon co v0 t (Base.ID x) ids))
      (andThen (transact D (fitRun D t x ids ?at ?a)) ?close) (\<lambda>a. holds (fitDone canon co v0 ident inp a))
      (holds (moved canon co v0))"
    by (rule triple_andThen [OF transact_triple [OF fitRun_triple fitRun_total]], rule newAssignment_facts,
        rule newAssignment_facts, rule newAssignment_facts, rule newAssignment_facts, rule newAssignment_facts)
      (use finish in \<open>simp_all add: fitting_def\<close>)
  then show "triple (holds (\<lambda>v. ((moved canon co v0 v \<and> Trackers v (Base.ID t) = Some t) \<and> Vehicles v (Base.ID x) = Some x) \<and>
        (\<forall>tj s. Trackers v tj = Some s \<longrightarrow> \<not> Base.Deleted s \<longrightarrow> Tracker.Kind s = Tracker.Kind t \<longrightarrow>
           Hex (env D) tj \<in> set ids)))
      (andThen (transact D (fitRun D t x ids ?at ?a)) ?close) (\<lambda>a. holds (fitDone canon co v0 ident inp a))
      (holds (moved canon co v0))"
    by (rule weaken) (use x t in \<open>auto simp: fitting_def\<close>)
qed auto

lemma Fit_triple:
  "triple (holds (moved canon co v0)) (Fit D co ident inp)
     (\<lambda>a. holds (fitDone canon co v0 ident inp a)) (holds (moved canon co v0))"
  unfolding Fit_def by (intro bind_findTracker bind_unless bind_findVehicle_onErr fitOn_triple) auto

lemma unfitRun_triple:
  "triple (holds (\<lambda>v. moved canon co v0 v \<and> Trackers v (Base.ID t) = Some t)) (unfitRun D t at')
     (\<lambda>r. holds (\<lambda>v. moved canon co v0 v \<and> unfitted (Hex (env D)) t v)) (holds (moved canon co v0))"
  unfolding unfitRun_def Let_def
proof (rule bind_close, rule bind_unless)
  let ?tid = "Hex (env D) (Base.ID t)"
  let ?Q = "\<lambda>v. (moved canon co v0 v \<and> Trackers v (Base.ID t) = Some t) \<and> (\<forall>j b. Assignments v j = Some b \<longrightarrow> \<not> openOn ?tid b)"
  let ?R = "\<lambda>r v. moved canon co v0 v \<and> unfitted (Hex (env D)) t v"
  let ?p = "\<lambda>x. Vehicle.TrackerID x = Some ?tid"
  have gone: "\<forall>j y. modify UNIV ?p (setShortcut None at') m j = Some y \<longrightarrow> \<not> ?p y" for m
  proof (intro allI impI)
    fix j y assume "modify UNIV ?p (setShortcut None at') m j = Some y"
    then obtain y0 where "y = (if ?p y0 then setShortcut None at' y0 else y0)" by (auto simp: modify_Some)
    then show "\<not> ?p y" by auto
  qed
  have "triple (holds ?Q) (andThen (UpdateMany (col (vehicles D)) ?p (setShortcut None at')) (\<lambda>_. ok (None :: ObjectID option)))
      (\<lambda>r. holds (?R r)) (holds (moved canon co v0))"
  proof (rule veh.bind_many)
    fix v assume "?Q v"
    then show "?R None (v\<lparr>Vehicles := modify UNIV ?p (setShortcut None at') (Vehicles v)\<rparr>)"
      using gone [of "Vehicles v"] by (auto simp: unfitted_def moved_clear)
  next
    show "triple (holds (?R None)) (ok (None :: ObjectID option)) (\<lambda>r. holds (?R r)) (holds (moved canon co v0))"
      by (rule triple_ok)
  qed (auto simp: moved_clear)
  moreover have "triple (holds ?Q) (ok (None :: ObjectID option)) (\<lambda>r. holds (?R r)) (holds (moved canon co v0))"
    if "Tracker.Kind t \<noteq> TrackerGPS"
    by (rule ok_here) (use that in \<open>auto simp: unfitted_def\<close>)
  ultimately show "triple (holds ?Q) (if Tracker.Kind t = TrackerGPS
      then andThen (UpdateMany (col (vehicles D)) ?p (setShortcut None at')) (\<lambda>_. ok None) else ok (None :: ObjectID option))
      (\<lambda>r. holds (?R r)) (holds (moved canon co v0))"
    by simp
qed (auto simp: openOn_open moved_close)

lemma bind_attempt_open:
  assumes "\<And>r. triple (holds Q) (k r) R (holds E)"
  shows "triple (holds Q) (andThen (attempt (FindOne (assignments D) p)) k) R (holds E)"
proof (rule triple_andThen [OF triple_attempt])
  show "triple (holds Q) (FindOne (assignments D) p) (\<lambda>_. holds Q) (\<lambda>w. \<forall>e::error. holds Q w)"
    by (rule triple_conseq [OF asg.find_one_triple [where P = Q]]) (auto simp: inWorld_def)
qed (rule assms)

lemma Unfit_triple:
  "triple (holds (moved canon co v0)) (Unfit D co ident at')
     (\<lambda>_. holds (\<lambda>v. moved canon co v0 v \<and>
        (\<exists>t. ObjectIDFromHex (env D) (TrimSpace ident) = Some (Base.ID t) \<and> \<not> Base.Deleted t \<and>
        (co \<noteq> [] \<longrightarrow> Tracker.CompanyID t = Some co) \<and> unfitted (Hex (env D)) t v)))
     (holds (moved canon co v0))"
  unfolding Unfit_def Let_def
proof (intro bind_findTracker bind_now bind_attempt_open)
  fix t :: Tracker and now r
  assume t: "ObjectIDFromHex (env D) (TrimSpace ident) = Some (Base.ID t)"
    "co \<noteq> [] \<Longrightarrow> Tracker.CompanyID t = Some co" "\<not> Base.Deleted t"
  let ?at = "case at' of None \<Rightarrow> now | Some t \<Rightarrow> t"
  let ?vid = "case r of Inr (Some a) \<Rightarrow> TrackerAssignment.VehicleID a | _ \<Rightarrow> []"
  let ?R = "\<lambda>v. moved canon co v0 v \<and>
      (\<exists>t. ObjectIDFromHex (env D) (TrimSpace ident) = Some (Base.ID t) \<and> \<not> Base.Deleted t \<and>
        (co \<noteq> [] \<longrightarrow> Tracker.CompanyID t = Some co) \<and> unfitted (Hex (env D)) t v)"
  have "triple (holds ?R) (andThen (announce D ''tracker'' co ident ''unfit'') (\<lambda>_.
      if vid \<noteq> [] then announce D ''vehicle'' co vid ''update'' else ok ()))
      (\<lambda>_. holds ?R) (holds (moved canon co v0))" for vid
    by (auto intro!: bind_announce announce_triple ok_triple)
  then have tail: "triple (holds (\<lambda>v. moved canon co v0 v \<and> unfitted (Hex (env D)) t v))
      (andThen (announce D ''tracker'' co ident ''unfit'') (\<lambda>_.
      if vid \<noteq> [] then announce D ''vehicle'' co vid ''update'' else ok ()))
      (\<lambda>_. holds ?R) (holds (moved canon co v0))" for vid
    by (rule weaken) (use t in auto)
  show "triple (holds (\<lambda>v. moved canon co v0 v \<and> Trackers v (Base.ID t) = Some t))
      (andThen (transact D (unfitRun D t ?at)) (\<lambda>_.
       andThen (announce D ''tracker'' co ident ''unfit'') (\<lambda>_.
       if ?vid \<noteq> [] then announce D ''vehicle'' co ?vid ''update'' else ok ())))
      (\<lambda>_. holds ?R) (holds (moved canon co v0))"
    by (rule weaken [OF triple_andThen [OF transact_triple [OF unfitRun_triple unfitRun_total] tail]]) simp_all
qed auto

end

end
