(* ===== verification/RegistryDocuments.thy ===== *)
theory RegistryDocuments
  imports RegistryFittings
begin

text \<open>
  The documents of \<^verbatim>\<open>internal/services/registry.go\<close>: papers of exactly one vehicle or
  driver. Listing, \<^verbatim>\<open>CreateDocument\<close>, \<^verbatim>\<open>UpdateDocument\<close> and
  \<^verbatim>\<open>DeleteDocument\<close>, with the steps of the register they take.
\<close>

section \<open>Operations\<close>

record DocumentInput =
  VehicleID :: "string option"
  DriverID :: "string option"
  DocType :: "string option"
  Number :: "string option"
  IssuedOn :: "string option"
  ExpiresOn :: "string option"
  FileKey :: "string option"
  Notes :: "string option"

definition newDocument :: "string \<Rightarrow> Document" where
  "newDocument companyID =
     \<lparr>Base.ID = NilObjectID, CreatedAt = zeroTime, UpdatedAt = zeroTime, Deleted = False,
      Document.CompanyID = companyID, VehicleID = [], DriverID = None, DocType = [], Number = None,
      IssuedOn = None, ExpiresOn = None, FileKey = None, IsVerified = False,
      VerifiedByUserID = None, Notes = None\<rparr>"

definition badDate :: string where
  "badDate = ''dates are YYYY-MM-DD''"

definition applyDocument :: "Document \<Rightarrow> DocumentInput \<Rightarrow> error + Document" where
  "applyDocument d inp =
     (case date badDate (Document.IssuedOn d) (DocumentInput.IssuedOn inp) of Inl e \<Rightarrow> Inl e | Inr issued \<Rightarrow>
      case date badDate (Document.ExpiresOn d) (DocumentInput.ExpiresOn inp) of Inl e \<Rightarrow> Inl e | Inr expires \<Rightarrow>
        Inr (d\<lparr>Document.DocType := (case DocumentInput.DocType inp of
                    None \<Rightarrow> Document.DocType d | Some s \<Rightarrow> ToUpper (TrimSpace s)),
               Document.Number := str (Document.Number d) (DocumentInput.Number inp),
               Document.FileKey := str (Document.FileKey d) (DocumentInput.FileKey inp),
               Document.Notes := str (Document.Notes d) (DocumentInput.Notes inp),
               Document.IssuedOn := issued,
               Document.ExpiresOn := expires\<rparr>))"

text \<open>\<open>deadline\<close> is the clock's reading moved by whole days, when a sweep asks for one.\<close>

definition ListDocuments ::
  "'w Database \<Rightarrow> string \<Rightarrow> Params \<Rightarrow> string \<Rightarrow> string \<Rightarrow> int \<Rightarrow> ('w, Document list \<times> int) io" where
  "ListDocuments D companyID p vehicleID driverID expiringWithinDays =
     (if vehicleID = [] \<and> driverID = [] \<and> \<not> expiringWithinDays > 0
      then fail (ErrValidation ''vehicleId or driverId is required'')
      else
        andThen (if expiringWithinDays > 0
                 then andThen (call (Now (env D))) (\<lambda>now. ok (Some (now + expiringWithinDays * msPerDay)))
                 else ok None) (\<lambda>deadline.
        page (col (documents D))
          (\<lambda>d. Document.CompanyID d = companyID \<and> \<not> Base.Deleted d \<and>
               (if vehicleID \<noteq> [] then Document.VehicleID d = vehicleID
                else if driverID \<noteq> [] then Document.DriverID d = Some driverID
                else True) \<and>
               (case deadline of None \<Rightarrow> True
                | Some t \<Rightarrow> (case Document.ExpiresOn d of None \<Rightarrow> False | Some e \<Rightarrow> e \<le> t)))
          p))"

definition findDocument :: "'w Database \<Rightarrow> string \<Rightarrow> string \<Rightarrow> ('w, Document) io" where
  "findDocument D companyID ident =
     andThen (lift (oid D ident)) (\<lambda>o'.
     decodeOne (col (documents D)) (scoped Document.CompanyID companyID o'))"

text \<open>The owner a new document names, which has to be there.\<close>

definition documentOwner ::
  "'w Database \<Rightarrow> string \<Rightarrow> DocumentInput \<Rightarrow> Document \<Rightarrow> ('w, Document) io" where
  "documentOwner D companyID inp d =
     (let named = (\<lambda>s. case s of None \<Rightarrow> False | Some x \<Rightarrow> TrimSpace x \<noteq> []);
          vehicle = named (DocumentInput.VehicleID inp);
          driver = named (DocumentInput.DriverID inp)
      in andThen (unless (vehicle \<noteq> driver)
           (ErrValidation ''a document belongs to exactly one of a vehicle or a driver'')) (\<lambda>_.
         if vehicle
         then (let v = (case DocumentInput.VehicleID inp of None \<Rightarrow> [] | Some x \<Rightarrow> x)
               in andThen (onErr (findVehicle D companyID v) (\<lambda>_. ErrValidation ''no such vehicle'')) (\<lambda>_.
                  ok (d\<lparr>Document.VehicleID := TrimSpace v\<rparr>)))
         else (let v = (case DocumentInput.DriverID inp of None \<Rightarrow> [] | Some x \<Rightarrow> x)
               in andThen (onErr (GetDriver D companyID v) (\<lambda>_. ErrValidation ''no such driver'')) (\<lambda>_.
                  ok (d\<lparr>Document.DriverID := Some (TrimSpace v)\<rparr>)))))"

definition CreateDocument :: "'w Database \<Rightarrow> string \<Rightarrow> DocumentInput \<Rightarrow> ('w, Document) io" where
  "CreateDocument D companyID inp =
     andThen (documentOwner D companyID inp (newDocument companyID)) (\<lambda>d.
     andThen (lift (applyDocument d inp)) (\<lambda>d.
     andThen (unless (Document.DocType d \<noteq> []) (ErrValidation ''docType is required'')) (\<lambda>_.
     andThen (call (NewObjectID (env D))) (\<lambda>i.
     Create (env D) (documents D) (d\<lparr>Base.ID := i\<rparr>)))))"

definition UpdateDocument ::
  "'w Database \<Rightarrow> string \<Rightarrow> string \<Rightarrow> DocumentInput \<Rightarrow> ('w, Document) io" where
  "UpdateDocument D companyID ident inp =
     andThen (findDocument D companyID ident) (\<lambda>d.
     andThen (lift (applyDocument d inp)) (\<lambda>d.
     Update (env D) (documents D) (Base.ID d) d))"

definition DeleteDocument :: "'w Database \<Rightarrow> string \<Rightarrow> string \<Rightarrow> ('w, unit) io" where
  "DeleteDocument D companyID ident =
     andThen (findDocument D companyID ident) (\<lambda>d.
     SoftDelete (env D) (documents D) companyID (Base.ID d))"

section \<open>What the operations do\<close>

lemma applyDocument_keeps:
  assumes "applyDocument d inp = Inr d'"
  shows "Base.ID d' = Base.ID d" "Base.Deleted d' = Base.Deleted d"
    "Document.CompanyID d' = Document.CompanyID d"
    "Document.VehicleID d' = Document.VehicleID d" "Document.DriverID d' = Document.DriverID d"
  using assms by (auto simp: applyDocument_def split: sum.splits)

lemma stored_document:
  assumes "stored documentMethods doc d"
  shows "goodDocument d" "Base.ID d = Base.ID doc" "Base.Deleted d = Base.Deleted doc"
    "Document.CompanyID d = Document.CompanyID doc" "Document.VehicleID d = Document.VehicleID doc"
    "Document.DriverID d = Document.DriverID doc"
proof -
  from assms obtain now cr where d: "d = Stamp now cr (Document_BeforeWrite doc)" by (auto simp: stored_def)
  show "goodDocument d"
    using Document_BeforeWrite_idem [of doc]
    unfolding d goodDocument_def by (simp add: Stamp_def Document_BeforeWrite_def)
  show "Base.ID d = Base.ID doc" "Base.Deleted d = Base.Deleted doc"
    "Document.CompanyID d = Document.CompanyID doc" "Document.VehicleID d = Document.VehicleID doc"
    "Document.DriverID d = Document.DriverID doc"
    unfolding d by (simp_all add: Stamp_def Document_BeforeWrite_def)
qed

context database
begin

lemma bind_findDocument:
  assumes "\<And>x. ObjectIDFromHex (env D) (TrimSpace ident) = Some (Base.ID x) \<Longrightarrow>
      Document.CompanyID x = co \<Longrightarrow> \<not> Base.Deleted x \<Longrightarrow>
      triple (holds (\<lambda>v. Q v \<and> Documents v (Base.ID x) = Some x)) (k x) R (holds E)"
    and "\<And>v. Q v \<Longrightarrow> E v"
  shows "triple (holds Q) (andThen (findDocument D co ident) k) R (holds E)"
  unfolding findDocument_def andThen_assoc
proof (rule bind_lift)
  fix i assume i: "oid D ident = Inr i"
  show "triple (holds Q) (andThen (decodeOne (col (documents D)) (scoped Document.CompanyID co i)) k) R (holds E)"
    by (rule dcm.bind_decodeOne) (use i assms in \<open>auto simp: scoped_def oid_Inr\<close>)
qed (rule assms(2))

lemma bind_documentOwner:
  assumes "\<And>d'. oneOwner d' \<Longrightarrow> Base.ID d' = Base.ID d \<Longrightarrow> Base.Deleted d' = Base.Deleted d \<Longrightarrow>
      Document.CompanyID d' = Document.CompanyID d \<Longrightarrow> triple (holds Q) (k d') R (holds E)"
    and E: "\<And>v. Q v \<Longrightarrow> E v"
    and new: "Document.VehicleID d = []" "Document.DriverID d = None"
  shows "triple (holds Q) (andThen (documentOwner D co inp d) k) R (holds E)"
proof -
  have veh: "triple (holds Q) (andThen (andThen (onErr (findVehicle D co s) f)
      (\<lambda>_. ok (d\<lparr>Document.VehicleID := TrimSpace s\<rparr>))) k) R (holds E)" if "TrimSpace s \<noteq> []" for s f
    unfolding andThen_assoc
  proof (rule bind_findVehicle_onErr)
    fix x
    have "triple (holds Q) (k (d\<lparr>Document.VehicleID := TrimSpace s\<rparr>)) R (holds E)"
      by (rule assms(1)) (use that new in \<open>simp_all add: oneOwner_def\<close>)
    then show "triple (holds (\<lambda>v. Q v \<and> Vehicles v (Base.ID x) = Some x))
        (andThen (ok (d\<lparr>Document.VehicleID := TrimSpace s\<rparr>)) k) R (holds E)"
      by (auto intro: weaken)
  qed (rule E)
  have drv: "triple (holds Q) (andThen (andThen (onErr (GetDriver D co s) f)
      (\<lambda>_. ok (d\<lparr>Document.DriverID := Some (TrimSpace s)\<rparr>))) k) R (holds E)" if "TrimSpace s \<noteq> []" for s f
    unfolding andThen_assoc
  proof (rule triple_andThen [OF triple_onErr [OF GetDriver_keeps]])
    show "triple (holds Q) (andThen (ok (d\<lparr>Document.DriverID := Some (TrimSpace s)\<rparr>)) k) R (holds E)"
      unfolding andThen_ok by (rule assms(1)) (use that new in \<open>simp_all add: oneOwner_def\<close>)
  qed (rule E)
  show ?thesis
    unfolding documentOwner_def Let_def andThen_assoc
  proof (rule bind_unless)
    assume one: "(case DocumentInput.VehicleID inp of None \<Rightarrow> False | Some x \<Rightarrow> TrimSpace x \<noteq> []) \<noteq>
        (case DocumentInput.DriverID inp of None \<Rightarrow> False | Some x \<Rightarrow> TrimSpace x \<noteq> [])"
    show "triple (holds Q) (andThen
        (if case DocumentInput.VehicleID inp of None \<Rightarrow> False | Some x \<Rightarrow> TrimSpace x \<noteq> []
         then andThen (onErr (findVehicle D co (case DocumentInput.VehicleID inp of None \<Rightarrow> [] | Some x \<Rightarrow> x))
                (\<lambda>_. ErrValidation ''no such vehicle''))
              (\<lambda>_. ok (d\<lparr>Document.VehicleID := TrimSpace (case DocumentInput.VehicleID inp of None \<Rightarrow> [] | Some x \<Rightarrow> x)\<rparr>))
         else andThen (onErr (GetDriver D co (case DocumentInput.DriverID inp of None \<Rightarrow> [] | Some x \<Rightarrow> x))
                (\<lambda>_. ErrValidation ''no such driver''))
              (\<lambda>_. ok (d\<lparr>Document.DriverID := Some (TrimSpace (case DocumentInput.DriverID inp of None \<Rightarrow> [] | Some x \<Rightarrow> x))\<rparr>)))
        k) R (holds E)"
    proof (cases "case DocumentInput.VehicleID inp of None \<Rightarrow> False | Some x \<Rightarrow> TrimSpace x \<noteq> []")
      case True
      then show ?thesis using veh by (auto split: option.splits)
    next
      case False
      then show ?thesis using drv one by (auto split: option.splits)
    qed
  qed (rule E)
qed

abbreviation documentKept :: "bool \<Rightarrow> string \<Rightarrow> MasterData \<Rightarrow> Document \<Rightarrow> MasterData \<Rightarrow> bool" where
  "documentKept canon co v0 d v \<equiv> moved canon co v0 v \<and> Documents v (Base.ID d) = Some d \<and>
     goodDocument d \<and> Document.CompanyID d = co \<and> \<not> Base.Deleted d"

lemma CreateDocument_triple:
  "triple (holds (moved canon co v0)) (CreateDocument D co inp)
     (\<lambda>d. holds (\<lambda>v. documentKept canon co v0 d v \<and> oneOwner d)) (holds (moved canon co v0))"
  unfolding CreateDocument_def
proof (intro bind_documentOwner bind_lift bind_unless bind_new_id)
  fix d0 d :: Document and i
  assume d0: "oneOwner d0" "Base.Deleted d0 = Base.Deleted (newDocument co)"
      "Document.CompanyID d0 = Document.CompanyID (newDocument co)"
    and d: "applyDocument d0 inp = Inr d" and i: "i \<noteq> NilObjectID"
  let ?doc = "d\<lparr>Base.ID := i\<rparr>"
  have doc: "oneOwner ?doc" "\<not> Base.Deleted ?doc" "Document.CompanyID ?doc = co" "Base.ID ?doc = i"
    using d0 applyDocument_keeps [OF d] by (simp_all add: newDocument_def oneOwner_def)
  show "triple (holds (moved canon co v0)) (Create (env D) (documents D) ?doc)
      (\<lambda>d. holds (\<lambda>v. documentKept canon co v0 d v \<and> oneOwner d)) (holds (moved canon co v0))"
  proof (rule dcm.Create_triple)
    fix v e j m'
    assume v: "moved canon co v0 v"
      and st: "stored (methods (documents D)) ?doc e"
      and ins: "inserted (IDOf (methods (documents D))) (\<lambda>i d. d\<lparr>Base.ID := i\<rparr>) (AsStored (methods (documents D)) e) j (Documents v) m'"
    note e = stored_document [OF st [unfolded store_simps], unfolded doc]
    have "oneOwner e" using doc(1) e(5,6) by (simp add: oneOwner_def)
    moreover have "Documents v i = None" "m' = (Documents v)(i \<mapsto> e\<lparr>Base.ID := i\<rparr>)"
      using ins e(2) i by (auto simp: inserted_def)
    moreover have "e\<lparr>Base.ID := i\<rparr> = e" using e(2) by simp
    ultimately have "registry_step (Hex (env D)) canon co v (v\<lparr>Documents := m'\<rparr>)" "m' i = Some e"
      using e doc(2) by (auto intro!: registry_step.document_added)
    then show "(documentKept canon co v0 e (v\<lparr>Documents := m'\<rparr>) \<and> oneOwner e) \<and>
        moved canon co v0 (v\<lparr>Documents := m'\<rparr>)"
      using v e doc \<open>oneOwner e\<close> moved_step [of canon co v0 v] by simp
  qed
qed (auto simp: newDocument_def)

lemma UpdateDocument_triple:
  "triple (holds (moved canon co v0)) (UpdateDocument D co ident inp)
     (\<lambda>d. holds (documentKept canon co v0 d)) (holds (moved canon co v0))"
  unfolding UpdateDocument_def
proof (intro bind_findDocument bind_lift)
  fix d0 d :: Document
  assume d0: "Document.CompanyID d0 = co" "\<not> Base.Deleted d0" and d: "applyDocument d0 inp = Inr d"
  note doc = applyDocument_keeps [OF d]
  let ?Q = "\<lambda>v. moved canon co v0 v \<and> Documents v (Base.ID d0) = Some d0"
  show "triple (holds ?Q) (Update (env D) (documents D) (Base.ID d) d)
      (\<lambda>d. holds (documentKept canon co v0 d)) (holds (moved canon co v0))"
  proof (rule dcm.Update_triple)
    fix v e m'
    assume v: "?Q v" and key: "\<And>j x. Documents v j = Some x \<Longrightarrow> IDOf (methods (documents D)) x = j"
      and st: "stored (methods (documents D)) d e"
      and up: "updated (\<lambda>x. IDOf (methods (documents D)) x = Base.ID d) (\<lambda>_. AsStored (methods (documents D)) e) (Documents v) m'"
    note e = stored_document [OF st [unfolded store_simps], unfolded doc]
    have m': "m' = (Documents v)(Base.ID d0 \<mapsto> e)"
      using updated_by_id [OF up, of Base.ID "Base.ID d0"] doc(1) key by auto
    have "registry_step (Hex (env D)) canon co v (v\<lparr>Documents := (Documents v)(Base.ID d0 \<mapsto> e)\<rparr>)"
      by (rule registry_step.document_changed [where ?d0.0 = d0]) (use v e d0 in auto)
    then show "documentKept canon co v0 e (v\<lparr>Documents := m'\<rparr>) \<and> moved canon co v0 (v\<lparr>Documents := m'\<rparr>)"
      using v e d0 m' moved_step [of canon co v0 v] by simp
  qed simp_all
qed auto

lemma DeleteDocument_triple:
  "triple (holds (moved canon co v0)) (DeleteDocument D co ident) (\<lambda>_. holds (moved canon co v0))
     (holds (moved canon co v0))"
  unfolding DeleteDocument_def
proof (rule bind_findDocument)
  fix d :: Document assume d: "Document.CompanyID d = co"
  let ?Q = "\<lambda>v. moved canon co v0 v \<and> Documents v (Base.ID d) = Some d"
  show "triple (holds ?Q) (SoftDelete (env D) (documents D) co (Base.ID d))
      (\<lambda>_. holds (moved canon co v0)) (holds (moved canon co v0))"
  proof (rule dcm.SoftDelete_triple)
    fix v now m'
    assume v: "?Q v" and key: "\<And>j x. Documents v j = Some x \<Longrightarrow> IDOf (methods (documents D)) x = j"
      and up: "updated (\<lambda>x. IDOf (methods (documents D)) x = Base.ID d \<and>
          (co \<noteq> [] \<longrightarrow> CompanyOf (methods (documents D)) x = Some co))
        (MarkDeleted (methods (documents D)) now) (Documents v) m'"
    have "m' = (Documents v)(Base.ID d \<mapsto> markDeleted now d)"
      using updated_by_id_fun [OF up, of Base.ID "Base.ID d"] key v by auto
    then have "registry_step (Hex (env D)) canon co v (v\<lparr>Documents := m'\<rparr>)"
      using v d by (auto intro: registry_step.document_retired)
    then show "moved canon co v0 (v\<lparr>Documents := m'\<rparr>) \<and> moved canon co v0 (v\<lparr>Documents := m'\<rparr>)"
      using v moved_step [of canon co v0 v] by simp
  qed simp
qed simp

end

end
