(* ===== verification/RegistryInvariants.thy ===== *)
theory RegistryInvariants
  imports RegistryMachine
begin

text \<open>
  The invariants of the fleet register, each proved for one step of \<open>registry_step\<close> by
  cases on the step, whatever the company that takes it: pairings are exclusive, derived fields
  agree with what they are derived from, devices keep their identity, a live fitting joins a live
  device to a live vehicle, documents have one owner, and nothing disappears.
\<close>

section \<open>Pairings\<close>

text \<open>A driver is paired with at most one vehicle of a company.\<close>

definition pairedOnce :: "Vehicle docs \<Rightarrow> bool" where
  "pairedOnce m \<longleftrightarrow>
     (\<forall>i j x y. m i = Some x \<longrightarrow> m j = Some y \<longrightarrow>
        Vehicle.CompanyID x = Vehicle.CompanyID y \<longrightarrow> CurrentDriverID x \<noteq> None \<longrightarrow>
        CurrentDriverID x = CurrentDriverID y \<longrightarrow> i = j)"

lemma pairedOnceI:
  assumes "\<And>i j x y. m i = Some x \<Longrightarrow> m j = Some y \<Longrightarrow>
      Vehicle.CompanyID x = Vehicle.CompanyID y \<Longrightarrow> CurrentDriverID x \<noteq> None \<Longrightarrow>
      CurrentDriverID x = CurrentDriverID y \<Longrightarrow> i = j"
  shows "pairedOnce m"
  unfolding pairedOnce_def using assms by blast

lemma pairedOnceD:
  "pairedOnce m \<Longrightarrow> m i = Some x \<Longrightarrow> m j = Some y \<Longrightarrow>
     Vehicle.CompanyID x = Vehicle.CompanyID y \<Longrightarrow> CurrentDriverID x \<noteq> None \<Longrightarrow>
     CurrentDriverID x = CurrentDriverID y \<Longrightarrow> i = j"
  unfolding pairedOnce_def by blast

lemma pairedOnce_modify:
  assumes "pairedOnce m"
    and "\<And>x. Vehicle.CompanyID (f x) = Vehicle.CompanyID x"
    and "\<And>x. CurrentDriverID (f x) = None \<or> CurrentDriverID (f x) = CurrentDriverID x"
  shows "pairedOnce (modify S p f m)"
proof (rule pairedOnceI)
  fix i j x y
  assume "modify S p f m i = Some x"
    and "modify S p f m j = Some y"
    and eq: "Vehicle.CompanyID x = Vehicle.CompanyID y" "CurrentDriverID x \<noteq> None"
      "CurrentDriverID x = CurrentDriverID y"
  then obtain x0 y0 where old: "m i = Some x0" "x = f x0 \<or> x = x0"
      "m j = Some y0" "y = f y0 \<or> y = y0"
    by (auto simp: modify_Some)
  then have "Vehicle.CompanyID x0 = Vehicle.CompanyID x" "Vehicle.CompanyID y0 = Vehicle.CompanyID y"
    "CurrentDriverID x0 = CurrentDriverID x" "CurrentDriverID y0 = CurrentDriverID y"
    using eq assms(2) assms(3) [of x0] assms(3) [of y0] by auto
  then show "i = j" using pairedOnceD [OF assms(1) old(1,3)] eq by simp
qed

lemma pairedOnce_put:
  assumes v: "pairedOnce (Vehicles v)"
    and x: "unclaimed v (Vehicle.CompanyID x) i (CurrentDriverID x) \<or>
      (\<exists>x0. Vehicles v i = Some x0 \<and> Vehicle.CompanyID x0 = Vehicle.CompanyID x \<and>
         CurrentDriverID x0 = CurrentDriverID x)"
  shows "pairedOnce ((Vehicles v)(i \<mapsto> x))"
proof -
  have other: "CurrentDriverID y \<noteq> CurrentDriverID x"
    if "Vehicles v j = Some y" "j \<noteq> i" "Vehicle.CompanyID y = Vehicle.CompanyID x" "CurrentDriverID x \<noteq> None"
    for j y
    using x
  proof
    assume "unclaimed v (Vehicle.CompanyID x) i (CurrentDriverID x)"
    then show ?thesis using that unfolding unclaimed_def by blast
  next
    assume "\<exists>x0. Vehicles v i = Some x0 \<and> Vehicle.CompanyID x0 = Vehicle.CompanyID x \<and>
         CurrentDriverID x0 = CurrentDriverID x"
    then obtain x0 where "Vehicles v i = Some x0" "Vehicle.CompanyID x0 = Vehicle.CompanyID x"
      "CurrentDriverID x0 = CurrentDriverID x" by blast
    then show ?thesis using pairedOnceD [OF v that(1), of i x0] that by auto
  qed
  show ?thesis
  proof (rule pairedOnceI)
    fix a b y z
    assume y: "((Vehicles v)(i \<mapsto> x)) a = Some y"
      and z: "((Vehicles v)(i \<mapsto> x)) b = Some z"
      and eq: "Vehicle.CompanyID y = Vehicle.CompanyID z" "CurrentDriverID y \<noteq> None"
        "CurrentDriverID y = CurrentDriverID z"
    consider "a = i" "b = i" | "a = i" "b \<noteq> i" | "a \<noteq> i" "b = i" | "a \<noteq> i" "b \<noteq> i" by blast
    then show "a = b"
    proof cases
      case 2
      then have "y = x" "Vehicles v b = Some z" using y z by simp_all
      then show ?thesis using other [OF _ 2(2)] eq by metis
    next
      case 3
      then have "z = x" "Vehicles v a = Some y" using y z by simp_all
      then show ?thesis using other [OF _ 3(1)] eq by metis
    next
      case 4
      then have "Vehicles v a = Some y" "Vehicles v b = Some z" using y z by simp_all
      then show ?thesis by (rule pairedOnceD [OF v _ _ eq])
    qed simp
  qed
qed

lemma pairedOnce_step:
  assumes "registry_step hex canon co v v'" and v: "pairedOnce (Vehicles v)"
  shows "pairedOnce (Vehicles v')"
  using assms(1)
proof cases
  case (drivers_unpaired p S now)
  then show ?thesis using pairedOnce_modify [OF v] by simp
next
  case (vehicle_added i x)
  then show ?thesis using pairedOnce_put [OF v] by simp
next
  case (vehicle_changed i x0 x)
  then have "unclaimed v (Vehicle.CompanyID x) i (CurrentDriverID x) \<or> CurrentDriverID x0 = CurrentDriverID x"
    by auto
  then show ?thesis using vehicle_changed pairedOnce_put [OF v, of x i] by simp
next
  case (vehicle_retired i x0)
  then show ?thesis using pairedOnce_put [OF v, of _ i] by simp
next
  case (shortcuts_cleared S p at')
  then show ?thesis using pairedOnce_modify [OF v] by simp
next
  case (shortcut_set i x t at')
  then show ?thesis using pairedOnce_put [OF v, of _ i] by simp
qed (use v in simp_all)

section \<open>Derived fields\<close>

definition allDocs :: "('d \<Rightarrow> bool) \<Rightarrow> 'd docs \<Rightarrow> bool" where
  "allDocs P m \<longleftrightarrow> (\<forall>i d. m i = Some d \<longrightarrow> P d)"

lemma allDocsD: "allDocs P m \<Longrightarrow> m i = Some d \<Longrightarrow> P d"
  by (simp add: allDocs_def)

lemma allDocs_put: "allDocs P m \<Longrightarrow> P d \<Longrightarrow> allDocs P (m(i \<mapsto> d))"
  by (simp add: allDocs_def)

lemma allDocs_modify:
  assumes "allDocs P m" "\<And>d. P d \<Longrightarrow> P (f d)"
  shows "allDocs P (modify S p f m)"
  unfolding allDocs_def
proof (intro allI impI)
  fix i d assume "modify S p f m i = Some d"
  then obtain d0 where "m i = Some d0" "d = f d0 \<or> d = d0" by (auto simp: modify_Some)
  then show "P d" using assms allDocsD [OF assms(1)] by auto
qed

text \<open>
  Every document is as its \<^verbatim>\<open>BeforeWrite\<close> leaves it: the normalised twins are the
  normalised forms, a device has an id, a document one owner.
\<close>

definition settled :: "MasterData \<Rightarrow> bool" where
  "settled v \<longleftrightarrow>
     allDocs goodVehicle (Vehicles v) \<and> allDocs goodDriver (Drivers v) \<and>
     allDocs (\<lambda>t. settled_Tracker t \<and> Tracker.DeviceID t \<noteq> []) (Trackers v) \<and>
     allDocs settled_TrackerAssignment (Assignments v) \<and>
     allDocs (\<lambda>d. goodDocument d \<and> oneOwner d) (Documents v)"

lemma closeFitting_settled [simp]:
  "settled_TrackerAssignment (closeFitting at' a) = settled_TrackerAssignment a"
  by (simp add: settled_TrackerAssignment_def closeFitting_def)

lemma markDeleted_document [simp]:
  "goodDocument (markDeleted now d) = goodDocument d" "oneOwner (markDeleted now d) = oneOwner d"
proof -
  have "Document_BeforeWrite (markDeleted now d) = markDeleted now (Document_BeforeWrite d)"
    by (simp add: Document_BeforeWrite_def markDeleted_def)
  moreover have "markDeleted now d = markDeleted now e \<longleftrightarrow> d = e"
    if "Base.UpdatedAt d = Base.UpdatedAt e" "Base.Deleted d = Base.Deleted e" for e
    using that by (cases d; cases e) (auto simp: markDeleted_def)
  moreover have "Base.UpdatedAt (Document_BeforeWrite d) = Base.UpdatedAt d"
    "Base.Deleted (Document_BeforeWrite d) = Base.Deleted d"
    by (simp_all add: Document_BeforeWrite_def)
  ultimately show "goodDocument (markDeleted now d) = goodDocument d"
    unfolding goodDocument_def by metis
  show "oneOwner (markDeleted now d) = oneOwner d" by (simp add: oneOwner_def)
qed

lemma settledD:
  assumes "settled v"
  shows "Vehicles v i = Some x \<Longrightarrow> goodVehicle x" "Drivers v i = Some d \<Longrightarrow> goodDriver d"
    "Trackers v i = Some t \<Longrightarrow> settled_Tracker t \<and> Tracker.DeviceID t \<noteq> []"
    "Assignments v i = Some a \<Longrightarrow> settled_TrackerAssignment a"
    "Documents v i = Some e \<Longrightarrow> goodDocument e \<and> oneOwner e"
  using assms by (simp_all add: settled_def allDocs_def)

lemma settled_write:
  assumes "settled v"
  shows "goodDriver d \<Longrightarrow> settled (v\<lparr>Drivers := (Drivers v)(i \<mapsto> d)\<rparr>)"
    "goodVehicle x \<Longrightarrow> settled (v\<lparr>Vehicles := (Vehicles v)(i \<mapsto> x)\<rparr>)"
    "(\<And>x. goodVehicle x \<Longrightarrow> goodVehicle (f x)) \<Longrightarrow> settled (v\<lparr>Vehicles := modify S p f (Vehicles v)\<rparr>)"
    "settled_Tracker t \<Longrightarrow> Tracker.DeviceID t \<noteq> [] \<Longrightarrow> settled (v\<lparr>Trackers := (Trackers v)(i \<mapsto> t)\<rparr>)"
    "settled_TrackerAssignment a \<Longrightarrow> settled (v\<lparr>Assignments := (Assignments v)(i \<mapsto> a)\<rparr>)"
    "settled (v\<lparr>Assignments := modify T q (closeFitting at') (Assignments v)\<rparr>)"
    "settled (v\<lparr>Members := m\<rparr>)"
    "goodDocument e \<Longrightarrow> oneOwner e \<Longrightarrow> settled (v\<lparr>Documents := (Documents v)(i \<mapsto> e)\<rparr>)"
  using assms by (simp_all add: settled_def allDocs_put allDocs_modify)

lemma settled_step:
  assumes "registry_step hex canon co v v'" and v: "settled v"
  shows "settled v'"
  using assms(1)
proof cases
  case (driver_retired i d0 now)
  then show ?thesis using settledD(2) [OF v] settled_write(1) [OF v] by simp
next
  case (vehicle_retired i x0 name now)
  then show ?thesis using settledD(1) [OF v] settled_write(2) [OF v] by simp
next
  case (shortcut_set i x t at')
  then show ?thesis using settledD(1) [OF v] settled_write(2) [OF v] by simp
next
  case (tracker_changed i t0 t)
  then have "Tracker.DeviceID t \<noteq> []" using settledD(3) [OF v] by auto
  then show ?thesis using tracker_changed settled_write(4) [OF v] by simp
next
  case (tracker_retired i t0 name now)
  then show ?thesis using settledD(3) [OF v] settled_write(4) [OF v] by simp
next
  case (document_changed i d0 d)
  then have "oneOwner d" using settledD(5) [OF v] by (auto simp: oneOwner_def)
  then show ?thesis using document_changed settled_write(8) [OF v] by simp
next
  case (document_retired i d0 now)
  then show ?thesis using settledD(5) [OF v] settled_write(8) [OF v] by simp
qed (simp_all add: settled_write [OF v])

section \<open>Fittings\<close>

text \<open>A fitting that is open joins a device in service, of its kind, to a live vehicle.\<close>

definition joined :: "(ObjectID \<Rightarrow> string) \<Rightarrow> MasterData \<Rightarrow> TrackerAssignment \<Rightarrow> bool" where
  "joined hex v a \<longleftrightarrow>
     (\<exists>ti t vi x. TrackerAssignment.TrackerID a = Some (hex ti) \<and> Trackers v ti = Some t \<and>
        \<not> Base.Deleted t \<and> TrackerAssignment.Kind a = Tracker.Kind t \<and>
        TrackerAssignment.VehicleID a = hex vi \<and> Vehicles v vi = Some x \<and> \<not> Base.Deleted x \<and>
        Vehicle.CompanyID x = TrackerAssignment.CompanyID a)"

text \<open>Two open fittings never share a device, nor a vehicle and a kind.\<close>

definition compete :: "TrackerAssignment \<Rightarrow> TrackerAssignment \<Rightarrow> bool" where
  "compete a b \<longleftrightarrow>
     TrackerAssignment.TrackerID a = TrackerAssignment.TrackerID b \<or>
     TrackerAssignment.VehicleID a = TrackerAssignment.VehicleID b \<and>
     TrackerAssignment.Kind a = TrackerAssignment.Kind b"

definition fittingsOK :: "(ObjectID \<Rightarrow> string) \<Rightarrow> MasterData \<Rightarrow> bool" where
  "fittingsOK hex v \<longleftrightarrow>
     (\<forall>j a. Assignments v j = Some a \<longrightarrow> UnfittedAt a = None \<longrightarrow> joined hex v a \<and>
        (\<forall>k b. Assignments v k = Some b \<longrightarrow> UnfittedAt b = None \<longrightarrow> compete a b \<longrightarrow> j = k))"

lemma fittingsOKI:
  assumes "\<And>j a. Assignments v j = Some a \<Longrightarrow> UnfittedAt a = None \<Longrightarrow> joined hex v a"
    and "\<And>j a k b. Assignments v j = Some a \<Longrightarrow> UnfittedAt a = None \<Longrightarrow>
      Assignments v k = Some b \<Longrightarrow> UnfittedAt b = None \<Longrightarrow> compete a b \<Longrightarrow> j = k"
  shows "fittingsOK hex v"
  unfolding fittingsOK_def using assms by blast

lemma fittingsOKD:
  assumes "fittingsOK hex v"
  shows "Assignments v j = Some a \<Longrightarrow> UnfittedAt a = None \<Longrightarrow> joined hex v a"
    and "Assignments v j = Some a \<Longrightarrow> UnfittedAt a = None \<Longrightarrow>
      Assignments v k = Some b \<Longrightarrow> UnfittedAt b = None \<Longrightarrow> compete a b \<Longrightarrow> j = k"
  using assms unfolding fittingsOK_def by blast+

text \<open>What the fittings rely on: the devices and vehicles they join stay in service.\<close>

lemma fittingsOK_keep:
  assumes ok: "fittingsOK hex v" and same: "Assignments v' = Assignments v"
    and t: "\<And>ti t j a. Trackers v ti = Some t \<Longrightarrow> \<not> Base.Deleted t \<Longrightarrow>
      Assignments v j = Some a \<Longrightarrow> UnfittedAt a = None \<Longrightarrow> TrackerAssignment.TrackerID a = Some (hex ti) \<Longrightarrow>
      \<exists>t'. Trackers v' ti = Some t' \<and> \<not> Base.Deleted t' \<and> Tracker.Kind t' = Tracker.Kind t"
    and x: "\<And>vi x j a. Vehicles v vi = Some x \<Longrightarrow> \<not> Base.Deleted x \<Longrightarrow>
      Assignments v j = Some a \<Longrightarrow> UnfittedAt a = None \<Longrightarrow> TrackerAssignment.VehicleID a = hex vi \<Longrightarrow>
      \<exists>x'. Vehicles v' vi = Some x' \<and> \<not> Base.Deleted x' \<and> Vehicle.CompanyID x' = Vehicle.CompanyID x"
  shows "fittingsOK hex v'"
proof (rule fittingsOKI, unfold same)
  fix j a assume a: "Assignments v j = Some a" "UnfittedAt a = None"
  from fittingsOKD(1) [OF ok a] obtain ti tt vi xx where
    j: "TrackerAssignment.TrackerID a = Some (hex ti)" "Trackers v ti = Some tt" "\<not> Base.Deleted tt"
      "TrackerAssignment.Kind a = Tracker.Kind tt" "TrackerAssignment.VehicleID a = hex vi"
      "Vehicles v vi = Some xx" "\<not> Base.Deleted xx" "Vehicle.CompanyID xx = TrackerAssignment.CompanyID a"
    unfolding joined_def by blast
  from t [OF j(2,3) a j(1)] x [OF j(6,7) a j(5)] j(1,4,5,8) show "joined hex v' a"
    unfolding joined_def by metis
next
  fix j a k b
  assume "Assignments v j = Some a" "UnfittedAt a = None" "Assignments v k = Some b"
    "UnfittedAt b = None" "compete a b"
  then show "j = k" by (rule fittingsOKD(2) [OF ok])
qed

lemma fittingsOK_close:
  assumes ok: "fittingsOK hex v"
  shows "fittingsOK hex (v\<lparr>Assignments := modify S p (closeFitting at') (Assignments v)\<rparr>)" (is "fittingsOK hex ?v")
proof -
  have old: "Assignments v j = Some a" if "Assignments ?v j = Some a" "UnfittedAt a = None" for j a
    using that by (auto simp: modify_Some split: if_splits)
  have "joined hex ?v a \<longleftrightarrow> joined hex v a" for a by (simp add: joined_def)
  then show ?thesis
    using fittingsOKD(1) [OF ok old] fittingsOKD(2) [OF ok old _ old] by (intro fittingsOKI) blast+
qed

lemma fittingsOK_fit:
  assumes ok: "fittingsOK hex v" and set: "settled v"
    and a: "UnfittedAt a = None" "TrackerAssignment.TrackerID a = Some (hex ti)"
      "TrackerAssignment.VehicleID a = hex vi" "TrackerAssignment.Kind a = ifEmpty (Tracker.Kind t) TrackerGPS"
    and t: "Trackers v ti = Some t" "\<not> Base.Deleted t"
    and x: "Vehicles v vi = Some x" "\<not> Base.Deleted x" "Vehicle.CompanyID x = TrackerAssignment.CompanyID a"
    and new: "Assignments v i = None"
    and free: "\<And>j b. Assignments v j = Some b \<Longrightarrow> UnfittedAt b = None \<Longrightarrow>
        TrackerAssignment.TrackerID b \<noteq> Some (hex ti) \<and>
        (TrackerAssignment.VehicleID b = hex vi \<longrightarrow>
           \<not> (\<exists>tj s. TrackerAssignment.TrackerID b = Some (hex tj) \<and> Trackers v tj = Some s \<and>
                \<not> Base.Deleted s \<and> Tracker.Kind s = Tracker.Kind t))"
  shows "fittingsOK hex (v\<lparr>Assignments := (Assignments v)(i \<mapsto> a)\<rparr>)" (is "fittingsOK hex ?v")
proof -
  have kind: "TrackerAssignment.Kind a = Tracker.Kind t"
    using settledD(3) [OF set t(1)] a(4) by (auto simp: settled_Tracker_def wellTyped_Tracker_def ifEmpty_def)
  have alone: "\<not> compete a b" "\<not> compete b a" if b: "Assignments v j = Some b" "UnfittedAt b = None" for j b
  proof -
    from fittingsOKD(1) [OF ok b] obtain tj s where s: "TrackerAssignment.TrackerID b = Some (hex tj)"
      "Trackers v tj = Some s" "\<not> Base.Deleted s" "TrackerAssignment.Kind b = Tracker.Kind s"
      unfolding joined_def by blast
    then have "TrackerAssignment.TrackerID b \<noteq> TrackerAssignment.TrackerID a"
      "TrackerAssignment.VehicleID b = TrackerAssignment.VehicleID a \<Longrightarrow> TrackerAssignment.Kind b \<noteq> TrackerAssignment.Kind a"
      using free [OF b] a(2,3) kind by auto
    then show "\<not> compete a b" "\<not> compete b a" unfolding compete_def by metis+
  qed
  have "joined hex ?v a" unfolding joined_def using a(2,3) kind t x by auto
  moreover have "joined hex ?v b" if "joined hex v b" for b using that by (simp add: joined_def)
  ultimately show ?thesis
    using fittingsOKD [OF ok] alone
    by (intro fittingsOKI) (auto split: if_splits)
qed

lemma fittingsOK_trackers:
  assumes ok: "fittingsOK hex v"
    and "\<And>t j a. m = (Trackers v)(i \<mapsto> t') \<Longrightarrow> Trackers v i = Some t \<Longrightarrow> \<not> Base.Deleted t \<Longrightarrow>
      Assignments v j = Some a \<Longrightarrow> UnfittedAt a = None \<Longrightarrow> TrackerAssignment.TrackerID a = Some (hex i) \<Longrightarrow>
      \<not> Base.Deleted t' \<and> Tracker.Kind t' = Tracker.Kind t"
    and m: "m = (Trackers v)(i \<mapsto> t')"
  shows "fittingsOK hex (v\<lparr>Trackers := m\<rparr>)"
proof (rule fittingsOK_keep [OF ok])
  fix ti t j a
  assume "Trackers v ti = Some t" "\<not> Base.Deleted t" "Assignments v j = Some a" "UnfittedAt a = None"
    "TrackerAssignment.TrackerID a = Some (hex ti)"
  then show "\<exists>t''. Trackers (v\<lparr>Trackers := m\<rparr>) ti = Some t'' \<and> \<not> Base.Deleted t'' \<and> Tracker.Kind t'' = Tracker.Kind t"
    using assms(2) [OF m, of t j a] m by (cases "ti = i") simp_all
qed simp_all

lemma fittingsOK_vehicles:
  assumes ok: "fittingsOK hex v"
    and "\<And>x j a. Vehicles v i = Some x \<Longrightarrow> \<not> Base.Deleted x \<Longrightarrow>
      Assignments v j = Some a \<Longrightarrow> UnfittedAt a = None \<Longrightarrow> TrackerAssignment.VehicleID a = hex i \<Longrightarrow>
      \<not> Base.Deleted x' \<and> Vehicle.CompanyID x' = Vehicle.CompanyID x"
  shows "fittingsOK hex (v\<lparr>Vehicles := (Vehicles v)(i \<mapsto> x')\<rparr>)"
proof (rule fittingsOK_keep [OF ok])
  fix vi x j a
  assume "Vehicles v vi = Some x" "\<not> Base.Deleted x" "Assignments v j = Some a" "UnfittedAt a = None"
    "TrackerAssignment.VehicleID a = hex vi"
  then show "\<exists>y. Vehicles (v\<lparr>Vehicles := (Vehicles v)(i \<mapsto> x')\<rparr>) vi = Some y \<and> \<not> Base.Deleted y \<and>
      Vehicle.CompanyID y = Vehicle.CompanyID x"
    using assms(2) [of x j a] by (cases "vi = i") simp_all
qed simp_all

lemma fittingsOK_vehicles_modify:
  assumes ok: "fittingsOK hex v"
    and "\<And>x. Base.Deleted (f x) = Base.Deleted x" "\<And>x. Vehicle.CompanyID (f x) = Vehicle.CompanyID x"
  shows "fittingsOK hex (v\<lparr>Vehicles := modify S p f (Vehicles v)\<rparr>)"
proof (rule fittingsOK_keep [OF ok])
  fix vi x
  assume "Vehicles v vi = Some x" "\<not> Base.Deleted x"
  then show "\<exists>y. Vehicles (v\<lparr>Vehicles := modify S p f (Vehicles v)\<rparr>) vi = Some y \<and> \<not> Base.Deleted y \<and>
      Vehicle.CompanyID y = Vehicle.CompanyID x"
    using assms(2,3) [of x] by (auto simp: modify_Some)
qed simp_all

lemma fittingsOK_step:
  assumes "registry_step hex True co v v'" and ok: "fittingsOK hex v" and set: "settled v"
  shows "fittingsOK hex v'"
  using assms(1)
proof cases
  case (driver_added i d)
  then show ?thesis using fittingsOK_keep [OF ok, of v'] by simp
next
  case (driver_changed i d0 d)
  then show ?thesis using fittingsOK_keep [OF ok, of v'] by simp
next
  case (driver_retired i d0 now)
  then show ?thesis using fittingsOK_keep [OF ok, of v'] by simp
next
  case (drivers_unpaired p S now)
  then show ?thesis using fittingsOK_vehicles_modify [OF ok] by simp
next
  case (vehicle_added i x)
  then show ?thesis using fittingsOK_vehicles [OF ok, of i x] by simp
next
  case (vehicle_changed i x0 x)
  show ?thesis
    unfolding vehicle_changed(1)
    by (rule fittingsOK_vehicles [OF ok]) (use vehicle_changed(2,3,6,7) in auto)
next
  case (vehicle_retired i x0 name now)
  have "fittingsOK hex (v\<lparr>Vehicles := (Vehicles v)(i \<mapsto> markDeleted now x0)\<rparr>)"
    by (rule fittingsOK_vehicles [OF ok]) (use vehicle_retired(5,6) in blast)
  then show ?thesis using vehicle_retired(1) by simp
next
  case (members_removed S)
  then show ?thesis using fittingsOK_keep [OF ok, of v'] by simp
next
  case (tracker_added i t)
  then show ?thesis using fittingsOK_trackers [OF ok _ refl, of i t] by simp
next
  case (tracker_changed i t0 t)
  then show ?thesis using fittingsOK_trackers [OF ok _ refl, of i t] settledD(3) [OF set] by simp
next
  case (tracker_retired i t0 name now)
  have "fittingsOK hex (v\<lparr>Trackers := (Trackers v)(i \<mapsto> markDeleted now t0)\<rparr>)"
    by (rule fittingsOK_trackers [OF ok _ refl]) (use tracker_retired(4,5) in blast)
  then show ?thesis using tracker_retired(1) by simp
next
  case (fittings_closed p at' S)
  then show ?thesis using fittingsOK_close [OF ok] by simp
next
  case (device_fitted i a ti t vi x)
  show ?thesis
    unfolding device_fitted(1)
    by (rule fittingsOK_fit [OF ok set device_fitted(5) device_fitted(9) device_fitted(14) device_fitted(10)
          device_fitted(7,8,11,13) _ device_fitted(2,15)])
      (use device_fitted(4,12) in simp)
next
  case (shortcuts_cleared p at' S)
  then show ?thesis using fittingsOK_vehicles_modify [OF ok] by simp
next
  case (shortcut_set i x t at')
  show ?thesis
    unfolding shortcut_set(1)
    by (rule fittingsOK_vehicles [OF ok]) (use shortcut_set(2) in auto)
qed (use fittingsOK_keep [OF ok, of v'] in simp_all)

section \<open>Identity and persistence\<close>

text \<open>
  Along the register's steps no record disappears, a retired record stays retired, a record keeps
  its company (but for a device, which staff may hand over), a device keeps its kind and id, and
  a document keeps its owner.
\<close>

definition keeps :: "('d \<Rightarrow> 'd \<Rightarrow> bool) \<Rightarrow> 'd docs \<Rightarrow> 'd docs \<Rightarrow> bool" where
  "keeps R m m' \<longleftrightarrow> (\<forall>i d. m i = Some d \<longrightarrow> (\<exists>d'. m' i = Some d' \<and> R d d'))"

definition sameVehicle :: "Vehicle \<Rightarrow> Vehicle \<Rightarrow> bool" where
  "sameVehicle x x' \<longleftrightarrow> Vehicle.CompanyID x' = Vehicle.CompanyID x \<and> (Base.Deleted x \<longrightarrow> Base.Deleted x')"

definition sameDriver :: "Driver \<Rightarrow> Driver \<Rightarrow> bool" where
  "sameDriver d d' \<longleftrightarrow> Driver.CompanyID d' = Driver.CompanyID d \<and> (Base.Deleted d \<longrightarrow> Base.Deleted d')"

definition sameTracker :: "Tracker \<Rightarrow> Tracker \<Rightarrow> bool" where
  "sameTracker t t' \<longleftrightarrow> Tracker.Kind t' = Tracker.Kind t \<and> Tracker.DeviceID t' = Tracker.DeviceID t \<and>
     (Base.Deleted t \<longrightarrow> Base.Deleted t')"

definition sameFitting :: "TrackerAssignment \<Rightarrow> TrackerAssignment \<Rightarrow> bool" where
  "sameFitting a a' \<longleftrightarrow> a'\<lparr>UnfittedAt := UnfittedAt a\<rparr> = a \<and> (UnfittedAt a \<noteq> None \<longrightarrow> a' = a)"

definition sameDocument :: "Document \<Rightarrow> Document \<Rightarrow> bool" where
  "sameDocument d d' \<longleftrightarrow> Document.CompanyID d' = Document.CompanyID d \<and>
     Document.VehicleID d' = Document.VehicleID d \<and> Document.DriverID d' = Document.DriverID d \<and>
     (Base.Deleted d \<longrightarrow> Base.Deleted d')"

lemmas same_defs = sameVehicle_def sameDriver_def sameTracker_def sameFitting_def sameDocument_def

lemma keeps_refl: "(\<And>d. R d d) \<Longrightarrow> keeps R m m"
  by (simp add: keeps_def)

lemma keeps_trans:
  assumes "keeps R m m'" "keeps R m' m''" "\<And>a b c. R a b \<Longrightarrow> R b c \<Longrightarrow> R a c"
  shows "keeps R m m''"
  using assms unfolding keeps_def by blast

lemma keeps_put:
  assumes "\<And>d. R d d" and "\<And>d0. m i = Some d0 \<Longrightarrow> R d0 d"
  shows "keeps R m (m(i \<mapsto> d))"
  using assms by (simp add: keeps_def)

lemma keeps_modify:
  assumes "\<And>d. R d d" and "\<And>d. p d \<Longrightarrow> R d (f d)"
  shows "keeps R m (modify S p f m)"
  using assms by (auto simp: keeps_def modify_Some)

definition persisted :: "MasterData \<Rightarrow> MasterData \<Rightarrow> bool" where
  "persisted v v' \<longleftrightarrow>
     keeps sameVehicle (Vehicles v) (Vehicles v') \<and> keeps sameDriver (Drivers v) (Drivers v') \<and>
     keeps sameTracker (Trackers v) (Trackers v') \<and> keeps sameFitting (Assignments v) (Assignments v') \<and>
     keeps sameDocument (Documents v) (Documents v')"

lemma same_refl: "sameVehicle x x" "sameDriver d d" "sameTracker t t" "sameFitting a a" "sameDocument e e"
  by (simp_all add: same_defs)

lemma same_trans:
  "sameVehicle x x' \<Longrightarrow> sameVehicle x' x'' \<Longrightarrow> sameVehicle x x''"
  "sameDriver d d' \<Longrightarrow> sameDriver d' d'' \<Longrightarrow> sameDriver d d''"
  "sameTracker t t' \<Longrightarrow> sameTracker t' t'' \<Longrightarrow> sameTracker t t''"
  "sameFitting a a' \<Longrightarrow> sameFitting a' a'' \<Longrightarrow> sameFitting a a''"
  "sameDocument e e' \<Longrightarrow> sameDocument e' e'' \<Longrightarrow> sameDocument e e''"
  by (auto simp: same_defs)

lemmas keeps_same =
  keeps_refl [of sameVehicle, OF same_refl(1)] keeps_refl [of sameDriver, OF same_refl(2)]
  keeps_refl [of sameTracker, OF same_refl(3)] keeps_refl [of sameFitting, OF same_refl(4)]
  keeps_refl [of sameDocument, OF same_refl(5)]

lemma persisted_refl: "persisted v v"
  by (simp add: persisted_def keeps_same)

lemma persisted_trans: "persisted v v' \<Longrightarrow> persisted v' v'' \<Longrightarrow> persisted v v''"
  unfolding persisted_def
  by (intro conjI; elim conjE)
    (erule keeps_trans, assumption, erule same_trans, assumption)+

lemma persisted_write:
  "(\<And>d0. Drivers v i = Some d0 \<Longrightarrow> sameDriver d0 d) \<Longrightarrow> persisted v (v\<lparr>Drivers := (Drivers v)(i \<mapsto> d)\<rparr>)"
  "(\<And>x0. Vehicles v i = Some x0 \<Longrightarrow> sameVehicle x0 x) \<Longrightarrow> persisted v (v\<lparr>Vehicles := (Vehicles v)(i \<mapsto> x)\<rparr>)"
  "(\<And>x. sameVehicle x (f x)) \<Longrightarrow> persisted v (v\<lparr>Vehicles := modify S p f (Vehicles v)\<rparr>)"
  "(\<And>t0. Trackers v i = Some t0 \<Longrightarrow> sameTracker t0 t) \<Longrightarrow> persisted v (v\<lparr>Trackers := (Trackers v)(i \<mapsto> t)\<rparr>)"
  "Assignments v i = None \<Longrightarrow> persisted v (v\<lparr>Assignments := (Assignments v)(i \<mapsto> a)\<rparr>)"
  "(\<And>a. q a \<Longrightarrow> UnfittedAt a = None) \<Longrightarrow>
     persisted v (v\<lparr>Assignments := modify T q (closeFitting at') (Assignments v)\<rparr>)"
  "persisted v (v\<lparr>Members := m\<rparr>)"
  "(\<And>e0. Documents v i = Some e0 \<Longrightarrow> sameDocument e0 e) \<Longrightarrow> persisted v (v\<lparr>Documents := (Documents v)(i \<mapsto> e)\<rparr>)"
proof -
  have close: "sameFitting a (closeFitting at' a)" if "UnfittedAt a = None" for a
    using that by (cases a) (simp add: sameFitting_def closeFitting_def)
  show "(\<And>a. q a \<Longrightarrow> UnfittedAt a = None) \<Longrightarrow>
     persisted v (v\<lparr>Assignments := modify T q (closeFitting at') (Assignments v)\<rparr>)"
    by (simp add: persisted_def keeps_same keeps_modify same_refl close)
  have "sameFitting a0 a" if "Assignments v i = None" "Assignments v i = Some a0" for a0
    using that by simp
  then show "Assignments v i = None \<Longrightarrow> persisted v (v\<lparr>Assignments := (Assignments v)(i \<mapsto> a)\<rparr>)"
    using keeps_put [of sameFitting "Assignments v" i a, OF same_refl(4)] by (simp add: persisted_def keeps_same)
qed (simp_all add: persisted_def keeps_same keeps_put keeps_modify same_refl)

lemma persisted_step:
  assumes "registry_step hex canon co v v'" and set: "settled v"
  shows "persisted v v'"
  using assms(1)
proof cases
  case (tracker_changed i t0 t)
  then show ?thesis using settledD(3) [OF set, of i t0] by (auto simp: same_defs intro!: persisted_write)
qed (auto simp: same_defs intro!: persisted_write)

section \<open>Tenancy\<close>

text \<open>
  What a map keeps of the records a company owns: each is still there, changed at most as \<open>R\<close>
  allows, and none of them is new.
\<close>

definition ownKept :: "('d \<Rightarrow> bool) \<Rightarrow> ('d \<Rightarrow> 'd \<Rightarrow> bool) \<Rightarrow> 'd docs \<Rightarrow> 'd docs \<Rightarrow> bool" where
  "ownKept own R m m' \<longleftrightarrow>
     (\<forall>i d. m i = Some d \<longrightarrow> own d \<longrightarrow> (\<exists>d'. m' i = Some d' \<and> R d d')) \<and>
     (\<forall>i d'. m' i = Some d' \<longrightarrow> own d' \<longrightarrow> (\<exists>d. m i = Some d \<and> own d \<and> R d d'))"

lemma ownKept_refl: "(\<And>d. R d d) \<Longrightarrow> ownKept own R m m"
  by (simp add: ownKept_def)

lemma ownKept_trans:
  assumes "ownKept own R m m'" "ownKept own R m' m''"
    and "\<And>a b c. R a b \<Longrightarrow> R b c \<Longrightarrow> R a c" and "\<And>a b. R a b \<Longrightarrow> own b = own a"
  shows "ownKept own R m m''"
proof -
  have "\<exists>d''. m'' i = Some d'' \<and> R d d''" if "m i = Some d" "own d" for i d
  proof -
    obtain d' where "m' i = Some d'" "R d d'" using assms(1) \<open>m i = Some d\<close> \<open>own d\<close> unfolding ownKept_def by blast
    moreover from this obtain d'' where "m'' i = Some d''" "R d' d''"
      using assms(2) assms(4) [of d d'] \<open>own d\<close> unfolding ownKept_def by blast
    ultimately show ?thesis using assms(3) by blast
  qed
  moreover have "\<exists>d. m i = Some d \<and> own d \<and> R d d''" if "m'' i = Some d''" "own d''" for i d''
  proof -
    obtain d' where "m' i = Some d'" "own d'" "R d' d''"
      using assms(2) \<open>m'' i = Some d''\<close> \<open>own d''\<close> unfolding ownKept_def by blast
    moreover from this obtain d where "m i = Some d" "own d" "R d d'" using assms(1) unfolding ownKept_def by blast
    ultimately show ?thesis using assms(3) by blast
  qed
  ultimately show ?thesis by (simp add: ownKept_def)
qed

lemma ownKept_weaken:
  assumes "ownKept own R m m'" and "\<And>d. own' d \<Longrightarrow> own d" and "\<And>a b. R a b \<Longrightarrow> own' b = own' a"
  shows "ownKept own' R m m'"
  using assms unfolding ownKept_def by blast

lemma ownKept_put:
  assumes "\<And>d. R d d" and "\<And>d0. m i = Some d0 \<Longrightarrow> own d0 \<Longrightarrow> own d \<and> R d0 d"
    and "own d \<Longrightarrow> \<exists>d0. m i = Some d0 \<and> own d0 \<and> R d0 d"
  shows "ownKept own R m (m(i \<mapsto> d))"
  using assms by (auto simp: ownKept_def)

lemma ownKept_modify:
  assumes "\<And>d. R d d" and "\<And>d. p d \<Longrightarrow> R d (f d)" and "\<And>a b. R a b \<Longrightarrow> own b = own a"
  shows "ownKept own R m (modify S p f m)"
proof -
  have "own (f d) = own d" if "p d" for d using assms(2,3) that by blast
  then show ?thesis using assms(1,2) by (auto simp: ownKept_def modify_Some)
qed

lemma ownKept_modify_others:
  assumes "\<And>d. R d d" and "\<And>d. p d \<Longrightarrow> \<not> own d \<and> \<not> own (f d)"
  shows "ownKept own R m (modify S p f m)"
  using assms by (auto simp: ownKept_def modify_Some)

lemma ownKept_restrict:
  assumes "\<And>i d. i \<in> S \<Longrightarrow> m i = Some d \<Longrightarrow> \<not> own d"
  shows "ownKept own (=) m (m |` (- S))"
  using assms by (auto simp: ownKept_def restrict_map_def)

text \<open>A vehicle as it was, but that a device may have been taken from it.\<close>

definition cleared :: "Vehicle \<Rightarrow> Vehicle \<Rightarrow> bool" where
  "cleared x x' \<longleftrightarrow> x' = x \<or> (\<exists>at'. x' = setShortcut None at' x)"

lemma cleared_refl: "cleared x x"
  by (simp add: cleared_def)

lemma cleared_company: "cleared x y \<Longrightarrow> Vehicle.CompanyID y = Vehicle.CompanyID x"
  by (auto simp: cleared_def)

lemma cleared_trans: "cleared x y \<Longrightarrow> cleared y z \<Longrightarrow> cleared x z"
  by (auto simp: cleared_def setShortcut_def)

lemma sameFitting_company: "sameFitting a b \<Longrightarrow> TrackerAssignment.CompanyID b = TrackerAssignment.CompanyID a"
  by (cases a; cases b) (simp add: sameFitting_def)

text \<open>
  What the requests of others leave of the records of the companies \<open>P\<close>: everything, but for
  the shortcut of a vehicle a device is taken from, and for fittings that close.
\<close>

definition recordsKept :: "(string \<Rightarrow> bool) \<Rightarrow> MasterData \<Rightarrow> MasterData \<Rightarrow> bool" where
  "recordsKept P v v' \<longleftrightarrow>
     ownKept (\<lambda>d. P (Driver.CompanyID d)) (=) (Drivers v) (Drivers v') \<and>
     ownKept (\<lambda>e. P (Document.CompanyID e)) (=) (Documents v) (Documents v') \<and>
     ownKept (\<lambda>m. P (VehicleGroupMember.CompanyID m)) (=) (Members v) (Members v') \<and>
     ownKept (\<lambda>t. \<exists>c. Tracker.CompanyID t = Some c \<and> P c) (=) (Trackers v) (Trackers v') \<and>
     ownKept (\<lambda>x. P (Vehicle.CompanyID x)) cleared (Vehicles v) (Vehicles v') \<and>
     ownKept (\<lambda>a. P (TrackerAssignment.CompanyID a)) sameFitting (Assignments v) (Assignments v')"

lemma recordsKept_refl: "recordsKept P v v"
  by (simp add: recordsKept_def ownKept_refl cleared_refl same_refl)

lemma recordsKept_trans: "recordsKept P v v' \<Longrightarrow> recordsKept P v' v'' \<Longrightarrow> recordsKept P v v''"
  unfolding recordsKept_def
  by (intro conjI; elim conjE; erule ownKept_trans, assumption)
    (auto simp: cleared_company sameFitting_company intro: cleared_trans same_trans(4))

lemma recordsKept_weaken: "recordsKept P v v' \<Longrightarrow> (\<And>c. Q c \<Longrightarrow> P c) \<Longrightarrow> recordsKept Q v v'"
  unfolding recordsKept_def
  by (intro conjI; elim conjE; erule ownKept_weaken) (auto simp: cleared_company sameFitting_company)

lemma recordsKept_step:
  assumes "registry_step hex canon co v v'" and "co \<noteq> []"
  shows "recordsKept (\<lambda>c. c \<noteq> co) v v'"
  using assms(1)
proof cases
  case (drivers_unpaired p S now)
  then show ?thesis
    by (auto simp: recordsKept_def ownKept_refl cleared_refl same_refl intro!: ownKept_modify_others)
next
  case (shortcuts_cleared S p at')
  have "ownKept own cleared m (modify S p (setShortcut None at') m)"
    if "\<And>a b. cleared a b \<Longrightarrow> own b = own a" for own m
    by (rule ownKept_modify) (use that in \<open>auto simp: cleared_def\<close>)
  then show ?thesis
    by (simp add: shortcuts_cleared recordsKept_def ownKept_refl same_refl cleared_company)
next
  case (fittings_closed p S at')
  have "sameFitting a (closeFitting at' a)" if "p a" for a
    using fittings_closed(2) [OF that] by (cases a) (simp add: sameFitting_def closeFitting_def)
  then have "ownKept own sameFitting m (modify S p (closeFitting at') m)"
    if "\<And>a b. sameFitting a b \<Longrightarrow> own b = own a" for own m
    by (intro ownKept_modify) (use that in \<open>auto simp: same_refl\<close>)
  then show ?thesis
    by (simp add: fittings_closed(1) recordsKept_def ownKept_refl cleared_refl sameFitting_company)
qed (use assms(2) in \<open>auto simp: recordsKept_def ownKept_refl cleared_refl same_refl
  intro!: ownKept_put ownKept_restrict\<close>)

text \<open>
  The same seen by a company \<open>c\<close> of which none of the requests is: its records are as they
  were, but for the shortcut of a vehicle and the end of a fitting.
\<close>

abbreviation undisturbed :: "string \<Rightarrow> MasterData \<Rightarrow> MasterData \<Rightarrow> bool" where
  "undisturbed c \<equiv> recordsKept (\<lambda>d. d = c)"

lemma undisturbed_step:
  assumes "undisturbed c v0 v" "registry_step hex canon co v v'" "co \<noteq> c" "co \<noteq> []"
  shows "undisturbed c v0 v'"
  using recordsKept_trans [OF assms(1) recordsKept_weaken [OF recordsKept_step [OF assms(2,4)]]] assms(3) by blast

end
