(* ===== verification/Registry.thy ===== *)
theory Registry
  imports RegistryDocuments RegistryInvariants
begin

text \<open>
  The fleet register as a whole: a request of a company is one of the register's writes, a run of
  the service a sequence of them, from any companies, each of which may succeed or fail anywhere.
  Each request moves the database along the steps of \<open>registry_step\<close>, so the invariants of
  the steps are the invariants of the service.
\<close>

section \<open>Requests\<close>

datatype Request =
    ReqCreateDriver DriverInput
  | ReqUpdateDriver string DriverInput
  | ReqDeleteDriver string
  | ReqCreateVehicle VehicleInput
  | ReqUpdateVehicle string VehicleInput
  | ReqDeleteVehicle string
  | ReqCreateTracker bool TrackerInput
  | ReqUpdateTracker string TrackerInput
  | ReqUpdateTrackerAsStaff string TrackerInput
  | ReqDeleteTracker string
  | ReqFit string FitInput
  | ReqUnfit string "Time option"
  | ReqCreateDocument DocumentInput
  | ReqUpdateDocument string DocumentInput
  | ReqDeleteDocument string

definition forget :: "('w, 'a) io \<Rightarrow> ('w, unit) io" where
  "forget m = andThen m (\<lambda>_. ok ())"

fun perform :: "'w Database \<Rightarrow> string \<Rightarrow> Request \<Rightarrow> ('w, unit) io" where
  "perform D co (ReqCreateDriver inp) = forget (CreateDriver D co inp)"
| "perform D co (ReqUpdateDriver i inp) = forget (UpdateDriver D co i inp)"
| "perform D co (ReqDeleteDriver i) = DeleteDriver D co i"
| "perform D co (ReqCreateVehicle inp) = forget (CreateVehicle D co inp)"
| "perform D co (ReqUpdateVehicle i inp) = forget (UpdateVehicle D co i inp)"
| "perform D co (ReqDeleteVehicle i) = DeleteVehicle D co i"
| "perform D co (ReqCreateTracker staff inp) = forget (CreateTracker D co staff inp)"
| "perform D co (ReqUpdateTracker i inp) = forget (UpdateTracker D co i inp)"
| "perform D co (ReqUpdateTrackerAsStaff i inp) = forget (UpdateTrackerAsStaff D i inp)"
| "perform D co (ReqDeleteTracker i) = DeleteTracker D co i"
| "perform D co (ReqFit i inp) = forget (Fit D co i inp)"
| "perform D co (ReqUnfit i at') = Unfit D co i at'"
| "perform D co (ReqCreateDocument inp) = forget (CreateDocument D co inp)"
| "perform D co (ReqUpdateDocument i inp) = forget (UpdateDocument D co i inp)"
| "perform D co (ReqDeleteDocument i) = DeleteDocument D co i"

text \<open>Staff act on a device for no company.\<close>

fun actor :: "string \<Rightarrow> Request \<Rightarrow> string" where
  "actor co (ReqUpdateTrackerAsStaff i inp) = []"
| "actor co r = co"

text \<open>An id spelt as the service spells it, which the deletions compare as text.\<close>

definition canonicalID :: "'w Database \<Rightarrow> string \<Rightarrow> bool" where
  "canonicalID D s \<longleftrightarrow>
     (case ObjectIDFromHex (env D) s of None \<Rightarrow> False | Some i \<Rightarrow> Hex (env D) i = s)"

fun canonical :: "'w Database \<Rightarrow> Request \<Rightarrow> bool" where
  "canonical D (ReqDeleteVehicle i) = canonicalID D i"
| "canonical D (ReqDeleteTracker i) = canonicalID D i"
| "canonical D r = True"

fun serve :: "'w Database \<Rightarrow> (string \<times> Request) list \<Rightarrow> 'w \<Rightarrow> 'w" where
  "serve D [] w = w"
| "serve D ((co, r) # rs) w = serve D rs (snd (perform D co r w))"

section \<open>Every request takes steps of the register\<close>

lemma canonicalID_hex: "canonicalID D s \<Longrightarrow> \<exists>i. s = Hex (env D) i"
  by (auto simp: canonicalID_def split: option.splits)

context database
begin

lemma forget_triple:
  assumes "triple (holds P) m (\<lambda>x. holds (\<lambda>v. Q v \<and> R x v)) (holds Q)"
  shows "triple (holds P) (forget m) (\<lambda>_. holds Q) (holds Q)"
  unfolding forget_def by (rule triple_andThen [OF assms]) (auto intro: ok_triple)

lemma forget_triple':
  "triple (holds P) m (\<lambda>x. holds (\<lambda>v. (Q v \<and> R x v) \<and> S x v)) (holds Q) \<Longrightarrow>
     triple (holds P) (forget m) (\<lambda>_. holds Q) (holds Q)"
  unfolding conj_assoc by (rule forget_triple)

lemma gone_triple:
  "triple (holds P) m (\<lambda>x. holds (\<lambda>v. Q v \<and> R v)) (holds Q) \<Longrightarrow> triple (holds P) m (\<lambda>_. holds Q) (holds Q)"
  by (erule triple_conseq) (simp_all add: inWorld_def)

lemma perform_triple:
  assumes "canon \<Longrightarrow> canonical D r"
  shows "triple (holds (moved canon (actor co r) v0)) (perform D co r)
    (\<lambda>_. holds (moved canon (actor co r) v0)) (holds (moved canon (actor co r) v0))"
proof (cases r)
  case (ReqDeleteVehicle i)
  have "canon \<Longrightarrow> \<exists>j. i = Hex (env D) j" using assms canonicalID_hex ReqDeleteVehicle by auto
  then show ?thesis using gone_triple [OF DeleteVehicle_triple] ReqDeleteVehicle by simp
next
  case (ReqDeleteTracker i)
  have "canon \<Longrightarrow> \<exists>j. i = Hex (env D) j" using assms canonicalID_hex ReqDeleteTracker by auto
  then show ?thesis using gone_triple [OF DeleteTracker_triple] ReqDeleteTracker by simp
next
  case (ReqUnfit i at')
  show ?thesis
    by (simp add: ReqUnfit) (rule triple_conseq [OF Unfit_triple], auto simp: inWorld_def)
next
  case (ReqCreateDocument inp)
  show ?thesis
    by (simp add: ReqCreateDocument) (rule forget_triple' [OF CreateDocument_triple])
qed (simp_all add: forget_triple [OF CreateDriver_triple] forget_triple [OF UpdateDriver_triple]
    DeleteDriver_triple forget_triple [OF CreateVehicle_triple] forget_triple [OF UpdateVehicle_triple]
    forget_triple [OF CreateTracker_triple] forget_triple [OF UpdateTracker_triple]
    forget_triple [OF UpdateTrackerAsStaff_triple] forget_triple [OF Fit_triple]
    forget_triple [OF UpdateDocument_triple] DeleteDocument_triple)

lemma perform_steps:
  assumes "canon \<Longrightarrow> canonical D r" and "good w" and "perform D co r w = (res, w')"
  shows "good w' \<and> (registry_step (Hex (env D)) canon (actor co r))\<^sup>*\<^sup>* (vw w) (vw w')"
  using triple_worldD [OF perform_triple [OF assms(1), where co = co and ?v0.0 = "vw w"] _ assms(3)] assms(2)
  by (simp add: inWorld_def)

lemma steps_invariant:
  assumes "(registry_step h canon co)\<^sup>*\<^sup>* v v'"
    and "I v" and "\<And>v v'. I v \<Longrightarrow> registry_step h canon co v v' \<Longrightarrow> I v'"
  shows "I v'"
  using assms by (induction rule: rtranclp_induct) blast+

lemma serve_invariant:
  assumes step: "\<And>co v v'. A co \<Longrightarrow> I v \<Longrightarrow> registry_step (Hex (env D)) canon co v v' \<Longrightarrow> I v'"
    and "good w" "I (vw w)" and "\<forall>(co, r) \<in> set rs. A (actor co r) \<and> (canon \<longrightarrow> canonical D r)"
  shows "good (serve D rs w) \<and> I (vw (serve D rs w))"
  using assms(2-)
proof (induction rs arbitrary: w)
  case (Cons cr rs)
  obtain co r where cr: "cr = (co, r)" by force
  obtain res w' where run: "perform D co r w = (res, w')" by force
  have c: "canon \<Longrightarrow> canonical D r" and a: "A (actor co r)" using Cons.prems(3) cr by simp_all
  note w' = perform_steps [OF c Cons.prems(1) run]
  then have "I (vw w')" using steps_invariant [OF conjunct2 [OF w']] Cons.prems(2) step [OF a] by blast
  then show ?case using Cons.IH [of w'] w' Cons.prems(3) cr run by simp
qed simp

lemma indexes:
  "good w \<Longrightarrow> indexed vehicle_indexes (Vehicles (vw w))"
  "good w \<Longrightarrow> indexed tracker_indexes (Trackers (vw w))"
  using veh.indexed_docs trk.indexed_docs by simp_all

lemma success:
  assumes "triple (holds (moved canon co (vw w))) m (\<lambda>x. holds (Q x)) E" and "good w" and "m w = (Inr x, w')"
  shows "good w' \<and> Q x (vw w')"
  using triple_InrD [OF assms(1) _ assms(3)] assms(2) by (simp add: inWorld_def)

end

end
