(* ===== verification/SampleFleet.thy ===== *)
theory SampleFleet
  imports RegistryDocuments RegistryInvariants
begin

text \<open>
  A small fleet in the executable database, on which the properties of the register are
  evaluated: a company with two trucks, an active driver and a GPS device.
\<close>

definition sampleDriver :: Driver where
  "sampleDriver = Driver_BeforeWrite
     ((newDriver ''acme'')\<lparr>Base.ID := 4, Driver.FullName := ''Budi'', Driver.Status := ''active''\<rparr>)"

definition sampleTruck :: "ObjectID \<Rightarrow> string \<Rightarrow> Vehicle" where
  "sampleTruck i plate = Vehicle_BeforeWrite
     ((newVehicle ''acme'')\<lparr>Base.ID := i, Vehicle.LicensePlate := plate\<rparr>)"

definition sampleTracker :: Tracker where
  "sampleTracker = Tracker_BeforeWrite
     (newTracker\<lparr>Base.ID := 1, Tracker.CompanyID := Some ''acme'', Tracker.Kind := TrackerGPS,
        Tracker.DeviceID := ''356938035643809'', Tracker.Owner := OwnerCustomer\<rparr>)"

definition sampleWorld :: MemWorld where
  "sampleWorld = emptyWorld\<lparr>mDrivers := [sampleDriver],
     mVehicles := [sampleTruck 2 ''B 1 A'', sampleTruck 3 ''B 2 B''],
     mTrackers := [sampleTracker], nextOid := 5\<rparr>"

lemma sample_lists [simp]:
  "mDrivers sampleWorld = [sampleDriver]"
  "mVehicles sampleWorld = [sampleTruck 2 ''B 1 A'', sampleTruck 3 ''B 2 B'']"
  "mTrackers sampleWorld = [sampleTracker]" "mAssignments sampleWorld = []" "mMembers sampleWorld = []"
  "mDocuments sampleWorld = []" "mModels sampleWorld = []" "mGroups sampleWorld = []"
  "mSites sampleWorld = []" "clock sampleWorld = 0" "nextOid sampleWorld = 5"
  "published sampleWorld = []"
  by (simp_all add: sampleWorld_def emptyWorld_def)

lemma sampleDriver_simps [simp]:
  "Base.ID sampleDriver = 4" "\<not> Base.Deleted sampleDriver" "Driver.CompanyID sampleDriver = ''acme''"
  "Driver.UserID sampleDriver = None"
  by (simp_all add: sampleDriver_def newDriver_def)

lemma sampleTruck_simps [simp]:
  "Base.ID (sampleTruck i p) = i" "\<not> Base.Deleted (sampleTruck i p)"
  "Vehicle.CompanyID (sampleTruck i p) = ''acme''" "Vehicle.TrackerID (sampleTruck i p) = None"
  "Vehicle.CurrentDriverID (sampleTruck i p) = None" "PlateNormalised (sampleTruck i p) = Plate p"
  "Vehicle.LicensePlate (sampleTruck i p) = p" "ChassisNormalised (sampleTruck i p) = None"
  by (simp_all add: sampleTruck_def newVehicle_def Optional_def)

lemma sampleTracker_simps [simp]:
  "Base.ID sampleTracker = 1" "\<not> Base.Deleted sampleTracker" "Tracker.CompanyID sampleTracker = Some ''acme''"
  "Tracker.Kind sampleTracker = TrackerGPS" "Tracker.Status sampleTracker = ''active''"
  by (simp_all add: sampleTracker_def newTracker_def enum_defs)
    (simp add: Tracker_BeforeWrite_def Let_def)

lemma samplePlates: "Plate ''B 1 A'' = ''B1A''" "Plate ''B 2 B'' = ''B2B''"
  by code_simp+

lemma uniqueKeys_few [simp]: "uniqueKeys ixs []" "uniqueKeys ixs [d]"
  by (simp_all add: uniqueKeys_def list_all_iff keysOf_Cons keysOf_def List.map_filter_def
      split: option.split)

lemma sample_vehicle_keys: "uniqueKeys vehicle_indexes [sampleTruck 2 ''B 1 A'', sampleTruck 3 ''B 2 B'']"
  by (simp add: uniqueKeys_def vehicle_indexes_def keysOf_Cons keysOf_def List.map_filter_def
      uq_vehicle_plate_def uq_vehicle_chassis_def live_def liveString_def samplePlates)

lemma sample_good: "memGood sampleWorld"
  by (simp add: memGood_def goodList_def NilObjectID_def sample_vehicle_keys)

lemma sample_documents:
  "goodVehicle (sampleTruck 2 ''B 1 A'')" "goodVehicle (sampleTruck 3 ''B 2 B'')"
  "goodDriver sampleDriver"
proof -
  have good: "goodVehicle (sampleTruck i p)" if "p \<noteq> []" "Plate p \<noteq> []" for i p
    using that settled_Vehicle_BeforeWrite
    by (simp add: goodVehicle_def Vehicle_Validate_def) (simp add: sampleTruck_def)
  show "goodVehicle (sampleTruck 2 ''B 1 A'')" "goodVehicle (sampleTruck 3 ''B 2 B'')"
    by (rule good; simp add: samplePlates)+
  have "TrimSpace ''Budi'' = ''Budi''" by code_simp
  then have "Driver_Validate sampleDriver = None"
    by (simp add: Driver_Validate_def sampleDriver_def Driver_BeforeWrite_def newDriver_def Let_def)
  then show "goodDriver sampleDriver"
    using settled_Driver_BeforeWrite by (simp add: goodDriver_def) (simp add: sampleDriver_def)
qed

lemma sample_imei: "Normalise.IMEI ''356938035643809'' = ''356938035643809''"
  by code_simp

lemma sample_device [simp]: "Tracker.DeviceID sampleTracker = ''356938035643809''"
  by (simp add: sampleTracker_def Tracker_BeforeWrite_def Let_def newTracker_def sample_imei enum_defs)

lemma sample_tracker_settled: "settled_Tracker sampleTracker"
  unfolding sampleTracker_def by (rule settled_Tracker_BeforeWrite)

lemma sample_settled: "settled (memView sampleWorld)"
  by (simp add: settled_def allDocs_def memView_def toMap_def sample_documents sample_tracker_settled)

lemma sample_paired: "pairedOnce (Vehicles (memView sampleWorld))"
  by (simp add: pairedOnce_def memView_def toMap_def)

lemma sample_fittings: "fittingsOK hex (memView sampleWorld)"
  by (simp add: fittingsOK_def memView_def toMap_def)

text \<open>The ids of the sample, as the service spells them.\<close>

lemma sample_hex:
  "memHex 1 = ''000000000000000000000001''" "memHex 2 = ''000000000000000000000002''"
  "memHex 3 = ''000000000000000000000003''" "memHex 4 = ''000000000000000000000004''"
  "memHex 5 = ''000000000000000000000005''"
  by code_simp+

lemma sample_fromHex [simp]: "memFromHex (memHex i) = Some i"
  by (rule memFromHex_memHex)

lemma sample_trim [simp]: "TrimSpace (memHex i) = memHex i" "memHex i \<noteq> []"
  using memHex_trimmed by (auto simp: TrimSpace_of_trimmed)

end
