(* ===== verification/FleetRegister.thy ===== *)
theory FleetRegister
  imports Registry SampleFleet
begin

text \<open>
  What the fleet register guarantees, over every database that keeps the contract and every
  sequence of requests from any companies; each statement is evaluated on the sample fleet.
\<close>

text \<open>C6. A request of the register, whether it succeeds or fails, and wherever it fails,
  changes the database only along the steps of the abstract machine \<open>registry_step\<close>, taken for
  the company that makes it.\<close>

theorem requests_follow_machine:
  assumes "database D good vw" and "good w"
  shows "good (snd (perform D co r w)) \<and>
    (registry_step (Hex (env D)) False (actor co r))\<^sup>*\<^sup>* (vw w) (vw (snd (perform D co r w)))"
proof -
  obtain res w' where "perform D co r w = (res, w')" by force
  then show ?thesis using database.perform_steps [OF assms(1) _ assms(2)] by fastforce
qed

definition sampleFit :: "ObjectID \<Rightarrow> FitInput" where
  "sampleFit i = \<lparr>FitInput.VehicleID = memHex i, FittedAt = None, InstallPhotoKey = None,
     InstalledByUserID = None, InstallNotes = None\<rparr>"

lemma requests_follow_machine_witness:
  "(registry_step memHex False ''acme'')\<^sup>*\<^sup>* (memView sampleWorld)
     (memView (snd (perform memDB ''acme'' (ReqFit (memHex 1) (sampleFit 2)) sampleWorld)))"
  using requests_follow_machine [OF memDB_database sample_good, of "''acme''" "ReqFit (memHex 1) (sampleFit 2)"]
  by (simp del: perform.simps)

text \<open>C9. However requests interleave, a driver is never paired with two vehicles of a
  company.\<close>

theorem pairings_stay_exclusive:
  assumes "database D good vw" and "good w" and "pairedOnce (Vehicles (vw w))"
  shows "pairedOnce (Vehicles (vw (serve D rs w)))"
  by (rule conjunct2 [OF database.serve_invariant [OF assms(1), where canon = False and A = "\<lambda>_. True"
        and I = "\<lambda>v. pairedOnce (Vehicles v)"]])
    (use assms pairedOnce_step in \<open>auto\<close>)

definition sampleRequests :: "(string \<times> Request) list" where
  "sampleRequests =
     [(''acme'', ReqUpdateVehicle (memHex 2) (noVehicleInput\<lparr>VehicleInput.CurrentDriverID := Some (memHex 4)\<rparr>)),
      (''acme'', ReqUpdateVehicle (memHex 3) (noVehicleInput\<lparr>VehicleInput.CurrentDriverID := Some (memHex 4)\<rparr>)),
      (''acme'', ReqFit (memHex 1) (sampleFit 2)), (''acme'', ReqDeleteTracker (memHex 1))]"

lemma pairings_stay_exclusive_witness:
  "pairedOnce (Vehicles (memView (serve memDB sampleRequests sampleWorld)))"
  by (rule pairings_stay_exclusive [OF memDB_database sample_good sample_paired])

text \<open>C10. However requests interleave, two live vehicles of a company never carry plates
  that read the same, and two live devices of a kind never the same id: every stored plate twin
  is the normalised plate, and the unique index holds on the twins.\<close>

theorem plates_and_devices_stay_unique:
  assumes "database D good vw" and "good w" and "settled (vw w)"
  shows "(\<forall>i j x y. Vehicles (vw (serve D rs w)) i = Some x \<longrightarrow> Vehicles (vw (serve D rs w)) j = Some y \<longrightarrow>
      \<not> Base.Deleted x \<longrightarrow> \<not> Base.Deleted y \<longrightarrow> Vehicle.CompanyID x = Vehicle.CompanyID y \<longrightarrow>
      Plate (Vehicle.LicensePlate x) = Plate (Vehicle.LicensePlate y) \<longrightarrow> i = j) \<and>
    (\<forall>i j s t. Trackers (vw (serve D rs w)) i = Some s \<longrightarrow> Trackers (vw (serve D rs w)) j = Some t \<longrightarrow>
      \<not> Base.Deleted s \<longrightarrow> \<not> Base.Deleted t \<longrightarrow> Tracker.Kind s = Tracker.Kind t \<longrightarrow>
      Tracker.DeviceID s = Tracker.DeviceID t \<longrightarrow> i = j) \<and> settled (vw (serve D rs w))"
proof -
  have end': "good (serve D rs w) \<and> settled (vw (serve D rs w))"
    by (rule database.serve_invariant [OF assms(1), where canon = False and A = "\<lambda>_. True"])
      (use assms settled_step in auto)
  then have "indexed vehicle_indexes (Vehicles (vw (serve D rs w)))"
    "indexed tracker_indexes (Trackers (vw (serve D rs w)))"
    using database.indexes [OF assms(1)] by blast+
  moreover have "PlateNormalised x = Plate (Vehicle.LicensePlate x)" if "Vehicles (vw (serve D rs w)) i = Some x" for i x
    using settledD(1) [OF conjunct2 [OF end'] that] by (simp add: goodVehicle_def settled_Vehicle_def)
  ultimately show ?thesis using end' indexed_plates indexed_devices by metis
qed

lemma plates_and_devices_stay_unique_witness:
  "settled (memView (serve memDB sampleRequests sampleWorld))"
  using plates_and_devices_stay_unique [OF memDB_database sample_good sample_settled] by blast

text \<open>C7. If it is so at the start, then after any sequence of requests in which vehicles and devices
  are deleted by their ids as the service spells them every open fitting joins a device in service to
  a live vehicle of the fitting's company, and no device has two open fittings, nor a vehicle two of a
  kind. An id spelled in capitals finds the document but not its open fittings, which then outlive
  it.\<close>

theorem fittings_stay_consistent:
  assumes "database D good vw" and "good w" and "settled (vw w)" and "fittingsOK (Hex (env D)) (vw w)"
    and "\<forall>(co, r) \<in> set rs. canonical D r"
  shows "fittingsOK (Hex (env D)) (vw (serve D rs w))"
proof -
  have "good (serve D rs w) \<and> settled (vw (serve D rs w)) \<and> fittingsOK (Hex (env D)) (vw (serve D rs w))"
    by (rule database.serve_invariant [OF assms(1), where canon = True and A = "\<lambda>_. True"
          and I = "\<lambda>v. settled v \<and> fittingsOK (Hex (env D)) v"])
      (use assms settled_step fittingsOK_step in \<open>(blast | auto)+\<close>)
  then show ?thesis by blast
qed

lemma sample_canonical: "\<forall>(co, r) \<in> set sampleRequests. canonical memDB r"
  by (simp add: sampleRequests_def canonicalID_def)

lemma fittings_stay_consistent_witness:
  "fittingsOK memHex (memView (serve memDB sampleRequests sampleWorld))"
  using fittings_stay_consistent [OF memDB_database sample_good sample_settled _ sample_canonical]
    sample_fittings by simp

text \<open>C11. No sequence of requests makes a vehicle, driver, device, fitting or document disappear or
  revives a retired one, moves a vehicle, driver or document to another company, changes the kind or
  id of a device or the vehicle or driver a document is of, or rewrites a fitting but for the moment it
  ends, which is set once. A device may change hands, which staff may have it do, and group memberships
  go with their vehicle.\<close>

theorem records_persist:
  assumes "database D good vw" and "good w" and "settled (vw w)"
  shows "persisted (vw w) (vw (serve D rs w))"
proof -
  have "good (serve D rs w) \<and> settled (vw (serve D rs w)) \<and> persisted (vw w) (vw (serve D rs w))"
    by (rule database.serve_invariant [OF assms(1), where canon = False and A = "\<lambda>_. True"
          and I = "\<lambda>v. settled v \<and> persisted (vw w) v"])
      (use assms settled_step persisted_step persisted_refl persisted_trans in \<open>blast+\<close>)
  then show ?thesis by blast
qed

lemma records_persist_witness:
  "persisted (memView sampleWorld) (memView (serve memDB sampleRequests sampleWorld))"
  by (rule records_persist [OF memDB_database sample_good sample_settled])

text \<open>Requests of other companies leave a company's drivers, documents, memberships and
  devices exactly as they were and add none, its vehicles but for losing the shortcut to a device, and
  its fittings but for their end.\<close>

theorem tenants_are_separate:
  assumes "database D good vw" and "good w"
    and "\<forall>(co, r) \<in> set rs. actor co r \<noteq> c \<and> actor co r \<noteq> []"
  shows "undisturbed c (vw w) (vw (serve D rs w))"
  by (rule conjunct2 [OF database.serve_invariant [OF assms(1), where canon = False
        and A = "\<lambda>co. co \<noteq> c \<and> co \<noteq> []" and I = "undisturbed c (vw w)"]])
    (use assms recordsKept_refl undisturbed_step in \<open>(blast | auto)+\<close>)

lemma tenants_are_separate_witness:
  "undisturbed ''zeta'' (memView sampleWorld) (memView (serve memDB sampleRequests sampleWorld))"
  by (rule tenants_are_separate [OF memDB_database sample_good]) (simp add: sampleRequests_def)

section \<open>What success promises\<close>

text \<open>C8. A fitting that succeeds is stored as returned, open, and joins the device to the vehicle
  asked for; no other open fitting is of the device, or of a device of its kind on the vehicle; and
  a GPS device is the shortcut of that vehicle and of no other.\<close>

theorem fit_promise:
  assumes "database D good vw" and "good w" and "Fit D co ident inp w = (Inr a, w')"
  shows "good w' \<and> (\<exists>t vi. ObjectIDFromHex (env D) (TrimSpace ident) = Some (Base.ID t) \<and>
     ObjectIDFromHex (env D) (TrimSpace (FitInput.VehicleID inp)) = Some vi \<and>
     fitted (Hex (env D)) t vi a (vw w'))"
  using database.success [OF assms(1) database.Fit_triple [OF assms(1)] assms(2,3)] by simp

lemma hex_eq [simp]: "memHex i = memHex j \<longleftrightarrow> i = j"
  using sample_fromHex by (metis option.inject)

lemma sample_find:
  "findTracker memDB ''acme'' (memHex 1) sampleWorld = (Inr sampleTracker, sampleWorld)"
  "findVehicle memDB ''acme'' (memHex 2) sampleWorld = (Inr (sampleTruck 2 ''B 1 A''), sampleWorld)"
  by (simp_all add: findTracker_def findVehicle_def io_simps oid_def decodeOne_def scoped_def)

lemma sample_keys [simp]:
  "uniqueKeys vehicle_indexes [setShortcut h at' (sampleTruck 2 ''B 1 A''), sampleTruck 3 ''B 2 B'']"
  "uniqueKeys vehicle_indexes [sampleTruck 2 ''B 1 A'', sampleTruck 3 ''B 2 B'']"
  by (simp_all add: uniqueKeys_def vehicle_indexes_def keysOf_Cons keysOf_def List.map_filter_def
      uq_vehicle_plate_def uq_vehicle_chassis_def live_def liveString_def samplePlates setShortcut_def)

lemma newAssignment_ID [simp]: "TrackerAssignment.ID (newAssignment D co t v inp at' now) = NilObjectID"
  by (simp add: newAssignment_def TrackerAssignment_BeforeWrite_def Let_def)

lemma nextID_Nil [simp]: "nextID idof [] \<noteq> NilObjectID"
  by (simp add: nextID_def NilObjectID_def)

lemma sample_fit:
  "\<exists>a w. Fit memDB ''acme'' (memHex 1) (sampleFit 2) sampleWorld = (Inr a, w)"
  by (simp add: Fit_def andThen_def sample_find unless_def onErr_def ok_def sampleFit_def)
    (simp add: fitOn_def io_simps transact_def memTransaction_def fitRun_def memUpdateMany_def msPerMinute_def
      memInsert_def announce_def memUpdateOne_def Let_def)

lemma fit_promise_witness:
  "\<exists>a w'. Fit memDB ''acme'' (memHex 1) (sampleFit 2) sampleWorld = (Inr a, w') \<and>
     (\<exists>t vi. fitted memHex t vi a (memView w'))"
proof -
  obtain a w where "Fit memDB ''acme'' (memHex 1) (sampleFit 2) sampleWorld = (Inr a, w)"
    using sample_fit by blast
  then show ?thesis using fit_promise [OF memDB_database sample_good] by fastforce
qed

definition fittedWorld :: MemWorld where
  "fittedWorld = sampleWorld\<lparr>mAssignments :=
     [(newAssignment memDB ''acme'' sampleTracker (sampleTruck 2 ''B 1 A'') (sampleFit 2) 0 0)\<lparr>TrackerAssignment.ID := 7\<rparr>]\<rparr>"

lemma fittedWorld_simps [simp]:
  "mVehicles fittedWorld = mVehicles sampleWorld" "mTrackers fittedWorld = [sampleTracker]"
  "clock fittedWorld = 0"
  "mAssignments fittedWorld = [(newAssignment memDB ''acme'' sampleTracker (sampleTruck 2 ''B 1 A'')
     (sampleFit 2) 0 0)\<lparr>TrackerAssignment.ID := 7\<rparr>]"
  by (simp_all add: fittedWorld_def)

lemma fitted_good: "memGood fittedWorld"
  using sample_good by (simp add: memGood_def fittedWorld_def goodList_def NilObjectID_def)

text \<open>C12. Taking a device off succeeds only for a stored device, live and of the company that
  asked, and only by leaving it with no open fitting; if it is a GPS device no vehicle has it as
  its shortcut any more.\<close>

theorem unfit_promise:
  assumes "database D good vw" and "good w" and "Unfit D co ident at' w = (Inr u, w')"
  shows "good w' \<and> (\<exists>t. ObjectIDFromHex (env D) (TrimSpace ident) = Some (Base.ID t) \<and>
     \<not> Base.Deleted t \<and> (co \<noteq> [] \<longrightarrow> Tracker.CompanyID t = Some co) \<and> unfitted (Hex (env D)) t (vw w'))"
  using database.success [OF assms(1) database.Unfit_triple [OF assms(1)] assms(2,3)] by simp

lemma fitted_open [simp]:
  "openOn (memHex 1) ((newAssignment memDB ''acme'' sampleTracker x (sampleFit 2) 0 0)\<lparr>TrackerAssignment.ID := 7\<rparr>)"
  by (simp add: openOn_def newAssignment_def TrackerAssignment_BeforeWrite_def Let_def)

lemma fitted_unfit: "\<exists>w. Unfit memDB ''acme'' (memHex 1) None fittedWorld = (Inr (), w)"
proof -
  have "findTracker memDB ''acme'' (memHex 1) fittedWorld = (Inr sampleTracker, fittedWorld)"
    by (simp add: findTracker_def io_simps oid_def decodeOne_def)
  then show ?thesis
    by (simp add: Unfit_def andThen_def io_simps)
      (simp add: io_simps transact_def memTransaction_def unfitRun_def memUpdateMany_def announce_def Let_def)
qed

lemma unfit_promise_witness:
  "\<exists>w'. Unfit memDB ''acme'' (memHex 1) None fittedWorld = (Inr (), w') \<and>
     (\<exists>t. Base.ID t = 1 \<and> Trackers (memView w') 1 = Some t \<and> unfitted memHex t (memView w'))"
proof -
  obtain w where "Unfit memDB ''acme'' (memHex 1) None fittedWorld = (Inr (), w)"
    using fitted_unfit by blast
  then show ?thesis using unfit_promise [OF memDB_database fitted_good] by (fastforce simp: unfitted_def)
qed

text \<open>C13. A vehicle the service reports as created is the one stored: live, of the
  company, with its normalised twins and its plate.\<close>

theorem create_vehicle_promise:
  assumes "database D good vw" and "good w" and "CreateVehicle D co inp w = (Inr x, w')"
  shows "good w' \<and> Vehicles (vw w') (Base.ID x) = Some (Vehicle.truncate x) \<and>
     goodVehicle (Vehicle.truncate x) \<and> Vehicle.CompanyID x = co \<and> \<not> Base.Deleted x"
  using database.success [OF assms(1) database.CreateVehicle_triple [OF assms(1)] assms(2,3)] by simp

definition samplePlate :: VehicleInput where
  "samplePlate = noVehicleInput\<lparr>VehicleInput.LicensePlate := Some '' b-3 c ''\<rparr>"

lemma sample_plate: "TrimSpace '' b-3 c '' = ''b-3 c''" "Plate ''b-3 c'' = ''B3C''"
  by code_simp+

lemma sample_applied:
  "applyVehicle samplePlate (newVehicle ''acme'') = Inr ((newVehicle ''acme'')\<lparr>Vehicle.LicensePlate := ''b-3 c''\<rparr>)"
  by (simp add: applyVehicle_def samplePlate_def noVehicleInput_def newVehicle_def unitTypeOf_def num_def
      mergeAttributes_def sample_plate)

definition madeTruck :: Vehicle where
  "madeTruck = Stamp 0 True (Vehicle_BeforeWrite
     ((newVehicle ''acme'')\<lparr>Vehicle.LicensePlate := ''b-3 c'', Base.ID := 5\<rparr>))"

definition newTruck :: Vehicle where "newTruck = Vehicle_AsStored madeTruck"

lemma newTruck_simps [simp]:
  "Base.ID newTruck = 5" "\<not> Base.Deleted newTruck" "Vehicle.CompanyID newTruck = ''acme''"
  "Vehicle.TrackerID newTruck = None" "Vehicle.CurrentDriverID newTruck = None"
  "PlateNormalised newTruck = ''B3C''" "ChassisNormalised newTruck = None"
  by (simp_all add: newTruck_def madeTruck_def newVehicle_def Optional_def Stamp_def Vehicle_BeforeWrite_def
      sample_plate)

lemma newTruck_keys [simp]:
  "uniqueKeys vehicle_indexes [sampleTruck 2 ''B 1 A'', sampleTruck 3 ''B 2 B'', newTruck]"
  by (simp add: uniqueKeys_def vehicle_indexes_def keysOf_Cons keysOf_def List.map_filter_def
      uq_vehicle_plate_def uq_vehicle_chassis_def live_def liveString_def samplePlates)

lemma madeTruck_set [simp]: "madeTruck\<lparr>Base.ID := 5\<rparr> = madeTruck"
  by (simp add: madeTruck_def Stamp_def Vehicle_BeforeWrite_def)

lemma madeTruck_id [simp]: "Base.ID madeTruck = 5"
  by (simp add: madeTruck_def Stamp_def Vehicle_BeforeWrite_def)

lemma newTruck_valid [simp]:
  "Vehicle_Validate (Vehicle_BeforeWrite ((newVehicle ''acme'')\<lparr>Vehicle.LicensePlate := ''b-3 c'', Base.ID := 5\<rparr>)) = None"
  by (simp add: Vehicle_Validate_def sample_plate)

lemma newTruck_created:
  "Create memPlatform (vehicles memDB) ((newVehicle ''acme'')\<lparr>Vehicle.LicensePlate := ''b-3 c'', Base.ID := 5\<rparr>)
     (sampleWorld\<lparr>nextOid := 6\<rparr>) =
   (Inr madeTruck, sampleWorld\<lparr>nextOid := 6, mVehicles := mVehicles sampleWorld @ [newTruck]\<rparr>)"
proof -
  have "Stamp 0 True (Vehicle_BeforeWrite ((newVehicle ''acme'')\<lparr>Vehicle.LicensePlate := ''b-3 c'', Base.ID := 5\<rparr>)) = madeTruck"
    by (simp add: madeTruck_def)
  moreover have "Vehicle_AsStored madeTruck = newTruck" by (simp add: newTruck_def)
  ultimately show ?thesis
    by (simp add: Create_def Let_def io_simps stampCreate_def memInsert_def NilObjectID_def)
qed

lemma newTruck_shown:
  assumes "mVehicles w = [sampleTruck 2 ''B 1 A'', sampleTruck 3 ''B 2 B'', newTruck]"
  shows "\<exists>x. GetVehicle memDB ''acme'' (memHex 5) w = (Inr x, w)"
proof -
  have "findVehicle memDB ''acme'' (memHex 5) w = (Inr newTruck, w)"
    using assms by (simp add: findVehicle_def io_simps oid_def decodeOne_def scoped_def)
  then show ?thesis
    by (simp add: GetVehicle_def andThen_def resolveVehicles_def hexIDs_def lookupRows_def Let_def)
      (simp add: io_simps)
qed

lemma andThen_run: "m w = (Inr x, w1) \<Longrightarrow> andThen m k w = k x w1"
  by (simp add: andThen_def)

lemma sample_create: "\<exists>x w. CreateVehicle memDB ''acme'' samplePlate sampleWorld = (Inr x, w)"
proof -
  have plain: "Vehicle.TruckGroupID (newVehicle ''acme'') = None" "VehicleInput.CurrentDriverID samplePlate = None"
    by (simp_all add: newVehicle_def samplePlate_def noVehicleInput_def)
  let ?w = "sampleWorld\<lparr>nextOid := 6, mVehicles := mVehicles sampleWorld @ [newTruck]\<rparr>"
  have i: "call (NewObjectID memPlatform) sampleWorld = (Inr 5, sampleWorld\<lparr>nextOid := 6\<rparr>)"
    by (simp add: call_def NilObjectID_def)
  have c: "onErr (Create memPlatform (vehicles memDB)
       ((newVehicle ''acme'')\<lparr>Vehicle.LicensePlate := ''b-3 c'', Base.ID := 5\<rparr>)) h (sampleWorld\<lparr>nextOid := 6\<rparr>) = (Inr madeTruck, ?w)" for h
    using newTruck_created by (simp add: onErr_def)
  obtain u w2 where a: "announce memDB ''vehicle'' ''acme'' (memHex 5) ''create'' ?w = (Inr u, w2)"
      "mVehicles w2 = mVehicles ?w"
    by (simp add: announce_def call_def)
  obtain x where "GetVehicle memDB ''acme'' (memHex 5) w2 = (Inr x, w2)"
    using newTruck_shown [of w2] a(2) by auto
  then have "CreateVehicle memDB ''acme'' samplePlate sampleWorld = (Inr x, w2)"
    by (simp add: CreateVehicle_def lift_def sample_applied plain checkGroup_def setDriver_def
        andThen_run i c a(1) [simplified] Let_def NilObjectID_def)
  then show ?thesis by blast
qed

lemma create_vehicle_promise_witness:
  "\<exists>x w'. CreateVehicle memDB ''acme'' samplePlate sampleWorld = (Inr x, w') \<and>
     Vehicles (memView w') (Base.ID x) = Some (Vehicle.truncate x)"
proof -
  obtain x w' where "CreateVehicle memDB ''acme'' samplePlate sampleWorld = (Inr x, w')"
    using sample_create by blast
  then show ?thesis using create_vehicle_promise [OF memDB_database sample_good] by blast
qed

text \<open>A vehicle or device the service reports as deleted is retired, belongs to the
  company that asked, and no open fitting names it.\<close>

theorem delete_vehicle_promise:
  assumes "database D good vw" and "good w" and "DeleteVehicle D co ident w = (Inr u, w')"
  shows "good w' \<and> (\<exists>i y. ObjectIDFromHex (env D) (TrimSpace ident) = Some i \<and> Vehicles (vw w') i = Some y \<and>
        Base.Deleted y \<and> Vehicle.CompanyID y = co \<and> Vehicle.TrackerID y = None) \<and>
     (\<forall>j a. Assignments (vw w') j = Some a \<longrightarrow> \<not> (TrackerAssignment.VehicleID a = ident \<and> UnfittedAt a = None))"
  using database.success [OF assms(1) database.DeleteVehicle_triple [OF assms(1), where canon = False] assms(2,3)]
  by simp

lemma sample_marked [simp]:
  "uniqueKeys vehicle_indexes [markDeleted at' (sampleTruck 2 ''B 1 A''), sampleTruck 3 ''B 2 B'']"
  by (simp add: uniqueKeys_def vehicle_indexes_def keysOf_Cons keysOf_def List.map_filter_def
      uq_vehicle_plate_def uq_vehicle_chassis_def live_def liveString_def)

lemma sample_delete: "\<exists>w. DeleteVehicle memDB ''acme'' (memHex 2) sampleWorld = (Inr (), w)"
  by (simp add: DeleteVehicle_def andThen_def sample_find)
    (simp add: io_simps SoftDelete_def memUpdateOne_def announce_def Let_def)

lemma delete_vehicle_promise_witness:
  "\<exists>w'. DeleteVehicle memDB ''acme'' (memHex 2) sampleWorld = (Inr (), w') \<and>
     (\<exists>y. Vehicles (memView w') 2 = Some y \<and> Base.Deleted y)"
proof -
  obtain w' where run: "DeleteVehicle memDB ''acme'' (memHex 2) sampleWorld = (Inr (), w')"
    using sample_delete by blast
  then show ?thesis using delete_vehicle_promise [OF memDB_database sample_good run] by auto
qed

text \<open>A device the service reports as deleted is retired, belonged to the company
  that asked, and no open fitting names it.\<close>

theorem delete_tracker_promise:
  assumes "database D good vw" and "good w" and "DeleteTracker D co ident w = (Inr u, w')"
  shows "good w' \<and> (\<exists>i y. ObjectIDFromHex (env D) (TrimSpace ident) = Some i \<and> Trackers (vw w') i = Some y \<and>
        Base.Deleted y \<and> (co \<noteq> [] \<longrightarrow> Tracker.CompanyID y = Some co)) \<and>
     (\<forall>j a. Assignments (vw w') j = Some a \<longrightarrow> \<not> (TrackerAssignment.TrackerID a = Some ident \<and> UnfittedAt a = None))"
  using database.success [OF assms(1) database.DeleteTracker_triple [OF assms(1), where canon = False] assms(2,3)]
  by simp

lemma sample_delete_tracker: "\<exists>w. DeleteTracker memDB ''acme'' (memHex 1) sampleWorld = (Inr (), w)"
  by (simp add: DeleteTracker_def andThen_def sample_find)
    (simp add: io_simps SoftDelete_def memUpdateOne_def announce_def Let_def)

lemma delete_tracker_promise_witness:
  "\<exists>w'. DeleteTracker memDB ''acme'' (memHex 1) sampleWorld = (Inr (), w') \<and>
     (\<exists>y. Trackers (memView w') 1 = Some y \<and> Base.Deleted y)"
proof -
  obtain w' where run: "DeleteTracker memDB ''acme'' (memHex 1) sampleWorld = (Inr (), w')"
    using sample_delete_tracker by blast
  then show ?thesis using delete_tracker_promise [OF memDB_database sample_good run] by auto
qed

end
