(* ===== verification/FleetListings.thy ===== *)
theory FleetListings
  imports FleetRegister
begin

text \<open>
  Registration of devices and documents, and the register's listings: what a row that is shown
  says about what is stored.
\<close>

section \<open>Registration\<close>

text \<open>A device the service reports as registered is the one stored: live, with a
  non-empty id, its normalised twins, and exactly fifteen digits when it is a GPS device.\<close>

theorem create_tracker_promise:
  assumes "database D good vw" and "good w" and "CreateTracker D co staff inp w = (Inr x, w')"
  shows "good w' \<and> Trackers (vw w') (Base.ID x) = Some (Tracker.truncate x) \<and>
     newDevice (Tracker.truncate x) \<and> \<not> Base.Deleted x"
  using database.success [OF assms(1) database.CreateTracker_triple [OF assms(1)] assms(2,3)] by simp

definition sampleDevice :: TrackerInput where
  "sampleDevice = noTrackerInput\<lparr>TrackerInput.DeviceID := Some ''490154203237518''\<rparr>"

definition rawDevice :: Tracker where
  "rawDevice = newTracker\<lparr>Tracker.CompanyID := Some ''acme'', Tracker.Owner := OwnerCustomer,
     Tracker.DeviceID := ''490154203237518'', Tracker.Kind := TrackerGPS\<rparr>"

definition madeDevice :: Tracker where
  "madeDevice = Stamp 0 True (Tracker_BeforeWrite (rawDevice\<lparr>Base.ID := 5\<rparr>))"

definition storedDevice :: Tracker where "storedDevice = Tracker_AsStored madeDevice"

lemma sample_imei': "TrimSpace ''490154203237518'' = ''490154203237518''"
  "Normalise.IMEI ''490154203237518'' = ''490154203237518''"
  by code_simp+

lemma storedDevice_simps [simp]:
  "Base.ID storedDevice = 5" "\<not> Base.Deleted storedDevice" "Tracker.CompanyID storedDevice = Some ''acme''"
  "Tracker.Kind storedDevice = TrackerGPS" "Tracker.DeviceID storedDevice = ''490154203237518''"
  "Tracker.IMEI storedDevice = ''490154203237518''" "Tracker.ICCID storedDevice = None"
  "storedDevice\<lparr>Base.ID := 5\<rparr> = storedDevice" "Base.ID madeDevice = 5"
  "madeDevice\<lparr>Base.ID := 5\<rparr> = madeDevice"
  by (simp_all add: storedDevice_def madeDevice_def Tracker_AsStored_def rawDevice_def newTracker_def Stamp_def Tracker_BeforeWrite_def Let_def
      sample_imei' Optional_def enum_defs)

lemma sampleTracker_twins [simp]:
  "Tracker.IMEI sampleTracker = ''356938035643809''" "Tracker.ICCID sampleTracker = None"
  by (simp_all add: sampleTracker_def Tracker_BeforeWrite_def Let_def newTracker_def sample_imei enum_defs
      Optional_def)

lemma device_keys [simp]: "uniqueKeys tracker_indexes [sampleTracker, storedDevice]"
  by (simp add: uniqueKeys_def tracker_indexes_def keysOf_Cons keysOf_def List.map_filter_def
      uq_tracker_device_def uq_tracker_imei_gps_def uq_tracker_iccid_def live_def liveString_def)

lemma device_applied:
  "applyTracker sampleDevice True (newTracker\<lparr>Tracker.CompanyID := Some ''acme'', Tracker.Owner := OwnerCustomer\<rparr>) =
     Inr (newTracker\<lparr>Tracker.CompanyID := Some ''acme'', Tracker.Owner := OwnerCustomer,
       Tracker.DeviceID := ''490154203237518''\<rparr>)"
  by (simp add: applyTracker_def applyKind_def applyDevice_def applyOwner_def sampleDevice_def noTrackerInput_def
      sample_imei' mergeAttributes_def newTracker_def)

lemma device_created:
  "Create memPlatform (trackers memDB) (rawDevice\<lparr>Base.ID := 5\<rparr>) (sampleWorld\<lparr>nextOid := 6\<rparr>) =
     (Inr madeDevice, sampleWorld\<lparr>nextOid := 6, mTrackers := [sampleTracker, storedDevice]\<rparr>)"
proof -
  have "Stamp 0 True (Tracker_BeforeWrite (rawDevice\<lparr>Base.ID := 5\<rparr>)) = madeDevice"
    by (simp add: madeDevice_def)
  moreover have "Tracker_AsStored madeDevice = storedDevice" by (simp add: storedDevice_def)
  ultimately show ?thesis
    by (simp add: Create_def Let_def io_simps stampCreate_def memInsert_def NilObjectID_def)
qed

lemma device_shown:
  assumes "mTrackers w = [sampleTracker, storedDevice]" "mAssignments w = []"
  shows "\<exists>x. GetTracker memDB ''acme'' (memHex 5) w = (Inr x, w)"
proof -
  have "findTracker memDB ''acme'' (memHex 5) w = (Inr storedDevice, w)"
    using assms by (simp add: findTracker_def io_simps oid_def decodeOne_def)
  then show ?thesis using assms(2)
    by (simp add: GetTracker_def andThen_def resolveTrackers_def Let_def)
      (simp add: io_simps negativeSkip_def)
qed

lemma sample_register: "\<exists>x w. CreateTracker memDB ''acme'' False sampleDevice sampleWorld = (Inr x, w)"
proof -
  let ?w = "sampleWorld\<lparr>nextOid := 6, mTrackers := [sampleTracker, storedDevice]\<rparr>"
  have i: "call (NewObjectID memPlatform) sampleWorld = (Inr 5, sampleWorld\<lparr>nextOid := 6\<rparr>)"
    by (simp add: call_def NilObjectID_def)
  have c: "onErr (Create memPlatform (trackers memDB) (rawDevice\<lparr>Base.ID := 5\<rparr>)) h (sampleWorld\<lparr>nextOid := 6\<rparr>) =
      (Inr madeDevice, ?w)" for h
    using device_created by (simp add: onErr_def)
  obtain u w2 where a: "announce memDB ''tracker'' ''acme'' (memHex 5) ''create'' ?w = (Inr u, w2)"
      "mTrackers w2 = mTrackers ?w" "mAssignments w2 = []"
    by (simp add: announce_def call_def)
  obtain x where "GetTracker memDB ''acme'' (memHex 5) w2 = (Inr x, w2)"
    using device_shown [of w2] a(2,3) by auto
  moreover have "Tracker.Kind newTracker = []" "Tracker.ModelID newTracker = None"
    by (simp_all add: newTracker_def)
  moreover have "newTracker\<lparr>Tracker.CompanyID := Some ''acme'', Tracker.Owner := OwnerCustomer,
      Tracker.DeviceID := ''490154203237518'', Tracker.Kind := TrackerGPS\<rparr> = rawDevice"
    by (simp add: rawDevice_def)
  moreover have "Tracker.DeviceID rawDevice = ''490154203237518''" by (simp add: rawDevice_def)
  ultimately have "CreateTracker memDB ''acme'' False sampleDevice sampleWorld = (Inr x, w2)"
    by (simp add: CreateTracker_def lift_def device_applied checkModel_def normaliseDevice_def sample_imei'
        unless_def andThen_run i c a(1) Let_def NilObjectID_def)
  then show ?thesis by blast
qed

lemma create_tracker_promise_witness:
  "\<exists>x w'. CreateTracker memDB ''acme'' False sampleDevice sampleWorld = (Inr x, w') \<and>
     Trackers (memView w') (Base.ID x) = Some (Tracker.truncate x) \<and> newDevice (Tracker.truncate x)"
proof -
  obtain x w' where "CreateTracker memDB ''acme'' False sampleDevice sampleWorld = (Inr x, w')"
    using sample_register by blast
  then show ?thesis using create_tracker_promise [OF memDB_database sample_good] by blast
qed

text \<open>A document the service reports as created is stored as returned: live, of the
  company, and of exactly one vehicle or driver.\<close>

theorem create_document_promise:
  assumes "database D good vw" and "good w" and "CreateDocument D co inp w = (Inr d, w')"
  shows "good w' \<and> Documents (vw w') (Base.ID d) = Some d \<and> Document.CompanyID d = co \<and>
     \<not> Base.Deleted d \<and> oneOwner d"
  using database.success [OF assms(1) database.CreateDocument_triple [OF assms(1)] assms(2,3)] by simp

definition sampleDocument :: DocumentInput where
  "sampleDocument = \<lparr>DocumentInput.VehicleID = Some (memHex 2), DriverID = None, DocType = Some ''STNK'',
     Number = None, IssuedOn = None, ExpiresOn = None, FileKey = None, Notes = None\<rparr>"

lemma sample_document: "\<exists>d w. CreateDocument memDB ''acme'' sampleDocument sampleWorld = (Inr d, w)"
proof -
  let ?d = "(newDocument ''acme'')\<lparr>Document.VehicleID := memHex 2\<rparr>"
  have owner: "documentOwner memDB ''acme'' sampleDocument (newDocument ''acme'') sampleWorld = (Inr ?d, sampleWorld)"
    by (simp add: documentOwner_def sampleDocument_def Let_def unless_def onErr_def sample_find andThen_run ok_def)
  have "ToUpper (TrimSpace ''STNK'') = ''STNK''" by code_simp
  then have "applyDocument ?d sampleDocument = Inr (?d\<lparr>Document.DocType := ''STNK''\<rparr>)"
    by (simp add: applyDocument_def sampleDocument_def date_def newDocument_def)
  then show ?thesis
    using owner
    by (simp add: CreateDocument_def andThen_def lift_def unless_def)
      (simp add: io_simps Create_def stampCreate_def memInsert_def NilObjectID_def Let_def
        Document_BeforeWrite_def Stamp_def newDocument_def)
qed

lemma create_document_promise_witness:
  "\<exists>d w'. CreateDocument memDB ''acme'' sampleDocument sampleWorld = (Inr d, w') \<and>
     Documents (memView w') (Base.ID d) = Some d \<and> oneOwner d"
proof -
  obtain d w' where "CreateDocument memDB ''acme'' sampleDocument sampleWorld = (Inr d, w')"
    using sample_document by blast
  then show ?thesis using create_document_promise [OF memDB_database sample_good] by blast
qed

section \<open>Listings\<close>

text \<open>The device has an open fitting, to the vehicle named unless the name is empty.\<close>

definition onBoard :: "'w Database \<Rightarrow> string \<Rightarrow> MasterData \<Rightarrow> ObjectID \<Rightarrow> bool" where
  "onBoard D vehicle v i \<longleftrightarrow>
     (\<exists>j a h. Assignments v j = Some a \<and> UnfittedAt a = None \<and>
        (vehicle \<noteq> [] \<longrightarrow> TrackerAssignment.VehicleID a = vehicle) \<and>
        TrackerAssignment.TrackerID a = Some h \<and> ObjectIDFromHex (env D) h = Some i)"

lemma set_hexIDs: "i \<in> set (hexIDs D refs) \<longleftrightarrow> (\<exists>h. Some h \<in> set refs \<and> ObjectIDFromHex (env D) h = Some i)"
  by (force simp: hexIDs_def split: option.splits)

lemma vehicle_parts:
  "map Vehicle.truncate views = xs \<Longrightarrow> x \<in> set views \<Longrightarrow>
     Vehicle.truncate x \<in> set xs \<and> Base.ID (Vehicle.truncate x) = Base.ID x \<and>
     Base.Deleted (Vehicle.truncate x) = Base.Deleted x \<and> Vehicle.CompanyID (Vehicle.truncate x) = Vehicle.CompanyID x \<and>
     Vehicle.Status (Vehicle.truncate x) = Vehicle.Status x"
  by (auto simp: Vehicle.truncate_def)

lemma tracker_parts:
  "map Tracker.truncate views = xs \<Longrightarrow> x \<in> set views \<Longrightarrow>
     Tracker.truncate x \<in> set xs \<and> Base.ID (Tracker.truncate x) = Base.ID x \<and>
     Base.Deleted (Tracker.truncate x) = Base.Deleted x \<and> Tracker.CompanyID (Tracker.truncate x) = Tracker.CompanyID x \<and>
     Tracker.Kind (Tracker.truncate x) = Tracker.Kind x"
  by (auto simp: Tracker.truncate_def)

context database
begin

lemma ListVehicles_triple:
  "triple (holds Q) (ListVehicles D co prm status available groupID)
     (\<lambda>(xs, n). holds (\<lambda>v. Q v \<and> int (length xs) \<le> n \<and>
        (0 < PageSize prm \<longrightarrow> int (length xs) \<le> PageSize prm) \<and> distinct (map (\<lambda>x. Base.ID (Vehicle.truncate x)) xs) \<and>
        (\<forall>x \<in> set xs. Vehicles v (Base.ID x) = Some (Vehicle.truncate x) \<and> \<not> Base.Deleted x \<and>
           Vehicle.CompanyID x = co \<and> (status \<noteq> [] \<longrightarrow> Vehicle.Status x = status)))) (holds Q)"
  unfolding ListVehicles_def
proof (rule veh.bind_page, simp only: prod.case, rule bind_resolveVehicles, goal_cases)
  case (1 ds n views)
  have "map (\<lambda>x. Base.ID (Vehicle.truncate x)) views = map Base.ID (map Vehicle.truncate views)" by simp
  then have "distinct (map (\<lambda>x. Base.ID (Vehicle.truncate x)) views)" using 1 by simp
  moreover have "length views = length ds" using 1(5) by (metis length_map)
  moreover have row: "Vehicle.truncate x \<in> set ds" "Base.ID (Vehicle.truncate x) = Base.ID x"
      "\<not> Base.Deleted x \<and> Vehicle.CompanyID x = co \<and> (status \<noteq> [] \<longrightarrow> Vehicle.Status x = status)"
    if "x \<in> set views" for x
  proof -
    note parts = vehicle_parts [OF 1(5) that]
    then show "Vehicle.truncate x \<in> set ds" "Base.ID (Vehicle.truncate x) = Base.ID x" by simp_all
    from 1(1) parts have "\<not> Base.Deleted (Vehicle.truncate x) \<and> Vehicle.CompanyID (Vehicle.truncate x) = co \<and>
        (status \<noteq> [] \<longrightarrow> Vehicle.Status (Vehicle.truncate x) = status)"
      unfolding list_all_iff by blast
    then show "\<not> Base.Deleted x \<and> Vehicle.CompanyID x = co \<and> (status \<noteq> [] \<longrightarrow> Vehicle.Status x = status)"
      using parts by simp
  qed
  ultimately show ?case using 1(3,4) by (intro triple_ok) (fastforce simp: inWorld_def)
qed

lemma devices_page:
  assumes p: "\<And>t. p t \<Longrightarrow> \<not> Base.Deleted t \<and> (co \<noteq> [] \<longrightarrow> Tracker.CompanyID t = Some co) \<and>
      (kind \<noteq> [] \<longrightarrow> Tracker.Kind t = kind)"
    and G: "\<And>v t. Q v \<Longrightarrow> p t \<Longrightarrow> G v (Base.ID t)"
  shows "triple (holds Q)
     (andThen (page (col (trackers D)) p prm) (\<lambda>(ts, n). andThen (resolveTrackers D ts) (\<lambda>views. ok (views, n))))
     (\<lambda>(xs, n). holds (\<lambda>v. Q v \<and> int (length xs) \<le> n \<and>
        (0 < PageSize prm \<longrightarrow> int (length xs) \<le> PageSize prm) \<and> distinct (map (\<lambda>x. Base.ID (Tracker.truncate x)) xs) \<and>
        (\<forall>x \<in> set xs. Trackers v (Base.ID x) = Some (Tracker.truncate x) \<and> \<not> Base.Deleted x \<and>
           (co \<noteq> [] \<longrightarrow> Tracker.CompanyID x = Some co) \<and> (kind \<noteq> [] \<longrightarrow> Tracker.Kind x = kind) \<and>
           G v (Base.ID x)))) (holds Q)"
proof (rule trk.bind_page, simp only: prod.case, rule bind_resolveTrackers, goal_cases)
  case (1 ds n views)
  have "map (\<lambda>x. Base.ID (Tracker.truncate x)) views = map Base.ID (map Tracker.truncate views)" by simp
  then have "distinct (map (\<lambda>x. Base.ID (Tracker.truncate x)) views)" using 1 by simp
  moreover have "length views = length ds" using 1(5) by (metis length_map)
  moreover have "Tracker.truncate x \<in> set ds" "Base.ID (Tracker.truncate x) = Base.ID x"
      "\<not> Base.Deleted x \<and> (co \<noteq> [] \<longrightarrow> Tracker.CompanyID x = Some co) \<and> (kind \<noteq> [] \<longrightarrow> Tracker.Kind x = kind)"
      "\<And>v. Q v \<Longrightarrow> G v (Base.ID x)"
    if "x \<in> set views" for x
  proof -
    note parts = tracker_parts [OF 1(5) that]
    then show "Tracker.truncate x \<in> set ds" "Base.ID (Tracker.truncate x) = Base.ID x" by simp_all
    from 1(1) parts have px: "p (Tracker.truncate x)" unfolding list_all_iff by blast
    from p [OF px] show "\<not> Base.Deleted x \<and> (co \<noteq> [] \<longrightarrow> Tracker.CompanyID x = Some co) \<and>
      (kind \<noteq> [] \<longrightarrow> Tracker.Kind x = kind)" using parts by simp
    show "G v (Base.ID x)" if "Q v" for v using G [OF that px] parts by simp
  qed
  ultimately show ?case using 1(3,4) by (intro triple_ok) (fastforce simp: inWorld_def)
qed

lemma ListTrackers_triple:
  "triple (holds Q) (ListTrackers D co prm kind fitted' vehicleID)
     (\<lambda>(xs, n). holds (\<lambda>v. Q v \<and> int (length xs) \<le> n \<and>
        (0 < PageSize prm \<longrightarrow> int (length xs) \<le> PageSize prm) \<and> distinct (map (\<lambda>x. Base.ID (Tracker.truncate x)) xs) \<and>
        (\<forall>x \<in> set xs. Trackers v (Base.ID x) = Some (Tracker.truncate x) \<and> \<not> Base.Deleted x \<and>
           (co \<noteq> [] \<longrightarrow> Tracker.CompanyID x = Some co) \<and> (kind \<noteq> [] \<longrightarrow> Tracker.Kind x = kind) \<and>
           (vehicleID \<noteq> [] \<or> fitted' = Some True \<longrightarrow> onBoard D vehicleID v (Base.ID x)) \<and>
           (vehicleID = [] \<and> fitted' = Some False \<longrightarrow> \<not> onBoard D [] v (Base.ID x))))) (holds Q)"
proof (cases "fitted' \<noteq> None \<or> vehicleID \<noteq> []")
  case True
  have ids: "i \<in> set (hexIDs D (map (\<lambda>b. case b of BString h \<Rightarrow> Some h | _ \<Rightarrow> None) ids)) \<longleftrightarrow> onBoard D vehicleID v i"
    if "set ids = {case TrackerAssignment.TrackerID d of None \<Rightarrow> BNull | Some t \<Rightarrow> BString t | d i.
        Assignments v i = Some d \<and> UnfittedAt d = None \<and> (vehicleID \<noteq> [] \<longrightarrow> TrackerAssignment.VehicleID d = vehicleID)}"
    for ids i v
  proof -
    have "Some h \<in> set (map (\<lambda>b. case b of BString h \<Rightarrow> Some h | _ \<Rightarrow> None) ids) \<longleftrightarrow> BString h \<in> set ids" for h
      by (force split: bval.splits)
    moreover have key: "BString h = (case x of None \<Rightarrow> BNull | Some t \<Rightarrow> BString t) \<longleftrightarrow> x = Some h" for h x
      by (auto split: option.splits)
    moreover have "BString h \<in> set ids \<longleftrightarrow> (\<exists>d i. Assignments v i = Some d \<and> UnfittedAt d = None \<and>
        (vehicleID \<noteq> [] \<longrightarrow> TrackerAssignment.VehicleID d = vehicleID) \<and> TrackerAssignment.TrackerID d = Some h)" for h
      by (simp only: that mem_Collect_eq key) blast
    ultimately show ?thesis unfolding set_hexIDs onBoard_def by blast
  qed
  let ?Q = "\<lambda>ids v. Q v \<and> set ids = {case TrackerAssignment.TrackerID d of None \<Rightarrow> BNull | Some t \<Rightarrow> BString t | d i.
        Assignments v i = Some d \<and> UnfittedAt d = None \<and> (vehicleID \<noteq> [] \<longrightarrow> TrackerAssignment.VehicleID d = vehicleID)}"
  show ?thesis
    unfolding ListTrackers_def if_P [OF True] andThen_assoc andThen_ok
    apply (rule asg.bind_distinct)
    apply (rule triple_conseq [OF devices_page [where Q = "?Q ids" and co = co and kind = kind and G = "\<lambda>v i.
      (vehicleID \<noteq> [] \<or> fitted' = Some True \<longrightarrow> onBoard D vehicleID v i) \<and>
           (vehicleID = [] \<and> fitted' = Some False \<longrightarrow> \<not> onBoard D [] v i)" for ids]])
    apply (auto simp: inWorld_def ids split: if_splits)
    done
next
  case False
  then show ?thesis
    unfolding ListTrackers_def if_not_P [OF False] andThen_ok
    by (intro triple_conseq [OF devices_page [where Q = Q and co = co and kind = kind and G = "\<lambda>_ _. True"]])
      (auto simp: inWorld_def)
qed

end

text \<open>Listing vehicles changes nothing, never counts fewer rows than it shows, shows no
  more rows than a page holds and no row twice, and shows only stored live vehicles of the company, of the status asked for.\<close>

theorem list_vehicles_promise:
  assumes "database D good vw" and "good w"
    and "ListVehicles D co prm status available groupID w = (Inr (xs, n), w')"
  shows "good w' \<and> vw w' = vw w \<and> int (length xs) \<le> n \<and>
        (0 < PageSize prm \<longrightarrow> int (length xs) \<le> PageSize prm) \<and> distinct (map (\<lambda>x. Base.ID (Vehicle.truncate x)) xs) \<and>
    (\<forall>x \<in> set xs. Vehicles (vw w) (Base.ID x) = Some (Vehicle.truncate x) \<and> \<not> Base.Deleted x \<and>
       Vehicle.CompanyID x = co \<and> (status \<noteq> [] \<longrightarrow> Vehicle.Status x = status))"
  using triple_InrD [OF database.ListVehicles_triple [OF assms(1), where Q = "\<lambda>v. v = vw w"] _ assms(3)] assms(2)
  by (auto simp: inWorld_def)

definition firstPage :: Params where
  "firstPage = \<lparr>Err = None, Page = 0, PageSize = 20, Filters = [], Sorts = [], Search = []\<rparr>"

lemma firstPage_simps [simp]:
  "Search firstPage = []" "findOptions firstPage = \<lparr>Skip = 0, Limit = 20, SortBy = [(''_id'', 1)]\<rparr>"
  by (simp_all add: firstPage_def findOptions_def Offset_def int64_def)

lemma sample_listed:
  "\<exists>xs w. ListVehicles memDB ''acme'' firstPage [] None [] sampleWorld = (Inr (xs, 2), w) \<and> length xs = 2"
  by (simp add: ListVehicles_def page_def andThen_def negativeSkip_def window_def)
    (simp add: resolveVehicles_def hexIDs_def lookupRows_def Let_def io_simps)

lemma list_vehicles_promise_witness:
  "\<exists>xs w'. ListVehicles memDB ''acme'' firstPage [] None [] sampleWorld = (Inr (xs, 2), w') \<and> length xs = 2 \<and>
     memView w' = memView sampleWorld"
  using sample_listed list_vehicles_promise [OF memDB_database sample_good] by blast

text \<open>Listing devices changes nothing and shows only stored live devices, of the
  company when one is given and of the kind asked for; asked for fitted devices or for those of a
  vehicle it shows only devices with such an open fitting, asked for free ones only devices
  without.\<close>

theorem list_trackers_promise:
  assumes "database D good vw" and "good w"
    and "ListTrackers D co prm kind onlyFitted vehicle w = (Inr (xs, n), w')"
  shows "good w' \<and> vw w' = vw w \<and> int (length xs) \<le> n \<and>
        (0 < PageSize prm \<longrightarrow> int (length xs) \<le> PageSize prm) \<and> distinct (map (\<lambda>x. Base.ID (Tracker.truncate x)) xs) \<and>
    (\<forall>x \<in> set xs. Trackers (vw w) (Base.ID x) = Some (Tracker.truncate x) \<and> \<not> Base.Deleted x \<and>
       (co \<noteq> [] \<longrightarrow> Tracker.CompanyID x = Some co) \<and> (kind \<noteq> [] \<longrightarrow> Tracker.Kind x = kind) \<and>
       (vehicle \<noteq> [] \<or> onlyFitted = Some True \<longrightarrow> onBoard D vehicle (vw w) (Base.ID x)) \<and>
       (vehicle = [] \<and> onlyFitted = Some False \<longrightarrow> \<not> onBoard D [] (vw w) (Base.ID x)))"
proof -
  note run = triple_InrD [OF database.ListTrackers_triple [OF assms(1), where Q = "\<lambda>v. v = vw w"] _ assms(3),
      unfolded inWorld_def prod.case, OF conjI [OF assms(2) refl]]
  then have "vw w' = vw w" by blast
  with run show ?thesis by simp
qed

lemma fitted_listed:
  "\<exists>xs w. ListTrackers memDB ''acme'' firstPage [] (Some True) [] fittedWorld = (Inr (xs, 1), w) \<and> length xs = 1"
proof -
  let ?a = "(newAssignment memDB ''acme'' sampleTracker (sampleTruck 2 ''B 1 A'') (sampleFit 2) 0 0)\<lparr>TrackerAssignment.ID := 7\<rparr>"
  have "UnfittedAt ?a = None" "TrackerAssignment.TrackerID ?a = Some (memHex 1)"
    using fitted_open by (simp_all add: openOn_def)
  then show ?thesis
    by (simp add: ListTrackers_def page_def andThen_def negativeSkip_def window_def ok_def hexIDs_def)
      (simp add: resolveTrackers_def Let_def io_simps negativeSkip_def)
qed

lemma list_trackers_promise_witness:
  "\<exists>xs w'. ListTrackers memDB ''acme'' firstPage [] (Some True) [] fittedWorld = (Inr (xs, 1), w') \<and> length xs = 1 \<and>
     (\<forall>x \<in> set xs. onBoard memDB [] (memView fittedWorld) (Base.ID x))"
  using fitted_listed list_trackers_promise [OF memDB_database fitted_good] by blast

end
