(* ===== verification/FleetReads.thy ===== *)
theory FleetReads
  imports Fleet FleetListings
begin

text \<open>
  What the fleet reads guarantee: trucks and warehouses are views of stored records, and a truck
  shows a device it carries at the moment of the read.
\<close>

context database
begin

lemma read_only:
  assumes "triple (holds (\<lambda>v. v = vw w)) m (\<lambda>x. holds (\<lambda>v. v = vw w \<and> R x v)) E"
    and "good w" and "m w = (Inr x, w')"
  shows "vw w' = vw w \<and> R x (vw w)"
proof -
  have "holds (\<lambda>v. v = vw w \<and> R x v) w'"
    by (rule triple_InrD [OF assms(1) _ assms(3)]) (simp add: inWorld_def assms(2))
  then show ?thesis unfolding inWorld_def by metis
qed

lemma read_only_page:
  assumes "triple (holds (\<lambda>v. v = vw w)) m (\<lambda>(a, b). holds (\<lambda>v. v = vw w \<and> R a b v)) E"
    and "good w" and "m w = (Inr (a, b), w')"
  shows "vw w' = vw w \<and> R a b (vw w)"
proof -
  have "(\<lambda>(a, b). holds (\<lambda>v. v = vw w \<and> R a b v)) (a, b) w'"
    by (rule triple_InrD [OF assms(1) _ assms(3)]) (simp add: inWorld_def assms(2))
  then show ?thesis unfolding inWorld_def prod.case by metis
qed

end


lemma sample_units [simp]: "Vehicle.UnitType (sampleTruck i p) \<in> set haulingUnits"
  by (simp add: sampleTruck_def newVehicle_def Vehicle_BeforeWrite_def haulingUnits_def enum_defs)

lemma sample_fitting [simp]:
  "TrackerAssignment.CompanyID ((newAssignment memDB ''acme'' sampleTracker x (sampleFit 2) 0 0)\<lparr>TrackerAssignment.ID := 7\<rparr>) = ''acme''"
  by (simp add: newAssignment_def TrackerAssignment_BeforeWrite_def Let_def)

lemma fitted_carries:
  "TrackerAssignment.VehicleID ((newAssignment memDB ''acme'' sampleTracker (sampleTruck 2 p) (sampleFit 2) 0 0)\<lparr>TrackerAssignment.ID := 7\<rparr>) = memHex 2"
  "TrackerAssignment.IMEI ((newAssignment memDB ''acme'' sampleTracker (sampleTruck 2 p) (sampleFit 2) 0 0)\<lparr>TrackerAssignment.ID := 7\<rparr>) = ''356938035643809''"
  "coversAt 0 ((newAssignment memDB ''acme'' sampleTracker (sampleTruck 2 p) (sampleFit 2) 0 0)\<lparr>TrackerAssignment.ID := 7\<rparr>)"
  by (simp_all add: newAssignment_def TrackerAssignment_BeforeWrite_def Let_def sample_imei coversAt_def
      ifEmpty_def enum_defs)

lemma trucks_listed:
  "\<exists>t1 t2 w. ListTrucks memDB ''acme'' firstPage False fittedWorld = (Inr ([t1, t2], 2), w) \<and> Truck.ID t1 = memHex 2 \<and>
     Truck.IMEI t1 = ''356938035643809''"
  by (simp add: ListTrucks_def truckFilter_def page_def andThen_def negativeSkip_def window_def)
    (simp add: withDevices_def IMEIsAt_def Let_def io_simps negativeSkip_def window_def fitted_carries)


text \<open>The truck shown for an id is a view of the live vehicle of that id, of the company when
  one is given, and the device it shows is one the vehicle carries for its own company.\<close>

theorem truck_is_vehicle:
  assumes "database D good vw" and "good w" and "GetTruck D co ident w = (Inr t, w')"
  shows "vw w' = vw w \<and> (\<exists>x at'. Vehicles (vw w) (Base.ID x) = Some x \<and>
     ObjectIDFromHex (env D) ident = Some (Base.ID x) \<and> \<not> Base.Deleted x \<and>
     (co \<noteq> [] \<longrightarrow> Vehicle.CompanyID x = co) \<and> truckOf D (vw w) (Vehicle.CompanyID x) at' x t)"
  using database.read_only [OF assms(1) database.GetTruck_triple [OF assms(1), where Q = "\<lambda>v. v = vw w"] assms(2,3)]
  by simp

lemma truck_shown:
  "\<exists>t w. GetTruck memDB [] (memHex 2) fittedWorld = (Inr t, w) \<and> Truck.IMEI t = ''356938035643809''"
  by (simp add: GetTruck_def fleetVehicle_def decodeOne_def io_simps)
    (simp add: withDevices_def IMEIsAt_def Let_def io_simps negativeSkip_def window_def fitted_carries)

lemma truck_is_vehicle_witness:
  "\<exists>at'. carried (memView fittedWorld) ''acme'' at' (memHex 2) ''356938035643809''"
proof -
  obtain t w' where t: "GetTruck memDB [] (memHex 2) fittedWorld = (Inr t, w')" "Truck.IMEI t = ''356938035643809''"
    using truck_shown by blast
  obtain x at' where x: "Vehicles (memView fittedWorld) (Base.ID x) = Some x" "Base.ID x = 2"
      "truckOf memDB (memView fittedWorld) (Vehicle.CompanyID x) at' x t"
    using truck_is_vehicle [OF memDB_database fitted_good t(1)] by auto
  have "Vehicle.CompanyID x = ''acme''" using x(1,2) by (auto simp: memView_def toMap_def)
  then show ?thesis using x(2,3) t(2) by (auto simp: truckOf_def)
qed

lemma shown_row:
  assumes "list_all2 (truckOf D v co at') xs ts" "t \<in> set ts"
  shows "\<exists>x \<in> set xs. Truck.ID t = Hex (env D) (Base.ID x) \<and>
    (Truck.IMEI t \<noteq> [] \<longrightarrow> carried v co at' (Truck.ID t) (Truck.IMEI t))"
  using assms by (induction rule: list_all2_induct) (auto simp: truckOf_def)

text \<open>The trucks of a driver are exactly the live hauling units that name the driver, by
  driver or by user, of the company when one is given: none is missing and none is another's; nothing
  changes.\<close>

theorem driver_trucks_are_complete:
  assumes "database D good vw" and "good w" and "TrucksByDriver D co driver w = (Inr ts, w')"
  shows "vw w' = vw w \<and>
    Truck.ID ` set ts = {Hex (env D) i | i x. Vehicles (vw w) i = Some x \<and> \<not> Base.Deleted x \<and>
       Vehicle.UnitType x \<in> set haulingUnits \<and>
       (Vehicle.CurrentDriverID x = Some driver \<or> CurrentDriverUserID x = Some driver) \<and>
       (co \<noteq> [] \<longrightarrow> Vehicle.CompanyID x = co)} \<and>
    (\<forall>t \<in> set ts. Truck.IMEI t \<noteq> [] \<longrightarrow> (\<exists>at'. carried (vw w) co at' (Truck.ID t) (Truck.IMEI t)))"
proof -
  note run = database.read_only [OF assms(1) database.TrucksByDriver_triple [OF assms(1), where Q = "\<lambda>v. v = vw w"]
      assms(2,3)]
  then obtain at' xs where l: "list_all2 (truckOf D (vw w) co at') xs ts"
    and xs: "\<And>x. x \<in> set xs \<Longrightarrow> Vehicles (vw w) (Base.ID x) = Some x \<and> \<not> Base.Deleted x \<and>
       Vehicle.UnitType x \<in> set haulingUnits \<and>
       (Vehicle.CurrentDriverID x = Some driver \<or> CurrentDriverUserID x = Some driver) \<and>
       (co \<noteq> [] \<longrightarrow> Vehicle.CompanyID x = co)"
    by blast
  have "\<exists>x \<in> set xs. Truck.ID t = Hex (env D) (Base.ID x) \<and>
      (Truck.IMEI t \<noteq> [] \<longrightarrow> carried (vw w) co at' (Truck.ID t) (Truck.IMEI t))" if "t \<in> set ts" for t
    by (rule shown_row [OF l that])
  then show ?thesis using run xs by blast
qed

definition driverWorld :: MemWorld where
  "driverWorld = sampleWorld\<lparr>mVehicles :=
     [(sampleTruck 2 ''B 1 A'')\<lparr>Vehicle.CurrentDriverID := Some (memHex 4)\<rparr>, sampleTruck 3 ''B 2 B'']\<rparr>"

lemma driver_world_good: "memGood driverWorld"
proof -
  have "uniqueKeys vehicle_indexes
      [(sampleTruck 2 ''B 1 A'')\<lparr>Vehicle.CurrentDriverID := Some (memHex 4)\<rparr>, sampleTruck 3 ''B 2 B'']"
    by (simp add: uniqueKeys_def vehicle_indexes_def keysOf_Cons keysOf_def List.map_filter_def
        uq_vehicle_plate_def uq_vehicle_chassis_def live_def liveString_def samplePlates)
  then show ?thesis by (simp add: memGood_def driverWorld_def goodList_def NilObjectID_def)
qed

lemma driver_trucks_found:
  "\<exists>ts w. TrucksByDriver memDB ''acme'' (memHex 4) driverWorld = (Inr ts, w)"
  by (simp add: TrucksByDriver_def driverWorld_def io_simps negativeSkip_def window_def)
    (simp add: withDevices_def IMEIsAt_def Let_def io_simps negativeSkip_def window_def)

lemma driver_trucks_are_complete_witness:
  "\<exists>ts w'. TrucksByDriver memDB ''acme'' (memHex 4) driverWorld = (Inr ts, w') \<and> memHex 2 \<in> Truck.ID ` set ts"
proof -
  obtain ts w' where ts: "TrucksByDriver memDB ''acme'' (memHex 4) driverWorld = (Inr ts, w')"
    using driver_trucks_found by blast
  have "Vehicles (memView driverWorld) 2 = Some ((sampleTruck 2 ''B 1 A'')\<lparr>Vehicle.CurrentDriverID := Some (memHex 4)\<rparr>)"
    by (simp add: memView_def toMap_def driverWorld_def)
  then have "memHex 2 \<in> Truck.ID ` set ts"
    using driver_trucks_are_complete [OF memDB_database driver_world_good ts] sample_units [of 2 "''B 1 A''"] by fastforce
  then show ?thesis using ts by blast
qed

text \<open>Asked without a company, as the order service asks, no truck of a driver ever shows a device:
  every fitting belongs to a company, and the history is searched for the empty one.\<close>

theorem driver_trucks_without_company_show_no_device:
  assumes "database D good vw" and "good w" and "TrucksByDriver D [] driver w = (Inr ts, w')"
    and "\<And>j a. Assignments (vw w) j = Some a \<Longrightarrow> TrackerAssignment.CompanyID a \<noteq> []"
  shows "\<forall>t \<in> set ts. Truck.IMEI t = []"
proof
  fix t assume t: "t \<in> set ts"
  obtain at' xs where "list_all2 (truckOf D (vw w) [] at') xs ts"
    using database.read_only [OF assms(1) database.TrucksByDriver_triple [OF assms(1), where Q = "\<lambda>v. v = vw w"]
      assms(2,3)] by blast
  from shown_row [OF this t] have "Truck.IMEI t \<noteq> [] \<longrightarrow> carried (vw w) [] at' (Truck.ID t) (Truck.IMEI t)"
    by blast
  then show "Truck.IMEI t = []" using assms(4) by (auto simp: carried_def)
qed

end
