(* ===== verification/SiteRegister.thy ===== *)
theory SiteRegister
  imports Sites FleetReads
begin

text \<open>
  The site register as a whole: a request of a company is one of the writes of
  \<^verbatim>\<open>site_write.go\<close>, a run a sequence of them from any companies, each of which may
  succeed or fail anywhere; and what the reads of \<^verbatim>\<open>fleet.go\<close> show of it.
\<close>

section \<open>Requests\<close>

datatype SiteRequest =
    ReqCreateSite SiteInput
  | ReqUpdateSite string SiteInput
  | ReqDeleteSite string

fun performSite :: "'w Database \<Rightarrow> string \<Rightarrow> SiteRequest \<Rightarrow> ('w, unit) io" where
  "performSite D co (ReqCreateSite inp) = forget (CreateSite D co inp)"
| "performSite D co (ReqUpdateSite i inp) = forget (UpdateSite D co i inp)"
| "performSite D co (ReqDeleteSite i) = DeleteSite D co i"

fun serveSites :: "'w Database \<Rightarrow> (string \<times> SiteRequest) list \<Rightarrow> 'w \<Rightarrow> 'w" where
  "serveSites D [] w = w"
| "serveSites D ((co, r) # rs) w = serveSites D rs (snd (performSite D co r w))"

section \<open>The invariants of the machine\<close>

definition goodSites :: "MasterData \<Rightarrow> bool" where
  "goodSites v \<longleftrightarrow> (\<forall>i s. Sites v i = Some s \<longrightarrow> goodSite s)"

text \<open>
  Sites stay, of the company and for the customer they were created for; retired ones stay
  retired; and no other collection is touched.
\<close>

definition sitesKept :: "MasterData \<Rightarrow> MasterData \<Rightarrow> bool" where
  "sitesKept v v' \<longleftrightarrow> v'\<lparr>Sites := Sites v\<rparr> = v \<and>
     (\<forall>i s. Sites v i = Some s \<longrightarrow> (\<exists>s'. Sites v' i = Some s' \<and> Site.CompanyID s' = Site.CompanyID s \<and>
        Site.CustomerCompanyID s' = Site.CustomerCompanyID s \<and> (Base.Deleted s \<longrightarrow> s' = s)))"

lemma markDeleted_site [simp]:
  "goodSite (markDeleted now s) = goodSite s" "Site.CompanyID (markDeleted now s) = Site.CompanyID s"
  "Site.CustomerCompanyID (markDeleted now s) = Site.CustomerCompanyID s"
  by (simp_all add: goodSite_def settled_Site_def mirrored contacts_def markDeleted_def)

lemma goodSites_step: "goodSites v \<Longrightarrow> site_step co v v' \<Longrightarrow> goodSites v'"
  unfolding goodSites_def by (erule site_step.cases) auto

lemma sitesKept_refl: "sitesKept v v"
  by (simp add: sitesKept_def)

lemma sitesKept_step: "sitesKept u v \<Longrightarrow> site_step co v v' \<Longrightarrow> sitesKept u v'"
  unfolding sitesKept_def by (erule site_step.cases) fastforce+

lemma othersSites_step: "site_step co v v' \<Longrightarrow> c \<noteq> co \<Longrightarrow> Sites v i = Some s \<Longrightarrow> Site.CompanyID s = c \<Longrightarrow>
    Sites v' i = Some s"
  by (erule site_step.cases) auto

lemma others_step_back: "site_step co v v' \<Longrightarrow> c \<noteq> co \<Longrightarrow> Sites v' i = Some s \<Longrightarrow> Site.CompanyID s = c \<Longrightarrow>
    Sites v i = Some s"
  by (erule site_step.cases) (auto split: if_splits)

lemma indexed_sites:
  assumes "indexed site_indexes m" "m i = Some s" "m j = Some t"
    and "\<not> Base.Deleted s" "\<not> Base.Deleted t"
    and "Site.CompanyID s = Site.CompanyID t" "Site.SiteType s = Site.SiteType t"
    and "Site.CustomerCompanyID s = Site.CustomerCompanyID t" "Site.NameNormalised s = Site.NameNormalised t"
  shows "i = j"
  using indexedD [OF assms(1), of uq_site_name_per_customer i s j t] assms(2-)
  by (simp add: site_indexes_def uq_site_name_per_customer_def live_def)

section \<open>Every request takes steps of the machine\<close>

context database
begin

lemma performSite_triple:
  "triple (holds (smoved co v0)) (performSite D co r) (\<lambda>_. holds (smoved co v0)) (holds (smoved co v0))"
  by (cases r) (simp_all add: forget_triple [OF CreateSite_triple] forget_triple [OF UpdateSite_triple]
      gone_triple [OF DeleteSite_triple])

lemma performSite_steps:
  assumes "good w"
  shows "good (snd (performSite D co r w)) \<and> smoved co (vw w) (vw (snd (performSite D co r w)))"
proof -
  obtain res w' where run: "performSite D co r w = (res, w')" by force
  have "holds (smoved co (vw w)) w'"
    by (rule triple_worldD [OF performSite_triple [where co = co and r = r] _ run])
      (simp add: inWorld_def assms)
  then show ?thesis using run by (simp add: inWorld_def)
qed

lemma site_index: "good w \<Longrightarrow> indexed site_indexes (Sites (vw w))"
  using sit.indexed_docs by simp

lemma site_success:
  assumes "triple (holds (smoved co (vw w))) m (\<lambda>x. holds (Q x)) E" and "good w" and "m w = (Inr x, w')"
  shows "good w' \<and> Q x (vw w')"
  using triple_InrD [OF assms(1) _ assms(3)] assms(2) by (simp add: inWorld_def)

lemma serveSites_invariant:
  assumes step: "\<And>co v v'. A co \<Longrightarrow> I v \<Longrightarrow> site_step co v v' \<Longrightarrow> I v'"
    and "good w" "I (vw w)" and "\<forall>(co, r) \<in> set rs. A co"
  shows "good (serveSites D rs w) \<and> I (vw (serveSites D rs w))"
  using assms(2-)
proof (induction rs arbitrary: w)
  case (Cons cr rs)
  obtain co r where cr: "cr = (co, r)" by force
  let ?w = "snd (performSite D co r w)"
  have w: "good ?w" "smoved co (vw w) (vw ?w)" using performSite_steps [OF Cons.prems(1)] by blast+
  from w(2) have "I (vw ?w)"
    using Cons.prems(2,3) cr by (induction rule: rtranclp_induct) (auto intro: step)
  then show ?case using Cons.IH [of ?w] w Cons.prems(3) cr by simp
qed simp

end

section \<open>What the site register guarantees\<close>

text \<open>A site request, whether it succeeds or fails, and wherever it fails, changes
  the database only along the steps of \<open>site_step\<close>, taken for the company that makes it.\<close>

theorem site_requests_follow_machine:
  assumes "database D good vw" and "good w"
  shows "good (snd (performSite D co r w)) \<and> (site_step co)\<^sup>*\<^sup>* (vw w) (vw (snd (performSite D co r w)))"
  by (rule database.performSite_steps [OF assms])

definition depotInput :: SiteInput where
  "depotInput =
     \<lparr>SiteInput.Name = '' Yard 7 '', SiteType = [], Address = [], Street = [], District = [], City = ''Bekasi'',
      Province = [], Postcode = [], Latitude = Some (-6), Longitude = Some 107, GeofenceRadiusM = None,
      PICPhone = [], PICName = [], PICs = None, Notes = [], CustomerCompanyID = Some ''c1''\<rparr>"

definition sampleSite :: Site where
  "sampleSite = Site_BeforeWrite (mirrorDefault ((newSite ''acme'')\<lparr>Base.ID := 8, Site.Name := ''Gate'',
     Site.PICs := Some [\<lparr>SitePIC.ID = ''p1'', Name = ''Sari'', Phone = ''0811'', IsDefault = True\<rparr>]\<rparr>))"

definition siteWorld :: MemWorld where
  "siteWorld = sampleWorld\<lparr>mSites := [sampleSite]\<rparr>"

definition siteRequests :: "(string \<times> SiteRequest) list" where
  "siteRequests =
     [(''acme'', ReqCreateSite depotInput),
      (''acme'', ReqUpdateSite (memHex 8) (depotInput\<lparr>SiteInput.PICName := ''Dewi''\<rparr>)),
      (''acme'', ReqDeleteSite (memHex 8))]"

lemma site_world_good: "memGood siteWorld"
  using sample_good
  by (simp add: memGood_def siteWorld_def goodList_def NilObjectID_def sampleSite_def newSite_def)

lemma site_requests_follow_machine_witness:
  "(site_step ''acme'')\<^sup>*\<^sup>* (memView siteWorld)
     (memView (snd (performSite memDB ''acme'' (ReqDeleteSite (memHex 8)) siteWorld)))"
  using site_requests_follow_machine [OF memDB_database site_world_good] by (simp del: performSite.simps)

text \<open>C22. However site requests interleave, every site keeps its normalised name, a contact
  list that is empty or has exactly one default entry, which the old single fields repeat, a point on
  the map in GeoJSON order if it has one and a positive radius; and no two live sites of one type that a
  company keeps for one customer, or for none, have names that read the same.\<close>

theorem sites_stay_well_formed:
  assumes "database D good vw" and "good w" and "goodSites (vw w)"
  shows "goodSites (vw (serveSites D rs w)) \<and>
    (\<forall>i j s t. Sites (vw (serveSites D rs w)) i = Some s \<longrightarrow> Sites (vw (serveSites D rs w)) j = Some t \<longrightarrow>
      \<not> Base.Deleted s \<longrightarrow> \<not> Base.Deleted t \<longrightarrow> Site.CompanyID s = Site.CompanyID t \<longrightarrow>
      Site.SiteType s = Site.SiteType t \<longrightarrow> Site.CustomerCompanyID s = Site.CustomerCompanyID t \<longrightarrow>
      Normalise.Name (Site.Name s) = Normalise.Name (Site.Name t) \<longrightarrow> i = j)"
proof -
  have w: "good (serveSites D rs w) \<and> goodSites (vw (serveSites D rs w))"
    by (rule database.serveSites_invariant [OF assms(1), where A = "\<lambda>_. True"])
      (use assms goodSites_step in auto)
  then have "indexed site_indexes (Sites (vw (serveSites D rs w)))"
    using database.site_index [OF assms(1)] by blast
  moreover have "Site.NameNormalised s = Normalise.Name (Site.Name s)"
    if "Sites (vw (serveSites D rs w)) i = Some s" for i s
    using w that by (auto simp: goodSites_def goodSite_def settled_Site_def)
  ultimately show ?thesis using w indexed_sites by metis
qed

lemma sample_site_good: "goodSites (memView siteWorld)"
proof -
  have "goodSite sampleSite"
    unfolding goodSite_def mirrored
  proof (intro conjI)
    show "settled_Site sampleSite" unfolding sampleSite_def by (rule settled_Site_BeforeWrite)
  qed (simp_all add: sampleSite_def Site_BeforeWrite_def newSite_def mirrorDefault_def Let_def contacts_def
      contactsOK_def named_def)
  then show ?thesis by (simp add: goodSites_def memView_def toMap_def siteWorld_def)
qed

lemma sites_stay_well_formed_witness: "goodSites (memView (serveSites memDB siteRequests siteWorld))"
  using sites_stay_well_formed [OF memDB_database site_world_good sample_site_good] by blast

text \<open>Site requests never lose a site, move it to another company or another customer,
  or change a retired one, and touch no other collection. In particular an update that names another
  customer, or none, leaves the customer as it was.\<close>

theorem sites_keep_owner_and_customer:
  assumes "database D good vw" and "good w"
  shows "sitesKept (vw w) (vw (serveSites D rs w))"
  by (rule conjunct2 [OF database.serveSites_invariant [OF assms(1), where A = "\<lambda>_. True"
        and I = "sitesKept (vw w)"]])
    (use assms sitesKept_step sitesKept_refl in auto)

lemma sites_keep_owner_and_customer_witness:
  "sitesKept (memView siteWorld) (memView (serveSites memDB siteRequests siteWorld))"
  by (rule sites_keep_owner_and_customer [OF memDB_database site_world_good])

text \<open>Site requests of other companies leave a company's sites exactly as they
  were.\<close>

theorem site_tenants_are_separate:
  assumes "database D good vw" and "good w" and "\<forall>(co, r) \<in> set rs. co \<noteq> c"
  shows "\<forall>i s. Site.CompanyID s = c \<longrightarrow> (Sites (vw (serveSites D rs w)) i = Some s \<longleftrightarrow> Sites (vw w) i = Some s)"
  by (rule conjunct2 [OF database.serveSites_invariant [OF assms(1), where A = "\<lambda>co. co \<noteq> c"
        and I = "\<lambda>v. \<forall>i s. Site.CompanyID s = c \<longrightarrow> (Sites v i = Some s \<longleftrightarrow> Sites (vw w) i = Some s)"]])
    (use assms othersSites_step others_step_back in \<open>(metis | simp)+\<close>)

definition otherRequests :: "(string \<times> SiteRequest) list" where
  "otherRequests = [(''zeta'', ReqDeleteSite (memHex 8)), (''zeta'', ReqUpdateSite (memHex 8) depotInput)]"

lemma site_tenants_are_separate_witness:
  "Sites (memView (serveSites memDB otherRequests siteWorld)) 8 = Some sampleSite"
proof -
  have "Site.CompanyID sampleSite = ''acme''" "Sites (memView siteWorld) 8 = Some sampleSite"
    by (simp_all add: sampleSite_def newSite_def Site_BeforeWrite_def siteWorld_def memView_def toMap_def)
  moreover have "\<forall>(co, r) \<in> set otherRequests. co \<noteq> ''acme''" by (simp add: otherRequests_def)
  ultimately show ?thesis
    using site_tenants_are_separate [OF memDB_database site_world_good, of otherRequests "''acme''"] by simp
qed

section \<open>What success promises\<close>

text \<open>C23. A site reported as created is stored: live, of the company, well formed, under
  the name given without its surrounding space, for the customer given; the latitude and longitude
  shown are those sent, not exchanged, and the radius is the one sent or 200 metres.\<close>

theorem create_site_promise:
  assumes "database D good vw" and "good w" and "CreateSite D co inp w = (Inr x, w')"
  shows "(\<exists>s. Sites (vw w') (Base.ID s) = Some s \<and> x = toWarehouse D s \<and> goodSite s \<and>
        Site.CompanyID s = co \<and> \<not> Base.Deleted s) \<and>
     Warehouse.Name x = TrimSpace (SiteInput.Name inp) \<and>
     Warehouse.CustomerCompanyID x = deref (Option.bind (SiteInput.CustomerCompanyID inp) nilIfBlank) \<and>
     (\<forall>a b. SiteInput.Latitude inp = Some a \<longrightarrow> SiteInput.Longitude inp = Some b \<longrightarrow>
        Warehouse.Latitude x = a \<and> Warehouse.Longitude x = b) \<and>
     GeofenceRadiusMeters x = (case SiteInput.GeofenceRadiusM inp of None \<Rightarrow> DefaultGeofenceRadiusM | Some r \<Rightarrow> r)"
proof -
  obtain s where s: "Sites (vw w') (Base.ID s) = Some s" "x = toWarehouse D s" "Site.CompanyID s = co"
      "\<not> Base.Deleted s" "goodSite s" "Site.Name s = TrimSpace (SiteInput.Name inp)"
      "geoPoint (SiteInput.Latitude inp) (SiteInput.Longitude inp) = Inr (Site.Location s)"
      "Site.GeofenceRadiusM s = Some (case SiteInput.GeofenceRadiusM inp of None \<Rightarrow> DefaultGeofenceRadiusM | Some r \<Rightarrow> r)"
      "Site.CustomerCompanyID s = Option.bind (SiteInput.CustomerCompanyID inp) nilIfBlank"
    using database.site_success [OF assms(1) database.CreateSite_triple [OF assms(1)] assms(2,3)] by blast
  have "Warehouse.Latitude x = a \<and> Warehouse.Longitude x = b"
    if "SiteInput.Latitude inp = Some a" "SiteInput.Longitude inp = Some b" for a b
    unfolding s(2) by (rule geoPoint_shown [OF _ refl]) (use s(7) that in simp)
  moreover have "Warehouse.Name x = Site.Name s" "Warehouse.CustomerCompanyID x = deref (Site.CustomerCompanyID s)"
    "GeofenceRadiusMeters x = (case Site.GeofenceRadiusM s of None \<Rightarrow> 0 | Some r \<Rightarrow> r)"
    by (simp_all add: s(2) toWarehouse_def Let_def)
  ultimately show ?thesis using s(1-6,8,9) by (intro conjI exI [of _ s]) simp_all
qed

lemma depot_trim: "TrimSpace '' Yard 7 '' = ''Yard 7''" "TrimSpace ''Bekasi'' = ''Bekasi''" "TrimSpace ''c1'' = ''c1''"
    "TrimSpace [] = []" "TrimSpace ''Dewi'' = ''Dewi''"
  by code_simp+

lemma depot_created: "\<exists>x w. CreateSite memDB ''acme'' depotInput sampleWorld = (Inr x, w)"
  by (simp add: CreateSite_def ApplyPICs_def contactsOf_def depotInput_def depot_trim describe_def setOptional_def
      newSite_def geoPoint_def radiusOf_def andThen_def io_simps Create_def memInsert_def Let_def onErr_def
      mirrorDefault_def nilIfBlank_def NilObjectID_def stampCreate_def)

lemma create_site_promise_witness:
  "\<exists>x w'. CreateSite memDB ''acme'' depotInput sampleWorld = (Inr x, w') \<and>
     Warehouse.Name x = ''Yard 7'' \<and> Warehouse.Latitude x = -6 \<and> Warehouse.Longitude x = 107 \<and>
     GeofenceRadiusMeters x = 200 \<and> Warehouse.CustomerCompanyID x = ''c1''"
proof -
  obtain x w' where run: "CreateSite memDB ''acme'' depotInput sampleWorld = (Inr x, w')"
    using depot_created by blast
  then show ?thesis
    using create_site_promise [OF memDB_database sample_good run]
    by (simp add: depotInput_def depot_trim DefaultGeofenceRadiusM_def nilIfBlank_def deref_def)
qed

text \<open>C39. A site reported as updated is the company's live site of the id asked for,
  stored with its twins and mirrored contact, under the new name, place and radius where they were
  sent.\<close>

theorem update_site_promise:
  assumes "database D good vw" and "good w" and "UpdateSite D co ident inp w = (Inr x, w')"
  shows "(\<exists>s. Sites (vw w') (Base.ID s) = Some s \<and> x = toWarehouse D s \<and> Site.CompanyID s = co \<and>
        \<not> Base.Deleted s \<and> ObjectIDFromHex (env D) ident = Some (Base.ID s) \<and> settled_Site s \<and> mirrorDefault s = s) \<and>
     (TrimSpace (SiteInput.Name inp) \<noteq> [] \<longrightarrow> Warehouse.Name x = TrimSpace (SiteInput.Name inp)) \<and>
     (\<forall>a b. SiteInput.Latitude inp = Some a \<longrightarrow> SiteInput.Longitude inp = Some b \<longrightarrow>
        Warehouse.Latitude x = a \<and> Warehouse.Longitude x = b) \<and>
     (\<forall>r. SiteInput.GeofenceRadiusM inp = Some r \<longrightarrow> GeofenceRadiusMeters x = r)"
proof -
  obtain s where s: "Sites (vw w') (Base.ID s) = Some s" "x = toWarehouse D s" "Site.CompanyID s = co"
      "\<not> Base.Deleted s" "ObjectIDFromHex (env D) ident = Some (Base.ID s)" "settled_Site s" "mirrorDefault s = s"
      "TrimSpace (SiteInput.Name inp) \<noteq> [] \<longrightarrow> Site.Name s = TrimSpace (SiteInput.Name inp)"
      "\<forall>a b. SiteInput.Latitude inp = Some a \<longrightarrow> SiteInput.Longitude inp = Some b \<longrightarrow>
         geoPoint (Some a) (Some b) = Inr (Site.Location s)"
      "\<forall>r. SiteInput.GeofenceRadiusM inp = Some r \<longrightarrow> Site.GeofenceRadiusM s = Some r"
    using database.site_success [OF assms(1) database.UpdateSite_triple [OF assms(1)] assms(2,3)] by blast
  have "Warehouse.Latitude x = a \<and> Warehouse.Longitude x = b"
    if "SiteInput.Latitude inp = Some a" "SiteInput.Longitude inp = Some b" for a b
    unfolding s(2) by (rule geoPoint_shown [OF _ refl]) (use s(9) that in simp)
  moreover have "Warehouse.Name x = Site.Name s"
    "GeofenceRadiusMeters x = (case Site.GeofenceRadiusM s of None \<Rightarrow> 0 | Some r \<Rightarrow> r)"
    by (simp_all add: s(2) toWarehouse_def Let_def)
  ultimately show ?thesis using s(1-8,10) by (intro conjI exI [of _ s]) simp_all
qed

lemma sampleSite_simps [simp]:
  "Base.ID sampleSite = 8" "\<not> Base.Deleted sampleSite" "Site.CompanyID sampleSite = ''acme''"
  by (simp_all add: sampleSite_def newSite_def Site_BeforeWrite_def)

lemma depot_updated:
  "\<exists>x w. UpdateSite memDB ''acme'' (memHex 8) depotInput siteWorld = (Inr x, w)"
  by (simp add: UpdateSite_def decodeOne_def scoped_def siteWorld_def io_simps)
    (simp add: ApplyPICs_def contactsOf_def depotInput_def depot_trim geoPoint_def radiusOf_def andThen_def
      io_simps Update_def memUpdateOne_def Let_def onErr_def)

lemma update_site_promise_witness:
  "\<exists>x w'. UpdateSite memDB ''acme'' (memHex 8) depotInput siteWorld = (Inr x, w') \<and>
     Warehouse.Name x = ''Yard 7'' \<and> Warehouse.Latitude x = -6 \<and> Warehouse.Longitude x = 107"
proof -
  obtain x w' where run: "UpdateSite memDB ''acme'' (memHex 8) depotInput siteWorld = (Inr x, w')"
    using depot_updated by blast
  then show ?thesis
    using update_site_promise [OF memDB_database site_world_good run]
    by (simp add: depotInput_def depot_trim)
qed

section \<open>What the listing shows\<close>

text \<open>Listing warehouses changes nothing and shows stored live sites of the company,
  of the customer the last customer filter names, or of none where it names the company's own.\<close>

theorem warehouses_are_sites:
  assumes "database D good vw" and "good w" and "ListWarehouses D co prm w = (Inr (ws, n), w')"
  shows "vw w' = vw w \<and> int (length ws) \<le> n \<and> (0 < PageSize prm \<longrightarrow> int (length ws) \<le> PageSize prm) \<and>
    (\<exists>ss. ws = map (toWarehouse D) ss \<and> (\<forall>s \<in> set ss. Sites (vw w) (Base.ID s) = Some s \<and>
       Site.CompanyID s = co \<and> \<not> Base.Deleted s \<and> customerScope (Filters prm) s))"
  using database.read_only_page [OF assms(1) database.ListWarehouses_triple [OF assms(1), where Q = "\<lambda>v. v = vw w"]
      assms(2,3)]
  by simp

definition ownPage :: Params where
  "ownPage = firstPage\<lparr>Filters :=
     [\<lparr>Filter.Field = ''customerCompanyId'', Value = ''own'', Operator = OpEq, Values = []\<rparr>]\<rparr>"

lemma ownPage_simps [simp]:
  "Search ownPage = []" "findOptions ownPage = findOptions firstPage"
  "customerScope (Filters ownPage) s \<longleftrightarrow> Site.CustomerCompanyID s = None \<or> Site.CustomerCompanyID s = Some []"
  by (simp_all add: ownPage_def findOptions_def Offset_def customerScope_def firstPage_def)

lemma sampleSite_own [simp]: "Site.CustomerCompanyID sampleSite = None"
  by (simp add: sampleSite_def newSite_def Site_BeforeWrite_def)

lemma warehouses_listed:
  "\<exists>ws w. ListWarehouses memDB ''acme'' ownPage siteWorld = (Inr (ws, 1), w) \<and> length ws = 1"
  by (simp add: ListWarehouses_def page_def andThen_def negativeSkip_def window_def siteWorld_def io_simps)

lemma warehouses_are_sites_witness:
  "\<exists>ws w'. memView w' = memView siteWorld \<and> length ws = 1 \<and>
     (\<exists>ss. ws = map (toWarehouse memDB) ss \<and> (\<forall>s \<in> set ss. Sites (memView siteWorld) (Base.ID s) = Some s))"
proof -
  obtain ws w' where ws: "ListWarehouses memDB ''acme'' ownPage siteWorld = (Inr (ws, 1), w')" "length ws = 1"
    using warehouses_listed by blast
  show ?thesis using warehouses_are_sites [OF memDB_database site_world_good ws(1)] ws(2) by blast
qed

end
