(* ===== verification/TextProperties.thy ===== *)
theory TextProperties
  imports SiteRegister
begin

text \<open>
  What the text functions and the models' hooks guarantee: normalised forms compare what they are
  meant to compare, storing a document twice stores the same, and a search for a text finds that
  text and nothing else.
\<close>

text \<open>Two plates are the same to the register exactly when they spell the same letters and
  digits in the same order, whatever the case, spaces and punctuation; a normalised plate is its own
  normal form.\<close>

theorem plates_compare_letters_and_digits:
  "(Plate a = Plate b \<longleftrightarrow> ToLower (filter isAlnum a) = ToLower (filter isAlnum b)) \<and>
     Plate (Plate a) = Plate a \<and> (\<forall>c \<in> set (Plate a). isAlnum c \<and> \<not> isLower c)"
proof -
  have low: "lowerChar (upperChar c) = lowerChar c" for c
    by (auto simp: lowerChar_def upperChar_def isLower_def isUpper_def)
  have "Plate x = ToUpper (filter isAlnum x)" for x
    by (simp add: Plate_def removeNonAlphanumeric_def ToUpper_def filter_map_alnum)
  moreover have "ToUpper x = ToUpper y \<longleftrightarrow> ToLower x = ToLower y" for x y
  proof
    assume "ToUpper x = ToUpper y"
    then have "map lowerChar (map upperChar x) = map lowerChar (map upperChar y)" by (simp add: ToUpper_def)
    then show "ToLower x = ToLower y" by (simp add: ToLower_def comp_def low)
  next
    assume "ToLower x = ToLower y"
    then have "map upperChar (map lowerChar x) = map upperChar (map lowerChar y)" by (simp add: ToLower_def)
    then show "ToUpper x = ToUpper y" by (simp add: ToUpper_def comp_def)
  qed
  ultimately have "Plate a = Plate b \<longleftrightarrow> ToLower (filter isAlnum a) = ToLower (filter isAlnum b)" by simp
  moreover have "\<not> isLower (upperChar c)" for c
    by (auto simp: upperChar_def isLower_def)
  then have "\<forall>c \<in> set (Plate a). \<not> isLower c" by (simp add: Plate_def ToUpper_def removeNonAlphanumeric_def filter_map_alnum)
  ultimately show ?thesis using Plate_alnum by simp
qed

lemma plates_compare_letters_and_digits_witness:
  "Plate '' b 1234-xyz '' = Plate ''B1234XYZ''"
  by (rule iffD2 [OF conjunct1 [OF plates_compare_letters_and_digits]]) code_simp

text \<open>Two names are the same to the service exactly when they have the same words, whatever the
  case and the blanks around and between them.\<close>

theorem names_compare_words:
  "(Normalise.Name a = Normalise.Name b \<longleftrightarrow> Words (ToLower (TrimSpace a)) = Words (ToLower (TrimSpace b))) \<and>
     Normalise.Name (Normalise.Name a) = Normalise.Name a"
  by (simp add: Name_words)

text \<open>The hook that prepares a document for storage changes nothing a second time, for
  every document the service stores: what is stored is a fixed point of it.\<close>

theorem before_write_is_idempotent:
  "Vehicle_BeforeWrite (Vehicle_BeforeWrite v) = Vehicle_BeforeWrite v \<and>
   Driver_BeforeWrite (Driver_BeforeWrite d) = Driver_BeforeWrite d \<and>
   Tracker_BeforeWrite (Tracker_BeforeWrite t) = Tracker_BeforeWrite t \<and>
   TrackerAssignment_BeforeWrite (TrackerAssignment_BeforeWrite a) = TrackerAssignment_BeforeWrite a \<and>
   Document_BeforeWrite (Document_BeforeWrite e) = Document_BeforeWrite e \<and>
   Site_BeforeWrite (Site_BeforeWrite s) = Site_BeforeWrite s \<and>
   TrackerModel_BeforeWrite (TrackerModel_BeforeWrite m) = TrackerModel_BeforeWrite m \<and>
   SensorType_BeforeWrite (SensorType_BeforeWrite y) = SensorType_BeforeWrite y"
  by (simp add: BeforeWrite_attributes Vehicle_BeforeWrite_settled settled_Vehicle_BeforeWrite Driver_BeforeWrite_settled
      settled_Driver_BeforeWrite Tracker_BeforeWrite_settled settled_Tracker_BeforeWrite
      TrackerAssignment_BeforeWrite_settled settled_TrackerAssignment_BeforeWrite
      Document_BeforeWrite_idem Site_BeforeWrite_settled settled_Site_BeforeWrite
      TrackerModel_BeforeWrite_idem SensorType_BeforeWrite_idem)

text \<open>A normalised name has no null character the text has not.\<close>

lemma collapseSpace_chars: "c \<in> set (collapseSpace s) \<Longrightarrow> c \<in> set s \<or> c = CHR '' ''"
  by (induction s rule: collapseSpace.induct) (auto split: if_splits)

lemma Name_chars:
  assumes "CHR 0x00 \<notin> set s" shows "CHR 0x00 \<notin> set (Normalise.Name s)"
proof
  assume "CHR 0x00 \<in> set (Normalise.Name s)"
  then obtain c where c: "c \<in> set (collapseSpace (TrimSpace s))" "lowerChar c = CHR 0x00"
    by (auto simp: Normalise.Name_def ToLower_def)
  have "\<not> isAlnum c" using isAlnum_lowerChar [of c] c(2) by (simp add: isAlnum_def isUpper_def isLower_def isDigit_def)
  then have "c = CHR 0x00" using c(2) by (simp add: lowerChar_def isAlnum_def)
  with c collapseSpace_chars [of "CHR 0x00" "TrimSpace s"] have "CHR 0x00 \<in> set (TrimSpace s)" by auto
  then show False using assms by (auto simp: TrimSpace_def dest!: set_dropWhileD)
qed

lemma caseless_part:
  "HasPrefix (ToLower s) (ToLower l) \<longleftrightarrow> (\<exists>m v. s = m @ v \<and> ToLower m = ToLower l)"
proof
  assume "HasPrefix (ToLower s) (ToLower l)"
  then obtain r where "map lowerChar s = map lowerChar l @ r" by (auto simp: HasPrefix_iff ToLower_def)
  then show "\<exists>m v. s = m @ v \<and> ToLower m = ToLower l"
    unfolding map_eq_append_conv ToLower_def by metis
qed (auto simp: HasPrefix_iff ToLower_def)

text \<open>C14. A search text is matched as that text: the expressions the listings build from it
  find, in the database's own matching of regular expressions, exactly the texts that contain it,
  or begin with it when anchored, no character of it acting as a pattern; without regard to case
  the same holds of ASCII texts. So the page of warehouses for a search text is the page of those
  whose normalised name begins with the normalised text. A text with a null character is left out,
  for the database refuses such an expression.\<close>

theorem search_is_literal:
  assumes "database D good vw" and "CHR 0x00 \<notin> set l" and "CHR 0x00 \<notin> set (Search p)"
  shows "(MatchRegex (env D) [] (escapeRegex l) s \<longleftrightarrow> (\<exists>u v. s = u @ l @ v)) \<and>
     (MatchRegex (env D) [] (CHR ''^'' # escapeRegex l) s \<longleftrightarrow> (\<exists>v. s = l @ v)) \<and>
     (list_all isAscii (l @ s) \<longrightarrow>
        (MatchRegex (env D) ''i'' (CHR ''^'' # escapeRegex l) s \<longleftrightarrow>
           (\<exists>m v. s = m @ v \<and> ToLower m = ToLower l))) \<and>
     ListWarehouses D co p =
       andThen (page (col (sites D))
         (\<lambda>s. Site.CompanyID s = co \<and> \<not> Base.Deleted s \<and> customerScope (Filters p) s \<and>
              (Search p \<noteq> [] \<longrightarrow> (\<exists>v. Site.NameNormalised s = Normalise.Name (Search p) @ v))) p)
       (\<lambda>(ss, n). ok (map (toWarehouse D) ss, n))"
proof -
  have "platform good vw (env D)" using assms(1) by (simp add: database_def)
  note literal = platform.regex_escaped [OF this]
  have "MatchRegex (env D) [] (escapeRegex l) s \<longleftrightarrow> (\<exists>u v. s = u @ l @ v)"
    using literal(1) [OF assms(2)] by (simp add: Contains_iff)
  moreover have "MatchRegex (env D) [] (CHR ''^'' # escapeRegex l) s \<longleftrightarrow> (\<exists>v. s = l @ v)"
    if "CHR 0x00 \<notin> set l" for l s using literal(2) [OF that] by (simp add: HasPrefix_iff)
  moreover have "MatchRegex (env D) ''i'' (CHR ''^'' # escapeRegex l) s \<longleftrightarrow>
      (\<exists>m v. s = m @ v \<and> ToLower m = ToLower l)" if "list_all isAscii (l @ s)"
    using literal(4) [OF assms(2) that] by (simp add: caseless_part)
  ultimately show ?thesis using assms(2) Name_chars [OF assms(3)] by (simp add: ListWarehouses_def)
qed

lemma search_is_literal_witness:
  "\<not> MatchRegex memPlatform [] (escapeRegex ''a.c'') ''abc'' \<and>
   MatchRegex memPlatform ''i'' (CHR ''^'' # escapeRegex ''a.c'') ''A.CD'' \<and>
   fst (ListWarehouses memDB ''acme'' \<lparr>Err = None, Page = 0, PageSize = 10, Filters = [], Sorts = [],
      Search = ''.ate''\<rparr> siteWorld) = Inr ([], 0)"
proof -
  let ?p = "\<lparr>Err = None, Page = 0, PageSize = 10, Filters = [], Sorts = [], Search = ''.ate''\<rparr>"
  have no: "\<not> (\<exists>u v. ''abc'' = u @ ''a.c'' @ v)"
    by (auto simp: append_eq_Cons_conv Cons_eq_append_conv)
  have yes: "\<exists>m v. ''A.CD'' = m @ v \<and> ToLower m = ToLower ''a.c''"
    by (rule exI [of _ "''A.C''"], rule exI [of _ "''D''"]) code_simp
  have "list_all isAscii (''a.c'' @ ''A.CD'')" by code_simp
  moreover have "Normalise.Name ''.ate'' = ''.ate''" "Normalise.Name ''Gate'' = ''gate''" by code_simp+
  then have "\<not> (\<exists>v. Site.NameNormalised sampleSite = Normalise.Name ''.ate'' @ v)"
    by (simp add: sampleSite_def Site_BeforeWrite_def newSite_def)
  ultimately show ?thesis
    using no yes search_is_literal [OF memDB_database, of "''a.c''" ?p "''abc''" "''acme''"]
      search_is_literal [OF memDB_database, of "''a.c''" ?p "''A.CD''" "''acme''"]
    by (simp add: page_def andThen_def siteWorld_def memFault_def negativeSkip_def window_def findOptions_def
        Offset_def int64_def ok_def)
qed

end
