(* ===== verification/Access.thy ===== *)
theory Access
  imports Prelude
begin

text \<open>
  Who may do what (\<^verbatim>\<open>internal/platform/authctx\<close>): the two products' permission
  catalogues, the sellable entitlements that gate them, and the principal a token asserts. The
  contents of the embedded \<^verbatim>\<open>fms-features.json\<close> are the list \<open>fmsRegistryJSON\<close>;
  a Go map is an association list, in the order of its literal, of which nothing here depends.
\<close>

section \<open>Products and catalogues\<close>

type_synonym Product = string

definition ProductTMS :: Product where "ProductTMS = ''tms''"
definition ProductFMS :: Product where "ProductFMS = ''fms''"
definition ProductShared :: Product where "ProductShared = ''shared''"

record PermissionSpec =
  Key :: string
  Feature :: string
  Group :: string
  Label :: string

type_synonym Catalog = "(string \<times> PermissionSpec) list"

abbreviation entry :: "string \<Rightarrow> string \<Rightarrow> string \<Rightarrow> string \<Rightarrow> string \<Rightarrow> string \<times> PermissionSpec" where
  "entry k key feature grp label \<equiv>
     (k, \<lparr>Key = key, Feature = feature, Group = grp, Label = label\<rparr>)"

definition tmsCatalog :: Catalog where
  "tmsCatalog =
    [
     entry ''order.read'' ''order.read'' ''order'' ''Orders'' ''View orders'',
     entry ''order.create'' ''order.create'' ''order'' ''Orders'' ''Create orders'',
     entry ''order.update'' ''order.update'' ''order'' ''Orders'' ''Edit draft orders'',
     entry ''order.cancel'' ''order.cancel'' ''order'' ''Orders'' ''Cancel orders'',
     entry ''order.approve'' ''order.approve'' ''order'' ''Orders'' ''Approve or reject orders'',
     entry ''order.assignDriver'' ''order.assignDriver'' ''order'' ''Orders'' ''Assign a driver and truck'',
     entry ''order.readyToPlan'' ''order.readyToPlan'' ''order'' ''Orders'' ''Mark ready to plan'',
     entry ''order.requestDriver'' ''order.requestDriver'' ''order'' ''Orders'' ''Request a driver (3PL)'',
     entry ''agreement.read'' ''agreement.read'' ''agreement'' ''Agreements'' ''View agreements'',
     entry ''agreement.create'' ''agreement.create'' ''agreement'' ''Agreements'' ''Create agreements'',
     entry ''agreement.update'' ''agreement.update'' ''agreement'' ''Agreements'' ''Edit agreements'',
     entry ''agreement.approve'' ''agreement.approve'' ''agreement'' ''Agreements'' ''Approve, reject or verify'',
     entry ''agreement.cancel'' ''agreement.cancel'' ''agreement'' ''Agreements'' ''Cancel agreements'',
     entry ''invoice.read'' ''invoice.read'' ''invoice'' ''Invoicing'' ''View invoices'',
     entry ''invoice.create'' ''invoice.create'' ''invoice'' ''Invoicing'' ''Create invoices'',
     entry ''invoice.update'' ''invoice.update'' ''invoice'' ''Invoicing'' ''Change invoice status'',
     entry ''invoice.approve'' ''invoice.approve'' ''invoice'' ''Invoicing'' ''Verify and settle'',
     entry ''invoice.export'' ''invoice.export'' ''invoice'' ''Invoicing'' ''Export invoices'',
     entry ''shipment.read'' ''shipment.read'' ''shipment'' ''Shipments'' ''View shipments'',
     entry ''shipment.update'' ''shipment.update'' ''shipment'' ''Shipments'' ''Advance a shipment'',
     entry ''shipment.verifyLoading'' ''shipment.verifyLoading'' ''shipment'' ''Shipments'' ''Approve loading'',
     entry ''shipment.verifyUnloading'' ''shipment.verifyUnloading'' ''shipment'' ''Shipments'' ''Approve unloading'',
     entry ''truck.read'' ''truck.read'' ''truck'' ''Fleet'' ''View trucks'',
     entry ''truck.create'' ''truck.create'' ''truck'' ''Fleet'' ''Add trucks'',
     entry ''truck.update'' ''truck.update'' ''truck'' ''Fleet'' ''Edit trucks'',
     entry ''truck.delete'' ''truck.delete'' ''truck'' ''Fleet'' ''Remove trucks'',
     entry ''truck.addDriver'' ''truck.addDriver'' ''truck'' ''Fleet'' ''Pair a driver'',
     entry ''truck.deleteDriver'' ''truck.deleteDriver'' ''truck'' ''Fleet'' ''Unpair a driver'',
     entry ''warehouse.read'' ''warehouse.read'' ''warehouse'' ''Locations'' ''View warehouses'',
     entry ''warehouse.create'' ''warehouse.create'' ''warehouse'' ''Locations'' ''Add warehouses'',
     entry ''warehouse.update'' ''warehouse.update'' ''warehouse'' ''Locations'' ''Edit warehouses'',
     entry ''warehouse.delete'' ''warehouse.delete'' ''warehouse'' ''Locations'' ''Remove warehouses'',
     entry ''customer.read'' ''customer.read'' ''customer'' ''Customers'' ''View customers'',
     entry ''customer.create'' ''customer.create'' ''customer'' ''Customers'' ''Add customers'',
     entry ''customer.update'' ''customer.update'' ''customer'' ''Customers'' ''Edit customers'',
     entry ''customer.delete'' ''customer.delete'' ''customer'' ''Customers'' ''Remove customers'',
     entry ''dashboard.read'' ''dashboard.read'' ''dashboard'' ''Dashboard'' ''View dashboard'',
     entry ''dashboard.export'' ''dashboard.export'' ''dashboard'' ''Dashboard'' ''Export dashboard data'',
     entry ''notification.read'' ''notification.read'' ''notification'' ''Notifications'' ''View notifications'',
     entry ''notification.update'' ''notification.update'' ''notification'' ''Notifications'' ''Manage notification settings'',
     entry ''masterData.read'' ''masterData.read'' [] ''Master Data'' ''View reference data'',
     entry ''masterData.create'' ''masterData.create'' [] ''Master Data'' ''Add reference data'',
     entry ''masterData.update'' ''masterData.update'' [] ''Master Data'' ''Edit reference data'',
     entry ''masterData.delete'' ''masterData.delete'' [] ''Master Data'' ''Remove reference data'',
     entry ''collaboration.read'' ''collaboration.read'' [] ''Administration'' ''View members'',
     entry ''collaboration.inviteMember'' ''collaboration.inviteMember'' [] ''Administration'' ''Invite members'',
     entry ''collaboration.manageMember'' ''collaboration.manageMember'' [] ''Administration'' ''Manage member permissions'',
     entry ''collaboration.removeMember'' ''collaboration.removeMember'' [] ''Administration'' ''Remove members'',
     entry ''accounting.read'' ''accounting.read'' ''accounting'' ''Accounting'' ''View accounting'',
     entry ''accounting.create'' ''accounting.create'' ''accounting'' ''Accounting'' ''Create entries'',
     entry ''accounting.approve'' ''accounting.approve'' ''accounting'' ''Accounting'' ''Approve entries'',
     entry ''accounting.export'' ''accounting.export'' ''accounting'' ''Accounting'' ''Export accounting data'',
     entry ''telemetry.read'' ''telemetry.read'' ''telemetry'' ''Telemetry'' ''View vehicle positions'',
     entry ''telemetry.export'' ''telemetry.export'' ''telemetry'' ''Telemetry'' ''Export telemetry'']"

definition fmsCatalog :: Catalog where
  "fmsCatalog =
    [
     entry ''dashboard.view'' ''dashboard.view'' ''dashboard'' ''Dashboard'' ''View dashboard'',
     entry ''dashboard.ai'' ''dashboard.ai'' ''ai_dashboard'' ''Dashboard'' ''AI dashboard'',
     entry ''live.view'' ''live.view'' ''live'' ''Live Tracking'' ''View live tracking'',
     entry ''live.history'' ''live.history'' ''live'' ''Live Tracking'' ''View trip history'',
     entry ''fuel.view'' ''fuel.view'' ''live'' ''Fuel'' ''View fuel & cost'',
     entry ''fuel.price_calc'' ''fuel.price_calc'' ''live'' ''Fuel'' ''Fuel price calculation'',
     entry ''geofence.view'' ''geofence.view'' ''geofence'' ''Geofence'' ''View geofences'',
     entry ''geofence.manage'' ''geofence.manage'' ''geofence'' ''Geofence'' ''Manage geofences'',
     entry ''controltower.view'' ''controltower.view'' ''controltower'' ''Control Tower'' ''View control tower'',
     entry ''notifications.view'' ''notifications.view'' ''notifications'' ''Notifications'' ''View notifications'',
     entry ''notifications.manage'' ''notifications.manage'' ''notifications'' ''Notifications'' ''Manage notification rules'',
     entry ''reports.view'' ''reports.view'' ''reports'' ''Reporting'' ''View reports'',
     entry ''reports.custom'' ''reports.custom'' ''custom_report'' ''Reporting'' ''Custom report builder'',
     entry ''reports.ai'' ''reports.ai'' ''ai_reporting'' ''Reporting'' ''AI reporting'',
     entry ''camera.view'' ''camera.view'' ''camera'' ''Camera'' ''View cameras (TrackVision)'',
     entry ''share_link.view'' ''share_link.view'' ''share_link'' ''Share Link'' ''View share links'',
     entry ''share_link.create'' ''share_link.create'' ''generate_link'' ''Share Link'' ''Generate share link'',
     entry ''maintenance.view'' ''maintenance.view'' ''maintenance'' ''Fleet Management'' ''View maintenance'',
     entry ''maintenance.manage'' ''maintenance.manage'' ''maintenance'' ''Fleet Management'' ''Manage maintenance'',
     entry ''hangars.view'' ''hangars.view'' ''hangars'' ''Fleet Management'' ''View workshops'',
     entry ''hangars.manage'' ''hangars.manage'' ''hangars'' ''Fleet Management'' ''Manage workshops'',
     entry ''license.view'' ''license.view'' ''license'' ''Fleet Management'' ''View licenses'',
     entry ''license.manage'' ''license.manage'' ''license'' ''Fleet Management'' ''Manage licenses'',
     entry ''vehicles.view'' ''vehicles.view'' [] ''Master Data'' ''View vehicles'',
     entry ''vehicles.edit'' ''vehicles.edit'' [] ''Master Data'' ''Add / edit vehicles'',
     entry ''drivers.view'' ''drivers.view'' [] ''Master Data'' ''View drivers'',
     entry ''drivers.edit'' ''drivers.edit'' [] ''Master Data'' ''Add / edit drivers'',
     entry ''rfid.manage'' ''rfid.manage'' ''rfid'' ''Master Data'' ''Manage RFID'',
     entry ''dashcams.manage'' ''dashcams.manage'' ''camera'' ''Master Data'' ''Manage dashcams'',
     entry ''users.manage'' ''users.manage'' [] ''Administration'' ''Manage users'',
     entry ''roles.manage'' ''roles.manage'' [] ''Administration'' ''Manage roles'']"

definition DefaultTMSFeatures :: "string list" where
  "DefaultTMSFeatures =
     [''order'', ''agreement'', ''invoice'', ''shipment'',
      ''truck'', ''warehouse'', ''customer'', ''dashboard'', ''notification'']"

definition catalogs :: "Product \<Rightarrow> Catalog" where
  "catalogs product =
     (if product = ProductTMS then tmsCatalog else if product = ProductFMS then fmsCatalog else [])"

definition CatalogFor :: "Product \<Rightarrow> Catalog" where
  "CatalogFor product = catalogs product"

definition FeatureFor :: "Product \<Rightarrow> string \<Rightarrow> string \<times> bool" where
  "FeatureFor product key =
     (case map_of (catalogs product) key of None \<Rightarrow> ([], False) | Some spec \<Rightarrow> (Feature spec, True))"

fun featureLoop :: "string list \<Rightarrow> PermissionSpec list \<Rightarrow> string list" where
  "featureLoop out [] = out"
| "featureLoop out (spec # specs) =
     (if Feature spec = [] \<or> Feature spec \<in> set out then featureLoop out specs
      else featureLoop (out @ [Feature spec]) specs)"

definition FeaturesFor :: "Product \<Rightarrow> string list" where
  "FeaturesFor product = featureLoop [] (map snd (catalogs product))"

definition IsKnownPermission :: "Product \<Rightarrow> string \<Rightarrow> bool" where
  "IsKnownPermission product key \<longleftrightarrow> map_of (catalogs product) key \<noteq> None"

section \<open>Entitlements\<close>

record Feature =
  Name :: string
  Owner :: Product
  Description :: string
  Parent :: string
  Roadmap :: bool

abbreviation sellable :: "string \<Rightarrow> Product \<Rightarrow> string \<Rightarrow> Feature" where
  "sellable name owner description \<equiv>
     \<lparr>Name = name, Owner = owner, Description = description, Parent = [], Roadmap = False\<rparr>"

definition tmsFeatures :: "Feature list" where
  "tmsFeatures =
    [
     sellable ''order'' ProductTMS ''Place, approve and track orders'',
     sellable ''agreement'' ProductTMS ''Rate agreements between shipper and transporter'',
     sellable ''invoice'' ProductTMS ''Billing and settlement'',
     sellable ''shipment'' ProductTMS ''Loading, transit and unloading'',
     sellable ''truck'' ProductTMS ''Fleet register and driver pairing'',
     sellable ''warehouse'' ProductTMS ''Warehouse register and geofencing'',
     sellable ''customer'' ProductTMS ''The company's own customer register'',
     sellable ''dashboard'' ProductTMS ''Operational dashboards and summaries'',
     sellable ''notification'' ProductTMS ''In-app, email and WhatsApp notifications'']"

definition sharedFeatures :: "Feature list" where
  "sharedFeatures =
    [
     sellable ''accounting'' ProductShared ''The separately sold accounting service'',
     sellable ''telemetry'' ProductShared ''The separately sold telemetry service, by tier'']"

record fmsDef =
  DefKey :: string
  DefLabel :: string
  DefParent :: string
  Dev :: bool

abbreviation fmsEntry :: "string \<Rightarrow> string \<Rightarrow> string \<Rightarrow> bool \<Rightarrow> fmsDef" where
  "fmsEntry key label parent dev \<equiv> \<lparr>DefKey = key, DefLabel = label, DefParent = parent, Dev = dev\<rparr>"

definition fmsRegistryJSON :: "fmsDef list" where
  "fmsRegistryJSON =
    [
     fmsEntry ''dashboard'' ''Dashboard'' [] False,
     fmsEntry ''ai_dashboard'' ''AI Dashboard'' ''dashboard'' False,
     fmsEntry ''live'' ''Live View'' [] False,
     fmsEntry ''geofence'' ''Geofence'' ''live'' False,
     fmsEntry ''controltower'' ''Control Tower'' [] False,
     fmsEntry ''notifications'' ''Notifications'' [] False,
     fmsEntry ''share_link'' ''Share Link'' [] False,
     fmsEntry ''generate_link'' ''Generate Link'' ''share_link'' False,
     fmsEntry ''reports'' ''Reporting'' [] False,
     fmsEntry ''custom_report'' ''Custom Report'' ''reports'' False,
     fmsEntry ''ai_reporting'' ''AI Reporting'' ''reports'' False,
     fmsEntry ''camera'' ''Camera (TrackVision)'' [] False,
     fmsEntry ''fleet_management'' ''Fleet Management'' [] False,
     fmsEntry ''maintenance'' ''Maintenance'' ''fleet_management'' False,
     fmsEntry ''hangars'' ''Workshops'' ''fleet_management'' False,
     fmsEntry ''license'' ''License'' ''fleet_management'' False,
     fmsEntry ''master_data'' ''Master Data'' [] False,
     fmsEntry ''dashcams'' ''Dashcam'' ''master_data'' False,
     fmsEntry ''rfid'' ''RFID'' ''master_data'' False,
     fmsEntry ''users'' ''Users'' ''master_data'' False,
     fmsEntry ''scorecard'' ''Driver Performance'' [] False,
     fmsEntry ''marketplace'' ''Marketplace'' [] False,
     fmsEntry ''sales'' ''Sales & Orders'' [] True,
     fmsEntry ''orders'' ''Orders'' ''sales'' True,
     fmsEntry ''invoices'' ''Invoices'' ''sales'' True,
     fmsEntry ''quotations'' ''Quotations'' ''sales'' True,
     fmsEntry ''procurement'' ''Procurement'' [] True,
     fmsEntry ''purchase-orders'' ''Purchase Orders'' ''procurement'' True,
     fmsEntry ''purchase-invoices'' ''Purchase Invoices'' ''procurement'' True,
     fmsEntry ''purchase-quotes'' ''Purchase Quotes'' ''procurement'' True,
     fmsEntry ''expenses'' ''Expenses'' ''procurement'' True,
     fmsEntry ''inventory'' ''Inventory & Products'' [] True,
     fmsEntry ''products'' ''Products'' ''inventory'' True,
     fmsEntry ''stock'' ''Inventory'' ''inventory'' True,
     fmsEntry ''warehouses'' ''Warehouses'' ''inventory'' True,
     fmsEntry ''fixed-assets'' ''Fixed Assets'' ''inventory'' True,
     fmsEntry ''finance'' ''Finance'' [] True,
     fmsEntry ''cash-bank'' ''Cash & Bank'' ''finance'' True,
     fmsEntry ''chart-of-accounts'' ''Chart of Accounts'' ''finance'' True,
     fmsEntry ''cost-centers'' ''Cost Centers'' ''finance'' True,
     fmsEntry ''journal'' ''Journal Entries'' ''finance'' True,
     fmsEntry ''payroll'' ''Payroll'' ''finance'' True,
     fmsEntry ''commerce'' ''Commerce & CRM'' [] True,
     fmsEntry ''pos'' ''Point of Sale'' ''commerce'' True,
     fmsEntry ''distribution'' ''Distribution'' ''commerce'' True,
     fmsEntry ''crm'' ''CRM'' ''commerce'' True,
     fmsEntry ''contacts'' ''Contacts'' ''commerce'' True]"

definition decodeFMSRegistry :: "bool \<Rightarrow> Feature list" where
  "decodeFMSRegistry liveOnly =
     map (\<lambda>d. \<lparr>Name = DefKey d, Owner = ProductFMS, Description = DefLabel d, Parent = DefParent d,
               Roadmap = Dev d\<rparr>)
       (filter (\<lambda>d. \<not> (liveOnly \<and> Dev d)) fmsRegistryJSON)"

definition FMSRegistry :: "Feature list" where
  "FMSRegistry = decodeFMSRegistry False"

definition fmsFeatures :: "Feature list" where
  "fmsFeatures = decodeFMSRegistry True"

text \<open>The features filled into the map of a product, the later of one name over the earlier.\<close>

definition declared :: "Product \<Rightarrow> Feature list" where
  "declared product =
     (if product = ProductTMS then tmsFeatures @ sharedFeatures
      else if product = ProductFMS then fmsFeatures @ sharedFeatures
      else if product = ProductShared then sharedFeatures else [])"

definition featureRegistry :: "Product \<Rightarrow> string \<rightharpoonup> Feature" where
  "featureRegistry product = map_of (rev (map (\<lambda>f. (Name f, f)) (declared product)))"

definition IsSellableFeature :: "Product \<Rightarrow> string \<Rightarrow> bool" where
  "IsSellableFeature product name \<longleftrightarrow> featureRegistry product name \<noteq> None"

definition SellableFeatures :: "Product \<Rightarrow> Feature list" where
  "SellableFeatures product =
     map (\<lambda>n. the (featureRegistry product n)) (remdups (map Name (declared product)))"

section \<open>The principal\<close>

record ProductAccess =
  Role :: string
  Permissions :: "string list"
  Features :: "string list"
  GrantsAll :: bool

record Principal =
  UserID :: string
  CompanyID :: string
  IsPlatformStaff :: bool
  Access :: "Product \<rightharpoonup> ProductAccess"
  SingleDevice :: bool
  TokenID :: string

text \<open>The access read for a product absent from the map: Go's zero value.\<close>

definition zeroAccess :: ProductAccess where
  "zeroAccess = \<lparr>Role = [], Permissions = [], Features = [], GrantsAll = False\<rparr>"

definition accessIn :: "Principal \<Rightarrow> Product \<Rightarrow> ProductAccess" where
  "accessIn p product = (case Access p product of None \<Rightarrow> zeroAccess | Some a \<Rightarrow> a)"

definition HasPermission :: "Principal \<Rightarrow> Product \<Rightarrow> string \<Rightarrow> bool" where
  "HasPermission p product key \<longleftrightarrow>
     (if IsPlatformStaff p then True
      else (case Access p product of
              None \<Rightarrow> False
            | Some access \<Rightarrow>
                if \<not> GrantsAll access \<and> key \<notin> set (Permissions access) then False
                else (case FeatureFor product key of (feature, known) \<Rightarrow>
                        if \<not> known then False
                        else if feature = [] then True
                        else feature \<in> set (Features access))))"

definition HasProduct :: "Principal \<Rightarrow> Product \<Rightarrow> bool" where
  "HasProduct p product \<longleftrightarrow> IsPlatformStaff p \<or> Access p product \<noteq> None"

definition RoleIn :: "Principal \<Rightarrow> Product \<Rightarrow> string" where
  "RoleIn p product = Role (accessIn p product)"

definition CompanyHasFeature :: "Principal \<Rightarrow> Product \<Rightarrow> string \<Rightarrow> bool" where
  "CompanyHasFeature p product feature \<longleftrightarrow>
     IsPlatformStaff p \<or> feature \<in> set (Features (accessIn p product))"

definition GrantableFrom :: "Product \<Rightarrow> string list \<Rightarrow> PermissionSpec list" where
  "GrantableFrom product held =
     filter (\<lambda>spec. Feature spec = [] \<or> Feature spec \<in> set held) (map snd (CatalogFor product))"

definition GrantablePermissions :: "Principal \<Rightarrow> Product \<Rightarrow> PermissionSpec list" where
  "GrantablePermissions p product =
     (if IsPlatformStaff p then GrantableFrom product (FeaturesFor product)
      else (case Access p product of None \<Rightarrow> [] | Some access \<Rightarrow> GrantableFrom product (Features access)))"

text \<open>
  The product of the service is a variable set at most once, at start-up; nothing in this service
  sets it, so it stays \<^verbatim>\<open>tms\<close>.
\<close>

definition serviceProduct :: Product where
  "serviceProduct = ProductTMS"

definition HasModule :: "Principal \<Rightarrow> string \<Rightarrow> string \<Rightarrow> bool" where
  "HasModule p mdl action \<longleftrightarrow> HasPermission p serviceProduct (mdl @ ''.'' @ action)"

definition RoleOf :: "Principal \<Rightarrow> string" where
  "RoleOf p = RoleIn p serviceProduct"

definition HasRole :: "Principal \<Rightarrow> string list \<Rightarrow> bool" where
  "HasRole p roles \<longleftrightarrow>
     (if IsPlatformStaff p then True
      else (let role = RoleIn p serviceProduct
            in if role = [] then False else role \<in> set roles))"

section \<open>The catalogues are sound\<close>

text \<open>An entry under its own key, gated by nothing or by an entitlement that can be sold.\<close>

definition soundEntry :: "Product \<Rightarrow> string \<times> PermissionSpec \<Rightarrow> bool" where
  "soundEntry product e \<longleftrightarrow>
     Key (snd e) = fst e \<and> Label (snd e) \<noteq> [] \<and> Contains (fst e) ''.'' \<and>
     (Feature (snd e) = [] \<or> IsSellableFeature product (Feature (snd e)))"

lemma catalogues_distinct: "distinct (map fst tmsCatalog)" "distinct (map fst fmsCatalog)"
  by (simp add: tmsCatalog_def) (simp add: fmsCatalog_def)

lemma catalogues_gated:
  "list_all (soundEntry ProductTMS) tmsCatalog" "list_all (soundEntry ProductFMS) fmsCatalog"
  by (simp add: tmsCatalog_def soundEntry_def, code_simp) (simp add: fmsCatalog_def soundEntry_def, code_simp)

lemma catalogs_distinct: "distinct (map fst (catalogs product))"
  by (simp add: catalogs_def catalogues_distinct)

lemma catalogs_keys: "(k, s) \<in> set (catalogs product) \<Longrightarrow> Key s = k"
  using catalogues_gated by (auto simp: catalogs_def list_all_iff soundEntry_def split: if_splits)

text \<open>In both catalogues the keys are distinct, every entry stands under its own key, and
  every entitlement that gates a permission is one a company of that product can be granted: no
  permission is dead. What a new company gets is sellable and leaves out the entitlements sold
  separately.\<close>

theorem catalogues_are_sound:
  "distinct (map fst (catalogs product)) \<and> list_all (soundEntry product) (catalogs product) \<and>
   list_all (IsSellableFeature ProductTMS) DefaultTMSFeatures \<and>
   list_all (\<lambda>f. Name f \<notin> set DefaultTMSFeatures) sharedFeatures"
proof -
  have "list_all (IsSellableFeature ProductTMS) DefaultTMSFeatures"
    "list_all (\<lambda>f. Name f \<notin> set DefaultTMSFeatures) sharedFeatures"
    by code_simp+
  then show ?thesis using catalogues_gated catalogs_distinct by (simp add: catalogs_def)
qed

section \<open>What may be granted and what is allowed\<close>

lemma FeatureFor_catalog:
  "FeatureFor product key = (f, True) \<longleftrightarrow> (\<exists>s. map_of (catalogs product) key = Some s \<and> Feature s = f)"
  "snd (FeatureFor product key) \<longleftrightarrow> IsKnownPermission product key"
  by (auto simp: FeatureFor_def IsKnownPermission_def split: option.splits)

lemma HasPermission_iff:
  "HasPermission p product key \<longleftrightarrow> IsPlatformStaff p \<or>
     (\<exists>a s. Access p product = Some a \<and> (GrantsAll a \<or> key \<in> set (Permissions a)) \<and>
        map_of (catalogs product) key = Some s \<and> (Feature s = [] \<or> Feature s \<in> set (Features a)))"
  by (auto simp: HasPermission_def FeatureFor_def split: option.splits)

lemma set_featureLoop: "set (featureLoop out specs) = set out \<union> (Feature ` set specs - {[]})"
  by (induction out specs rule: featureLoop.induct) auto

lemma GrantableFrom_keys:
  "key \<in> Key ` set (GrantableFrom product held) \<longleftrightarrow>
     (\<exists>s. map_of (catalogs product) key = Some s \<and> (Feature s = [] \<or> Feature s \<in> set held))"
proof
  assume "key \<in> Key ` set (GrantableFrom product held)"
  then obtain s where s: "s \<in> snd ` set (catalogs product)" "Key s = key" "Feature s = [] \<or> Feature s \<in> set held"
    by (auto simp: GrantableFrom_def CatalogFor_def)
  then have "(key, s) \<in> set (catalogs product)" using catalogs_keys by fastforce
  then show "\<exists>s. map_of (catalogs product) key = Some s \<and> (Feature s = [] \<or> Feature s \<in> set held)"
    using s map_of_is_SomeI [OF catalogs_distinct] by blast
next
  assume "\<exists>s. map_of (catalogs product) key = Some s \<and> (Feature s = [] \<or> Feature s \<in> set held)"
  then obtain s where s: "(key, s) \<in> set (catalogs product)" "Feature s = [] \<or> Feature s \<in> set held"
    using map_of_SomeD by fastforce
  then show "key \<in> Key ` set (GrantableFrom product held)"
    using catalogs_keys by (force simp: GrantableFrom_def CatalogFor_def)
qed

text \<open>The same person under a role that grants everything the company bought.\<close>

definition asAdministrator :: "Product \<Rightarrow> Principal \<Rightarrow> Principal" where
  "asAdministrator product p =
     p\<lparr>Access := (Access p)(product := map_option (\<lambda>a. a\<lparr>GrantsAll := True\<rparr>) (Access p product))\<rparr>"

text \<open>C27. What the permission editor offers and what the guard lets through agree: a company's
  administrator may be offered exactly the permissions an administrator role has, whatever else a
  colleague holds is among them, and Karlo staff are offered the whole catalogue.\<close>

theorem grantable_agrees_with_allowed:
  "(key \<in> Key ` set (GrantablePermissions p product)) =
     (if IsPlatformStaff p then IsKnownPermission product key
      else HasPermission (asAdministrator product p) product key) \<and>
   {k. HasPermission p product k \<and> \<not> IsPlatformStaff p} \<subseteq> Key ` set (GrantablePermissions p product)"
proof -
  have all: "key \<in> Key ` set (GrantableFrom product (FeaturesFor product)) \<longleftrightarrow> IsKnownPermission product key" for key
    unfolding GrantableFrom_keys IsKnownPermission_def
    by (auto simp: FeaturesFor_def set_featureLoop) (force dest: map_of_SomeD)
  show ?thesis
  proof (cases "\<not> IsPlatformStaff p \<and> Access p product \<noteq> None")
    case True
    then obtain a where a: "Access p product = Some a" "\<not> IsPlatformStaff p" by blast
    then have "GrantablePermissions p product = GrantableFrom product (Features a)"
      by (simp add: GrantablePermissions_def)
    then show ?thesis using a
      by (simp add: GrantableFrom_keys subset_iff HasPermission_iff asAdministrator_def)
  next
    case False
    then show ?thesis
      using all by (auto simp: GrantablePermissions_def HasPermission_iff asAdministrator_def)
  qed
qed

definition withdraw :: "Product \<Rightarrow> string \<Rightarrow> Principal \<Rightarrow> Principal" where
  "withdraw product feature p =
     p\<lparr>Access := (Access p)(product := map_option (\<lambda>a. a\<lparr>Features := removeAll feature (Features a)\<rparr>) (Access p product))\<rparr>"

text \<open>Withdrawing an entitlement from a company takes away exactly the permissions of that
  product it gates, administrator or not, and nothing from Karlo staff or in another product.\<close>

theorem withdrawn_entitlement_stops_working:
  assumes "feature \<noteq> []"
  shows "HasPermission (withdraw product feature p) q key \<longleftrightarrow> HasPermission p q key \<and>
    (IsPlatformStaff p \<or> q \<noteq> product \<or> FeatureFor product key \<noteq> (feature, True))"
  using assms by (auto simp: HasPermission_iff withdraw_def FeatureFor_catalog)

lemma withdrawn_entitlement_stops_working_witness:
  "\<not> HasPermission (withdraw ProductFMS ''live''
      \<lparr>UserID = ''u'', CompanyID = ''c'', IsPlatformStaff = False,
       Access = [ProductFMS \<mapsto> \<lparr>Role = ''admin'', Permissions = [], Features = [''live''], GrantsAll = True\<rparr>],
       SingleDevice = False, TokenID = []\<rparr>) ProductFMS ''fuel.view''"
proof -
  have "FeatureFor ProductFMS ''fuel.view'' = (''live'', True)" by code_simp
  then show ?thesis using withdrawn_entitlement_stops_working [of "''live''"] by simp
qed

end
