(* ===== verification/Revocation.thy ===== *)
theory Revocation
  imports Prelude "HOL-Library.AList"
begin

text \<open>
  Session revocation (\<^verbatim>\<open>internal/platform/revocation\<close>): the list of revocations every
  service keeps in memory, the durable copy in Redis, and the loop that keeps the first in step
  with the second. Redis is a parameter (\<open>Redis\<close>), of which nothing is assumed: what is proved
  of the list holds whatever the copy returns, as long as it still holds the revocation. A payload is
  the event it decodes to, \<open>None\<close> for one that cannot be decoded.
\<close>

section \<open>Events and the list\<close>

definition KindSession :: string where "KindSession = ''session''"
definition KindUser :: string where "KindUser = ''user''"
definition KindCompany :: string where "KindCompany = ''company''"

lemmas kind_defs = KindSession_def KindUser_def KindCompany_def

record Event =
  Kind :: string
  ID :: string
  At :: Time

record RevocationList =
  sessions :: "string \<rightharpoonup> Time"
  users :: "string \<rightharpoonup> Time"
  companies :: "string \<rightharpoonup> Time"
  degraded :: bool

definition NewList :: RevocationList where
  "NewList = \<lparr>sessions = Map.empty, users = Map.empty, companies = Map.empty, degraded = False\<rparr>"

definition before :: "Time \<Rightarrow> Time option \<Rightarrow> bool" where
  "before issuedAt cutoff = (case cutoff of None \<Rightarrow> False | Some t \<Rightarrow> issuedAt < t)"

definition Revoked :: "RevocationList \<Rightarrow> string \<Rightarrow> string \<Rightarrow> string \<Rightarrow> Time \<Rightarrow> bool" where
  "Revoked l sessionID userID companyID issuedAt \<longleftrightarrow>
     (if sessionID \<noteq> [] \<and> sessions l sessionID \<noteq> None then True
      else if userID \<noteq> [] \<and> before issuedAt (users l userID) then True
      else if companyID \<noteq> [] \<and> before issuedAt (companies l companyID) then True
      else False)"

definition keepLater :: "string \<Rightarrow> Time \<Rightarrow> (string \<rightharpoonup> Time) \<Rightarrow> string \<rightharpoonup> Time" where
  "keepLater i t m = (case m i of None \<Rightarrow> m(i \<mapsto> t) | Some cur \<Rightarrow> if cur < t then m(i \<mapsto> t) else m)"

definition Apply :: "Event \<Rightarrow> RevocationList \<Rightarrow> RevocationList" where
  "Apply e l =
     (if Kind e = KindSession then l\<lparr>sessions := (sessions l)(ID e \<mapsto> At e)\<rparr>
      else if Kind e = KindUser then l\<lparr>users := keepLater (ID e) (At e) (users l)\<rparr>
      else if Kind e = KindCompany then l\<lparr>companies := keepLater (ID e) (At e) (companies l)\<rparr>
      else l)"

definition Replace :: "Event list \<Rightarrow> RevocationList \<Rightarrow> RevocationList" where
  "Replace events l =
     (let fresh = fold Apply events NewList
      in l\<lparr>sessions := sessions fresh, users := users fresh, companies := companies fresh, degraded := False\<rparr>)"

definition notBefore :: "Time \<Rightarrow> (string \<rightharpoonup> Time) \<Rightarrow> string \<rightharpoonup> Time" where
  "notBefore cutoff m = (\<lambda>i. case m i of None \<Rightarrow> None | Some t \<Rightarrow> if t < cutoff then None else Some t)"

definition Prune :: "Time \<Rightarrow> Time \<Rightarrow> RevocationList \<Rightarrow> RevocationList" where
  "Prune maxTokenLife now l =
     (let cutoff = now - maxTokenLife
      in l\<lparr>sessions := notBefore cutoff (sessions l), users := notBefore cutoff (users l),
           companies := notBefore cutoff (companies l)\<rparr>)"

definition MarkDegraded :: "RevocationList \<Rightarrow> RevocationList" where
  "MarkDegraded l = l\<lparr>degraded := True\<rparr>"

definition Degraded :: "RevocationList \<Rightarrow> bool" where
  "Degraded l = degraded l"

definition Decode :: "Time \<Rightarrow> Event option \<Rightarrow> Event option" where
  "Decode now b =
     (case b of None \<Rightarrow> None
      | Some e \<Rightarrow> if Kind e = [] \<or> ID e = [] then None
                  else Some (if At e = zeroTime then e\<lparr>At := now\<rparr> else e))"

section \<open>The durable copy\<close>

record 'w Redis =
  SetKey :: "string \<Rightarrow> Event option \<Rightarrow> Time \<Rightarrow> 'w \<Rightarrow> bool \<times> 'w"
  PublishOn :: "string \<Rightarrow> Event option \<Rightarrow> 'w \<Rightarrow> bool \<times> 'w"
  Scan :: "nat \<Rightarrow> 'w \<Rightarrow> (string list \<times> nat) option \<times> 'w"
  GetKey :: "string \<Rightarrow> 'w \<Rightarrow> Event option option \<times> 'w"
  ClockNow :: "'w \<Rightarrow> Time \<times> 'w"

definition Channel :: string where "Channel = ''karlo:revocations''"
definition keyPrefix :: string where "keyPrefix = ''revoked:''"

definition key :: "Event \<Rightarrow> string" where
  "key e = keyPrefix @ Kind e @ '':'' @ ID e"

definition NewStore :: "Time \<Rightarrow> Time" where
  "NewStore maxTokenLife = (if maxTokenLife \<le> 0 then 2 * 60 * 60 * 1000 else maxTokenLife)"

text \<open>Recording, then announcing; a failed announcement is not an error.\<close>

definition Publish :: "'w Redis \<Rightarrow> Time \<Rightarrow> Event \<Rightarrow> 'w \<Rightarrow> bool \<times> 'w" where
  "Publish R maxTokenLife e w =
     (let (now, w) = (if At e = zeroTime then ClockNow R w else (At e, w));
          e = e\<lparr>At := now\<rparr>;
          (recorded, w) = SetKey R (key e) (Some e) maxTokenLife w
      in if \<not> recorded then (False, w)
         else (let (announced, w) = PublishOn R Channel (Some e) w in (True, w)))"

fun readKeys :: "'w Redis \<Rightarrow> string list \<Rightarrow> Event list \<Rightarrow> 'w \<Rightarrow> Event list \<times> 'w" where
  "readKeys R [] events w = (events, w)"
| "readKeys R (k # ks) events w =
     (let (raw, w) = GetKey R k w
      in case raw of
           None \<Rightarrow> readKeys R ks events w
         | Some b \<Rightarrow>
             (let (now, w) = ClockNow R w
              in case Decode now b of
                   None \<Rightarrow> readKeys R ks events w
                 | Some e \<Rightarrow> readKeys R ks (events @ [e]) w))"

text \<open>The scan loop, with fuel for its rounds: \<open>None\<close> when the fuel is spent.\<close>

fun scanLoop :: "'w Redis \<Rightarrow> nat \<Rightarrow> nat \<Rightarrow> Event list \<Rightarrow> 'w \<Rightarrow> (Event list option \<times> 'w) option" where
  "scanLoop R 0 cursor events w = None"
| "scanLoop R (Suc fuel) cursor events w =
     (case Scan R cursor w of
        (None, w) \<Rightarrow> Some (None, w)
      | (Some (ks, next'), w) \<Rightarrow>
          (let (events, w) = readKeys R ks events w
           in if next' = 0 then Some (Some events, w)
              else scanLoop R fuel next' events w))"

definition All :: "'w Redis \<Rightarrow> nat \<Rightarrow> 'w \<Rightarrow> (Event list option \<times> 'w) option" where
  "All R fuel w = scanLoop R fuel 0 [] w"

definition resync :: "'w Redis \<Rightarrow> nat \<Rightarrow> RevocationList \<Rightarrow> 'w \<Rightarrow> (RevocationList \<times> 'w) option" where
  "resync R fuel l w =
     (case All R fuel w of
        None \<Rightarrow> None
      | Some (None, w) \<Rightarrow> Some (MarkDegraded l, w)
      | Some (Some events, w) \<Rightarrow> Some (Replace events l, w))"

text \<open>What wakes the watching loop up, and what it then does to the list.\<close>

datatype Wake = Message "Event option" | SubscriptionClosed | ResyncTick | PruneTick

definition watchStep :: "'w Redis \<Rightarrow> Time \<Rightarrow> nat \<Rightarrow> Wake \<Rightarrow> RevocationList \<Rightarrow> 'w \<Rightarrow> (RevocationList \<times> 'w) option" where
  "watchStep R maxTokenLife fuel wake l w =
     (case wake of
        SubscriptionClosed \<Rightarrow> resync R fuel (MarkDegraded l) w
      | Message b \<Rightarrow>
          (let (now, w) = ClockNow R w
           in Some (case Decode now b of None \<Rightarrow> l | Some e \<Rightarrow> Apply e l, w))
      | ResyncTick \<Rightarrow> resync R fuel l w
      | PruneTick \<Rightarrow> (let (now, w) = ClockNow R w in Some (Prune maxTokenLife now l, w)))"

section \<open>A revocation outlives the tokens it refuses\<close>

text \<open>The entries of the kind an event is of, and the id of a token that event is about.\<close>

definition entries :: "string \<Rightarrow> RevocationList \<Rightarrow> string \<rightharpoonup> Time" where
  "entries kind l = (if kind = KindSession then sessions l else if kind = KindUser then users l
     else if kind = KindCompany then companies l else Map.empty)"

definition about :: "Event \<Rightarrow> string \<Rightarrow> string \<Rightarrow> string \<Rightarrow> bool" where
  "about e sessionID userID companyID \<longleftrightarrow> ID e \<noteq> [] \<and>
     (Kind e = KindSession \<and> sessionID = ID e \<or> Kind e = KindUser \<and> userID = ID e \<or>
      Kind e = KindCompany \<and> companyID = ID e)"

text \<open>What may happen to a list after a revocation.\<close>

datatype Change = Applied Event | Pruned Time | Replaced "Event list" | Unreachable

fun change :: "Time \<Rightarrow> Change \<Rightarrow> RevocationList \<Rightarrow> RevocationList" where
  "change life (Applied e) l = Apply e l"
| "change life (Pruned now) l = Prune life now l"
| "change life (Replaced events) l = Replace events l"
| "change life Unreachable l = MarkDegraded l"

text \<open>
  Changes up to a moment that do not lose the revocation: pruning by the clock, resyncs from a
  copy that still holds it, announcements that do not move the end of a session backwards.
\<close>

fun harmless :: "Event \<Rightarrow> Time \<Rightarrow> Change \<Rightarrow> bool" where
  "harmless e now (Applied e') = (Kind e = KindSession \<and> Kind e' = KindSession \<and> ID e' = ID e \<longrightarrow> At e \<le> At e')"
| "harmless e now (Pruned t) = (t \<le> now)"
| "harmless e now (Replaced es) =
     (list_ex (\<lambda>e'. Kind e' = Kind e \<and> ID e' = ID e \<and> At e \<le> At e') es \<and>
      list_all (\<lambda>e'. Kind e = KindSession \<and> Kind e' = KindSession \<and> ID e' = ID e \<longrightarrow> At e \<le> At e') es)"
| "harmless e now Unreachable = True"

definition kept :: "Event \<Rightarrow> RevocationList \<Rightarrow> bool" where
  "kept e l \<longleftrightarrow> (\<exists>t. entries (Kind e) l (ID e) = Some t \<and> At e \<le> t)"

lemma entries_simps [simp]:
  "entries k (Replace es l) = entries k (fold Apply es NewList)"
  "entries k (MarkDegraded l) = entries k l"
  "entries k (Prune life now l) = notBefore (now - life) (entries k l)"
  by (simp_all add: entries_def Replace_def MarkDegraded_def Prune_def notBefore_def Let_def)

lemma Revoked_iff:
  "Revoked l s u c iat \<longleftrightarrow> s \<noteq> [] \<and> sessions l s \<noteq> None \<or> u \<noteq> [] \<and> before iat (users l u) \<or>
     c \<noteq> [] \<and> before iat (companies l c)"
  by (simp add: Revoked_def)

lemma keepLater_later: "\<exists>t'. keepLater i t m i = Some t' \<and> t \<le> t'"
  by (auto simp: keepLater_def split: option.splits)

lemma keepLater_keeps: "m i = Some t \<Longrightarrow> \<exists>t'. keepLater j s m i = Some t' \<and> t \<le> t'"
  by (auto simp: keepLater_def split: option.splits)

lemma kept_Apply: "Kind e \<in> {KindSession, KindUser, KindCompany} \<Longrightarrow> kept e (Apply e l)"
  using keepLater_later [of "ID e" "At e"]
  by (auto simp: kept_def entries_def Apply_def kind_defs)

lemma kept_applied: "kept e l \<Longrightarrow> harmless e now (Applied e') \<Longrightarrow> kept e (Apply e' l)"
  using keepLater_keeps [where j = "ID e'" and s = "At e'"]
  by (auto simp: kept_def entries_def Apply_def kind_defs split: if_splits)
    (meson order_trans)+

lemma kept_fold:
  "kept e l \<Longrightarrow> list_all (\<lambda>e'. harmless e now (Applied e')) es \<Longrightarrow> kept e (fold Apply es l)"
proof (induction es arbitrary: l)
  case (Cons a es)
  then have "kept e (Apply a l)" using kept_applied [of e l now a] by simp
  then show ?case using Cons by simp
qed simp

lemma kept_replaced:
  assumes "harmless e now (Replaced es)" and k: "Kind e \<in> {KindSession, KindUser, KindCompany}"
  shows "kept e (Replace es l)"
proof -
  obtain e' where e': "e' \<in> set es" "Kind e' = Kind e" "ID e' = ID e" "At e \<le> At e'"
    using assms(1) by (auto simp: list_ex_iff)
  then obtain xs ys where es: "es = xs @ e' # ys" by (meson split_list)
  have "kept e' (Apply e' (fold Apply xs NewList))" by (rule kept_Apply) (use k e' in simp)
  then have "kept e (Apply e' (fold Apply xs NewList))" using e' by (auto simp: kept_def)
  then have "kept e (fold Apply es NewList)"
    unfolding es fold_append fold_simps comp_apply using assms(1) es
    by (intro kept_fold [where now = now]) (auto simp: list_all_iff)
  then show ?thesis by (simp add: kept_def)
qed

lemma kept_change:
  assumes "kept e l" "harmless e now c" "Kind e \<in> {KindSession, KindUser, KindCompany}" "now \<le> At e + life"
  shows "kept e (change life c l)"
proof (cases c)
  case (Pruned t)
  then show ?thesis using assms
    by (auto simp: kept_def notBefore_def)
next
  case (Applied e')
  then show ?thesis using kept_applied [of e l now e'] assms by simp
next
  case (Replaced es)
  then show ?thesis using kept_replaced [of e now es] assms by simp
next
  case Unreachable
  then show ?thesis using assms(1) by (simp add: kept_def)
qed

lemma kept_changes:
  "kept e l \<Longrightarrow> list_all (harmless e now) cs \<Longrightarrow> Kind e \<in> {KindSession, KindUser, KindCompany} \<Longrightarrow>
     now \<le> At e + life \<Longrightarrow> kept e (fold (change life) cs l)"
  by (induction cs arbitrary: l) (auto intro: kept_change)

lemma kept_refuses: "kept e l \<Longrightarrow> about e s u c \<Longrightarrow> iat < At e \<Longrightarrow> Revoked l s u c iat"
  by (auto simp: kept_def about_def entries_def Revoked_iff before_def kind_defs split: if_splits)

text \<open>
  As long as a token may live, a list that was told of the revocation refuses it, through prunes,
  resyncs and outages.
\<close>

lemma revocation_outlives_token:
  assumes "about e s u c" "iat < At e" "now \<le> iat + life" "list_all (harmless e now) cs"
  shows "Revoked (fold (change life) cs (Apply e l)) s u c iat"
proof (rule kept_refuses [OF _ assms(1,2)])
  have k: "Kind e \<in> {KindSession, KindUser, KindCompany}" using assms(1) by (auto simp: about_def)
  then show "kept e (fold (change life) cs (Apply e l))"
    using assms(2,3) by (intro kept_changes [OF kept_Apply assms(4)]) auto
qed

text \<open>A token minted after the cutoff is not refused by it.\<close>

lemma fresh_login_works:
  assumes "Kind e \<noteq> KindSession" "At e \<le> iat" "\<not> Revoked l s u c iat"
  shows "\<not> Revoked (Apply e l) s u c iat"
  using assms
  by (auto simp: Revoked_iff Apply_def before_def keepLater_def kind_defs split: option.splits if_splits)

section \<open>The durable copy can move a cutoff back\<close>

text \<open>An executable Redis: the keys with their payloads, scanned in one round.\<close>

record RedisWorld =
  stored :: "(string \<times> Event option) list"
  redisClock :: Time

definition memRedis :: "RedisWorld Redis" where
  "memRedis =
     \<lparr>SetKey = (\<lambda>k b ttl w. (True, w\<lparr>stored := AList.update k b (stored w)\<rparr>)),
      PublishOn = (\<lambda>ch b w. (True, w)),
      Scan = (\<lambda>c w. (Some (map fst (stored w), 0), w)),
      GetKey = (\<lambda>k w. (map_of (stored w) k, w)),
      ClockNow = (\<lambda>w. (redisClock w, w))\<rparr>"

text \<open>
  In memory the later of two cutoffs stands. The durable copy keeps one entry per person and the
  last one published stands, so an earlier cutoff published later narrows the later one at the next
  resync: a token issued between the two is accepted again.
\<close>

theorem resync_may_move_a_cutoff_back:
  "let late = \<lparr>Kind = KindUser, ID = ''u'', At = 100\<rparr>; early = \<lparr>Kind = KindUser, ID = ''u'', At = 50\<rparr>;
       w = snd (Publish memRedis 1000 early (snd (Publish memRedis 1000 late \<lparr>stored = [], redisClock = 120\<rparr>)));
       l = Apply early (Apply late NewList)
   in Revoked l [] ''u'' [] 70 \<and>
      (\<exists>l' w'. resync memRedis 1 l w = Some (l', w') \<and> \<not> Revoked l' [] ''u'' [] 70)"
  by (simp add: Let_def Publish_def memRedis_def resync_def All_def Decode_def zeroTime_def Replace_def
      Apply_def NewList_def keepLater_def Revoked_iff before_def kind_defs key_def keyPrefix_def)

text \<open>Where nothing earlier is published after it, the copy brings the revocation back at every resync.\<close>

lemma resync_restores:
  assumes "All R fuel w = Some (Some es, w')" "e \<in> set es" "about e s u c" "iat < At e"
    and "list_all (\<lambda>e'. Kind e = KindSession \<and> Kind e' = KindSession \<and> ID e' = ID e \<longrightarrow> At e \<le> At e') es"
  shows "\<exists>l'. resync R fuel l w = Some (l', w') \<and> Revoked l' s u c iat"
proof -
  have "kept e (Replace es l)"
    by (rule kept_replaced [where now = 0]) (use assms(2,3,5) in \<open>auto simp: list_ex_iff about_def\<close>)
  then show ?thesis using kept_refuses [OF _ assms(3,4)] by (simp add: resync_def assms(1))
qed

end
