(* ===== verification/Gate.thy ===== *)
theory Gate
  imports Access Revocation
begin

text \<open>
  The door of the service: what a request has to show before a handler runs. Authentication and the
  guards of \<^verbatim>\<open>internal/platform/authctx/middleware.go\<close>, the interceptor of
  \<^verbatim>\<open>grpc.go\<close>, and the table of \<^verbatim>\<open>internal/routes/routes.go\<close>. Checking a token's
  signature, algorithm, issuer and expiry is the JWT library's, a parameter that is told which to
  accept; what \<open>ParseClaims\<close> makes of it under the service's key is the \<open>parse\<close> of the
  operations below. Asking the authentication service is a call (\<open>remote\<close>), a parameter too.
\<close>

section \<open>Tokens\<close>

record Claims =
  User :: Principal
  IssuedAt :: "Time option"

text \<open>What the library is asked to insist on, and \<^verbatim>\<open>ParseClaims\<close>: the library's own
  answer is the claims and whether the token is valid.\<close>

record ParserOptions =
  ValidMethods :: "string list"
  ExpectedIssuer :: string
  ExpirationRequired :: bool

type_synonym TokenParser = "ParserOptions \<Rightarrow> string \<Rightarrow> (Claims \<times> bool) option"

definition Issuer :: string where "Issuer = ''karlo-authentication-service''"

definition ParseClaims :: "TokenParser \<Rightarrow> string \<Rightarrow> Claims option" where
  "ParseClaims jwt token =
     (case jwt \<lparr>ValidMethods = [''RS256''], ExpectedIssuer = Issuer, ExpirationRequired = True\<rparr> token of
        None \<Rightarrow> None
      | Some (claims, valid) \<Rightarrow> if valid then Some claims else None)"

definition Verify :: "(string \<Rightarrow> Claims option) \<Rightarrow> string \<Rightarrow> Principal option" where
  "Verify parse token =
     (case parse token of None \<Rightarrow> None
      | Some claims \<Rightarrow> if UserID (User claims) = [] then None else Some (User claims))"

definition VerifyWithIssuedAt :: "(string \<Rightarrow> Claims option) \<Rightarrow> string \<Rightarrow> (Principal \<times> Time) option" where
  "VerifyWithIssuedAt parse token =
     (case parse token of None \<Rightarrow> None
      | Some claims \<Rightarrow>
          if UserID (User claims) = [] then None
          else Some (User claims, case IssuedAt claims of None \<Rightarrow> zeroTime | Some t \<Rightarrow> t))"

text \<open>The header, empty when absent, and the query parameter.\<close>

definition ExtractToken :: "string \<Rightarrow> string \<Rightarrow> string" where
  "ExtractToken auth queryToken =
     (if auth \<noteq> []
      then (if HasPrefix auth ''Bearer '' then TrimSpace (drop 7 auth) else TrimSpace auth)
      else queryToken)"

section \<open>Guards\<close>

text \<open>A request is aborted with a status and a message, or goes on, with a principal bound to it.\<close>

datatype 'a outcome = Aborted int string | Continues 'a

definition abort :: "string \<Rightarrow> 'a outcome" where
  "abort message = Aborted 401 message"

definition RequireAuthWithRevocations ::
  "(string \<Rightarrow> Claims option) \<Rightarrow> (string \<Rightarrow> Principal option) option \<Rightarrow>
   (string \<Rightarrow> string \<Rightarrow> string \<Rightarrow> Time \<Rightarrow> bool) option \<Rightarrow> string \<Rightarrow> Principal outcome" where
  "RequireAuthWithRevocations parse remote revoked token =
     (let confirm =
        (case remote of
           None \<Rightarrow> abort ''Silahkan untuk login ulang''
         | Some validate \<Rightarrow>
             (case validate token of
                None \<Rightarrow> abort (''Sesi Anda berakhir karena akun ini masuk di perangkat lain. '' @
                               ''Silakan login ulang. (Signed in on another device.)'')
              | Some p \<Rightarrow> Continues p))
      in if token = [] then abort ''No token provided.''
         else (case VerifyWithIssuedAt parse token of
                 None \<Rightarrow> confirm
               | Some (p, issuedAt) \<Rightarrow>
                   if SingleDevice p then confirm
                   else if (case revoked of None \<Rightarrow> False
                            | Some check \<Rightarrow> check (TokenID p) (UserID p) (CompanyID p) issuedAt)
                   then abort (''Akses Anda telah berubah. Silakan login ulang. '' @
                               ''(Your access changed; please sign in again.)'')
                   else Continues p))"

definition RequireAuth ::
  "(string \<Rightarrow> Claims option) \<Rightarrow> (string \<Rightarrow> Principal option) option \<Rightarrow> string \<Rightarrow> Principal outcome" where
  "RequireAuth parse remote token = RequireAuthWithRevocations parse remote None token"

definition accessDenied :: "'a outcome" where
  "accessDenied = Aborted 403 ''Access Denied''"

definition RequireRole :: "string list \<Rightarrow> Principal option \<Rightarrow> unit outcome" where
  "RequireRole roles caller =
     (case caller of None \<Rightarrow> abort ''No token provided.''
      | Some p \<Rightarrow> if HasRole p roles then Continues () else accessDenied)"

definition RequirePlatformStaff :: "Principal option \<Rightarrow> unit outcome" where
  "RequirePlatformStaff caller =
     (case caller of None \<Rightarrow> abort ''No token provided.''
      | Some p \<Rightarrow> if IsPlatformStaff p then Continues ()
                  else Aborted 403 ''This action is restricted to Karlo staff.'')"

definition RequireModule :: "string \<Rightarrow> Principal option \<Rightarrow> unit outcome" where
  "RequireModule permission caller =
     (case Cut permission ''.'' of (mdl, action, found) \<Rightarrow>
        if \<not> found then Aborted 500 ''malformed permission''
        else (case caller of None \<Rightarrow> abort ''No token provided.''
              | Some p \<Rightarrow> if HasModule p mdl action then Continues () else accessDenied))"

text \<open>
  The product and key of a qualified permission. Building the guard panics on a permission without
  its product: \<open>None\<close>.
\<close>

fun anyOfSpecs :: "string list \<Rightarrow> (Product \<times> string) list option" where
  "anyOfSpecs [] = Some []"
| "anyOfSpecs (p # ps) =
     (case Cut p '':'' of (product, k, found) \<Rightarrow>
        if \<not> found then None
        else map_option (\<lambda>specs. (product, k) # specs) (anyOfSpecs ps))"

definition RequireAnyOf :: "string list \<Rightarrow> (Principal option \<Rightarrow> unit outcome) option" where
  "RequireAnyOf permissions =
     map_option (\<lambda>specs caller.
       case caller of None \<Rightarrow> abort ''No token provided.''
       | Some p \<Rightarrow> if list_ex (\<lambda>(product, k). HasPermission p product k) specs then Continues ()
                   else accessDenied)
       (anyOfSpecs permissions)"

section \<open>Service-to-service calls\<close>

definition stripBearer :: "string \<Rightarrow> string" where
  "stripBearer s =
     (if length s > 7 \<and> (take 7 s = ''Bearer '' \<or> take 7 s = ''bearer '') then drop 7 s else s)"

definition isHealthCheck :: "string \<Rightarrow> bool" where
  "isHealthCheck method \<longleftrightarrow>
     method = ''/grpc.health.v1.Health/Check'' \<or> method = ''/grpc.health.v1.Health/Watch''"

definition hasAccepted :: "string list \<Rightarrow> string list \<Rightarrow> bool" where
  "hasAccepted got accepted = list_ex (\<lambda>g. g \<in> set accepted) got"

text \<open>
  The metadata of a call are its \<^verbatim>\<open>x-karlo-service-token\<close> and
  \<^verbatim>\<open>authorization\<close> values; \<open>None\<close> for a call without metadata. \<open>v\<close> is
  the verifier's check, absent when there is no verifier. A call that passes runs its handler with
  or without a principal.
\<close>

definition UnaryServerInterceptor ::
  "(string \<Rightarrow> Claims option) option \<Rightarrow> string list \<Rightarrow> string \<Rightarrow> (string list \<times> string list) option \<Rightarrow>
   Principal option outcome" where
  "UnaryServerInterceptor v acceptedServiceTokens method md =
     (let accepted = filter (\<lambda>t. t \<noteq> []) acceptedServiceTokens
      in if isHealthCheck method then Continues None
         else (case md of
                 None \<Rightarrow> Aborted 16 ''missing metadata''
               | Some (serviceTokens, userTokens) \<Rightarrow>
                   if accepted \<noteq> [] \<and> \<not> hasAccepted serviceTokens accepted
                   then Aborted 16 ''invalid service token''
                   else Continues
                     (case (userTokens, v) of
                        (raw # _, Some parse) \<Rightarrow> Verify parse (stripBearer raw)
                      | _ \<Rightarrow> None)))"

section \<open>The routes\<close>

datatype Guard = Module string | AnyOf "string list"

record Route =
  Method :: string
  Path :: string
  Guards :: Guard
  Handler :: string

abbreviation route :: "string \<Rightarrow> string \<Rightarrow> Guard \<Rightarrow> string \<Rightarrow> Route" where
  "route method path grd handler \<equiv>
     \<lparr>Method = method, Path = path, Guards = grd, Handler = handler\<rparr>"

text \<open>Everything under \<^verbatim>\<open>/api/v1\<close>; the health check and the API browser ask for nothing.\<close>

definition routes :: "Route list" where
  "routes =
    [
     route ''GET'' ''/catalog'' (Module ''masterData.read'') ''Catalog.Kinds'',
     route ''GET'' ''/catalog/:kind'' (Module ''masterData.read'') ''Catalog.List'',
     route ''GET'' ''/catalog/:kind/:id'' (Module ''masterData.read'') ''Catalog.Get'',
     route ''POST'' ''/catalog/:kind'' (Module ''masterData.create'') ''Catalog.Create'',
     route ''PUT'' ''/catalog/:kind/:id'' (Module ''masterData.update'') ''Catalog.Update'',
     route ''DELETE'' ''/catalog/:kind/:id'' (Module ''masterData.delete'') ''Catalog.Delete'',
     route ''GET'' ''/trucks'' (Module ''truck.read'') ''Fleet.ListTrucks'',
     route ''GET'' ''/trucks/:id'' (Module ''truck.read'') ''Fleet.GetTruck'',
     route ''GET'' ''/warehouses'' (Module ''warehouse.read'') ''Fleet.ListWarehouses'',
     route ''GET'' ''/warehouses/:id'' (Module ''warehouse.read'') ''Fleet.GetWarehouse'',
     route ''POST'' ''/warehouses'' (Module ''warehouse.create'') ''Fleet.CreateWarehouse'',
     route ''PUT'' ''/warehouses/:id'' (Module ''warehouse.update'') ''Fleet.UpdateWarehouse'',
     route ''DELETE'' ''/warehouses/:id'' (Module ''warehouse.delete'') ''Fleet.DeleteWarehouse'',
     route ''GET'' ''/drivers'' (AnyOf [''tms:masterData.read'', ''fms:drivers.view'']) ''Registry.ListDrivers'',
     route ''GET'' ''/drivers/:id'' (AnyOf [''tms:masterData.read'', ''fms:drivers.view'']) ''Registry.GetDriver'',
     route ''POST'' ''/drivers'' (AnyOf [''tms:masterData.create'', ''fms:drivers.edit'']) ''Registry.CreateDriver'',
     route ''PUT'' ''/drivers/:id'' (AnyOf [''tms:masterData.update'', ''fms:drivers.edit'']) ''Registry.UpdateDriver'',
     route ''DELETE'' ''/drivers/:id'' (AnyOf [''tms:masterData.delete'', ''fms:drivers.edit'']) ''Registry.DeleteDriver'',
     route ''GET'' ''/vehicles'' (AnyOf [''tms:truck.read'', ''fms:vehicles.view'']) ''Registry.ListVehicles'',
     route ''GET'' ''/vehicles/:id'' (AnyOf [''tms:truck.read'', ''fms:vehicles.view'']) ''Registry.GetVehicle'',
     route ''POST'' ''/vehicles'' (AnyOf [''tms:truck.create'', ''fms:vehicles.edit'']) ''Registry.CreateVehicle'',
     route ''PUT'' ''/vehicles/:id'' (AnyOf [''tms:truck.update'', ''fms:vehicles.edit'']) ''Registry.UpdateVehicle'',
     route ''DELETE'' ''/vehicles/:id'' (AnyOf [''tms:truck.delete'', ''fms:vehicles.edit'']) ''Registry.DeleteVehicle'',
     route ''GET'' ''/trackers'' (AnyOf [''tms:masterData.read'', ''fms:vehicles.view'', ''fms:dashcams.manage'']) ''Registry.ListTrackers'',
     route ''GET'' ''/trackers/:id'' (AnyOf [''tms:masterData.read'', ''fms:vehicles.view'', ''fms:dashcams.manage'']) ''Registry.GetTracker'',
     route ''GET'' ''/trackers/:id/assignments'' (AnyOf [''tms:masterData.read'', ''fms:vehicles.view'', ''fms:dashcams.manage'']) ''Registry.Assignments'',
     route ''POST'' ''/trackers'' (AnyOf [''tms:masterData.create'', ''fms:vehicles.edit'', ''fms:dashcams.manage'']) ''Registry.CreateTracker'',
     route ''PUT'' ''/trackers/:id'' (AnyOf [''tms:masterData.update'', ''fms:vehicles.edit'', ''fms:dashcams.manage'']) ''Registry.UpdateTracker'',
     route ''DELETE'' ''/trackers/:id'' (AnyOf [''tms:masterData.delete'', ''fms:vehicles.edit'', ''fms:dashcams.manage'']) ''Registry.DeleteTracker'',
     route ''POST'' ''/trackers/:id/fit'' (AnyOf [''tms:masterData.update'', ''fms:vehicles.edit'', ''fms:dashcams.manage'']) ''Registry.Fit'',
     route ''POST'' ''/trackers/:id/unfit'' (AnyOf [''tms:masterData.update'', ''fms:vehicles.edit'', ''fms:dashcams.manage'']) ''Registry.Unfit'',
     route ''GET'' ''/documents'' (AnyOf [''tms:truck.read'', ''fms:vehicles.view'', ''fms:drivers.view'']) ''Registry.ListDocuments'',
     route ''POST'' ''/documents'' (AnyOf [''tms:truck.update'', ''fms:vehicles.edit'', ''fms:drivers.edit'']) ''Registry.CreateDocument'',
     route ''PUT'' ''/documents/:id'' (AnyOf [''tms:truck.update'', ''fms:vehicles.edit'', ''fms:drivers.edit'']) ''Registry.UpdateDocument'',
     route ''DELETE'' ''/documents/:id'' (AnyOf [''tms:truck.update'', ''fms:vehicles.edit'', ''fms:drivers.edit'']) ''Registry.DeleteDocument'']"

definition guard :: "Guard \<Rightarrow> (Principal option \<Rightarrow> unit outcome) option" where
  "guard g = (case g of Module permission \<Rightarrow> Some (RequireModule permission) | AnyOf ps \<Rightarrow> RequireAnyOf ps)"

text \<open>A request on a route: authenticated, then guarded, then handed to its handler.\<close>

definition admit ::
  "(string \<Rightarrow> Claims option) \<Rightarrow> (string \<Rightarrow> Principal option) option \<Rightarrow> Route \<Rightarrow> string \<Rightarrow> string \<Rightarrow>
   Principal outcome option" where
  "admit parse remote r auth queryToken =
     map_option (\<lambda>check.
       case RequireAuth parse remote (ExtractToken auth queryToken) of
         Aborted code message \<Rightarrow> Aborted code message
       | Continues p \<Rightarrow>
           (case check (Some p) of Aborted code message \<Rightarrow> Aborted code message
            | Continues _ \<Rightarrow> Continues p))
       (guard (Guards r))"

section \<open>What a route asks for\<close>

definition asks :: "Guard \<Rightarrow> (Product \<times> string) list" where
  "asks g = (case g of Module permission \<Rightarrow> [(serviceProduct, permission)]
     | AnyOf ps \<Rightarrow> (case anyOfSpecs ps of None \<Rightarrow> [] | Some specs \<Rightarrow> specs))"

text \<open>A permission that only shows.\<close>

definition readOnly :: "string \<Rightarrow> bool" where
  "readOnly k \<longleftrightarrow> HasPrefix (rev k) (rev ''.read'') \<or> HasPrefix (rev k) (rev ''.view'')"

lemma Cut_found: "Cut s sep = (a, b, True) \<Longrightarrow> s = a @ sep @ b"
proof (induction s sep arbitrary: a rule: Cut.induct)
  case (2 c s sep)
  show ?case
  proof (cases "HasPrefix (c # s) sep")
    case True
    then have "c # s = sep @ drop (length sep) (c # s)" unfolding HasPrefix_def by (metis append_take_drop_id)
    then show ?thesis using 2 True by auto
  next
    case False
    then show ?thesis using 2 by (auto split: prod.splits)
  qed
qed (auto split: if_splits)

lemma RequireModule_continues:
  "RequireModule k (Some p) = Continues () \<longleftrightarrow> snd (snd (Cut k ''.'')) \<and> HasPermission p serviceProduct k"
proof -
  obtain a b f where c: "Cut k ''.'' = (a, b, f)" by (metis prod_cases3)
  then have "f \<Longrightarrow> k = a @ ''.'' @ b" using Cut_found [of k "''.''" a b] by simp
  with c show ?thesis by (auto simp: RequireModule_def HasModule_def accessDenied_def)
qed

lemma guard_continues:
  "guard g = Some check \<Longrightarrow> check (Some p) = Continues u \<Longrightarrow> list_ex (\<lambda>(q, k). HasPermission p q k) (asks g)"
  by (cases g) (auto simp: guard_def RequireAnyOf_def asks_def RequireModule_continues accessDenied_def
      split: if_splits)

lemma guard_refuses:
  "guard g = Some check \<Longrightarrow> \<not> list_ex (\<lambda>(q, k). HasPermission p q k) (asks g) \<Longrightarrow>
     (case g of Module k \<Rightarrow> snd (snd (Cut k ''.'')) | AnyOf _ \<Rightarrow> True) \<Longrightarrow>
     check (Some p) = Aborted 403 ''Access Denied''"
  by (cases g)
    (auto simp: guard_def RequireAnyOf_def asks_def RequireModule_def HasModule_def accessDenied_def
      dest!: Cut_found split: prod.splits)

lemma routes_checked:
  "list_all (\<lambda>r. guard (Guards r) \<noteq> None) routes"
  "list_all (\<lambda>r. case Guards r of Module k \<Rightarrow> snd (snd (Cut k ''.'')) | AnyOf _ \<Rightarrow> True) routes"
  "list_all (\<lambda>r. Method r = ''GET'' \<or> list_all (\<lambda>(q, k). \<not> readOnly k) (asks (Guards r))) routes"
  by code_simp+

text \<open>What the routes ask for, each permission once.\<close>

lemma asked_def: "remdups (concat (map (asks \<circ> Guards) routes)) =
  map (Pair ProductTMS) [''warehouse.read'', ''warehouse.create'', ''warehouse.update'', ''warehouse.delete'',
    ''truck.create'', ''truck.delete'', ''masterData.read'', ''masterData.create'', ''masterData.delete'', ''masterData.update''] @
  [(ProductFMS, ''dashcams.manage''), (ProductTMS, ''truck.read''), (ProductFMS, ''vehicles.view''),
   (ProductFMS, ''drivers.view''), (ProductTMS, ''truck.update''), (ProductFMS, ''vehicles.edit''), (ProductFMS, ''drivers.edit'')]"
  by code_simp

lemma asked_known: "list_all (\<lambda>(q, k). IsKnownPermission q k) (remdups (concat (map (asks \<circ> Guards) routes)))"
  unfolding asked_def by code_simp

text \<open>The table of routes is sound: no guard panics when it is built, no two routes are the same,
  and every permission a route asks for is one its product's catalogue knows and can grant.\<close>

theorem routes_ask_for_known_permissions:
  "list_all (\<lambda>r. guard (Guards r) \<noteq> None \<and> asks (Guards r) \<noteq> [] \<and>
     list_all (\<lambda>(q, k). IsKnownPermission q k) (asks (Guards r))) routes \<and>
   distinct (map (\<lambda>r. (Method r, Path r)) routes)"
proof -
  have "list_all (\<lambda>r. asks (Guards r) \<noteq> []) routes" by code_simp
  moreover have "distinct (map (\<lambda>r. (Method r, Path r)) routes)" by (simp add: routes_def)
  moreover have "list_all (\<lambda>r. list_all (\<lambda>(q, k). IsKnownPermission q k) (asks (Guards r))) routes"
    using asked_known by (fastforce simp: list_all_iff)
  ultimately show ?thesis using routes_checked(1) by (simp add: list_all_iff)
qed

section \<open>Who gets through the door\<close>

lemma RequireAuth_continues:
  "RequireAuthWithRevocations parse remote revoked token = Continues p \<longleftrightarrow> token \<noteq> [] \<and>
     (case VerifyWithIssuedAt parse token of
        Some (p', iat) \<Rightarrow>
          if SingleDevice p' then (\<exists>validate. remote = Some validate \<and> validate token = Some p)
          else p' = p \<and> \<not> (\<exists>check. revoked = Some check \<and> check (TokenID p) (UserID p) (CompanyID p) iat)
      | None \<Rightarrow> (\<exists>validate. remote = Some validate \<and> validate token = Some p))"
  by (auto simp: RequireAuthWithRevocations_def abort_def Let_def split: option.splits)

text \<open>The token vouches for the principal: it verifies here and is not bound to a device, or the
  authentication service confirms it.\<close>

definition vouched ::
  "(string \<Rightarrow> Claims option) \<Rightarrow> (string \<Rightarrow> Principal option) option \<Rightarrow> string \<Rightarrow> Principal \<Rightarrow> bool" where
  "vouched parse remote token p \<longleftrightarrow>
     (\<exists>c. parse token = Some c \<and> User c = p \<and> UserID p \<noteq> [] \<and> \<not> SingleDevice p) \<or>
     (\<exists>validate. remote = Some validate \<and> validate token = Some p)"

lemma RequireAuth_vouched:
  "RequireAuthWithRevocations parse remote revoked token = Continues p \<Longrightarrow> token \<noteq> [] \<and> vouched parse remote token p"
  unfolding RequireAuth_continues vouched_def
  by (auto simp: VerifyWithIssuedAt_def split: option.splits if_splits)

lemma admitted:
  assumes "admit parse remote r auth queryToken = Some (Continues p)"
  shows "vouched parse remote (ExtractToken auth queryToken) p \<and> ExtractToken auth queryToken \<noteq> [] \<and>
    (\<exists>(q, k) \<in> set (asks (Guards r)). HasPermission p q k)"
proof -
  obtain check where g: "guard (Guards r) = Some check"
    using assms by (auto simp: admit_def)
  with assms have auth: "RequireAuth parse remote (ExtractToken auth queryToken) = Continues p"
    and c: "\<exists>u. check (Some p) = Continues u"
    by (auto simp: admit_def split: outcome.splits)
  from c obtain u where "check (Some p) = Continues u" ..
  from guard_continues [OF g this] have "\<exists>(q, k) \<in> set (asks (Guards r)). HasPermission p q k"
    unfolding list_ex_iff .
  then show ?thesis using RequireAuth_vouched [OF auth [unfolded RequireAuth_def]] by blast
qed

text \<open>C24. A handler runs only for a request with a token that vouches for its principal, and a
  principal that holds one of the permissions the route asks for, in the product it asks for it: as
  Karlo staff, or granted and covered by an entitlement of the company.\<close>

theorem only_vouched_callers_reach_handlers:
  assumes "admit parse remote r auth queryToken = Some (Continues p)"
  shows "vouched parse remote (ExtractToken auth queryToken) p \<and> ExtractToken auth queryToken \<noteq> [] \<and>
    (\<exists>(q, k) \<in> set (asks (Guards r)). HasPermission p q k)"
  using admitted [OF assms] .

definition dispatcher :: Principal where
  "dispatcher = \<lparr>UserID = ''u1'', CompanyID = ''acme'', IsPlatformStaff = False,
     Access = [''tms'' \<mapsto> \<lparr>Role = ''planner'', Permissions = [''truck.read'', ''masterData.read''],
       Features = [''truck''], GrantsAll = False\<rparr>],
     SingleDevice = False, TokenID = ''t1''\<rparr>"

definition sampleParse :: "string \<Rightarrow> Claims option" where
  "sampleParse token = (if token = ''good'' then Some \<lparr>User = dispatcher, IssuedAt = Some 70\<rparr> else None)"

definition truckRoute :: Route where
  "truckRoute = route ''GET'' ''/trucks'' (Module ''truck.read'') ''Fleet.ListTrucks''"

lemma bearer_good: "ExtractToken ''Bearer good'' [] = ''good''" "stripBearer ''Bearer good'' = ''good''"
  by code_simp+

lemma dispatcher_reads: "HasPermission dispatcher serviceProduct ''truck.read''" "snd (snd (Cut ''truck.read'' ''.''))"
  by code_simp+

lemma dispatcher_authenticated: "RequireAuth sampleParse None (ExtractToken ''Bearer good'' []) = Continues dispatcher"
  unfolding bearer_good RequireAuth_def RequireAuth_continues
  by (simp add: VerifyWithIssuedAt_def sampleParse_def) (simp add: dispatcher_def)

lemma truck_admitted: "admit sampleParse None truckRoute ''Bearer good'' [] = Some (Continues dispatcher)"
proof -
  have "RequireModule ''truck.read'' (Some dispatcher) = Continues ()"
    unfolding RequireModule_continues by (intro conjI dispatcher_reads)
  then show ?thesis
    unfolding admit_def dispatcher_authenticated by (simp add: guard_def truckRoute_def)
qed

lemma only_vouched_callers_reach_handlers_witness:
  "vouched sampleParse None (ExtractToken ''Bearer good'' []) dispatcher \<and>
     (\<exists>(q, k) \<in> set (asks (Guards truckRoute)). HasPermission dispatcher q k)"
  using only_vouched_callers_reach_handlers [OF truck_admitted] by blast

text \<open>A caller who is not Karlo staff, has no role that grants everything and holds only
  permissions to view is refused by every route that changes anything.\<close>

theorem readers_change_nothing:
  assumes "r \<in> set routes" and "Method r \<noteq> ''GET''"
    and "RequireAuth parse remote (ExtractToken auth queryToken) = Continues p"
    and "\<not> IsPlatformStaff p"
    and "\<And>q a. Access p q = Some a \<Longrightarrow> \<not> GrantsAll a \<and> list_all readOnly (Permissions a)"
  shows "admit parse remote r auth queryToken = Some (Aborted 403 ''Access Denied'')"
proof -
  obtain check where g: "guard (Guards r) = Some check" using routes_checked(1) assms(1) by (auto simp: list_all_iff)
  have "\<not> HasPermission p q k" if "(q, k) \<in> set (asks (Guards r))" for q k
    using routes_checked(3) assms(1,2,4,5) that by (fastforce simp: list_all_iff HasPermission_iff)
  then have "check (Some p) = Aborted 403 ''Access Denied''"
    using routes_checked(2) assms(1) by (intro guard_refuses [OF g]) (auto simp: list_ex_iff list_all_iff)
  then show ?thesis by (simp add: admit_def g assms(3))
qed

definition deleteRoute :: Route where
  "deleteRoute = route ''DELETE'' ''/vehicles/:id'' (AnyOf [''tms:truck.delete'', ''fms:vehicles.edit'']) ''Registry.DeleteVehicle''"

lemma readers_change_nothing_witness:
  "admit sampleParse None deleteRoute ''Bearer good'' [] = Some (Aborted 403 ''Access Denied'')"
proof (rule readers_change_nothing)
  show "deleteRoute \<in> set routes" by code_simp
  show "RequireAuth sampleParse None (ExtractToken ''Bearer good'' []) = Continues dispatcher"
    by (rule dispatcher_authenticated)
  show "Method deleteRoute \<noteq> ''GET''" by (simp add: deleteRoute_def)
  show "\<not> IsPlatformStaff dispatcher" by (simp add: dispatcher_def)
  have "list_all readOnly [''truck.read'', ''masterData.read'']" by code_simp
  then show "\<not> GrantsAll a \<and> list_all readOnly (Permissions a)" if "Access dispatcher q = Some a" for q a
    using that by (auto simp: dispatcher_def split: if_splits)
qed

text \<open>C25. From the moment a revocation has reached the list, a token it is about, issued before
  it and not bound to a single device (those are checked by the authentication service on every call),
  is refused for as long as the token could live: through prunes of what is older, outages and resyncs
  from a copy that still holds the revocation or a later one, however many other revocations arrive,
  but for one of the same session with an earlier moment.\<close>

theorem revoked_tokens_are_refused:
  assumes "VerifyWithIssuedAt parse token = Some (p, iat)" and "\<not> SingleDevice p" and "token \<noteq> []"
    and "about e (TokenID p) (UserID p) (CompanyID p)" and "iat < At e" and "now \<le> iat + life"
    and "list_all (harmless e now) cs"
  shows "\<exists>message. RequireAuthWithRevocations parse remote
    (Some (Revoked (fold (change life) cs (Apply e l)))) token = Aborted 401 message"
  using revocation_outlives_token [OF assms(4-7), of l] assms(1-3)
  by (simp add: RequireAuthWithRevocations_def abort_def Let_def)

lemma revoked_tokens_are_refused_witness:
  "\<exists>message. RequireAuthWithRevocations sampleParse None
     (Some (Revoked (fold (change 1000) [Applied \<lparr>Kind = KindUser, ID = ''u1'', At = 50\<rparr>, Pruned 600, Unreachable]
        (Apply \<lparr>Kind = KindUser, ID = ''u1'', At = 100\<rparr> NewList)))) ''good'' = Aborted 401 message"
  by (rule revoked_tokens_are_refused [where p = dispatcher and iat = 70 and now = 600])
    (simp_all add: VerifyWithIssuedAt_def sampleParse_def dispatcher_def about_def kind_defs)

lemma interceptor_tokens:
  assumes "UnaryServerInterceptor v tokens method md = Continues caller"
    and "\<not> isHealthCheck method" and "t \<in> set tokens" and "t \<noteq> []"
  obtains s u where "md = Some (s, u)" "set s \<inter> set tokens - {[]} \<noteq> {}"
    "caller = (case (u, v) of (raw # _, Some parse) \<Rightarrow> Verify parse (stripBearer raw) | _ \<Rightarrow> None)"
proof -
  obtain s u where md: "md = Some (s, u)"
    using assms(1,2) by (auto simp: UnaryServerInterceptor_def Let_def split: option.splits)
  moreover have "filter (\<lambda>t. t \<noteq> []) tokens \<noteq> []" using assms(3,4) by (auto simp: filter_empty_conv)
  ultimately have h: "hasAccepted s (filter (\<lambda>t. t \<noteq> []) tokens)"
    and c: "caller = (case (u, v) of (raw # _, Some parse) \<Rightarrow> Verify parse (stripBearer raw) | _ \<Rightarrow> None)"
    using assms(1,2) by (auto simp: UnaryServerInterceptor_def Let_def split: if_splits)
  from h have "set s \<inter> set tokens - {[]} \<noteq> {}" by (auto simp: hasAccepted_def list_ex_iff)
  from that [OF md this c] show ?thesis .
qed

text \<open>C26. Where a service token is configured, a service-to-service call other than a health
  check reaches its handler only with one of the configured tokens, and it acts for a user only where
  the user's own token verifies.\<close>

theorem service_calls_need_a_token:
  assumes "UnaryServerInterceptor v tokens method md = Continues caller"
    and "\<not> isHealthCheck method" and "t \<in> set tokens" and "t \<noteq> []"
  shows "\<exists>serviceTokens userTokens. md = Some (serviceTokens, userTokens) \<and>
    set serviceTokens \<inter> set tokens - {[]} \<noteq> {} \<and>
    (\<forall>p. caller = Some p \<longrightarrow> (\<exists>parse raw c. v = Some parse \<and> hd userTokens = raw \<and> userTokens \<noteq> [] \<and>
       parse (stripBearer raw) = Some c \<and> User c = p \<and> UserID p \<noteq> []))"
proof -
  obtain s u where md: "md = Some (s, u)" and t: "set s \<inter> set tokens - {[]} \<noteq> {}"
    and c: "caller = (case (u, v) of (raw # _, Some parse) \<Rightarrow> Verify parse (stripBearer raw) | _ \<Rightarrow> None)"
    by (rule interceptor_tokens [OF assms])
  have "\<exists>parse raw c. v = Some parse \<and> hd u = raw \<and> u \<noteq> [] \<and>
       parse (stripBearer raw) = Some c \<and> User c = p \<and> UserID p \<noteq> []" if "caller = Some p" for p
    using c that by (auto simp: Verify_def split: list.splits option.splits if_splits)
  with md t show ?thesis by blast
qed

lemma service_calls_need_a_token_witness:
  "set [''s3cret''] \<inter> set [''s3cret''] - {[]} \<noteq> ({} :: string set)"
proof -
  have "UnaryServerInterceptor (Some sampleParse) [''s3cret''] ''/md/List'' (Some ([''s3cret''], [''Bearer good''])) =
      Continues (Some dispatcher)"
    by (simp add: UnaryServerInterceptor_def isHealthCheck_def hasAccepted_def bearer_good Verify_def sampleParse_def)
      (simp add: dispatcher_def)
  moreover have "\<not> isHealthCheck ''/md/List''" by code_simp
  ultimately show ?thesis using service_calls_need_a_token [of "Some sampleParse" "[''s3cret'']"] by fastforce
qed

end
