(* ===== verification/Digest.thy ===== *)
theory Digest
  imports Prelude
begin

text \<open>
  \<^verbatim>\<open>crypto/sha256\<close> and \<^verbatim>\<open>encoding/hex\<close> of the standard library, which
  \<^verbatim>\<open>cache.Fingerprint\<close> is made of: the SHA-256 hash of a byte string on 32-bit words
  (additions wrap), as FIPS 180-4 defines it, and hexadecimal text.
\<close>

unbundle bit_operations_syntax

section \<open>The compression function\<close>

type_synonym word32 = "32 word"

definition rotr :: "nat \<Rightarrow> word32 \<Rightarrow> word32" where
  "rotr k x = drop_bit k x OR push_bit (32 - k) x"

text \<open>
  The constants are the first 32 bits of the fractional parts of the roots of the first primes:
  \<open>rootBits k b n r\<close> finds the integer \<open>k\<close>-th root of \<open>n\<close> bit by bit from bit \<open>b\<close>.
\<close>

fun rootBits :: "nat \<Rightarrow> nat \<Rightarrow> int \<Rightarrow> int \<Rightarrow> int" where
  "rootBits k 0 n r = r"
| "rootBits k (Suc b) n r = rootBits k b n (if (r + 2 ^ b) ^ k \<le> n then r + 2 ^ b else r)"

definition rootFraction :: "nat \<Rightarrow> int \<Rightarrow> word32" where
  "rootFraction k p = word_of_int (rootBits k 36 (p * 2 ^ (32 * k)) 0)"

definition primesTo :: "int \<Rightarrow> int list" where
  "primesTo n = filter (\<lambda>p. list_all (\<lambda>d. p mod d \<noteq> 0) [2..p - 1]) [2..n]"

definition roundConstants :: "word32 list" where
  "roundConstants = map (rootFraction 3) (primesTo 311)"

definition initialState :: "word32 list" where
  "initialState = map (rootFraction 2) (primesTo 19)"

text \<open>The bits found are those of the root, whatever the number.\<close>

lemma rootBits_root:
  "r ^ k \<le> n \<Longrightarrow> n < (r + 2 ^ b) ^ k \<Longrightarrow> rootBits k b n r ^ k \<le> n \<and> n < (rootBits k b n r + 1) ^ k"
proof (induction b arbitrary: r)
  case (Suc b)
  have "r + 2 ^ b + 2 ^ b = r + 2 ^ Suc b" by simp
  then show ?case using Suc.IH [of "r + 2 ^ b"] Suc.IH [of r] Suc.prems by (simp only: rootBits.simps split: if_split) simp
qed simp

text \<open>The message schedule: sixteen words of the block, then each from the last sixteen.\<close>

fun schedule :: "nat \<Rightarrow> word32 list \<Rightarrow> word32 list" where
  "schedule 0 ws = []"
| "schedule (Suc n) ws =
     (let s0 = rotr 7 (ws ! 1) XOR rotr 18 (ws ! 1) XOR drop_bit 3 (ws ! 1);
          s1 = rotr 17 (ws ! 14) XOR rotr 19 (ws ! 14) XOR drop_bit 10 (ws ! 14)
      in hd ws # schedule n (tl ws @ [hd ws + s0 + ws ! 9 + s1]))"

fun round :: "word32 list \<Rightarrow> word32 \<times> word32 \<Rightarrow> word32 list" where
  "round [a, b, c, d, e, f, g, h] (k, w) =
     (let s1 = rotr 6 e XOR rotr 11 e XOR rotr 25 e;
          ch = (e AND f) XOR (NOT e AND g);
          t1 = h + s1 + ch + k + w;
          s0 = rotr 2 a XOR rotr 13 a XOR rotr 22 a;
          maj = (a AND b) XOR (a AND c) XOR (b AND c)
      in [t1 + (s0 + maj), a, b, c, d + t1, e, f, g])"
| "round st _ = st"

definition compress :: "word32 list \<Rightarrow> word32 list \<Rightarrow> word32 list" where
  "compress st block = map2 (+) st (foldl round st (zip roundConstants (schedule 64 block)))"

section \<open>The hash of a byte string\<close>

text \<open>\<open>bytesOf k n\<close>: the last \<open>k\<close> bytes of \<open>n\<close>, most significant first.\<close>

fun bytesOf :: "nat \<Rightarrow> int \<Rightarrow> int list" where
  "bytesOf 0 n = []"
| "bytesOf (Suc k) n = bytesOf k (n div 256) @ [n mod 256]"

definition pad :: "int list \<Rightarrow> int list" where
  "pad bs = bs @ [128] @ replicate ((119 - length bs mod 64) mod 64) 0 @ bytesOf 8 (8 * int (length bs))"

fun wordsOf :: "int list \<Rightarrow> word32 list" where
  "wordsOf (a # b # c # d # bs) = word_of_int (((a * 256 + b) * 256 + c) * 256 + d) # wordsOf bs"
| "wordsOf _ = []"

fun hashWords :: "nat \<Rightarrow> word32 list \<Rightarrow> word32 list \<Rightarrow> word32 list" where
  "hashWords 0 st ws = st"
| "hashWords (Suc n) st ws = hashWords n (compress st (take 16 ws)) (drop 16 ws)"

definition Sum256 :: "int list \<Rightarrow> int list" where
  "Sum256 bs = (let ws = wordsOf (pad bs)
     in concat (map (\<lambda>w. bytesOf 4 (uint w)) (hashWords (length ws div 16) initialState ws)))"

definition hexDigitOf :: "int \<Rightarrow> char" where
  "hexDigitOf n = char_of (if n < 10 then 48 + n else 87 + n)"

definition EncodeToString :: "int list \<Rightarrow> string" where
  "EncodeToString bs = concat (map (\<lambda>b. [hexDigitOf (b div 16), hexDigitOf (b mod 16)]) bs)"

end
