(* ===== verification/Cache.thy ===== *)
theory Cache
  imports Digest Platform
begin

text \<open>
  \<^verbatim>\<open>internal/platform/cache\<close>: the keys, the cache as a service sees it, and the
  \<^verbatim>\<open>Noop\<close> used when none is configured. What a cache holds is part of the world,
  a map from keys to texts that bounds what a read may answer: an entry may expire or be lost at
  any time, a read may miss, a write may be dropped, and a removal may fail and leave what it was to
  remove, or stop half way; but no operation makes an entry up. \<open>'b\<close> is what is stored.
\<close>

section \<open>Keys\<close>

definition Namespace :: string where "Namespace = ''karlo''"
definition SchemaVersion :: string where "SchemaVersion = ''v1''"

definition cleanPart :: "string \<Rightarrow> string" where
  "cleanPart p = ReplaceChar (CHR '':'') (CHR ''_'') p"

definition Key :: "string list \<Rightarrow> string" where
  "Key parts = Join (Namespace # SchemaVersion # map cleanPart parts) '':''"

definition Prefix :: "string list \<Rightarrow> string" where
  "Prefix parts = Key parts @ '':''"

definition Fingerprint :: "string \<Rightarrow> string" where
  "Fingerprint input = EncodeToString (take 8 (Sum256 (map of_char input)))"

text \<open>The parts of a key can be read back from it.\<close>

lemma SplitOn_free: "c \<notin> set s \<Longrightarrow> SplitOn c s = [s]"
  by (induction s) auto

lemma SplitOn_append: "c \<notin> set x \<Longrightarrow> SplitOn c (x @ c # s) = x # SplitOn c s"
  by (induction x) auto

lemma SplitOn_Join:
  "xs \<noteq> [] \<Longrightarrow> list_all (\<lambda>x. c \<notin> set x) xs \<Longrightarrow> SplitOn c (Join xs [c]) = xs"
  by (induction xs "[c]" rule: Join.induct) (simp_all add: SplitOn_free SplitOn_append)

lemma cleanPart_free: "CHR '':'' \<notin> set (cleanPart p)"
  by (auto simp: cleanPart_def ReplaceChar_def)

lemma cleanPart_id [simp]: "CHR '':'' \<notin> set p \<Longrightarrow> cleanPart p = p"
  by (induction p) (auto simp: cleanPart_def ReplaceChar_def)

lemma colon_free_header: "CHR '':'' \<notin> set Namespace" "CHR '':'' \<notin> set SchemaVersion"
  by (simp_all add: Namespace_def SchemaVersion_def)

lemma SplitOn_Key: "SplitOn (CHR '':'') (Key ps) = Namespace # SchemaVersion # map cleanPart ps"
  unfolding Key_def by (rule SplitOn_Join) (simp_all add: colon_free_header list_all_iff cleanPart_free)

lemma Key_inj: "Key ps = Key qs \<longleftrightarrow> map cleanPart ps = map cleanPart qs"
  by (metis SplitOn_Key Key_def list.inject)

lemma Join_append: "xs \<noteq> [] \<Longrightarrow> ys \<noteq> [] \<Longrightarrow> Join (xs @ ys) c = Join xs c @ c @ Join ys c"
  by (induction xs c rule: Join.induct) (auto simp: neq_Nil_conv)

lemma Key_append: "qs \<noteq> [] \<Longrightarrow> Key (ps @ qs) = Prefix ps @ Join (map cleanPart qs) '':''"
  using Join_append [of "Namespace # SchemaVersion # map cleanPart ps" "map cleanPart qs"]
  by (simp add: Key_def Prefix_def)

lemma SplitOn_not_Nil [simp]: "SplitOn c s \<noteq> []"
  by (induction s) (auto split: list.splits)

lemma SplitOn_append_sep: "SplitOn c (s @ c # t) = SplitOn c s @ SplitOn c t"
  by (induction s) (auto split: list.splits)

lemma HasPrefix_Prefix:
  "HasPrefix (Key qs) (Prefix ps) \<longleftrightarrow>
     length ps < length qs \<and> take (length ps) (map cleanPart qs) = map cleanPart ps"
proof
  assume "HasPrefix (Key qs) (Prefix ps)"
  then obtain r where "Key qs = Key ps @ CHR '':'' # r" by (auto simp: HasPrefix_iff Prefix_def)
  then have "SplitOn (CHR '':'') (Key qs) = SplitOn (CHR '':'') (Key ps) @ SplitOn (CHR '':'') r"
    by (simp add: SplitOn_append_sep)
  then have e: "map cleanPart qs = map cleanPart ps @ SplitOn (CHR '':'') r" by (simp add: SplitOn_Key)
  then have "length qs = length ps + length (SplitOn (CHR '':'') r)" by (metis length_append length_map)
  then show "length ps < length qs \<and> take (length ps) (map cleanPart qs) = map cleanPart ps"
    using e by (cases "SplitOn (CHR '':'') r") simp_all
next
  assume a: "length ps < length qs \<and> take (length ps) (map cleanPart qs) = map cleanPart ps"
  then have "drop (length ps) qs \<noteq> []" by simp
  from Key_append [OF this, of "take (length ps) qs"]
  have "Key qs = Prefix (take (length ps) qs) @ Join (map cleanPart (drop (length ps) qs)) '':''" by simp
  moreover have "Prefix (take (length ps) qs) = Prefix ps"
    using a by (simp add: Prefix_def Key_inj take_map)
  ultimately show "HasPrefix (Key qs) (Prefix ps)" by simp
qed

section \<open>The cache\<close>

record ('w, 'b) Cache =
  CacheGet :: "string \<Rightarrow> 'w \<Rightarrow> 'b option \<times> 'w"
  CacheSet :: "string \<Rightarrow> 'b \<Rightarrow> int \<Rightarrow> 'w \<Rightarrow> unit \<times> 'w"
  CacheDelete :: "string list \<Rightarrow> 'w \<Rightarrow> unit \<times> 'w"
  DeleteByPrefix :: "string \<Rightarrow> 'w \<Rightarrow> unit \<times> 'w"

text \<open>\<open>GetJSON\<close> drops an entry it cannot read and reports a miss.\<close>

definition GetJSON :: "('b \<Rightarrow> 'a option) \<Rightarrow> ('w, 'b) Cache \<Rightarrow> string \<Rightarrow> ('w, 'a option) io" where
  "GetJSON unmarshal c k =
     andThen (call (CacheGet c k)) (\<lambda>raw.
     case raw of
       None \<Rightarrow> ok None
     | Some b \<Rightarrow>
         (case unmarshal b of
            None \<Rightarrow> andThen (call (CacheDelete c [k])) (\<lambda>_. ok None)
          | Some x \<Rightarrow> ok (Some x)))"

definition SetJSON :: "('a \<Rightarrow> 'b option) \<Rightarrow> ('w, 'b) Cache \<Rightarrow> string \<Rightarrow> 'a \<Rightarrow> int \<Rightarrow> ('w, unit) io" where
  "SetJSON marshal c k x ttl =
     (case marshal x of None \<Rightarrow> ok () | Some b \<Rightarrow> call (CacheSet c k b ttl))"

text \<open>The cache of a deployment without one: everything misses and nothing is kept.\<close>

definition noop :: "('w, 'b) Cache" where
  "noop = \<lparr>CacheGet = (\<lambda>k w. (None, w)), CacheSet = (\<lambda>k b ttl w. ((), w)),
     CacheDelete = (\<lambda>ks w. ((), w)), DeleteByPrefix = (\<lambda>p w. ((), w))\<rparr>"

section \<open>The contract\<close>

locale cache = world good vw
  for good :: "'w \<Rightarrow> bool"
    and vw :: "'w \<Rightarrow> 'v" +
  fixes c :: "('w, 'b) Cache"
    and contents :: "'v \<Rightarrow> string \<rightharpoonup> 'b"
    and keep :: "(string \<rightharpoonup> 'b) \<Rightarrow> 'v \<Rightarrow> 'v"
  assumes contents_keep: "contents (keep m v) = m"
    and cache_get: "good w \<Longrightarrow> CacheGet c k w = (rg, w') \<Longrightarrow>
        good w' \<and> vw w' = vw w \<and> (\<forall>b. rg = Some b \<longrightarrow> contents (vw w) k = Some b)"
    and cache_set: "good w \<Longrightarrow> CacheSet c k b ttl w = (rs, w') \<Longrightarrow>
        good w' \<and> (vw w' = vw w \<or> vw w' = keep ((contents (vw w))(k \<mapsto> b)) (vw w))"
    and cache_delete: "good w \<Longrightarrow> CacheDelete c ks w = (rd, w') \<Longrightarrow>
        good w' \<and> (\<exists>K. vw w' = keep (contents (vw w) |` K) (vw w))"
    and cache_sweep: "good w \<Longrightarrow> DeleteByPrefix c p w = (rp, w') \<Longrightarrow>
        good w' \<and> (\<exists>K. vw w' = keep (contents (vw w) |` K) (vw w))"
begin

lemma sweep_triple:
  assumes "\<And>v K. P v \<Longrightarrow> Q (keep (contents v |` K) v)"
  shows "triple (holds P) (call (DeleteByPrefix c p)) (\<lambda>_. holds Q) (holds E)"
proof (rule tripleI)
  fix w u w' assume P: "holds P w" and "call (DeleteByPrefix c p) w = (Inr u, w')"
  then have "DeleteByPrefix c p w = (u, w')" by simp
  from cache_sweep [OF holdsD(1) [OF P] this] assms [OF holdsD(2) [OF P]]
  show "holds Q w'" by (auto simp: inWorld_def)
qed simp

lemma delete_triple:
  assumes "\<And>v K. P v \<Longrightarrow> Q (keep (contents v |` K) v)"
  shows "triple (holds P) (call (CacheDelete c ks)) (\<lambda>_. holds Q) (holds E)"
proof (rule tripleI)
  fix w u w' assume P: "holds P w" and "call (CacheDelete c ks) w = (Inr u, w')"
  then have "CacheDelete c ks w = (u, w')" by simp
  from cache_delete [OF holdsD(1) [OF P] this] assms [OF holdsD(2) [OF P]]
  show "holds Q w'" by (auto simp: inWorld_def)
qed simp

lemma get_triple:
  "triple (holds P) (call (CacheGet c k)) (\<lambda>raw. holds (\<lambda>v. P v \<and> (\<forall>b. raw = Some b \<longrightarrow> contents v k = Some b))) (holds E)"
proof (rule tripleI)
  fix w raw w' assume P: "holds P w" and "call (CacheGet c k) w = (Inr raw, w')"
  then have "CacheGet c k w = (raw, w')" by simp
  note cache_get [OF holdsD(1) [OF P] this]
  with holdsD(2) [OF P]
  show "holds (\<lambda>v. P v \<and> (\<forall>b. raw = Some b \<longrightarrow> contents v k = Some b)) w'" by (simp add: inWorld_def)
qed simp

lemma SetJSON_triple:
  assumes "\<And>v. P v \<Longrightarrow> Q v"
    and "\<And>v b. P v \<Longrightarrow> marshal x = Some b \<Longrightarrow> Q (keep ((contents v)(k \<mapsto> b)) v)"
  shows "triple (holds P) (SetJSON marshal c k x ttl) (\<lambda>_. holds Q) (holds E)"
proof (cases "marshal x")
  case None
  then show ?thesis unfolding SetJSON_def by (auto intro!: triple_ok simp: inWorld_def assms(1))
next
  case (Some b)
  have "triple (holds P) (call (CacheSet c k b ttl)) (\<lambda>_. holds Q) (holds E)"
  proof (rule tripleI)
    fix w u w' assume P: "holds P w" and "call (CacheSet c k b ttl) w = (Inr u, w')"
    then have "CacheSet c k b ttl w = (u, w')" by simp
    note cache_set [OF holdsD(1) [OF P] this]
    with assms(1) [OF holdsD(2) [OF P]] assms(2) [OF holdsD(2) [OF P] Some]
    show "holds Q w'" by (auto simp: inWorld_def)
  qed simp
  then show ?thesis by (simp add: SetJSON_def Some)
qed

lemma GetJSON_triple:
  assumes none: "\<And>v. P v \<Longrightarrow> Q None v"
    and some: "\<And>v b x. P v \<Longrightarrow> contents v k = Some b \<Longrightarrow> unmarshal b = Some x \<Longrightarrow> Q (Some x) v"
    and drop: "\<And>v K. P v \<Longrightarrow> Q None (keep (contents v |` K) v)"
  shows "triple (holds P) (GetJSON unmarshal c k) (\<lambda>x. holds (Q x)) (holds E)"
  unfolding GetJSON_def
proof (rule triple_andThen [OF get_triple])
  fix raw
  let ?P = "holds (\<lambda>v. P v \<and> (\<forall>b. raw = Some b \<longrightarrow> contents v k = Some b))"
  have gone: "triple ?P (andThen (call (CacheDelete c [k])) (\<lambda>_. ok None)) (\<lambda>x. holds (Q x)) (holds E)"
    by (rule triple_andThen, rule delete_triple [where Q = "Q None"]) (use drop in \<open>auto intro: triple_ok\<close>)
  show "triple ?P
      (case raw of None \<Rightarrow> ok None
       | Some b \<Rightarrow> (case unmarshal b of None \<Rightarrow> andThen (call (CacheDelete c [k])) (\<lambda>_. ok None)
          | Some x \<Rightarrow> ok (Some x))) (\<lambda>x. holds (Q x)) (holds E)"
  proof (cases raw)
    case None
    then show ?thesis by (auto intro!: triple_ok simp: inWorld_def none)
  next
    case (Some b)
    then show ?thesis
      by (cases "unmarshal b") (use gone some in \<open>auto intro!: triple_ok simp: inWorld_def\<close>)
  qed
qed

end

text \<open>Without a cache the contract holds of a world in which nothing is kept.\<close>

lemma noop_cache:
  fixes put :: "(string \<rightharpoonup> 'b) \<Rightarrow> 'v \<Rightarrow> 'v"
  assumes "\<And>m v. held (put m v) = m" and "\<And>w. good w \<Longrightarrow> put Map.empty (vw w) = vw w"
    and "\<And>w. good w \<Longrightarrow> held (vw w) = Map.empty"
  shows "cache good vw noop held put"
  by unfold_locales (auto simp: noop_def assms)

end
