(* ===== verification/Bson.thy ===== *)
theory Bson
  imports Database "HOL-Library.AList"
begin

text \<open>
  Documents as the catalogue service handles them: \<^verbatim>\<open>bson.M\<close>, whose fields are read
  by name, and their conversion to and from the structs of \<^verbatim>\<open>internal/models\<close> along
  the \<^verbatim>\<open>bson\<close> tags of the fields. How the driver reads one value as a Go type is not
  under \<^verbatim>\<open>src/\<close>: it is the parameter \<open>BsonLib\<close>, of which the code relies on the
  driver reading back what it wrote (locale \<open>bson_lib\<close>). A field that is absent leaves the zero
  value, and a pointer that is absent or null is nil.
\<close>

section \<open>Values and documents\<close>

datatype bson =
    BsonNull
  | BsonString string
  | BsonBool bool
  | BsonInt int
  | BsonDouble rat
  | BsonDate Time
  | BsonID ObjectID
  | BsonArray "bson list"
  | BsonDoc Attrs

type_synonym payload = "(string \<times> bson) list"

text \<open>A stored document: its \<^verbatim>\<open>_id\<close> and its other fields.\<close>

record Doc =
  DocID :: ObjectID
  Fields :: payload

definition field :: "Doc \<Rightarrow> string \<Rightarrow> bson option" where
  "field d k = map_of (Fields d) k"

definition setDocID :: "ObjectID \<Rightarrow> Doc \<Rightarrow> Doc" where
  "setDocID i d = d\<lparr>DocID := i\<rparr>"

lemma DocID_setDocID [simp]: "DocID (setDocID i d) = i"
  by (simp add: setDocID_def)

section \<open>Reading and writing single values\<close>

record BsonLib =
  Encodable :: "payload \<Rightarrow> bool"
  asString :: "bson \<Rightarrow> string option"
  asBool :: "bson \<Rightarrow> bool option"
  asInt :: "bson \<Rightarrow> int option"
  asFloat :: "bson \<Rightarrow> rat option"
  asTime :: "bson \<Rightarrow> Time option"
  asStrings :: "bson \<Rightarrow> string list option option"
  asAttrs :: "bson \<Rightarrow> Attrs option option"
  FaultText :: "payload \<Rightarrow> string"
  DateText :: "Time \<Rightarrow> string"

definition ofOption :: "('a \<Rightarrow> bson) \<Rightarrow> 'a option \<Rightarrow> bson" where
  "ofOption f v = (case v of None \<Rightarrow> BsonNull | Some x \<Rightarrow> f x)"

definition valueAt :: "(bson \<Rightarrow> 'a option) \<Rightarrow> 'a \<Rightarrow> payload \<Rightarrow> string \<Rightarrow> 'a option" where
  "valueAt as zero m k = (case map_of m k of None \<Rightarrow> Some zero | Some v \<Rightarrow> as v)"

definition pointerAt :: "(bson \<Rightarrow> 'a option) \<Rightarrow> payload \<Rightarrow> string \<Rightarrow> 'a option option" where
  "pointerAt as m k =
     (case map_of m k of None \<Rightarrow> Some None
      | Some v \<Rightarrow> (case v of BsonNull \<Rightarrow> Some None | _ \<Rightarrow> map_option Some (as v)))"

abbreviation stringAt :: "BsonLib \<Rightarrow> payload \<Rightarrow> string \<Rightarrow> string option" where
  "stringAt B \<equiv> valueAt (asString B) []"

abbreviation boolAt :: "BsonLib \<Rightarrow> payload \<Rightarrow> string \<Rightarrow> bool option" where
  "boolAt B \<equiv> valueAt (asBool B) False"

abbreviation timeAt :: "BsonLib \<Rightarrow> payload \<Rightarrow> string \<Rightarrow> Time option" where
  "timeAt B \<equiv> valueAt (asTime B) zeroTime"

abbreviation stringsAt :: "BsonLib \<Rightarrow> payload \<Rightarrow> string \<Rightarrow> string list option option" where
  "stringsAt B \<equiv> valueAt (asStrings B) None"

abbreviation attrsAt :: "BsonLib \<Rightarrow> payload \<Rightarrow> string \<Rightarrow> Attrs option option" where
  "attrsAt B \<equiv> valueAt (asAttrs B) None"

abbreviation ptrAt :: "BsonLib \<Rightarrow> payload \<Rightarrow> string \<Rightarrow> string option option" where
  "ptrAt B \<equiv> pointerAt (asString B)"

definition bsonStrings :: "string list option \<Rightarrow> bson" where
  "bsonStrings = ofOption (\<lambda>l. BsonArray (map BsonString l))"

locale bson_lib =
  fixes B :: BsonLib
  assumes as_string: "asString B (BsonString s) = Some s"
    and as_bool: "asBool B (BsonBool b) = Some b"
    and as_int: "asInt B (BsonInt n) = Some n"
    and as_float: "asFloat B (BsonDouble r) = Some r"
    and as_time: "asTime B (BsonDate t) = Some t"
    and as_strings: "asStrings B (bsonStrings l) = Some l"
    and as_attrs: "asAttrs B (ofOption BsonDoc a) = Some a"
begin

lemmas as_simps = as_string as_bool as_int as_float as_time as_strings as_attrs

lemma valueAt_Some [simp]: "map_of m k = Some v \<Longrightarrow> valueAt as zero m k = as v"
  by (simp add: valueAt_def)

lemma pointerAt_ofOption:
  assumes "\<And>x. as (f x) = Some x" and "\<And>x. f x \<noteq> BsonNull" and "map_of m k = Some (ofOption f v)"
  shows "pointerAt as m k = Some v"
proof (cases v)
  case (Some x)
  with assms show ?thesis by (cases "f x") (simp_all add: pointerAt_def ofOption_def, metis+)
qed (use assms in \<open>simp add: pointerAt_def ofOption_def\<close>)

lemma pointer_simps:
  "map_of m k = Some (ofOption BsonString s) \<Longrightarrow> ptrAt B m k = Some s"
  "map_of m k = Some (ofOption BsonInt n) \<Longrightarrow> pointerAt (asInt B) m k = Some n"
  "map_of m k = Some (ofOption BsonDouble r) \<Longrightarrow> pointerAt (asFloat B) m k = Some r"
  by (rule pointerAt_ofOption; simp add: as_simps)+

end

end
