(* ===== verification/Codecs.thy ===== *)
theory Codecs
  imports Bson
begin

text \<open>
  How each catalogue's struct of \<^verbatim>\<open>internal/models/models.go\<close> is written as a
  document and read from one, field by field along its \<^verbatim>\<open>bson\<close> tags; \<open>Model\<close>
  gathers what the generic writer uses of such a type. The repository has no such functions: it
  leaves them to the driver's reflection, which the tags steer and this theory spells out. Writing and
  reading back gives the value, so a method of a struct acts on the documents that are written
  (\<open>via\<close>).
\<close>

section \<open>The envelopes\<close>

definition Base_encode :: "'a Base_scheme \<Rightarrow> payload" where
  "Base_encode b =
     [(''createdAt'', BsonDate (Base.CreatedAt b)), (''updatedAt'', BsonDate (Base.UpdatedAt b)),
      (''deleted'', BsonBool (Base.Deleted b))]"

definition Base_decode :: "BsonLib \<Rightarrow> ObjectID \<Rightarrow> payload \<Rightarrow> Base option" where
  "Base_decode B i m = do { cr \<leftarrow> timeAt B m ''createdAt''; up \<leftarrow> timeAt B m ''updatedAt'';
     del \<leftarrow> boolAt B m ''deleted''; Some (Base.make i cr up del) }"

definition Owned_encode :: "'a Owned_scheme \<Rightarrow> payload" where
  "Owned_encode b = Base_encode b @
     [(''companyId'', ofOption BsonString (Owned.CompanyID b)),
      (''createdByUserId'', ofOption BsonString (Owned.CreatedByUserID b)),
      (''isActive'', BsonBool (Owned.IsActive b))]"

definition Owned_decode :: "BsonLib \<Rightarrow> ObjectID \<Rightarrow> payload \<Rightarrow> Owned option" where
  "Owned_decode B i m = do { b \<leftarrow> Base_decode B i m; co \<leftarrow> ptrAt B m ''companyId'';
     by \<leftarrow> ptrAt B m ''createdByUserId''; act \<leftarrow> boolAt B m ''isActive'';
     Some (Base.extend b (Owned.fields co by act)) }"

section \<open>The catalogues\<close>

definition Brand_encode :: "Brand \<Rightarrow> payload" where
  "Brand_encode x = Owned_encode x @
     [(''name'', BsonString (Brand.Name x)),
      (''nameNormalised'', BsonString (Brand.NameNormalised x))]"

definition Brand_decode :: "BsonLib \<Rightarrow> ObjectID \<Rightarrow> payload \<Rightarrow> Brand option" where
  "Brand_decode B i m = do { b \<leftarrow> Owned_decode B i m; v0 \<leftarrow> stringAt B m ''name''; v1 \<leftarrow> stringAt B m ''nameNormalised'';
     Some (Owned.extend b (Brand.fields v0 v1)) }"

definition CargoType_encode :: "CargoType \<Rightarrow> payload" where
  "CargoType_encode x = Owned_encode x @
     [(''name'', BsonString (CargoType.Name x)),
      (''nameNormalised'', BsonString (CargoType.NameNormalised x)),
      (''description'', ofOption BsonString (CargoType.Description x)),
      (''characteristics'', bsonStrings (CargoType.Characteristics x))]"

definition CargoType_decode :: "BsonLib \<Rightarrow> ObjectID \<Rightarrow> payload \<Rightarrow> CargoType option" where
  "CargoType_decode B i m = do { b \<leftarrow> Owned_decode B i m; v0 \<leftarrow> stringAt B m ''name''; v1 \<leftarrow> stringAt B m ''nameNormalised'';
     v2 \<leftarrow> ptrAt B m ''description''; v3 \<leftarrow> stringsAt B m ''characteristics'';
     Some (Owned.extend b (CargoType.fields v0 v1 v2 v3)) }"

definition ItemCategory_encode :: "ItemCategory \<Rightarrow> payload" where
  "ItemCategory_encode x = Owned_encode x @
     [(''name'', BsonString (ItemCategory.Name x)),
      (''nameNormalised'', BsonString (ItemCategory.NameNormalised x)),
      (''description'', ofOption BsonString (ItemCategory.Description x))]"

definition ItemCategory_decode :: "BsonLib \<Rightarrow> ObjectID \<Rightarrow> payload \<Rightarrow> ItemCategory option" where
  "ItemCategory_decode B i m = do { b \<leftarrow> Owned_decode B i m; v0 \<leftarrow> stringAt B m ''name''; v1 \<leftarrow> stringAt B m ''nameNormalised'';
     v2 \<leftarrow> ptrAt B m ''description'';
     Some (Owned.extend b (ItemCategory.fields v0 v1 v2)) }"

definition ItemSubCategory_encode :: "ItemSubCategory \<Rightarrow> payload" where
  "ItemSubCategory_encode x = Owned_encode x @
     [(''categoryId'', BsonString (ItemSubCategory.CategoryID x)),
      (''name'', BsonString (ItemSubCategory.Name x)),
      (''nameNormalised'', BsonString (ItemSubCategory.NameNormalised x)),
      (''description'', ofOption BsonString (ItemSubCategory.Description x))]"

definition ItemSubCategory_decode :: "BsonLib \<Rightarrow> ObjectID \<Rightarrow> payload \<Rightarrow> ItemSubCategory option" where
  "ItemSubCategory_decode B i m = do { b \<leftarrow> Owned_decode B i m; v0 \<leftarrow> stringAt B m ''categoryId''; v1 \<leftarrow> stringAt B m ''name'';
     v2 \<leftarrow> stringAt B m ''nameNormalised''; v3 \<leftarrow> ptrAt B m ''description'';
     Some (Owned.extend b (ItemSubCategory.fields v0 v1 v2 v3)) }"

definition Item_encode :: "Item \<Rightarrow> payload" where
  "Item_encode x = Base_encode x @
     [(''companyId'', BsonString (Item.CompanyID x)),
      (''categoryId'', ofOption BsonString (Item.CategoryID x)),
      (''subCategoryId'', ofOption BsonString (Item.SubCategoryID x)),
      (''cargoTypeId'', ofOption BsonString (Item.CargoTypeID x)),
      (''name'', BsonString (Item.Name x)), (''code'', ofOption BsonString (Item.Code x)),
      (''codeNormalised'', ofOption BsonString (Item.CodeNormalised x)),
      (''description'', ofOption BsonString (Item.Description x)),
      (''unit'', ofOption BsonString (Item.Unit x)),
      (''weightKg'', ofOption BsonDouble (Item.WeightKg x)),
      (''volumeM3'', ofOption BsonDouble (Item.VolumeM3 x)),
      (''isActive'', BsonBool (Item.IsActive x)),
      (''attributes'', ofOption BsonDoc (Item.Attributes x)),
      (''createdByUserId'', ofOption BsonString (Item.CreatedByUserID x))]"

definition Item_decode :: "BsonLib \<Rightarrow> ObjectID \<Rightarrow> payload \<Rightarrow> Item option" where
  "Item_decode B i m = do { b \<leftarrow> Base_decode B i m; v0 \<leftarrow> stringAt B m ''companyId''; v1 \<leftarrow> ptrAt B m ''categoryId'';
     v2 \<leftarrow> ptrAt B m ''subCategoryId''; v3 \<leftarrow> ptrAt B m ''cargoTypeId'';
     v4 \<leftarrow> stringAt B m ''name''; v5 \<leftarrow> ptrAt B m ''code'';
     v6 \<leftarrow> ptrAt B m ''codeNormalised''; v7 \<leftarrow> ptrAt B m ''description'';
     v8 \<leftarrow> ptrAt B m ''unit''; v9 \<leftarrow> pointerAt (asFloat B) m ''weightKg'';
     v10 \<leftarrow> pointerAt (asFloat B) m ''volumeM3'';
     v11 \<leftarrow> boolAt B m ''isActive''; v12 \<leftarrow> attrsAt B m ''attributes'';
     v13 \<leftarrow> ptrAt B m ''createdByUserId'';
     Some (Base.extend b (Item.fields v0 v1 v2 v3 v4 v5 v6 v7 v8 v9 v10 v11 v12 v13)) }"

definition TruckHead_encode :: "TruckHead \<Rightarrow> payload" where
  "TruckHead_encode x = Owned_encode x @
     [(''name'', BsonString (TruckHead.Name x)),
      (''nameNormalised'', BsonString (TruckHead.NameNormalised x)),
      (''code'', ofOption BsonString (TruckHead.Code x)),
      (''axles'', ofOption BsonInt (TruckHead.Axles x)),
      (''configuration'', ofOption BsonString (TruckHead.Configuration x)),
      (''imageKey'', ofOption BsonString (TruckHead.ImageKey x))]"

definition TruckHead_decode :: "BsonLib \<Rightarrow> ObjectID \<Rightarrow> payload \<Rightarrow> TruckHead option" where
  "TruckHead_decode B i m = do { b \<leftarrow> Owned_decode B i m; v0 \<leftarrow> stringAt B m ''name''; v1 \<leftarrow> stringAt B m ''nameNormalised'';
     v2 \<leftarrow> ptrAt B m ''code''; v3 \<leftarrow> pointerAt (asInt B) m ''axles'';
     v4 \<leftarrow> ptrAt B m ''configuration''; v5 \<leftarrow> ptrAt B m ''imageKey'';
     Some (Owned.extend b (TruckHead.fields v0 v1 v2 v3 v4 v5)) }"

definition TruckBody_encode :: "TruckBody \<Rightarrow> payload" where
  "TruckBody_encode x = Owned_encode x @
     [(''name'', BsonString (TruckBody.Name x)),
      (''nameNormalised'', BsonString (TruckBody.NameNormalised x)),
      (''code'', ofOption BsonString (TruckBody.Code x)),
      (''maxWeightKg'', ofOption BsonDouble (TruckBody.MaxWeightKg x)),
      (''volumeM3'', ofOption BsonDouble (TruckBody.VolumeM3 x)),
      (''lengthM'', ofOption BsonDouble (TruckBody.LengthM x)),
      (''widthM'', ofOption BsonDouble (TruckBody.WidthM x)),
      (''heightM'', ofOption BsonDouble (TruckBody.HeightM x)),
      (''cargoTypeIds'', bsonStrings (TruckBody.CargoTypeIDs x)),
      (''imageKey'', ofOption BsonString (TruckBody.ImageKey x))]"

definition TruckBody_decode :: "BsonLib \<Rightarrow> ObjectID \<Rightarrow> payload \<Rightarrow> TruckBody option" where
  "TruckBody_decode B i m = do { b \<leftarrow> Owned_decode B i m; v0 \<leftarrow> stringAt B m ''name''; v1 \<leftarrow> stringAt B m ''nameNormalised'';
     v2 \<leftarrow> ptrAt B m ''code''; v3 \<leftarrow> pointerAt (asFloat B) m ''maxWeightKg'';
     v4 \<leftarrow> pointerAt (asFloat B) m ''volumeM3'';
     v5 \<leftarrow> pointerAt (asFloat B) m ''lengthM'';
     v6 \<leftarrow> pointerAt (asFloat B) m ''widthM'';
     v7 \<leftarrow> pointerAt (asFloat B) m ''heightM'';
     v8 \<leftarrow> stringsAt B m ''cargoTypeIds''; v9 \<leftarrow> ptrAt B m ''imageKey'';
     Some (Owned.extend b (TruckBody.fields v0 v1 v2 v3 v4 v5 v6 v7 v8 v9)) }"

definition TruckClass_encode :: "TruckClass \<Rightarrow> payload" where
  "TruckClass_encode x = Owned_encode x @
     [(''name'', BsonString (TruckClass.Name x)),
      (''nameNormalised'', BsonString (TruckClass.NameNormalised x)),
      (''code'', ofOption BsonString (TruckClass.Code x)),
      (''typicalMaxWeightKg'', ofOption BsonDouble (TruckClass.TypicalMaxWeightKg x)),
      (''axles'', ofOption BsonInt (TruckClass.Axles x)),
      (''sortOrder'', ofOption BsonInt (TruckClass.SortOrder x))]"

definition TruckClass_decode :: "BsonLib \<Rightarrow> ObjectID \<Rightarrow> payload \<Rightarrow> TruckClass option" where
  "TruckClass_decode B i m = do { b \<leftarrow> Owned_decode B i m; v0 \<leftarrow> stringAt B m ''name''; v1 \<leftarrow> stringAt B m ''nameNormalised'';
     v2 \<leftarrow> ptrAt B m ''code'';
     v3 \<leftarrow> pointerAt (asFloat B) m ''typicalMaxWeightKg'';
     v4 \<leftarrow> pointerAt (asInt B) m ''axles'';
     v5 \<leftarrow> pointerAt (asInt B) m ''sortOrder'';
     Some (Owned.extend b (TruckClass.fields v0 v1 v2 v3 v4 v5)) }"

definition VehicleGroup_encode :: "VehicleGroup \<Rightarrow> payload" where
  "VehicleGroup_encode x = Base_encode x @
     [(''companyId'', BsonString (VehicleGroup.CompanyID x)),
      (''name'', BsonString (VehicleGroup.Name x)),
      (''nameNormalised'', BsonString (VehicleGroup.NameNormalised x)),
      (''description'', ofOption BsonString (VehicleGroup.Description x)),
      (''picUserIds'', bsonStrings (VehicleGroup.PICUserIDs x))]"

definition VehicleGroup_decode :: "BsonLib \<Rightarrow> ObjectID \<Rightarrow> payload \<Rightarrow> VehicleGroup option" where
  "VehicleGroup_decode B i m = do { b \<leftarrow> Base_decode B i m; v0 \<leftarrow> stringAt B m ''companyId''; v1 \<leftarrow> stringAt B m ''name'';
     v2 \<leftarrow> stringAt B m ''nameNormalised''; v3 \<leftarrow> ptrAt B m ''description'';
     v4 \<leftarrow> stringsAt B m ''picUserIds'';
     Some (Base.extend b (VehicleGroup.fields v0 v1 v2 v3 v4)) }"

definition Customer_encode :: "Customer \<Rightarrow> payload" where
  "Customer_encode x = Base_encode x @
     [(''companyId'', BsonString (Customer.CompanyID x)), (''name'', BsonString (Customer.Name x)),
      (''nameNormalised'', BsonString (Customer.NameNormalised x)),
      (''code'', ofOption BsonString (Customer.Code x)),
      (''npwp'', ofOption BsonString (Customer.NPWP x)),
      (''address'', ofOption BsonString (Customer.Address x)),
      (''contactName'', ofOption BsonString (Customer.ContactName x)),
      (''contactPhone'', ofOption BsonString (Customer.ContactPhone x)),
      (''contactEmail'', ofOption BsonString (Customer.ContactEmail x))]"

definition Customer_decode :: "BsonLib \<Rightarrow> ObjectID \<Rightarrow> payload \<Rightarrow> Customer option" where
  "Customer_decode B i m = do { b \<leftarrow> Base_decode B i m; v0 \<leftarrow> stringAt B m ''companyId''; v1 \<leftarrow> stringAt B m ''name'';
     v2 \<leftarrow> stringAt B m ''nameNormalised''; v3 \<leftarrow> ptrAt B m ''code'';
     v4 \<leftarrow> ptrAt B m ''npwp''; v5 \<leftarrow> ptrAt B m ''address'';
     v6 \<leftarrow> ptrAt B m ''contactName''; v7 \<leftarrow> ptrAt B m ''contactPhone'';
     v8 \<leftarrow> ptrAt B m ''contactEmail'';
     Some (Base.extend b (Customer.fields v0 v1 v2 v3 v4 v5 v6 v7 v8)) }"

definition TrackerModel_encode :: "TrackerModel \<Rightarrow> payload" where
  "TrackerModel_encode x =
     [(''vendor'', BsonString (TrackerModel.Vendor x)),
      (''model'', BsonString (TrackerModel.Model x)), (''kind'', BsonString (TrackerModel.Kind x)),
      (''protocol'', ofOption BsonString (TrackerModel.Protocol x)),
      (''isActive'', BsonBool (TrackerModel.IsActive x)),
      (''createdAt'', BsonDate (TrackerModel.CreatedAt x)),
      (''updatedAt'', BsonDate (TrackerModel.UpdatedAt x))] @
     (case TrackerModel.Attributes x of None \<Rightarrow> [] | Some a \<Rightarrow> if dom a = {} then [] else [(''attributes'', BsonDoc a)])"

definition TrackerModel_decode :: "BsonLib \<Rightarrow> ObjectID \<Rightarrow> payload \<Rightarrow> TrackerModel option" where
  "TrackerModel_decode B i m = do { v0 \<leftarrow> stringAt B m ''vendor''; v1 \<leftarrow> stringAt B m ''model'';
     v2 \<leftarrow> stringAt B m ''kind''; v3 \<leftarrow> ptrAt B m ''protocol'';
     v4 \<leftarrow> attrsAt B m ''attributes''; v5 \<leftarrow> boolAt B m ''isActive'';
     v6 \<leftarrow> timeAt B m ''createdAt''; v7 \<leftarrow> timeAt B m ''updatedAt'';
     Some (TrackerModel.make i v0 v1 v2 v3 v4 v5 v6 v7) }"

definition SensorType_encode :: "SensorType \<Rightarrow> payload" where
  "SensorType_encode x =
     [(''code'', BsonString (SensorType.Code x)), (''name'', BsonString (SensorType.Name x)),
      (''unit'', ofOption BsonString (SensorType.Unit x)),
      (''valueKind'', BsonString (SensorType.ValueKind x)),
      (''description'', ofOption BsonString (SensorType.Description x)),
      (''isActive'', BsonBool (SensorType.IsActive x)),
      (''createdAt'', BsonDate (SensorType.CreatedAt x))]"

definition SensorType_decode :: "BsonLib \<Rightarrow> ObjectID \<Rightarrow> payload \<Rightarrow> SensorType option" where
  "SensorType_decode B i m = do { v0 \<leftarrow> stringAt B m ''code''; v1 \<leftarrow> stringAt B m ''name'';
     v2 \<leftarrow> ptrAt B m ''unit''; v3 \<leftarrow> stringAt B m ''valueKind'';
     v4 \<leftarrow> ptrAt B m ''description''; v5 \<leftarrow> boolAt B m ''isActive'';
     v6 \<leftarrow> timeAt B m ''createdAt'';
     Some (SensorType.make i v0 v1 v2 v3 v4 v5 v6) }"

section \<open>The name of a collection\<close>

text \<open>\<^verbatim>\<open>internal/config/guard.go\<close>: what the models' \<^verbatim>\<open>CollectionName\<close> goes through.\<close>

definition CollectionPrefix :: string where
  "CollectionPrefix = []"

definition Collection :: "string \<Rightarrow> string" where
  "Collection name = (if HasPrefix name CollectionPrefix then name else CollectionPrefix @ name)"

lemma Collection_id [simp]: "Collection name = name"
  by (simp add: Collection_def CollectionPrefix_def HasPrefix_def)

section \<open>What the writer uses of a type\<close>

record 'a Model =
  encode :: "'a \<Rightarrow> payload"
  decodeAt :: "BsonLib \<Rightarrow> ObjectID \<Rightarrow> payload \<Rightarrow> 'a option"
  beforeWrite :: "'a \<Rightarrow> 'a"
  stampWith :: "Time \<Rightarrow> bool \<Rightarrow> 'a \<Rightarrow> 'a"

definition brandType :: "Brand Model" where
  "brandType = \<lparr>encode = Brand_encode, decodeAt = Brand_decode, beforeWrite = Brand_BeforeWrite, stampWith = Stamp\<rparr>"

definition cargoTypeType :: "CargoType Model" where
  "cargoTypeType = \<lparr>encode = CargoType_encode, decodeAt = CargoType_decode, beforeWrite = CargoType_BeforeWrite, stampWith = Stamp\<rparr>"

definition itemCategoryType :: "ItemCategory Model" where
  "itemCategoryType = \<lparr>encode = ItemCategory_encode, decodeAt = ItemCategory_decode, beforeWrite = ItemCategory_BeforeWrite, stampWith = Stamp\<rparr>"

definition itemSubCategoryType :: "ItemSubCategory Model" where
  "itemSubCategoryType = \<lparr>encode = ItemSubCategory_encode, decodeAt = ItemSubCategory_decode, beforeWrite = ItemSubCategory_BeforeWrite, stampWith = Stamp\<rparr>"

definition itemType :: "Item Model" where
  "itemType = \<lparr>encode = Item_encode, decodeAt = Item_decode, beforeWrite = Item_BeforeWrite, stampWith = Stamp\<rparr>"

definition truckHeadType :: "TruckHead Model" where
  "truckHeadType = \<lparr>encode = TruckHead_encode, decodeAt = TruckHead_decode, beforeWrite = TruckHead_BeforeWrite, stampWith = Stamp\<rparr>"

definition truckBodyType :: "TruckBody Model" where
  "truckBodyType = \<lparr>encode = TruckBody_encode, decodeAt = TruckBody_decode, beforeWrite = TruckBody_BeforeWrite, stampWith = Stamp\<rparr>"

definition truckClassType :: "TruckClass Model" where
  "truckClassType = \<lparr>encode = TruckClass_encode, decodeAt = TruckClass_decode, beforeWrite = TruckClass_BeforeWrite, stampWith = Stamp\<rparr>"

definition vehicleGroupType :: "VehicleGroup Model" where
  "vehicleGroupType = \<lparr>encode = VehicleGroup_encode, decodeAt = VehicleGroup_decode, beforeWrite = VehicleGroup_BeforeWrite, stampWith = Stamp\<rparr>"

definition customerType :: "Customer Model" where
  "customerType = \<lparr>encode = Customer_encode, decodeAt = Customer_decode, beforeWrite = Customer_BeforeWrite, stampWith = Stamp\<rparr>"

definition trackerModelType :: "TrackerModel Model" where
  "trackerModelType = \<lparr>encode = TrackerModel_encode, decodeAt = TrackerModel_decode, beforeWrite = TrackerModel_BeforeWrite, stampWith = TrackerModel_Stamp\<rparr>"

definition sensorTypeType :: "SensorType Model" where
  "sensorTypeType = \<lparr>encode = SensorType_encode, decodeAt = SensorType_decode, beforeWrite = SensorType_BeforeWrite, stampWith = SensorType_Stamp\<rparr>"


section \<open>Writing and reading back\<close>

context bson_lib
begin

lemmas decode_defs = Base_decode_def Owned_decode_def Base_encode_def Owned_encode_def

lemma Brand_roundtrip: "Brand_decode B (Base.ID x) (Brand_encode x) = Some (x)"
  by (cases x) (simp add: Brand_decode_def Brand_encode_def decode_defs as_simps pointer_simps Base.defs Owned.defs Brand.defs)

lemma CargoType_roundtrip: "CargoType_decode B (Base.ID x) (CargoType_encode x) = Some (x)"
  by (cases x) (simp add: CargoType_decode_def CargoType_encode_def decode_defs as_simps pointer_simps Base.defs Owned.defs CargoType.defs)

lemma ItemCategory_roundtrip: "ItemCategory_decode B (Base.ID x) (ItemCategory_encode x) = Some (x)"
  by (cases x) (simp add: ItemCategory_decode_def ItemCategory_encode_def decode_defs as_simps pointer_simps Base.defs Owned.defs ItemCategory.defs)

lemma ItemSubCategory_roundtrip: "ItemSubCategory_decode B (Base.ID x) (ItemSubCategory_encode x) = Some (x)"
  by (cases x) (simp add: ItemSubCategory_decode_def ItemSubCategory_encode_def decode_defs as_simps pointer_simps Base.defs Owned.defs ItemSubCategory.defs)

lemma Item_roundtrip: "Item_decode B (Base.ID x) (Item_encode x) = Some (x)"
  by (cases x) (simp add: Item_decode_def Item_encode_def decode_defs as_simps pointer_simps Base.defs Owned.defs Item.defs)

lemma TruckHead_roundtrip: "TruckHead_decode B (Base.ID x) (TruckHead_encode x) = Some (x)"
  by (cases x) (simp add: TruckHead_decode_def TruckHead_encode_def decode_defs as_simps pointer_simps Base.defs Owned.defs TruckHead.defs)

lemma TruckBody_roundtrip: "TruckBody_decode B (Base.ID x) (TruckBody_encode x) = Some (x)"
  by (cases x) (simp add: TruckBody_decode_def TruckBody_encode_def decode_defs as_simps pointer_simps Base.defs Owned.defs TruckBody.defs)

lemma TruckClass_roundtrip: "TruckClass_decode B (Base.ID x) (TruckClass_encode x) = Some (x)"
  by (cases x) (simp add: TruckClass_decode_def TruckClass_encode_def decode_defs as_simps pointer_simps Base.defs Owned.defs TruckClass.defs)

lemma VehicleGroup_roundtrip: "VehicleGroup_decode B (Base.ID x) (VehicleGroup_encode x) = Some (x)"
  by (cases x) (simp add: VehicleGroup_decode_def VehicleGroup_encode_def decode_defs as_simps pointer_simps Base.defs Owned.defs VehicleGroup.defs)

lemma Customer_roundtrip: "Customer_decode B (Base.ID x) (Customer_encode x) = Some (x)"
  by (cases x) (simp add: Customer_decode_def Customer_encode_def decode_defs as_simps pointer_simps Base.defs Owned.defs Customer.defs)

lemma TrackerModel_roundtrip: "TrackerModel_decode B (TrackerModel.ID x) (TrackerModel_encode x) = Some (x\<lparr>TrackerModel.Attributes := (case TrackerModel.Attributes x of None \<Rightarrow> None | Some a \<Rightarrow> if dom a = {} then None else Some a)\<rparr>)"
proof -
  have "attrsAt B (fs @ (case a of None \<Rightarrow> [] | Some a \<Rightarrow> if dom a = {} then [] else [(''attributes'', BsonDoc a)])) ''attributes'' =
      Some (case a of None \<Rightarrow> None | Some a \<Rightarrow> if dom a = {} then None else Some a)"
    if "map_of fs ''attributes'' = None" for fs a
    using that as_attrs [of "Some (the a)"]
    by (cases a) (auto simp: valueAt_def ofOption_def map_add_def)
  from this [of "[(''vendor'', BsonString (Vendor x)), (''model'', BsonString (Model x)), (''kind'', BsonString (TrackerModel.Kind x)),
      (''protocol'', ofOption BsonString (TrackerModel.Protocol x)), (''isActive'', BsonBool (TrackerModel.IsActive x)),
      (''createdAt'', BsonDate (TrackerModel.CreatedAt x)), (''updatedAt'', BsonDate (TrackerModel.UpdatedAt x))]"
      "TrackerModel.Attributes x"]
  show ?thesis
    by (cases x) (simp add: TrackerModel_decode_def TrackerModel_encode_def as_simps pointer_simps TrackerModel.defs)
qed

lemma SensorType_roundtrip: "SensorType_decode B (SensorType.ID x) (SensorType_encode x) = Some (x)"
  by (cases x) (simp add: SensorType_decode_def SensorType_encode_def decode_defs as_simps pointer_simps SensorType.defs)

end

end
