(* ===== verification/Catalog.thy ===== *)
theory Catalog
  imports Cache Codecs Sites
begin

text \<open>
  \<^verbatim>\<open>internal/services/catalog.go\<close> and \<^verbatim>\<open>catalog_write.go\<close>: the reference
  lists. Every list is a collection of documents; a table says what each is, a writer per list
  decodes a payload into the list's struct and stores it, and reads go through the cache, under a
  key that holds the tenant. A payload of a request is the document its JSON object denotes.
\<close>

section \<open>Dates as text\<close>

text \<open>\<^verbatim>\<open>t.UTC().Format(time.RFC3339)\<close>: whole seconds, years of four digits.\<close>

definition civil :: "int \<Rightarrow> int \<times> int \<times> int" where
  "civil days =
     (let z = days + 719468; era = z div 146097; doe = z mod 146097;
          yoe = (doe - doe div 1460 + doe div 36524 - doe div 146096) div 365;
          doy = doe - (365 * yoe + yoe div 4 - yoe div 100);
          mp = (5 * doy + 2) div 153;
          d = doy - (153 * mp + 2) div 5 + 1;
          m = (if mp < 10 then mp + 3 else mp - 9)
      in (yoe + era * 400 + (if m \<le> 2 then 1 else 0), m, d))"

fun digits :: "nat \<Rightarrow> int \<Rightarrow> string" where
  "digits 0 n = []"
| "digits (Suc k) n = digits k (n div 10) @ [char_of (nat (48 + n mod 10))]"

definition rfc3339 :: "Time \<Rightarrow> string" where
  "rfc3339 t =
     (let s = t div 1000; days = s div 86400; r = s mod 86400 in
      case civil days of (y, m, d) \<Rightarrow>
        digits 4 y @ ''-'' @ digits 2 m @ ''-'' @ digits 2 d @ ''T'' @
        digits 2 (r div 3600) @ '':'' @ digits 2 (r div 60 mod 60) @ '':'' @ digits 2 (r mod 60) @ ''Z'')"

lemma rfc3339_samples:
  "rfc3339 0 = ''1970-01-01T00:00:00Z''"
  "rfc3339 zeroTime = ''0001-01-01T00:00:00Z''"
  "rfc3339 1709210096789 = ''2024-02-29T12:34:56Z''"
  by code_simp+

text \<open>\<^verbatim>\<open>fmt.Sprint\<close> of an integer.\<close>

definition intText :: "int \<Rightarrow> string" where
  "intText n = (if n < 0 then ''-'' @ natText (nat (- n)) else natText (nat n))"

section \<open>The lists\<close>

record kindSpec =
  collection :: string
  parentField :: string
  parentRequired :: bool
  requiredFields :: "string list"
  owned :: bool
  shareable :: bool

definition flat :: "string \<Rightarrow> kindSpec" where
  "flat c = \<lparr>collection = c, parentField = [], parentRequired = False, requiredFields = [],
     owned = False, shareable = False\<rparr>"

definition catalogKinds :: "(string \<times> kindSpec) list" where
  "catalogKinds =
     [(''brand'', (flat ''brands'')\<lparr>owned := True, shareable := True\<rparr>),
      (''cargoType'', (flat ''cargo_types'')\<lparr>owned := True, shareable := True\<rparr>),
      (''itemCategory'', (flat ''item_categories'')\<lparr>owned := True, shareable := True\<rparr>),
      (''itemSubCategory'', (flat ''item_sub_categories'')\<lparr>owned := True, parentField := ''categoryId'',
         parentRequired := True, shareable := True\<rparr>),
      (''item'', (flat ''items'')\<lparr>owned := True, parentField := ''cargoTypeId''\<rparr>),
      (''truckHead'', (flat ''truck_heads'')\<lparr>owned := True, shareable := True\<rparr>),
      (''truckBody'', (flat ''truck_bodies'')\<lparr>owned := True, shareable := True\<rparr>),
      (''truckClass'', (flat ''truck_classes'')\<lparr>owned := True, shareable := True\<rparr>),
      (''vehicleGroup'', (flat ''vehicle_groups'')\<lparr>owned := True\<rparr>),
      (''customer'', (flat ''customers'')\<lparr>owned := True\<rparr>),
      (''trackerModel'', (flat ''tracker_models'')\<lparr>requiredFields := [''vendor'', ''model'']\<rparr>),
      (''sensorType'', (flat ''sensor_types'')\<lparr>requiredFields := [''code'', ''name'']\<rparr>),
      (''truckType'', flat ''truck_types''),
      (''itemType'', flat ''item_types''),
      (''itemCharacter'', flat ''item_characters''),
      (''pricingType'', flat ''pricing_types''),
      (''paymentType'', flat ''payment_types''),
      (''currency'', flat ''currencies''),
      (''requirement'', flat ''requirements''),
      (''provinsi'', flat ''provinces''),
      (''kota'', (flat ''cities'')\<lparr>parentField := ''provinceId''\<rparr>),
      (''district'', (flat ''districts'')\<lparr>parentField := ''cityId''\<rparr>)]"

definition kindOf :: "string \<Rightarrow> kindSpec option" where
  "kindOf kind = map_of catalogKinds kind"

definition Shareable :: "string \<Rightarrow> bool" where
  "Shareable kind = (case kindOf kind of Some s \<Rightarrow> shareable s | None \<Rightarrow> False)"

text \<open>The order of the names is that of a Go map, so unspecified; the model takes the table's.\<close>

definition CatalogKinds :: "string list" where
  "CatalogKinds = map fst catalogKinds"

definition collectionName :: "string \<Rightarrow> string" where
  "collectionName name = Collection name"

section \<open>Entries\<close>

record CatalogEntry =
  ID :: string
  Kind :: string
  CompanyID :: "string option"
  Code :: string
  Name :: string
  Desc :: string
  Active :: bool
  Attrs :: payload
  CreatedAt :: string
  UpdatedAt :: string

definition formatTime :: "bson option \<Rightarrow> string" where
  "formatTime v = (case v of Some (BsonDate t) \<Rightarrow> rfc3339 t | _ \<Rightarrow> [])"

definition stringOf :: "bson option \<Rightarrow> string" where
  "stringOf v = (case v of Some (BsonString s) \<Rightarrow> s | _ \<Rightarrow> [])"

definition promoted :: "string list" where
  "promoted = [''name'', ''code'', ''description'', ''isActive'', ''companyId'', ''createdAt'', ''updatedAt'',
     ''deleted'', ''nameNormalised'']"

definition toEntry :: "(ObjectID \<Rightarrow> string) \<Rightarrow> string \<Rightarrow> Doc \<Rightarrow> CatalogEntry" where
  "toEntry hex kind doc =
     \<lparr>ID = hex (DocID doc), Kind = kind,
      CompanyID = (let owner = stringOf (field doc ''companyId'') in if owner = [] then None else Some owner),
      Code = stringOf (field doc ''code''),
      Name = stringOf (field doc ''name''),
      Desc = stringOf (field doc ''description''),
      Active = (case field doc ''isActive'' of Some (BsonBool b) \<Rightarrow> b | _ \<Rightarrow> True),
      Attrs = filter (\<lambda>(k, _). k \<notin> set promoted) (Fields doc),
      CreatedAt = formatTime (field doc ''createdAt''),
      UpdatedAt = formatTime (field doc ''updatedAt'')\<rparr>"

text \<open>
  What is cached is JSON: numbers come back as doubles, dates and object ids as their texts. The
  cache holds an entry, a list with its total, or a text that is neither; read as the other's
  struct, an object has none of the fields.
\<close>

datatype Bytes = EntryBytes CatalogEntry | ListBytes "CatalogEntry list" int | OtherBytes

fun jsonValue :: "BsonLib \<Rightarrow> (ObjectID \<Rightarrow> string) \<Rightarrow> bson \<Rightarrow> bson" where
  "jsonValue B hex (BsonInt n) = BsonDouble (of_int n)"
| "jsonValue B hex (BsonDate t) = BsonString (DateText B t)"
| "jsonValue B hex (BsonID i) = BsonString (hex i)"
| "jsonValue B hex (BsonArray vs) = BsonArray (map (jsonValue B hex) vs)"
| "jsonValue B hex v = v"

definition jsonEntry :: "BsonLib \<Rightarrow> (ObjectID \<Rightarrow> string) \<Rightarrow> CatalogEntry \<Rightarrow> CatalogEntry" where
  "jsonEntry B hex e = e\<lparr>Attrs := map (\<lambda>(k, v). (k, jsonValue B hex v)) (Attrs e)\<rparr>"

definition zeroEntry :: CatalogEntry where
  "zeroEntry = \<lparr>ID = [], Kind = [], CompanyID = None, Code = [], Name = [], Desc = [], Active = False,
     Attrs = [], CreatedAt = [], UpdatedAt = []\<rparr>"

fun unmarshalEntry :: "Bytes \<Rightarrow> CatalogEntry option" where
  "unmarshalEntry (EntryBytes e) = Some e"
| "unmarshalEntry (ListBytes es n) = Some zeroEntry"
| "unmarshalEntry OtherBytes = None"

fun unmarshalList :: "Bytes \<Rightarrow> (CatalogEntry list \<times> int) option" where
  "unmarshalList (ListBytes es n) = Some (es, n)"
| "unmarshalList (EntryBytes e) = Some ([], 0)"
| "unmarshalList OtherBytes = None"

end
