(* ===== verification/CatalogService.thy ===== *)
theory CatalogService
  imports Catalog
begin

text \<open>
  The operations of \<^verbatim>\<open>CatalogService\<close> and the generic writer behind them. A writer is
  the record of its three methods; \<open>storeWriter\<close> makes one of a list's struct and
  collection, as \<^verbatim>\<open>newWriter[T]\<close> does. A value of the struct is represented by the
  document it is stored as, so the store of \<^verbatim>\<open>internal/repository\<close> is used at
  documents.
\<close>

section \<open>The database of the catalogues\<close>

record 'w CatalogDB =
  catalogCol :: "string \<Rightarrow> ('w, Doc) Collection"
  fleetCol :: "('w, Vehicle) Collection"
  lib :: BsonLib
  memo :: "('w, Bytes) Cache"
  sys :: "'w Platform"

section \<open>The writer\<close>

record 'w writer =
  WriterCreate :: "string option \<Rightarrow> bool \<Rightarrow> payload \<Rightarrow> ('w, string) io"
  WriterUpdate :: "string \<Rightarrow> string option \<Rightarrow> payload \<Rightarrow> ('w, unit) io"
  WriterDelete :: "string \<Rightarrow> string option \<Rightarrow> ('w, unit) io"

definition decode :: "BsonLib \<Rightarrow> 'a Model \<Rightarrow> payload \<Rightarrow> error + 'a" where
  "decode B M m =
     (if \<not> Encodable B m then Inl (ErrValidation (FaultText B m))
      else (case decodeAt M B NilObjectID m of
              None \<Rightarrow> Inl (ErrValidation (FaultText B m)) | Some x \<Rightarrow> Inr x))"

text \<open>A method of the struct on the document of its value.\<close>

definition via :: "BsonLib \<Rightarrow> 'a Model \<Rightarrow> ('a \<Rightarrow> 'a) \<Rightarrow> Doc \<Rightarrow> Doc" where
  "via B M f d =
     (case decodeAt M B (DocID d) (Fields d) of None \<Rightarrow> d | Some x \<Rightarrow> d\<lparr>Fields := encode M (f x)\<rparr>)"

definition ownerOf :: "Doc \<Rightarrow> string" where
  "ownerOf d = stringOf (field d ''companyId'')"

definition retired :: "Doc \<Rightarrow> bool" where
  "retired d \<longleftrightarrow> (case field d ''deleted'' of Some (BsonBool b) \<Rightarrow> b | _ \<Rightarrow> False)"

definition setField :: "string \<Rightarrow> bson \<Rightarrow> Doc \<Rightarrow> Doc" where
  "setField k v d = d\<lparr>Fields := AList.update k v (Fields d)\<rparr>"

definition modelMethods :: "BsonLib \<Rightarrow> 'a Model \<Rightarrow> Doc Methods" where
  "modelMethods B M = \<lparr>BeforeWrite = via B M (beforeWrite M), Validate = (\<lambda>_. None),
     StampDoc = (\<lambda>now cr. via B M (stampWith M now cr)), IDOf = DocID,
     CompanyOf = (\<lambda>d. if ownerOf d = [] then None else Some (ownerOf d)), DeletedOf = retired,
     MarkDeleted = (\<lambda>now. setField ''deleted'' (BsonBool True)), AsStored = (\<lambda>d. d)\<rparr>"

lemma modelMethods_stored [simp]: "AsStored (modelMethods B M) d = d"
  by (simp add: modelMethods_def)

definition modelStore :: "'w CatalogDB \<Rightarrow> 'a Model \<Rightarrow> string \<Rightarrow> ('w, Doc) Store" where
  "modelStore D M name = \<lparr>col = catalogCol D (Collection name), methods = modelMethods (lib D) M\<rparr>"

definition reserved :: "string list" where
  "reserved = [''_id'', ''id'', ''createdAt'', ''updatedAt'', ''deleted'', ''nameNormalised'', ''plateNormalised'']"

definition preparePayload :: "string option \<Rightarrow> bool \<Rightarrow> payload \<Rightarrow> payload" where
  "preparePayload ownerID own payload =
     (let p = fold AList.delete reserved payload;
          p = AList.delete ''companyId'' p;
          p = (if own then AList.update ''companyId'' (ofOption BsonString ownerID) p else p)
      in if map_of p ''isActive'' = None then AList.update ''isActive'' (BsonBool True) p else p)"

definition nameTaken :: "error \<Rightarrow> error" where
  "nameTaken e = (if e = RepoErrDuplicate then ErrValidation ''an entry with that name already exists'' else e)"

definition writerCreate ::
  "'w CatalogDB \<Rightarrow> 'a Model \<Rightarrow> string \<Rightarrow> string option \<Rightarrow> bool \<Rightarrow> payload \<Rightarrow> ('w, string) io" where
  "writerCreate D M name ownerID own payload =
     andThen (lift (decode (lib D) M (preparePayload ownerID own payload))) (\<lambda>x.
     andThen (call (NewObjectID (sys D))) (\<lambda>i.
     andThen (onErr (Create (sys D) (modelStore D M name) \<lparr>DocID = i, Fields = encode M x\<rparr>) nameTaken) (\<lambda>_.
     ok (Hex (sys D) i))))"

text \<open>\<open>load\<close>: whose entry it is decides whether it may be changed, and what a refusal says.\<close>

definition load :: "('w, Doc) Collection \<Rightarrow> ObjectID \<Rightarrow> string option \<Rightarrow> ('w, Doc) io" where
  "load c i scope =
     andThen (FindOne c (\<lambda>d. DocID d = i \<and> \<not> retired d)) (\<lambda>x.
     case x of
       None \<Rightarrow> fail ErrNotFound
     | Some d \<Rightarrow>
         (case scope of
            None \<Rightarrow> ok d
          | Some co \<Rightarrow>
              if ownerOf d = [] then fail (ErrForbidden ''this entry is maintained by Karlo and cannot be changed here'')
              else if ownerOf d \<noteq> co then fail ErrNotFound
              else ok d))"

definition mergePayload :: "Doc \<Rightarrow> payload \<Rightarrow> payload" where
  "mergePayload existing payload =
     fold (\<lambda>(k, v) m. if k \<in> set (''companyId'' # reserved) then m else AList.update k v m)
       payload (Fields existing)"

definition writerUpdate ::
  "'w CatalogDB \<Rightarrow> 'a Model \<Rightarrow> string \<Rightarrow> string \<Rightarrow> string option \<Rightarrow> payload \<Rightarrow> ('w, unit) io" where
  "writerUpdate D M name ident scope payload =
     (case ObjectIDFromHex (sys D) ident of
        None \<Rightarrow> fail ErrNotFound
      | Some i \<Rightarrow>
          andThen (load (col (modelStore D M name)) i scope) (\<lambda>existing.
          andThen (lift (decode (lib D) M (mergePayload existing payload))) (\<lambda>x.
          andThen (onErr (Update (sys D) (modelStore D M name) i \<lparr>DocID = i, Fields = encode M x\<rparr>) nameTaken) (\<lambda>_.
          ok ()))))"

definition writerDelete ::
  "'w CatalogDB \<Rightarrow> 'a Model \<Rightarrow> string \<Rightarrow> string \<Rightarrow> string option \<Rightarrow> ('w, unit) io" where
  "writerDelete D M name ident scope =
     (case ObjectIDFromHex (sys D) ident of
        None \<Rightarrow> fail ErrNotFound
      | Some i \<Rightarrow>
          andThen (load (col (modelStore D M name)) i scope) (\<lambda>_.
          andThen (UpdateOne (col (modelStore D M name)) (\<lambda>d. DocID d = i) (setField ''deleted'' (BsonBool True))) (\<lambda>n.
          if n = 0 then fail ErrNotFound else ok ())))"

definition storeWriter :: "'w CatalogDB \<Rightarrow> 'a Model \<Rightarrow> string \<Rightarrow> 'w writer" where
  "storeWriter D M name = \<lparr>WriterCreate = writerCreate D M name, WriterUpdate = writerUpdate D M name,
     WriterDelete = writerDelete D M name\<rparr>"

definition newWriters :: "'w CatalogDB \<Rightarrow> string \<Rightarrow> 'w writer option" where
  "newWriters D kind = map_of
     [(''brand'', storeWriter D brandType ''brands''),
      (''cargoType'', storeWriter D cargoTypeType ''cargo_types''),
      (''itemCategory'', storeWriter D itemCategoryType ''item_categories''),
      (''itemSubCategory'', storeWriter D itemSubCategoryType ''item_sub_categories''),
      (''item'', storeWriter D itemType ''items''),
      (''truckHead'', storeWriter D truckHeadType ''truck_heads''),
      (''truckBody'', storeWriter D truckBodyType ''truck_bodies''),
      (''truckClass'', storeWriter D truckClassType ''truck_classes''),
      (''vehicleGroup'', storeWriter D vehicleGroupType ''vehicle_groups''),
      (''customer'', storeWriter D customerType ''customers''),
      (''trackerModel'', storeWriter D trackerModelType ''tracker_models''),
      (''sensorType'', storeWriter D sensorTypeType ''sensor_types'')] kind"

definition Writable :: "'w CatalogDB \<Rightarrow> string \<Rightarrow> bool" where
  "Writable D kind \<longleftrightarrow> newWriters D kind \<noteq> None"

section \<open>Cache keys\<close>

definition catalogTTL :: int where "catalogTTL = 15 * msPerMinute"

definition catalogScope :: "string \<Rightarrow> bool \<Rightarrow> string" where
  "catalogScope companyID platformStaff =
     (if platformStaff then ''staff'' else if companyID = [] then ''global'' else companyID)"

definition catalogEntryKey :: "string \<Rightarrow> string \<Rightarrow> string \<Rightarrow> string" where
  "catalogEntryKey scope kind ident = Cache.Key [''masterdata'', ''catalog'', scope, kind, ''id'', ident]"

fun operatorText :: "Operator \<Rightarrow> string" where
  "operatorText OpEq = ''eq''" | "operatorText OpNeq = ''neq''" | "operatorText OpLike = ''like''"
| "operatorText OpIn = ''in''" | "operatorText OpGt = ''gt''" | "operatorText OpGte = ''gte''"
| "operatorText OpLt = ''lt''" | "operatorText OpLte = ''lte''" | "operatorText OpBetween = ''between''"
| "operatorText opUnknown = ''?''"

definition shape :: "Params \<Rightarrow> string" where
  "shape p = Search p @
     concat (map (\<lambda>f. ''|f:'' @ Filter.Field f @ '':'' @ operatorText (Filter.Operator f) @ '':'' @ Filter.Value f) (Filters p)) @
     concat (map (\<lambda>s. ''|s:'' @ Sort.Field s @ '':'' @ boolText (Sort.Desc s)) (Sorts p))"

definition catalogListKey :: "string \<Rightarrow> string \<Rightarrow> string \<Rightarrow> Params \<Rightarrow> string" where
  "catalogListKey scope kind parentID p =
     Cache.Key [''masterdata'', ''catalog'', scope, kind, ''list'', if parentID = [] then ''-'' else parentID,
          intText (Page p), intText (PageSize p), Fingerprint (shape p)]"

definition invalidate :: "'w CatalogDB \<Rightarrow> string \<Rightarrow> string \<Rightarrow> bool \<Rightarrow> ('w, unit) io" where
  "invalidate D kind companyID platformStaff =
     (if platformStaff \<or> companyID = []
      then call (DeleteByPrefix (memo D) (Cache.Prefix [''masterdata'', ''catalog'']))
      else andThen (call (DeleteByPrefix (memo D) (Cache.Prefix [''masterdata'', ''catalog'', companyID, kind]))) (\<lambda>_.
           call (DeleteByPrefix (memo D) (Cache.Prefix [''masterdata'', ''catalog'', ''staff'', kind]))))"

section \<open>Writing\<close>

definition scopeFor :: "string \<Rightarrow> bool \<Rightarrow> string \<Rightarrow> string option" where
  "scopeFor callerCompanyID platformStaff requestedOwner =
     (if \<not> platformStaff then Some callerCompanyID
      else if TrimSpace requestedOwner = [] then None
      else Some (TrimSpace requestedOwner))"

definition scopeForEdit :: "string \<Rightarrow> bool \<Rightarrow> string option" where
  "scopeForEdit companyID platformStaff = (if platformStaff then None else Some companyID)"

definition notice :: "'w CatalogDB \<Rightarrow> string \<Rightarrow> string \<Rightarrow> string \<Rightarrow> string \<Rightarrow> ('w, unit) io" where
  "notice D kind companyID ident op =
     call (Publish (sys D) ChangeChannel
       \<lparr>NoticeKind = kind, NoticeCompany = companyID, NoticeID = ident, NoticeOp = op\<rparr>)"

definition announceGroup :: "'w CatalogDB \<Rightarrow> string \<Rightarrow> string \<Rightarrow> string \<Rightarrow> ('w, unit) io" where
  "announceGroup D kind ident op =
     (if kind \<noteq> ''vehicleGroup'' then ok ()
      else (case ObjectIDFromHex (sys D) ident of
        None \<Rightarrow> ok ()
      | Some i \<Rightarrow>
          andThen (attempt (FindOne (catalogCol D (Collection ''vehicle_groups'')) (\<lambda>d. DocID d = i))) (\<lambda>r.
          case r of
            Inr (Some d) \<Rightarrow>
              (case stringAt (lib D) (Fields d) ''companyId'' of
                 None \<Rightarrow> ok ()
               | Some companyID \<Rightarrow> notice D ''truckGroup'' companyID ident op)
          | _ \<Rightarrow> ok ())))"

definition ungroupVehicles :: "'w CatalogDB \<Rightarrow> string \<Rightarrow> string \<Rightarrow> ('w, unit) io" where
  "ungroupVehicles D kind groupID =
     (if kind \<noteq> ''vehicleGroup'' then ok ()
      else andThen (attempt (Find (fleetCol D) (\<lambda>v. Vehicle.TruckGroupID v = Some groupID) None)) (\<lambda>r.
        case r of
          Inl _ \<Rightarrow> ok ()
        | Inr rows \<Rightarrow>
            if rows = [] then ok ()
            else andThen (call (Now (sys D))) (\<lambda>now.
              andThen (attempt (UpdateMany (fleetCol D) (\<lambda>v. Vehicle.TruckGroupID v = Some groupID)
                 (\<lambda>v. v\<lparr>Vehicle.TruckGroupID := None, Base.UpdatedAt := now\<rparr>))) (\<lambda>u.
              case u of
                Inl _ \<Rightarrow> ok ()
              | Inr _ \<Rightarrow> forEach rows (\<lambda>v.
                  notice D ''vehicle'' (Vehicle.CompanyID v) (Hex (sys D) (Base.ID v)) ''update'')))))"

text \<open>The dash of two messages, as the bytes of its UTF-8 encoding.\<close>

definition emDash :: string where "emDash = [CHR 0xE2, CHR 0x80, CHR 0x94]"

definition payloadString :: "payload \<Rightarrow> string \<Rightarrow> string" where
  "payloadString p k = stringOf (map_of p k)"

definition requireFields :: "kindSpec \<Rightarrow> payload \<Rightarrow> error option" where
  "requireFields spec payload =
     (case List.find (\<lambda>f. TrimSpace (payloadString payload f) = [])
             (if requiredFields spec = [] then [''name''] else requiredFields spec) of
        Some f \<Rightarrow> Some (ErrValidation (f @ '' is required''))
      | None \<Rightarrow>
          if parentRequired spec \<and> TrimSpace (payloadString payload (parentField spec)) = []
          then Some (ErrValidation (''choose a parent first '' @ emDash @ '' '' @ parentField spec @ '' cannot be left empty''))
          else None)"

definition CatalogCreate ::
  "'w CatalogDB \<Rightarrow> string \<Rightarrow> string \<Rightarrow> bool \<Rightarrow> payload \<Rightarrow> ('w, string) io" where
  "CatalogCreate D kind companyID platformStaff payload =
     (case newWriters D kind of
        None \<Rightarrow>
          fail (if kindOf kind \<noteq> None then ErrValidation (quote kind @ '' is read-only'') else ErrUnknownKind (quote kind))
      | Some w \<Rightarrow>
          (let spec = (case kindOf kind of Some s \<Rightarrow> s | None \<Rightarrow> flat []) in
           case requireFields spec payload of
             Some e \<Rightarrow> fail e
           | None \<Rightarrow>
               if \<not> owned spec
               then if \<not> platformStaff then fail (ErrForbidden (quote kind @ '' is maintained by Karlo''))
                    else WriterCreate w None False payload
               else let owner = scopeFor companyID platformStaff (payloadString payload ''companyId'') in
                    if owner = None \<and> \<not> shareable spec
                    then fail (ErrValidation (quote kind @
                           '' entries belong to one company and cannot be shared '' @ emDash @ '' name an owner''))
                    else andThen (WriterCreate w owner True payload) (\<lambda>ident.
                         andThen (invalidate D kind companyID platformStaff) (\<lambda>_.
                         andThen (announceGroup D kind ident ''create'') (\<lambda>_.
                         ok ident)))))"

definition CatalogUpdate ::
  "'w CatalogDB \<Rightarrow> string \<Rightarrow> string \<Rightarrow> string \<Rightarrow> bool \<Rightarrow> payload \<Rightarrow> ('w, unit) io" where
  "CatalogUpdate D kind ident companyID platformStaff payload =
     (case newWriters D kind of
        None \<Rightarrow> fail (ErrValidation (quote kind @ '' is read-only''))
      | Some w \<Rightarrow>
          andThen (WriterUpdate w ident (scopeForEdit companyID platformStaff) payload) (\<lambda>_.
          andThen (invalidate D kind companyID platformStaff) (\<lambda>_.
          announceGroup D kind ident ''update'')))"

definition CatalogDelete ::
  "'w CatalogDB \<Rightarrow> string \<Rightarrow> string \<Rightarrow> string \<Rightarrow> bool \<Rightarrow> ('w, unit) io" where
  "CatalogDelete D kind ident companyID platformStaff =
     (case newWriters D kind of
        None \<Rightarrow> fail (ErrValidation (quote kind @ '' is read-only''))
      | Some w \<Rightarrow>
          andThen (WriterDelete w ident (scopeForEdit companyID platformStaff)) (\<lambda>_.
          andThen (invalidate D kind companyID platformStaff) (\<lambda>_.
          andThen (ungroupVehicles D kind ident) (\<lambda>_.
          announceGroup D kind ident ''delete''))))"

section \<open>Reading\<close>

definition ListTruckGroups :: "'w CatalogDB \<Rightarrow> string \<Rightarrow> ('w, VehicleGroup list) io" where
  "ListTruckGroups D companyID =
     andThen (Find (catalogCol D (Collection ''vehicle_groups''))
       (\<lambda>d. field d ''companyId'' = Some (BsonString companyID)) None) (\<lambda>ds.
     case those (map (\<lambda>d. VehicleGroup_decode (lib D) (DocID d) (Fields d)) ds) of
       None \<Rightarrow> fail (ErrDriver (MongoFault ''a document cannot be read''))
     | Some gs \<Rightarrow> ok gs)"

text \<open>\<open>visibility\<close>: null matches a field that is null or absent.\<close>

definition visibility :: "string \<Rightarrow> bool \<Rightarrow> Doc \<Rightarrow> bool" where
  "visibility companyID platformStaff d \<longleftrightarrow>
     platformStaff \<or>
     (case field d ''companyId'' of
        None \<Rightarrow> True
      | Some v \<Rightarrow> (case v of BsonNull \<Rightarrow> True
                 | BsonString s \<Rightarrow> companyID \<noteq> [] \<and> s = companyID
                 | _ \<Rightarrow> False))"

definition listFilter :: "'w CatalogDB \<Rightarrow> kindSpec \<Rightarrow> string \<Rightarrow> string \<Rightarrow> bool \<Rightarrow> Params \<Rightarrow> Doc \<Rightarrow> bool" where
  "listFilter D spec companyID parentID platformStaff p d \<longleftrightarrow>
     \<not> retired d \<and> visibility companyID platformStaff d \<and>
     (parentID \<noteq> [] \<longrightarrow> (case field d (parentField spec) of Some (BsonString s) \<Rightarrow> s = parentID | _ \<Rightarrow> False)) \<and>
     (Search p \<noteq> [] \<longrightarrow>
        (case field d ''nameNormalised'' of
           Some (BsonString s) \<Rightarrow> MatchRegex (sys D) [] (CHR ''^'' # escapeRegex (ToLower (Search p))) s
         | _ \<Rightarrow> False))"

definition marshalEntry :: "'w CatalogDB \<Rightarrow> CatalogEntry \<Rightarrow> Bytes option" where
  "marshalEntry D e = Some (EntryBytes (jsonEntry (lib D) (Hex (sys D)) e))"

definition marshalList :: "'w CatalogDB \<Rightarrow> CatalogEntry list \<times> int \<Rightarrow> Bytes option" where
  "marshalList D l = Some (ListBytes (map (jsonEntry (lib D) (Hex (sys D))) (fst l)) (snd l))"

definition CatalogList ::
  "'w CatalogDB \<Rightarrow> string \<Rightarrow> string \<Rightarrow> string \<Rightarrow> bool \<Rightarrow> Params \<Rightarrow> ('w, CatalogEntry list \<times> int) io" where
  "CatalogList D kind companyID parentID platformStaff p =
     (case kindOf kind of
        None \<Rightarrow> fail (ErrUnknownKind (quote kind @ '' (have: '' @ Join CatalogKinds '', '' @ '')''))
      | Some spec \<Rightarrow>
          (let listKey = catalogListKey (catalogScope companyID platformStaff) kind parentID p in
           andThen (GetJSON unmarshalList (memo D) listKey) (\<lambda>hit.
           case hit of
             Some l \<Rightarrow> ok l
           | None \<Rightarrow>
               if parentID \<noteq> [] \<and> parentField spec = []
               then fail (ErrValidation (quote kind @ '' entries have no parent''))
               else andThen (page (catalogCol D (collectionName (collection spec)))
                      (listFilter D spec companyID parentID platformStaff p) p) (\<lambda>(raw, total).
                    let out = map (toEntry (Hex (sys D)) kind) raw in
                    andThen (SetJSON (marshalList D) (memo D) listKey (out, total) catalogTTL) (\<lambda>_.
                    ok (out, total))))))"

definition CatalogGet ::
  "'w CatalogDB \<Rightarrow> string \<Rightarrow> string \<Rightarrow> string \<Rightarrow> bool \<Rightarrow> ('w, CatalogEntry) io" where
  "CatalogGet D kind ident companyID platformStaff =
     (case kindOf kind of
        None \<Rightarrow> fail (ErrUnknownKind (quote kind))
      | Some spec \<Rightarrow>
          (case ObjectIDFromHex (sys D) ident of
             None \<Rightarrow> fail ErrNotFound
           | Some i \<Rightarrow>
               (let entryKey = catalogEntryKey (catalogScope companyID platformStaff) kind ident in
                andThen (GetJSON unmarshalEntry (memo D) entryKey) (\<lambda>hit.
                case hit of
                  Some e \<Rightarrow> ok e
                | None \<Rightarrow>
                    andThen (FindOne (catalogCol D (collectionName (collection spec)))
                      (\<lambda>d. DocID d = i \<and> \<not> retired d \<and> visibility companyID platformStaff d)) (\<lambda>x.
                    case x of
                      None \<Rightarrow> fail ErrNotFound
                    | Some doc \<Rightarrow>
                        let entry = toEntry (Hex (sys D)) kind doc in
                        andThen (SetJSON (marshalEntry D) (memo D) entryKey entry catalogTTL) (\<lambda>_.
                        ok entry))))))"

text \<open>References are a list of ids per kind, in the order a Go map happens to give them.\<close>

type_synonym Refs = "(string \<times> string list) list"

fun resolveLoop ::
  "'w CatalogDB \<Rightarrow> string \<Rightarrow> Refs \<Rightarrow> (string \<rightharpoonup> CatalogEntry) \<Rightarrow> ('w, string \<rightharpoonup> CatalogEntry) io" where
  "resolveLoop D companyID [] out = ok out"
| "resolveLoop D companyID ((kind, ids) # refs) out =
     (case kindOf kind of
        None \<Rightarrow> fail (ErrUnknownKind (quote kind))
      | Some spec \<Rightarrow>
          (let oids = List.map_filter (ObjectIDFromHex (sys D)) ids in
           if oids = [] then resolveLoop D companyID refs out
           else andThen (Find (catalogCol D (collectionName (collection spec)))
                  (\<lambda>d. DocID d \<in> set oids \<and> \<not> retired d \<and> visibility companyID False d) None) (\<lambda>raw.
                resolveLoop D companyID refs
                  (fold (\<lambda>doc m. let e = toEntry (Hex (sys D)) kind doc in m(ID e \<mapsto> e)) raw out))))"

definition CatalogResolve :: "'w CatalogDB \<Rightarrow> string \<Rightarrow> Refs \<Rightarrow> ('w, string \<rightharpoonup> CatalogEntry) io" where
  "CatalogResolve D companyID refs = resolveLoop D companyID refs Map.empty"

definition CatalogValidate :: "'w CatalogDB \<Rightarrow> string \<Rightarrow> Refs \<Rightarrow> ('w, string list) io" where
  "CatalogValidate D companyID refs =
     andThen (CatalogResolve D companyID refs) (\<lambda>resolved.
     ok (filter (\<lambda>i. i \<noteq> [] \<and> resolved i = None) (concat (map snd refs))))"

end
