(* ===== verification/CatalogWriters.thy ===== *)
theory CatalogWriters
  imports CatalogService
begin

text \<open>
  What the generic writer does with each list's struct: the methods of the store act on the
  documents as they act on the values (\<open>written\<close>), the owner a payload carries is the owner of
  the document stored (\<open>ownedModel\<close>), and a named entry is stored with the normalised twin of
  its name (\<open>namedModel\<close>). \<open>writerOK\<close> is the contract of a writer as the service uses it,
  and every writer of the table keeps it.
\<close>

section \<open>Documents of a struct\<close>

definition written :: "'a Model \<Rightarrow> Time \<Rightarrow> bool \<Rightarrow> 'a \<Rightarrow> payload" where
  "written M now cr x = encode M (stampWith M now cr (beforeWrite M x))"

definition modelOK :: "BsonLib \<Rightarrow> 'a Model \<Rightarrow> bool" where
  "modelOK B M \<longleftrightarrow> (\<forall>i x. \<exists>y. decodeAt M B i (encode M x) = Some y \<and>
     encode M (beforeWrite M y) = encode M (beforeWrite M x) \<and>
     (\<forall>now cr. encode M (stampWith M now cr y) = encode M (stampWith M now cr x)))"

definition ownedModel :: "BsonLib \<Rightarrow> 'a Model \<Rightarrow> bool" where
  "ownedModel B M \<longleftrightarrow> (\<forall>i m x now cr s. decodeAt M B i m = Some x \<longrightarrow> map_of m ''companyId'' = Some (BsonString s) \<longrightarrow>
     map_of (written M now cr x) ''companyId'' = Some (BsonString s))"

definition sharedModel :: "BsonLib \<Rightarrow> 'a Model \<Rightarrow> bool" where
  "sharedModel B M \<longleftrightarrow> (\<forall>i m x now cr. decodeAt M B i m = Some x \<longrightarrow> map_of m ''companyId'' = Some BsonNull \<longrightarrow>
     map_of (written M now cr x) ''companyId'' = Some BsonNull)"

definition namedModel :: "'a Model \<Rightarrow> bool" where
  "namedModel M \<longleftrightarrow> (\<forall>x now cr. \<exists>n. map_of (written M now cr x) ''name'' = Some (BsonString n) \<and>
     map_of (written M now cr x) ''nameNormalised'' = Some (BsonString (Normalise.Name n)))"

lemma via_encode:
  assumes "modelOK B M"
  shows "via B M (beforeWrite M) \<lparr>DocID = i, Fields = encode M x\<rparr> = \<lparr>DocID = i, Fields = encode M (beforeWrite M x)\<rparr>"
    and "via B M (stampWith M now cr) \<lparr>DocID = i, Fields = encode M x\<rparr> = \<lparr>DocID = i, Fields = encode M (stampWith M now cr x)\<rparr>"
proof -
  obtain y where "decodeAt M B i (encode M x) = Some y" "encode M (beforeWrite M y) = encode M (beforeWrite M x)"
    "\<And>now cr. encode M (stampWith M now cr y) = encode M (stampWith M now cr x)"
    using assms unfolding modelOK_def by blast
  then show "via B M (beforeWrite M) \<lparr>DocID = i, Fields = encode M x\<rparr> = \<lparr>DocID = i, Fields = encode M (beforeWrite M x)\<rparr>"
    and "via B M (stampWith M now cr) \<lparr>DocID = i, Fields = encode M x\<rparr> = \<lparr>DocID = i, Fields = encode M (stampWith M now cr x)\<rparr>"
    by (simp_all add: via_def)
qed

lemma DocID_via [simp]: "DocID (via B M f d) = DocID d"
  by (simp add: via_def split: option.splits)

lemma DocID_setField [simp]: "DocID (setField k v d) = DocID d"
  by (simp add: setField_def)

lemma modelMethods_simps [simp]:
  "IDOf (modelMethods B M) = DocID" "BeforeWrite (modelMethods B M) = via B M (beforeWrite M)"
  "Validate (modelMethods B M) = (\<lambda>_. None)" "StampDoc (modelMethods B M) = (\<lambda>now cr. via B M (stampWith M now cr))"
  "MarkDeleted (modelMethods B M) = (\<lambda>now. setField ''deleted'' (BsonBool True))"
  by (simp_all add: modelMethods_def)

lemma modelStore_simps [simp]:
  "col (modelStore D M name) = catalogCol D name" "methods (modelStore D M name) = modelMethods (lib D) M"
  by (simp_all add: modelStore_def)

lemma stored_written:
  assumes "modelOK B M" and "stored (modelMethods B M) \<lparr>DocID = i, Fields = encode M x\<rparr> d"
  shows "\<exists>now cr. d = \<lparr>DocID = i, Fields = written M now cr x\<rparr>"
  using assms(2) by (auto simp: stored_def via_encode [OF assms(1)] written_def)

section \<open>The twelve structs\<close>

lemmas model_defs = brandType_def cargoTypeType_def itemCategoryType_def itemSubCategoryType_def itemType_def
  truckHeadType_def truckBodyType_def truckClassType_def vehicleGroupType_def customerType_def
  trackerModelType_def sensorTypeType_def

lemmas encode_defs = Base_encode_def Owned_encode_def Brand_encode_def CargoType_encode_def
  ItemCategory_encode_def ItemSubCategory_encode_def Item_encode_def TruckHead_encode_def TruckBody_encode_def
  TruckClass_encode_def VehicleGroup_encode_def Customer_encode_def TrackerModel_encode_def SensorType_encode_def

lemmas hook_defs = Brand_BeforeWrite_def CargoType_BeforeWrite_def ItemCategory_BeforeWrite_def
  ItemSubCategory_BeforeWrite_def Item_BeforeWrite_def TruckHead_BeforeWrite_def TruckBody_BeforeWrite_def
  TruckClass_BeforeWrite_def VehicleGroup_BeforeWrite_def Customer_BeforeWrite_def TrackerModel_BeforeWrite_def
  SensorType_BeforeWrite_def Stamp_def TrackerModel_Stamp_def SensorType_Stamp_def

lemmas struct_decode_defs = Base_decode_def Owned_decode_def Brand_decode_def CargoType_decode_def
  ItemCategory_decode_def ItemSubCategory_decode_def Item_decode_def TruckHead_decode_def TruckBody_decode_def
  TruckClass_decode_def VehicleGroup_decode_def Customer_decode_def

lemma namedModels:
  "namedModel brandType" "namedModel cargoTypeType" "namedModel itemCategoryType" "namedModel itemSubCategoryType"
  "namedModel truckHeadType" "namedModel truckBodyType" "namedModel truckClassType" "namedModel vehicleGroupType"
  "namedModel customerType"
  by (simp_all add: namedModel_def written_def model_defs encode_defs hook_defs Let_def)

context bson_lib
begin

lemma modelsOK_base:
  fixes enc :: "'a Base_scheme \<Rightarrow> payload"
  assumes "\<And>x. dec B (Base.ID x) (enc x) = Some x" and "\<And>i x. enc (x\<lparr>Base.ID := i\<rparr>) = enc x"
    and "\<And>i x. bw (x\<lparr>Base.ID := i\<rparr>) = (bw x)\<lparr>Base.ID := i\<rparr>"
  shows "modelOK B \<lparr>encode = enc, decodeAt = dec, beforeWrite = bw, stampWith = Stamp\<rparr>"
proof -
  have "dec B i (enc x) = Some (x\<lparr>Base.ID := i\<rparr>)" for i x
    using assms(1) [of "x\<lparr>Base.ID := i\<rparr>"] by (simp add: assms(2))
  moreover have "Stamp now cr (x\<lparr>Base.ID := i\<rparr>) = (Stamp now cr x)\<lparr>Base.ID := i\<rparr>" for now cr i and x :: "'a Base_scheme"
    by (simp add: Stamp_def Let_def)
  ultimately show ?thesis by (simp add: modelOK_def assms(2,3))
qed

lemma modelsOK:
  "modelOK B brandType" "modelOK B cargoTypeType" "modelOK B itemCategoryType" "modelOK B itemSubCategoryType"
  "modelOK B itemType" "modelOK B truckHeadType" "modelOK B truckBodyType" "modelOK B truckClassType"
  "modelOK B vehicleGroupType" "modelOK B customerType"
  unfolding model_defs
  by (rule modelsOK_base; (rule Brand_roundtrip CargoType_roundtrip ItemCategory_roundtrip
      ItemSubCategory_roundtrip Item_roundtrip TruckHead_roundtrip TruckBody_roundtrip TruckClass_roundtrip
      VehicleGroup_roundtrip Customer_roundtrip | simp add: encode_defs hook_defs))+

lemma ptrAt_string: "map_of m k = Some (BsonString s) \<Longrightarrow> ptrAt B m k = Some (Some s)"
  "map_of m k = Some BsonNull \<Longrightarrow> ptrAt B m k = Some None"
  by (simp_all add: pointerAt_def as_string)

text \<open>One lemma per struct, so that each proof unfolds one struct only.\<close>

lemma Owned_company:
  assumes "Owned_decode B i m = Some x" and "map_of m ''companyId'' = Some (BsonString s)"
  shows "Owned.CompanyID x = Some s"
  using assms by (auto simp: Owned_decode_def Base_decode_def ptrAt_string Base.defs Owned.defs split: bind_splits)

lemma Brand_owned: "ownedModel B brandType"
  by (auto simp: ownedModel_def written_def brandType_def Brand_encode_def Owned_encode_def Base_encode_def Brand_BeforeWrite_def
      Stamp_def Let_def ofOption_def Brand_decode_def Owned.defs Brand.defs dest!: Owned_company split: bind_splits)

lemma CargoType_owned: "ownedModel B cargoTypeType"
  by (auto simp: ownedModel_def written_def cargoTypeType_def CargoType_encode_def Owned_encode_def Base_encode_def CargoType_BeforeWrite_def
      Stamp_def Let_def ofOption_def CargoType_decode_def Owned.defs CargoType.defs dest!: Owned_company split: bind_splits)

lemma ItemCategory_owned: "ownedModel B itemCategoryType"
  by (auto simp: ownedModel_def written_def itemCategoryType_def ItemCategory_encode_def Owned_encode_def Base_encode_def ItemCategory_BeforeWrite_def
      Stamp_def Let_def ofOption_def ItemCategory_decode_def Owned.defs ItemCategory.defs dest!: Owned_company split: bind_splits)

lemma ItemSubCategory_owned: "ownedModel B itemSubCategoryType"
  by (auto simp: ownedModel_def written_def itemSubCategoryType_def ItemSubCategory_encode_def Owned_encode_def Base_encode_def ItemSubCategory_BeforeWrite_def
      Stamp_def Let_def ofOption_def ItemSubCategory_decode_def Owned.defs ItemSubCategory.defs dest!: Owned_company split: bind_splits)

lemma TruckHead_owned: "ownedModel B truckHeadType"
  by (auto simp: ownedModel_def written_def truckHeadType_def TruckHead_encode_def Owned_encode_def Base_encode_def TruckHead_BeforeWrite_def
      Stamp_def Let_def ofOption_def TruckHead_decode_def Owned.defs TruckHead.defs dest!: Owned_company split: bind_splits)

lemma TruckBody_owned: "ownedModel B truckBodyType"
  by (auto simp: ownedModel_def written_def truckBodyType_def TruckBody_encode_def Owned_encode_def Base_encode_def TruckBody_BeforeWrite_def
      Stamp_def Let_def ofOption_def TruckBody_decode_def Owned.defs TruckBody.defs dest!: Owned_company split: bind_splits)

lemma TruckClass_owned: "ownedModel B truckClassType"
  by (auto simp: ownedModel_def written_def truckClassType_def TruckClass_encode_def Owned_encode_def Base_encode_def TruckClass_BeforeWrite_def
      Stamp_def Let_def ofOption_def TruckClass_decode_def Owned.defs TruckClass.defs dest!: Owned_company split: bind_splits)

lemma Item_owned: "ownedModel B itemType"
  by (auto simp: ownedModel_def written_def itemType_def Item_encode_def Base_encode_def Item_BeforeWrite_def
      Stamp_def Let_def Item_decode_def as_string Base.defs Item.defs split: bind_splits)

lemma VehicleGroup_owned: "ownedModel B vehicleGroupType"
  by (auto simp: ownedModel_def written_def vehicleGroupType_def VehicleGroup_encode_def Base_encode_def VehicleGroup_BeforeWrite_def
      Stamp_def Let_def VehicleGroup_decode_def as_string Base.defs VehicleGroup.defs split: bind_splits)

lemma Customer_owned: "ownedModel B customerType"
  by (auto simp: ownedModel_def written_def customerType_def Customer_encode_def Base_encode_def Customer_BeforeWrite_def
      Stamp_def Let_def Customer_decode_def as_string Base.defs Customer.defs split: bind_splits)

lemmas ownedModels = Brand_owned CargoType_owned ItemCategory_owned ItemSubCategory_owned Item_owned TruckHead_owned
  TruckBody_owned TruckClass_owned VehicleGroup_owned Customer_owned

lemma TrackerModel_OK: "modelOK B trackerModelType"
proof -
  have "TrackerModel_decode B i (TrackerModel_encode x) = Some (x\<lparr>TrackerModel.ID := i,
      TrackerModel.Attributes := (case TrackerModel.Attributes x of None \<Rightarrow> None | Some a \<Rightarrow> if dom a = {} then None else Some a)\<rparr>)"
    for i x
    using TrackerModel_roundtrip [of "x\<lparr>TrackerModel.ID := i\<rparr>"] by (simp add: TrackerModel_encode_def)
  then show ?thesis
    by (auto simp: modelOK_def trackerModelType_def TrackerModel_encode_def hook_defs Let_def split: option.splits)
qed

lemma SensorType_OK: "modelOK B sensorTypeType"
proof -
  have "SensorType_decode B i (SensorType_encode x) = Some (x\<lparr>SensorType.ID := i\<rparr>)" for i x
    using SensorType_roundtrip [of "x\<lparr>SensorType.ID := i\<rparr>"] by (simp add: SensorType_encode_def)
  then show ?thesis
    by (auto simp: modelOK_def sensorTypeType_def SensorType_encode_def hook_defs Let_def split: option.splits)
qed

end

lemma unowned_models:
  "map_of (written trackerModelType now cr x) ''companyId'' = None"
  "map_of (written sensorTypeType now cr y) ''companyId'' = None"
  by (auto simp: written_def model_defs encode_defs hook_defs Let_def map_add_def split: option.splits)

section \<open>The contract of a writer\<close>

record CatalogData =
  Catalogues :: "string \<Rightarrow> Doc docs"
  Fleet :: "Vehicle docs"
  Cached :: "string \<rightharpoonup> Bytes"

definition putEntry :: "string \<Rightarrow> ObjectID \<Rightarrow> Doc \<Rightarrow> CatalogData \<Rightarrow> CatalogData" where
  "putEntry name i d v = v\<lparr>Catalogues := (Catalogues v)(name := (Catalogues v name)(i \<mapsto> d))\<rparr>"

definition ownedCollections :: "string list" where
  "ownedCollections = map (collection \<circ> snd) (filter (owned \<circ> snd) catalogKinds)"

definition namedCollections :: "string list" where
  "namedCollections = filter (\<lambda>c. c \<noteq> ''items'') ownedCollections"

definition named :: "Doc \<Rightarrow> bool" where
  "named d \<longleftrightarrow> (\<exists>n. field d ''name'' = Some (BsonString n) \<and>
     field d ''nameNormalised'' = Some (BsonString (Normalise.Name n)))"

text \<open>What a stored entry of a list looks like.\<close>

definition entryOK :: "string \<Rightarrow> Doc \<Rightarrow> bool" where
  "entryOK name d \<longleftrightarrow> (name \<in> set namedCollections \<longrightarrow> named d)"

text \<open>
  The unique indexes of \<^verbatim>\<open>schema/master_data.js\<close> on these collections; a key with a value
  that is neither a string nor null is left out, which promises less.
\<close>

definition keyText :: "bson option \<Rightarrow> string option option" where
  "keyText v = (case v of None \<Rightarrow> Some None | Some BsonNull \<Rightarrow> Some None | Some (BsonString s) \<Rightarrow> Some (Some s) | _ \<Rightarrow> None)"

definition keyOf :: "string list \<Rightarrow> Doc index" where
  "keyOf ks d = those (map (\<lambda>k. keyText (field d k)) ks)"

definition notDeleted :: "Doc \<Rightarrow> bool" where
  "notDeleted d \<longleftrightarrow> (case field d ''deleted'' of Some (BsonBool b) \<Rightarrow> \<not> b | _ \<Rightarrow> False)"

definition uq_global :: "Doc index" where
  "uq_global d = (if notDeleted d \<and> keyText (field d ''companyId'') = Some None then keyOf [''nameNormalised''] d else None)"

definition uq_company :: "Doc index" where
  "uq_company d = (if notDeleted d \<and> ownerOf d \<noteq> [] then keyOf [''companyId'', ''nameNormalised''] d else None)"

definition uq_live :: "string list \<Rightarrow> Doc index" where
  "uq_live ks d = (if notDeleted d then keyOf ks d else None)"

definition uq_item_code :: "Doc index" where
  "uq_item_code d = (if notDeleted d \<and> stringOf (field d ''codeNormalised'') \<noteq> []
     then keyOf [''companyId'', ''codeNormalised''] d else None)"

definition catalog_indexes :: "string \<Rightarrow> Doc index list" where
  "catalog_indexes name =
     (if name \<in> {''brands'', ''truck_heads'', ''truck_bodies'', ''truck_classes'', ''cargo_types'', ''item_categories''}
      then [uq_global, uq_company]
      else if name \<in> {''vehicle_groups'', ''customers''} then [uq_live [''companyId'', ''nameNormalised'']]
      else if name = ''item_sub_categories'' then [uq_live [''categoryId'', ''nameNormalised'']]
      else if name = ''items'' then [uq_item_code]
      else if name = ''tracker_models'' then [keyOf [''vendor'', ''model'']]
      else if name = ''sensor_types'' then [keyOf [''code'']]
      else [])"

definition mayChange :: "string option \<Rightarrow> Doc \<Rightarrow> bool" where
  "mayChange scope d \<longleftrightarrow> \<not> retired d \<and> (\<forall>co. scope = Some co \<longrightarrow> ownerOf d = co \<and> co \<noteq> [])"

definition creates :: "('w \<Rightarrow> bool) \<Rightarrow> ('w \<Rightarrow> CatalogData) \<Rightarrow> (ObjectID \<Rightarrow> string) \<Rightarrow> string \<Rightarrow> 'w writer \<Rightarrow> bool" where
  "creates good vw hex name w \<longleftrightarrow> (\<forall>owner own payload P Q E.
     (\<forall>v i d. P v \<longrightarrow> Catalogues v name i = None \<longrightarrow> i \<noteq> NilObjectID \<longrightarrow> DocID d = i \<longrightarrow> entryOK name d \<longrightarrow>
        indexed (catalog_indexes name) ((Catalogues v name)(i \<mapsto> d)) \<longrightarrow>
        (\<forall>s. own \<longrightarrow> owner = Some s \<longrightarrow> name \<in> set ownedCollections \<longrightarrow> field d ''companyId'' = Some (BsonString s)) \<longrightarrow>
        Q (hex i) (putEntry name i d v) \<and> E (putEntry name i d v)) \<longrightarrow>
     (\<forall>v. P v \<longrightarrow> E v) \<longrightarrow>
     triple (inWorld good vw P) (WriterCreate w owner own payload) (\<lambda>ident. inWorld good vw (Q ident)) (inWorld good vw E))"

definition updates :: "('w \<Rightarrow> bool) \<Rightarrow> ('w \<Rightarrow> CatalogData) \<Rightarrow> (string \<Rightarrow> ObjectID option) \<Rightarrow> string \<Rightarrow> 'w writer \<Rightarrow> bool" where
  "updates good vw fromHex name w \<longleftrightarrow> (\<forall>ident scope payload P Q E.
     (\<forall>v i d0 d. P v \<longrightarrow> fromHex ident = Some i \<longrightarrow> Catalogues v name i = Some d0 \<longrightarrow> mayChange scope d0 \<longrightarrow>
        DocID d = i \<longrightarrow> entryOK name d \<longrightarrow> indexed (catalog_indexes name) ((Catalogues v name)(i \<mapsto> d)) \<longrightarrow>
        (name \<in> set ownedCollections \<longrightarrow> ownerOf d0 \<noteq> [] \<longrightarrow> ownerOf d = ownerOf d0) \<longrightarrow>
        Q (putEntry name i d v) \<and> E (putEntry name i d v)) \<longrightarrow>
     (\<forall>v. P v \<longrightarrow> E v) \<longrightarrow>
     triple (inWorld good vw P) (WriterUpdate w ident scope payload) (\<lambda>_. inWorld good vw Q) (inWorld good vw E))"

definition deletes :: "('w \<Rightarrow> bool) \<Rightarrow> ('w \<Rightarrow> CatalogData) \<Rightarrow> (string \<Rightarrow> ObjectID option) \<Rightarrow> string \<Rightarrow> 'w writer \<Rightarrow> bool" where
  "deletes good vw fromHex name w \<longleftrightarrow> (\<forall>ident scope P Q E.
     (\<forall>v i d. P v \<longrightarrow> fromHex ident = Some i \<longrightarrow> Catalogues v name i = Some d \<longrightarrow> mayChange scope d \<longrightarrow>
        indexed (catalog_indexes name) ((Catalogues v name)(i \<mapsto> setField ''deleted'' (BsonBool True) d)) \<longrightarrow>
        Q (putEntry name i (setField ''deleted'' (BsonBool True) d) v) \<and>
        E (putEntry name i (setField ''deleted'' (BsonBool True) d) v)) \<longrightarrow>
     (\<forall>v. P v \<longrightarrow> E v) \<longrightarrow>
     triple (inWorld good vw P) (WriterDelete w ident scope) (\<lambda>_. inWorld good vw Q) (inWorld good vw E))"

definition writerOK where
  "writerOK good vw P name w \<longleftrightarrow>
     creates good vw (Hex P) name w \<and> updates good vw (ObjectIDFromHex P) name w \<and> deletes good vw (ObjectIDFromHex P) name w"

end
