(* ===== verification/CatalogDatabase.thy ===== *)
theory CatalogDatabase
  imports CatalogWriters
begin

text \<open>
  The contracts the catalogue service relies on (\<open>catalog_database\<close>: a collection per list, the
  vehicles, the cache, the driver's conversions and the platform), and the proof that every writer
  of the table keeps \<open>writerOK\<close> under them.
\<close>

locale catalog_database = platform good vw "sys D" + bson_lib "lib D"
  + cch: cache good vw "memo D" Cached "\<lambda>m v. v\<lparr>Cached := m\<rparr>"
  + flt: mongo_collection good vw "fleetCol D" Fleet "\<lambda>m v. v\<lparr>Fleet := m\<rparr>" Base.ID "\<lambda>i d. d\<lparr>Base.ID := i\<rparr>" vehicle_indexes
  for D :: "'w CatalogDB" and good :: "'w \<Rightarrow> bool" and vw :: "'w \<Rightarrow> CatalogData" +
  assumes lists: "mongo_collection good vw (catalogCol D name) (\<lambda>v. Catalogues v name)
      (\<lambda>m v. v\<lparr>Catalogues := (Catalogues v)(name := m)\<rparr>) DocID setDocID (catalog_indexes name)"
begin

lemma model_store:
  "store (modelStore D M name) (sys D) good vw (\<lambda>v. Catalogues v name)
     (\<lambda>m v. v\<lparr>Catalogues := (Catalogues v)(name := m)\<rparr>) setDocID (catalog_indexes name)"
  unfolding store_def store_axioms_def by (simp add: lists platform_axioms)

lemmas list_page = mongo_collection.page_triple [OF lists]
lemmas list_find = mongo_collection.find_triple [OF lists]
lemmas list_find_one = mongo_collection.find_one_triple [OF lists]

section \<open>Loading what may be changed\<close>

lemma load_triple:
  "triple (holds P) (load (catalogCol D name) i scope)
     (\<lambda>d. holds (\<lambda>v. P v \<and> Catalogues v name i = Some d \<and> mayChange scope d)) (holds P)"
  unfolding load_def
proof (rule triple_andThen [OF list_find_one])
  fix x
  show "triple (holds (\<lambda>v. P v \<and> foundOne DocID (\<lambda>d. DocID d = i \<and> \<not> retired d) (Catalogues v name) x))
      (case x of None \<Rightarrow> fail ErrNotFound
       | Some d \<Rightarrow> (case scope of None \<Rightarrow> ok d
           | Some co \<Rightarrow> if ownerOf d = [] then fail (ErrForbidden ''this entry is maintained by Karlo and cannot be changed here'')
                       else if ownerOf d \<noteq> co then fail ErrNotFound else ok d))
      (\<lambda>d. holds (\<lambda>v. P v \<and> Catalogues v name i = Some d \<and> mayChange scope d)) (holds P)"
    by (auto split: option.splits intro!: triple_ok triple_fail simp: inWorld_def foundOne_def mayChange_def)
qed

lemma updated_known:
  assumes "updated (\<lambda>x. DocID x = i) f m m'" and "m i = Some d0" and "\<And>j x. m j = Some x \<Longrightarrow> DocID x = j"
  shows "m' = m(i \<mapsto> f d0)"
proof -
  obtain j where j: "j \<in> matching (\<lambda>x. DocID x = i) m" and m': "m' = modify {j} (\<lambda>x. DocID x = i) f m"
    using assms(1) by (auto simp: updated_def)
  then have "j = i" using assms(3) by (auto simp: matching_def)
  then show ?thesis using m' assms(2,3) by (auto simp: fun_eq_iff modify_def option.map_ident)
qed

section \<open>The generic writer\<close>

lemma decode_Inr: "decode B M m = Inr x \<Longrightarrow> decodeAt M B NilObjectID m = Some x"
  by (auto simp: decode_def split: if_splits option.splits)

lemma prepared_owner:
  assumes "own" and "owner = Some s"
  shows "map_of (preparePayload owner own payload) ''companyId'' = Some (BsonString s)"
  using assms by (simp add: preparePayload_def Let_def ofOption_def update_conv')

lemma merged_owner: "map_of (mergePayload existing payload) ''companyId'' = field existing ''companyId''"
proof -
  have "map_of (fold (\<lambda>(k, v) m. if k \<in> set (''companyId'' # reserved) then m else AList.update k v m) payload m) ''companyId'' =
      map_of m ''companyId''" for m
    by (induction payload arbitrary: m) (auto simp: update_conv')
  then show ?thesis by (simp add: mergePayload_def field_def)
qed

definition structOK :: "string \<Rightarrow> 'a Model \<Rightarrow> bool" where
  "structOK name M \<longleftrightarrow> modelOK (lib D) M \<and> (name \<in> set ownedCollections \<longrightarrow> ownedModel (lib D) M) \<and>
     (name \<in> set namedCollections \<longrightarrow> namedModel M)"

lemma written_entry:
  assumes "structOK name M" and "decode (lib D) M m = Inr x"
  shows "entryOK name \<lparr>DocID = i, Fields = written M now cr x\<rparr>"
    and "name \<in> set ownedCollections \<Longrightarrow> map_of m ''companyId'' = Some (BsonString s) \<Longrightarrow>
      field \<lparr>DocID = i, Fields = written M now cr x\<rparr> ''companyId'' = Some (BsonString s)"
  using assms decode_Inr [OF assms(2)]
  by (auto simp: structOK_def entryOK_def named_def namedModel_def ownedModel_def field_def)

lemma storeWriter_creates:
  assumes "structOK name M"
  shows "creates good vw (Hex (sys D)) name (storeWriter D M name)"
  unfolding creates_def storeWriter_def writer.simps writerCreate_def
proof (intro allI impI)
  fix owner own payload P E and Q :: "string \<Rightarrow> CatalogData \<Rightarrow> bool"
  assume step: "\<forall>v i d. P v \<longrightarrow> Catalogues v name i = None \<longrightarrow> i \<noteq> NilObjectID \<longrightarrow> DocID d = i \<longrightarrow> entryOK name d \<longrightarrow>
      indexed (catalog_indexes name) ((Catalogues v name)(i \<mapsto> d)) \<longrightarrow>
      (\<forall>s. own \<longrightarrow> owner = Some s \<longrightarrow> name \<in> set ownedCollections \<longrightarrow> field d ''companyId'' = Some (BsonString s)) \<longrightarrow>
      Q (Hex (sys D) i) (putEntry name i d v) \<and> E (putEntry name i d v)"
    and none: "\<forall>v. P v \<longrightarrow> E v"
  let ?m = "preparePayload owner own payload"
  show "triple (holds P)
     (andThen (lift (decode (lib D) M ?m)) (\<lambda>x.
      andThen (call (NewObjectID (sys D))) (\<lambda>i.
      andThen (onErr (Create (sys D) (modelStore D M name) \<lparr>DocID = i, Fields = encode M x\<rparr>) nameTaken) (\<lambda>_.
      ok (Hex (sys D) i))))) (\<lambda>ident. holds (Q ident)) (holds E)"
  proof (rule triple_andThen [where Q' = "\<lambda>x. holds (\<lambda>v. P v \<and> decode (lib D) M ?m = Inr x)"])
    show "triple (holds P) (lift (decode (lib D) M ?m)) (\<lambda>x. holds (\<lambda>v. P v \<and> decode (lib D) M ?m = Inr x)) (holds E)"
      by (rule triple_lift) (auto simp: inWorld_def none)
  next
    fix x
    show "triple (holds (\<lambda>v. P v \<and> decode (lib D) M ?m = Inr x))
      (andThen (call (NewObjectID (sys D))) (\<lambda>i.
       andThen (onErr (Create (sys D) (modelStore D M name) \<lparr>DocID = i, Fields = encode M x\<rparr>) nameTaken) (\<lambda>_.
       ok (Hex (sys D) i)))) (\<lambda>ident. holds (Q ident)) (holds E)"
    proof (rule triple_andThen [OF new_id_triple])
      fix i
      let ?doc = "\<lparr>DocID = i, Fields = encode M x\<rparr>"
      let ?P = "\<lambda>v. (P v \<and> decode (lib D) M ?m = Inr x) \<and> i \<noteq> NilObjectID"
      have "triple (holds ?P) (Create (sys D) (modelStore D M name) ?doc) (\<lambda>d. holds (Q (Hex (sys D) i))) (holds E)"
      proof (rule store.Create_triple [OF model_store])
        fix v d j m'
        assume P: "?P v" and st: "stored (methods (modelStore D M name)) ?doc d"
          and ins: "inserted (IDOf (methods (modelStore D M name))) setDocID (AsStored (methods (modelStore D M name)) d) j (Catalogues v name) m'"
          and ix: "indexed (catalog_indexes name) m'"
        obtain now cr where d: "d = \<lparr>DocID = i, Fields = written M now cr x\<rparr>"
          using stored_written [of "lib D" M i x d] st assms by (auto simp: structOK_def)
        have ji: "j = i" "Catalogues v name i = None" "m' = (Catalogues v name)(i \<mapsto> d)"
          using ins P d by (auto simp: inserted_def setDocID_def)
        note e = written_entry [where i = i and now = now and cr = cr, OF assms conjunct2 [OF conjunct1 [OF P]]]
        have "\<forall>s. own \<longrightarrow> owner = Some s \<longrightarrow> name \<in> set ownedCollections \<longrightarrow> field d ''companyId'' = Some (BsonString s)"
          using e(2) prepared_owner d by blast
        then have "Q (Hex (sys D) i) (putEntry name i d v) \<and> E (putEntry name i d v)"
          using step P ji ix e(1) d by simp
        then show "Q (Hex (sys D) i) (v\<lparr>Catalogues := (Catalogues v)(name := m')\<rparr>) \<and>
            E (v\<lparr>Catalogues := (Catalogues v)(name := m')\<rparr>)"
          by (simp add: putEntry_def ji)
      qed (use none in auto)
      then show "triple (holds ?P)
        (andThen (onErr (Create (sys D) (modelStore D M name) ?doc) nameTaken) (\<lambda>_. ok (Hex (sys D) i)))
        (\<lambda>ident. holds (Q ident)) (holds E)"
        by (rule triple_andThen [OF triple_onErr]) (rule triple_ok)
    qed
  qed
qed

lemma storeWriter_updates:
  assumes "structOK name M"
  shows "updates good vw (ObjectIDFromHex (sys D)) name (storeWriter D M name)"
  unfolding updates_def storeWriter_def writer.simps writerUpdate_def
proof (intro allI impI)
  fix ident scope payload P Q E
  assume step: "\<forall>v i d0 d. P v \<longrightarrow> ObjectIDFromHex (sys D) ident = Some i \<longrightarrow> Catalogues v name i = Some d0 \<longrightarrow> mayChange scope d0 \<longrightarrow>
      DocID d = i \<longrightarrow> entryOK name d \<longrightarrow> indexed (catalog_indexes name) ((Catalogues v name)(i \<mapsto> d)) \<longrightarrow>
      (name \<in> set ownedCollections \<longrightarrow> ownerOf d0 \<noteq> [] \<longrightarrow> ownerOf d = ownerOf d0) \<longrightarrow>
      Q (putEntry name i d v) \<and> E (putEntry name i d v)"
    and none: "\<forall>v. P v \<longrightarrow> E v"
  show "triple (holds P) (case ObjectIDFromHex (sys D) ident of
        None \<Rightarrow> fail ErrNotFound
      | Some i \<Rightarrow>
          andThen (load (col (modelStore D M name)) i scope) (\<lambda>existing.
          andThen (lift (decode (lib D) M (mergePayload existing payload))) (\<lambda>x.
          andThen (onErr (Update (sys D) (modelStore D M name) i \<lparr>DocID = i, Fields = encode M x\<rparr>) nameTaken) (\<lambda>_.
          ok ())))) (\<lambda>_. holds Q) (holds E)"
  proof (cases "ObjectIDFromHex (sys D) ident")
    case None
    then show ?thesis by (auto intro!: triple_fail simp: inWorld_def none)
  next
    case (Some i)
    have "triple (holds P) (andThen (load (catalogCol D name) i scope) (\<lambda>existing.
          andThen (lift (decode (lib D) M (mergePayload existing payload))) (\<lambda>x.
          andThen (onErr (Update (sys D) (modelStore D M name) i \<lparr>DocID = i, Fields = encode M x\<rparr>) nameTaken) (\<lambda>_.
          ok ())))) (\<lambda>_. holds Q) (holds E)"
    proof (rule triple_andThen [where Q' = "\<lambda>d0. holds (\<lambda>v. P v \<and> Catalogues v name i = Some d0 \<and> mayChange scope d0)"])
      show "triple (holds P) (load (catalogCol D name) i scope)
          (\<lambda>d0. holds (\<lambda>v. P v \<and> Catalogues v name i = Some d0 \<and> mayChange scope d0)) (holds E)"
        by (rule triple_conseq [OF load_triple [where P = P]]) (auto simp: inWorld_def none)
    next
      fix d0
      let ?m = "mergePayload d0 payload"
      let ?P = "\<lambda>v. P v \<and> Catalogues v name i = Some d0 \<and> mayChange scope d0"
      show "triple (holds ?P) (andThen (lift (decode (lib D) M ?m)) (\<lambda>x.
          andThen (onErr (Update (sys D) (modelStore D M name) i \<lparr>DocID = i, Fields = encode M x\<rparr>) nameTaken) (\<lambda>_.
          ok ()))) (\<lambda>_. holds Q) (holds E)"
      proof (rule triple_andThen [where Q' = "\<lambda>x. holds (\<lambda>v. ?P v \<and> decode (lib D) M ?m = Inr x)"])
        show "triple (holds ?P) (lift (decode (lib D) M ?m)) (\<lambda>x. holds (\<lambda>v. ?P v \<and> decode (lib D) M ?m = Inr x)) (holds E)"
          by (rule triple_lift) (auto simp: inWorld_def none)
      next
        fix x
        let ?doc = "\<lparr>DocID = i, Fields = encode M x\<rparr>"
        have "triple (holds (\<lambda>v. ?P v \<and> decode (lib D) M ?m = Inr x))
            (Update (sys D) (modelStore D M name) i ?doc) (\<lambda>_. holds Q) (holds E)"
        proof (rule store.Update_triple [OF model_store])
          fix v d m'
          assume P: "?P v \<and> decode (lib D) M ?m = Inr x"
            and keys: "\<And>j x. Catalogues v name j = Some x \<Longrightarrow> IDOf (methods (modelStore D M name)) x = j"
            and st: "stored (methods (modelStore D M name)) ?doc d"
            and up: "updated (\<lambda>x. IDOf (methods (modelStore D M name)) x = i) (\<lambda>_. AsStored (methods (modelStore D M name)) d) (Catalogues v name) m'"
            and ix: "indexed (catalog_indexes name) m'"
          obtain now cr where d: "d = \<lparr>DocID = i, Fields = written M now cr x\<rparr>"
            using stored_written [of "lib D" M i x d] st assms by (auto simp: structOK_def)
          have m': "m' = (Catalogues v name)(i \<mapsto> d)"
            using updated_known [of i "\<lambda>_. d" "Catalogues v name" m' d0] up keys P by simp
          note e = written_entry [where i = i and now = now and cr = cr, OF assms conjunct2 [OF P]]
          have "name \<in> set ownedCollections \<longrightarrow> ownerOf d0 \<noteq> [] \<longrightarrow> ownerOf d = ownerOf d0"
          proof (intro impI)
            assume n: "name \<in> set ownedCollections" and o: "ownerOf d0 \<noteq> []"
            then have "field d0 ''companyId'' = Some (BsonString (ownerOf d0))"
              by (auto simp: ownerOf_def stringOf_def split: option.splits bson.splits)
            then have "field d ''companyId'' = Some (BsonString (ownerOf d0))"
              using e(2) [OF n] d by (simp add: merged_owner)
            then show "ownerOf d = ownerOf d0" by (simp add: ownerOf_def stringOf_def)
          qed
          then have "Q (putEntry name i d v) \<and> E (putEntry name i d v)"
            using step P Some ix m' e(1) d by simp
          then show "Q (v\<lparr>Catalogues := (Catalogues v)(name := m')\<rparr>) \<and> E (v\<lparr>Catalogues := (Catalogues v)(name := m')\<rparr>)"
            by (simp add: putEntry_def m')
        qed (use none in auto)
        then show "triple (holds (\<lambda>v. ?P v \<and> decode (lib D) M ?m = Inr x))
            (andThen (onErr (Update (sys D) (modelStore D M name) i ?doc) nameTaken) (\<lambda>_. ok ())) (\<lambda>_. holds Q) (holds E)"
          by (rule triple_andThen [OF triple_onErr]) (rule triple_ok)
      qed
    qed
    then show ?thesis by (simp add: Some)
  qed
qed

lemma storeWriter_deletes: "deletes good vw (ObjectIDFromHex (sys D)) name (storeWriter D M name)"
  unfolding deletes_def storeWriter_def writer.simps writerDelete_def
proof (intro allI impI)
  fix ident scope P Q E
  assume step: "\<forall>v i d. P v \<longrightarrow> ObjectIDFromHex (sys D) ident = Some i \<longrightarrow> Catalogues v name i = Some d \<longrightarrow> mayChange scope d \<longrightarrow>
      indexed (catalog_indexes name) ((Catalogues v name)(i \<mapsto> setField ''deleted'' (BsonBool True) d)) \<longrightarrow>
      Q (putEntry name i (setField ''deleted'' (BsonBool True) d) v) \<and>
      E (putEntry name i (setField ''deleted'' (BsonBool True) d) v)"
    and none: "\<forall>v. P v \<longrightarrow> E v"
  let ?f = "setField ''deleted'' (BsonBool True)"
  show "triple (holds P) (case ObjectIDFromHex (sys D) ident of
        None \<Rightarrow> fail ErrNotFound
      | Some i \<Rightarrow>
          andThen (load (col (modelStore D M name)) i scope) (\<lambda>_.
          andThen (UpdateOne (col (modelStore D M name)) (\<lambda>d. DocID d = i) ?f) (\<lambda>n.
          if n = 0 then fail ErrNotFound else ok ()))) (\<lambda>_. holds Q) (holds E)"
  proof (cases "ObjectIDFromHex (sys D) ident")
    case None
    then show ?thesis by (auto intro!: triple_fail simp: inWorld_def none)
  next
    case (Some i)
    have "triple (holds P) (andThen (load (catalogCol D name) i scope) (\<lambda>_.
          andThen (UpdateOne (catalogCol D name) (\<lambda>d. DocID d = i) ?f) (\<lambda>n.
          if n = 0 then fail ErrNotFound else ok ()))) (\<lambda>_. holds Q) (holds E)"
    proof (rule triple_andThen [where Q' = "\<lambda>d. holds (\<lambda>v. P v \<and> Catalogues v name i = Some d \<and> mayChange scope d)"])
      show "triple (holds P) (load (catalogCol D name) i scope)
          (\<lambda>d. holds (\<lambda>v. P v \<and> Catalogues v name i = Some d \<and> mayChange scope d)) (holds E)"
        by (rule triple_conseq [OF load_triple [where P = P]]) (auto simp: inWorld_def none)
    next
      fix d
      let ?P = "\<lambda>v. P v \<and> Catalogues v name i = Some d \<and> mayChange scope d"
      show "triple (holds ?P) (andThen (UpdateOne (catalogCol D name) (\<lambda>d. DocID d = i) ?f) (\<lambda>n.
          if n = 0 then fail ErrNotFound else ok ())) (\<lambda>_. holds Q) (holds E)"
      proof (rule triple_andThen [where Q' = "\<lambda>n. holds (\<lambda>v. if n = 0 then E v else Q v)"])
        show "triple (holds ?P) (UpdateOne (catalogCol D name) (\<lambda>d. DocID d = i) ?f)
            (\<lambda>n. holds (\<lambda>v. if n = 0 then E v else Q v)) (holds E)"
        proof (rule mongo_collection.update_one_triple [OF lists])
          fix v m' assume P: "?P v" and keys: "\<And>j x. Catalogues v name j = Some x \<Longrightarrow> DocID x = j"
            and up: "updated (\<lambda>d. DocID d = i) ?f (Catalogues v name) m'" and ix: "indexed (catalog_indexes name) m'"
          have m': "m' = (Catalogues v name)(i \<mapsto> ?f d)" using updated_known [OF up] P keys by blast
          then show "(if (1::int) = 0 then E (v\<lparr>Catalogues := (Catalogues v)(name := m')\<rparr>)
              else Q (v\<lparr>Catalogues := (Catalogues v)(name := m')\<rparr>)) \<and> E (v\<lparr>Catalogues := (Catalogues v)(name := m')\<rparr>)"
            using step P Some ix by (simp add: putEntry_def)
        qed (use none in auto)
      next
        fix n :: int
        show "triple (holds (\<lambda>v. if n = 0 then E v else Q v)) (if n = 0 then fail ErrNotFound else ok ()) (\<lambda>_. holds Q) (holds E)"
          by (auto intro!: triple_ok triple_fail)
      qed
    qed
    then show ?thesis by (simp add: Some)
  qed
qed

lemma storeWriter_OK: "structOK name M \<Longrightarrow> writerOK good vw (sys D) name (storeWriter D M name)"
  by (simp add: writerOK_def storeWriter_creates storeWriter_updates storeWriter_deletes)

section \<open>The table of writers\<close>

lemma collections:
  "ownedCollections = [''brands'', ''cargo_types'', ''item_categories'', ''item_sub_categories'', ''items'', ''truck_heads'',
     ''truck_bodies'', ''truck_classes'', ''vehicle_groups'', ''customers'']"
  "namedCollections = [''brands'', ''cargo_types'', ''item_categories'', ''item_sub_categories'', ''truck_heads'',
     ''truck_bodies'', ''truck_classes'', ''vehicle_groups'', ''customers'']"
  by (simp_all add: namedCollections_def ownedCollections_def catalogKinds_def flat_def)

lemma structsOK:
  "structOK ''brands'' brandType" "structOK ''cargo_types'' cargoTypeType" "structOK ''item_categories'' itemCategoryType"
  "structOK ''item_sub_categories'' itemSubCategoryType" "structOK ''items'' itemType" "structOK ''truck_heads'' truckHeadType"
  "structOK ''truck_bodies'' truckBodyType" "structOK ''truck_classes'' truckClassType"
  "structOK ''vehicle_groups'' vehicleGroupType" "structOK ''customers'' customerType"
  "structOK ''tracker_models'' trackerModelType" "structOK ''sensor_types'' sensorTypeType"
  by (simp_all add: structOK_def collections modelsOK ownedModels namedModels TrackerModel_OK SensorType_OK)

lemma writers:
  assumes "newWriters D kind = Some w"
  obtains spec where "kindOf kind = Some spec" "writerOK good vw (sys D) (collection spec) w"
proof -
  have "\<exists>spec. kindOf kind = Some spec \<and> writerOK good vw (sys D) (collection spec) w"
    using assms unfolding newWriters_def kindOf_def catalogKinds_def
    by (auto split: if_splits simp: flat_def intro!: storeWriter_OK structsOK)
  then show ?thesis using that by blast
qed

end

end
