(* ===== verification/CatalogMachine.thy ===== *)
theory CatalogMachine
  imports CatalogDatabase
begin

text \<open>
  The requests of the catalogue service and the abstract machine they run on. \<open>catalog_step\<close>
  says what a caller may do to the lists, the fleet and the cache in one step; every request of a
  caller, whether it succeeds or fails, is a sequence of such steps.
\<close>

section \<open>Requests\<close>

lemma triple_result:
  "triple P m Q E \<Longrightarrow> P w \<Longrightarrow> (case fst (m w) of Inr x \<Rightarrow> Q x (snd (m w)) | Inl e \<Rightarrow> E (snd (m w)))"
  by (cases "m w") (auto split: sum.splits dest: triple_InrD triple_InlD)

datatype CatalogRequest =
    AskCreate string payload
  | AskUpdate string string payload
  | AskDelete string string
  | AskList string string Params
  | AskGet string string

record Caller =
  Company :: string
  Staff :: bool

definition finished :: "(error + 'a) \<times> 'w \<Rightarrow> bool \<times> 'w" where
  "finished rw = (case rw of (Inl e, w) \<Rightarrow> (False, w) | (Inr x, w) \<Rightarrow> (True, w))"

fun performCatalog :: "'w CatalogDB \<Rightarrow> Caller \<Rightarrow> CatalogRequest \<Rightarrow> 'w \<Rightarrow> bool \<times> 'w" where
  "performCatalog D c (AskCreate kind payload) w = finished (CatalogCreate D kind (Company c) (Staff c) payload w)"
| "performCatalog D c (AskUpdate kind ident payload) w = finished (CatalogUpdate D kind ident (Company c) (Staff c) payload w)"
| "performCatalog D c (AskDelete kind ident) w = finished (CatalogDelete D kind ident (Company c) (Staff c) w)"
| "performCatalog D c (AskList kind parentID p) w = finished (CatalogList D kind (Company c) parentID (Staff c) p w)"
| "performCatalog D c (AskGet kind ident) w = finished (CatalogGet D kind ident (Company c) (Staff c) w)"

fun serveCatalog :: "'w CatalogDB \<Rightarrow> (Caller \<times> CatalogRequest) list \<Rightarrow> 'w \<Rightarrow> 'w" where
  "serveCatalog D [] w = w"
| "serveCatalog D ((c, r) # rs) w = serveCatalog D rs (snd (performCatalog D c r w))"

section \<open>The machine\<close>

fun entriesOf :: "Bytes \<Rightarrow> CatalogEntry set" where
  "entriesOf (EntryBytes e) = {e}"
| "entriesOf (ListBytes es n) = set es"
| "entriesOf OtherBytes = {}"

definition visibleEntry :: "Caller \<Rightarrow> CatalogEntry \<Rightarrow> bool" where
  "visibleEntry c e \<longleftrightarrow> Staff c \<or> CatalogEntry.CompanyID e = None \<or> CatalogEntry.CompanyID e = Some (Company c)"

definition scopeKey :: "Caller \<Rightarrow> string \<Rightarrow> string list \<Rightarrow> string" where
  "scopeKey c kind rest = Cache.Key (''masterdata'' # ''catalog'' # catalogScope (Company c) (Staff c) # kind # rest)"

inductive catalog_step :: "(string \<Rightarrow> ObjectID option) \<Rightarrow> Caller \<Rightarrow> CatalogData \<Rightarrow> CatalogData \<Rightarrow> bool"
  for fromHex :: "string \<Rightarrow> ObjectID option" and c :: Caller where
  added: "Catalogues v name i = None \<Longrightarrow> i \<noteq> NilObjectID \<Longrightarrow> DocID d = i \<Longrightarrow> entryOK name d \<Longrightarrow>
      indexed (catalog_indexes name) ((Catalogues v name)(i \<mapsto> d)) \<Longrightarrow>
      (\<not> Staff c \<Longrightarrow> name \<in> set ownedCollections \<and> ownerOf d = Company c) \<Longrightarrow>
      catalog_step fromHex c v (putEntry name i d v)"
| changed: "Catalogues v name i = Some d0 \<Longrightarrow> mayChange (scopeForEdit (Company c) (Staff c)) d0 \<Longrightarrow> DocID d = i \<Longrightarrow>
      entryOK name d \<Longrightarrow> indexed (catalog_indexes name) ((Catalogues v name)(i \<mapsto> d)) \<Longrightarrow>
      (name \<in> set ownedCollections \<Longrightarrow> ownerOf d0 \<noteq> [] \<Longrightarrow> ownerOf d = ownerOf d0) \<Longrightarrow>
      catalog_step fromHex c v (putEntry name i d v)"
| withdrawn: "Catalogues v name i = Some d \<Longrightarrow> mayChange (scopeForEdit (Company c) (Staff c)) d \<Longrightarrow>
      indexed (catalog_indexes name) ((Catalogues v name)(i \<mapsto> setField ''deleted'' (BsonBool True) d)) \<Longrightarrow>
      catalog_step fromHex c v (putEntry name i (setField ''deleted'' (BsonBool True) d) v)"
| ungrouped: "fromHex g = Some i \<Longrightarrow> Catalogues v ''vehicle_groups'' i = Some d \<Longrightarrow> retired d \<Longrightarrow>
      catalog_step fromHex c v (v\<lparr>Fleet := modify S (\<lambda>x. Vehicle.TruckGroupID x = Some g)
        (\<lambda>x. x\<lparr>Vehicle.TruckGroupID := None, Base.UpdatedAt := now\<rparr>) (Fleet v)\<rparr>)"
| forgot: "catalog_step fromHex c v (v\<lparr>Cached := Cached v |` K\<rparr>)"
| remembered: "(\<And>e. e \<in> entriesOf b \<Longrightarrow> visibleEntry c e) \<Longrightarrow>
      catalog_step fromHex c v (v\<lparr>Cached := (Cached v)(scopeKey c kind rest \<mapsto> b)\<rparr>)"

lemma catalog_step_cases:
  assumes "catalog_step fromHex c v v'"
  obtains (store) name i d where "v' = putEntry name i d v"
      "\<And>d0. Catalogues v name i = Some d0 \<Longrightarrow> mayChange (scopeForEdit (Company c) (Staff c)) d0"
    | (fleet) f where "v' = v\<lparr>Fleet := f\<rparr>"
    | (drop) K where "v' = v\<lparr>Cached := Cached v |` K\<rparr>"
    | (keep) b kind rest where "v' = v\<lparr>Cached := (Cached v)(scopeKey c kind rest \<mapsto> b)\<rparr>"
        "\<And>e. e \<in> entriesOf b \<Longrightarrow> visibleEntry c e"
  using assms by cases (auto intro: that)

lemma putEntry_simps [simp]:
  "Catalogues (putEntry name i d v) n = (if n = name then (Catalogues v name)(i \<mapsto> d) else Catalogues v n)"
  "Fleet (putEntry name i d v) = Fleet v" "Cached (putEntry name i d v) = Cached v"
  by (simp_all add: putEntry_def)

section \<open>Every request is a sequence of steps\<close>

lemma toEntry_owner: "CatalogEntry.CompanyID (toEntry hex kind d) = (if ownerOf d = [] then None else Some (ownerOf d))"
  by (simp add: toEntry_def ownerOf_def Let_def)

lemma jsonEntry_simps [simp]:
  "CatalogEntry.CompanyID (jsonEntry B hex e) = CatalogEntry.CompanyID e"
  "CatalogEntry.ID (jsonEntry B hex e) = CatalogEntry.ID e"
  by (simp_all add: jsonEntry_def)

lemma visibility_entry: "visibility (Company c) (Staff c) d \<Longrightarrow> visibleEntry c (toEntry hex kind d)"
  by (auto simp: visibility_def visibleEntry_def toEntry_owner ownerOf_def stringOf_def split: option.splits bson.splits)

lemma collectionName_id [simp]: "collectionName name = name"
  by (simp add: collectionName_def)

lemma visibility_json: "visibility (Company c) (Staff c) d \<Longrightarrow> visibleEntry c (jsonEntry B hex (toEntry hex' kind d))"
  using visibility_entry by (simp add: visibleEntry_def)

lemma AList_update_retired [simp]: "retired (setField ''deleted'' (BsonBool True) d)"
  by (simp add: retired_def setField_def field_def update_conv')

context catalog_database
begin

abbreviation moved :: "Caller \<Rightarrow> CatalogData \<Rightarrow> CatalogData \<Rightarrow> bool" where
  "moved c v0 \<equiv> (catalog_step (ObjectIDFromHex (sys D)) c)\<^sup>*\<^sup>* v0"

lemma moved_step: "moved c v0 v \<Longrightarrow> catalog_step (ObjectIDFromHex (sys D)) c v v' \<Longrightarrow> moved c v0 v'"
  by (rule rtranclp.rtrancl_into_rtrancl)

lemma moved_forgot: "moved c v0 v \<Longrightarrow> moved c v0 (v\<lparr>Cached := Cached v |` K\<rparr>)"
  by (erule moved_step) (rule forgot)

lemma invalidate_triple:
  assumes "\<And>v K. P v \<Longrightarrow> P (v\<lparr>Cached := Cached v |` K\<rparr>)"
  shows "triple (holds P) (invalidate D kind co st) (\<lambda>_. holds P) (holds E)"
  unfolding invalidate_def
  by (rule triple_if, rule cch.sweep_triple, erule assms,
      rule triple_andThen [where Q' = "\<lambda>_. holds P"]; rule cch.sweep_triple, erule assms)

lemma notice_triple: "triple (holds P) (notice D kind co ident op) (\<lambda>_. holds P) (holds E)"
  unfolding notice_def by (rule publish_triple)

lemma announceGroup_triple: "triple (holds P) (announceGroup D kind ident op) (\<lambda>_. holds P) (holds P)"
proof -
  have "triple (holds P) (andThen (attempt (FindOne (catalogCol D (Collection ''vehicle_groups'')) (\<lambda>d. DocID d = i))) (\<lambda>r.
          case r of
            Inr (Some d) \<Rightarrow>
              (case stringAt (lib D) (Fields d) ''companyId'' of
                 None \<Rightarrow> ok ()
               | Some companyID \<Rightarrow> notice D ''truckGroup'' companyID ident op)
          | _ \<Rightarrow> ok ())) (\<lambda>_. holds P) (holds P)" for i
  proof (rule triple_andThen [where Q' = "\<lambda>_. holds P"])
    show "triple (holds P) (attempt (FindOne (catalogCol D (Collection ''vehicle_groups'')) (\<lambda>d. DocID d = i))) (\<lambda>_. holds P) (holds P)"
      by (rule triple_attempt, rule triple_conseq [OF list_find_one [where P = P]]) (auto simp: inWorld_def)
  qed (auto split: sum.splits option.splits intro!: triple_ok notice_triple)
  then show ?thesis unfolding announceGroup_def by (auto split: option.splits intro!: triple_ok)
qed

lemma ungroupVehicles_triple:
  assumes "\<And>v S now. P v \<Longrightarrow> P (v\<lparr>Fleet := modify S (\<lambda>x. Vehicle.TruckGroupID x = Some g)
      (\<lambda>x. x\<lparr>Vehicle.TruckGroupID := None, Base.UpdatedAt := now\<rparr>) (Fleet v)\<rparr>)"
  shows "triple (holds P) (ungroupVehicles D kind g) (\<lambda>_. holds P) (holds P)"
proof -
  have upd: "triple (holds P) (attempt (UpdateMany (fleetCol D) (\<lambda>v. Vehicle.TruckGroupID v = Some g)
      (\<lambda>v. v\<lparr>Vehicle.TruckGroupID := None, Base.UpdatedAt := now\<rparr>))) (\<lambda>_. holds P) (holds P)" for now
    by (rule triple_attempt, rule triple_conseq, rule flt.update_many_triple [where P = P and Q = "\<lambda>_. P" and E = P])
      (auto intro: assms simp: inWorld_def)
  have rows: "triple (holds P) (andThen (call (Now (sys D))) (\<lambda>now.
      andThen (attempt (UpdateMany (fleetCol D) (\<lambda>v. Vehicle.TruckGroupID v = Some g)
         (\<lambda>v. v\<lparr>Vehicle.TruckGroupID := None, Base.UpdatedAt := now\<rparr>))) (\<lambda>u.
      case u of Inl _ \<Rightarrow> ok ()
      | Inr _ \<Rightarrow> forEach rows (\<lambda>v. notice D ''vehicle'' (Vehicle.CompanyID v) (Hex (sys D) (Base.ID v)) ''update''))))
      (\<lambda>_. holds P) (holds P)" for rows
    by (rule triple_andThen [OF now_triple], rule triple_andThen [OF upd])
      (auto split: sum.splits intro!: triple_ok triple_forEach notice_triple)
  show ?thesis unfolding ungroupVehicles_def
  proof (rule triple_if)
    show "triple (holds P) (andThen (attempt (Find (fleetCol D) (\<lambda>v. Vehicle.TruckGroupID v = Some g) None)) (\<lambda>r.
        case r of Inl _ \<Rightarrow> ok ()
        | Inr rows \<Rightarrow> if rows = [] then ok () else andThen (call (Now (sys D))) (\<lambda>now.
            andThen (attempt (UpdateMany (fleetCol D) (\<lambda>v. Vehicle.TruckGroupID v = Some g)
               (\<lambda>v. v\<lparr>Vehicle.TruckGroupID := None, Base.UpdatedAt := now\<rparr>))) (\<lambda>u.
            case u of Inl _ \<Rightarrow> ok ()
            | Inr _ \<Rightarrow> forEach rows (\<lambda>v. notice D ''vehicle'' (Vehicle.CompanyID v) (Hex (sys D) (Base.ID v)) ''update'')))))
        (\<lambda>_. holds P) (holds P)"
    proof (rule triple_andThen [where Q' = "\<lambda>_. holds P"])
      show "triple (holds P) (attempt (Find (fleetCol D) (\<lambda>v. Vehicle.TruckGroupID v = Some g) None)) (\<lambda>_. holds P) (holds P)"
        by (rule triple_attempt, rule triple_conseq [OF flt.find_triple [where P = P]]) (auto simp: inWorld_def)
    qed (auto split: sum.splits intro!: triple_ok rows)
  qed (auto intro!: triple_ok)
qed

text \<open>A read answers from the cache, or from the database and then caches the answer.\<close>

lemma List_triple:
  assumes hit: "\<And>v b l. P v \<Longrightarrow> Cached v (catalogListKey (catalogScope co st) kind parentID p) = Some b \<Longrightarrow>
      unmarshalList b = Some l \<Longrightarrow> Q l v"
    and forget: "\<And>v K. P v \<Longrightarrow> P (v\<lparr>Cached := Cached v |` K\<rparr>)"
    and miss: "\<And>spec v ds. P v \<Longrightarrow> kindOf kind = Some spec \<Longrightarrow> (parentID \<noteq> [] \<Longrightarrow> parentField spec \<noteq> []) \<Longrightarrow>
      found DocID (listFilter D spec co parentID st p) (Some (findOptions p)) (Catalogues v (collection spec)) ds \<Longrightarrow>
      Q (map (toEntry (Hex (sys D)) kind) ds, int (card (matching (listFilter D spec co parentID st p) (Catalogues v (collection spec))))) v \<and>
      Q (map (toEntry (Hex (sys D)) kind) ds, int (card (matching (listFilter D spec co parentID st p) (Catalogues v (collection spec)))))
        (v\<lparr>Cached := (Cached v)(catalogListKey (catalogScope co st) kind parentID p \<mapsto>
           ListBytes (map (jsonEntry (lib D) (Hex (sys D)) \<circ> toEntry (Hex (sys D)) kind) ds)
             (int (card (matching (listFilter D spec co parentID st p) (Catalogues v (collection spec))))))\<rparr>)"
    and fail: "\<And>v. P v \<Longrightarrow> E v"
  shows "triple (holds P) (CatalogList D kind co parentID st p) (\<lambda>l. holds (Q l)) (holds E)"
proof (cases "kindOf kind")
  case None
  then show ?thesis unfolding CatalogList_def by (auto intro!: triple_fail simp: inWorld_def fail)
next
  case (Some spec)
  let ?k = "catalogListKey (catalogScope co st) kind parentID p"
  let ?f = "listFilter D spec co parentID st p"
  let ?H = "\<lambda>hit v. P v \<and> (\<forall>l. hit = Some l \<longrightarrow> Q l v)"
  have get: "triple (holds P) (GetJSON unmarshalList (memo D) ?k) (\<lambda>hit. holds (?H hit)) (holds E)"
    by (rule cch.GetJSON_triple) (auto intro: hit forget)
  let ?read = "andThen (page (catalogCol D (collection spec)) ?f p) (\<lambda>(raw, total).
      andThen (SetJSON (marshalList D) (memo D) ?k (map (toEntry (Hex (sys D)) kind) raw, total) catalogTTL) (\<lambda>_.
      ok (map (toEntry (Hex (sys D)) kind) raw, total)))"
  have read: "triple (holds P) ?read (\<lambda>l. holds (Q l)) (holds E)" if field: "parentID \<noteq> [] \<Longrightarrow> parentField spec \<noteq> []"
  proof (rule triple_andThen [where Q' = "\<lambda>(ds, n). holds (\<lambda>v. P v \<and>
        found DocID ?f (Some (findOptions p)) (Catalogues v (collection spec)) ds \<and>
        n = int (card (matching ?f (Catalogues v (collection spec)))))"])
    show "triple (holds P) (page (catalogCol D (collection spec)) ?f p) (\<lambda>(ds, n). holds (\<lambda>v. P v \<and>
        found DocID ?f (Some (findOptions p)) (Catalogues v (collection spec)) ds \<and>
        n = int (card (matching ?f (Catalogues v (collection spec)))))) (holds E)"
      by (rule triple_conseq [OF list_page [where P = P]]) (auto simp: inWorld_def fail)
    fix x :: "Doc list \<times> int"
    obtain raw total where x: "x = (raw, total)" by force
    show "triple ((\<lambda>(ds, n). holds (\<lambda>v. P v \<and> found DocID ?f (Some (findOptions p)) (Catalogues v (collection spec)) ds \<and>
          n = int (card (matching ?f (Catalogues v (collection spec)))))) x)
        (case x of (raw, total) \<Rightarrow> andThen (SetJSON (marshalList D) (memo D) ?k (map (toEntry (Hex (sys D)) kind) raw, total) catalogTTL)
          (\<lambda>_. ok (map (toEntry (Hex (sys D)) kind) raw, total))) (\<lambda>l. holds (Q l)) (holds E)"
      unfolding x case_prod_conv
    proof (rule triple_andThen [where Q' = "\<lambda>_. holds (Q (map (toEntry (Hex (sys D)) kind) raw, total))"],
        rule cch.SetJSON_triple)
      fix v assume "P v \<and> found DocID ?f (Some (findOptions p)) (Catalogues v (collection spec)) raw \<and>
          total = int (card (matching ?f (Catalogues v (collection spec))))"
      note miss' = miss [OF conjunct1 [OF this] Some field conjunct1 [OF conjunct2 [OF this]]] conjunct2 [OF conjunct2 [OF this]]
      then show "Q (map (toEntry (Hex (sys D)) kind) raw, total) v" by simp
      fix b assume "marshalList D (map (toEntry (Hex (sys D)) kind) raw, total) = Some b"
      with miss' show "Q (map (toEntry (Hex (sys D)) kind) raw, total) (v\<lparr>Cached := (Cached v)(?k \<mapsto> b)\<rparr>)"
        by (auto simp: marshalList_def)
    qed (rule triple_ok)
  qed
  show ?thesis
    unfolding CatalogList_def Some option.case Let_def collectionName_id
  proof (rule triple_andThen [OF get])
    fix hit
    show "triple (holds (?H hit)) (case hit of Some l \<Rightarrow> ok l
        | None \<Rightarrow> if parentID \<noteq> [] \<and> parentField spec = [] then fail (ErrValidation (quote kind @ '' entries have no parent''))
            else ?read) (\<lambda>l. holds (Q l)) (holds E)"
    proof (cases hit)
      case None
      have "triple (holds P) (if parentID \<noteq> [] \<and> parentField spec = [] then fail (ErrValidation (quote kind @ '' entries have no parent''))
          else ?read) (\<lambda>l. holds (Q l)) (holds E)"
        by (rule triple_if) (auto intro!: triple_fail read simp: inWorld_def fail)
      then show ?thesis by (simp add: None)
    qed (auto intro!: triple_ok simp: inWorld_def)
  qed
qed

lemma Get_triple:
  assumes hit: "\<And>v b e. P v \<Longrightarrow> Cached v (catalogEntryKey (catalogScope co st) kind ident) = Some b \<Longrightarrow>
      unmarshalEntry b = Some e \<Longrightarrow> Q e v"
    and forget: "\<And>v K. P v \<Longrightarrow> P (v\<lparr>Cached := Cached v |` K\<rparr>)"
    and miss: "\<And>spec v i d. P v \<Longrightarrow> kindOf kind = Some spec \<Longrightarrow> ObjectIDFromHex (sys D) ident = Some i \<Longrightarrow>
      Catalogues v (collection spec) i = Some d \<Longrightarrow> \<not> retired d \<Longrightarrow> visibility co st d \<Longrightarrow>
      Q (toEntry (Hex (sys D)) kind d) v \<and>
      Q (toEntry (Hex (sys D)) kind d) (v\<lparr>Cached := (Cached v)(catalogEntryKey (catalogScope co st) kind ident \<mapsto>
           EntryBytes (jsonEntry (lib D) (Hex (sys D)) (toEntry (Hex (sys D)) kind d)))\<rparr>)"
    and fail: "\<And>v. P v \<Longrightarrow> E v"
  shows "triple (holds P) (CatalogGet D kind ident co st) (\<lambda>e. holds (Q e)) (holds E)"
proof (cases "kindOf kind = None \<or> ObjectIDFromHex (sys D) ident = None")
  case True
  then show ?thesis unfolding CatalogGet_def by (auto split: option.splits intro!: triple_fail simp: inWorld_def fail)
next
  case False
  then obtain spec i where Some: "kindOf kind = Some spec" "ObjectIDFromHex (sys D) ident = Some i" by auto
  let ?k = "catalogEntryKey (catalogScope co st) kind ident"
  let ?f = "\<lambda>d. DocID d = i \<and> \<not> retired d \<and> visibility co st d"
  let ?H = "\<lambda>hit v. P v \<and> (\<forall>e. hit = Some e \<longrightarrow> Q e v)"
  let ?e = "toEntry (Hex (sys D)) kind"
  have get: "triple (holds P) (GetJSON unmarshalEntry (memo D) ?k) (\<lambda>hit. holds (?H hit)) (holds E)"
    by (rule cch.GetJSON_triple) (auto intro: hit forget)
  let ?read = "andThen (FindOne (catalogCol D (collection spec)) ?f) (\<lambda>x.
      case x of None \<Rightarrow> fail ErrNotFound
      | Some doc \<Rightarrow> andThen (SetJSON (marshalEntry D) (memo D) ?k (?e doc) catalogTTL) (\<lambda>_. ok (?e doc)))"
  have read: "triple (holds P) ?read (\<lambda>e. holds (Q e)) (holds E)"
  proof (rule triple_andThen [where Q' = "\<lambda>x. holds (\<lambda>v. P v \<and> foundOne DocID ?f (Catalogues v (collection spec)) x)"])
    show "triple (holds P) (FindOne (catalogCol D (collection spec)) ?f)
        (\<lambda>x. holds (\<lambda>v. P v \<and> foundOne DocID ?f (Catalogues v (collection spec)) x)) (holds E)"
      by (rule triple_conseq [OF list_find_one [where P = P]]) (auto simp: inWorld_def fail)
    fix x
    show "triple (holds (\<lambda>v. P v \<and> foundOne DocID ?f (Catalogues v (collection spec)) x))
        (case x of None \<Rightarrow> fail ErrNotFound
         | Some doc \<Rightarrow> andThen (SetJSON (marshalEntry D) (memo D) ?k (?e doc) catalogTTL) (\<lambda>_. ok (?e doc)))
        (\<lambda>e. holds (Q e)) (holds E)"
    proof (cases x)
      case (Some doc)
      show ?thesis unfolding Some option.case
      proof (rule triple_andThen [where Q' = "\<lambda>_. holds (Q (?e doc))"], rule cch.SetJSON_triple)
        fix v assume v: "P v \<and> foundOne DocID ?f (Catalogues v (collection spec)) (Some doc)"
        then have "Catalogues v (collection spec) i = Some doc" "\<not> retired doc" "visibility co st doc"
          by (auto simp: foundOne_def)
        note miss' = miss [OF conjunct1 [OF v] \<open>kindOf kind = Some spec\<close> \<open>ObjectIDFromHex (sys D) ident = Some i\<close> this]
        then show "Q (?e doc) v" ..
        fix b assume "marshalEntry D (?e doc) = Some b"
        with miss' show "Q (?e doc) (v\<lparr>Cached := (Cached v)(?k \<mapsto> b)\<rparr>)" by (auto simp: marshalEntry_def)
      qed (rule triple_ok)
    qed (auto intro!: triple_fail simp: inWorld_def fail)
  qed
  show ?thesis
    unfolding CatalogGet_def Some option.case Let_def collectionName_id
  proof (rule triple_andThen [OF get])
    fix hit
    show "triple (holds (?H hit)) (case hit of Some e \<Rightarrow> ok e | None \<Rightarrow> ?read) (\<lambda>e. holds (Q e)) (holds E)"
      by (cases hit) (use read in \<open>auto intro!: triple_ok simp: inWorld_def\<close>)
  qed
qed

lemma Create_moved:
  "triple (holds (moved c v0)) (CatalogCreate D kind (Company c) (Staff c) payload) (\<lambda>_. holds (moved c v0)) (holds (moved c v0))"
proof (cases "newWriters D kind")
  case None
  then show ?thesis unfolding CatalogCreate_def by (auto intro!: triple_fail)
next
  case (Some w)
  then obtain spec where spec: "kindOf kind = Some spec" and w: "writerOK good vw (sys D) (collection spec) w" by (rule writers)
  note create = w [unfolded writerOK_def, THEN conjunct1, unfolded creates_def, rule_format]
  have own: "collection spec \<in> set ownedCollections" if "owned spec"
    using spec that by (force simp: kindOf_def ownedCollections_def dest: map_of_SomeD)
  have karlo: "triple (holds (moved c v0)) (WriterCreate w None False payload) (\<lambda>_. holds (moved c v0)) (holds (moved c v0))"
    if "Staff c"
    by (rule create) (auto intro!: moved_step [OF _ added] simp: that)
  have company: "triple (holds (moved c v0)) (andThen (WriterCreate w owner True payload) (\<lambda>ident.
       andThen (invalidate D kind (Company c) (Staff c)) (\<lambda>_.
       andThen (announceGroup D kind ident ''create'') (\<lambda>_. ok ident)))) (\<lambda>_. holds (moved c v0)) (holds (moved c v0))"
    if "owned spec" and o: "owner = scopeFor (Company c) (Staff c) requested" for owner requested
  proof (rule triple_andThen [where Q' = "\<lambda>_. holds (moved c v0)"])
    have "ownerOf d = Company c" if "field d ''companyId'' = Some (BsonString (Company c))" for d
      using that by (simp add: ownerOf_def stringOf_def)
    then show "triple (holds (moved c v0)) (WriterCreate w owner True payload) (\<lambda>_. holds (moved c v0)) (holds (moved c v0))"
      using own [OF \<open>owned spec\<close>] o
      by (intro create) (auto intro!: moved_step [OF _ added] simp: scopeFor_def)
    show "triple (holds (moved c v0)) (andThen (invalidate D kind (Company c) (Staff c)) (\<lambda>_.
       andThen (announceGroup D kind ident ''create'') (\<lambda>_. ok ident))) (\<lambda>_. holds (moved c v0)) (holds (moved c v0))" for ident
      by (rule triple_andThen [OF invalidate_triple], erule moved_forgot, rule triple_andThen [OF announceGroup_triple]) (rule triple_ok)
  qed
  show ?thesis
  proof (cases "requireFields spec payload")
    case None
    show ?thesis
      unfolding CatalogCreate_def Some spec None option.case Let_def
      by (rule triple_if, rule triple_if, rule triple_fail, assumption, rule karlo, simp,
          rule triple_if, rule triple_fail, assumption, rule company [OF _ refl], simp)
  qed (simp add: CatalogCreate_def Some spec triple_fail)
qed

lemma Update_moved:
  "triple (holds (moved c v0)) (CatalogUpdate D kind ident (Company c) (Staff c) payload) (\<lambda>_. holds (moved c v0)) (holds (moved c v0))"
proof (cases "newWriters D kind")
  case None
  then show ?thesis unfolding CatalogUpdate_def by (auto intro!: triple_fail)
next
  case (Some w)
  then obtain spec where spec: "kindOf kind = Some spec" and w: "writerOK good vw (sys D) (collection spec) w" by (rule writers)
  note update = w [unfolded writerOK_def, THEN conjunct2, THEN conjunct1, unfolded updates_def, rule_format]
  have "triple (holds (moved c v0)) (WriterUpdate w ident (scopeForEdit (Company c) (Staff c)) payload)
      (\<lambda>_. holds (moved c v0)) (holds (moved c v0))"
    by (rule update) (auto intro!: moved_step [OF _ changed])
  then show ?thesis
    unfolding CatalogUpdate_def Some option.case
    by (rule triple_andThen) (rule triple_andThen [OF invalidate_triple], erule moved_forgot, rule announceGroup_triple)
qed

lemma Delete_moved:
  "triple (holds (moved c v0)) (CatalogDelete D kind ident (Company c) (Staff c)) (\<lambda>_. holds (moved c v0)) (holds (moved c v0))"
proof (cases "newWriters D kind")
  case None
  then show ?thesis unfolding CatalogDelete_def by (auto intro!: triple_fail)
next
  case (Some w)
  then obtain spec where spec: "kindOf kind = Some spec" and w: "writerOK good vw (sys D) (collection spec) w" by (rule writers)
  note delete = w [unfolded writerOK_def, THEN conjunct2, THEN conjunct2, unfolded deletes_def, rule_format]
  let ?P = "\<lambda>v. moved c v0 v \<and> (kind = ''vehicleGroup'' \<longrightarrow>
     (\<exists>i d. ObjectIDFromHex (sys D) ident = Some i \<and> Catalogues v ''vehicle_groups'' i = Some d \<and> retired d))"
  have group: "collection spec = ''vehicle_groups''" if "kind = ''vehicleGroup''"
    using spec that by (auto simp: kindOf_def catalogKinds_def flat_def)
  have del: "triple (holds (moved c v0)) (WriterDelete w ident (scopeForEdit (Company c) (Staff c))) (\<lambda>_. holds ?P) (holds (moved c v0))"
    by (rule delete) (auto intro!: moved_step [OF _ withdrawn] simp: group)
  have inv: "triple (holds ?P) (invalidate D kind (Company c) (Staff c)) (\<lambda>_. holds ?P) (holds (moved c v0))"
    by (rule invalidate_triple) (auto intro: moved_forgot)
  have ung: "triple (holds ?P) (ungroupVehicles D kind ident) (\<lambda>_. holds (moved c v0)) (holds (moved c v0))"
  proof (cases "kind = ''vehicleGroup''")
    case True
    have "triple (holds ?P) (ungroupVehicles D kind ident) (\<lambda>_. holds ?P) (holds ?P)"
      by (rule ungroupVehicles_triple) (auto simp: True intro!: moved_step [OF _ ungrouped])
    then show ?thesis by (rule triple_conseq) (auto simp: inWorld_def)
  next
    case False
    then show ?thesis by (auto simp: ungroupVehicles_def inWorld_def intro!: triple_ok)
  qed
  show ?thesis
    unfolding CatalogDelete_def Some option.case
    by (rule triple_andThen [OF del], rule triple_andThen [OF inv], rule triple_andThen [OF ung], rule announceGroup_triple)
qed

lemma set_moved: "moved c v0 v \<Longrightarrow> (\<And>e. e \<in> entriesOf b \<Longrightarrow> visibleEntry c e) \<Longrightarrow>
    moved c v0 (v\<lparr>Cached := (Cached v)(scopeKey c kind rest \<mapsto> b)\<rparr>)"
  by (erule moved_step) (rule remembered)

lemma keys_scoped:
  "catalogListKey (catalogScope (Company c) (Staff c)) kind parentID p = scopeKey c kind [''list'',
     if parentID = [] then ''-'' else parentID, intText (Page p), intText (PageSize p), Fingerprint (shape p)]"
  "catalogEntryKey (catalogScope (Company c) (Staff c)) kind ident = scopeKey c kind [''id'', ident]"
  by (simp_all add: catalogListKey_def catalogEntryKey_def scopeKey_def)

lemma List_moved:
  "triple (holds (moved c v0)) (CatalogList D kind (Company c) parentID (Staff c) p) (\<lambda>_. holds (moved c v0)) (holds (moved c v0))"
proof (rule List_triple)
  fix spec v ds assume m: "moved c v0 v" and f: "found DocID (listFilter D spec (Company c) parentID (Staff c) p)
    (Some (findOptions p)) (Catalogues v (collection spec)) ds"
  let ?b = "ListBytes (map (jsonEntry (lib D) (Hex (sys D)) \<circ> toEntry (Hex (sys D)) kind) ds)
    (int (card (matching (listFilter D spec (Company c) parentID (Staff c) p) (Catalogues v (collection spec)))))"
  have "visibleEntry c e" if "e \<in> entriesOf ?b" for e
    using that f by (auto simp: found_def listFilter_def intro!: visibility_json)
  with m show "moved c v0 v \<and>
      moved c v0 (v\<lparr>Cached := (Cached v)(catalogListKey (catalogScope (Company c) (Staff c)) kind parentID p \<mapsto> ?b)\<rparr>)"
    unfolding keys_scoped by (auto intro: set_moved)
qed (auto intro: moved_forgot)

lemma Get_moved:
  "triple (holds (moved c v0)) (CatalogGet D kind ident (Company c) (Staff c)) (\<lambda>_. holds (moved c v0)) (holds (moved c v0))"
proof (rule Get_triple)
  fix spec v i d assume m: "moved c v0 v" and d: "visibility (Company c) (Staff c) d"
  let ?b = "EntryBytes (jsonEntry (lib D) (Hex (sys D)) (toEntry (Hex (sys D)) kind d))"
  have "visibleEntry c e" if "e \<in> entriesOf ?b" for e
    using that d by (auto intro!: visibility_json)
  with m show "moved c v0 v \<and>
      moved c v0 (v\<lparr>Cached := (Cached v)(catalogEntryKey (catalogScope (Company c) (Staff c)) kind ident \<mapsto> ?b)\<rparr>)"
    unfolding keys_scoped by (auto intro: set_moved)
qed (auto intro: moved_forgot)

lemma finished_snd: "snd (finished rw) = snd rw"
  by (auto simp: finished_def split: prod.splits sum.splits)

lemma request_moved:
  assumes "good w"
  shows "good (snd (performCatalog D c r w)) \<and> moved c (vw w) (vw (snd (performCatalog D c r w)))"
proof -
  have "holds (moved c (vw w)) w" using assms by (simp add: inWorld_def)
  then have "triple (holds (moved c (vw w))) m (\<lambda>_. holds (moved c (vw w))) (holds (moved c (vw w))) \<Longrightarrow>
      holds (moved c (vw w)) (snd (m w))" for m :: "('w, 'x) io"
    by (cases "m w") (auto dest: triple_worldD)
  note run = this [OF Create_moved] this [OF Update_moved] this [OF Delete_moved] this [OF List_moved] this [OF Get_moved]
  have "holds (moved c (vw w)) (snd (performCatalog D c r w))"
    by (cases r) (simp_all add: finished_snd run)
  then show ?thesis by (simp add: inWorld_def)
qed

lemma serve_invariant:
  assumes "good w" and "I (vw w)"
    and "\<And>c r v v'. (c, r) \<in> set rs \<Longrightarrow> I v \<Longrightarrow> catalog_step (ObjectIDFromHex (sys D)) c v v' \<Longrightarrow> I v'"
  shows "good (serveCatalog D rs w) \<and> I (vw (serveCatalog D rs w))"
  using assms
proof (induction rs arbitrary: w)
  case (Cons cr rs)
  obtain c r where cr: "cr = (c, r)" by force
  note m = request_moved [OF Cons.prems(1), of c r]
  have "I v'" if "moved c (vw w) v'" for v'
    using that by (induction rule: rtranclp_induct) (use Cons.prems(2,3) cr in auto)
  then have I: "I (vw (snd (performCatalog D c r w)))" using m by blast
  have "\<And>c' r' v v'. (c', r') \<in> set rs \<Longrightarrow> I v \<Longrightarrow> catalog_step (ObjectIDFromHex (sys D)) c' v v' \<Longrightarrow> I v'"
    using Cons.prems(3) by (metis list.set_intros(2))
  from Cons.IH [OF conjunct1 [OF m] I this] show ?case by (simp add: cr)
qed simp

end

end
