(* ===== verification/CatalogMemory.thy ===== *)
theory CatalogMemory
  imports CatalogMachine
begin

text \<open>
  The executable database of the catalogue service: a list of documents per collection, the
  vehicles and the platform of \<open>MemStore\<close>, and a cache that keeps what it is given. It satisfies
  every contract of \<open>catalog_database\<close>; so does the same database without a cache.
\<close>

section \<open>The world\<close>

record CatalogWorld =
  base :: MemWorld
  entries :: "string \<Rightarrow> Doc list"
  heldBytes :: "string \<rightharpoonup> Bytes"

definition catalogView :: "CatalogWorld \<Rightarrow> CatalogData" where
  "catalogView w = \<lparr>Catalogues = (\<lambda>name. toMap DocID (entries w name)),
     Fleet = toMap Base.ID (mVehicles (base w)), Cached = heldBytes w\<rparr>"

definition catalogGood :: "CatalogWorld \<Rightarrow> bool" where
  "catalogGood w \<longleftrightarrow> memGood (base w) \<and> (\<forall>name. goodList DocID (catalog_indexes name) (entries w name))"

definition bare :: "CatalogWorld \<Rightarrow> bool" where
  "bare w \<longleftrightarrow> catalogGood w \<and> heldBytes w = Map.empty"

section \<open>Values\<close>

fun textOf :: "bson \<Rightarrow> string option" where
  "textOf (BsonString s) = Some s" | "textOf BsonNull = Some []" | "textOf _ = None"

definition plainLib :: BsonLib where
  "plainLib = \<lparr>Encodable = (\<lambda>_. True), asString = textOf,
     asBool = (\<lambda>v. case v of BsonBool b \<Rightarrow> Some b | _ \<Rightarrow> None),
     asInt = (\<lambda>v. case v of BsonInt n \<Rightarrow> Some n | _ \<Rightarrow> None),
     asFloat = (\<lambda>v. case v of BsonDouble r \<Rightarrow> Some r | BsonInt n \<Rightarrow> Some (of_int n) | _ \<Rightarrow> None),
     asTime = (\<lambda>v. case v of BsonDate t \<Rightarrow> Some t | _ \<Rightarrow> None),
     asStrings = (\<lambda>v. case v of BsonNull \<Rightarrow> Some None | BsonArray vs \<Rightarrow> map_option Some (those (map textOf vs)) | _ \<Rightarrow> None),
     asAttrs = (\<lambda>v. case v of BsonNull \<Rightarrow> Some None | BsonDoc a \<Rightarrow> Some (Some a) | _ \<Rightarrow> None),
     FaultText = (\<lambda>_. ''cannot decode''), DateText = rfc3339\<rparr>"

lemma those_Some [simp]: "those (map (\<lambda>s. Some s) l) = Some l"
  by (induction l) simp_all

interpretation plain: bson_lib plainLib
  by unfold_locales (auto simp: plainLib_def bsonStrings_def ofOption_def comp_def split: option.splits)

section \<open>The platform\<close>

definition onRest :: "(MemWorld \<Rightarrow> 'a \<times> MemWorld) \<Rightarrow> CatalogWorld \<Rightarrow> 'a \<times> CatalogWorld" where
  "onRest f w = (case f (base w) of (x, m) \<Rightarrow> (x, w\<lparr>base := m\<rparr>))"

definition rollback :: "('w, 'a) io \<Rightarrow> ('w, 'a) io" where
  "rollback f w = (case f w of (Inr x, w') \<Rightarrow> (Inr x, w') | (Inl e, w') \<Rightarrow> (Inl e, w))"

definition catalogPlatform :: "CatalogWorld Platform" where
  "catalogPlatform = \<lparr>Now = onRest (Now memPlatform), NewObjectID = onRest (NewObjectID memPlatform), Hex = memHex,
     ObjectIDFromHex = memFromHex, Publish = (\<lambda>chan n. onRest (Publish memPlatform chan n)),
     StartSession = onRest (StartSession memPlatform), WithTransaction = rollback, MatchRegex = memRegex\<rparr>"

lemma catalogPlatform_hex [simp]: "Hex catalogPlatform = memHex" "ObjectIDFromHex catalogPlatform = memFromHex"
  "MatchRegex catalogPlatform = memRegex"
  by (simp_all add: catalogPlatform_def)

lemma onRest_view:
  assumes "catalogGood w" and "onRest f w = (x, w')"
    and "\<And>m y m'. memGood m \<Longrightarrow> f m = (y, m') \<Longrightarrow> memGood m' \<and> memView m' = memView m"
  shows "catalogGood w' \<and> catalogView w' = catalogView w \<and> f (base w) = (x, base w') \<and> heldBytes w' = heldBytes w"
proof -
  obtain m where m: "f (base w) = (x, m)" "w' = w\<lparr>base := m\<rparr>"
    using assms(2) by (auto simp: onRest_def split: prod.splits)
  then have "memGood m" "memView m = memView (base w)" using assms(1,3) by (auto simp: catalogGood_def)
  moreover from this(2) have "toMap Base.ID (mVehicles m) = toMap Base.ID (mVehicles (base w))"
    by (simp add: memView_def)
  ultimately show ?thesis using assms(1) m by (simp add: catalogGood_def catalogView_def)
qed

lemma rollback_law:
  assumes "\<forall>w1 r1 w2. g w1 \<longrightarrow> f w1 = (r1, w2) \<longrightarrow> g w2" and "g w" and "rollback f w = (r, w')"
  shows "g w' \<and> ((\<exists>w1 w2 x. g w1 \<and> view w1 = view w \<and> f w1 = (Inr x, w2) \<and> view w' = view w2 \<and>
      (r = Inr x \<or> (\<exists>e. r = Inl e \<and> \<not> isNoTransactions e))) \<or> (\<exists>e. r = Inl e \<and> view w' = view w))"
proof (cases "f w")
  case (Pair s w2)
  then show ?thesis using assms by (cases s) (auto simp: rollback_def)
qed

interpretation cw: world catalogGood catalogView .

section \<open>The database\<close>

definition keepingCache :: "(CatalogWorld, Bytes) Cache" where
  "keepingCache = \<lparr>CacheGet = (\<lambda>k w. (heldBytes w k, w)),
     CacheSet = (\<lambda>k b ttl w. ((), w\<lparr>heldBytes := (heldBytes w)(k \<mapsto> b)\<rparr>)),
     CacheDelete = (\<lambda>ks w. ((), w\<lparr>heldBytes := (\<lambda>k. if k \<in> set ks then None else heldBytes w k)\<rparr>)),
     DeleteByPrefix = (\<lambda>p w. ((), w\<lparr>heldBytes := (\<lambda>k. if HasPrefix k p then None else heldBytes w k)\<rparr>))\<rparr>"

definition catalogDB :: "(CatalogWorld, Bytes) Cache \<Rightarrow> CatalogWorld CatalogDB" where
  "catalogDB m = \<lparr>
     catalogCol = (\<lambda>name. memCollection (\<lambda>w. entries w name) (\<lambda>l w. w\<lparr>entries := (entries w)(name := l)\<rparr>)
        DocID setDocID (catalog_indexes name)),
     fleetCol = memCollection (\<lambda>w. mVehicles (base w)) (\<lambda>l w. w\<lparr>base := (base w)\<lparr>mVehicles := l\<rparr>\<rparr>)
        Base.ID (\<lambda>i d. d\<lparr>Base.ID := i\<rparr>) vehicle_indexes,
     lib = plainLib, memo = m, sys = catalogPlatform\<rparr>"

lemma catalogDB_simps [simp]:
  "catalogCol (catalogDB m) name = memCollection (\<lambda>w. entries w name) (\<lambda>l w. w\<lparr>entries := (entries w)(name := l)\<rparr>)
     DocID setDocID (catalog_indexes name)"
  "fleetCol (catalogDB m) = memCollection (\<lambda>w. mVehicles (base w)) (\<lambda>l w. w\<lparr>base := (base w)\<lparr>mVehicles := l\<rparr>\<rparr>)
     Base.ID (\<lambda>i d. d\<lparr>Base.ID := i\<rparr>) vehicle_indexes"
  "lib (catalogDB m) = plainLib" "memo (catalogDB m) = m" "sys (catalogDB m) = catalogPlatform"
  by (simp_all add: catalogDB_def)

context memory
begin

lemma contract: "mongo_collection good vw (memCollection getl putl idof setid ixs) get put idof setid ixs"
  by (rule mem.mongo_collection_axioms)

end

locale catalog_world =
  fixes g :: "CatalogWorld \<Rightarrow> bool" and m :: "(CatalogWorld, Bytes) Cache"
  assumes world_good: "g w \<Longrightarrow> catalogGood w"
    and world_back: "g w \<Longrightarrow> catalogGood w' \<Longrightarrow> heldBytes w' = heldBytes w \<Longrightarrow> g w'"
    and world_cache: "cache g catalogView m Cached (\<lambda>c v. v\<lparr>Cached := c\<rparr>)"
begin

lemma onRest_kept:
  assumes "g w" and "\<And>m y m'. memGood m \<Longrightarrow> f m = (y, m') \<Longrightarrow> memGood m' \<and> memView m' = memView m"
    and "onRest f w = (x, w')"
  shows "g w' \<and> catalogView w' = catalogView w \<and> f (base w) = (x, base w') \<and> memGood (base w)"
proof -
  note law = onRest_view [OF world_good [OF assms(1)] assms(3,2)]
  then have "g w'" by (intro world_back [OF assms(1)]) simp_all
  with law world_good [OF assms(1)] show ?thesis by (simp add: catalogGood_def)
qed

lemma catalog_platform:
  "platform g catalogView catalogPlatform"
proof unfold_locales
  note step = onRest_kept
  fix w w'
  show "g w' \<and> catalogView w' = catalogView w" if "g w" "Now catalogPlatform w = (t, w')" for t
    using step [where f = "Now memPlatform" and x = t and w' = w', OF that(1) mp.now] that(2) by (simp add: catalogPlatform_def)
  show "g w' \<and> catalogView w' = catalogView w \<and> i \<noteq> NilObjectID" if "g w" "NewObjectID catalogPlatform w = (i, w')" for i
  proof -
    have "memGood m \<Longrightarrow> NewObjectID memPlatform m = (y, m') \<Longrightarrow> memGood m' \<and> memView m' = memView m" for m y m'
      using mp.new_id by blast
    from step [where f = "NewObjectID memPlatform" and x = i and w' = w', OF that(1) this] that(2)
    have "g w' \<and> catalogView w' = catalogView w" "NewObjectID memPlatform (base w) = (i, base w')" "memGood (base w)"
      by (simp_all add: catalogPlatform_def)
    with mp.new_id show ?thesis by blast
  qed
  show "g w' \<and> catalogView w' = catalogView w" if "g w" "Publish catalogPlatform chan n w = (u, w')" for chan n u
    using step [where f = "Publish memPlatform chan n" and x = u and w' = w', OF that(1) mp.publish [of _ chan n]] that(2) by (simp add: catalogPlatform_def)
  show "g w' \<and> catalogView w' = catalogView w" if "g w" "StartSession catalogPlatform w = (sn, w')" for sn
    using step [where f = "StartSession memPlatform" and x = sn and w' = w', OF that(1) mp.start_session] that(2) by (simp add: catalogPlatform_def)
next
  fix f w r w'
  assume "\<forall>w1 r1 w2. g w1 \<longrightarrow> f w1 = (r1, w2) \<longrightarrow> g w2" "g w" "WithTransaction catalogPlatform f w = (r, w')"
  then show "g w' \<and> ((\<exists>w1 w2 x. g w1 \<and> catalogView w1 = catalogView w \<and> f w1 = (Inr x, w2) \<and> catalogView w' = catalogView w2 \<and>
      (r = Inr x \<or> (\<exists>e. r = Inl e \<and> \<not> isNoTransactions e))) \<or> (\<exists>e. r = Inl e \<and> catalogView w' = catalogView w))"
    using rollback_law [of g f w r w' catalogView] by (simp add: catalogPlatform_def)
qed (use mp.from_hex mp.hex_text mp.hex_digits in \<open>simp_all add: memRegex_spells\<close>)

lemma list_memory: "memory (\<lambda>w. entries w name) (\<lambda>l w. w\<lparr>entries := (entries w)(name := l)\<rparr>) g catalogView
    (\<lambda>v. Catalogues v name) (\<lambda>c v. v\<lparr>Catalogues := (Catalogues v)(name := c)\<rparr>) DocID setDocID (catalog_indexes name)"
proof unfold_locales
  show "g w \<Longrightarrow> goodList DocID (catalog_indexes name) (entries w name)" for w
    using world_good by (auto simp: catalogGood_def)
  show "g (w\<lparr>entries := (entries w)(name := l)\<rparr>)" if "g w" "goodList DocID (catalog_indexes name) l" for w l
    by (rule world_back [OF that(1)]) (use world_good [OF that(1)] that(2) in \<open>auto simp: catalogGood_def\<close>)
qed (auto simp: catalogView_def fun_eq_iff)

lemma fleet_memory: "memory (\<lambda>w. mVehicles (base w)) (\<lambda>l w. w\<lparr>base := (base w)\<lparr>mVehicles := l\<rparr>\<rparr>) g catalogView
    Fleet (\<lambda>c v. v\<lparr>Fleet := c\<rparr>) Base.ID (\<lambda>i d. d\<lparr>Base.ID := i\<rparr>) vehicle_indexes"
proof unfold_locales
  show "g w \<Longrightarrow> goodList Base.ID vehicle_indexes (mVehicles (base w))" for w
    using world_good by (auto simp: catalogGood_def memGood_def)
  show "g (w\<lparr>base := (base w)\<lparr>mVehicles := l\<rparr>\<rparr>)" if "g w" "goodList Base.ID vehicle_indexes l" for w l
    by (rule world_back [OF that(1)]) (use world_good [OF that(1)] that(2) in \<open>auto simp: catalogGood_def memGood_def\<close>)
qed (auto simp: catalogView_def)

lemma satisfied: "catalog_database (catalogDB m) g catalogView"
proof -
  have p: "platform g catalogView catalogPlatform"
    by (rule catalog_platform)
  show ?thesis
    unfolding catalog_database_def catalog_database_axioms_def catalogDB_simps
    by (intro conjI allI p plain.bson_lib_axioms world_cache memory.contract [OF list_memory] memory.contract [OF fleet_memory])
qed

end

interpretation kept: catalog_world catalogGood keepingCache
proof (rule catalog_world.intro)
  show "cache catalogGood catalogView keepingCache Cached (\<lambda>c v. v\<lparr>Cached := c\<rparr>)"
    by unfold_locales (auto simp: keepingCache_def catalogGood_def catalogView_def restrict_map_def fun_eq_iff
        intro: exI [of _ "- X" for X] exI [of _ "{k. \<not> HasPrefix k p}" for p])
qed auto

interpretation uncached: catalog_world bare noop
proof (rule catalog_world.intro)
  show "cache bare catalogView noop Cached (\<lambda>c v. v\<lparr>Cached := c\<rparr>)"
    by (rule noop_cache) (auto simp: bare_def catalogView_def)
qed (auto simp: bare_def)

interpretation cdb: catalog_database "catalogDB keepingCache" catalogGood catalogView
  by (rule kept.satisfied)

interpretation ndb: catalog_database "catalogDB noop" bare catalogView
  by (rule uncached.satisfied)

end
