(* ===== verification/CatalogRegister.thy ===== *)
theory CatalogRegister
  imports CatalogMemory
begin

text \<open>
  What the catalogue service guarantees, over every database and cache that keep their contracts and
  every sequence of requests from any callers; each statement is evaluated on the executable
  database.
\<close>

section \<open>What a caller may touch\<close>

text \<open>A request of the catalogue service, whether it succeeds or fails, moves the lists, the fleet
  and the cache only along the steps of \<open>catalog_step\<close>, taken for the caller.\<close>

theorem catalogue_requests_follow_machine:
  assumes "catalog_database D good vw" and "good w"
  shows "good (snd (performCatalog D c r w)) \<and>
    (catalog_step (ObjectIDFromHex (sys D)) c)\<^sup>*\<^sup>* (vw w) (vw (snd (performCatalog D c r w)))"
  by (rule catalog_database.request_moved [OF assms])

definition acme :: Caller where "acme = \<lparr>Company = ''acme'', Staff = False\<rparr>"
definition rival :: Caller where "rival = \<lparr>Company = ''rival'', Staff = False\<rparr>"
definition karlo :: Caller where "karlo = \<lparr>Company = [], Staff = True\<rparr>"

definition sampleEntry :: "ObjectID \<Rightarrow> string \<Rightarrow> bson \<Rightarrow> Doc" where
  "sampleEntry i name owner = \<lparr>DocID = i, Fields = [(''createdAt'', BsonDate 0), (''updatedAt'', BsonDate 0),
     (''deleted'', BsonBool False), (''companyId'', owner), (''isActive'', BsonBool True),
     (''name'', BsonString name), (''nameNormalised'', BsonString (Normalise.Name name))]\<rparr>"

definition sampleLists :: CatalogWorld where
  "sampleLists = \<lparr>base = emptyWorld\<lparr>nextOid := 100\<rparr>, entries = (\<lambda>name. if name = ''brands''
     then [sampleEntry 1 ''Hino'' BsonNull, sampleEntry 2 ''Isuzu'' (BsonString ''acme'')] else []), heldBytes = Map.empty\<rparr>"

definition sampleCatalogRequests :: "(Caller \<times> CatalogRequest) list" where
  "sampleCatalogRequests = [(rival, AskCreate ''brand'' [(''name'', BsonString ''  Hino '')]),
     (rival, AskGet ''brand'' (memHex 1)), (rival, AskDelete ''brand'' (memHex 2)),
     (rival, AskUpdate ''brand'' (memHex 1) [(''name'', BsonString ''Mine'')])]"

lemma sampleLists_good: "catalogGood sampleLists" "bare sampleLists"
proof -
  have "memGood (emptyWorld\<lparr>nextOid := 100\<rparr>)"
    by (simp add: memGood_def emptyWorld_def goodList_def uniqueKeys_def list_all_iff keysOf_def map_filter_def)
  moreover have "goodList DocID (catalog_indexes ''brands'') [sampleEntry 1 ''Hino'' BsonNull, sampleEntry 2 ''Isuzu'' (BsonString ''acme'')]"
    by code_simp
  moreover have "goodList DocID ixs []" for ixs :: "Doc index list"
    by (simp add: goodList_def uniqueKeys_def list_all_iff keysOf_def map_filter_def)
  ultimately show "catalogGood sampleLists" "bare sampleLists"
    by (simp_all add: bare_def catalogGood_def sampleLists_def)
qed

lemma catalogue_requests_follow_machine_witness:
  "(catalog_step memFromHex rival)\<^sup>*\<^sup>* (catalogView sampleLists)
     (catalogView (snd (performCatalog (catalogDB keepingCache) rival (AskDelete ''brand'' (memHex 2)) sampleLists)))"
  using catalogue_requests_follow_machine [OF kept.satisfied sampleLists_good(1)] by (simp del: performCatalog.simps)

section \<open>Tenants\<close>

lemma ownerOf_setField [simp]: "k \<noteq> ''companyId'' \<Longrightarrow> ownerOf (setField k v d) = ownerOf d"
  by (simp add: ownerOf_def setField_def field_def update_conv')

lemma step_entry:
  assumes "catalog_step fromHex c v v'" and "\<not> Staff c"
    and "Catalogues v name i = Some d" and "ownerOf d \<noteq> Company c \<or> ownerOf d = []"
  shows "Catalogues v' name i = Some d"
  using assms by cases (auto simp: mayChange_def scopeForEdit_def)

lemma step_owner:
  assumes "catalog_step fromHex c v v'" and "\<not> Staff c" and "name \<in> set ownedCollections"
    and "Catalogues v' name i = Some d"
  shows "Catalogues v name i = Some d \<or> ownerOf d = Company c"
  using assms by cases (auto simp: mayChange_def scopeForEdit_def split: if_splits)



section \<open>What a caller may see\<close>

text \<open>A company's id is a UUID, so it holds no colon and is none of the two reserved scopes.\<close>

definition cleanCaller :: "Caller \<Rightarrow> bool" where
  "cleanCaller c \<longleftrightarrow> CHR '':'' \<notin> set (Company c) \<and> Company c \<notin> {''staff'', ''global''}"

definition scopedCache :: "CatalogData \<Rightarrow> bool" where
  "scopedCache v \<longleftrightarrow> (\<forall>k b. Cached v k = Some b \<longrightarrow>
     (\<exists>c kind rest. cleanCaller c \<and> k = scopeKey c kind rest \<and> (\<forall>e \<in> entriesOf b. visibleEntry c e)))"

lemma scope_free: "cleanCaller c \<Longrightarrow> CHR '':'' \<notin> set (catalogScope (Company c) (Staff c))"
  by (auto simp: cleanCaller_def catalogScope_def)

lemma scope_inj:
  "cleanCaller c \<Longrightarrow> cleanCaller c' \<Longrightarrow> catalogScope (Company c) (Staff c) = catalogScope (Company c') (Staff c') \<Longrightarrow>
    Staff c = Staff c' \<and> (Staff c \<or> Company c = Company c')"
  by (auto simp: cleanCaller_def catalogScope_def split: if_splits)

lemma scopeKey_inj:
  assumes "scopeKey c kind rest = scopeKey c' kind' rest'" and "cleanCaller c" and "cleanCaller c'"
  shows "Staff c = Staff c' \<and> (Staff c \<or> Company c = Company c')" and "cleanPart kind = cleanPart kind'"
    and "map cleanPart rest = map cleanPart rest'"
  using assms scope_inj by (simp_all add: scopeKey_def Key_inj scope_free)

lemma scopedCache_hit:
  assumes "scopedCache v" and "Cached v (scopeKey c kind rest) = Some b" and "cleanCaller c" and "e \<in> entriesOf b"
  shows "visibleEntry c e"
proof -
  obtain c' kind' rest' where c': "cleanCaller c'" "scopeKey c kind rest = scopeKey c' kind' rest'" "visibleEntry c' e"
    using assms(1,2,4) unfolding scopedCache_def by blast
  from scopeKey_inj [OF c'(2) assms(3) c'(1)] c'(3) show ?thesis by (auto simp: visibleEntry_def)
qed

lemma scopedCache_step:
  assumes "catalog_step fromHex c v v'" and "cleanCaller c" and "scopedCache v"
  shows "scopedCache v'"
  using assms(1)
proof (cases rule: catalog_step_cases)
  case (drop K)
  then show ?thesis using assms(3) by (auto simp: scopedCache_def restrict_map_def split: if_splits)
next
  case (keep b kind rest)
  then show ?thesis using assms(2,3) unfolding scopedCache_def by (auto split: if_splits)
qed (use assms(3) in \<open>auto simp: scopedCache_def\<close>)

lemma unmarshal_entries:
  "unmarshalList b = Some (es, n) \<Longrightarrow> e \<in> set es \<Longrightarrow> e \<in> entriesOf b"
  "unmarshalEntry b = Some e \<Longrightarrow> e \<in> entriesOf b \<or> CatalogEntry.CompanyID e = None"
  by (cases b; force simp: zeroEntry_def)+

context catalog_database
begin

lemma scopedCache_forgot: "scopedCache v \<Longrightarrow> scopedCache (v\<lparr>Cached := Cached v |` K\<rparr>)"
  by (auto simp: scopedCache_def restrict_map_def split: if_splits)

lemma List_scoped:
  assumes "cleanCaller c"
  shows "triple (holds scopedCache) (CatalogList D kind (Company c) parentID (Staff c) p)
    (\<lambda>l. holds (\<lambda>_. \<forall>e \<in> set (fst l). visibleEntry c e)) (holds (\<lambda>_. True))"
  by (rule List_triple)
    (auto simp: keys_scoped found_def listFilter_def intro: scopedCache_forgot visibility_entry
      dest: scopedCache_hit [OF _ _ assms] unmarshal_entries(1))

lemma Get_scoped:
  assumes "cleanCaller c"
  shows "triple (holds scopedCache) (CatalogGet D kind ident (Company c) (Staff c))
    (\<lambda>e. holds (\<lambda>_. visibleEntry c e)) (holds (\<lambda>_. True))"
proof (rule Get_triple)
  fix v b e assume v: "scopedCache v" "Cached v (catalogEntryKey (catalogScope (Company c) (Staff c)) kind ident) = Some b"
    and e: "unmarshalEntry b = Some e"
  show "visibleEntry c e"
    using unmarshal_entries(2) [OF e]
  proof
    assume "e \<in> entriesOf b"
    with v show ?thesis by (auto simp: keys_scoped intro: scopedCache_hit [OF _ _ assms])
  qed (simp add: visibleEntry_def)
qed (auto intro: scopedCache_forgot visibility_entry)

lemma scopedCache_served:
  assumes "good w" and "Cached (vw w) = Map.empty" and "\<And>c r. (c, r) \<in> set rs \<Longrightarrow> cleanCaller c"
  shows "holds scopedCache (serveCatalog D rs w)"
proof -
  have "scopedCache (vw w)" using assms(2) by (simp add: scopedCache_def)
  from serve_invariant [where I = scopedCache, OF assms(1) this] scopedCache_step assms(3)
  show ?thesis by (auto simp: inWorld_def)
qed

end

text \<open>C29. Starting from an empty cache, and whatever requests any callers have made before, every
  list and every entry the service answers to a company, from the cache or from the database, is
  the company's own or shared; only staff see the entries of other companies.\<close>

theorem catalogue_reads_are_scoped:
  assumes "catalog_database D good vw" and "good w" and "Cached (vw w) = Map.empty"
    and "list_all (\<lambda>(c, r). cleanCaller c) rs" and "cleanCaller c"
  shows "(case fst (CatalogList D kind (Company c) parentID (Staff c) p (serveCatalog D rs w)) of
       Inl _ \<Rightarrow> True | Inr (es, n) \<Rightarrow> list_all (visibleEntry c) es) \<and>
     (case fst (CatalogGet D kind ident (Company c) (Staff c) (serveCatalog D rs w)) of
       Inl _ \<Rightarrow> True | Inr e \<Rightarrow> visibleEntry c e)"
proof -
  have "inWorld good vw scopedCache (serveCatalog D rs w)"
    by (rule catalog_database.scopedCache_served [OF assms(1-3)]) (use assms(4) in \<open>auto simp: list_all_iff\<close>)
  from triple_result [OF catalog_database.List_scoped [OF assms(1,5)] this]
    triple_result [OF catalog_database.Get_scoped [OF assms(1,5)] this]
  show ?thesis by (fastforce simp: inWorld_def list_all_iff split: sum.splits prod.splits)
qed

definition brandPage :: Params where
  "brandPage = \<lparr>Err = None, Page = 0, PageSize = 20, Filters = [], Sorts = [], Search = []\<rparr>"

lemma sampleCallers_clean: "cleanCaller acme" "cleanCaller rival" "cleanCaller karlo"
  by (simp_all add: cleanCaller_def acme_def rival_def karlo_def)

lemma catalogue_reads_are_scoped_witness:
  "case fst (CatalogGet (catalogDB keepingCache) ''brand'' (memHex 2) ''rival'' False
       (serveCatalog (catalogDB keepingCache) [(karlo, AskGet ''brand'' (memHex 2)), (acme, AskList ''brand'' [] brandPage)] sampleLists)) of
     Inl _ \<Rightarrow> True | Inr e \<Rightarrow> visibleEntry rival e"
proof -
  have e: "Cached (catalogView sampleLists) = Map.empty" by (simp add: catalogView_def sampleLists_def)
  show ?thesis
    using catalogue_reads_are_scoped [OF kept.satisfied sampleLists_good(1) e, of "[(karlo, AskGet ''brand'' (memHex 2)), (acme, AskList ''brand'' [] brandPage)]" rival "''brand''" _ _ "memHex 2"]
      sampleCallers_clean
    by (simp add: rival_def del: serveCatalog.simps)
qed

section \<open>Names\<close>

definition entriesOK :: "CatalogData \<Rightarrow> bool" where
  "entriesOK v \<longleftrightarrow> (\<forall>name i d. Catalogues v name i = Some d \<longrightarrow> entryOK name d)"

lemma entryOK_deleted: "entryOK name d \<Longrightarrow> entryOK name (setField ''deleted'' (BsonBool True) d)"
  by (simp add: entryOK_def named_def setField_def field_def update_conv')

lemma entriesOK_step: "catalog_step fromHex c v v' \<Longrightarrow> entriesOK v \<Longrightarrow> entriesOK v'"
  by (erule catalog_step.cases) (auto simp: entriesOK_def intro: entryOK_deleted split: if_splits)

definition sameText :: "string \<Rightarrow> Doc \<Rightarrow> Doc \<Rightarrow> bool" where
  "sameText k d e \<longleftrightarrow> (\<exists>s. field d k = Some (BsonString s) \<and> field e k = Some (BsonString s))"

definition namedAlike :: "Doc \<Rightarrow> Doc \<Rightarrow> bool" where
  "namedAlike d e \<longleftrightarrow> Normalise.Name (stringOf (field d ''name'')) = Normalise.Name (stringOf (field e ''name''))"

definition sharedEntry :: "Doc \<Rightarrow> bool" where
  "sharedEntry d \<longleftrightarrow> field d ''companyId'' = None \<or> field d ''companyId'' = Some BsonNull"

text \<open>Two entries that a list must not hold at once.\<close>

definition rivals :: "string \<Rightarrow> Doc \<Rightarrow> Doc \<Rightarrow> bool" where
  "rivals kind d e \<longleftrightarrow> notDeleted d \<and> notDeleted e \<and> namedAlike d e \<and>
     (if kind = ''itemSubCategory'' then sameText ''categoryId'' d e
      else ownerOf d \<noteq> [] \<and> ownerOf d = ownerOf e \<or> Shareable kind \<and> sharedEntry d \<and> sharedEntry e)"

lemma named_key: "named d \<Longrightarrow> field d ''nameNormalised'' = Some (BsonString (Normalise.Name (stringOf (field d ''name''))))"
  by (auto simp: named_def stringOf_def)

lemma owner_key: "ownerOf d \<noteq> [] \<Longrightarrow> field d ''companyId'' = Some (BsonString (ownerOf d))"
  by (auto simp: ownerOf_def stringOf_def split: option.splits bson.splits)

lemma named_kind_indexes:
  "list_all (\<lambda>(kind, spec). owned spec \<longrightarrow> kind \<notin> {''item'', ''itemSubCategory''} \<longrightarrow> catalog_indexes (collection spec) =
     (if Shareable kind then [uq_global, uq_company] else [uq_live [''companyId'', ''nameNormalised'']])) catalogKinds"
  by (simp add: catalogKinds_def flat_def Shareable_def kindOf_def catalog_indexes_def)

definition sharesKey :: "Doc index \<Rightarrow> Doc \<Rightarrow> Doc \<Rightarrow> bool" where
  "sharesKey ix d e \<longleftrightarrow> ix d \<noteq> None \<and> ix d = ix e"

lemma rivals_share_a_key:
  assumes "rivals kind d e" and "kindOf kind = Some spec" and "owned spec" and "kind \<noteq> ''item''" and "named d" and "named e"
  shows "\<exists>ix \<in> set (catalog_indexes (collection spec)). sharesKey ix d e"
proof -
  let ?n = "Normalise.Name (stringOf (field d ''name''))"
  have n: "keyText (field d ''nameNormalised'') = Some (Some ?n)" "keyText (field e ''nameNormalised'') = Some (Some ?n)"
    and live: "notDeleted d" "notDeleted e"
    using assms by (simp_all add: keyText_def named_key rivals_def namedAlike_def)
  have global: "sharesKey uq_global d e" if "sharedEntry d" "sharedEntry e"
    using that n live by (auto simp: sharesKey_def uq_global_def keyOf_def sharedEntry_def keyText_def)
  have company: "sharesKey uq_company d e" "sharesKey (uq_live [''companyId'', ''nameNormalised'']) d e"
    if "ownerOf d \<noteq> []" "ownerOf d = ownerOf e"
    using that n live owner_key [of d] owner_key [of e] by (auto simp: sharesKey_def uq_company_def uq_live_def keyOf_def keyText_def)
  have category: "sharesKey (uq_live [''categoryId'', ''nameNormalised'']) d e"
    if "sameText ''categoryId'' d e"
    using that n live by (auto simp: sharesKey_def sameText_def uq_live_def keyOf_def keyText_def)
  show ?thesis
  proof (cases "kind = ''itemSubCategory''")
    case True
    then have "collection spec = ''item_sub_categories''" using assms(2) by (auto simp: kindOf_def catalogKinds_def flat_def)
    moreover have "sameText ''categoryId'' d e" using assms(1) True by (simp add: rivals_def)
    ultimately show ?thesis
using category by (simp add: catalog_indexes_def)
  next
    case False
    then have r: "ownerOf d \<noteq> [] \<and> ownerOf d = ownerOf e \<or> Shareable kind \<and> sharedEntry d \<and> sharedEntry e"
      using assms(1) by (simp add: rivals_def)
    have ixs: "catalog_indexes (collection spec) =
       (if Shareable kind then [uq_global, uq_company] else [uq_live [''companyId'', ''nameNormalised'']])"
      using named_kind_indexes map_of_SomeD [OF assms(2) [unfolded kindOf_def]] assms(3,4) False by (auto simp: list_all_iff)
    from r show ?thesis
    proof
      assume o: "ownerOf d \<noteq> [] \<and> ownerOf d = ownerOf e"
      show ?thesis unfolding ixs using company [OF conjunct1 [OF o] conjunct2 [OF o]] by simp
    next
      assume "Shareable kind \<and> sharedEntry d \<and> sharedEntry e"
      then show ?thesis unfolding ixs using global by simp
    qed
  qed
qed

lemma owned_kinds_named:
  "list_all (\<lambda>(kind, spec). owned spec \<longrightarrow> kind \<noteq> ''item'' \<longrightarrow> collection spec \<in> set namedCollections) catalogKinds"
  by (simp add: namedCollections_def ownedCollections_def catalogKinds_def flat_def)

lemma owned_kind_named:
  assumes "kindOf kind = Some spec" and "owned spec" and "kind \<noteq> ''item''"
  shows "collection spec \<in> set namedCollections"
  using owned_kinds_named map_of_SomeD [OF assms(1) [unfolded kindOf_def]] assms(2,3) by (auto simp: list_all_iff)

text \<open>C30. However companies' and staff's requests interleave, no list whose entries may belong to
  companies, but for the items, which are told apart by code, comes to hold two live entries of one company, or two shared ones, whose names differ only in letter case and spacing; the
  sub-categories hold none under one category, whoever owns them.\<close>

theorem catalogue_names_stay_unique:
  assumes "catalog_database D good vw" and "good w" and "entriesOK (vw w)"
    and "kindOf kind = Some spec" and "owned spec" and "kind \<noteq> ''item''"
  shows "\<forall>i j d e. Catalogues (vw (serveCatalog D rs w)) (collection spec) i = Some d \<longrightarrow>
    Catalogues (vw (serveCatalog D rs w)) (collection spec) j = Some e \<longrightarrow> rivals kind d e \<longrightarrow> i = j"
proof (intro allI impI)
  fix i j d e
  assume d: "Catalogues (vw (serveCatalog D rs w)) (collection spec) i = Some d"
    and e: "Catalogues (vw (serveCatalog D rs w)) (collection spec) j = Some e" and r: "rivals kind d e"
  have final: "good (serveCatalog D rs w) \<and> entriesOK (vw (serveCatalog D rs w))"
    by (rule catalog_database.serve_invariant [where I = entriesOK, OF assms(1-3)]) (rule entriesOK_step)
  then have "named d" "named e"
    using d e owned_kind_named [OF assms(4-6)] by (auto simp: entriesOK_def entryOK_def)
  then obtain ix where "ix \<in> set (catalog_indexes (collection spec))" "sharesKey ix d e"
    using rivals_share_a_key [OF r assms(4-6)] by blast
  moreover have "indexed (catalog_indexes (collection spec)) (Catalogues (vw (serveCatalog D rs w)) (collection spec))"
    using mongo_collection.indexed_docs [OF catalog_database.lists [OF assms(1)] conjunct1 [OF final]] .
  ultimately show "i = j" using d e unfolding indexed_def sharesKey_def by blast
qed

definition staffRequests :: "(Caller \<times> CatalogRequest) list" where
  "staffRequests = [(karlo, AskCreate ''brand'' [(''name'', BsonString '' HINO'')]),
     (acme, AskCreate ''brand'' [(''name'', BsonString ''hino'')]),
     (acme, AskUpdate ''brand'' (memHex 2) [(''name'', BsonString ''Hino'')])]"

lemma sampleLists_entriesOK: "entriesOK (catalogView sampleLists)"
  by (auto simp: entriesOK_def catalogView_def sampleLists_def toMap_def sampleEntry_def entryOK_def named_def field_def dest!: map_of_SomeD)

lemma catalogue_names_stay_unique_witness:
  "\<nexists>i j d e. Catalogues (catalogView (serveCatalog (catalogDB keepingCache) staffRequests sampleLists)) ''brands'' i = Some d \<and>
    Catalogues (catalogView (serveCatalog (catalogDB keepingCache) staffRequests sampleLists)) ''brands'' j = Some e \<and>
    rivals ''brand'' d e \<and> i \<noteq> j"
proof -
  have k: "kindOf ''brand'' = Some ((flat ''brands'')\<lparr>owned := True, shareable := True\<rparr>)"
    by (simp add: kindOf_def catalogKinds_def)
  show ?thesis
    using catalogue_names_stay_unique [OF kept.satisfied sampleLists_good(1) sampleLists_entriesOK k, of staffRequests]
    by (auto simp: flat_def simp del: serveCatalog.simps)
qed

section \<open>References\<close>

text \<open>The ids of the live entries, shared or of the company, that the references name.\<close>

definition resolves :: "'w Platform \<Rightarrow> CatalogData \<Rightarrow> string \<Rightarrow> Refs \<Rightarrow> string \<Rightarrow> bool" where
  "resolves P v companyID refs ident \<longleftrightarrow> (\<exists>(kind, ids) \<in> set refs. \<exists>x \<in> set ids. \<exists>spec i d.
     kindOf kind = Some spec \<and> ObjectIDFromHex P x = Some i \<and> Hex P i = ident \<and>
     Catalogues v (collection spec) i = Some d \<and> \<not> retired d \<and> visibility companyID False d)"

lemma resolves_Cons:
  "kindOf kind = Some spec \<Longrightarrow> resolves P v co ((kind, ids) # refs) ident \<longleftrightarrow>
     (\<exists>i. ((\<exists>x \<in> set ids. ObjectIDFromHex P x = Some i) \<and>
       (\<exists>d. Catalogues v (collection spec) i = Some d \<and> \<not> retired d \<and> visibility co False d)) \<and> Hex P i = ident) \<or>
     resolves P v co refs ident"
  by (auto simp: resolves_def)

lemma fold_entries:
  "fold (\<lambda>doc m. let e = toEntry hex kind doc in m(ID e \<mapsto> e)) ds out ident \<noteq> None \<longleftrightarrow>
     out ident \<noteq> None \<or> (\<exists>d \<in> set ds. hex (DocID d) = ident)"
  by (induction ds arbitrary: out) (auto simp: Let_def toEntry_def)

context catalog_database
begin

lemma resolveLoop_triple:
  assumes keys: "\<And>name i d. Catalogues v0 name i = Some d \<Longrightarrow> DocID d = i"
  shows "triple (holds (\<lambda>v. v = v0)) (resolveLoop D co refs out)
     (\<lambda>m. holds (\<lambda>v. v = v0 \<and> (\<forall>ident. m ident \<noteq> None \<longleftrightarrow> out ident \<noteq> None \<or> resolves (sys D) v0 co refs ident)))
     (holds (\<lambda>v. v = v0))"
proof (induction refs arbitrary: out)
  case Nil
  show ?case by (auto intro!: triple_ok simp: inWorld_def resolves_def)
next
  case (Cons r refs)
  obtain kind ids where r: "r = (kind, ids)" by force
  show ?case
  proof (cases "kindOf kind")
    case None
    then show ?thesis by (simp add: r triple_fail)
  next
    case (Some spec)
    let ?oids = "List.map_filter (ObjectIDFromHex (sys D)) ids"
    let ?p = "\<lambda>d. DocID d \<in> set ?oids \<and> \<not> retired d \<and> visibility co False d"
    let ?Q = "\<lambda>m. holds (\<lambda>v. v = v0 \<and> (\<forall>ident. m ident \<noteq> None \<longleftrightarrow> out ident \<noteq> None \<or> resolves (sys D) v0 co (r # refs) ident))"
    have oids: "i \<in> set ?oids \<longleftrightarrow> (\<exists>x \<in> set ids. ObjectIDFromHex (sys D) x = Some i)" for i
      by (induction ids) (auto simp: List.map_filter_simps split: option.splits)
    show ?thesis
    proof (cases "?oids = []")
      case True
      with oids have "resolves (sys D) v0 co (r # refs) = resolves (sys D) v0 co refs"
        by (auto simp: fun_eq_iff r resolves_Cons [OF Some])
      then show ?thesis using Cons.IH [of out] by (simp add: r Some True)
    next
      case False
      have "triple (holds (\<lambda>v. v = v0)) (andThen (Find (catalogCol D (collection spec)) ?p None) (\<lambda>raw.
         resolveLoop D co refs (fold (\<lambda>doc m. let e = toEntry (Hex (sys D)) kind doc in m(ID e \<mapsto> e)) raw out)))
         ?Q (holds (\<lambda>v. v = v0))"
      proof (rule triple_andThen [OF list_find])
        fix raw
        let ?out = "fold (\<lambda>doc m. let e = toEntry (Hex (sys D)) kind doc in m(ID e \<mapsto> e)) raw out"
        have R: "resolves (sys D) v0 co (r # refs) ident \<longleftrightarrow> (\<exists>d \<in> set raw. Hex (sys D) (DocID d) = ident) \<or> resolves (sys D) v0 co refs ident"
          if "found DocID ?p None (Catalogues v0 (collection spec)) raw" for ident
        proof -
          have M: "i \<in> matching ?p (Catalogues v0 (collection spec)) \<longleftrightarrow> (\<exists>x \<in> set ids. ObjectIDFromHex (sys D) x = Some i) \<and>
              (\<exists>d. Catalogues v0 (collection spec) i = Some d \<and> \<not> retired d \<and> visibility co False d)" for i
            using keys oids by (auto simp: matching_def)
          have "DocID ` set raw = matching ?p (Catalogues v0 (collection spec))" using that by (simp add: found_def unlimited_def)
          then have "(\<exists>d \<in> set raw. Hex (sys D) (DocID d) = ident) \<longleftrightarrow>
              ident \<in> Hex (sys D) ` matching ?p (Catalogues v0 (collection spec))"
            unfolding \<open>DocID ` set raw = _\<close> [symmetric] by auto
          note this [unfolded image_iff Bex_def M, folded Bex_def]
          then have "(\<exists>d \<in> set raw. Hex (sys D) (DocID d) = ident) \<longleftrightarrow> (\<exists>i. ((\<exists>x \<in> set ids. ObjectIDFromHex (sys D) x = Some i) \<and>
              (\<exists>d. Catalogues v0 (collection spec) i = Some d \<and> \<not> retired d \<and> visibility co False d)) \<and> Hex (sys D) i = ident)"
            by (simp add: eq_commute [of ident])
          then show ?thesis unfolding r resolves_Cons [OF Some] by simp
        qed
        show "triple (holds (\<lambda>v. v = v0 \<and> found DocID ?p None (Catalogues v (collection spec)) raw))
            (resolveLoop D co refs ?out) ?Q (holds (\<lambda>v. v = v0))"
        proof (cases "found DocID ?p None (Catalogues v0 (collection spec)) raw")
          case True
          have "triple (holds (\<lambda>v. v = v0)) (resolveLoop D co refs ?out) ?Q (holds (\<lambda>v. v = v0))"
            using Cons.IH [of ?out] unfolding fold_entries R [OF True] disj_assoc .
          then show ?thesis by (rule triple_pre) (simp add: inWorld_def)
        next
          case False
          then show ?thesis by (auto simp: triple_def inWorld_def)
        qed
      qed
      then show ?thesis by (simp add: r Some Let_def False)
    qed
  qed
qed

lemma filter_unresolved:
  "\<forall>i. (m i \<noteq> None) = R i \<Longrightarrow> filter (\<lambda>i. i \<noteq> [] \<and> m i = None) l = filter (\<lambda>i. i \<noteq> [] \<and> \<not> R i) l"
  by (rule filter_cong) metis+

lemma Validate_triple:
  assumes keys: "\<And>name i d. Catalogues v0 name i = Some d \<Longrightarrow> DocID d = i"
  shows "triple (holds (\<lambda>v. v = v0)) (CatalogValidate D co refs)
     (\<lambda>bad. holds (\<lambda>v. v = v0 \<and> bad = filter (\<lambda>i. i \<noteq> [] \<and> \<not> resolves (sys D) v0 co refs i) (concat (map snd refs))))
     (holds (\<lambda>v. v = v0))"
  unfolding CatalogValidate_def CatalogResolve_def
  by (rule triple_andThen [OF resolveLoop_triple [OF keys]], assumption)
    (rule triple_ok, clarsimp simp: inWorld_def simp del: not_None_eq, rule filter_unresolved, simp del: not_None_eq)

end

text \<open>Validating references changes nothing and reports, in their order, exactly the non-empty ids
  that name no live entry the company can see in any of the kinds asked for: a withdrawn entry, an
  entry of another company, an id that is not the canonical text of one.\<close>

theorem validation_reports_dangling_references:
  assumes "catalog_database D good vw" and "good w" and "CatalogValidate D co refs w = (Inr bad, w')"
  shows "vw w' = vw w \<and> bad = filter (\<lambda>i. i \<noteq> [] \<and> \<not> resolves (sys D) (vw w) co refs i) (concat (map snd refs))"
proof -
  have "DocID d = i" if "Catalogues (vw w) name i = Some d" for name i d
    using mongo_collection.keyed [OF catalog_database.lists [OF assms(1)] assms(2)] that by blast
  from triple_InrD [OF catalog_database.Validate_triple [OF assms(1) this] _ assms(3)] assms(2)
  show ?thesis by (simp add: inWorld_def)
qed

definition sampleRefs :: Refs where
  "sampleRefs = [(''brand'', [memHex 1, memHex 2]), (''customer'', [[], memHex 7])]"

lemma sampleRefs_validated:
  "fst (CatalogValidate (catalogDB keepingCache) ''rival'' sampleRefs sampleLists) = Inr [memHex 2, memHex 7]"
proof -
  have eq: "memHex i = memHex j \<longleftrightarrow> i = j" for i j by (metis memFromHex_memHex option.inject)
  have ne: "memHex i \<noteq> []" for i using memHex_trimmed by blast
  show ?thesis
    by (simp add: CatalogValidate_def CatalogResolve_def sampleRefs_def kindOf_def catalogKinds_def flat_def eq ne
      memFromHex_memHex sampleLists_def sampleEntry_def visibility_def retired_def field_def map_filter_simps io_simps negativeSkip_def window_def toEntry_def Let_def)
qed

lemma validation_reports_dangling_references_witness:
  "filter (\<lambda>i. i \<noteq> [] \<and> \<not> resolves catalogPlatform (catalogView sampleLists) ''rival'' sampleRefs i) (concat (map snd sampleRefs)) =
     [memHex 2, memHex 7]"
  using validation_reports_dangling_references [OF kept.satisfied sampleLists_good(1), of "''rival''" sampleRefs] sampleRefs_validated
  by (cases "CatalogValidate (catalogDB keepingCache) ''rival'' sampleRefs sampleLists") simp

end
