(* ===== verification/Handlers.thy ===== *)
theory Handlers
  imports Gate SiteRegister CatalogRegister
begin

text \<open>
  The HTTP surface: the response envelope of \<^verbatim>\<open>internal/platform/response\<close> and the handlers
  of \<^verbatim>\<open>internal/handlers\<close>, one definition per handler, and a request as the router serves it:
  admitted by the guards of \<open>Gate\<close>, then handled. What gin hands a handler is a record
  (\<open>Context\<close>): the principal the middleware bound, the header, path and query parameters, and the
  body as \<^verbatim>\<open>ShouldBindJSON\<close> reads it into each input struct, or the text of its error.
\<close>

section \<open>The response envelope\<close>

record kindInfo =
  Kind :: string
  Writable :: bool
  Shareable :: bool

datatype View =
    NoData
  | IDData string
  | KindsData "kindInfo list"
  | EntryData CatalogEntry
  | EntriesData "CatalogEntry list"
  | TruckData Truck
  | TrucksData "Truck list"
  | WarehouseData Warehouse
  | WarehousesData "Warehouse list"
  | DriverData Driver
  | DriversData "Driver list"
  | VehicleData VehicleView
  | VehiclesData "VehicleView list"
  | TrackerData TrackerView
  | TrackersData "TrackerView list"
  | FittingData TrackerAssignment
  | FittingsData "TrackerAssignment list"
  | DocumentData Document
  | DocumentsData "Document list"

text \<open>A message is a text, or the text of a query error, which ends in the JSON library's words.\<close>

datatype Message = Plain string | OfQuery query_error

datatype Response =
    SuccessBody int string View "PageInfo option"
  | ErrorBody int Message

definition OK :: "View \<Rightarrow> Response" where
  "OK data = SuccessBody 200 [] data None"

definition OKWithMessage :: "string \<Rightarrow> View \<Rightarrow> Response" where
  "OKWithMessage message data = SuccessBody 200 message data None"

definition Created :: "View \<Rightarrow> Response" where
  "Created data = SuccessBody 201 [] data None"

text \<open>A page of no rows is an empty list: lists of the model have no nil form.\<close>

definition Paginated :: "View \<Rightarrow> PageInfo \<Rightarrow> Response" where
  "Paginated data info = SuccessBody 200 [] data (Some info)"

definition BadRequest :: "Message \<Rightarrow> Response" where "BadRequest message = ErrorBody 400 message"
definition Unauthorized :: "string \<Rightarrow> Response" where "Unauthorized message = ErrorBody 401 (Plain message)"
definition Forbidden :: "string \<Rightarrow> Response" where "Forbidden message = ErrorBody 403 (Plain message)"
definition NotFound :: "string \<Rightarrow> Response" where "NotFound message = ErrorBody 404 (Plain message)"
definition Conflict :: "string \<Rightarrow> Response" where "Conflict message = ErrorBody 409 (Plain message)"
definition InternalError :: "string \<Rightarrow> Response" where "InternalError message = ErrorBody 500 (Plain message)"

section \<open>What a handler is given\<close>

record warehousePIC =
  ID :: string
  Name :: string
  Phone :: string
  IsDefault :: bool

record warehouseRequest =
  Name :: string
  SiteType :: string
  Address :: string
  Street :: string
  District :: string
  City :: string
  Province :: string
  Postcode :: string
  Latitude :: "rat option"
  Longitude :: "rat option"
  GeofenceRadiusMeters :: "int option"
  PICName :: string
  PICPhone :: string
  Pics :: "warehousePIC list option"
  Notes :: string
  CustomerCompanyID :: "string option"

record Body =
  AsPayload :: "string + payload"
  AsWarehouse :: "string + warehouseRequest"
  AsDriver :: "string + DriverInput"
  AsVehicle :: "string + VehicleInput"
  AsTracker :: "string + TrackerInput"
  AsFit :: "string + FitInput"
  AsUnfit :: "string + Time option"
  AsDocument :: "string + DocumentInput"

record Context =
  SignedIn :: "Principal option"
  ActingFor :: string
  Param :: "string \<Rightarrow> string"
  QueryText :: "string \<Rightarrow> string"
  Filtered :: jtext
  Sorted :: jtext
  ContentLength :: int
  RequestBody :: Body

definition toInput :: "warehouseRequest \<Rightarrow> SiteInput" where
  "toInput r =
     \<lparr>SiteInput.Name = warehouseRequest.Name r, SiteType = warehouseRequest.SiteType r,
      Address = warehouseRequest.Address r, Street = warehouseRequest.Street r,
      District = warehouseRequest.District r, City = warehouseRequest.City r,
      Province = warehouseRequest.Province r, Postcode = warehouseRequest.Postcode r,
      Latitude = warehouseRequest.Latitude r, Longitude = warehouseRequest.Longitude r,
      GeofenceRadiusM = warehouseRequest.GeofenceRadiusMeters r,
      PICPhone = warehouseRequest.PICPhone r, PICName = warehouseRequest.PICName r,
      PICs = map_option (map (\<lambda>p. \<lparr>SitePICInput.ID = warehousePIC.ID p, Name = warehousePIC.Name p,
        Phone = warehousePIC.Phone p, IsDefault = warehousePIC.IsDefault p\<rparr>)) (Pics r),
      Notes = warehouseRequest.Notes r, CustomerCompanyID = warehouseRequest.CustomerCompanyID r\<rparr>"

section \<open>Reading a request\<close>

definition caller :: "Context \<Rightarrow> Response + string" where
  "caller c =
     (case SignedIn c of
        None \<Rightarrow> Inl (Unauthorized ''No token provided.'')
      | Some p \<Rightarrow>
          (let target = TrimSpace (ActingFor c) in
           if target \<noteq> []
           then if \<not> IsPlatformStaff p
                then Inl (Forbidden ''Only Karlo staff may act on another company's behalf.'')
                else Inr target
           else if Principal.CompanyID p = [] then Inl (Forbidden ''This account is not attached to a company'')
           else Inr (Principal.CompanyID p)))"

text \<open>Whether the caller maintains the shared lists: Karlo staff acting for nobody.\<close>

definition staff :: "Context \<Rightarrow> bool" where
  "staff c =
     (case SignedIn c of None \<Rightarrow> False
      | Some p \<Rightarrow> IsPlatformStaff p \<and> TrimSpace (ActingFor c) = [])"

definition trackerScope :: "Context \<Rightarrow> Response + string \<times> bool" where
  "trackerScope c =
     (case SignedIn c of
        None \<Rightarrow> Inl (Unauthorized ''No token provided.'')
      | Some p \<Rightarrow>
          if IsPlatformStaff p \<and> ActingFor c = [] then Inr ([], True)
          else (case caller c of Inl r \<Rightarrow> Inl r | Inr companyID \<Rightarrow> Inr (companyID, IsPlatformStaff p)))"

definition signedInUser :: "Context \<Rightarrow> string" where
  "signedInUser c = (case SignedIn c of None \<Rightarrow> [] | Some p \<Rightarrow> Principal.UserID p)"

definition params :: "Context \<Rightarrow> FieldSet \<Rightarrow> Response + Params" where
  "params c allowed =
     (let p = Parse (QueryText c ''page'') (QueryText c ''pageSize'') (Filtered c) (Sorted c)
                (QueryText c ''search'') allowed
      in case Err p of None \<Rightarrow> Inr p | Some e \<Rightarrow> Inl (BadRequest (OfQuery e)))"

definition boolQuery :: "Context \<Rightarrow> string \<Rightarrow> bool option" where
  "boolQuery c name =
     (let v = QueryText c name in if v = [] then None else Some (v = ''true'' \<or> v = ''1''))"

definition bound :: "string + 'a \<Rightarrow> Response + 'a" where
  "bound r = (case r of Inl e \<Rightarrow> Inl (BadRequest (Plain e)) | Inr x \<Rightarrow> Inr x)"

section \<open>Answering errors\<close>

definition writeError :: "error \<Rightarrow> Response" where
  "writeError err =
     (case err of
        ErrNotFound \<Rightarrow> NotFound ''Not found''
      | ErrForbidden s \<Rightarrow> Forbidden (errorText err)
      | ErrUnknownKind s \<Rightarrow> BadRequest (Plain (errorText err))
      | ErrValidation s \<Rightarrow> BadRequest (Plain (errorText err))
      | _ \<Rightarrow> InternalError ''Request failed'')"

definition writeRegistryError :: "error \<Rightarrow> Response" where
  "writeRegistryError err =
     (case err of ErrConflict s \<Rightarrow> Conflict (errorText err) | _ \<Rightarrow> writeError err)"

text \<open>
  The two shapes of a handler's early returns: a step that read the request may have answered
  already, and a service call either fails or is shown.
\<close>

definition stopped :: "Response + 'a \<Rightarrow> ('a \<Rightarrow> 'w \<Rightarrow> Response \<times> 'w) \<Rightarrow> 'w \<Rightarrow> Response \<times> 'w" where
  "stopped r k = (case r of Inl response \<Rightarrow> (\<lambda>w. (response, w)) | Inr x \<Rightarrow> k x)"

definition answer :: "(error \<Rightarrow> Response) \<Rightarrow> ('a \<Rightarrow> Response) \<Rightarrow> ('w, 'a) io \<Rightarrow> 'w \<Rightarrow> Response \<times> 'w" where
  "answer refused shown m =
     (\<lambda>w. case m w of (Inl e, w') \<Rightarrow> (refused e, w') | (Inr x, w') \<Rightarrow> (shown x, w'))"

definition paged :: "('a \<Rightarrow> View) \<Rightarrow> Params \<Rightarrow> 'a \<times> int \<Rightarrow> Response" where
  "paged view p = (\<lambda>(rows, total). Paginated (view rows) (meta p total))"

section \<open>Field sets\<close>

definition catalogFields :: FieldSet where
  "catalogFields = [(''name'', ''name''), (''code'', ''code''), (''isActive'', ''isActive''), (''createdAt'', ''createdAt'')]"

definition truckFields :: FieldSet where
  "truckFields = [(''policeNumber'', ''licensePlate''), (''status'', ''status''), (''isAvailable'', ''isAvailable''),
     (''createdAt'', ''createdAt'')]"

definition warehouseFields :: FieldSet where
  "warehouseFields = [(''name'', ''name''), (''city'', ''city''), (''createdAt'', ''createdAt''),
     (''customerCompanyId'', ''customerCompanyId'')]"

definition driverFields :: FieldSet where
  "driverFields = [(''fullName'', ''fullName''), (''phone'', ''phone''), (''employeeNo'', ''employeeNo''),
     (''licenseExpiry'', ''licenseExpiry''), (''status'', ''status''), (''createdAt'', ''createdAt'')]"

definition vehicleFields :: FieldSet where
  "vehicleFields = [(''licensePlate'', ''licensePlate''), (''status'', ''status''), (''unitType'', ''unitType''),
     (''isAvailable'', ''isAvailable''), (''unitYear'', ''unitYear''), (''createdAt'', ''createdAt''),
     (''updatedAt'', ''updatedAt'')]"

definition trackerFields :: FieldSet where
  "trackerFields = [(''deviceId'', ''deviceId''), (''kind'', ''kind''), (''owner'', ''owner''), (''status'', ''status''),
     (''createdAt'', ''createdAt'')]"

definition documentFields :: FieldSet where
  "documentFields = [(''docType'', ''docType''), (''expiresOn'', ''expiresOn''), (''issuedOn'', ''issuedOn''),
     (''createdAt'', ''createdAt'')]"

section \<open>Catalogues\<close>

record 'w Services =
  Register :: "'w Database"
  Lists :: "'w CatalogDB"

definition CatalogHandler_Kinds :: "'w Services \<Rightarrow> Context \<Rightarrow> 'w \<Rightarrow> Response \<times> 'w" where
  "CatalogHandler_Kinds S c =
     (\<lambda>w. (OK (KindsData (map (\<lambda>name. \<lparr>Kind = name, Writable = CatalogService.Writable (Lists S) name,
        Shareable = Catalog.Shareable name\<rparr>) CatalogKinds)), w))"

definition CatalogHandler_Create :: "'w Services \<Rightarrow> Context \<Rightarrow> 'w \<Rightarrow> Response \<times> 'w" where
  "CatalogHandler_Create S c =
     stopped (caller c) (\<lambda>companyID.
     stopped (bound (AsPayload (RequestBody c))) (\<lambda>payload w.
       case CatalogCreate (Lists S) (Param c ''kind'') companyID (staff c) payload w of
         (Inl err, w1) \<Rightarrow> (writeError err, w1)
       | (Inr i, w1) \<Rightarrow>
           (case CatalogGet (Lists S) (Param c ''kind'') i companyID (staff c) w1 of
              (Inl _, w2) \<Rightarrow> (Created (IDData i), w2)
            | (Inr item, w2) \<Rightarrow> (Created (EntryData item), w2))))"

definition CatalogHandler_Update :: "'w Services \<Rightarrow> Context \<Rightarrow> 'w \<Rightarrow> Response \<times> 'w" where
  "CatalogHandler_Update S c =
     stopped (caller c) (\<lambda>companyID.
     stopped (bound (AsPayload (RequestBody c))) (\<lambda>payload.
     answer writeError (\<lambda>item. OK (EntryData item))
       (andThen (CatalogUpdate (Lists S) (Param c ''kind'') (Param c ''id'') companyID (staff c) payload) (\<lambda>_.
        CatalogGet (Lists S) (Param c ''kind'') (Param c ''id'') companyID (staff c)))))"

definition CatalogHandler_Delete :: "'w Services \<Rightarrow> Context \<Rightarrow> 'w \<Rightarrow> Response \<times> 'w" where
  "CatalogHandler_Delete S c =
     stopped (caller c) (\<lambda>companyID.
     answer writeError (\<lambda>_. OKWithMessage ''Entry removed.'' NoData)
       (CatalogDelete (Lists S) (Param c ''kind'') (Param c ''id'') companyID (staff c)))"

definition CatalogHandler_List :: "'w Services \<Rightarrow> Context \<Rightarrow> 'w \<Rightarrow> Response \<times> 'w" where
  "CatalogHandler_List S c =
     stopped (caller c) (\<lambda>companyID.
     stopped (params c catalogFields) (\<lambda>p.
     answer writeError (paged EntriesData p)
       (CatalogList (Lists S) (Param c ''kind'') companyID (QueryText c ''parentId'') (staff c) p)))"

definition CatalogHandler_Get :: "'w Services \<Rightarrow> Context \<Rightarrow> 'w \<Rightarrow> Response \<times> 'w" where
  "CatalogHandler_Get S c =
     stopped (caller c) (\<lambda>companyID.
     answer writeError (\<lambda>item. OK (EntryData item))
       (CatalogGet (Lists S) (Param c ''kind'') (Param c ''id'') companyID (staff c)))"

section \<open>Fleet\<close>

definition FleetHandler_ListTrucks :: "'w Services \<Rightarrow> Context \<Rightarrow> 'w \<Rightarrow> Response \<times> 'w" where
  "FleetHandler_ListTrucks S c =
     stopped (caller c) (\<lambda>companyID.
     stopped (params c truckFields) (\<lambda>p.
     answer writeError (paged TrucksData p)
       (ListTrucks (Register S) companyID p (QueryText c ''isAvailable'' = ''true''))))"

definition FleetHandler_GetTruck :: "'w Services \<Rightarrow> Context \<Rightarrow> 'w \<Rightarrow> Response \<times> 'w" where
  "FleetHandler_GetTruck S c =
     stopped (caller c) (\<lambda>companyID.
     answer writeError (\<lambda>truck. OK (TruckData truck)) (GetTruck (Register S) companyID (Param c ''id'')))"

definition FleetHandler_ListWarehouses :: "'w Services \<Rightarrow> Context \<Rightarrow> 'w \<Rightarrow> Response \<times> 'w" where
  "FleetHandler_ListWarehouses S c =
     stopped (caller c) (\<lambda>companyID.
     stopped (params c warehouseFields) (\<lambda>p.
     answer writeError (paged WarehousesData p) (ListWarehouses (Register S) companyID p)))"

definition FleetHandler_CreateWarehouse :: "'w Services \<Rightarrow> Context \<Rightarrow> 'w \<Rightarrow> Response \<times> 'w" where
  "FleetHandler_CreateWarehouse S c =
     stopped (caller c) (\<lambda>companyID.
     stopped (bound (AsWarehouse (RequestBody c))) (\<lambda>req.
     answer writeError (\<lambda>site. Created (WarehouseData site)) (CreateSite (Register S) companyID (toInput req))))"

definition FleetHandler_UpdateWarehouse :: "'w Services \<Rightarrow> Context \<Rightarrow> 'w \<Rightarrow> Response \<times> 'w" where
  "FleetHandler_UpdateWarehouse S c =
     stopped (caller c) (\<lambda>companyID.
     stopped (bound (AsWarehouse (RequestBody c))) (\<lambda>req.
     answer writeError (\<lambda>site. OK (WarehouseData site))
       (UpdateSite (Register S) companyID (Param c ''id'') (toInput req))))"

definition FleetHandler_DeleteWarehouse :: "'w Services \<Rightarrow> Context \<Rightarrow> 'w \<Rightarrow> Response \<times> 'w" where
  "FleetHandler_DeleteWarehouse S c =
     stopped (caller c) (\<lambda>companyID.
     answer writeError (\<lambda>_. OKWithMessage ''Site removed.'' NoData)
       (DeleteSite (Register S) companyID (Param c ''id'')))"

definition FleetHandler_GetWarehouse :: "'w Services \<Rightarrow> Context \<Rightarrow> 'w \<Rightarrow> Response \<times> 'w" where
  "FleetHandler_GetWarehouse S c =
     stopped (caller c) (\<lambda>companyID.
     answer writeError (\<lambda>site. OK (WarehouseData site)) (GetWarehouse (Register S) companyID (Param c ''id'')))"

section \<open>The register: drivers and vehicles\<close>

definition RegistryHandler_ListDrivers :: "'w Services \<Rightarrow> Context \<Rightarrow> 'w \<Rightarrow> Response \<times> 'w" where
  "RegistryHandler_ListDrivers S c =
     stopped (caller c) (\<lambda>companyID.
     stopped (params c driverFields) (\<lambda>p.
     answer writeRegistryError (paged DriversData p) (ListDrivers (Register S) companyID p (QueryText c ''status''))))"

definition RegistryHandler_GetDriver :: "'w Services \<Rightarrow> Context \<Rightarrow> 'w \<Rightarrow> Response \<times> 'w" where
  "RegistryHandler_GetDriver S c =
     stopped (caller c) (\<lambda>companyID.
     answer writeRegistryError (\<lambda>d. OK (DriverData d)) (GetDriver (Register S) companyID (Param c ''id'')))"

definition RegistryHandler_CreateDriver :: "'w Services \<Rightarrow> Context \<Rightarrow> 'w \<Rightarrow> Response \<times> 'w" where
  "RegistryHandler_CreateDriver S c =
     stopped (caller c) (\<lambda>companyID.
     stopped (bound (AsDriver (RequestBody c))) (\<lambda>inp.
     answer writeRegistryError (\<lambda>d. Created (DriverData d)) (CreateDriver (Register S) companyID inp)))"

definition RegistryHandler_UpdateDriver :: "'w Services \<Rightarrow> Context \<Rightarrow> 'w \<Rightarrow> Response \<times> 'w" where
  "RegistryHandler_UpdateDriver S c =
     stopped (caller c) (\<lambda>companyID.
     stopped (bound (AsDriver (RequestBody c))) (\<lambda>inp.
     answer writeRegistryError (\<lambda>d. OK (DriverData d)) (UpdateDriver (Register S) companyID (Param c ''id'') inp)))"

definition RegistryHandler_DeleteDriver :: "'w Services \<Rightarrow> Context \<Rightarrow> 'w \<Rightarrow> Response \<times> 'w" where
  "RegistryHandler_DeleteDriver S c =
     stopped (caller c) (\<lambda>companyID.
     answer writeRegistryError (\<lambda>_. OKWithMessage ''Driver removed.'' NoData)
       (DeleteDriver (Register S) companyID (Param c ''id'')))"

definition RegistryHandler_ListVehicles :: "'w Services \<Rightarrow> Context \<Rightarrow> 'w \<Rightarrow> Response \<times> 'w" where
  "RegistryHandler_ListVehicles S c =
     stopped (caller c) (\<lambda>companyID.
     stopped (params c vehicleFields) (\<lambda>p.
     answer writeRegistryError (paged VehiclesData p)
       (ListVehicles (Register S) companyID p (QueryText c ''status'') (boolQuery c ''isAvailable'')
          (QueryText c ''groupId''))))"

definition RegistryHandler_GetVehicle :: "'w Services \<Rightarrow> Context \<Rightarrow> 'w \<Rightarrow> Response \<times> 'w" where
  "RegistryHandler_GetVehicle S c =
     stopped (caller c) (\<lambda>companyID.
     answer writeRegistryError (\<lambda>v. OK (VehicleData v)) (GetVehicle (Register S) companyID (Param c ''id'')))"

definition RegistryHandler_CreateVehicle :: "'w Services \<Rightarrow> Context \<Rightarrow> 'w \<Rightarrow> Response \<times> 'w" where
  "RegistryHandler_CreateVehicle S c =
     stopped (caller c) (\<lambda>companyID.
     stopped (bound (AsVehicle (RequestBody c))) (\<lambda>inp.
     answer writeRegistryError (\<lambda>v. Created (VehicleData v)) (CreateVehicle (Register S) companyID inp)))"

definition RegistryHandler_UpdateVehicle :: "'w Services \<Rightarrow> Context \<Rightarrow> 'w \<Rightarrow> Response \<times> 'w" where
  "RegistryHandler_UpdateVehicle S c =
     stopped (caller c) (\<lambda>companyID.
     stopped (bound (AsVehicle (RequestBody c))) (\<lambda>inp.
     answer writeRegistryError (\<lambda>v. OK (VehicleData v)) (UpdateVehicle (Register S) companyID (Param c ''id'') inp)))"

definition RegistryHandler_DeleteVehicle :: "'w Services \<Rightarrow> Context \<Rightarrow> 'w \<Rightarrow> Response \<times> 'w" where
  "RegistryHandler_DeleteVehicle S c =
     stopped (caller c) (\<lambda>companyID.
     answer writeRegistryError (\<lambda>_. OKWithMessage ''Vehicle removed.'' NoData)
       (DeleteVehicle (Register S) companyID (Param c ''id'')))"

section \<open>The register: devices and documents\<close>

definition RegistryHandler_ListTrackers :: "'w Services \<Rightarrow> Context \<Rightarrow> 'w \<Rightarrow> Response \<times> 'w" where
  "RegistryHandler_ListTrackers S c =
     stopped (trackerScope c) (\<lambda>(companyID, _).
     stopped (params c trackerFields) (\<lambda>p.
     answer writeRegistryError (paged TrackersData p)
       (ListTrackers (Register S) companyID p (QueryText c ''kind'') (boolQuery c ''fitted'')
          (QueryText c ''vehicleId''))))"

definition RegistryHandler_GetTracker :: "'w Services \<Rightarrow> Context \<Rightarrow> 'w \<Rightarrow> Response \<times> 'w" where
  "RegistryHandler_GetTracker S c =
     stopped (trackerScope c) (\<lambda>(companyID, _).
     answer writeRegistryError (\<lambda>t. OK (TrackerData t)) (GetTracker (Register S) companyID (Param c ''id'')))"

definition RegistryHandler_CreateTracker :: "'w Services \<Rightarrow> Context \<Rightarrow> 'w \<Rightarrow> Response \<times> 'w" where
  "RegistryHandler_CreateTracker S c =
     stopped (trackerScope c) (\<lambda>(companyID, isStaff).
     stopped (bound (AsTracker (RequestBody c))) (\<lambda>inp.
     answer writeRegistryError (\<lambda>t. Created (TrackerData t)) (CreateTracker (Register S) companyID isStaff inp)))"

definition RegistryHandler_UpdateTracker :: "'w Services \<Rightarrow> Context \<Rightarrow> 'w \<Rightarrow> Response \<times> 'w" where
  "RegistryHandler_UpdateTracker S c =
     stopped (trackerScope c) (\<lambda>(companyID, isStaff).
     stopped (bound (AsTracker (RequestBody c))) (\<lambda>inp.
     answer writeRegistryError (\<lambda>t. OK (TrackerData t))
       (if isStaff \<and> companyID = [] then UpdateTrackerAsStaff (Register S) (Param c ''id'') inp
        else UpdateTracker (Register S) companyID (Param c ''id'') (inp\<lparr>TrackerInput.CompanyID := None\<rparr>))))"

definition RegistryHandler_DeleteTracker :: "'w Services \<Rightarrow> Context \<Rightarrow> 'w \<Rightarrow> Response \<times> 'w" where
  "RegistryHandler_DeleteTracker S c =
     stopped (trackerScope c) (\<lambda>(companyID, _).
     answer writeRegistryError (\<lambda>_. OKWithMessage ''Device removed.'' NoData)
       (DeleteTracker (Register S) companyID (Param c ''id'')))"

definition RegistryHandler_Fit :: "'w Services \<Rightarrow> Context \<Rightarrow> 'w \<Rightarrow> Response \<times> 'w" where
  "RegistryHandler_Fit S c =
     stopped (caller c) (\<lambda>companyID.
     stopped (bound (AsFit (RequestBody c))) (\<lambda>inp.
     let inp = (if FitInput.InstalledByUserID inp = None \<and> signedInUser c \<noteq> []
                then inp\<lparr>FitInput.InstalledByUserID := Some (signedInUser c)\<rparr> else inp) in
     answer writeRegistryError (\<lambda>a. Created (FittingData a)) (Fit (Register S) companyID (Param c ''id'') inp)))"

definition RegistryHandler_Unfit :: "'w Services \<Rightarrow> Context \<Rightarrow> 'w \<Rightarrow> Response \<times> 'w" where
  "RegistryHandler_Unfit S c =
     stopped (caller c) (\<lambda>companyID.
     stopped (if ContentLength c > 0 then bound (AsUnfit (RequestBody c)) else Inr None) (\<lambda>unfittedAt.
     answer writeRegistryError (\<lambda>_. OKWithMessage ''Device unfitted.'' NoData)
       (Unfit (Register S) companyID (Param c ''id'') unfittedAt)))"

definition RegistryHandler_Assignments :: "'w Services \<Rightarrow> Context \<Rightarrow> 'w \<Rightarrow> Response \<times> 'w" where
  "RegistryHandler_Assignments S c =
     stopped (trackerScope c) (\<lambda>(companyID, _).
     answer writeRegistryError (\<lambda>rows. OK (FittingsData rows)) (AssignmentsOf (Register S) companyID (Param c ''id'')))"

definition RegistryHandler_ListDocuments :: "'w Services \<Rightarrow> Context \<Rightarrow> 'w \<Rightarrow> Response \<times> 'w" where
  "RegistryHandler_ListDocuments S c =
     stopped (caller c) (\<lambda>companyID.
     stopped (params c documentFields) (\<lambda>p.
     answer writeRegistryError (paged DocumentsData p)
       (ListDocuments (Register S) companyID p (QueryText c ''vehicleId'') (QueryText c ''driverId'')
          (fst (Atoi (QueryText c ''expiringWithinDays''))))))"

definition RegistryHandler_CreateDocument :: "'w Services \<Rightarrow> Context \<Rightarrow> 'w \<Rightarrow> Response \<times> 'w" where
  "RegistryHandler_CreateDocument S c =
     stopped (caller c) (\<lambda>companyID.
     stopped (bound (AsDocument (RequestBody c))) (\<lambda>inp.
     answer writeRegistryError (\<lambda>d. Created (DocumentData d)) (CreateDocument (Register S) companyID inp)))"

definition RegistryHandler_UpdateDocument :: "'w Services \<Rightarrow> Context \<Rightarrow> 'w \<Rightarrow> Response \<times> 'w" where
  "RegistryHandler_UpdateDocument S c =
     stopped (caller c) (\<lambda>companyID.
     stopped (bound (AsDocument (RequestBody c))) (\<lambda>inp.
     answer writeRegistryError (\<lambda>d. OK (DocumentData d)) (UpdateDocument (Register S) companyID (Param c ''id'') inp)))"

definition RegistryHandler_DeleteDocument :: "'w Services \<Rightarrow> Context \<Rightarrow> 'w \<Rightarrow> Response \<times> 'w" where
  "RegistryHandler_DeleteDocument S c =
     stopped (caller c) (\<lambda>companyID.
     answer writeRegistryError (\<lambda>_. OKWithMessage ''Document removed.'' NoData)
       (DeleteDocument (Register S) companyID (Param c ''id'')))"

section \<open>A request served\<close>

definition catalogHandlers :: "'w Services \<Rightarrow> (string \<times> (Context \<Rightarrow> 'w \<Rightarrow> Response \<times> 'w)) list" where
  "catalogHandlers S =
     [(''Catalog.Kinds'', CatalogHandler_Kinds S), (''Catalog.List'', CatalogHandler_List S),
      (''Catalog.Get'', CatalogHandler_Get S), (''Catalog.Create'', CatalogHandler_Create S),
      (''Catalog.Update'', CatalogHandler_Update S), (''Catalog.Delete'', CatalogHandler_Delete S)]"

definition readHandlers :: "'w Services \<Rightarrow> (string \<times> (Context \<Rightarrow> 'w \<Rightarrow> Response \<times> 'w)) list" where
  "readHandlers S =
     [(''Fleet.ListTrucks'', FleetHandler_ListTrucks S), (''Fleet.GetTruck'', FleetHandler_GetTruck S),
      (''Fleet.ListWarehouses'', FleetHandler_ListWarehouses S), (''Fleet.GetWarehouse'', FleetHandler_GetWarehouse S),
      (''Registry.ListDrivers'', RegistryHandler_ListDrivers S), (''Registry.GetDriver'', RegistryHandler_GetDriver S),
      (''Registry.ListVehicles'', RegistryHandler_ListVehicles S), (''Registry.GetVehicle'', RegistryHandler_GetVehicle S),
      (''Registry.ListTrackers'', RegistryHandler_ListTrackers S), (''Registry.GetTracker'', RegistryHandler_GetTracker S),
      (''Registry.Assignments'', RegistryHandler_Assignments S),
      (''Registry.ListDocuments'', RegistryHandler_ListDocuments S)]"

definition writeHandlers :: "'w Services \<Rightarrow> (string \<times> (Context \<Rightarrow> 'w \<Rightarrow> Response \<times> 'w)) list" where
  "writeHandlers S =
     [(''Fleet.CreateWarehouse'', FleetHandler_CreateWarehouse S), (''Fleet.UpdateWarehouse'', FleetHandler_UpdateWarehouse S),
      (''Fleet.DeleteWarehouse'', FleetHandler_DeleteWarehouse S),
      (''Registry.CreateDriver'', RegistryHandler_CreateDriver S), (''Registry.UpdateDriver'', RegistryHandler_UpdateDriver S),
      (''Registry.DeleteDriver'', RegistryHandler_DeleteDriver S),
      (''Registry.CreateVehicle'', RegistryHandler_CreateVehicle S), (''Registry.UpdateVehicle'', RegistryHandler_UpdateVehicle S),
      (''Registry.DeleteVehicle'', RegistryHandler_DeleteVehicle S),
      (''Registry.CreateTracker'', RegistryHandler_CreateTracker S), (''Registry.UpdateTracker'', RegistryHandler_UpdateTracker S),
      (''Registry.DeleteTracker'', RegistryHandler_DeleteTracker S),
      (''Registry.Fit'', RegistryHandler_Fit S), (''Registry.Unfit'', RegistryHandler_Unfit S),
      (''Registry.CreateDocument'', RegistryHandler_CreateDocument S), (''Registry.UpdateDocument'', RegistryHandler_UpdateDocument S),
      (''Registry.DeleteDocument'', RegistryHandler_DeleteDocument S)]"

text \<open>
  A request on a route of the table: what it shows of its token, and what it carries. \<open>None\<close>
  where building the route panics or the route names no handler.
\<close>

record HttpRequest =
  OnRoute :: Route
  Authorization :: string
  QueryToken :: string
  Carries :: Context

definition serveHTTP ::
  "(string \<Rightarrow> Claims option) \<Rightarrow> (string \<Rightarrow> Principal option) option \<Rightarrow> 'w Services \<Rightarrow> HttpRequest \<Rightarrow> 'w \<Rightarrow>
   (Response \<times> 'w) option" where
  "serveHTTP parse remote S q w =
     (case admit parse remote (OnRoute q) (Authorization q) (QueryToken q) of
        None \<Rightarrow> None
      | Some (Aborted code message) \<Rightarrow> Some (ErrorBody code (Plain message), w)
      | Some (Continues p) \<Rightarrow>
          map_option (\<lambda>h. h ((Carries q)\<lparr>SignedIn := Some p\<rparr>) w)
            (map_of (catalogHandlers S @ readHandlers S @ writeHandlers S) (Handler (OnRoute q))))"

end
