(* ===== verification/HttpRegister.thy ===== *)
theory HttpRegister
  imports Handlers
begin

text \<open>
  The HTTP surface as a whole. A request that reaches a handler acts for the company its principal
  may act for, and only along the steps of the registers' machines; a request that is refused on the
  way changes nothing. Composed with the door of \<open>Gate\<close> and the machines of the registers, this
  gives what the service promises of its stored data to the outside.
\<close>

section \<open>Reads change nothing\<close>

definition readsOnly :: "('w \<Rightarrow> bool) \<Rightarrow> ('w \<Rightarrow> 'v) \<Rightarrow> ('w \<Rightarrow> 'a \<times> 'w) \<Rightarrow> bool" where
  "readsOnly good vw m \<longleftrightarrow> (\<forall>w. good w \<longrightarrow> good (snd (m w)) \<and> vw (snd (m w)) = vw w)"

lemma answer_snd [simp]: "snd (answer refused shown m w) = snd (m w)"
  by (simp add: answer_def split: prod.splits sum.splits)

lemma forget_snd [simp]: "snd (forget m w) = snd (m w)"
  by (simp add: forget_def io_simps split: prod.splits sum.splits)

lemma readsOnly_answer: "readsOnly good vw m \<Longrightarrow> readsOnly good vw (answer refused shown m)"
  by (simp add: readsOnly_def)

lemma readsOnly_stopped: "(\<And>x. r = Inr x \<Longrightarrow> readsOnly good vw (k x)) \<Longrightarrow> readsOnly good vw (stopped r k)"
  by (cases r) (simp_all add: stopped_def readsOnly_def)

context database
begin

lemma readsOnlyI:
  assumes "\<And>u. triple (holds (\<lambda>v. v = u)) m (\<lambda>_. holds (\<lambda>v. v = u)) (holds (\<lambda>v. v = u))"
  shows "readsOnly good vw m"
  unfolding readsOnly_def
proof (intro allI impI)
  fix w assume "good w"
  have "holds (\<lambda>v. v = vw w) (snd (m w))"
    by (rule triple_worldD [OF assms [of "vw w"] _ prod.collapse [symmetric]]) (simp add: inWorld_def \<open>good w\<close>)
  then show "good (snd (m w)) \<and> vw (snd (m w)) = vw w" by (simp add: inWorld_def)
qed

lemma quiet:
  assumes "triple (holds P) m (\<lambda>x. holds (\<lambda>v. P v \<and> R x v)) (holds P)"
  shows "triple (holds P) m (\<lambda>_. holds P) (holds P)"
  by (rule triple_conseq [OF assms]) (simp_all add: inWorld_def)

lemma quiet_page:
  assumes "triple (holds P) m (\<lambda>(xs, n). holds (\<lambda>v. P v \<and> R xs n v)) (holds P)"
  shows "triple (holds P) m (\<lambda>_. holds P) (holds P)"
  by (rule triple_conseq [OF assms]) (auto simp: inWorld_def)

lemma reads:
  "readsOnly good vw (ListTrucks D co p free)" "readsOnly good vw (GetTruck D co i)"
  "readsOnly good vw (ListWarehouses D co p)" "readsOnly good vw (ListVehicles D co p st av g)"
  "readsOnly good vw (GetVehicle D co i)" "readsOnly good vw (ListTrackers D co p kd ft vid)"
  "readsOnly good vw (GetTracker D co i)"
  by (rule readsOnlyI; (rule quiet_page [OF ListTrucks_triple] quiet [OF GetTruck_triple] quiet_page [OF ListWarehouses_triple]
        quiet_page [OF ListVehicles_triple] quiet [OF GetVehicle_triple] quiet_page [OF ListTrackers_triple]
        quiet [OF GetTracker_triple]); assumption?)+

lemma page_quiet:
  "triple (holds P) (page (driverCol D) p prm) (\<lambda>_. holds P) (holds P)"
  "triple (holds P) (page (documentCol D) p' prm) (\<lambda>_. holds P) (holds P)"
  using quiet_page [OF drv.page_triple] quiet_page [OF dcm.page_triple] by simp_all

lemma one_quiet:
  "triple (holds P) (decodeOne (driverCol D) p) (\<lambda>_. holds P) (holds P)"
  "triple (holds P) (decodeOne (trackerCol D) p') (\<lambda>_. holds P) (holds P)"
  "triple (holds P) (decodeOne (siteCol D) p'') (\<lambda>_. holds P) (holds P)"
  using quiet [OF drv.decodeOne_triple] quiet [OF trk.decodeOne_triple] quiet [OF sit.decodeOne_triple] by simp_all

lemma oid_quiet: "triple (holds P) (lift (oid D ident)) (\<lambda>_. holds P) (holds P)"
  by (rule quiet [OF oid_triple])

lemma then_quiet:
  "triple (holds P) m (\<lambda>_. holds P) (holds P) \<Longrightarrow> (\<And>x. triple (holds P) (k x) (\<lambda>_. holds P) (holds P)) \<Longrightarrow>
     triple (holds P) (andThen m k) (\<lambda>_. holds P) (holds P)"
  by (rule triple_andThen)

lemma done_quiet: "triple (holds P) (ok x) (\<lambda>_. holds P) (holds P)" "triple (holds P) (fail e) (\<lambda>_. holds P) (holds P)"
  by (rule ok_triple fail_triple, assumption)+

lemmas quiet_rules = then_quiet done_quiet page_quiet one_quiet oid_quiet quiet [OF asg.find_triple] now_triple

lemma documents_quiet: "triple (holds P) (ListDocuments D co p vid did days) (\<lambda>_. holds P) (holds P)"
  unfolding ListDocuments_def store_simps by (intro triple_if quiet_rules)

lemma warehouse_quiet: "triple (holds P) (GetWarehouse D co i) (\<lambda>_. holds P) (holds P)"
  unfolding GetWarehouse_def store_simps by (cases "ObjectIDFromHex (env D) i") (simp_all only: option.case, (intro quiet_rules)+)

lemma more_reads:
  "readsOnly good vw (ListDrivers D co p st)" "readsOnly good vw (GetDriver D co i)"
  "readsOnly good vw (GetWarehouse D co i)" "readsOnly good vw (AssignmentsOf D co i)"
  "readsOnly good vw (ListDocuments D co p vid did days)"
  "readsOnly good vw (ListDriversForSync D co pg sz since)" "readsOnly good vw (GetDriverByID D i)"
  unfolding ListDrivers_def GetDriver_def AssignmentsOf_def ListDriversForSync_def GetDriverByID_def
    findTracker_def store_simps
  by (rule readsOnlyI, intro quiet_rules documents_quiet warehouse_quiet)+
end

section \<open>Acting for a company\<close>

text \<open>
  The company a principal may act for: Karlo staff for the company they name or, on devices and
  naming none, for nobody; everyone else only for their own.
\<close>

definition authority :: "Principal \<Rightarrow> string \<Rightarrow> string \<Rightarrow> bool" where
  "authority p header co \<longleftrightarrow>
     (if co = [] then IsPlatformStaff p \<and> header = []
      else if TrimSpace header = [] then co = Principal.CompanyID p
      else IsPlatformStaff p \<and> co = TrimSpace header)"

lemma caller_authority: "SignedIn c = Some p \<Longrightarrow> caller c = Inr co \<Longrightarrow> authority p (ActingFor c) co"
  by (auto simp: caller_def authority_def Let_def split: if_splits)

lemma scope_authority: "SignedIn c = Some p \<Longrightarrow> trackerScope c = Inr (co, s) \<Longrightarrow> authority p (ActingFor c) co"
  by (auto simp: trackerScope_def authority_def dest: caller_authority split: if_splits sum.splits)

text \<open>A write of one of the two registers, on behalf of a company.\<close>

datatype Write = OnRegister Request | OnSites SiteRequest

fun performWrite :: "'w Database \<Rightarrow> string \<Rightarrow> Write \<Rightarrow> ('w, unit) io" where
  "performWrite D co (OnRegister r) = perform D co r"
| "performWrite D co (OnSites r) = performSite D co r"

fun writesFor :: "string \<Rightarrow> Write \<Rightarrow> bool" where
  "writesFor co (OnRegister r) \<longleftrightarrow> actor co r = co"
| "writesFor co (OnSites r) \<longleftrightarrow> True"

definition writesOnce :: "'w Database \<Rightarrow> (Context \<Rightarrow> 'w \<Rightarrow> Response \<times> 'w) \<Rightarrow> bool" where
  "writesOnce D h \<longleftrightarrow> (\<forall>c p w. SignedIn c = Some p \<longrightarrow> snd (h c w) = w \<or>
     (\<exists>co r. authority p (ActingFor c) co \<and> writesFor co r \<and> snd (h c w) = snd (performWrite D co r w)))"

lemma writesOnce_caller:
  assumes "\<And>c co w. caller c = Inr co \<Longrightarrow> snd (k c co w) = w \<or> (\<exists>r. writesFor co r \<and> snd (k c co w) = snd (performWrite D co r w))"
  shows "writesOnce D (\<lambda>c. stopped (caller c) (k c))"
  unfolding writesOnce_def
proof (intro allI impI)
  fix c :: Context and p w assume p: "SignedIn c = Some p"
  show "snd (stopped (caller c) (k c) w) = w \<or> (\<exists>co r. authority p (ActingFor c) co \<and> writesFor co r \<and>
      snd (stopped (caller c) (k c) w) = snd (performWrite D co r w))"
  proof (cases "caller c")
    case (Inr co)
    then show ?thesis using assms [OF Inr, of w] caller_authority [OF p Inr] by (auto simp: stopped_def)
  qed (simp add: stopped_def)
qed

lemma writesOnce_scope:
  assumes "\<And>c co s w. trackerScope c = Inr (co, s) \<Longrightarrow> snd (k c (co, s) w) = w \<or>
      (\<exists>r. writesFor co r \<and> snd (k c (co, s) w) = snd (performWrite D co r w))"
  shows "writesOnce D (\<lambda>c. stopped (trackerScope c) (k c))"
  unfolding writesOnce_def
proof (intro allI impI)
  fix c :: Context and p w assume p: "SignedIn c = Some p"
  show "snd (stopped (trackerScope c) (k c) w) = w \<or> (\<exists>co r. authority p (ActingFor c) co \<and> writesFor co r \<and>
      snd (stopped (trackerScope c) (k c) w) = snd (performWrite D co r w))"
  proof (cases "trackerScope c")
    case (Inr x)
    obtain co s where x: "x = (co, s)" by force
    then show ?thesis using assms [OF Inr [unfolded x], of w] scope_authority [OF p Inr [unfolded x]] Inr
      by (auto simp: stopped_def)
  qed (simp add: stopped_def)
qed

text \<open>Each service call is one of the writes.\<close>

lemma writes:
  "snd (CreateDriver D co inp1 w) = snd (performWrite D co (OnRegister (ReqCreateDriver inp1)) w)"
  "snd (UpdateDriver D co i inp1 w) = snd (performWrite D co (OnRegister (ReqUpdateDriver i inp1)) w)"
  "snd (DeleteDriver D co i w) = snd (performWrite D co (OnRegister (ReqDeleteDriver i)) w)"
  "snd (CreateVehicle D co inp2 w) = snd (performWrite D co (OnRegister (ReqCreateVehicle inp2)) w)"
  "snd (UpdateVehicle D co i inp2 w) = snd (performWrite D co (OnRegister (ReqUpdateVehicle i inp2)) w)"
  "snd (DeleteVehicle D co i w) = snd (performWrite D co (OnRegister (ReqDeleteVehicle i)) w)"
  "snd (CreateTracker D co s inp3 w) = snd (performWrite D co (OnRegister (ReqCreateTracker s inp3)) w)"
  "snd (UpdateTracker D co i inp3 w) = snd (performWrite D co (OnRegister (ReqUpdateTracker i inp3)) w)"
  "snd (DeleteTracker D co i w) = snd (performWrite D co (OnRegister (ReqDeleteTracker i)) w)"
  "snd (Fit D co i inp4 w) = snd (performWrite D co (OnRegister (ReqFit i inp4)) w)"
  "snd (Unfit D co i at' w) = snd (performWrite D co (OnRegister (ReqUnfit i at')) w)"
  "snd (CreateDocument D co inp5 w) = snd (performWrite D co (OnRegister (ReqCreateDocument inp5)) w)"
  "snd (UpdateDocument D co i inp5 w) = snd (performWrite D co (OnRegister (ReqUpdateDocument i inp5)) w)"
  "snd (DeleteDocument D co i w) = snd (performWrite D co (OnRegister (ReqDeleteDocument i)) w)"
  "snd (CreateSite D co inp6 w) = snd (performWrite D co (OnSites (ReqCreateSite inp6)) w)"
  "snd (UpdateSite D co i inp6 w) = snd (performWrite D co (OnSites (ReqUpdateSite i inp6)) w)"
  "snd (DeleteSite D co i w) = snd (performWrite D co (OnSites (ReqDeleteSite i)) w)"
  by simp_all

lemma staff_write:
  "snd (UpdateTrackerAsStaff D i inp w) = snd (performWrite D [] (OnRegister (ReqUpdateTrackerAsStaff i inp)) w)"
  by simp

lemma stopped_write:
  assumes "\<And>x. \<exists>r. writesFor co r \<and> snd (k x w) = snd (performWrite D co r w)"
  shows "snd (stopped b k w) = w \<or> (\<exists>r. writesFor co r \<and> snd (stopped b k w) = snd (performWrite D co r w))"
  using assms by (cases b) (auto simp: stopped_def)

lemmas write_known = answer_snd writes Let_def case_prod_conv

lemma site_handlers:
  "writesOnce (Register S) (FleetHandler_CreateWarehouse S)" "writesOnce (Register S) (FleetHandler_UpdateWarehouse S)"
  "writesOnce (Register S) (FleetHandler_DeleteWarehouse S)"
  unfolding FleetHandler_CreateWarehouse_def FleetHandler_UpdateWarehouse_def FleetHandler_DeleteWarehouse_def
  by (intro writesOnce_caller stopped_write; simp only: write_known; blast intro: writesFor.simps [THEN iffD2])+

lemma driver_handlers:
  "writesOnce (Register S) (RegistryHandler_CreateDriver S)" "writesOnce (Register S) (RegistryHandler_UpdateDriver S)"
  "writesOnce (Register S) (RegistryHandler_DeleteDriver S)"
  unfolding RegistryHandler_CreateDriver_def RegistryHandler_UpdateDriver_def RegistryHandler_DeleteDriver_def
  by (intro writesOnce_caller stopped_write; simp only: write_known;
      blast intro: writesFor.simps [THEN iffD2] actor.simps)+

lemma vehicle_handlers:
  "writesOnce (Register S) (RegistryHandler_CreateVehicle S)" "writesOnce (Register S) (RegistryHandler_UpdateVehicle S)"
  "writesOnce (Register S) (RegistryHandler_DeleteVehicle S)"
  unfolding RegistryHandler_CreateVehicle_def RegistryHandler_UpdateVehicle_def RegistryHandler_DeleteVehicle_def
  by (intro writesOnce_caller stopped_write; simp only: write_known;
      blast intro: writesFor.simps [THEN iffD2] actor.simps)+

lemma document_handlers:
  "writesOnce (Register S) (RegistryHandler_CreateDocument S)" "writesOnce (Register S) (RegistryHandler_UpdateDocument S)"
  "writesOnce (Register S) (RegistryHandler_DeleteDocument S)"
  unfolding RegistryHandler_CreateDocument_def RegistryHandler_UpdateDocument_def RegistryHandler_DeleteDocument_def
  by (intro writesOnce_caller stopped_write; simp only: write_known;
      blast intro: writesFor.simps [THEN iffD2] actor.simps)+

lemma fitting_handlers:
  "writesOnce (Register S) (RegistryHandler_Fit S)" "writesOnce (Register S) (RegistryHandler_Unfit S)"
  unfolding RegistryHandler_Fit_def RegistryHandler_Unfit_def
  by (intro writesOnce_caller stopped_write; simp only: write_known;
      blast intro: writesFor.simps [THEN iffD2] actor.simps)+

lemma device_handlers:
  "writesOnce (Register S) (RegistryHandler_CreateTracker S)" "writesOnce (Register S) (RegistryHandler_DeleteTracker S)"
  unfolding RegistryHandler_CreateTracker_def RegistryHandler_DeleteTracker_def
  by (intro writesOnce_scope; simp only: case_prod_conv; intro stopped_write disjI2; simp only: write_known;
      blast intro: writesFor.simps [THEN iffD2] actor.simps)+

lemma device_write:
  "\<exists>r. writesFor co r \<and> snd ((if st \<and> co = [] then UpdateTrackerAsStaff D i inp else UpdateTracker D co i inp') w) =
     snd (performWrite D co r w)"
proof (cases "st \<and> co = []")
  case True
  then show ?thesis
    by (intro exI [of _ "OnRegister (ReqUpdateTrackerAsStaff i inp)"]) simp
next
  case False
  then show ?thesis unfolding if_not_P [OF False]
    by (intro exI [of _ "OnRegister (ReqUpdateTracker i inp')"]) simp
qed

lemma device_update: "writesOnce (Register S) (RegistryHandler_UpdateTracker S)"
  unfolding RegistryHandler_UpdateTracker_def
proof (rule writesOnce_scope)
  fix c :: Context and co st w
  show "snd ((case (co, st) of (companyID, isStaff) \<Rightarrow> stopped (bound (AsTracker (RequestBody c)))
        (\<lambda>inp. answer writeRegistryError (\<lambda>t. OK (TrackerData t))
          (if isStaff \<and> companyID = [] then UpdateTrackerAsStaff (Register S) (Param c ''id'') inp
           else UpdateTracker (Register S) companyID (Param c ''id'') (inp\<lparr>TrackerInput.CompanyID := None\<rparr>)))) w) = w \<or>
     (\<exists>r. writesFor co r \<and> snd ((case (co, st) of (companyID, isStaff) \<Rightarrow> stopped (bound (AsTracker (RequestBody c)))
        (\<lambda>inp. answer writeRegistryError (\<lambda>t. OK (TrackerData t))
          (if isStaff \<and> companyID = [] then UpdateTrackerAsStaff (Register S) (Param c ''id'') inp
           else UpdateTracker (Register S) companyID (Param c ''id'') (inp\<lparr>TrackerInput.CompanyID := None\<rparr>)))) w) =
       snd (performWrite (Register S) co r w))"
    unfolding prod.case by (rule stopped_write) (simp only: answer_snd device_write)
qed

lemma write_handlers: "list_all (\<lambda>(_, h). writesOnce (Register S) h) (writeHandlers S)"
  unfolding writeHandlers_def list.pred_inject prod.case
  by (intro conjI list.pred_inject(1) site_handlers driver_handlers vehicle_handlers document_handlers fitting_handlers device_handlers
      device_update)

context database
begin

lemma fleet_reads:
  "readsOnly good vw (FleetHandler_ListTrucks \<lparr>Register = D, Lists = L\<rparr> c)" "readsOnly good vw (FleetHandler_GetTruck \<lparr>Register = D, Lists = L\<rparr> c)"
  "readsOnly good vw (FleetHandler_ListWarehouses \<lparr>Register = D, Lists = L\<rparr> c)" "readsOnly good vw (FleetHandler_GetWarehouse \<lparr>Register = D, Lists = L\<rparr> c)"
  unfolding FleetHandler_ListTrucks_def FleetHandler_GetTruck_def FleetHandler_ListWarehouses_def FleetHandler_GetWarehouse_def
    Services.simps
  by (intro readsOnly_stopped readsOnly_answer reads more_reads)+

lemma register_reads:
  "readsOnly good vw (RegistryHandler_ListDrivers \<lparr>Register = D, Lists = L\<rparr> c)" "readsOnly good vw (RegistryHandler_GetDriver \<lparr>Register = D, Lists = L\<rparr> c)"
  "readsOnly good vw (RegistryHandler_ListVehicles \<lparr>Register = D, Lists = L\<rparr> c)" "readsOnly good vw (RegistryHandler_GetVehicle \<lparr>Register = D, Lists = L\<rparr> c)"
  "readsOnly good vw (RegistryHandler_ListDocuments \<lparr>Register = D, Lists = L\<rparr> c)"
  unfolding RegistryHandler_ListDrivers_def RegistryHandler_GetDriver_def RegistryHandler_ListVehicles_def
    RegistryHandler_GetVehicle_def RegistryHandler_ListDocuments_def Services.simps
  by (intro readsOnly_stopped readsOnly_answer reads more_reads)+

lemma device_reads:
  "readsOnly good vw (RegistryHandler_ListTrackers \<lparr>Register = D, Lists = L\<rparr> c)" "readsOnly good vw (RegistryHandler_GetTracker \<lparr>Register = D, Lists = L\<rparr> c)"
  "readsOnly good vw (RegistryHandler_Assignments \<lparr>Register = D, Lists = L\<rparr> c)"
  unfolding RegistryHandler_ListTrackers_def RegistryHandler_GetTracker_def RegistryHandler_Assignments_def Services.simps
    case_prod_unfold
  by (intro readsOnly_stopped readsOnly_answer reads more_reads)+

lemma read_handlers:
  "list_all (\<lambda>(_, h). \<forall>c. readsOnly good vw (h c)) (readHandlers \<lparr>Register = D, Lists = L\<rparr>)"
  unfolding readHandlers_def list.pred_inject prod.case
  by (intro conjI list.pred_inject(1) allI fleet_reads register_reads device_reads)

end

section \<open>The machine of the two registers\<close>

definition service_step :: "(ObjectID \<Rightarrow> string) \<Rightarrow> string \<Rightarrow> MasterData \<Rightarrow> MasterData \<Rightarrow> bool" where
  "service_step hex co v v' \<longleftrightarrow> registry_step hex False co v v' \<or> site_step co v v'"

definition catalogRoute :: "Route \<Rightarrow> bool" where
  "catalogRoute r \<longleftrightarrow> Handler r \<in> {''Catalog.Kinds'', ''Catalog.List'', ''Catalog.Get'', ''Catalog.Create'', ''Catalog.Update'', ''Catalog.Delete''}"

text \<open>The token of a request, and whom a request that is let in stands for.\<close>

definition tokenOf :: "HttpRequest \<Rightarrow> string" where
  "tokenOf q = ExtractToken (Authorization q) (QueryToken q)"

lemma registry_service: "(registry_step hex False co)\<^sup>*\<^sup>* v v' \<Longrightarrow> (service_step hex co)\<^sup>*\<^sup>* v v'"
  by (erule rtranclp_mono [THEN predicate2D, rotated]) (auto simp: service_step_def)

lemma site_service: "(site_step co)\<^sup>*\<^sup>* v v' \<Longrightarrow> (service_step hex co)\<^sup>*\<^sup>* v v'"
  by (erule rtranclp_mono [THEN predicate2D, rotated]) (auto simp: service_step_def)

lemma serveHTTP_cases:
  assumes "serveHTTP parse remote S q w = Some (resp, w')" and "\<not> catalogRoute (OnRoute q)"
  obtains (refused) "w' = w"
    | (read) p c h name where "admit parse remote (OnRoute q) (Authorization q) (QueryToken q) = Some (Continues p)"
        "(name, h) \<in> set (readHandlers S)" "w' = snd (h c w)"
    | (written) p c h name where "admit parse remote (OnRoute q) (Authorization q) (QueryToken q) = Some (Continues p)"
        "(name, h) \<in> set (writeHandlers S)" "name = Handler (OnRoute q)" "SignedIn c = Some p"
        "ActingFor c = ActingFor (Carries q)" "w' = snd (h c w)"
proof -
  let ?a = "admit parse remote (OnRoute q) (Authorization q) (QueryToken q)"
  let ?h = "map_of (catalogHandlers S @ readHandlers S @ writeHandlers S) (Handler (OnRoute q))"
  let ?c = "\<lambda>p. (Carries q)\<lparr>SignedIn := Some p\<rparr>"
  consider (out) code message where "?a = Some (Aborted code message)" "w' = w"
    | (let_in) p h where "?a = Some (Continues p)" "?h = Some h" "w' = snd (h (?c p) w)"
    using assms(1) unfolding serveHTTP_def by (auto simp del: map_of_append split: option.splits outcome.splits)
  then show thesis
  proof cases
    case (let_in p h)
    have "map_of (catalogHandlers S) (Handler (OnRoute q)) = None"
      using assms(2) by (simp add: catalogHandlers_def catalogRoute_def)
    then have "map_of (readHandlers S @ writeHandlers S) (Handler (OnRoute q)) = Some h"
      using let_in(2) by (simp add: map_add_def)
    then have "(Handler (OnRoute q), h) \<in> set (readHandlers S) \<union> set (writeHandlers S)"
      by (metis map_of_SomeD set_append)
    then consider "(Handler (OnRoute q), h) \<in> set (readHandlers S)" | "(Handler (OnRoute q), h) \<in> set (writeHandlers S)"
      by blast
    then show thesis
    proof cases
      case 1
      then show thesis using read [of p _ h "?c p"] let_in(1,3) by blast
    next
      case 2
      then show thesis using written [of p _ h "?c p"] let_in(1,3) by simp
    qed
  qed (rule refused)
qed

context database
begin

lemma performWrite_steps:
  assumes "good w" and "writesFor co r"
  shows "good (snd (performWrite D co r w)) \<and> (service_step (Hex (env D)) co)\<^sup>*\<^sup>* (vw w) (vw (snd (performWrite D co r w)))"
proof (cases r)
  case (OnRegister q)
  obtain res w' where run: "perform D co q w = (res, w')" by force
  then show ?thesis using perform_steps [OF _ assms(1) run, of False] registry_service assms(2) OnRegister by fastforce
next
  case (OnSites q)
  then show ?thesis using performSite_steps [OF assms(1), of co q] site_service by auto
qed

lemma serveHTTP_steps:
  assumes "good w" and "serveHTTP parse remote S q w = Some (resp, w')" and "\<not> catalogRoute (OnRoute q)"
    and "Register S = D"
  shows "good w' \<and> (vw w' = vw w \<or> (\<exists>p co. admit parse remote (OnRoute q) (Authorization q) (QueryToken q) = Some (Continues p) \<and>
      authority p (ActingFor (Carries q)) co \<and> (\<exists>h. (Handler (OnRoute q), h) \<in> set (writeHandlers S)) \<and>
      (service_step (Hex (env D)) co)\<^sup>*\<^sup>* (vw w) (vw w')))"
  using assms(2,3)
proof (cases rule: serveHTTP_cases)
  case refused
  then show ?thesis using assms(1) by simp
next
  case (read p c h name)
  have "S = \<lparr>Register = D, Lists = Lists S\<rparr>" using assms(4) by simp
  then have "readsOnly good vw (h c)" using read_handlers [of "Lists S"] read(2) by (auto simp: list_all_iff)
  then show ?thesis using assms(1) read(3) by (simp add: readsOnly_def)
next
  case (written p c h name)
  have "writesOnce D h" using write_handlers [of S] written(2) assms(4) by (auto simp: list_all_iff)
  then have "w' = w \<or> (\<exists>co r. authority p (ActingFor c) co \<and> writesFor co r \<and> w' = snd (performWrite D co r w))"
    unfolding writesOnce_def using written(4,6) by blast
  then show ?thesis
  proof
    assume "w' = w" then show ?thesis using assms(1) by simp
  next
    assume "\<exists>co r. authority p (ActingFor c) co \<and> writesFor co r \<and> w' = snd (performWrite D co r w)"
    then obtain co r where r: "authority p (ActingFor c) co" "writesFor co r" "w' = snd (performWrite D co r w)" by blast
    show ?thesis using performWrite_steps [OF assms(1) r(2)] r(1,3) written(1-3,5) by auto
  qed
qed

end

fun serveAll ::
  "(string \<Rightarrow> Claims option) \<Rightarrow> (string \<Rightarrow> Principal option) option \<Rightarrow> 'w Services \<Rightarrow> HttpRequest list \<Rightarrow> 'w \<Rightarrow> 'w" where
  "serveAll parse remote S [] w = w"
| "serveAll parse remote S (q # qs) w =
     serveAll parse remote S qs (case serveHTTP parse remote S q w of None \<Rightarrow> w | Some (_, w') \<Rightarrow> w')"

lemma undisturbed_sites: "undisturbed c v0 v \<Longrightarrow> site_step co v v' \<Longrightarrow> undisturbed c v0 v'"
  by (erule site_step.cases) (simp_all add: recordsKept_def)

lemma registry_sites: "registry_step hex canon co v v' \<Longrightarrow> Sites v' = Sites v"
  by (erule registry_step.cases) simp_all

text \<open>
  A company's data as it was: none of its records added, changed or removed, its sites included, but
  that a vehicle may have lost its shortcut to a device and an open fitting may have ended.
\<close>

definition leftAlone :: "string \<Rightarrow> MasterData \<Rightarrow> MasterData \<Rightarrow> bool" where
  "leftAlone c v v' \<longleftrightarrow> undisturbed c v v' \<and>
     (\<forall>i s. Site.CompanyID s = c \<longrightarrow> (Sites v' i = Some s \<longleftrightarrow> Sites v i = Some s))"

lemma leftAlone_step:
  assumes "leftAlone c v0 v" and "service_step hex co v v'" and "co \<noteq> c" and "co \<noteq> []"
  shows "leftAlone c v0 v'"
  using assms(2) unfolding service_step_def
proof
  assume "registry_step hex False co v v'"
  then show ?thesis
    using assms(1,3,4) undisturbed_step registry_sites unfolding leftAlone_def by metis
next
  assume s: "site_step co v v'"
  show ?thesis using assms(1,3) undisturbed_sites [OF _ s] othersSites_step [OF s] others_step_back [OF s]
    unfolding leftAlone_def by metis
qed

context database
begin

lemma serveAll_invariant:
  assumes step: "\<And>p co v v' q. q \<in> set qs \<Longrightarrow> I v \<Longrightarrow>
      admit parse remote (OnRoute q) (Authorization q) (QueryToken q) = Some (Continues p) \<Longrightarrow>
      authority p (ActingFor (Carries q)) co \<Longrightarrow> \<exists>h. (Handler (OnRoute q), h) \<in> set (writeHandlers S) \<Longrightarrow>
      service_step (Hex (env D)) co v v' \<Longrightarrow> I v'"
    and "\<forall>q \<in> set qs. \<not> catalogRoute (OnRoute q)" and "good w" and "I (vw w)" and "Register S = D"
  shows "good (serveAll parse remote S qs w) \<and> I (vw (serveAll parse remote S qs w))"
  using assms
proof (induction qs arbitrary: w)
  case (Cons q qs)
  let ?w = "case serveHTTP parse remote S q w of None \<Rightarrow> w | Some (_, w') \<Rightarrow> w'"
  have "good ?w \<and> I (vw ?w)"
  proof (cases "serveHTTP parse remote S q w")
    case (Some x)
    obtain resp w' where x: "x = (resp, w')" by force
    note s = serveHTTP_steps [OF Cons.prems(3) Some [unfolded x] _ Cons.prems(5)]
    then consider "good w'" "vw w' = vw w" | p co where "good w'"
        "admit parse remote (OnRoute q) (Authorization q) (QueryToken q) = Some (Continues p)"
        "authority p (ActingFor (Carries q)) co" "\<exists>h. (Handler (OnRoute q), h) \<in> set (writeHandlers S)"
        "(service_step (Hex (env D)) co)\<^sup>*\<^sup>* (vw w) (vw w')"
      using Cons.prems(2) by force
    then show ?thesis
    proof cases
      case 2
      from 2(5) have "I (vw w')"
        using Cons.prems(4) by (induction rule: rtranclp_induct) (auto intro: Cons.prems(1) [OF _ _ 2(2-4)])
      then show ?thesis using 2(1) Some x by simp
    qed (use Some x Cons.prems(4) in simp)
  qed (use Cons.prems in simp)
  moreover have "\<And>p co v v' q. q \<in> set qs \<Longrightarrow> I v \<Longrightarrow>
      admit parse remote (OnRoute q) (Authorization q) (QueryToken q) = Some (Continues p) \<Longrightarrow>
      authority p (ActingFor (Carries q)) co \<Longrightarrow> \<exists>h. (Handler (OnRoute q), h) \<in> set (writeHandlers S) \<Longrightarrow>
      service_step (Hex (env D)) co v v' \<Longrightarrow> I v'"
    using Cons.prems(1) by (metis list.set_intros(2))
  ultimately show ?case using Cons.IH [of ?w] Cons.prems(2,5) by simp
qed simp

end

end
