(* ===== verification/HttpPromises.thy ===== *)
theory HttpPromises
  imports HttpRegister
begin

text \<open>
  What the HTTP surface guarantees, from the token a request carries to the rows it may change and
  the words of its answer; each statement is evaluated on the sample fleet.
\<close>

section \<open>Answers\<close>

text \<open>
  A well-behaved answer: a success is 200 or 201; an error one of six statuses, and neither a missing
  record nor a fault of the database says more than that.
\<close>

definition proper :: "Response \<Rightarrow> bool" where
  "proper resp \<longleftrightarrow>
     (case resp of
        SuccessBody status message data info \<Rightarrow> status = 200 \<or> status = 201
      | ErrorBody status message \<Rightarrow> status \<in> {400, 401, 403, 404, 409, 500} \<and>
          (status = 404 \<longrightarrow> message = Plain ''Not found'') \<and> (status = 500 \<longrightarrow> message = Plain ''Request failed''))"

lemma proper_simps [simp]:
  "proper (OK x)" "proper (OKWithMessage m x)" "proper (Created x)" "proper (paged view p rows)"
  "proper (BadRequest m')" "proper (Unauthorized m)" "proper (Forbidden m)" "proper (Conflict m)"
  by (simp_all add: proper_def OK_def OKWithMessage_def Created_def paged_def Paginated_def BadRequest_def
      Unauthorized_def Forbidden_def Conflict_def split: prod.splits)

lemma proper_errors [simp]: "proper (writeError e)" "proper (writeRegistryError e)"
proof -
  show "proper (writeError e)"
    by (cases e) (simp_all add: writeError_def proper_def NotFound_def Forbidden_def BadRequest_def InternalError_def)
  then show "proper (writeRegistryError e)" by (cases e) (simp_all add: writeRegistryError_def)
qed

lemma proper_answer: "(\<And>x. proper (shown x)) \<Longrightarrow> (\<And>e. proper (refused e)) \<Longrightarrow> proper (fst (answer refused shown m w))"
  by (simp add: answer_def split: prod.splits sum.splits)

lemma proper_stopped:
  "(\<And>response. r = Inl response \<Longrightarrow> proper response) \<Longrightarrow> (\<And>x. proper (fst (k x w))) \<Longrightarrow> proper (fst (stopped r k w))"
  by (cases r) (simp_all add: stopped_def)

lemma proper_reading:
  "caller c = Inl response \<Longrightarrow> proper response"
  "trackerScope c = Inl response \<Longrightarrow> proper response"
  "params c allowed = Inl response \<Longrightarrow> proper response"
  "bound b = Inl response \<Longrightarrow> proper response"
  by (auto simp: caller_def trackerScope_def params_def bound_def Let_def split: option.splits if_splits sum.splits)

lemma proper_case: "(\<And>a b. proper (fst (k a b w))) \<Longrightarrow> proper (fst ((case x of (a, b) \<Rightarrow> k a b) w))"
  by (cases x) simp

lemmas proper_rules = proper_stopped proper_answer proper_simps proper_errors proper_case

lemma catalog_answers:
  "proper (fst (CatalogHandler_Kinds S c w))" "proper (fst (CatalogHandler_List S c w))"
  "proper (fst (CatalogHandler_Get S c w))" "proper (fst (CatalogHandler_Update S c w))"
  "proper (fst (CatalogHandler_Delete S c w))"
  unfolding CatalogHandler_Kinds_def CatalogHandler_List_def CatalogHandler_Get_def CatalogHandler_Update_def
    CatalogHandler_Delete_def fst_conv
  by (intro proper_rules; erule proper_reading)+

lemma create_answer: "proper (fst (CatalogHandler_Create S c w))"
  unfolding CatalogHandler_Create_def
  by (intro proper_stopped; (erule proper_reading)?) (auto split: prod.splits sum.splits)

lemma fleet_answers:
  "proper (fst (FleetHandler_ListTrucks S c w))" "proper (fst (FleetHandler_GetTruck S c w))"
  "proper (fst (FleetHandler_ListWarehouses S c w))" "proper (fst (FleetHandler_GetWarehouse S c w))"
  "proper (fst (FleetHandler_CreateWarehouse S c w))" "proper (fst (FleetHandler_UpdateWarehouse S c w))"
  "proper (fst (FleetHandler_DeleteWarehouse S c w))"
  unfolding FleetHandler_ListTrucks_def FleetHandler_GetTruck_def FleetHandler_ListWarehouses_def FleetHandler_GetWarehouse_def
    FleetHandler_CreateWarehouse_def FleetHandler_UpdateWarehouse_def FleetHandler_DeleteWarehouse_def
  by (intro proper_rules; erule proper_reading)+

lemma register_answers:
  "proper (fst (RegistryHandler_ListDrivers S c w))" "proper (fst (RegistryHandler_GetDriver S c w))"
  "proper (fst (RegistryHandler_CreateDriver S c w))" "proper (fst (RegistryHandler_UpdateDriver S c w))"
  "proper (fst (RegistryHandler_DeleteDriver S c w))"
  "proper (fst (RegistryHandler_ListVehicles S c w))" "proper (fst (RegistryHandler_GetVehicle S c w))"
  "proper (fst (RegistryHandler_CreateVehicle S c w))" "proper (fst (RegistryHandler_UpdateVehicle S c w))"
  "proper (fst (RegistryHandler_DeleteVehicle S c w))"
  unfolding RegistryHandler_ListDrivers_def RegistryHandler_GetDriver_def RegistryHandler_CreateDriver_def
    RegistryHandler_UpdateDriver_def RegistryHandler_DeleteDriver_def RegistryHandler_ListVehicles_def
    RegistryHandler_GetVehicle_def RegistryHandler_CreateVehicle_def RegistryHandler_UpdateVehicle_def
    RegistryHandler_DeleteVehicle_def
  by (intro proper_rules; erule proper_reading)+

lemma device_answers:
  "proper (fst (RegistryHandler_ListTrackers S c w))" "proper (fst (RegistryHandler_GetTracker S c w))"
  "proper (fst (RegistryHandler_CreateTracker S c w))" "proper (fst (RegistryHandler_UpdateTracker S c w))"
  "proper (fst (RegistryHandler_DeleteTracker S c w))" "proper (fst (RegistryHandler_Assignments S c w))"
  unfolding RegistryHandler_ListTrackers_def RegistryHandler_GetTracker_def RegistryHandler_CreateTracker_def
    RegistryHandler_UpdateTracker_def RegistryHandler_DeleteTracker_def RegistryHandler_Assignments_def
  by (intro proper_rules; erule proper_reading)+

lemma fitting_answers:
  "proper (fst (RegistryHandler_Fit S c w))" "proper (fst (RegistryHandler_Unfit S c w))"
  "proper (fst (RegistryHandler_ListDocuments S c w))" "proper (fst (RegistryHandler_CreateDocument S c w))"
  "proper (fst (RegistryHandler_UpdateDocument S c w))" "proper (fst (RegistryHandler_DeleteDocument S c w))"
  unfolding RegistryHandler_Fit_def RegistryHandler_Unfit_def RegistryHandler_ListDocuments_def
    RegistryHandler_CreateDocument_def RegistryHandler_UpdateDocument_def RegistryHandler_DeleteDocument_def Let_def
  by (intro proper_rules; auto dest: proper_reading split: if_splits)+

lemma handler_answers:
  "list_all (\<lambda>(_, h). \<forall>c w. proper (fst (h c w))) (catalogHandlers S @ readHandlers S @ writeHandlers S)"
  unfolding catalogHandlers_def readHandlers_def writeHandlers_def append.simps list.pred_inject(2) prod.case
  by (intro conjI list.pred_inject(1) allI catalog_answers create_answer fleet_answers register_answers device_answers
      fitting_answers)

definition writeNames :: "string list" where
  "writeNames = [''Fleet.CreateWarehouse'', ''Fleet.UpdateWarehouse'', ''Fleet.DeleteWarehouse'', ''Registry.CreateDriver'',
     ''Registry.UpdateDriver'', ''Registry.DeleteDriver'', ''Registry.CreateVehicle'', ''Registry.UpdateVehicle'',
     ''Registry.DeleteVehicle'', ''Registry.CreateTracker'', ''Registry.UpdateTracker'', ''Registry.DeleteTracker'',
     ''Registry.Fit'', ''Registry.Unfit'', ''Registry.CreateDocument'', ''Registry.UpdateDocument'',
     ''Registry.DeleteDocument'']"

definition otherNames :: "string list" where
  "otherNames = [''Catalog.Kinds'', ''Catalog.List'', ''Catalog.Get'', ''Catalog.Create'', ''Catalog.Update'', ''Catalog.Delete'',
     ''Fleet.ListTrucks'', ''Fleet.GetTruck'', ''Fleet.ListWarehouses'', ''Fleet.GetWarehouse'',
     ''Registry.ListDrivers'', ''Registry.GetDriver'', ''Registry.ListVehicles'', ''Registry.GetVehicle'',
     ''Registry.ListTrackers'', ''Registry.GetTracker'', ''Registry.Assignments'', ''Registry.ListDocuments'']"

lemma handlers_named:
  "map fst (writeHandlers S) = writeNames"
  "map fst (catalogHandlers S @ readHandlers S) = otherNames"
  by (simp_all add: writeHandlers_def writeNames_def catalogHandlers_def readHandlers_def otherNames_def)

lemma routes_handled:
  "list_all (\<lambda>r. Handler r \<in> set (otherNames @ writeNames)) routes"
  "list_all (\<lambda>r. Method r = ''GET'' \<longrightarrow> Handler r \<notin> set writeNames) routes"
  by code_simp+

lemma route_handler:
  assumes "r \<in> set routes"
  shows "\<exists>h. map_of (catalogHandlers S @ readHandlers S @ writeHandlers S) (Handler r) = Some h"
proof -
  have "map fst (catalogHandlers S @ readHandlers S @ writeHandlers S) = otherNames @ writeNames"
    using handlers_named [of S] by simp
  moreover have "Handler r \<in> set (otherNames @ writeNames)" using assms routes_handled(1) unfolding list_all_iff by blast
  ultimately have "Handler r \<in> fst ` set (catalogHandlers S @ readHandlers S @ writeHandlers S)" by (metis list.set_map)
  then show ?thesis by (metis not_None_eq map_of_eq_None_iff)
qed

lemma aborted_proper:
  assumes "r \<in> set routes" and "admit parse remote r auth queryToken = Some (Aborted code message)"
  shows "proper (ErrorBody code (Plain message))"
proof -
  have auth: "code = 401" if "RequireAuth parse remote token = Aborted code message" for token code message
    using that by (auto simp: RequireAuth_def RequireAuthWithRevocations_def abort_def Let_def split: option.splits if_splits)
  have grd: "code = 403" if "guard (Guards r) = Some check" "check (Some p) = Aborted code message" for check p code message
  proof (cases "Guards r")
    case (Module k)
    have "list_all (\<lambda>r. case Guards r of Module k \<Rightarrow> snd (snd (Cut k ''.'')) | AnyOf _ \<Rightarrow> True) routes"
      by (rule routes_checked(2))
    then have "snd (snd (Cut k ''.''))" using assms(1) Module by (fastforce simp: list_all_iff)
    then show ?thesis using that Module
      by (auto simp: guard_def RequireModule_def accessDenied_def split: prod.splits if_splits)
  next
    case (AnyOf ps)
    then show ?thesis using that by (auto simp: guard_def RequireAnyOf_def accessDenied_def split: if_splits)
  qed
  from assms(2) consider (auth) token where "RequireAuth parse remote token = Aborted code message"
    | (guard) check p where "guard (Guards r) = Some check" "check (Some p) = Aborted code message"
    unfolding admit_def
    by (cases "RequireAuth parse remote (ExtractToken auth queryToken)") (auto split: outcome.split_asm, metis outcome.exhaust old.unit.exhaust)
  then have "code = 401 \<or> code = 403" using auth grd by cases blast+
  then show ?thesis by (auto simp: proper_def)
qed

lemma served:
  assumes "OnRoute q \<in> set routes"
  shows "\<exists>resp w'. serveHTTP parse remote S q w = Some (resp, w') \<and> proper resp"
proof -
  obtain o' where o': "admit parse remote (OnRoute q) (Authorization q) (QueryToken q) = Some o'"
    using routes_checked(1) assms by (auto simp: admit_def list_all_iff)
  obtain h where h: "map_of (catalogHandlers S @ readHandlers S @ writeHandlers S) (Handler (OnRoute q)) = Some h"
    using route_handler [OF assms] by blast
  then have "(Handler (OnRoute q), h) \<in> set (catalogHandlers S @ readHandlers S @ writeHandlers S)" by (rule map_of_SomeD)
  then have p: "proper (fst (h c w))" for c using handler_answers [of S] by (fastforce simp only: list_all_iff)
  show ?thesis
  proof (cases o')
    case (Aborted code message)
    then show ?thesis using o' aborted_proper [OF assms] by (simp add: serveHTTP_def)
  next
    case (Continues u)
    then show ?thesis using o' h p by (simp add: serveHTTP_def del: map_of_append) (metis prod.collapse)
  qed
qed

section \<open>A sample of requests\<close>

definition managerAccess :: ProductAccess where
  "managerAccess = \<lparr>Role = ''manager'', Permissions = [], Features = [], GrantsAll = True\<rparr>"

definition manager :: Principal where
  "manager = dispatcher\<lparr>Principal.UserID := ''u2'', Access := [''tms'' \<mapsto> managerAccess], TokenID := ''t2''\<rparr>"

definition managerParse :: "string \<Rightarrow> Claims option" where
  "managerParse token = (if token = ''boss'' then Some \<lparr>User = manager, IssuedAt = Some 70\<rparr> else None)"

definition emptyBody :: Body where
  "emptyBody = \<lparr>AsPayload = Inl ''EOF'', AsWarehouse = Inl ''EOF'', AsDriver = Inl ''EOF'', AsVehicle = Inl ''EOF'',
     AsTracker = Inl ''EOF'', AsFit = Inl ''EOF'', AsUnfit = Inl ''EOF'', AsDocument = Inl ''EOF''\<rparr>"

definition asking :: "string \<Rightarrow> Body \<Rightarrow> Context" where
  "asking ident body = \<lparr>SignedIn = None, ActingFor = [], Param = (\<lambda>name. if name = ''id'' then ident else ''brand''),
     QueryText = (\<lambda>_. []), Filtered = NoText, Sorted = NoText, ContentLength = 1, RequestBody = body\<rparr>"

definition fitRequest :: HttpRequest where
  "fitRequest = \<lparr>OnRoute = route ''POST'' ''/trackers/:id/fit''
       (AnyOf [''tms:masterData.update'', ''fms:vehicles.edit'', ''fms:dashcams.manage'']) ''Registry.Fit'',
     Authorization = ''Bearer boss'', QueryToken = [],
     Carries = asking (memHex 1) (emptyBody\<lparr>AsFit := Inr (sampleFit 2)\<rparr>)\<rparr>"

definition removeRequest :: HttpRequest where
  "removeRequest = \<lparr>OnRoute = deleteRoute, Authorization = ''Bearer good'', QueryToken = [],
     Carries = asking (memHex 2) emptyBody\<rparr>"

lemma sample_tokens: "tokenOf fitRequest = ''boss''" "tokenOf removeRequest = ''good''"
  by (simp_all add: tokenOf_def fitRequest_def removeRequest_def) code_simp+

lemma sample_routes: "OnRoute fitRequest \<in> set routes" "OnRoute removeRequest \<in> set routes"
    "\<not> catalogRoute (OnRoute fitRequest)" "\<not> catalogRoute (OnRoute removeRequest)"
  by code_simp+

lemma sample_vouched:
  "vouched managerParse None ''boss'' p \<longleftrightarrow> p = manager"
  "vouched sampleParse None ''good'' p \<longleftrightarrow> p = dispatcher"
  by (auto simp: vouched_def managerParse_def sampleParse_def manager_def dispatcher_def)

lemma manager_acts: "authority manager (ActingFor (Carries fitRequest)) co \<longleftrightarrow> co = ''acme''"
  by (simp add: authority_def manager_def dispatcher_def fitRequest_def asking_def TrimSpace_def)



section \<open>What a request may change\<close>

text \<open>C1. Whatever an HTTP request on the fleet registers is, and however it ends, it either
  leaves the database as it was, or it carries a token that vouches for a principal, who holds a
  permission the route asks for, and it moves the database along the registers' machine for a company
  that principal may act for: their own, or, for Karlo staff, the one named.\<close>

theorem http_requests_follow_machine:
  assumes "database (Register S) good vw" and "good w" and "serveHTTP parse remote S q w = Some (resp, w')"
    and "\<not> catalogRoute (OnRoute q)"
  shows "good w' \<and> (vw w' = vw w \<or> (\<exists>p co. vouched parse remote (tokenOf q) p \<and>
      (\<exists>(product, k) \<in> set (asks (Guards (OnRoute q))). HasPermission p product k) \<and>
      authority p (ActingFor (Carries q)) co \<and> (service_step (Hex (env (Register S))) co)\<^sup>*\<^sup>* (vw w) (vw w')))"
  using database.serveHTTP_steps [OF assms refl] admitted unfolding tokenOf_def by blast

lemma http_requests_follow_machine_witness:
  "\<forall>L. \<exists>resp w'. serveHTTP managerParse None \<lparr>Register = memDB, Lists = L\<rparr> fitRequest sampleWorld = Some (resp, w') \<and>
     memGood w' \<and> (service_step memHex ''acme'')\<^sup>*\<^sup>* (memView sampleWorld) (memView w')"
proof
  fix L
  let ?S = "\<lparr>Register = memDB, Lists = L\<rparr>"
  have db: "database (Register ?S) memGood memView" using memDB_database by simp
  obtain resp w' where s: "serveHTTP managerParse None ?S fitRequest sampleWorld = Some (resp, w')"
    using served [OF sample_routes(1), of managerParse None ?S sampleWorld] by blast
  from http_requests_follow_machine [OF db sample_good s sample_routes(3)]
  have "memGood w'" "(service_step memHex ''acme'')\<^sup>*\<^sup>* (memView sampleWorld) (memView w')"
    by (auto simp: sample_tokens sample_vouched manager_acts)
  with s show "\<exists>resp w'. serveHTTP managerParse None ?S fitRequest sampleWorld = Some (resp, w') \<and>
     memGood w' \<and> (service_step memHex ''acme'')\<^sup>*\<^sup>* (memView sampleWorld) (memView w')" by blast
qed

text \<open>C2. However many HTTP requests on the fleet registers arrive, as long as none of them carries a
  token of the company or of Karlo staff, the company's drivers, documents, memberships, devices and
  sites stay exactly as they were and none is added; none of its vehicles is added or removed, and one
  changes at most by losing its shortcut to a device, with the moment of that change; and none of its
  fittings is added or removed, and one changes at most by ending, once. The
  catalogue's routes are apart.\<close>

theorem http_tenants_are_separate:
  assumes "database (Register S) good vw" and "good w"
    and "\<forall>q \<in> set qs. \<not> catalogRoute (OnRoute q)"
    and "\<forall>q \<in> set qs. \<forall>p. vouched parse remote (tokenOf q) p \<longrightarrow> \<not> IsPlatformStaff p \<and> Principal.CompanyID p \<noteq> c"
  shows "leftAlone c (vw w) (vw (serveAll parse remote S qs w))"
proof (rule conjunct2 [OF database.serveAll_invariant [OF assms(1) _ assms(3,2) _ refl, where I = "leftAlone c (vw w)"]])
  show "leftAlone c (vw w) (vw w)" by (simp add: leftAlone_def recordsKept_refl)
next
  fix p co v v' q
  assume q: "q \<in> set qs" "admit parse remote (OnRoute q) (Authorization q) (QueryToken q) = Some (Continues p)"
    and a: "authority p (ActingFor (Carries q)) co"
    and v: "leftAlone c (vw w) v" "service_step (Hex (env (Register S))) co v v'"
  have "vouched parse remote (tokenOf q) p" using admitted [OF q(2)] by (simp add: tokenOf_def)
  then have "\<not> IsPlatformStaff p" "Principal.CompanyID p \<noteq> c" using assms(4) q(1) by blast+
  then show "leftAlone c (vw w) v'"
    using a by (intro leftAlone_step [OF v]) (auto simp: authority_def split: if_splits)
qed

lemma http_tenants_are_separate_witness:
  "\<forall>L. leftAlone ''zeta'' (memView sampleWorld)
     (memView (serveAll managerParse None \<lparr>Register = memDB, Lists = L\<rparr> [fitRequest, removeRequest] sampleWorld))"
proof
  fix L
  have db: "database (Register \<lparr>Register = memDB, Lists = L\<rparr>) memGood memView" using memDB_database by simp
  have "\<not> vouched managerParse None ''good'' p" for p by (simp add: vouched_def managerParse_def)
  then show "leftAlone ''zeta'' (memView sampleWorld)
     (memView (serveAll managerParse None \<lparr>Register = memDB, Lists = L\<rparr> [fitRequest, removeRequest] sampleWorld))"
    by (intro http_tenants_are_separate [OF db sample_good])
      (simp_all add: sample_routes sample_tokens sample_vouched manager_def dispatcher_def)
qed

text \<open>A caller who may only look.\<close>

definition viewer :: "Principal \<Rightarrow> bool" where
  "viewer p \<longleftrightarrow> \<not> IsPlatformStaff p \<and>
     (\<forall>product a. Access p product = Some a \<longrightarrow> \<not> GrantsAll a \<and> list_all readOnly (Permissions a))"

lemma write_handler_route:
  assumes "r \<in> set routes" and "(Handler r, h) \<in> set (writeHandlers S)"
  shows "Method r \<noteq> ''GET''"
proof -
  have "Handler r \<in> set (map fst (writeHandlers S))" using assms(2) by (metis fst_conv image_eqI list.set_map)
  then show ?thesis using routes_handled(2) assms(1) unfolding handlers_named list_all_iff by blast
qed

lemma viewer_refused:
  assumes "r \<in> set routes" and "Method r \<noteq> ''GET''" and "viewer p" and "(product, k) \<in> set (asks (Guards r))"
  shows "\<not> HasPermission p product k"
proof -
  have "list_all (\<lambda>(q, k). \<not> readOnly k) (asks (Guards r))"
    using routes_checked(3) assms(1,2) unfolding list_all_iff by blast
  then have "\<not> readOnly k" using assms(4) by (auto simp: list_all_iff)
  then show ?thesis using assms(3) by (auto simp: viewer_def HasPermission_iff list_all_iff)
qed

text \<open>C4. However many HTTP requests on the fleet registers arrive from callers who hold only
  permissions to view, the database stays as it was, bit for bit.\<close>

theorem viewers_change_nothing:
  assumes "database (Register S) good vw" and "good w"
    and "\<forall>q \<in> set qs. \<not> catalogRoute (OnRoute q)" and "\<forall>q \<in> set qs. OnRoute q \<in> set routes"
    and "\<forall>q \<in> set qs. \<forall>p. vouched parse remote (tokenOf q) p \<longrightarrow> viewer p"
  shows "vw (serveAll parse remote S qs w) = vw w"
proof (rule conjunct2 [OF database.serveAll_invariant [OF assms(1) _ assms(3,2) _ refl, where I = "\<lambda>v. v = vw w"]])
  show "vw w = vw w" ..
next
  fix p co v v' q
  assume q: "q \<in> set qs" "admit parse remote (OnRoute q) (Authorization q) (QueryToken q) = Some (Continues p)"
    and h: "\<exists>h. (Handler (OnRoute q), h) \<in> set (writeHandlers S)"
  have r: "OnRoute q \<in> set routes" "\<not> catalogRoute (OnRoute q)" using assms(3,4) q(1) by blast+
  have "viewer p" using admitted [OF q(2)] assms(5) q(1) by (auto simp: tokenOf_def)
  moreover obtain product k where k: "(product, k) \<in> set (asks (Guards (OnRoute q)))" "HasPermission p product k"
    using admitted [OF q(2)] by blast
  ultimately have False using viewer_refused [OF r(1) _ _ k(1)] write_handler_route [OF r(1)] h by blast
  then show "v' = vw w" ..
qed

lemma dispatcher_views: "viewer dispatcher"
proof -
  have "list_all readOnly [''truck.read'', ''masterData.read'']" by code_simp
  then show ?thesis by (auto simp: viewer_def dispatcher_def split: if_splits)
qed

lemma viewers_change_nothing_witness:
  "\<forall>L. memView (serveAll sampleParse None \<lparr>Register = memDB, Lists = L\<rparr> [removeRequest, fitRequest] sampleWorld) =
     memView sampleWorld"
proof
  fix L
  have db: "database (Register \<lparr>Register = memDB, Lists = L\<rparr>) memGood memView" using memDB_database by simp
  have "\<not> vouched sampleParse None ''boss'' p" for p by (simp add: vouched_def sampleParse_def)
  then show "memView (serveAll sampleParse None \<lparr>Register = memDB, Lists = L\<rparr> [removeRequest, fitRequest] sampleWorld) =
     memView sampleWorld"
    by (intro viewers_change_nothing [OF db sample_good])
      (simp_all add: sample_routes sample_tokens sample_vouched dispatcher_views)
qed

end
