(* ===== verification/HttpCatalog.thy ===== *)
theory HttpCatalog
  imports HttpPromises
begin

text \<open>
  The HTTP surface of the catalogues: a request is at most two requests of the catalogue service,
  the write and the read-back, made by the caller its principal stands for.
\<close>

section \<open>The caller of a request\<close>

definition callerOf :: "Context \<Rightarrow> string \<Rightarrow> Caller" where
  "callerOf c co = \<lparr>Company = co, Staff = staff c\<rparr>"

definition asCaller :: "'w CatalogDB \<Rightarrow> (Context \<Rightarrow> 'w \<Rightarrow> Response \<times> 'w) \<Rightarrow> bool" where
  "asCaller L h \<longleftrightarrow> (\<forall>c w. snd (h c w) = w \<or>
     (\<exists>co rs. caller c = Inr co \<and> length rs \<le> 2 \<and> snd (h c w) = serveCatalog L (map (Pair (callerOf c co)) rs) w))"

lemma asCaller_caller:
  assumes "\<And>c co w. caller c = Inr co \<Longrightarrow> snd (k c co w) = w \<or>
      (\<exists>rs. length rs \<le> 2 \<and> snd (k c co w) = serveCatalog L (map (Pair (callerOf c co)) rs) w)"
  shows "asCaller L (\<lambda>c. stopped (caller c) (k c))"
  unfolding asCaller_def
proof (intro allI)
  fix c :: Context and w
  show "snd (stopped (caller c) (k c) w) = w \<or> (\<exists>co rs. caller c = Inr co \<and> length rs \<le> 2 \<and>
      snd (stopped (caller c) (k c) w) = serveCatalog L (map (Pair (callerOf c co)) rs) w)"
    using assms [of c _ w] by (cases "caller c") (auto simp: stopped_def)
qed

lemma one_request:
  "snd (m w) = snd (performCatalog L (callerOf c co) r w) \<Longrightarrow>
     \<exists>rs. length rs \<le> 2 \<and> snd (m w) = serveCatalog L (map (Pair (callerOf c co)) rs) w"
  by (rule exI [of _ "[r]"]) simp

lemma stopped_requests:
  assumes "\<And>x. \<exists>rs. length rs \<le> 2 \<and> snd (k x w) = serveCatalog L (map (Pair (callerOf c co)) rs) w"
  shows "snd (stopped b k w) = w \<or> (\<exists>rs. length rs \<le> 2 \<and> snd (stopped b k w) = serveCatalog L (map (Pair (callerOf c co)) rs) w)"
  using assms by (cases b) (auto simp: stopped_def)

lemma andThen_snd: "snd (andThen m k w) = (case m w of (Inl e, w') \<Rightarrow> w' | (Inr x, w') \<Rightarrow> snd (k x w'))"
  by (simp add: andThen_def split: prod.splits sum.splits)

lemma snd_finished: "snd (finished rw) = snd rw"
  by (auto simp: finished_def split: prod.splits sum.splits)

lemma requests:
  "snd (CatalogList L kind co parent (staff c) p w) = snd (performCatalog L (callerOf c co) (AskList kind parent p) w)"
  "snd (CatalogGet L kind i co (staff c) w) = snd (performCatalog L (callerOf c co) (AskGet kind i) w)"
  "snd (CatalogCreate L kind co (staff c) payload w) = snd (performCatalog L (callerOf c co) (AskCreate kind payload) w)"
  "snd (CatalogUpdate L kind i co (staff c) payload w) = snd (performCatalog L (callerOf c co) (AskUpdate kind i payload) w)"
  "snd (CatalogDelete L kind i co (staff c) w) = snd (performCatalog L (callerOf c co) (AskDelete kind i) w)"
  by (simp_all add: callerOf_def snd_finished)

lemma single_handlers:
  "asCaller (Lists S) (CatalogHandler_Kinds S)" "asCaller (Lists S) (CatalogHandler_List S)"
  "asCaller (Lists S) (CatalogHandler_Get S)" "asCaller (Lists S) (CatalogHandler_Delete S)"
proof -
  show "asCaller (Lists S) (CatalogHandler_Kinds S)" by (simp add: asCaller_def CatalogHandler_Kinds_def)
  show "asCaller (Lists S) (CatalogHandler_List S)" unfolding CatalogHandler_List_def
    by (intro asCaller_caller stopped_requests, rule one_request) (simp only: answer_snd requests)
  show "asCaller (Lists S) (CatalogHandler_Get S)" unfolding CatalogHandler_Get_def
    by (intro asCaller_caller disjI2, rule one_request) (simp only: answer_snd requests)
  show "asCaller (Lists S) (CatalogHandler_Delete S)" unfolding CatalogHandler_Delete_def
    by (intro asCaller_caller disjI2, rule one_request) (simp only: answer_snd requests)
qed

text \<open>A write that succeeds is read back; one that fails is the only request.\<close>

lemma write_then_read:
  assumes "snd (m w) = snd (performCatalog L (callerOf c co) r w)"
    and "\<And>x w'. m w = (Inr x, w') \<Longrightarrow> \<exists>i. snd (k x w') = snd (performCatalog L (callerOf c co) (AskGet kind i) w')"
    and "out = (case m w of (Inl e, w') \<Rightarrow> w' | (Inr x, w') \<Rightarrow> snd (k x w'))"
  shows "\<exists>rs. length rs \<le> 2 \<and> out = serveCatalog L (map (Pair (callerOf c co)) rs) w"
proof -
  obtain res w' where run: "m w = (res, w')" by force
  show ?thesis
  proof (cases res)
    case (Inl e)
    then show ?thesis using assms(1,3) run by (intro exI [of _ "[r]"]) simp
  next
    case (Inr x)
    then obtain i where "snd (k x w') = snd (performCatalog L (callerOf c co) (AskGet kind i) w')"
      using assms(2) run by blast
    then show ?thesis using assms(1,3) run Inr by (intro exI [of _ "[r, AskGet kind i]"]) simp
  qed
qed

lemma update_handler: "asCaller (Lists S) (CatalogHandler_Update S)"
  unfolding CatalogHandler_Update_def
proof (intro asCaller_caller stopped_requests)
  fix c :: Context and co w payload
  let ?m = "CatalogUpdate (Lists S) (Param c ''kind'') (Param c ''id'') co (staff c) payload"
  let ?k = "\<lambda>_. CatalogGet (Lists S) (Param c ''kind'') (Param c ''id'') co (staff c)"
  show "\<exists>rs. length rs \<le> 2 \<and> snd (answer writeError (\<lambda>item. OK (EntryData item)) (andThen ?m ?k) w) =
      serveCatalog (Lists S) (map (Pair (callerOf c co)) rs) w"
    unfolding answer_snd
    by (rule write_then_read [where m = ?m and k = ?k and kind = "Param c ''kind''", OF requests(4)]) (rule exI, rule requests(2), rule andThen_snd)
qed

lemma create_handler: "asCaller (Lists S) (CatalogHandler_Create S)"
  unfolding CatalogHandler_Create_def
proof (intro asCaller_caller stopped_requests)
  fix c :: Context and co w payload
  let ?m = "CatalogCreate (Lists S) (Param c ''kind'') co (staff c) payload"
  let ?k = "\<lambda>i. CatalogGet (Lists S) (Param c ''kind'') i co (staff c)"
  show "\<exists>rs. length rs \<le> 2 \<and> snd (case ?m w of
         (Inl err, w1) \<Rightarrow> (writeError err, w1)
       | (Inr i, w1) \<Rightarrow> (case ?k i w1 of (Inl _, w2) \<Rightarrow> (Created (IDData i), w2) | (Inr item, w2) \<Rightarrow> (Created (EntryData item), w2))) =
      serveCatalog (Lists S) (map (Pair (callerOf c co)) rs) w"
    by (rule write_then_read [where m = ?m and k = ?k and kind = "Param c ''kind''", OF requests(3)]) (rule exI, rule requests(2), simp split: prod.splits sum.splits)
qed

lemma catalog_handlers: "list_all (\<lambda>(_, h). asCaller (Lists S) h) (catalogHandlers S)"
  unfolding catalogHandlers_def list.pred_inject(2) prod.case
  by (intro conjI list.pred_inject(1) single_handlers update_handler create_handler)

section \<open>What a catalogue request may change\<close>

lemma catalog_caller:
  assumes "SignedIn c = Some p" and "caller c = Inr co"
  shows "co \<noteq> [] \<and> authority p (ActingFor c) co \<and> (staff c \<longrightarrow> IsPlatformStaff p \<and> co = Principal.CompanyID p)"
  using caller_authority [OF assms] assms
  by (auto simp: caller_def staff_def authority_def Let_def split: if_splits)

lemma catalog_handler_route:
  assumes "catalogRoute r" and "map_of (catalogHandlers S @ readHandlers S @ writeHandlers S) (Handler r) = Some h"
  shows "(Handler r, h) \<in> set (catalogHandlers S)"
proof -
  have "Handler r \<in> set (map fst (catalogHandlers S))"
    using assms(1) by (auto simp: catalogRoute_def catalogHandlers_def)
  then obtain h' where "map_of (catalogHandlers S) (Handler r) = Some h'"
    by (metis list.set_map map_of_eq_None_iff not_None_eq)
  then show ?thesis using assms(2) by (auto simp: map_add_Some_iff dest: map_of_SomeD)
qed

text \<open>C5. Whatever a catalogue request over HTTP is, and however it ends, it either leaves the lists,
  the fleet and the cache as they were, or it carries a token that vouches for a principal, who holds
  a permission the route asks for, and it moves them only along the steps of \<open>catalog_step\<close> of one
  caller: the company that principal may act for, with the rights of staff only where the principal is
  Karlo staff acting for nobody.\<close>

theorem http_catalogue_requests_follow_machine:
  assumes "catalog_database (Lists S) good vw" and "good w" and "serveHTTP parse remote S q w = Some (resp, w')"
    and "catalogRoute (OnRoute q)"
  shows "good w' \<and> (vw w' = vw w \<or> (\<exists>p k. vouched parse remote (tokenOf q) p \<and>
      (\<exists>(product, key) \<in> set (asks (Guards (OnRoute q))). HasPermission p product key) \<and>
      Company k \<noteq> [] \<and> authority p (ActingFor (Carries q)) (Company k) \<and>
      (Staff k \<longrightarrow> IsPlatformStaff p \<and> Company k = Principal.CompanyID p) \<and>
      (catalog_step (ObjectIDFromHex (sys (Lists S))) k)\<^sup>*\<^sup>* (vw w) (vw w')))"
proof -
  consider (out) "w' = w" | (let_in) p h where
      "admit parse remote (OnRoute q) (Authorization q) (QueryToken q) = Some (Continues p)"
      "map_of (catalogHandlers S @ readHandlers S @ writeHandlers S) (Handler (OnRoute q)) = Some h"
      "w' = snd (h ((Carries q)\<lparr>SignedIn := Some p\<rparr>) w)"
    using assms(3) unfolding serveHTTP_def by (auto simp del: map_of_append split: option.splits outcome.splits)
  then show ?thesis
  proof cases
    case (let_in p h)
    let ?c = "(Carries q)\<lparr>SignedIn := Some p\<rparr>"
    have "asCaller (Lists S) h"
      using catalog_handlers [of S] catalog_handler_route [OF assms(4) let_in(2)] by (auto simp: list_all_iff)
    then consider "w' = w" | co rs where "caller ?c = Inr co" "w' = serveCatalog (Lists S) (map (Pair (callerOf ?c co)) rs) w"
      unfolding asCaller_def let_in(3) by blast
    then show ?thesis
    proof cases
      case (2 co rs)
      let ?k = "callerOf ?c co"
      let ?I = "(catalog_step (ObjectIDFromHex (sys (Lists S))) ?k)\<^sup>*\<^sup>* (vw w)"
      have "good w' \<and> ?I (vw w')" unfolding 2(2)
        by (rule catalog_database.serve_invariant [OF assms(1,2), where I = ?I])
          (auto intro: rtranclp.rtrancl_into_rtrancl)
      moreover have "co \<noteq> []" "authority p (ActingFor (Carries q)) co"
          "staff ?c \<longrightarrow> IsPlatformStaff p \<and> co = Principal.CompanyID p"
        using catalog_caller [OF _ 2(1), of p] by simp_all
      moreover have "Company ?k = co" "Staff ?k = staff ?c" by (simp_all add: callerOf_def)
      ultimately show ?thesis using admitted [OF let_in(1)] unfolding tokenOf_def by metis
    qed (use assms(2) in simp)
  qed (use assms(2) in simp)
qed

definition retireRequest :: HttpRequest where
  "retireRequest = \<lparr>OnRoute = route ''DELETE'' ''/catalog/:kind/:id'' (Module ''masterData.delete'') ''Catalog.Delete'',
     Authorization = ''Bearer boss'', QueryToken = [], Carries = asking (memHex 2) emptyBody\<rparr>"

lemma retire_route: "OnRoute retireRequest \<in> set routes" "catalogRoute (OnRoute retireRequest)"
  by code_simp+

lemma http_catalogue_requests_follow_machine_witness:
  "\<forall>R. \<exists>resp w'. serveHTTP managerParse None \<lparr>Register = R, Lists = catalogDB keepingCache\<rparr> retireRequest sampleLists = Some (resp, w') \<and>
     (catalog_step memFromHex acme)\<^sup>*\<^sup>* (catalogView sampleLists) (catalogView w')"
proof
  fix R
  let ?S = "\<lparr>Register = R, Lists = catalogDB keepingCache\<rparr>"
  have db: "catalog_database (Lists ?S) catalogGood catalogView" using kept.satisfied by simp
  obtain resp w' where s: "serveHTTP managerParse None ?S retireRequest sampleLists = Some (resp, w')"
    using served [OF retire_route(1), of managerParse None ?S sampleLists] by blast
  have token: "tokenOf retireRequest = ''boss''" by (simp add: tokenOf_def retireRequest_def) code_simp
  have who: "k = acme" if "Company k \<noteq> []" "authority manager (ActingFor (Carries retireRequest)) (Company k)"
      "Staff k \<longrightarrow> IsPlatformStaff manager \<and> Company k = Principal.CompanyID manager" for k
    using that by (cases k) (simp add: authority_def manager_def dispatcher_def retireRequest_def asking_def acme_def TrimSpace_def)
  from http_catalogue_requests_follow_machine [OF db sampleLists_good(1) s retire_route(2)]
  have "(catalog_step memFromHex acme)\<^sup>*\<^sup>* (catalogView sampleLists) (catalogView w')"
    by (auto simp: token sample_vouched dest: who)
  with s show "\<exists>resp w'. serveHTTP managerParse None ?S retireRequest sampleLists = Some (resp, w') \<and>
     (catalog_step memFromHex acme)\<^sup>*\<^sup>* (catalogView sampleLists) (catalogView w')" by blast
qed

end
