(* ===== verification/GrpcServer.thy ===== *)
theory GrpcServer
  imports Handlers
begin

text \<open>
  The service-to-service surface, \<^verbatim>\<open>internal/grpcserver/server.go\<close>: one definition per method,
  the conversions to the messages, and the mapping of errors. The messages are records with the fields
  this code sets; \<^verbatim>\<open>structpb.NewStruct\<close>, which makes attributes into a message or fails, and the
  order in which Go ranges over a map are parameters (\<open>Runtime\<close>).
\<close>

section \<open>Kinds\<close>

datatype CatalogKind =
    CATALOG_KIND_UNSPECIFIED | CATALOG_KIND_BRAND | CATALOG_KIND_CARGO_TYPE | CATALOG_KIND_ITEM
  | CATALOG_KIND_ITEM_TYPE | CATALOG_KIND_ITEM_CHARACTER | CATALOG_KIND_TRUCK_HEAD | CATALOG_KIND_TRUCK_BODY
  | CATALOG_KIND_TRUCK_TYPE | CATALOG_KIND_PRICING_TYPE | CATALOG_KIND_PAYMENT_TYPE | CATALOG_KIND_CURRENCY
  | CATALOG_KIND_REQUIREMENT | CATALOG_KIND_PROVINSI | CATALOG_KIND_KOTA | CATALOG_KIND_DISTRICT
  | CATALOG_KIND_OTHER string

fun kindNames :: "CatalogKind \<Rightarrow> string option" where
  "kindNames CATALOG_KIND_BRAND = Some ''brand''"
| "kindNames CATALOG_KIND_CARGO_TYPE = Some ''cargoType''"
| "kindNames CATALOG_KIND_ITEM = Some ''item''"
| "kindNames CATALOG_KIND_ITEM_TYPE = Some ''itemType''"
| "kindNames CATALOG_KIND_ITEM_CHARACTER = Some ''itemCharacter''"
| "kindNames CATALOG_KIND_TRUCK_HEAD = Some ''truckHead''"
| "kindNames CATALOG_KIND_TRUCK_BODY = Some ''truckBody''"
| "kindNames CATALOG_KIND_TRUCK_TYPE = Some ''truckType''"
| "kindNames CATALOG_KIND_PRICING_TYPE = Some ''pricingType''"
| "kindNames CATALOG_KIND_PAYMENT_TYPE = Some ''paymentType''"
| "kindNames CATALOG_KIND_CURRENCY = Some ''currency''"
| "kindNames CATALOG_KIND_REQUIREMENT = Some ''requirement''"
| "kindNames CATALOG_KIND_PROVINSI = Some ''provinsi''"
| "kindNames CATALOG_KIND_KOTA = Some ''kota''"
| "kindNames CATALOG_KIND_DISTRICT = Some ''district''"
| "kindNames _ = None"

section \<open>Status errors\<close>

datatype code = InvalidArgument | NotFoundCode | Internal

text \<open>What a refusal says: a text, a query error, or the kind that is not served.\<close>

datatype reason = Says string | SaysQuery query_error | NotServed CatalogKind

datatype grpc_status = StatusError code reason

type_synonym ('w, 'a) rpc = "'w \<Rightarrow> (grpc_status + 'a) \<times> 'w"

definition mapError :: "error \<Rightarrow> grpc_status" where
  "mapError err =
     (if err = ErrNotFound then StatusError NotFoundCode (Says ''not found'') else StatusError Internal (Says ''request failed''))"

text \<open>The early returns of a method, and the answer of a service call.\<close>

definition refuse :: "grpc_status \<Rightarrow> ('w, 'a) rpc" where
  "refuse s = (\<lambda>w. (Inl s, w))"

definition reply :: "('a \<Rightarrow> 'b) \<Rightarrow> ('w, 'a) io \<Rightarrow> ('w, 'b) rpc" where
  "reply f m = (\<lambda>w. case m w of (Inl e, w') \<Rightarrow> (Inl (mapError e), w') | (Inr x, w') \<Rightarrow> (Inr (f x), w'))"

definition invalid :: "string \<Rightarrow> grpc_status" where
  "invalid message = StatusError InvalidArgument (Says message)"

definition kindName :: "CatalogKind \<Rightarrow> grpc_status + string" where
  "kindName k =
     (case kindNames k of None \<Rightarrow> Inl (StatusError InvalidArgument (NotServed k)) | Some name \<Rightarrow> Inr name)"

section \<open>Messages\<close>

record CatalogItem =
  Id :: string
  ItemKind :: CatalogKind
  CompanyId :: string
  Code :: string
  Name :: string
  Description :: string
  Active :: bool
  Attributes :: "payload option"

record CatalogRef =
  RefKind :: CatalogKind
  RefId :: string

record ProtoTruck =
  Id :: string
  CompanyId :: string
  PoliceNumber :: string
  TruckTypeId :: string
  TruckHeadId :: string
  TruckBodyId :: string
  BrandId :: string
  TruckGroupId :: string
  Year :: int
  ChassisNumber :: string
  EngineNumber :: string
  DriverIds :: "string list"
  Status :: string
  IsAvailable :: bool
  Imei :: string
  CreatedAt :: Time
  UpdatedAt :: Time

record ProtoSitePIC =
  Id :: string
  Name :: string
  Phone :: string
  IsDefault :: bool

record ProtoWarehouse =
  Id :: string
  CompanyId :: string
  Name :: string
  Address :: string
  CityId :: string
  ProvinceId :: string
  Latitude :: rat
  Longitude :: rat
  GeofenceRadiusMeters :: int
  PicName :: string
  PicPhone :: string
  PicUserIds :: "string list"
  Pics :: "ProtoSitePIC list"
  CreatedAt :: Time
  UpdatedAt :: Time

record ProtoDriver =
  Id :: string
  CompanyId :: string
  FullName :: string
  Phone :: string
  EmployeeNo :: string
  LicenseNo :: string
  LicenseClass :: string
  LicenseExpiry :: "Time option"
  Status :: string
  UserId :: string
  Deleted :: bool
  CreatedAt :: Time
  UpdatedAt :: Time
  FmsEmployeeId :: int

record ProtoTracker =
  Id :: string
  CompanyId :: string
  Kind :: string
  DeviceId :: string
  Iccid :: string
  SimProvider :: string
  PhoneNo :: string
  ModelId :: string
  Owner :: string
  OwnerName :: string
  Status :: string
  CurrentVehicleId :: string
  Deleted :: bool
  CreatedAt :: Time
  UpdatedAt :: Time
  FittedAt :: "Time option"
  Attributes :: "Attrs option"

record DeviceAssignment =
  VehicleId :: string
  Imei :: string
  FittedAt :: Time
  UnfittedAt :: "Time option"

record TruckGroup =
  Id :: string
  CompanyId :: string
  Name :: string
  Description :: string
  Deleted :: bool
  UpdatedAt :: Time

section \<open>The server\<close>

record Runtime =
  NewStruct :: "Attrs \<Rightarrow> Attrs option"
  NewStructOf :: "payload \<Rightarrow> payload option"
  RangeRefs :: "Refs \<Rightarrow> Refs"
  RangeItems :: "(string \<rightharpoonup> CatalogEntry) \<Rightarrow> string list"

section \<open>Shape conversion\<close>

definition toProtoItem :: "Runtime \<Rightarrow> CatalogKind \<Rightarrow> CatalogEntry \<Rightarrow> CatalogItem" where
  "toProtoItem rt kind e =
     \<lparr>CatalogItem.Id = CatalogEntry.ID e, ItemKind = kind, CompanyId = deref (CatalogEntry.CompanyID e),
      Code = CatalogEntry.Code e, Name = CatalogEntry.Name e, Description = CatalogEntry.Desc e,
      Active = CatalogEntry.Active e, Attributes = NewStructOf rt (CatalogEntry.Attrs e)\<rparr>"

definition toProtoTruck :: "Truck \<Rightarrow> ProtoTruck" where
  "toProtoTruck t =
     \<lparr>ProtoTruck.Id = Truck.ID t, CompanyId = Truck.CompanyID t, PoliceNumber = Truck.PoliceNumber t,
      TruckTypeId = Truck.TruckTypeID t, TruckHeadId = Truck.TruckHeadID t, TruckBodyId = Truck.TruckBodyID t,
      BrandId = Truck.BrandID t, TruckGroupId = Truck.TruckGroupID t, Year = int32 (Truck.Year t),
      ChassisNumber = Truck.ChassisNumber t, EngineNumber = Truck.EngineNumber t, DriverIds = Truck.DriverIDs t,
      Status = Truck.Status t, IsAvailable = Truck.IsAvailable t, Imei = Truck.IMEI t,
      CreatedAt = Truck.CreatedAt t, UpdatedAt = Truck.UpdatedAt t\<rparr>"

definition toProtoSitePICs :: "SitePIC list \<Rightarrow> ProtoSitePIC list" where
  "toProtoSitePICs = map (\<lambda>p. \<lparr>ProtoSitePIC.Id = SitePIC.ID p, Name = SitePIC.Name p, Phone = SitePIC.Phone p,
     IsDefault = SitePIC.IsDefault p\<rparr>)"

definition toProtoWarehouse :: "Warehouse \<Rightarrow> ProtoWarehouse" where
  "toProtoWarehouse w =
     \<lparr>ProtoWarehouse.Id = Warehouse.ID w, CompanyId = Warehouse.CompanyID w, Name = Warehouse.Name w,
      Address = Warehouse.Address w, CityId = Warehouse.City w, ProvinceId = Warehouse.Province w,
      Latitude = Warehouse.Latitude w, Longitude = Warehouse.Longitude w,
      GeofenceRadiusMeters = int32 (Warehouse.GeofenceRadiusMeters w),
      PicName = Warehouse.PICName w, PicPhone = Warehouse.PICPhone w, PicUserIds = Warehouse.PICUserIDs w,
      Pics = toProtoSitePICs (Warehouse.PICs w), CreatedAt = Warehouse.CreatedAt w, UpdatedAt = Warehouse.UpdatedAt w\<rparr>"

text \<open>
  \<open>wholePart\<close> is the conversion of a number to \<^verbatim>\<open>int64\<close>, towards zero; beyond 64 bits Go leaves
  the conversion of a float to the machine.
\<close>

definition wholePart :: "string \<Rightarrow> int" where
  "wholePart s =
     (let t = takeWhile (\<lambda>ch. ch \<noteq> CHR ''.'') s
      in int64 (if t \<noteq> [] \<and> hd t = CHR ''-'' then - decimal (tl t) else decimal t))"

definition toProtoDriver :: "(ObjectID \<Rightarrow> string) \<Rightarrow> Driver \<Rightarrow> ProtoDriver" where
  "toProtoDriver hex d =
     \<lparr>ProtoDriver.Id = hex (Base.ID d), CompanyId = Driver.CompanyID d, FullName = Driver.FullName d,
      Phone = deref (Driver.Phone d), EmployeeNo = deref (Driver.EmployeeNo d), LicenseNo = deref (Driver.LicenseNo d),
      LicenseClass = deref (Driver.LicenseClass d), LicenseExpiry = Driver.LicenseExpiry d, Status = Driver.Status d,
      UserId = deref (Driver.UserID d), Deleted = Base.Deleted d, CreatedAt = Base.CreatedAt d,
      UpdatedAt = Base.UpdatedAt d,
      FmsEmployeeId = (case Option.bind (Driver.Attributes d) (\<lambda>a. a ''fmsEmployeeId'') of
          Some (JNum n) \<Rightarrow> wholePart n | _ \<Rightarrow> 0)\<rparr>"

definition toProtoTracker :: "Runtime \<Rightarrow> (ObjectID \<Rightarrow> string) \<Rightarrow> TrackerView \<Rightarrow> ProtoTracker" where
  "toProtoTracker rt hex t =
     \<lparr>ProtoTracker.Id = hex (Base.ID t), CompanyId = deref (Tracker.CompanyID t), Kind = Tracker.Kind t,
      DeviceId = Tracker.DeviceID t, Iccid = deref (Tracker.ICCID t), SimProvider = deref (Tracker.SIMProvider t),
      PhoneNo = deref (Tracker.PhoneNo t), ModelId = deref (Tracker.ModelID t), Owner = Tracker.Owner t,
      OwnerName = deref (Tracker.OwnerName t), Status = Tracker.Status t,
      CurrentVehicleId = deref (TrackerView.CurrentVehicleID t), Deleted = Base.Deleted t,
      CreatedAt = Base.CreatedAt t, UpdatedAt = Base.UpdatedAt t, FittedAt = TrackerView.FittedAt t,
      Attributes = (case Tracker.Attributes t of None \<Rightarrow> None
                    | Some a \<Rightarrow> if a = Map.empty then None else NewStruct rt a)\<rparr>"

definition toProtoGroup :: "(ObjectID \<Rightarrow> string) \<Rightarrow> VehicleGroup \<Rightarrow> TruckGroup" where
  "toProtoGroup hex g =
     \<lparr>TruckGroup.Id = hex (Base.ID g), CompanyId = VehicleGroup.CompanyID g, Name = VehicleGroup.Name g,
      Description = deref (VehicleGroup.Description g), Deleted = Base.Deleted g, UpdatedAt = Base.UpdatedAt g\<rparr>"

section \<open>Catalogues\<close>

text \<open>The field sets of this surface; the one for warehouses is its own.\<close>

definition grpcWarehouseFields :: FieldSet where
  "grpcWarehouseFields = [(''name'', ''name''), (''city'', ''city''), (''createdAt'', ''createdAt'')]"

definition Server_GetCatalogItem ::
  "Runtime \<Rightarrow> 'w Services \<Rightarrow> CatalogKind \<Rightarrow> string \<Rightarrow> string \<Rightarrow> ('w, CatalogItem) rpc" where
  "Server_GetCatalogItem rt S kind ident companyID =
     (case kindName kind of Inl s \<Rightarrow> refuse s
      | Inr name \<Rightarrow> reply (toProtoItem rt kind) (CatalogGet (Lists S) name ident companyID False))"

definition Server_ListCatalogItems ::
  "Runtime \<Rightarrow> 'w Services \<Rightarrow> CatalogKind \<Rightarrow> string \<Rightarrow> string \<Rightarrow> ProtoQuery option \<Rightarrow> ('w, CatalogItem list \<times> PageInfo) rpc" where
  "Server_ListCatalogItems rt S kind companyID parentID q =
     (case kindName kind of Inl s \<Rightarrow> refuse s
      | Inr name \<Rightarrow>
          (let p = FromProto q catalogFields
           in case Err p of Some e \<Rightarrow> refuse (StatusError InvalidArgument (SaysQuery e))
              | None \<Rightarrow> reply (\<lambda>(entries, total). (map (toProtoItem rt kind) entries, pageInfo p total))
                  (CatalogList (Lists S) name companyID parentID False p)))"

text \<open>
  \<open>groupRefs\<close>: the ids of each kind in the order they came, and the kind each id was last asked
  for. A map read at an absent key gives the zero kind.
\<close>

fun addRef :: "string \<Rightarrow> string \<Rightarrow> Refs \<Rightarrow> Refs" where
  "addRef name ident [] = [(name, [ident])]"
| "addRef name ident ((n, ids) # refs) =
     (if n = name then (n, ids @ [ident]) # refs else (n, ids) # addRef name ident refs)"

fun groupLoop ::
  "CatalogRef list \<Rightarrow> Refs \<times> (string \<rightharpoonup> CatalogKind) \<Rightarrow> grpc_status + Refs \<times> (string \<rightharpoonup> CatalogKind)" where
  "groupLoop [] acc = Inr acc"
| "groupLoop (ref # refs) acc =
     (case kindName (RefKind ref) of
        Inl s \<Rightarrow> Inl s
      | Inr name \<Rightarrow> groupLoop refs (addRef name (RefId ref) (fst acc), (snd acc)(RefId ref \<mapsto> RefKind ref)))"

definition groupRefs :: "CatalogRef list \<Rightarrow> grpc_status + Refs \<times> (string \<rightharpoonup> CatalogKind)" where
  "groupRefs refs = groupLoop refs ([], Map.empty)"

definition kindAt :: "(string \<rightharpoonup> CatalogKind) \<Rightarrow> string \<Rightarrow> CatalogKind" where
  "kindAt kinds ident = (case kinds ident of None \<Rightarrow> CATALOG_KIND_UNSPECIFIED | Some k \<Rightarrow> k)"

definition Server_ResolveCatalogItems ::
  "Runtime \<Rightarrow> 'w Services \<Rightarrow> string \<Rightarrow> CatalogRef list \<Rightarrow> ('w, CatalogItem list) rpc" where
  "Server_ResolveCatalogItems rt S companyID refs =
     (case groupRefs refs of Inl s \<Rightarrow> refuse s
      | Inr (byKind, kinds) \<Rightarrow>
          reply (\<lambda>resolved. map (\<lambda>i. toProtoItem rt (kindAt kinds i) (the (resolved i))) (RangeItems rt resolved))
            (CatalogResolve (Lists S) companyID (RangeRefs rt byKind)))"

definition Server_ValidateReferences ::
  "Runtime \<Rightarrow> 'w Services \<Rightarrow> string \<Rightarrow> CatalogRef list \<Rightarrow> ('w, bool \<times> CatalogRef list) rpc" where
  "Server_ValidateReferences rt S companyID refs =
     (case groupRefs refs of Inl s \<Rightarrow> refuse s
      | Inr (byKind, kinds) \<Rightarrow>
          reply (\<lambda>invalidIDs.
              let bad = map (\<lambda>i. \<lparr>RefKind = kindAt kinds i, RefId = i\<rparr>) invalidIDs in (bad = [], bad))
            (CatalogValidate (Lists S) companyID (RangeRefs rt byKind)))"

definition Server_ListTruckGroups :: "'w Services \<Rightarrow> string \<Rightarrow> ('w, TruckGroup list) rpc" where
  "Server_ListTruckGroups S companyID =
     (if companyID = [] then refuse (invalid ''company_id is required'')
      else reply (map (toProtoGroup (Hex (sys (Lists S))))) (ListTruckGroups (Lists S) companyID))"

section \<open>The fleet\<close>

definition Server_GetTruck :: "'w Services \<Rightarrow> string \<Rightarrow> ('w, ProtoTruck) rpc" where
  "Server_GetTruck S ident = reply toProtoTruck (GetTruck (Register S) [] ident)"

text \<open>The page a driver sync asks for, read from two 32-bit numbers.\<close>

definition syncPage :: "int \<Rightarrow> int" where
  "syncPage n = (if n < 0 then 0 else n)"

definition syncSize :: "int \<Rightarrow> int" where
  "syncSize n = (let size = (if n \<le> 0 then 200 else n) in if size > 1000 then 1000 else size)"

definition Server_ListDrivers ::
  "'w Services \<Rightarrow> string \<Rightarrow> int \<Rightarrow> int \<Rightarrow> Time option \<Rightarrow> ('w, ProtoDriver list \<times> int) rpc" where
  "Server_ListDrivers S companyID pageNo pageSize updatedSince =
     (if companyID = [] then refuse (invalid ''company_id is required'')
      else reply (\<lambda>(rows, total). (map (toProtoDriver (Hex (env (Register S)))) rows, total))
        (ListDriversForSync (Register S) companyID (syncPage pageNo) (syncSize pageSize) updatedSince))"

definition Server_ListTrucks ::
  "'w Services \<Rightarrow> string \<Rightarrow> ProtoQuery option \<Rightarrow> ('w, ProtoTruck list \<times> PageInfo) rpc" where
  "Server_ListTrucks S companyID q =
     (let p = FromProto q truckFields
      in case Err p of Some e \<Rightarrow> refuse (StatusError InvalidArgument (SaysQuery e))
         | None \<Rightarrow>
             (let availableOnly = list_ex (\<lambda>f. Filter.Field f = ''isAvailable'' \<and> Filter.Value f = ''true'') (Filters p)
              in reply (\<lambda>(trucks, total). (map toProtoTruck trucks, pageInfo p total))
                   (ListTrucks (Register S) companyID p availableOnly)))"

definition Server_ListTrackers ::
  "Runtime \<Rightarrow> 'w Services \<Rightarrow> string \<Rightarrow> string \<Rightarrow> ProtoQuery option \<Rightarrow> ('w, ProtoTracker list \<times> PageInfo) rpc" where
  "Server_ListTrackers rt S companyID kind q =
     (let p = FromProto q trackerFields
      in case Err p of Some e \<Rightarrow> refuse (StatusError InvalidArgument (SaysQuery e))
         | None \<Rightarrow> reply (\<lambda>(rows, total). (map (toProtoTracker rt (Hex (env (Register S)))) rows, pageInfo p total))
             (ListTrackers (Register S) companyID p kind None []))"

definition Server_ListDeviceAssignments ::
  "'w Services \<Rightarrow> string \<Rightarrow> string \<Rightarrow> Time option \<Rightarrow> Time option \<Rightarrow> ('w, DeviceAssignment list) rpc" where
  "Server_ListDeviceAssignments S companyID vehicleID from' to' =
     (if companyID = [] then refuse (invalid ''company_id is required'')
      else case (from', to') of
        (Some f, Some t) \<Rightarrow>
          if t < f then refuse (invalid ''to is before from'')
          else reply (map (\<lambda>p. \<lparr>DeviceAssignment.VehicleId = AssignmentPeriod.VehicleID p, Imei = AssignmentPeriod.IMEI p,
                 FittedAt = AssignmentPeriod.FittedAt p, UnfittedAt = AssignmentPeriod.UnfittedAt p\<rparr>))
               (DeviceAssignments (Register S) companyID vehicleID f t)
      | _ \<Rightarrow> refuse (invalid ''from and to are required''))"

definition Server_GetDriver :: "'w Services \<Rightarrow> string \<Rightarrow> ('w, ProtoDriver) rpc" where
  "Server_GetDriver S ident = reply (toProtoDriver (Hex (env (Register S)))) (GetDriverByID (Register S) ident)"

definition Server_GetTrucksByDriver :: "'w Services \<Rightarrow> string \<Rightarrow> ('w, ProtoTruck list) rpc" where
  "Server_GetTrucksByDriver S driverID = reply (map toProtoTruck) (TrucksByDriver (Register S) [] driverID)"

definition Server_GetWarehouse :: "'w Services \<Rightarrow> string \<Rightarrow> ('w, ProtoWarehouse) rpc" where
  "Server_GetWarehouse S ident = reply toProtoWarehouse (GetWarehouse (Register S) [] ident)"

definition Server_ListWarehouses ::
  "'w Services \<Rightarrow> string \<Rightarrow> ProtoQuery option \<Rightarrow> ('w, ProtoWarehouse list \<times> PageInfo) rpc" where
  "Server_ListWarehouses S companyID q =
     (let p = FromProto q grpcWarehouseFields
      in case Err p of Some e \<Rightarrow> refuse (StatusError InvalidArgument (SaysQuery e))
         | None \<Rightarrow> reply (\<lambda>(sites, total). (map toProtoWarehouse sites, pageInfo p total))
             (ListWarehouses (Register S) companyID p))"

end
