(* ===== verification/GrpcPromises.thy ===== *)
theory GrpcPromises
  imports GrpcServer HttpRegister "HOL-Library.Multiset"
begin

text \<open>
  What the service-to-service surface guarantees: its methods read and never write, the checks of
  their arguments, and that references are vetted exactly.
\<close>

section \<open>Grouping references\<close>

text \<open>The kind and id of each reference, and of each entry of the grouped references.\<close>

definition asked :: "CatalogRef list \<Rightarrow> (string \<times> string) set" where
  "asked refs = {(name, RefId r) | name r. r \<in> set refs \<and> kindNames (RefKind r) = Some name}"

definition grouped :: "Refs \<Rightarrow> (string \<times> string) set" where
  "grouped g = {(name, i) | name ids i. (name, ids) \<in> set g \<and> i \<in> set ids}"

lemma grouped_simps [simp]: "grouped [] = {}" "grouped ((n, ids) # g) = Pair n ` set ids \<union> grouped g"
  by (auto simp: grouped_def)

lemma grouped_addRef [simp]: "grouped (addRef name ident g) = insert (name, ident) (grouped g)"
  by (induction name ident g rule: addRef.induct) auto

lemma groupLoop_Inr:
  "groupLoop refs acc = Inr (g, kinds) \<Longrightarrow> grouped g = grouped (fst acc) \<union> asked refs \<and>
     (\<forall>r \<in> set refs. kindNames (RefKind r) \<noteq> None) \<and>
     (\<forall>i k. kinds i = Some k \<longrightarrow> snd acc i = Some k \<or> (\<exists>r \<in> set refs. RefId r = i \<and> RefKind r = k)) \<and>
     (\<forall>i. (\<exists>r \<in> set refs. RefId r = i) \<or> snd acc i \<noteq> None \<longrightarrow> kinds i \<noteq> None)"
proof (induction refs arbitrary: acc)
  case (Cons r refs)
  obtain name where n: "kindNames (RefKind r) = Some name" using Cons.prems by (auto simp: kindName_def split: option.splits)
  then have "groupLoop refs (addRef name (RefId r) (fst acc), (snd acc)(RefId r \<mapsto> RefKind r)) = Inr (g, kinds)"
    using Cons.prems by (simp add: kindName_def)
  from Cons.IH [OF this] have IH: "grouped g = insert (name, RefId r) (grouped (fst acc)) \<union> asked refs"
    "\<forall>r \<in> set refs. kindNames (RefKind r) \<noteq> None"
    "\<And>i k. kinds i = Some k \<Longrightarrow> ((snd acc)(RefId r \<mapsto> RefKind r)) i = Some k \<or> (\<exists>r \<in> set refs. RefId r = i \<and> RefKind r = k)"
    "\<And>i. (\<exists>r \<in> set refs. RefId r = i) \<or> ((snd acc)(RefId r \<mapsto> RefKind r)) i \<noteq> None \<Longrightarrow> kinds i \<noteq> None"
    by auto
  have "asked (r # refs) = insert (name, RefId r) (asked refs)" using n by (auto simp: asked_def)
  moreover have "snd acc i = Some k \<or> (\<exists>r' \<in> set (r # refs). RefId r' = i \<and> RefKind r' = k)" if "kinds i = Some k" for i k
    using IH(3) [OF that] by (auto split: if_splits)
  moreover have "kinds i \<noteq> None" if "(\<exists>r' \<in> set (r # refs). RefId r' = i) \<or> snd acc i \<noteq> None" for i
    using that by (intro IH(4)) auto
  ultimately show ?case using IH(1,2) n by auto
qed (simp add: asked_def)

lemma groupRefs_Inr:
  assumes "groupRefs refs = Inr (g, kinds)"
  shows "grouped g = asked refs" "\<forall>r \<in> set refs. kindNames (RefKind r) \<noteq> None"
    and "\<And>i k. kinds i = Some k \<Longrightarrow> \<exists>r \<in> set refs. RefId r = i \<and> RefKind r = k"
    and "\<And>r. r \<in> set refs \<Longrightarrow> kinds (RefId r) \<noteq> None"
  using groupLoop_Inr [OF assms [unfolded groupRefs_def]] by auto

lemma groupLoop_Inl: "groupLoop refs acc = Inl s \<Longrightarrow> \<exists>r \<in> set refs. kindNames (RefKind r) = None"
  by (induction refs acc rule: groupLoop.induct) (auto simp: kindName_def split: option.splits sum.splits)

section \<open>Vetting references\<close>

text \<open>The id names a live entry, shared or of the company, in a kind it was asked for in.\<close>

definition namesEntry :: "'w Platform \<Rightarrow> CatalogData \<Rightarrow> string \<Rightarrow> CatalogRef list \<Rightarrow> string \<Rightarrow> bool" where
  "namesEntry P v companyID refs ident \<longleftrightarrow> (\<exists>(name, x) \<in> asked refs. \<exists>spec i d.
     kindOf name = Some spec \<and> ObjectIDFromHex P x = Some i \<and> Hex P i = ident \<and>
     Catalogues v (collection spec) i = Some d \<and> \<not> retired d \<and> visibility companyID False d)"

lemma resolves_grouped:
  "resolves P v companyID g ident \<longleftrightarrow> (\<exists>(name, x) \<in> grouped g. \<exists>spec i d.
     kindOf name = Some spec \<and> ObjectIDFromHex P x = Some i \<and> Hex P i = ident \<and>
     Catalogues v (collection spec) i = Some d \<and> \<not> retired d \<and> visibility companyID False d)"
  unfolding resolves_def grouped_def by blast

lemma grouped_shuffle: "mset g' = mset g \<Longrightarrow> grouped g' = grouped g"
  using mset_eq_setD [of g' g] by (simp add: grouped_def)

lemma grouped_ids: "set (concat (map snd g)) = snd ` grouped g"
  by (induction g) (auto simp: image_Un image_image)

text \<open>C15. When references are vetted for a company, nothing changes, the references reported as
  invalid are exactly those asked for whose non-empty id names no live entry the company can see, each
  under a kind it was asked for in, and the answer is valid when there is none: in whatever order Go
  ranges over its maps.\<close>

theorem references_are_vetted:
  assumes "catalog_database (Lists S) good vw" and "good w" and "\<And>g. mset (RangeRefs rt g) = mset g"
    and "Server_ValidateReferences rt S co refs w = (Inr (valid, bad), w')"
  shows "vw w' = vw w \<and> (valid \<longleftrightarrow> bad = []) \<and> set bad \<subseteq> set refs \<and>
    RefId ` set bad = {RefId r | r. r \<in> set refs \<and> RefId r \<noteq> [] \<and> \<not> namesEntry (sys (Lists S)) (vw w) co refs (RefId r)}"
proof -
  obtain g kinds where g: "groupRefs refs = Inr (g, kinds)"
    using assms(4) by (auto simp: Server_ValidateReferences_def refuse_def split: sum.splits)
  note grp = groupRefs_Inr [OF g]
  obtain ids where run: "CatalogValidate (Lists S) co (RangeRefs rt g) w = (Inr ids, w')"
    and bad: "bad = map (\<lambda>i. \<lparr>RefKind = kindAt kinds i, RefId = i\<rparr>) ids" "valid \<longleftrightarrow> bad = []"
    using assms(4) by (auto simp: Server_ValidateReferences_def g reply_def Let_def split: prod.splits sum.splits)
  have "DocID d = i" if "Catalogues (vw w) name i = Some d" for name i d
    using mongo_collection.keyed [OF catalog_database.lists [OF assms(1)] assms(2)] that by blast
  from triple_InrD [OF catalog_database.Validate_triple [OF assms(1) this] _ run] assms(2)
  have vw: "vw w' = vw w" and ids: "ids = filter (\<lambda>i. i \<noteq> [] \<and> \<not> resolves (sys (Lists S)) (vw w) co (RangeRefs rt g) i)
      (concat (map snd (RangeRefs rt g)))" by (simp_all add: inWorld_def)
  have "grouped (RangeRefs rt g) = asked refs" using grouped_shuffle [OF assms(3) [of g]] grp(1) by simp
  then have R: "resolves (sys (Lists S)) (vw w) co (RangeRefs rt g) = namesEntry (sys (Lists S)) (vw w) co refs"
    and A: "set (concat (map snd (RangeRefs rt g))) = snd ` asked refs"
    unfolding fun_eq_iff resolves_grouped namesEntry_def grouped_ids by simp_all
  have "snd ` asked refs = RefId ` set refs" using grp(2) by (force simp: asked_def)
  then have set_ids: "set ids = {i \<in> RefId ` set refs. i \<noteq> [] \<and> \<not> namesEntry (sys (Lists S)) (vw w) co refs i}"
    unfolding ids R set_filter A by blast
  have "\<lparr>RefKind = kindAt kinds i, RefId = i\<rparr> \<in> set refs" if i: "i \<in> RefId ` set refs" for i
  proof -
    obtain k where "kinds i = Some k" using grp(4) i by auto
    then obtain r where "r \<in> set refs" "RefId r = i" "RefKind r = k" using grp(3) by blast
    moreover from this have "\<lparr>RefKind = kindAt kinds i, RefId = i\<rparr> = r" using \<open>kinds i = Some k\<close> by (simp add: kindAt_def)
    ultimately show ?thesis by simp
  qed
  then have "set bad \<subseteq> set refs" unfolding bad(1) using set_ids by auto
  moreover have "RefId ` set bad = set ids" unfolding bad(1) by (simp add: image_image)
  ultimately show ?thesis using vw bad(2) set_ids by auto
qed

definition plainRuntime :: Runtime where
  "plainRuntime = \<lparr>NewStruct = Some, NewStructOf = Some, RangeRefs = rev,
     RangeItems = (\<lambda>m. [])\<rparr>"

definition brandRef :: "ObjectID \<Rightarrow> CatalogRef" where
  "brandRef i = \<lparr>RefKind = CATALOG_KIND_BRAND, RefId = memHex i\<rparr>"

lemma brands_vetted:
  "\<exists>w'. Server_ValidateReferences plainRuntime \<lparr>Register = R, Lists = catalogDB keepingCache\<rparr> ''rival''
     [brandRef 1, brandRef 2] sampleLists = (Inr (False, [brandRef 2]), w')"
proof -
  have eq: "memHex i = memHex j \<longleftrightarrow> i = j" for i j by (metis memFromHex_memHex option.inject)
  have ne: "memHex i \<noteq> []" for i using memHex_trimmed by blast
  have "kindOf ''brand'' = Some ((flat ''brands'')\<lparr>owned := True, shareable := True\<rparr>)"
    by (simp add: kindOf_def catalogKinds_def)
  then show ?thesis
    by (simp add: Server_ValidateReferences_def groupRefs_def kindName_def brandRef_def plainRuntime_def reply_def
      CatalogValidate_def CatalogResolve_def flat_def eq ne kindAt_def
      memFromHex_memHex sampleLists_def sampleEntry_def visibility_def retired_def field_def map_filter_simps io_simps
      negativeSkip_def window_def toEntry_def Let_def)
qed

lemma references_are_vetted_witness:
  "\<forall>R. {RefId r | r. r \<in> set [brandRef 1, brandRef 2] \<and> RefId r \<noteq> [] \<and>
      \<not> namesEntry (sys (Lists \<lparr>Register = R, Lists = catalogDB keepingCache\<rparr>)) (catalogView sampleLists) ''rival''
        [brandRef 1, brandRef 2] (RefId r)} = {memHex 2}"
proof
  fix R :: "CatalogWorld Database"
  let ?S = "\<lparr>Register = R, Lists = catalogDB keepingCache\<rparr>"
  have db: "catalog_database (Lists ?S) catalogGood catalogView" using kept.satisfied by simp
  have ord: "mset (RangeRefs plainRuntime g) = mset g" for g by (simp add: plainRuntime_def)
  obtain w' where run: "Server_ValidateReferences plainRuntime ?S ''rival'' [brandRef 1, brandRef 2] sampleLists =
      (Inr (False, [brandRef 2]), w')" using brands_vetted by blast
  show "{RefId r | r. r \<in> set [brandRef 1, brandRef 2] \<and> RefId r \<noteq> [] \<and>
      \<not> namesEntry (sys (Lists ?S)) (catalogView sampleLists) ''rival'' [brandRef 1, brandRef 2] (RefId r)} = {memHex 2}"
    using references_are_vetted [OF db sampleLists_good(1) ord run] by (simp add: brandRef_def)
qed

section \<open>Reading without writing\<close>

lemma reply_snd [simp]: "snd (reply f m w) = snd (m w)"
  by (simp add: reply_def split: prod.splits sum.splits)

lemma readsOnly_reply: "readsOnly good vw m \<Longrightarrow> readsOnly good vw (reply f m)"
  by (simp add: readsOnly_def)

lemma readsOnly_refuse: "readsOnly good vw (refuse s)"
  by (simp add: readsOnly_def refuse_def)

lemma readsOnly_option:
  "(\<And>e. readsOnly good vw (f e)) \<Longrightarrow> readsOnly good vw m \<Longrightarrow> readsOnly good vw (case x of None \<Rightarrow> m | Some e \<Rightarrow> f e)"
  by (cases x) simp_all

lemma readsOnly_if: "readsOnly good vw m \<Longrightarrow> readsOnly good vw m' \<Longrightarrow> readsOnly good vw (if b then m else m')"
  by simp

lemmas readsOnly_rules = readsOnly_reply readsOnly_refuse readsOnly_option readsOnly_if

context database
begin

lemma still_more_reads:
  "readsOnly good vw (TrucksByDriver D co i)" "readsOnly good vw (DeviceAssignments D co vid f t)"
  unfolding DeviceAssignments_def
  by (rule readsOnlyI, rule quiet [OF TrucksByDriver_triple] quiet [OF PeriodsFor_triple])+

lemmas every_read = reads more_reads still_more_reads

end

text \<open>No method of the fleet changes the database, whatever it is asked and however it ends.\<close>

theorem fleet_calls_write_nothing:
  assumes "database (Register S) good vw"
  shows "readsOnly good vw (Server_GetTruck S i) \<and> readsOnly good vw (Server_ListDrivers S co pg sz since) \<and>
    readsOnly good vw (Server_ListTrucks S co q) \<and> readsOnly good vw (Server_ListTrackers rt S co kind q) \<and>
    readsOnly good vw (Server_ListDeviceAssignments S co vid from' to') \<and> readsOnly good vw (Server_GetDriver S i) \<and>
    readsOnly good vw (Server_GetTrucksByDriver S i) \<and> readsOnly good vw (Server_GetWarehouse S i) \<and>
    readsOnly good vw (Server_ListWarehouses S co q)"
proof -
  note read = database.every_read [OF assms]
  show ?thesis
    unfolding Server_GetTruck_def Server_ListDrivers_def Server_ListTrucks_def Server_ListTrackers_def
      Server_ListDeviceAssignments_def Server_GetDriver_def Server_GetTrucksByDriver_def Server_GetWarehouse_def
      Server_ListWarehouses_def Let_def prod.case
    by (intro conjI readsOnly_rules read)
qed

lemma fleet_calls_write_nothing_witness:
  "\<forall>L. memView (snd (Server_GetTrucksByDriver \<lparr>Register = memDB, Lists = L\<rparr> (memHex 4) sampleWorld)) = memView sampleWorld"
proof
  fix L
  have "database (Register \<lparr>Register = memDB, Lists = L\<rparr>) memGood memView" using memDB_database by simp
  from fleet_calls_write_nothing [OF this] sample_good
  show "memView (snd (Server_GetTrucksByDriver \<lparr>Register = memDB, Lists = L\<rparr> (memHex 4) sampleWorld)) = memView sampleWorld"
    unfolding readsOnly_def by blast
qed

section \<open>The driver sync\<close>

lemma syncSize_range: "1 \<le> syncSize n \<and> syncSize n \<le> 1000"
  by (simp add: syncSize_def Let_def)

definition syncedSince :: "string \<Rightarrow> Time option \<Rightarrow> Driver \<Rightarrow> bool" where
  "syncedSince co since d \<longleftrightarrow> Driver.CompanyID d = co \<and> (\<forall>t. since = Some t \<longrightarrow> t \<le> Base.UpdatedAt d)"

context database
begin

lemma ListDriversForSync_triple:
  "triple (holds Q) (ListDriversForSync D co pg sz since) (\<lambda>(ds, n). holds (\<lambda>v. Q v \<and>
     ((0 < sz \<longrightarrow> int (length ds) \<le> sz) \<and> (\<forall>d \<in> set ds. Drivers v (Base.ID d) = Some d \<and> syncedSince co since d) \<and>
      n = int (card {i. \<exists>d. Drivers v i = Some d \<and> syncedSince co since d})))) (holds Q)"
proof -
  have p: "(\<lambda>d. Driver.CompanyID d = co \<and> (case since of None \<Rightarrow> True | Some t \<Rightarrow> t \<le> Base.UpdatedAt d)) = syncedSince co since"
    by (auto simp: syncedSince_def fun_eq_iff split: option.splits)
  show ?thesis unfolding ListDriversForSync_def p
    by (rule triple_conseq [OF drv.page_triple [where P = Q]])
      (auto simp: inWorld_def found_def withinLimit_def findOptions_def matching_def)
qed

lemma windows_triple:
  "triple (holds Q) (DeviceAssignments D co vid f t) (\<lambda>ps. holds (\<lambda>v. Q v \<and> (\<forall>at' x m. f \<le> at' \<and> at' \<le> t \<and>
     (vid = [] \<or> x = vid) \<and> carried v co at' x m \<longrightarrow> (\<exists>p \<in> set ps. AssignmentPeriod.IMEI p = m \<and>
       AssignmentPeriod.VehicleID p = x \<and> AssignmentPeriod.FittedAt p \<le> at' \<and>
       (\<forall>u. AssignmentPeriod.UnfittedAt p = Some u \<longrightarrow> at' < u))))) (holds Q)"
  unfolding DeviceAssignments_def
proof (rule triple_post [OF PeriodsFor_triple])
  fix ps w
  assume w: "holds (\<lambda>v. Q v \<and> set ps = {periodOf a | a j. Assignments v j = Some a \<and> TrackerAssignment.CompanyID a = co \<and>
       overlaps f t a \<and> (vid \<noteq> [] \<longrightarrow> TrackerAssignment.VehicleID a = vid) \<and> TrackerAssignment.IMEI a \<noteq> []}) w"
  have "\<exists>p \<in> set ps. AssignmentPeriod.IMEI p = m \<and> AssignmentPeriod.VehicleID p = x \<and>
      AssignmentPeriod.FittedAt p \<le> at' \<and> (\<forall>u. AssignmentPeriod.UnfittedAt p = Some u \<longrightarrow> at' < u)"
    if at': "f \<le> at'" "at' \<le> t" "vid = [] \<or> x = vid" and c: "carried (vw w) co at' x m" for at' x m
  proof -
    from c obtain j a where a: "Assignments (vw w) j = Some a" "TrackerAssignment.CompanyID a = co"
      "TrackerAssignment.VehicleID a = x" "TrackerAssignment.IMEI a = m" "m \<noteq> []" "onAt at' a"
      unfolding carried_def by blast
    then have "periodOf a \<in> set ps" using w at' overlaps_covers [OF a(6) at'(1,2)] unfolding inWorld_def by blast
    then show ?thesis using a by (intro bexI [of _ "periodOf a"]) (auto simp: periodOf_def onAt_def)
  qed
  then show "holds (\<lambda>v. Q v \<and> (\<forall>at' x m. f \<le> at' \<and> at' \<le> t \<and>
     (vid = [] \<or> x = vid) \<and> carried v co at' x m \<longrightarrow> (\<exists>p \<in> set ps. AssignmentPeriod.IMEI p = m \<and>
       AssignmentPeriod.VehicleID p = x \<and> AssignmentPeriod.FittedAt p \<le> at' \<and>
       (\<forall>u. AssignmentPeriod.UnfittedAt p = Some u \<longrightarrow> at' < u)))) w"
    using w by (simp add: inWorld_def)
qed

end

text \<open>C17. A page of the driver sync changes nothing and holds at most as many rows as asked for, never
  more than a thousand; each row is a stored driver of the company, retired ones included, changed since
  the moment given; and the total counts exactly those.\<close>

theorem driver_sync_is_bounded:
  assumes "database (Register S) good vw" and "good w"
    and "Server_ListDrivers S co pg sz since w = (Inr (rows, n), w')"
  shows "vw w' = vw w \<and> co \<noteq> [] \<and> int (length rows) \<le> syncSize sz \<and> int (length rows) \<le> 1000 \<and>
    n = int (card {i. \<exists>d. Drivers (vw w) i = Some d \<and> syncedSince co since d}) \<and>
    (\<exists>ds. rows = map (toProtoDriver (Hex (env (Register S)))) ds \<and>
      (\<forall>d \<in> set ds. Drivers (vw w) (Base.ID d) = Some d \<and> syncedSince co since d))"
proof -
  obtain ds where run: "ListDriversForSync (Register S) co (syncPage pg) (syncSize sz) since w = (Inr (ds, n), w')"
    and co: "co \<noteq> []" and rows: "rows = map (toProtoDriver (Hex (env (Register S)))) ds"
    using assms(3) by (auto simp: Server_ListDrivers_def refuse_def reply_def split: if_splits prod.splits sum.splits)
  show ?thesis
    using database.read_only_page [OF assms(1) database.ListDriversForSync_triple [OF assms(1), where Q = "\<lambda>v. v = vw w"]
        assms(2) run] co rows syncSize_range [of sz] by force
qed

lemma sample_synced: "\<exists>rows w'. Server_ListDrivers \<lparr>Register = memDB, Lists = L\<rparr> ''acme'' 0 0 None sampleWorld = (Inr (rows, 1), w') \<and>
    length rows = 1"
  by (simp add: Server_ListDrivers_def reply_def ListDriversForSync_def page_def andThen_def findOptions_def Offset_def
      syncPage_def syncSize_def negativeSkip_def window_def io_simps sampleDriver_def newDriver_def)

lemma driver_sync_is_bounded_witness:
  "\<forall>L. \<exists>rows. length rows = 1 \<and> (\<exists>ds. rows = map (toProtoDriver (Hex (env (Register \<lparr>Register = memDB, Lists = L\<rparr>)))) ds)"
proof
  fix L :: "MemWorld CatalogDB"
  have db: "database (Register \<lparr>Register = memDB, Lists = L\<rparr>) memGood memView" using memDB_database by simp
  obtain rows w' where run: "Server_ListDrivers \<lparr>Register = memDB, Lists = L\<rparr> ''acme'' 0 0 None sampleWorld = (Inr (rows, 1), w')"
      "length rows = 1" using sample_synced by blast
  show "\<exists>rows. length rows = 1 \<and> (\<exists>ds. rows = map (toProtoDriver (Hex (env (Register \<lparr>Register = memDB, Lists = L\<rparr>)))) ds)"
    using driver_sync_is_bounded [OF db sample_good run(1)] run(2) by blast
qed

section \<open>The window of a journey\<close>

text \<open>C16. A request for the devices of a journey is refused as invalid exactly when it names no
  company, leaves an end of the window out, or ends before it begins; and when it is answered, every
  device a vehicle of the company carried at any moment of the window is in the answer with a period
  around that moment.\<close>

theorem journeys_are_answered_in_full:
  assumes "database (Register S) good vw" and "good w"
    and "Server_ListDeviceAssignments S co vid from' to' w = (res, w')"
  shows "((\<exists>why. res = Inl (StatusError InvalidArgument why)) \<longleftrightarrow>
      co = [] \<or> from' = None \<or> to' = None \<or> (\<exists>f t. from' = Some f \<and> to' = Some t \<and> t < f)) \<and>
    (\<forall>rows. res = Inr rows \<longrightarrow> (\<exists>f t. from' = Some f \<and> to' = Some t \<and>
      (\<forall>at' x m. f \<le> at' \<and> at' \<le> t \<and> (vid = [] \<or> x = vid) \<and> carried (vw w) co at' x m \<longrightarrow>
        (\<exists>p \<in> set rows. Imei p = m \<and> DeviceAssignment.VehicleId p = x \<and> DeviceAssignment.FittedAt p \<le> at' \<and>
           (\<forall>u. DeviceAssignment.UnfittedAt p = Some u \<longrightarrow> at' < u)))))"
proof (cases "co = [] \<or> from' = None \<or> to' = None \<or> (\<exists>f t. from' = Some f \<and> to' = Some t \<and> t < f)")
  case True
  then show ?thesis using assms(3)
    by (auto simp: Server_ListDeviceAssignments_def refuse_def invalid_def split: if_splits option.splits)
next
  case False
  then obtain f t where ft: "from' = Some f" "to' = Some t" "\<not> t < f" "co \<noteq> []" by auto
  obtain r where run: "DeviceAssignments (Register S) co vid f t w = (r, w')" and
    res: "res = (case r of Inl e \<Rightarrow> Inl (mapError e) | Inr ps \<Rightarrow> Inr (map (\<lambda>p. \<lparr>DeviceAssignment.VehicleId = AssignmentPeriod.VehicleID p,
       Imei = AssignmentPeriod.IMEI p, FittedAt = AssignmentPeriod.FittedAt p, UnfittedAt = AssignmentPeriod.UnfittedAt p\<rparr>) ps))"
    using assms(3) ft by (auto simp: Server_ListDeviceAssignments_def reply_def split: prod.splits sum.splits)
  show ?thesis
  proof (cases r)
    case (Inl e)
    then show ?thesis using res False by (auto simp: mapError_def)
  next
    case (Inr ps)
    from database.read_only [OF assms(1) database.windows_triple [OF assms(1), where Q = "\<lambda>v. v = vw w"] assms(2) run [unfolded Inr]]
    show ?thesis using res False ft Inr by simp
  qed
qed

lemma history_asked:
  "\<exists>rows w'. Server_ListDeviceAssignments \<lparr>Register = memDB, Lists = L\<rparr> ''acme'' ''7'' (Some 40) (Some 100) historyWorld = (Inr rows, w')"
  by (simp add: Server_ListDeviceAssignments_def reply_def DeviceAssignments_def PeriodsFor_def io_simps negativeSkip_def window_def overlaps_def)

lemma history_carried: "carried (memView historyWorld) ''acme'' 45 ''7'' ''1''"
  unfolding carried_def
  by (intro conjI exI [of _ 1] exI [of _ "fittingOf 1 ''7'' ''1'' 10 (Some 50)"])
    (simp_all add: memView_def toMap_def onAt_def)

lemma journeys_are_answered_in_full_witness:
  "\<forall>L. \<exists>rows w' p. Server_ListDeviceAssignments \<lparr>Register = memDB, Lists = L\<rparr> ''acme'' ''7'' (Some 40) (Some 100) historyWorld =
     (Inr rows, w') \<and> p \<in> set rows \<and> Imei p = ''1''"
proof
  fix L :: "MemWorld CatalogDB"
  have db: "database (Register \<lparr>Register = memDB, Lists = L\<rparr>) memGood memView" using memDB_database by simp
  obtain rows w' where run: "Server_ListDeviceAssignments \<lparr>Register = memDB, Lists = L\<rparr> ''acme'' ''7'' (Some 40) (Some 100)
      historyWorld = (Inr rows, w')" using history_asked by blast
  show "\<exists>rows w' p. Server_ListDeviceAssignments \<lparr>Register = memDB, Lists = L\<rparr> ''acme'' ''7'' (Some 40) (Some 100) historyWorld =
     (Inr rows, w') \<and> p \<in> set rows \<and> Imei p = ''1''"
  proof -
    from conjunct2 [OF journeys_are_answered_in_full [OF db history_good run]]
    obtain f t where "Some 40 = Some f" "Some 100 = Some t" and all: "\<forall>at' x m. f \<le> at' \<and> at' \<le> t \<and> (''7'' = [] \<or> x = ''7'') \<and>
        carried (memView historyWorld) ''acme'' at' x m \<longrightarrow> (\<exists>p \<in> set rows. Imei p = m \<and> DeviceAssignment.VehicleId p = x \<and>
          DeviceAssignment.FittedAt p \<le> at' \<and> (\<forall>u. DeviceAssignment.UnfittedAt p = Some u \<longrightarrow> at' < u))" by blast
    then have "f = 40" "t = 100" by simp_all
    then show ?thesis using all [rule_format, of 45 "''7''" "''1''"] history_carried run by auto
  qed
qed

section \<open>Catalogue calls\<close>

text \<open>The lists and the fleet as they were; the cache may have learnt.\<close>

definition sameLists :: "CatalogData \<Rightarrow> CatalogData \<Rightarrow> bool" where
  "sameLists v0 v \<longleftrightarrow> Catalogues v = Catalogues v0 \<and> Fleet v = Fleet v0"

definition leavesLists :: "('w \<Rightarrow> bool) \<Rightarrow> ('w \<Rightarrow> CatalogData) \<Rightarrow> ('w \<Rightarrow> 'a \<times> 'w) \<Rightarrow> bool" where
  "leavesLists good vw m \<longleftrightarrow> (\<forall>w. good w \<longrightarrow> good (snd (m w)) \<and> sameLists (vw w) (vw (snd (m w))))"

lemma leavesLists_reply: "leavesLists good vw m \<Longrightarrow> leavesLists good vw (reply f m)"
  by (simp add: leavesLists_def)

lemma leavesLists_refuse: "leavesLists good vw (refuse s)"
  by (simp add: leavesLists_def refuse_def sameLists_def)

context catalog_database
begin

lemma leavesListsI:
  assumes "\<And>u. triple (holds (sameLists u)) m (\<lambda>_. holds (sameLists u)) (holds (sameLists u))"
  shows "leavesLists good vw m"
  unfolding leavesLists_def
proof (intro allI impI)
  fix w assume "good w"
  have "holds (sameLists (vw w)) (snd (m w))"
    by (rule triple_worldD [OF assms [of "vw w"] _ prod.collapse [symmetric]]) (simp add: inWorld_def sameLists_def \<open>good w\<close>)
  then show "good (snd (m w)) \<and> sameLists (vw w) (vw (snd (m w)))" by (simp add: inWorld_def)
qed

lemma list_find_same: "triple (holds P) (Find (catalogCol D name) p opts) (\<lambda>_. holds P) (holds P)"
  by (rule triple_conseq [OF list_find [where P = P]]) (auto simp: inWorld_def)

lemma resolveLoop_same: "triple (holds P) (resolveLoop D co refs out) (\<lambda>_. holds P) (holds P)"
proof (induction refs arbitrary: out)
  case (Cons r refs)
  obtain kind ids where r: "r = (kind, ids)" by force
  show ?case
    by (auto simp: r Let_def split: option.splits
        intro!: triple_fail Cons.IH triple_andThen [OF list_find_same])
qed (auto intro: triple_ok)

lemma catalog_reads:
  "leavesLists good vw (CatalogGet D kind i co st)" "leavesLists good vw (CatalogList D kind co parent st p)"
  "leavesLists good vw (CatalogResolve D co refs)" "leavesLists good vw (CatalogValidate D co refs)"
  "leavesLists good vw (ListTruckGroups D co)"
proof -
  show "leavesLists good vw (CatalogGet D kind i co st)"
    by (rule leavesListsI, rule Get_triple) (simp_all add: sameLists_def)
  show "leavesLists good vw (CatalogList D kind co parent st p)"
    by (rule leavesListsI, rule List_triple) (simp_all add: sameLists_def)
  show "leavesLists good vw (CatalogResolve D co refs)"
    unfolding CatalogResolve_def by (rule leavesListsI, rule resolveLoop_same)
  show "leavesLists good vw (CatalogValidate D co refs)"
    unfolding CatalogValidate_def CatalogResolve_def
    by (rule leavesListsI, rule triple_andThen [OF resolveLoop_same]) (rule triple_ok)
  show "leavesLists good vw (ListTruckGroups D co)"
    unfolding ListTruckGroups_def
  proof (rule leavesListsI, rule triple_andThen [where Q' = "\<lambda>_. holds (sameLists u)" for u])
    fix u
    show "triple (holds (sameLists u)) (Find (catalogCol D (Collection ''vehicle_groups''))
        (\<lambda>d. field d ''companyId'' = Some (BsonString co)) None) (\<lambda>_. holds (sameLists u)) (holds (sameLists u))"
      by (rule list_find_same)
  qed (auto intro: triple_ok triple_fail split: option.splits)
qed

end

text \<open>No method of the catalogues changes the lists or the fleet.\<close>

theorem catalogue_calls_write_nothing:
  assumes "catalog_database (Lists S) good vw"
  shows "leavesLists good vw (Server_GetCatalogItem rt S kind i co) \<and>
    leavesLists good vw (Server_ListCatalogItems rt S kind co parent q) \<and>
    leavesLists good vw (Server_ResolveCatalogItems rt S co refs) \<and>
    leavesLists good vw (Server_ValidateReferences rt S co refs) \<and> leavesLists good vw (Server_ListTruckGroups S co)"
  unfolding Server_GetCatalogItem_def Server_ListCatalogItems_def Server_ResolveCatalogItems_def
    Server_ValidateReferences_def Server_ListTruckGroups_def Let_def
  by (auto split: sum.splits option.splits intro!: leavesLists_reply leavesLists_refuse catalog_database.catalog_reads [OF assms])

lemma catalogue_calls_write_nothing_witness:
  "\<forall>R. Catalogues (catalogView (snd (Server_GetCatalogItem plainRuntime \<lparr>Register = R, Lists = catalogDB keepingCache\<rparr>
     CATALOG_KIND_BRAND (memHex 1) ''rival'' sampleLists))) = Catalogues (catalogView sampleLists)"
proof
  fix R :: "CatalogWorld Database"
  have "catalog_database (Lists \<lparr>Register = R, Lists = catalogDB keepingCache\<rparr>) catalogGood catalogView"
    using kept.satisfied by simp
  from conjunct1 [OF catalogue_calls_write_nothing [OF this]]
  have "leavesLists catalogGood catalogView (Server_GetCatalogItem plainRuntime \<lparr>Register = R, Lists = catalogDB keepingCache\<rparr>
     CATALOG_KIND_BRAND (memHex 1) ''rival'')" .
  with sampleLists_good(1) show "Catalogues (catalogView (snd (Server_GetCatalogItem plainRuntime \<lparr>Register = R, Lists = catalogDB keepingCache\<rparr>
     CATALOG_KIND_BRAND (memHex 1) ''rival'' sampleLists))) = Catalogues (catalogView sampleLists)"
    unfolding leavesLists_def sameLists_def by blast
qed

end
