(* ===== verification/Scanning.thy ===== *)
theory Scanning
  imports Prelude
begin

text \<open>
  Redis's \<^verbatim>\<open>SCAN\<close> as its two users rely on it, the cache's invalidation and the reading of
  the durable revocations: a call answers some of the keys asked for and the cursor to go on from, zero
  at the end. The documented guarantee is that an iteration from zero to zero ends and shows every key
  that is there throughout, some perhaps twice. \<open>hits w\<close> are the keys asked for,
  \<open>ahead w c\<close> those a cursor has still to pass, \<open>rank w c\<close> bounds the calls left.
\<close>

locale scanning =
  fixes scan :: "nat \<Rightarrow> 'w \<Rightarrow> (string list \<times> nat) option \<times> 'w"
    and good :: "'w \<Rightarrow> bool" and up :: "'w \<Rightarrow> bool"
    and hits :: "'w \<Rightarrow> string set"
    and ahead :: "'w \<Rightarrow> nat \<Rightarrow> string set" and rank :: "'w \<Rightarrow> nat \<Rightarrow> nat"
  assumes from_start: "good w \<Longrightarrow> ahead w 0 = UNIV"
    and scan_reads: "good w \<Longrightarrow> scan c w = (r, w') \<Longrightarrow>
      good w' \<and> hits w' = hits w \<and> ahead w' = ahead w \<and> rank w' = rank w"
    and scan_up: "good w \<Longrightarrow> up w \<Longrightarrow> scan c w = (r, w') \<Longrightarrow> r \<noteq> None \<and> up w'"
    and scan_page: "good w \<Longrightarrow> scan c w = (Some (ks, n), w') \<Longrightarrow>
      set ks \<subseteq> hits w \<and> hits w \<inter> ahead w c \<subseteq> set ks \<union> (if n = 0 then {} else ahead w n) \<and>
      (n \<noteq> 0 \<longrightarrow> rank w n < rank w c)"

end
