(* ===== verification/RevocationStore.thy ===== *)
theory RevocationStore
  imports Revocation Scanning
begin

text \<open>
  The durable copy of the revocations behind the list of \<open>Revocation\<close>: what Redis promises of it
  (locale \<open>durable\<close>) and what a resync then does. A revocation that was published is back in
  every service's list at the next resync that reaches Redis, whatever the service missed or forgot.
\<close>

section \<open>What Redis promises\<close>

text \<open>
  \<open>copy\<close> is what is stored. While the server is \<open>up\<close> commands are answered; an answer it
  did not give counts as a key that is gone, as \<^verbatim>\<open>All\<close> takes it.
\<close>

locale durable =
  fixes R :: "'w Redis"
    and good :: "'w \<Rightarrow> bool" and up :: "'w \<Rightarrow> bool"
    and copy :: "'w \<Rightarrow> string \<rightharpoonup> Event option"
    and ahead :: "'w \<Rightarrow> nat \<Rightarrow> string set" and rank :: "'w \<Rightarrow> nat \<Rightarrow> nat"
  assumes scans: "scanning (Scan R) good up (\<lambda>w. {k \<in> dom (copy w). HasPrefix k keyPrefix}) ahead rank"
    and scan_copies: "good w \<Longrightarrow> Scan R c w = (rs, w') \<Longrightarrow> copy w' = copy w"
    and get: "good w \<Longrightarrow> GetKey R k w = (rg, w') \<Longrightarrow>
      good w' \<and> copy w' = copy w \<and> ahead w' = ahead w \<and> rank w' = rank w \<and> (up w \<longrightarrow> up w' \<and> rg = copy w k) \<and>
      (rg \<noteq> None \<longrightarrow> rg = copy w k)"
    and clock: "good w \<Longrightarrow> ClockNow R w = (t, w') \<Longrightarrow>
      good w' \<and> copy w' = copy w \<and> ahead w' = ahead w \<and> rank w' = rank w \<and> (up w \<longrightarrow> up w')"
    and setk: "good w \<Longrightarrow> HasPrefix k keyPrefix \<Longrightarrow> SetKey R k b ttl w = (True, w') \<Longrightarrow>
      good w' \<and> copy w' = (copy w)(k \<mapsto> b)"
    and announced: "good w \<Longrightarrow> PublishOn R ch b w = (ra, w') \<Longrightarrow> good w' \<and> copy w' = copy w"

section \<open>What a resync reads\<close>

text \<open>An event read from the copy: stored, with the moment of the reading where it had none.\<close>

definition fromCopy :: "(string \<rightharpoonup> Event option) \<Rightarrow> Event \<Rightarrow> bool" where
  "fromCopy m e' \<longleftrightarrow> (\<exists>k b. m k = Some (Some b) \<and> Kind e' = Kind b \<and> ID e' = ID b \<and> (At b \<noteq> zeroTime \<longrightarrow> At e' = At b))"

definition readable :: "Event \<Rightarrow> bool" where
  "readable e \<longleftrightarrow> Kind e \<noteq> [] \<and> ID e \<noteq> [] \<and> At e \<noteq> zeroTime"

text \<open>Every event stands under its own key, as \<^verbatim>\<open>Publish\<close> puts it.\<close>

definition wellKeyed :: "(string \<rightharpoonup> Event option) \<Rightarrow> bool" where
  "wellKeyed m \<longleftrightarrow> (\<forall>k e. m k = Some (Some e) \<longrightarrow> k = key e)"

lemma Decode_readable: "readable e \<Longrightarrow> Decode now (Some e) = Some e"
  by (simp add: readable_def Decode_def)

lemma Decode_from:
  assumes "m k = Some b" and "Decode now b = Some e'"
  shows "fromCopy m e'"
proof -
  obtain e where b: "b = Some e" using assms(2) by (cases b) (auto simp: Decode_def)
  then have "e' = e \<or> At e = zeroTime \<and> e' = e\<lparr>At := now\<rparr>"
    using assms(2) by (auto simp: Decode_def split: if_splits)
  then show ?thesis using assms(1) b unfolding fromCopy_def by (intro exI [of _ k] exI [of _ e]) auto
qed

lemma key_prefix: "HasPrefix (key e) keyPrefix"
  by (simp add: key_def HasPrefix_iff)

context durable
begin

lemma readKeys_reads:
  assumes "good w" and "readKeys R ks es w = (es', w')" and "\<forall>e \<in> set es. fromCopy (copy w) e"
  shows "good w' \<and> copy w' = copy w \<and> ahead w' = ahead w \<and> rank w' = rank w \<and> set es \<subseteq> set es' \<and>
    (\<forall>e \<in> set es'. fromCopy (copy w) e) \<and>
    (up w \<longrightarrow> up w' \<and> (\<forall>k \<in> set ks. \<forall>e. copy w k = Some (Some e) \<and> readable e \<longrightarrow> e \<in> set es'))"
  using assms
proof (induction ks arbitrary: es w)
  case (Cons k ks)
  obtain raw w1 where g: "GetKey R k w = (raw, w1)" by force
  note g1 = get [OF Cons.prems(1) g]
  show ?case
  proof (cases raw)
    case None
    have "\<forall>e \<in> set es. fromCopy (copy w1) e" using Cons.prems(3) g1 by simp
    from Cons.IH [OF _ _ this] Cons.prems(2) g None g1 show ?thesis by auto
  next
    case (Some b)
    obtain now w2 where c: "ClockNow R w1 = (now, w2)" by force
    note c1 = clock [OF conjunct1 [OF g1] c]
    have b: "copy w k = Some b" using g1 Some by auto
    show ?thesis
    proof (cases "Decode now b")
      case None
      have "b \<noteq> Some e" if "readable e" for e using None Decode_readable [OF that] by auto
      moreover have "\<forall>e \<in> set es. fromCopy (copy w2) e" using Cons.prems(3) g1 c1 by simp
      ultimately show ?thesis using Cons.IH [of w2 es] Cons.prems(2) g Some c None g1 c1 b by auto
    next
      case read: (Some e')
      have "fromCopy (copy w) e'" by (rule Decode_from [where m = "copy w" and k = k, OF b read])
      then have "\<forall>e \<in> set (es @ [e']). fromCopy (copy w2) e" using Cons.prems(3) g1 c1 by simp
      moreover have "e = e'" if "readable e" "b = Some e" for e using read that Decode_readable [OF that(1)] by simp
      ultimately show ?thesis using Cons.IH [of w2 "es @ [e']"] Cons.prems(2) g Some c read g1 c1 b by auto
    qed
  qed
qed simp

lemma scanLoop_reads:
  assumes "good w" and "up w" and "rank w c < fuel" and "\<forall>e \<in> set es. fromCopy (copy w) e"
  shows "\<exists>es' w'. scanLoop R fuel c es w = Some (Some es', w') \<and> set es \<subseteq> set es' \<and> (\<forall>e \<in> set es'. fromCopy (copy w) e) \<and>
    (\<forall>k e. k \<in> ahead w c \<and> HasPrefix k keyPrefix \<and> copy w k = Some (Some e) \<and> readable e \<longrightarrow> e \<in> set es')"
  using assms
proof (induction fuel arbitrary: c es w)
  case (Suc fuel)
  obtain r w1 where s: "Scan R c w = (r, w1)" by force
  have w1: "good w1" "copy w1 = copy w" "ahead w1 = ahead w" "rank w1 = rank w" "up w1" "r \<noteq> None"
    using scanning.scan_reads [OF scans Suc.prems(1) s] scan_copies [OF Suc.prems(1) s]
      scanning.scan_up [OF scans Suc.prems(1,2) s] by auto
  then obtain ks n where a: "r = Some (ks, n)" by auto
  note page = scanning.scan_page [OF scans Suc.prems(1) s [unfolded a]]
  obtain es1 w2 where k: "readKeys R ks es w1 = (es1, w2)" by force
  have "\<forall>e \<in> set es. fromCopy (copy w1) e" using Suc.prems(4) w1 by simp
  note read = readKeys_reads [OF w1(1) k this]
  have got: "e \<in> set es1" if "q \<in> set ks" "copy w q = Some (Some e)" "readable e" for q e
    using read w1 that by auto
  show ?case
  proof (cases "n = 0")
    case True
    then have run: "scanLoop R (Suc fuel) c es w = Some (Some es1, w2)" using s a k by simp
    have "e \<in> set es1" if "q \<in> ahead w c" "HasPrefix q keyPrefix" "copy w q = Some (Some e)" "readable e" for q e
      using page True that got [of q e] by auto
    then show ?thesis unfolding run using read w1 by auto
  next
    case False
    then have run: "scanLoop R (Suc fuel) c es w = scanLoop R fuel n es1 w2" using s a k by simp
    have fuel: "rank w2 n < fuel" using page False read w1 Suc.prems(3) by auto
    have "\<forall>e \<in> set es1. fromCopy (copy w2) e" using read w1 by simp
    from Suc.IH [OF _ _ fuel this] read w1 obtain es' w' where rest: "scanLoop R fuel n es1 w2 = Some (Some es', w')"
      "set es1 \<subseteq> set es'" "\<forall>e \<in> set es'. fromCopy (copy w) e"
      "\<forall>k e. k \<in> ahead w n \<and> HasPrefix k keyPrefix \<and> copy w k = Some (Some e) \<and> readable e \<longrightarrow> e \<in> set es'"
      by auto
    have "e \<in> set es'" if "q \<in> ahead w c" "HasPrefix q keyPrefix" "copy w q = Some (Some e)" "readable e" for q e
    proof -
      have "q \<in> set ks \<or> q \<in> ahead w n" using page False that(1,2,3) by auto
      then show ?thesis using got [of q e] that(2-4) rest(2,4) by blast
    qed
    then show ?thesis unfolding run using rest read by auto
  qed
qed simp

text \<open>A scan ends, failures included.\<close>

lemma scanLoop_ends:
  "good w \<Longrightarrow> rank w c < fuel \<Longrightarrow> \<forall>e \<in> set es. fromCopy (copy w) e \<Longrightarrow> scanLoop R fuel c es w \<noteq> None"
proof (induction fuel arbitrary: c es w)
  case (Suc fuel)
  obtain r w1 where s: "Scan R c w = (r, w1)" by force
  show ?case
  proof (cases r)
    case (Some p)
    then obtain ks n where a: "r = Some (ks, n)" by (cases p) auto
    have w1: "good w1" "copy w1 = copy w" "rank w1 = rank w"
      using scanning.scan_reads [OF scans Suc.prems(1) s] scan_copies [OF Suc.prems(1) s] by auto
    obtain es1 w2 where k: "readKeys R ks es w1 = (es1, w2)" by force
    have "\<forall>e \<in> set es. fromCopy (copy w1) e" using Suc.prems(3) w1 by simp
    note read = readKeys_reads [OF w1(1) k this]
    have "n \<noteq> 0 \<longrightarrow> rank w2 n < fuel"
      using scanning.scan_page [OF scans Suc.prems(1) s [unfolded a]] read w1 Suc.prems(2) by auto
    then show ?thesis using s a k read w1 Suc.IH [of w2 n es1] by auto
  qed (use s in simp)
qed simp

text \<open>A resync ends and brings back every event that is stored under its own key.\<close>

lemma resync_reads:
  assumes "good w" and "up w" and "rank w 0 < fuel" and "wellKeyed (copy w)"
    and "copy w (key e) = Some (Some e)" and "readable e" and "about e s u c" and "iat < At e"
  shows "\<exists>l' w'. resync R fuel l w = Some (l', w') \<and> \<not> Degraded l' \<and> Revoked l' s u c iat"
proof -
  obtain es w' where run: "All R fuel w = Some (Some es, w')" and from': "\<forall>e \<in> set es. fromCopy (copy w) e"
    and all: "\<forall>k e. HasPrefix k keyPrefix \<and> copy w k = Some (Some e) \<and> readable e \<longrightarrow> e \<in> set es"
    using scanLoop_reads [OF assms(1-3), of "[]"] scanning.from_start [OF scans assms(1)] unfolding All_def by auto
  have "e \<in> set es" using all assms(5,6) key_prefix by blast
  moreover have "At e \<le> At e'" if e': "e' \<in> set es" "Kind e' = Kind e" "ID e' = ID e" for e'
  proof -
    obtain k b where b: "copy w k = Some (Some b)" "Kind e' = Kind b" "ID e' = ID b" "At b \<noteq> zeroTime \<longrightarrow> At e' = At b"
      using from' e'(1) unfolding fromCopy_def by blast
    then have "k = key b" using assms(4) by (auto simp: wellKeyed_def)
    then have "k = key e" using b(2,3) e'(2,3) by (simp add: key_def)
    then have "b = e" using b(1) assms(5) by simp
    then show ?thesis using b(4) assms(6) by (simp add: readable_def)
  qed
  ultimately have "\<exists>l'. resync R fuel l w = Some (l', w') \<and> Revoked l' s u c iat"
    by (intro resync_restores [OF run _ assms(7,8)]) (auto simp: list_all_iff)
  then show ?thesis by (auto simp: resync_def run Degraded_def Replace_def Let_def)
qed

lemma Publish_stores:
  assumes "good w" and "Publish R life e w = (True, w')" and "At e \<noteq> zeroTime"
  shows "good w' \<and> copy w' (key e) = Some (Some e)"
proof -
  obtain w1 ra where s: "SetKey R (key e) (Some e) life w = (True, w1)" and p: "PublishOn R Channel (Some e) w1 = (ra, w')"
    using assms(2,3) by (auto simp: Publish_def Let_def split: prod.splits if_splits)
  from setk [OF assms(1) key_prefix s] announced [OF _ p] show ?thesis by auto
qed

end

section \<open>The executable Redis\<close>

definition memStored :: "RedisWorld \<Rightarrow> bool" where
  "memStored w \<longleftrightarrow> (\<forall>k \<in> fst ` set (stored w). HasPrefix k keyPrefix)"

interpretation mem: durable memRedis memStored "\<lambda>w. True" "\<lambda>w. map_of (stored w)"
  "\<lambda>w c. if c = 0 then UNIV else {}" "\<lambda>w c. 0"
proof (rule durable.intro)
  show "scanning (Scan memRedis) memStored (\<lambda>w. True) (\<lambda>w. {k \<in> dom (map_of (stored w)). HasPrefix k keyPrefix})
      (\<lambda>w c. if c = 0 then UNIV else {}) (\<lambda>w c. 0)"
    by unfold_locales (force simp: memRedis_def memStored_def dom_map_of_conv_image_fst split: if_splits)+
next
  fix w k b ttl w' assume "memStored w" "HasPrefix k keyPrefix" "SetKey memRedis k b ttl w = (True, w')"
  then show "memStored w' \<and> map_of (stored w') = (map_of (stored w))(k \<mapsto> b)"
    by (auto simp: memRedis_def memStored_def update_conv' simp flip: dom_map_of_conv_image_fst split: if_splits)
qed (auto simp: memRedis_def)

text \<open>C36. Every wake-up of the watching loop ends, whatever wakes it and whatever Redis answers or fails
  to answer: the scan of the durable copy is over after as many rounds as its cursors allow.\<close>

theorem every_wake_ends:
  assumes "durable R good up copy ahead rank" and "good w" and "rank w 0 < fuel"
  shows "\<exists>l' w'. watchStep R life fuel wake l w = Some (l', w')"
proof -
  have "All R fuel w \<noteq> None" using durable.scanLoop_ends [OF assms, of "[]"] by (simp add: All_def)
  then have "resync R fuel m w \<noteq> None" for m by (auto simp: resync_def split: option.splits)
  then have "watchStep R life fuel wake l w \<noteq> None"
    by (cases wake) (auto simp: watchStep_def Let_def split: prod.splits)
  then show ?thesis by auto
qed

lemma every_wake_ends_witness:
  "\<exists>l' w'. watchStep memRedis 1000 1 SubscriptionClosed NewList \<lparr>stored = [(''revoked:x'', None)], redisClock = 120\<rparr> = Some (l', w')"
  by (rule every_wake_ends [OF mem.durable_axioms]) (simp_all add: memStored_def HasPrefix_iff keyPrefix_def)

text \<open>C35. Once a revocation has been published, and as long as the durable copy still holds under its
  key what was published (it has not expired, nor has another cutoff for the same person been published
  over it), every resync that reaches Redis ends, leaves the list in step and has the tokens it is about refused, whatever the
  list had missed before: a service that was down, or cut off, catches up.\<close>

theorem published_revocations_come_back:
  assumes "durable R good up copy ahead rank" and "good w" and "Publish R life e w = (True, w1)"
    and "At e \<noteq> zeroTime" and "about e s u c" and "iat < At e"
    and "good w2" and "up w2" and "rank w2 0 < fuel" and "wellKeyed (copy w2)" and "copy w2 (key e) = copy w1 (key e)"
  shows "\<exists>l' w'. watchStep R life fuel ResyncTick l w2 = Some (l', w') \<and> \<not> Degraded l' \<and> Revoked l' s u c iat"
proof -
  have "readable e" using assms(4,5) by (auto simp: readable_def about_def kind_defs)
  with durable.resync_reads [OF assms(1) assms(7-10) _ _ assms(5,6)] durable.Publish_stores [OF assms(1-4)] assms(11)
  show ?thesis by (auto simp: watchStep_def)
qed

lemma published_revocations_come_back_witness:
  "let w = snd (Publish memRedis 1000 \<lparr>Kind = KindUser, ID = ''u'', At = 100\<rparr> \<lparr>stored = [], redisClock = 120\<rparr>)
   in \<exists>l' w'. watchStep memRedis 1000 1 ResyncTick (MarkDegraded NewList) w = Some (l', w') \<and>
     \<not> Degraded l' \<and> Revoked l' [] ''u'' [] 70"
proof -
  let ?e = "\<lparr>Kind = KindUser, ID = ''u'', At = 100\<rparr>"
  let ?w = "\<lparr>stored = [(key ?e, Some ?e)], redisClock = 120\<rparr>"
  have run: "Publish memRedis 1000 ?e \<lparr>stored = [], redisClock = 120\<rparr> = (True, ?w)"
    by (simp add: Publish_def memRedis_def zeroTime_def Let_def)
  have "\<exists>l' w'. watchStep memRedis 1000 1 ResyncTick (MarkDegraded NewList) ?w = Some (l', w') \<and>
     \<not> Degraded l' \<and> Revoked l' [] ''u'' [] 70"
    by (rule published_revocations_come_back [OF mem.durable_axioms _ run])
      (use key_prefix in \<open>simp_all add: memStored_def zeroTime_def about_def wellKeyed_def\<close>)
  then show ?thesis by (simp add: run)
qed

end
