(* ===== verification/Startup.thy ===== *)
theory Startup
  imports Sites Gate
begin

text \<open>
  \<^verbatim>\<open>internal/config\<close>: the settings \<^verbatim>\<open>Load\<close> reads from the environment, a
  map from names to values, and the guard that keeps the service away from the monolith's database.
  A started service has at least one service token, so \<open>UnaryServerInterceptor\<close> asks for it.
  Durations are in nanoseconds.
\<close>

section \<open>Settings\<close>

type_synonym Env = "string \<rightharpoonup> string"

record Config =
  Environment :: string
  LogLevel :: string
  HTTPPort :: string
  GRPCPort :: string
  MongoURI :: string
  MongoDatabase :: string
  MongoTimeout :: int
  ServiceToken :: string
  AcceptedServiceTokens :: "string list"
  CORSAllowedOrigins :: "string list"
  TrustedProxies :: "string list"
  AuthGRPCAddr :: string
  CatalogCacheTTL :: int

definition Getenv :: "Env \<Rightarrow> string \<Rightarrow> string" where
  "Getenv vars name = (case vars name of None \<Rightarrow> [] | Some v \<Rightarrow> v)"

definition envOr :: "Env \<Rightarrow> string \<Rightarrow> string \<Rightarrow> string" where
  "envOr vars name fallback =
     (case vars name of Some v \<Rightarrow> if v \<noteq> [] then v else fallback | None \<Rightarrow> fallback)"

definition splitOr :: "Env \<Rightarrow> string \<Rightarrow> string list \<Rightarrow> string list" where
  "splitOr vars name fallback =
     (case vars name of
        None \<Rightarrow> fallback
      | Some v \<Rightarrow> if TrimSpace v = [] then fallback
                  else filter (\<lambda>p. p \<noteq> []) (map TrimSpace (SplitOn (CHR '','') v)))"

text \<open>
  \<^verbatim>\<open>time.ParseDuration\<close>: a sign, then numbers with a unit each. A fraction of a unit is
  taken exactly and rounded down, where Go computes in \<^verbatim>\<open>float64\<close>. The unit of a microsecond
  has three spellings, two of them in UTF-8.
\<close>

definition unitMap :: "(string \<times> int) list" where
  "unitMap = [(''ns'', 1), (''us'', 1000), ([CHR 0xC2, CHR 0xB5, CHR ''s''], 1000), ([CHR 0xCE, CHR 0xBC, CHR ''s''], 1000),
     (''ms'', 1000000), (''s'', 1000000000), (''m'', 60000000000), (''h'', 3600000000000)]"

definition numberOf :: "string \<Rightarrow> int" where
  "numberOf ds = foldl (\<lambda>n c. 10 * n + digitVal c) 0 ds"

text \<open>The digits before and after the point, the unit, and what follows.\<close>

definition durationTerm :: "string \<Rightarrow> string \<times> string \<times> string \<times> string" where
  "durationTerm s =
     (let s1 = dropWhile isDigit s;
          dotted = (s1 \<noteq> [] \<and> hd s1 = CHR ''.'');
          s2 = (if dotted then dropWhile isDigit (tl s1) else s1);
          isUnit = (\<lambda>c. c \<noteq> CHR ''.'' \<and> \<not> isDigit c)
      in (takeWhile isDigit s, if dotted then takeWhile isDigit (tl s1) else [], takeWhile isUnit s2, dropWhile isUnit s2))"

lemma durationTerm_shorter:
  assumes "durationTerm s = (w1, fr, un, s3)" and "un \<noteq> []"
  shows "length s3 < length s"
proof -
  have d: "length (dropWhile P t) \<le> length t" for P :: "char \<Rightarrow> bool" and t by (rule length_dropWhile_le)
  define s1 where "s1 = dropWhile isDigit s"
  define s2 where "s2 = (if s1 \<noteq> [] \<and> hd s1 = CHR ''.'' then dropWhile isDigit (tl s1) else s1)"
  have "length s2 \<le> length s1" using d [of isDigit "tl s1"] by (auto simp: s2_def)
  then have "length s2 \<le> length s" using d [of isDigit s] by (simp add: s1_def)
  moreover have "un @ s3 = s2"
    using assms(1) unfolding durationTerm_def s1_def [symmetric] Let_def s2_def [symmetric] by auto
  then have "length un + length s3 = length s2" by (metis length_append)
  ultimately show ?thesis using assms(2) by (cases un) auto
qed

function durationTerms :: "string \<Rightarrow> int \<Rightarrow> int option" where
  "durationTerms [] d = Some d"
| "durationTerms (c # s) d =
     (case durationTerm (c # s) of (w1, fr, un, s2) \<Rightarrow>
        if w1 = [] \<and> fr = [] \<or> un = [] then None
        else (case map_of unitMap un of
                None \<Rightarrow> None
              | Some u \<Rightarrow>
                  let v = numberOf w1 * u + numberOf fr * u div 10 ^ length fr
                  in if numberOf w1 * u > 2 ^ 63 \<or> v > 2 ^ 63 \<or> d + v > 2 ^ 63 then None
                     else durationTerms s2 (d + v)))"
  by pat_completeness auto
termination
  by (relation "measure (\<lambda>(s, d). length s)") (auto dest!: sym [of "(_, _, _, _)"] durationTerm_shorter)

definition ParseDuration :: "string \<Rightarrow> int option" where
  "ParseDuration s =
     (let neg = (s \<noteq> [] \<and> hd s = CHR ''-'');
          t = (if s \<noteq> [] \<and> hd s \<in> {CHR ''-'', CHR ''+''} then tl s else s)
      in if t = ''0'' then Some 0
         else if t = [] then None
         else (case durationTerms t 0 of
                 None \<Rightarrow> None
               | Some d \<Rightarrow> if neg then Some (- d) else if d > 2 ^ 63 - 1 then None else Some d))"

definition durationOr :: "Env \<Rightarrow> string \<Rightarrow> int \<Rightarrow> int" where
  "durationOr vars name fallback =
     (case vars name of
        None \<Rightarrow> fallback
      | Some v \<Rightarrow> (case ParseDuration v of Some d \<Rightarrow> d | None \<Rightarrow> fallback))"

lemma duration_samples:
  "map ParseDuration [''10s'', ''1h30m'', ''-1.5h'', ''.5ms'', ''0'', ''3'', ''s'', ''1 s'', [], ''9223372036854775808ns''] =
     [Some 10000000000, Some 5400000000000, Some (- 5400000000000), Some 500000, Some 0, None, None, None, None, None]"
  by code_simp

text \<open>What is parsed fits the 64 bits of a duration.\<close>

lemma durationTerms_range: "durationTerms s d = Some r \<Longrightarrow> d \<le> 2 ^ 63 \<Longrightarrow> r \<le> 2 ^ 63"
  by (induction s d rule: durationTerms.induct) (auto simp: Let_def split: prod.splits if_splits option.splits)

definition isProductionEnv :: "string \<Rightarrow> bool" where
  "isProductionEnv e \<longleftrightarrow> ToLower (TrimSpace e) \<in> {''production'', ''prod''}"

text \<open>The first result is the settings that are required and absent, in the order they are missed.\<close>

definition Load :: "Env \<Rightarrow> string list + Config" where
  "Load vars =
     (let e = envOr vars ''ENVIRONMENT'' ''development'';
          given = Getenv vars ''MONGO_URI'';
          uri = (if given = [] \<and> e = ''development'' then ''mongodb://localhost:27017'' else given);
          token = Getenv vars ''SERVICE_TOKEN'';
          accepted = splitOr vars ''ACCEPTED_SERVICE_TOKENS'' [];
          origins = splitOr vars ''CORS_ALLOWED_ORIGINS'' [];
          missing = (if uri = [] then [''MONGO_URI''] else []) @
                    (if token = [] then [''SERVICE_TOKEN''] else []) @
                    (if accepted = [] then [''ACCEPTED_SERVICE_TOKENS''] else []) @
                    (if origins = [] then [''CORS_ALLOWED_ORIGINS''] else [])
      in if missing \<noteq> [] then Inl missing
         else Inr \<lparr>Environment = e, LogLevel = envOr vars ''LOG_LEVEL'' ''info'',
                   HTTPPort = envOr vars ''HTTP_PORT'' ''5002'', GRPCPort = envOr vars ''GRPC_PORT'' ''6002'',
                   MongoURI = uri, MongoDatabase = envOr vars ''MONGO_DATABASE'' ''karlo_masterdata'',
                   MongoTimeout = durationOr vars ''MONGO_TIMEOUT'' 10000000000,
                   ServiceToken = token, AcceptedServiceTokens = accepted,
                   CORSAllowedOrigins = origins, TrustedProxies = splitOr vars ''TRUSTED_PROXIES'' [],
                   AuthGRPCAddr = envOr vars ''AUTH_GRPC_ADDR'' ''localhost:6001'',
                   CatalogCacheTTL = durationOr vars ''CATALOG_CACHE_TTL'' 300000000000\<rparr>)"

section \<open>The guard\<close>

definition legacyHosts :: "string list" where
  "legacyHosts = [''cluster0-ndqn7.mongodb.net'']"

definition legacyDatabases :: "string list" where
  "legacyDatabases = [''prod'', ''test'', ''local'']"

definition EqualFold :: "string \<Rightarrow> string \<Rightarrow> bool" where
  "EqualFold s t \<longleftrightarrow> ToLower s = ToLower t"

definition databaseFromURI :: "string \<Rightarrow> string" where
  "databaseFromURI uri =
     (case Cut uri ''://'' of (_, rest, hasScheme) \<Rightarrow>
        if \<not> hasScheme then []
        else (case Cut rest ''/'' of (_, path, hasPath) \<Rightarrow>
          if \<not> hasPath then [] else fst (Cut path ''?'')))"

text \<open>\<open>Some reason\<close> is \<^verbatim>\<open>ErrLegacyTarget\<close>; the first reason found is the one given.\<close>

definition guardTarget :: "string \<Rightarrow> string \<Rightarrow> string option" where
  "guardTarget uri name =
     (let lowerDB = ToLower (TrimSpace name); db = databaseFromURI uri in
      case List.find (Contains (ToLower uri)) legacyHosts of
        Some host \<Rightarrow> Some (''MONGO_URI points at the legacy cluster '' @ quote host)
      | None \<Rightarrow>
          if lowerDB \<in> set legacyDatabases
          then Some (''MONGO_DATABASE is '' @ quote name @ '', which is a legacy database name'')
          else if db \<noteq> [] \<and> list_ex (EqualFold db) legacyDatabases
          then Some (''MONGO_URI names the legacy database '' @ quote db @ '' in its path'')
          else if lowerDB = [] then Some ''MONGO_DATABASE is empty''
          else None)"

text \<open>Start-up: the settings, then the target, which is refused before any connection is tried.\<close>

definition startup :: "Env \<Rightarrow> Config option" where
  "startup vars =
     (case Load vars of
        Inl _ \<Rightarrow> None
      | Inr cfg \<Rightarrow> (case guardTarget (MongoURI cfg) (MongoDatabase cfg) of Some _ \<Rightarrow> None | None \<Rightarrow> Some cfg))"

section \<open>A service that started\<close>

lemma Load_tokens:
  "Load vars = Inr cfg \<Longrightarrow> AcceptedServiceTokens cfg \<noteq> [] \<and> list_all (\<lambda>t. t \<noteq> [] \<and> trimmed t) (AcceptedServiceTokens cfg)"
proof -
  assume load: "Load vars = Inr cfg"
  have loaded: "(if ms \<noteq> [] then Inl ms else Inr c') = Inr c \<longleftrightarrow> ms = [] \<and> c' = c" for ms :: "string list" and c c' :: Config
    by simp
  have one: "(if b then [x] else []) = [] \<longleftrightarrow> \<not> b" for b and x :: string by simp
  note parts = load [unfolded Load_def Let_def, unfolded loaded, unfolded append_is_Nil_conv one]
  have "AcceptedServiceTokens cfg = splitOr vars ''ACCEPTED_SERVICE_TOKENS'' []" using parts by (elim conjE) (drule sym, simp)
  moreover from this have "AcceptedServiceTokens cfg \<noteq> []" using parts by (elim conjE) (simp only: simp_thms)
  moreover have "list_all (\<lambda>t. t \<noteq> [] \<and> trimmed t) (splitOr vars name [])" for name
    by (auto simp: splitOr_def list_all_iff split: option.splits)
  ultimately show ?thesis by simp
qed

lemma guardTarget_None:
  "guardTarget uri db = None \<longleftrightarrow>
     \<not> list_ex (Contains (ToLower uri)) legacyHosts \<and>
     ToLower (TrimSpace db) \<notin> set ([] # legacyDatabases) \<and>
     \<not> (databaseFromURI uri \<noteq> [] \<and> list_ex (EqualFold (databaseFromURI uri)) legacyDatabases)"
proof -
  have "List.find P xs = None \<longleftrightarrow> \<not> list_ex P xs" for P and xs :: "string list"
    by (auto simp: find_None_iff list_ex_iff)
  note this [of "Contains (ToLower uri)" legacyHosts]
  then show ?thesis
    by (cases "List.find (Contains (ToLower uri)) legacyHosts") (auto simp: guardTarget_def Let_def)
qed


definition sampleEnv :: Env where
  "sampleEnv = [''SERVICE_TOKEN'' \<mapsto> ''s3cret'', ''ACCEPTED_SERVICE_TOKENS'' \<mapsto> '' s3cret , '',
     ''CORS_ALLOWED_ORIGINS'' \<mapsto> ''https://tms.example'']"


text \<open>Only the two spellings are production, whatever their case and the spaces around them.\<close>

lemma production_spellings: "map isProductionEnv [''prod'', '' Production '', ''staging'', []] = [True, True, False, False]"
  by code_simp

end
