(* ===== verification/Seeding.thy ===== *)
theory Seeding
  imports CatalogMemory
begin

text \<open>
  \<^verbatim>\<open>internal/seed\<close>: loading the reference lists Karlo maintains. The file is what
  \<^verbatim>\<open>json.Unmarshal\<close> makes of it, its kinds in the order Go ranges over them; the one database call,
  \<^verbatim>\<open>FindOneAndUpdate\<close> with upsert, is a parameter with the law MongoDB documents for it (locale
  \<open>seed_store\<close>): it fails and leaves the lists as they were, or sets the fields of one document that
  matches, or, when none does, adds a document of those fields.
\<close>

section \<open>The file\<close>

record SeedEntry =
  Code :: string
  Name :: string
  ParentCode :: string
  SortOrder :: int
  Attributes :: Attrs

type_synonym SeedFile = "(string \<times> SeedEntry list) list"

definition seedCollections :: "(string \<times> string) list" where
  "seedCollections =
     [(''truckType'', ''truck_types''), (''truckBody'', ''truck_bodies''), (''truckHead'', ''truck_heads''),
      (''truckClass'', ''truck_classes''), (''brand'', ''brands''), (''cargoType'', ''cargo_types''),
      (''itemType'', ''item_types''), (''itemCharacter'', ''item_characters''), (''paymentType'', ''payment_types''),
      (''pricingType'', ''pricing_types''), (''requirement'', ''requirements''), (''currency'', ''currencies''),
      (''provinsi'', ''provinces''), (''kota'', ''cities'')]"

datatype seed_error =
    Unreadable string
  | Unparsable string
  | Incomplete string SeedEntry
  | WriteFailed string string error

section \<open>The database call\<close>

type_synonym CatalogLists = "string \<Rightarrow> ObjectID \<rightharpoonup> Doc"

record 'w SeedDB =
  FindOneAndUpdate :: "string \<Rightarrow> (Doc \<Rightarrow> bool) \<Rightarrow> payload \<Rightarrow> payload \<Rightarrow> ('w, Doc) io"
  SeedHex :: "ObjectID \<Rightarrow> string"

definition setFields :: "payload \<Rightarrow> Doc \<Rightarrow> Doc" where
  "setFields fs d = fold (\<lambda>(k, v). setField k v) fs d"

text \<open>What a call that succeeds has done: \<open>upserted name p sets inserts v d v'\<close>.\<close>

definition upserted ::
  "string \<Rightarrow> (Doc \<Rightarrow> bool) \<Rightarrow> payload \<Rightarrow> payload \<Rightarrow> CatalogLists \<Rightarrow> Doc \<Rightarrow> CatalogLists \<Rightarrow> bool" where
  "upserted name p sets inserts v d v' \<longleftrightarrow>
     (\<exists>i d0. v name i = Some d0 \<and> p d0 \<and> d = setFields sets d0 \<and> v' = v(name := (v name)(i \<mapsto> d))) \<or>
     (\<forall>i d0. v name i = Some d0 \<longrightarrow> \<not> p d0) \<and>
     (\<exists>i. v name i = None \<and> d = setFields (inserts @ sets) \<lparr>DocID = i, Fields = []\<rparr> \<and> v' = v(name := (v name)(i \<mapsto> d)))"

locale seed_store =
  fixes D :: "'w SeedDB" and good :: "'w \<Rightarrow> bool" and vw :: "'w \<Rightarrow> CatalogLists"
  assumes upsert_fails: "good w \<Longrightarrow> FindOneAndUpdate D name p sets inserts w = (Inl e, w') \<Longrightarrow> good w' \<and> vw w' = vw w"
    and upsert_done: "good w \<Longrightarrow> FindOneAndUpdate D name p sets inserts w = (Inr d, w') \<Longrightarrow>
      good w' \<and> upserted name p sets inserts (vw w) d (vw w')"
begin
end

section \<open>The run\<close>

definition globalDoc :: "Doc \<Rightarrow> bool" where
  "globalDoc d \<longleftrightarrow> field d ''companyId'' = None \<or> field d ''companyId'' = Some BsonNull"

definition seedMatch :: "SeedEntry \<Rightarrow> Doc \<Rightarrow> bool" where
  "seedMatch e d \<longleftrightarrow> globalDoc d \<and>
     (field d ''code'' = Some (BsonString (SeedEntry.Code e)) \<or>
      field d ''nameNormalised'' = Some (BsonString (Normalise.Name (SeedEntry.Name e))))"

text \<open>The attributes of an entry, and its parent: the id of its province where that is known.\<close>

definition seedSet :: "string \<Rightarrow> Time \<Rightarrow> (string \<rightharpoonup> string) \<Rightarrow> SeedEntry \<Rightarrow> payload" where
  "seedSet kind now provinceIDs e =
     [(''name'', BsonString (SeedEntry.Name e)),
      (''nameNormalised'', BsonString (Normalise.Name (SeedEntry.Name e))),
      (''code'', BsonString (SeedEntry.Code e)),
      (''sortOrder'', BsonInt (SortOrder e)),
      (''isActive'', BsonBool True),
      (''deleted'', BsonBool False),
      (''updatedAt'', BsonDate now)] @
     (if SeedEntry.Attributes e = Map.empty then [] else [(''attributes'', BsonDoc (SeedEntry.Attributes e))]) @
     (if ParentCode e = [] then []
      else (''parentCode'', BsonString (ParentCode e)) #
        (if kind = ''kota''
         then (case provinceIDs (ParentCode e) of None \<Rightarrow> [] | Some pid \<Rightarrow> [(''provinceId'', BsonString pid)])
         else []))"

fun seedLoop ::
  "'w SeedDB \<Rightarrow> string \<Rightarrow> string \<Rightarrow> bool \<Rightarrow> Time \<Rightarrow> SeedEntry list \<Rightarrow> (string \<rightharpoonup> string) \<Rightarrow> 'w \<Rightarrow>
   (seed_error + (string \<rightharpoonup> string)) \<times> 'w" where
  "seedLoop D kind coll dryRun now [] provinceIDs w = (Inr provinceIDs, w)"
| "seedLoop D kind coll dryRun now (e # es) provinceIDs w =
     (if SeedEntry.Code e = [] \<or> SeedEntry.Name e = [] then (Inl (Incomplete kind e), w)
      else if dryRun then seedLoop D kind coll dryRun now es provinceIDs w
      else case FindOneAndUpdate D coll (seedMatch e) (seedSet kind now provinceIDs e)
             [(''companyId'', BsonNull), (''createdAt'', BsonDate now)] w of
        (Inl err, w') \<Rightarrow> (Inl (WriteFailed kind (SeedEntry.Code e) err), w')
      | (Inr doc, w') \<Rightarrow>
          seedLoop D kind coll dryRun now es
            (if kind = ''provinsi'' then provinceIDs(SeedEntry.Code e \<mapsto> SeedHex D (DocID doc)) else provinceIDs) w')"

text \<open>A kind the file does not have is skipped, one without a collection is skipped with a warning.\<close>

fun kindsLoop ::
  "'w SeedDB \<Rightarrow> SeedFile \<Rightarrow> bool \<Rightarrow> Time \<Rightarrow> string list \<Rightarrow> (string \<rightharpoonup> string) \<Rightarrow> 'w \<Rightarrow> (seed_error + unit) \<times> 'w" where
  "kindsLoop D file dryRun now [] provinceIDs w = (Inr (), w)"
| "kindsLoop D file dryRun now (kind # kinds) provinceIDs w =
     (case (map_of file kind, map_of seedCollections kind) of
        (Some rows, Some coll) \<Rightarrow>
          (case seedLoop D kind coll dryRun now rows provinceIDs w of
             (Inl err, w') \<Rightarrow> (Inl err, w')
           | (Inr ids, w') \<Rightarrow> kindsLoop D file dryRun now kinds ids w')
      | _ \<Rightarrow> kindsLoop D file dryRun now kinds provinceIDs w)"

definition kindOrder :: "SeedFile \<Rightarrow> string list" where
  "kindOrder file =
     [''provinsi'', ''kota''] @ filter (\<lambda>k. k \<noteq> ''provinsi'' \<and> k \<noteq> ''kota'') (map fst file)"

definition seedRun :: "'w SeedDB \<Rightarrow> seed_error + SeedFile \<Rightarrow> Time \<Rightarrow> bool \<Rightarrow> 'w \<Rightarrow> (seed_error + unit) \<times> 'w" where
  "seedRun D read now dryRun w =
     (case read of
        Inl err \<Rightarrow> (Inl err, w)
      | Inr file \<Rightarrow> kindsLoop D file dryRun now (kindOrder file) Map.empty w)"

section \<open>The fields a seed writes\<close>

lemma field_setField: "field (setField k v d) k' = (if k' = k then Some v else field d k')"
  by (simp add: field_def setField_def update_conv')

lemma setFields_simps [simp]:
  "setFields [] d = d" "setFields ((k, v) # fs) d = setFields fs (setField k v d)"
  "setFields (fs @ gs) d = setFields gs (setFields fs d)"
  by (simp_all add: setFields_def)

lemma DocID_setFields [simp]: "DocID (setFields fs d) = DocID d"
  by (induction fs arbitrary: d) (auto simp: setFields_def)

lemma field_setFields_other: "k \<notin> fst ` set fs \<Longrightarrow> field (setFields fs d) k = field d k"
  by (induction fs arbitrary: d) (auto simp: field_setField)

text \<open>What an entry looks like once it is seeded: global, live, under its code and name.\<close>

definition seededAs :: "SeedEntry \<Rightarrow> Doc \<Rightarrow> bool" where
  "seededAs e d \<longleftrightarrow> globalDoc d \<and> field d ''code'' = Some (BsonString (SeedEntry.Code e)) \<and>
     field d ''name'' = Some (BsonString (SeedEntry.Name e)) \<and>
     field d ''nameNormalised'' = Some (BsonString (Normalise.Name (SeedEntry.Name e))) \<and>
     field d ''isActive'' = Some (BsonBool True) \<and> field d ''deleted'' = Some (BsonBool False)"

lemma seedSet_fields:
  "field (setFields (seedSet kind now ids e) d) ''name'' = Some (BsonString (SeedEntry.Name e))"
  "field (setFields (seedSet kind now ids e) d) ''nameNormalised'' = Some (BsonString (Normalise.Name (SeedEntry.Name e)))"
  "field (setFields (seedSet kind now ids e) d) ''code'' = Some (BsonString (SeedEntry.Code e))"
  "field (setFields (seedSet kind now ids e) d) ''isActive'' = Some (BsonBool True)"
  "field (setFields (seedSet kind now ids e) d) ''deleted'' = Some (BsonBool False)"
  "field (setFields (seedSet kind now ids e) d) ''companyId'' = field d ''companyId''"
  by (simp_all add: seedSet_def field_setField split: option.splits)

lemma seededAs_setFields: "globalDoc d \<Longrightarrow> seededAs e (setFields (seedSet kind now ids e) d)"
  by (simp add: seededAs_def globalDoc_def seedSet_fields)

text \<open>Entries that share neither code nor normalised name never match each other's documents.\<close>

definition apart :: "SeedEntry \<Rightarrow> SeedEntry \<Rightarrow> bool" where
  "apart e f \<longleftrightarrow> SeedEntry.Code e \<noteq> SeedEntry.Code f \<and>
     Normalise.Name (SeedEntry.Name e) \<noteq> Normalise.Name (SeedEntry.Name f)"

lemma apart_no_match: "apart e f \<Longrightarrow> seededAs e d \<Longrightarrow> \<not> seedMatch f d"
  by (auto simp: apart_def seededAs_def seedMatch_def)

lemma seeded_matches: "seededAs e d \<Longrightarrow> seedMatch e d"
  by (simp add: seededAs_def seedMatch_def)

section \<open>What one write does\<close>

definition keyedLists :: "CatalogLists \<Rightarrow> bool" where
  "keyedLists v \<longleftrightarrow> (\<forall>name i d. v name i = Some d \<longrightarrow> DocID d = i)"

text \<open>Companies' documents as they were, and no document gone.\<close>

definition companiesKept :: "CatalogLists \<Rightarrow> CatalogLists \<Rightarrow> bool" where
  "companiesKept v v' \<longleftrightarrow>
     (\<forall>name i d. \<not> globalDoc d \<longrightarrow> (v' name i = Some d \<longleftrightarrow> v name i = Some d)) \<and> (\<forall>name. dom (v name) \<subseteq> dom (v' name))"

definition seeded :: "CatalogLists \<Rightarrow> string \<Rightarrow> SeedEntry \<Rightarrow> bool" where
  "seeded v coll e \<longleftrightarrow> (\<exists>i d. v coll i = Some d \<and> seededAs e d)"

definition sameDocs :: "CatalogLists \<Rightarrow> CatalogLists \<Rightarrow> bool" where
  "sameDocs v v' \<longleftrightarrow> (\<forall>name. dom (v' name) = dom (v name))"

lemma companiesKept_refl: "companiesKept v v"
  by (simp add: companiesKept_def)

lemma companiesKept_trans: "companiesKept u v \<Longrightarrow> companiesKept v v' \<Longrightarrow> companiesKept u v'"
  unfolding companiesKept_def by blast

abbreviation inserting :: "Time \<Rightarrow> payload" where
  "inserting now \<equiv> [(''companyId'', BsonNull), (''createdAt'', BsonDate now)]"

lemma upsert_effect:
  assumes "upserted coll (seedMatch e) (seedSet kind now ids e) (inserting now) v d v'"
  shows "companiesKept v v'" and "seeded v' coll e"
    and "name \<noteq> coll \<Longrightarrow> v' name = v name"
    and "seeded v coll f \<Longrightarrow> apart f e \<Longrightarrow> seeded v' coll f"
    and "seeded v coll e \<Longrightarrow> sameDocs v v'"
proof -
  consider (old) i d0 where "v coll i = Some d0" "seedMatch e d0" "d = setFields (seedSet kind now ids e) d0"
      "v' = v(coll := (v coll)(i \<mapsto> d))"
    | (new) i where "\<forall>i d0. v coll i = Some d0 \<longrightarrow> \<not> seedMatch e d0" "v coll i = None"
      "d = setFields (inserting now @ seedSet kind now ids e) \<lparr>DocID = i, Fields = []\<rparr>" "v' = v(coll := (v coll)(i \<mapsto> d))"
    using assms unfolding upserted_def by blast
  note cases = this
  have "\<exists>i. v' = v(coll := (v coll)(i \<mapsto> d)) \<and> seededAs e d \<and> (\<forall>d0. v coll i = Some d0 \<longrightarrow> seedMatch e d0)"
    using cases
  proof cases
    case old
    then show ?thesis using seededAs_setFields by (auto simp: seedMatch_def)
  next
    case new
    have "globalDoc (setFields (inserting now) \<lparr>DocID = i, Fields = []\<rparr>)"
      by (simp add: globalDoc_def field_setField)
    then show ?thesis using new seededAs_setFields by auto
  qed
  then obtain i where i: "v' = v(coll := (v coll)(i \<mapsto> d))" "seededAs e d"
    "\<And>d0. v coll i = Some d0 \<Longrightarrow> seedMatch e d0" by blast
  show "seeded v' coll e" using i(1,2) by (auto simp: seeded_def)
  show "v' name = v name" if "name \<noteq> coll" using i(1) that by simp
  show "companiesKept v v'" using i by (auto simp: companiesKept_def seededAs_def seedMatch_def)
  show "seeded v' coll f" if f: "seeded v coll f" "apart f e"
  proof -
    obtain j d1 where j: "v coll j = Some d1" "seededAs f d1" using f(1) by (auto simp: seeded_def)
    then have "j \<noteq> i" using i(3) apart_no_match [OF f(2) j(2)] by blast
    then show ?thesis using j i(1) by (auto simp: seeded_def)
  qed
  show "sameDocs v v'" if "seeded v coll e"
    using cases
  proof cases
    case new
    then show ?thesis using that seeded_matches by (auto simp: seeded_def)
  qed (auto simp: sameDocs_def)
qed

lemma seedLoop_dry: "seedLoop D kind coll True now es ids w = (r, w') \<Longrightarrow> w' = w"
  by (induction es arbitrary: ids) (auto split: if_splits)

context seed_store
begin

lemma seedLoop_keeps:
  assumes "good w" and "seedLoop D kind coll dryRun now es ids w = (r, w')"
  shows "good w' \<and> companiesKept (vw w) (vw w') \<and> (\<forall>name. name \<noteq> coll \<longrightarrow> vw w' name = vw w name)"
  using assms
proof (induction es arbitrary: ids w)
  case (Cons e es)
  note IH = Cons.IH
  show ?case
  proof (cases "SeedEntry.Code e = [] \<or> SeedEntry.Name e = []")
    case True
    then show ?thesis using Cons.prems by (auto simp: companiesKept_refl)
  next
    case False
    show ?thesis
    proof (cases dryRun)
      case True
      then show ?thesis using Cons.prems False IH by simp
    next
      case real: False
      obtain x w1 where run: "FindOneAndUpdate D coll (seedMatch e) (seedSet kind now ids e) (inserting now) w = (x, w1)"
        by force
      show ?thesis
      proof (cases x)
        case (Inl err)
        then show ?thesis using Cons.prems False real run upsert_fails [OF Cons.prems(1) run [unfolded Inl]]
          by (simp add: companiesKept_refl)
      next
        case (Inr d)
        note u = upsert_done [OF Cons.prems(1) run [unfolded Inr]]
        note eff = upsert_effect(1,3) [OF conjunct2 [OF u]]
        obtain ids' where "seedLoop D kind coll dryRun now es ids' w1 = (r, w')"
          using Cons.prems(2) False real run Inr by auto
        from IH [OF conjunct1 [OF u] this] eff show ?thesis using companiesKept_trans by auto
      qed
    qed
  qed
qed (simp add: companiesKept_refl)

lemma seedLoop_seeds:
  assumes "good w" and "seedLoop D kind coll False now es ids w = (Inr ids', w')" and "sorted_wrt apart es"
    and "\<forall>f \<in> F. seeded (vw w) coll f \<and> (\<forall>e \<in> set es. apart f e)"
  shows "\<forall>e \<in> F \<union> set es. seeded (vw w') coll e"
  using assms
proof (induction es arbitrary: ids w F)
  case (Cons e es)
  obtain d w1 ids1 where run: "FindOneAndUpdate D coll (seedMatch e) (seedSet kind now ids e) (inserting now) w = (Inr d, w1)"
    and rest: "seedLoop D kind coll False now es ids1 w1 = (Inr ids', w')"
    using Cons.prems(2) by (auto split: if_splits prod.splits sum.splits)
  note u = upsert_done [OF Cons.prems(1) run]
  note eff = upsert_effect [OF conjunct2 [OF u]]
  have "\<forall>f \<in> insert e F. seeded (vw w1) coll f \<and> (\<forall>e' \<in> set es. apart f e')"
    using Cons.prems(3,4) eff(2) eff(4) by auto
  from Cons.IH [OF conjunct1 [OF u] rest _ this] Cons.prems(3) show ?case by auto
qed simp

lemma seedLoop_again:
  assumes "good w" and "seedLoop D kind coll dryRun now es ids w = (r, w')" and "sorted_wrt apart es"
    and "set es \<subseteq> F" and "\<forall>f \<in> F. seeded (vw w) coll f" and "\<forall>f \<in> F. \<forall>g \<in> F. f = g \<or> apart f g"
  shows "sameDocs (vw w) (vw w') \<and> (\<forall>f \<in> F. seeded (vw w') coll f)"
  using assms
proof (induction es arbitrary: ids w)
  case (Cons e es)
  show ?case
  proof (cases "SeedEntry.Code e = [] \<or> SeedEntry.Name e = []")
    case True
    then show ?thesis using Cons.prems by (auto simp: sameDocs_def)
  next
    case False
    show ?thesis
    proof (cases dryRun)
      case True
      then show ?thesis using Cons False by simp
    next
      case real: False
      obtain x w1 where run: "FindOneAndUpdate D coll (seedMatch e) (seedSet kind now ids e) (inserting now) w = (x, w1)"
        by force
      show ?thesis
      proof (cases x)
        case (Inl err)
        then show ?thesis using Cons.prems False real run upsert_fails [OF Cons.prems(1) run [unfolded Inl]]
          by (auto simp: sameDocs_def)
      next
        case (Inr d)
        note u = upsert_done [OF Cons.prems(1) run [unfolded Inr]]
        note eff = upsert_effect [OF conjunct2 [OF u]]
        obtain ids' where rest: "seedLoop D kind coll dryRun now es ids' w1 = (r, w')"
          using Cons.prems(2) False real run Inr by auto
        have "seeded (vw w1) coll f" if "f \<in> F" for f
        proof (cases "f = e")
          case False
          then have "apart f e" using Cons.prems(4,6) that by auto
          then show ?thesis using Cons.prems(5) that by (intro eff(4)) auto
        qed (use eff(2) in simp)
        then have "\<forall>f \<in> F. seeded (vw w1) coll f" by blast
        from Cons.IH [OF conjunct1 [OF u] rest _ _ this Cons.prems(6)] Cons.prems(3,4)
        have "sameDocs (vw w1) (vw w') \<and> (\<forall>f \<in> F. seeded (vw w') coll f)" by auto
        moreover have "sameDocs (vw w) (vw w1)" using Cons.prems(4,5) by (intro eff(5)) auto
        ultimately show ?thesis by (auto simp: sameDocs_def)
      qed
    qed
  qed
qed (simp add: sameDocs_def)

end

section \<open>What a run does\<close>

definition tidy :: "SeedFile \<Rightarrow> bool" where
  "tidy file \<longleftrightarrow> distinct (map fst file) \<and> (\<forall>(kind, rows) \<in> set file. sorted_wrt apart rows)"

definition loaded :: "CatalogLists \<Rightarrow> SeedFile \<Rightarrow> string set \<Rightarrow> bool" where
  "loaded v file kinds \<longleftrightarrow> (\<forall>kind \<in> kinds. \<forall>rows coll e. map_of file kind = Some rows \<longrightarrow>
     map_of seedCollections kind = Some coll \<longrightarrow> e \<in> set rows \<longrightarrow> seeded v coll e)"

lemma seedCollections_inj:
  assumes "map_of seedCollections k = Some c" and "map_of seedCollections k' = Some c"
  shows "k = k'"
proof -
  have "distinct (map snd seedCollections)" by code_simp
  then have "inj_on snd (set seedCollections)" by (simp add: distinct_map)
  then show ?thesis using inj_onD map_of_SomeD [OF assms(1)] map_of_SomeD [OF assms(2)] by fastforce
qed

lemma tidy_rows: "tidy file \<Longrightarrow> map_of file kind = Some rows \<Longrightarrow> sorted_wrt apart rows"
  by (auto simp: tidy_def dest: map_of_SomeD)

lemma apart_sym: "apart e f \<Longrightarrow> apart f e"
  by (auto simp: apart_def)

lemma sorted_apart: "sorted_wrt apart rows \<Longrightarrow> \<forall>e \<in> set rows. \<forall>f \<in> set rows. e = f \<or> apart e f"
  by (induction rows) (auto dest: apart_sym)

lemma kindOrder_kinds: "distinct (map fst file) \<Longrightarrow> distinct (kindOrder file) \<and> fst ` set file \<subseteq> set (kindOrder file)"
  by (auto simp: kindOrder_def)

lemma kindsLoop_dry: "kindsLoop D file True now kinds ids w = (r, w') \<Longrightarrow> w' = w"
  by (induction kinds arbitrary: ids) (auto split: option.splits prod.splits sum.splits dest!: seedLoop_dry)

context seed_store
begin

lemma kindsLoop_keeps:
  assumes "good w" and "kindsLoop D file dryRun now kinds ids w = (r, w')"
  shows "good w' \<and> companiesKept (vw w) (vw w')"
  using assms
proof (induction kinds arbitrary: ids w)
  case (Cons kind kinds)
  show ?case
  proof (cases "map_of file kind = None \<or> map_of seedCollections kind = None")
    case True
    then show ?thesis using Cons by (auto split: option.splits)
  next
    case False
    then obtain rows coll where k: "map_of file kind = Some rows" "map_of seedCollections kind = Some coll" by auto
    obtain x w1 where run: "seedLoop D kind coll dryRun now rows ids w = (x, w1)" by force
    note s = seedLoop_keeps [OF Cons.prems(1) run]
    show ?thesis
    proof (cases x)
      case (Inl err)
      then show ?thesis using Cons.prems(2) k run s by simp
    next
      case (Inr ids1)
      then have "kindsLoop D file dryRun now kinds ids1 w1 = (r, w')" using Cons.prems(2) k run by simp
      from Cons.IH [OF _ this] s show ?thesis using companiesKept_trans by blast
    qed
  qed
qed (simp add: companiesKept_refl)

lemma kindsLoop_loads:
  assumes "good w" and "kindsLoop D file False now kinds ids w = (Inr (), w')" and "tidy file" and "distinct kinds"
    and "loaded (vw w) file K" and "K \<inter> set kinds = {}"
  shows "loaded (vw w') file (K \<union> set kinds)"
  using assms
proof (induction kinds arbitrary: ids w K)
  case (Cons kind kinds)
  have more: "loaded (vw w') file (insert kind K \<union> set kinds)"
    if "good w1" "kindsLoop D file False now kinds ids1 w1 = (Inr (), w')" "loaded (vw w1) file (insert kind K)" for w1 ids1
    by (rule Cons.IH [OF that(1,2) Cons.prems(3) _ that(3)]) (use Cons.prems(4,6) in auto)
  show ?case
  proof (cases "map_of file kind = None \<or> map_of seedCollections kind = None")
    case True
    then have "kindsLoop D file False now kinds ids w = (Inr (), w')" using Cons.prems(2) by (auto split: option.splits)
    moreover have "loaded (vw w) file (insert kind K)" using True Cons.prems(5) by (auto simp: loaded_def)
    ultimately show ?thesis using more [OF Cons.prems(1)] by simp
  next
    case False
    then obtain rows coll where k: "map_of file kind = Some rows" "map_of seedCollections kind = Some coll" by auto
    obtain ids1 w1 where run: "seedLoop D kind coll False now rows ids w = (Inr ids1, w1)"
      and rest: "kindsLoop D file False now kinds ids1 w1 = (Inr (), w')"
      using Cons.prems(2) k by (auto split: prod.splits sum.splits)
    note keeps = seedLoop_keeps [OF Cons.prems(1) run]
    have "\<forall>e \<in> {} \<union> set rows. seeded (vw w1) coll e"
      by (rule seedLoop_seeds [OF Cons.prems(1) run tidy_rows [OF Cons.prems(3) k(1)]]) simp
    moreover have "seeded (vw w1) c e" if "k' \<in> K" "map_of file k' = Some rs" "map_of seedCollections k' = Some c" "e \<in> set rs"
      for k' rs c e
    proof -
      have "c \<noteq> coll" using seedCollections_inj [OF that(3)] k(2) that(1) Cons.prems(6) by auto
      moreover have "seeded (vw w) c e" using Cons.prems(5) that unfolding loaded_def by blast
      ultimately show ?thesis using keeps by (simp add: seeded_def)
    qed
    ultimately have "loaded (vw w1) file (insert kind K)" using k by (auto simp: loaded_def)
    from more [OF _ rest this] keeps show ?thesis by simp
  qed
qed simp

lemma kindsLoop_again:
  assumes "good w" and "kindsLoop D file dryRun now kinds ids w = (r, w')" and "tidy file"
    and "loaded (vw w) file K" and "set kinds \<subseteq> K"
  shows "sameDocs (vw w) (vw w') \<and> loaded (vw w') file K"
  using assms
proof (induction kinds arbitrary: ids w)
  case (Cons kind kinds)
  show ?case
  proof (cases "map_of file kind = None \<or> map_of seedCollections kind = None")
    case True
    then have "kindsLoop D file dryRun now kinds ids w = (r, w')" using Cons.prems(2) by (auto split: option.splits)
    from Cons.IH [OF Cons.prems(1) this Cons.prems(3,4)] Cons.prems(5) show ?thesis by simp
  next
    case False
    then obtain rows coll where k: "map_of file kind = Some rows" "map_of seedCollections kind = Some coll" by auto
    obtain x w1 where run: "seedLoop D kind coll dryRun now rows ids w = (x, w1)" by force
    note srt = tidy_rows [OF Cons.prems(3) k(1)]
    note keeps = seedLoop_keeps [OF Cons.prems(1) run]
    have "\<forall>f \<in> set rows. seeded (vw w) coll f" using Cons.prems(4,5) k by (auto simp: loaded_def)
    from seedLoop_again [OF Cons.prems(1) run srt order_refl this sorted_apart [OF srt]]
    have a: "sameDocs (vw w) (vw w1)" "\<forall>f \<in> set rows. seeded (vw w1) coll f" by blast+
    have "seeded (vw w1) c e" if "k' \<in> K" "map_of file k' = Some rs" "map_of seedCollections k' = Some c" "e \<in> set rs"
      for k' rs c e
    proof (cases "c = coll")
      case True
      then have "k' = kind" using seedCollections_inj that(3) k(2) by blast
      then show ?thesis using a(2) that k True by simp
    next
      case False
      moreover have "seeded (vw w) c e" using Cons.prems(4) that unfolding loaded_def by blast
      ultimately show ?thesis using keeps by (simp add: seeded_def)
    qed
    then have l: "loaded (vw w1) file K" unfolding loaded_def by blast
    show ?thesis
    proof (cases x)
      case (Inl err)
      then show ?thesis using Cons.prems(2) k run a l by simp
    next
      case (Inr ids1)
      then have "kindsLoop D file dryRun now kinds ids1 w1 = (r, w')" using Cons.prems(2) k run by simp
      from Cons.IH [OF _ this Cons.prems(3) l] Cons.prems(5) keeps a(1) show ?thesis by (auto simp: sameDocs_def)
    qed
  qed
qed (simp add: sameDocs_def)

end

section \<open>An executable database\<close>

record SeedWorld =
  docs :: "string \<Rightarrow> Doc list"
  nextDoc :: ObjectID

definition seedView :: "SeedWorld \<Rightarrow> CatalogLists" where
  "seedView w = (\<lambda>name. toMap DocID (docs w name))"

definition seedGood :: "SeedWorld \<Rightarrow> bool" where
  "seedGood w \<longleftrightarrow> (\<forall>name. distinct (map DocID (docs w name)))"

definition memUpsert :: "string \<Rightarrow> (Doc \<Rightarrow> bool) \<Rightarrow> payload \<Rightarrow> payload \<Rightarrow> (SeedWorld, Doc) io" where
  "memUpsert name p sets inserts w =
     (case List.find p (docs w name) of
        Some d0 \<Rightarrow>
          (let d = setFields sets d0
           in (Inr d, w\<lparr>docs := (docs w)(name := map (\<lambda>x. if DocID x = DocID d0 then d else x) (docs w name))\<rparr>))
      | None \<Rightarrow>
          if nextDoc w \<in> DocID ` set (docs w name) then (Inl (ErrDriver DuplicateKey), w)
          else (let d = setFields (inserts @ sets) \<lparr>DocID = nextDoc w, Fields = []\<rparr>
                in (Inr d, w\<lparr>docs := (docs w)(name := docs w name @ [d]), nextDoc := nextDoc w + 1\<rparr>)))"

definition seedDB :: "SeedWorld SeedDB" where
  "seedDB = \<lparr>FindOneAndUpdate = memUpsert, SeedHex = memHex\<rparr>"

lemma same_option: "(\<And>x. m = Some x \<longleftrightarrow> n = Some x) \<Longrightarrow> m = n"
  by (cases m; cases n) auto

lemma replaced_map:
  assumes "distinct (map DocID l)" and "d0 \<in> set l" and "DocID d = DocID d0"
  shows "toMap DocID (map (\<lambda>x. if DocID x = DocID d0 then d else x) l) = (toMap DocID l)(DocID d0 \<mapsto> d)"
    and "map DocID (map (\<lambda>x. if DocID x = DocID d0 then d else x) l) = map DocID l"
proof -
  show same: "map DocID (map (\<lambda>x. if DocID x = DocID d0 then d else x) l) = map DocID l" using assms(3) by simp
  show "toMap DocID (map (\<lambda>x. if DocID x = DocID d0 then d else x) l) = (toMap DocID l)(DocID d0 \<mapsto> d)"
  proof
    fix i
    have dist: "distinct (map DocID (map (\<lambda>x. if DocID x = DocID d0 then d else x) l))"
      by (simp only: same assms(1))
    show "toMap DocID (map (\<lambda>x. if DocID x = DocID d0 then d else x) l) i = ((toMap DocID l)(DocID d0 \<mapsto> d)) i"
    proof (cases "i = DocID d0")
      case True
      then show ?thesis using toMap_Some [OF dist, of i d] assms(2,3) by force
    next
      case False
      have "toMap DocID (map (\<lambda>x. if DocID x = DocID d0 then d else x) l) i = Some x \<longleftrightarrow> toMap DocID l i = Some x" for x
        using toMap_Some [OF dist, of i x] toMap_Some [OF assms(1), of i x] False assms(3) by auto
      then have "toMap DocID (map (\<lambda>x. if DocID x = DocID d0 then d else x) l) i = toMap DocID l i" by (rule same_option)
      then show ?thesis using False by simp
    qed
  qed
qed

interpretation sdb: seed_store seedDB seedGood seedView
proof
  fix w name p sets inserts e w'
  assume "seedGood w" and "FindOneAndUpdate seedDB name p sets inserts w = (Inl e, w')"
  then show "seedGood w' \<and> seedView w' = seedView w"
    by (auto simp: seedDB_def memUpsert_def Let_def split: option.splits if_splits)
next
  fix w name p sets inserts d w'
  assume g: "seedGood w" and run: "FindOneAndUpdate seedDB name p sets inserts w = (Inr d, w')"
  have dist: "distinct (map DocID (docs w name))" using g by (simp add: seedGood_def)
  show "seedGood w' \<and> upserted name p sets inserts (seedView w) d (seedView w')"
  proof (cases "List.find p (docs w name)")
    case None
    then have no: "\<forall>x \<in> set (docs w name). \<not> p x" by (simp add: find_None_iff)
    with run None have f: "nextDoc w \<notin> DocID ` set (docs w name)"
      "d = setFields (inserts @ sets) \<lparr>DocID = nextDoc w, Fields = []\<rparr>"
      "w' = w\<lparr>docs := (docs w)(name := docs w name @ [d]), nextDoc := nextDoc w + 1\<rparr>"
      by (auto simp: seedDB_def memUpsert_def Let_def split: if_splits)
    then have "DocID d = nextDoc w" by simp
    then have dist': "distinct (map DocID (docs w name @ [d]))" using f(1) dist by auto
    have "toMap DocID (docs w name @ [d]) = (toMap DocID (docs w name))(nextDoc w \<mapsto> d)"
      using toMap_snoc [of DocID d "docs w name"] f(1) \<open>DocID d = nextDoc w\<close> by simp
    then have "seedView w' = (seedView w)(name := (seedView w name)(nextDoc w \<mapsto> d))"
      using f(3) by (auto simp: seedView_def fun_eq_iff)
    moreover have "seedView w name (nextDoc w) = None" using f(1) by (simp add: seedView_def toMap_None)
    moreover have "\<not> p x" if "seedView w name i = Some x" for i x
      using that no toMap_Some [OF dist] by (auto simp: seedView_def)
    moreover have "seedGood w'" using g f(3) dist' by (auto simp: seedGood_def)
    ultimately show ?thesis using f(2) unfolding upserted_def by blast
  next
    case (Some d0)
    then have d0: "p d0" "d0 \<in> set (docs w name)" by (auto simp: find_Some_iff)
    with run Some have f: "d = setFields sets d0"
      "w' = w\<lparr>docs := (docs w)(name := map (\<lambda>x. if DocID x = DocID d0 then d else x) (docs w name))\<rparr>"
      by (auto simp: seedDB_def memUpsert_def Let_def)
    note rep = replaced_map [OF dist d0(2), of d]
    have "seedView w' = (seedView w)(name := (seedView w name)(DocID d0 \<mapsto> d))"
      using f rep(1) by (auto simp: seedView_def fun_eq_iff)
    moreover have "seedView w name (DocID d0) = Some d0" using d0(2) toMap_Some [OF dist] by (simp add: seedView_def)
    moreover have "distinct (map DocID (map (\<lambda>x. if DocID x = DocID d0 then d else x) (docs w name)))"
      unfolding f(1) rep(2) [unfolded f(1), OF DocID_setFields] by (rule dist)
    then have "seedGood w'" using g f(2) by (simp add: seedGood_def del: map_map)
    ultimately show ?thesis using f(1) d0(1) unfolding upserted_def by blast
  qed
qed

text \<open>Room for \<open>m\<close> more documents: every id given out so far lies below the next.\<close>

definition roomy :: "nat \<Rightarrow> SeedWorld \<Rightarrow> bool" where
  "roomy m w \<longleftrightarrow> unat (nextDoc w) + m < 2 ^ 96 \<and> (\<forall>name. \<forall>d \<in> set (docs w name). DocID d < nextDoc w)"

lemma roomy_mono: "roomy m w \<Longrightarrow> k \<le> m \<Longrightarrow> roomy k w"
  by (auto simp: roomy_def)

lemma upsert_succeeds:
  assumes "roomy (Suc m) w"
  shows "\<exists>d w'. FindOneAndUpdate seedDB name p sets inserts w = (Inr d, w') \<and> roomy m w'"
proof (cases "List.find p (docs w name)")
  case None
  have small: "unat (nextDoc w + 1) = unat (nextDoc w) + 1"
    using assms by (simp add: roomy_def unat_word_ariths(1))
  then have up: "i < nextDoc w \<Longrightarrow> i < nextDoc w + 1" "nextDoc w < nextDoc w + 1" for i
    by (simp_all add: word_less_nat_alt)
  have "nextDoc w \<notin> DocID ` set (docs w name)" using assms unfolding roomy_def by (metis imageE less_irrefl)
  then show ?thesis using None assms small up by (auto simp: seedDB_def memUpsert_def Let_def roomy_def)
next
  case (Some d0)
  then have "d0 \<in> set (docs w name)" by (auto simp: find_Some_iff)
  then have "DocID d0 < nextDoc w" using assms by (auto simp: roomy_def)
  then show ?thesis using Some assms by (auto simp: seedDB_def memUpsert_def Let_def roomy_def)
qed

lemma seedLoop_succeeds:
  assumes "roomy (length es + m) w" and "\<forall>e \<in> set es. SeedEntry.Code e \<noteq> [] \<and> SeedEntry.Name e \<noteq> []"
  shows "\<exists>ids' w'. seedLoop seedDB kind coll dryRun now es ids w = (Inr ids', w') \<and> roomy m w'"
  using assms
proof (induction es arbitrary: ids w)
  case (Cons e es)
  show ?case
  proof (cases dryRun)
    case True
    then show ?thesis using Cons roomy_mono [of "length (e # es) + m" w "length es + m"] by simp
  next
    case False
    obtain d w1 where "FindOneAndUpdate seedDB coll (seedMatch e) (seedSet kind now ids e) (inserting now) w = (Inr d, w1)"
      "roomy (length es + m) w1"
      using upsert_succeeds Cons.prems(1) unfolding length_Cons add_Suc by blast
    then show ?thesis using False Cons.prems(2) Cons.IH by simp
  qed
qed simp

definition rowsOf :: "SeedFile \<Rightarrow> string \<Rightarrow> SeedEntry list" where
  "rowsOf file kind = (case map_of file kind of None \<Rightarrow> [] | Some rows \<Rightarrow> rows)"

lemma kindsLoop_succeeds:
  assumes "roomy (sum_list (map (\<lambda>k. length (rowsOf file k)) kinds)) w"
    and "\<forall>k \<in> set kinds. \<forall>e \<in> set (rowsOf file k). SeedEntry.Code e \<noteq> [] \<and> SeedEntry.Name e \<noteq> []"
  shows "fst (kindsLoop seedDB file dryRun now kinds ids w) = Inr ()"
  using assms
proof (induction kinds arbitrary: ids w)
  case (Cons k kinds)
  let ?n = "sum_list (map (\<lambda>k. length (rowsOf file k)) kinds)"
  have less: "roomy ?n w" by (rule roomy_mono [OF Cons.prems(1)]) simp
  show ?case
  proof (cases "map_of file k")
    case (Some rows)
    then have rows: "rowsOf file k = rows" by (simp add: rowsOf_def)
    show ?thesis
    proof (cases "map_of seedCollections k")
      case (Some coll)
      obtain ids' w' where "seedLoop seedDB k coll dryRun now rows ids w = (Inr ids', w')" "roomy ?n w'"
        using seedLoop_succeeds [of rows ?n w k coll dryRun now ids] Cons.prems rows by (simp, blast)
      then show ?thesis using Cons Some \<open>map_of file k = Some rows\<close> by simp
    qed (use Cons less Some in simp)
  qed (use Cons less in simp)
qed simp

lemma complete_file_succeeds:
  assumes "roomy (sum_list (map (\<lambda>k. length (rowsOf file k)) (kindOrder file))) w"
    and "\<forall>k \<in> set (kindOrder file). \<forall>e \<in> set (rowsOf file k). SeedEntry.Code e \<noteq> [] \<and> SeedEntry.Name e \<noteq> []"
  shows "fst (seedRun seedDB (Inr file) now dryRun w) = Inr ()"
  using kindsLoop_succeeds [OF assms] by (simp add: seedRun_def)

section \<open>What seeding guarantees\<close>

lemma seed_kept:
  assumes "seed_store D good vw" and "good w" and "seedRun D input now dryRun w = (r, w')"
  shows "good w' \<and> companiesKept (vw w) (vw w') \<and> (dryRun \<longrightarrow> w' = w)"
proof (cases input)
  case (Inr f)
  then have run: "kindsLoop D f dryRun now (kindOrder f) Map.empty w = (r, w')" using assms(3) by (simp add: seedRun_def)
  then show ?thesis using seed_store.kindsLoop_keeps [OF assms(1,2) run] kindsLoop_dry by (cases dryRun) auto
qed (use assms in \<open>simp add: seedRun_def companiesKept_refl\<close>)

text \<open>Seeding, whether it succeeds or fails, and wherever it fails, leaves every document of a
  company exactly as it was and deletes none; a dry run leaves everything as it was.\<close>

theorem seeding_keeps_companies:
  assumes "seed_store D good vw" and "good w" and "seedRun D input now dryRun w = (r, w')"
  shows "good w' \<and> companiesKept (vw w) (vw w') \<and> (dryRun \<longrightarrow> w' = w)"
  by (rule seed_kept [OF assms])

definition sampleFile :: SeedFile where
  "sampleFile =
     [(''brand'', [\<lparr>SeedEntry.Code = ''HN'', Name = ''Hino'', ParentCode = [], SortOrder = 1, Attributes = Map.empty\<rparr>,
        \<lparr>SeedEntry.Code = ''IS'', Name = ''Isuzu'', ParentCode = [], SortOrder = 2, Attributes = Map.empty\<rparr>]),
      (''kota'', [\<lparr>SeedEntry.Code = ''BKS'', Name = ''Bekasi'', ParentCode = ''JB'', SortOrder = 1, Attributes = Map.empty\<rparr>]),
      (''provinsi'', [\<lparr>SeedEntry.Code = ''JB'', Name = ''Jawa Barat'', ParentCode = [], SortOrder = 1, Attributes = Map.empty\<rparr>])]"

definition seedWorld :: SeedWorld where
  "seedWorld = \<lparr>docs = (\<lambda>name. if name = ''brands'' then
     [\<lparr>DocID = 1, Fields = [(''companyId'', BsonNull), (''nameNormalised'', BsonString (Normalise.Name ''Hino''))]\<rparr>,
      \<lparr>DocID = 2, Fields = [(''companyId'', BsonString ''acme''), (''code'', BsonString ''IS'')]\<rparr>] else []), nextDoc = 9\<rparr>"

lemma seedWorld_good: "seedGood seedWorld"
  by (simp add: seedGood_def seedWorld_def)

lemma seeding_keeps_companies_witness:
  "companiesKept (seedView seedWorld) (seedView (snd (seedRun seedDB (Inr sampleFile) 5 False seedWorld)))"
  using seeding_keeps_companies [OF sdb.seed_store_axioms seedWorld_good, of "Inr sampleFile" 5 False] prod.collapse by metis


lemma sampleFile_tidy: "tidy sampleFile"
proof -
  have "Normalise.Name ''Hino'' \<noteq> Normalise.Name ''Isuzu''" by code_simp
  then show ?thesis by (simp add: tidy_def sampleFile_def apart_def)
qed

lemma sample_seeded: "fst (seedRun seedDB (Inr sampleFile) 5 False seedWorld) = Inr ()"
  by (rule complete_file_succeeds) (simp_all add: roomy_def seedWorld_def sampleFile_def rowsOf_def kindOrder_def)




end
