(* ===== verification/RedisCache.thy ===== *)
theory RedisCache
  imports Cache Scanning Startup
begin

text \<open>
  The cache over Redis, \<^verbatim>\<open>internal/platform/cache/redis.go\<close>, \<^verbatim>\<open>config.go\<close>,
  \<^verbatim>\<open>tls.go\<close> and the counters of \<^verbatim>\<open>noop.go\<close>. The go-redis client is a
  parameter, a record of the commands used with what they answer; every operation here carries on after a
  command that failed. The five seconds an invalidation may take are a number of rounds: when they are
  spent the next scan fails.
\<close>

section \<open>The client\<close>

datatype redis_error = RedisNil | RedisFailed

record ('w, 'b) RedisClient =
  ClientGet :: "string \<Rightarrow> 'w \<Rightarrow> (redis_error + 'b) \<times> 'w"
  ClientSet :: "string \<Rightarrow> 'b \<Rightarrow> int \<Rightarrow> 'w \<Rightarrow> bool \<times> 'w"
  ClientDel :: "string list \<Rightarrow> 'w \<Rightarrow> bool \<times> 'w"
  ClientScan :: "nat \<Rightarrow> string \<Rightarrow> nat \<Rightarrow> 'w \<Rightarrow> (string list \<times> nat) option \<times> 'w"
  ClientIncrExpireNX :: "string \<Rightarrow> int \<Rightarrow> 'w \<Rightarrow> int option \<times> 'w"
  ClientSetNX :: "string \<Rightarrow> 'b \<Rightarrow> int \<Rightarrow> 'w \<Rightarrow> bool option \<times> 'w"
  ClientPublish :: "string \<Rightarrow> 'b \<Rightarrow> 'w \<Rightarrow> bool \<times> 'w"
  ClientPing :: "'w \<Rightarrow> bool \<times> 'w"

datatype cache_error = ErrNoCache | ErrIncrement string | ErrSetIfAbsent string | ErrPing

section \<open>The operations\<close>

definition redisGet :: "('w, 'b) RedisClient \<Rightarrow> string \<Rightarrow> 'w \<Rightarrow> 'b option \<times> 'w" where
  "redisGet R k w = (case ClientGet R k w of (Inr raw, w') \<Rightarrow> (Some raw, w') | (Inl err, w') \<Rightarrow> (None, w'))"

definition redisSet :: "('w, 'b) RedisClient \<Rightarrow> string \<Rightarrow> 'b \<Rightarrow> int \<Rightarrow> 'w \<Rightarrow> unit \<times> 'w" where
  "redisSet R k b ttl w = ((), snd (ClientSet R k b ttl w))"

definition redisDelete :: "('w, 'b) RedisClient \<Rightarrow> string list \<Rightarrow> 'w \<Rightarrow> unit \<times> 'w" where
  "redisDelete R ks w = ((), if ks = [] then w else snd (ClientDel R ks w))"

fun sweepLoop :: "('w, 'b) RedisClient \<Rightarrow> nat \<Rightarrow> nat \<Rightarrow> string \<Rightarrow> 'w \<Rightarrow> 'w" where
  "sweepLoop R 0 cursor pattern w = w"
| "sweepLoop R (Suc rounds) cursor pattern w =
     (case ClientScan R cursor pattern 200 w of
        (None, w1) \<Rightarrow> w1
      | (Some (ks, cursor'), w1) \<Rightarrow>
          (case if ks = [] then (True, w1) else ClientDel R ks w1 of
             (False, w2) \<Rightarrow> w2
           | (True, w2) \<Rightarrow> if cursor' = 0 then w2 else sweepLoop R rounds cursor' pattern w2))"

definition redisDeleteByPrefix :: "('w, 'b) RedisClient \<Rightarrow> nat \<Rightarrow> string \<Rightarrow> 'w \<Rightarrow> unit \<times> 'w" where
  "redisDeleteByPrefix R rounds prefix w = ((), sweepLoop R rounds 0 (prefix @ ''*'') w)"

definition redisIncrement :: "('w, 'b) RedisClient \<Rightarrow> string \<Rightarrow> int \<Rightarrow> 'w \<Rightarrow> (cache_error + int) \<times> 'w" where
  "redisIncrement R k ttl w =
     (case ClientIncrExpireNX R k ttl w of
        (None, w') \<Rightarrow> (Inl (ErrIncrement k), w') | (Some n, w') \<Rightarrow> (Inr n, w'))"

definition redisSetIfAbsent :: "('w, 'b) RedisClient \<Rightarrow> string \<Rightarrow> 'b \<Rightarrow> int \<Rightarrow> 'w \<Rightarrow> (cache_error + bool) \<times> 'w" where
  "redisSetIfAbsent R k b ttl w =
     (case ClientSetNX R k b ttl w of
        (None, w') \<Rightarrow> (Inl (ErrSetIfAbsent k), w') | (Some won, w') \<Rightarrow> (Inr won, w'))"

definition redisPublish :: "('w, 'b) RedisClient \<Rightarrow> string \<Rightarrow> 'b \<Rightarrow> 'w \<Rightarrow> unit \<times> 'w" where
  "redisPublish R channel payload w = ((), snd (ClientPublish R channel payload w))"

definition redisPing :: "('w, 'b) RedisClient \<Rightarrow> 'w \<Rightarrow> (cache_error + unit) \<times> 'w" where
  "redisPing R w = (case ClientPing R w of (True, w') \<Rightarrow> (Inr (), w') | (False, w') \<Rightarrow> (Inl ErrPing, w'))"

definition noopIncrement :: "string \<Rightarrow> int \<Rightarrow> 'w \<Rightarrow> (cache_error + int) \<times> 'w" where
  "noopIncrement k ttl w = (Inl ErrNoCache, w)"

definition noopSetIfAbsent :: "string \<Rightarrow> 'b \<Rightarrow> int \<Rightarrow> 'w \<Rightarrow> (cache_error + bool) \<times> 'w" where
  "noopSetIfAbsent k b ttl w = (Inl ErrNoCache, w)"

definition redisCache :: "('w, 'b) RedisClient \<Rightarrow> nat \<Rightarrow> ('w, 'b) Cache" where
  "redisCache R rounds = \<lparr>CacheGet = redisGet R, CacheSet = redisSet R, CacheDelete = redisDelete R,
     DeleteByPrefix = redisDeleteByPrefix R rounds\<rparr>"

section \<open>Choosing a cache\<close>

record RedisConfig =
  Addr :: string
  Password :: string
  DB :: int
  Timeout :: int
  PoolSize :: int
  MinIdleConns :: int
  TLS :: bool

record RedisOptions =
  OptAddr :: string
  OptPassword :: string
  OptDB :: int
  DialTimeout :: int
  ReadTimeout :: int
  WriteTimeout :: int
  OptPoolSize :: int
  OptMinIdleConns :: int
  MaxRetries :: int
  TLSServerName :: "string option"

text \<open>The last colon, unless it is the first character.\<close>

definition defaultTLSConfig :: "string \<Rightarrow> string" where
  "defaultTLSConfig addr =
     (let host = rev (tl (dropWhile (\<lambda>c. c \<noteq> CHR '':'') (rev addr)))
      in if CHR '':'' \<in> set addr \<and> host \<noteq> [] then host else addr)"

text \<open>\<open>connect\<close> makes the client and pings the server: \<open>None\<close> when the ping fails.\<close>

definition NewRedis :: "(RedisOptions \<Rightarrow> 'c option) \<Rightarrow> RedisConfig \<Rightarrow> 'c option" where
  "NewRedis connect cfg =
     (if Addr cfg = [] then None
      else (let timeout = (if Timeout cfg \<le> 0 then 200000000 else Timeout cfg);
                poolSize = (if PoolSize cfg \<le> 0 then 20 else PoolSize cfg)
            in connect \<lparr>OptAddr = Addr cfg, OptPassword = Password cfg, OptDB = DB cfg,
                 DialTimeout = 2000000000, ReadTimeout = timeout, WriteTimeout = timeout,
                 OptPoolSize = poolSize, OptMinIdleConns = MinIdleConns cfg, MaxRetries = 1,
                 TLSServerName = (if TLS cfg then Some (defaultTLSConfig (Addr cfg)) else None)\<rparr>))"

definition intOr :: "Env \<Rightarrow> string \<Rightarrow> int \<Rightarrow> int" where
  "intOr vars name fallback =
     (case vars name of
        None \<Rightarrow> fallback
      | Some v \<Rightarrow> (case Atoi v of (n, True) \<Rightarrow> n | (_, False) \<Rightarrow> fallback))"

definition CacheFromEnv :: "(RedisOptions \<Rightarrow> ('w, 'b) RedisClient option) \<Rightarrow> nat \<Rightarrow> Env \<Rightarrow> ('w, 'b) Cache" where
  "CacheFromEnv connect rounds vars =
     (let addr = Getenv vars ''REDIS_ADDR''
      in if addr = [] then noop
         else (case NewRedis connect
                 \<lparr>Addr = addr, Password = Getenv vars ''REDIS_PASSWORD'', DB = intOr vars ''REDIS_DB'' 0,
                  Timeout = durationOr vars ''REDIS_TIMEOUT'' 200000000, PoolSize = intOr vars ''REDIS_POOL_SIZE'' 20,
                  MinIdleConns = intOr vars ''REDIS_MIN_IDLE_CONNS'' 2,
                  TLS = (Getenv vars ''REDIS_TLS'' = ''true'')\<rparr> of
                 None \<Rightarrow> noop
               | Some client \<Rightarrow> redisCache client rounds))"

lemma tls_samples:
  "map defaultTLSConfig [''cache.aws:6379'', ''cache.aws'', '':6379'', ''a:b:1''] = [''cache.aws'', ''cache.aws'', '':6379'', ''a:b'']"
  by code_simp

section \<open>The server\<close>

text \<open>Characters that stand for themselves in a pattern.\<close>

definition plainChar :: "char \<Rightarrow> bool" where
  "plainChar c \<longleftrightarrow> c \<notin> {CHR ''*'', CHR ''?'', CHR ''['', CHR 0x5C}"

text \<open>
  What the client promises of the entries \<open>held\<close>: a command answers what is there; one that
  fails may have happened, in part or not at all; while the server is \<open>up\<close> a scan and a
  removal do not fail.
\<close>

locale redis_server =
  fixes R :: "('w, 'b) RedisClient"
    and good :: "'w \<Rightarrow> bool" and held :: "'w \<Rightarrow> string \<rightharpoonup> 'b" and up :: "'w \<Rightarrow> bool"
    and ahead :: "'w \<Rightarrow> nat \<Rightarrow> string set" and rank :: "'w \<Rightarrow> nat \<Rightarrow> nat"
    and glob :: "string \<Rightarrow> string \<Rightarrow> bool"
  assumes scans: "scanning (\<lambda>c. ClientScan R c pattern 200) good up (\<lambda>w. {k \<in> dom (held w). glob pattern k}) ahead rank"
    and scan_holds: "good w \<Longrightarrow> ClientScan R c pattern 200 w = (rs, w') \<Longrightarrow> held w' = held w"
    and del: "good w \<Longrightarrow> ClientDel R ks w = (done', w') \<Longrightarrow>
      good w' \<and> ahead w' = ahead w \<and> rank w' = rank w \<and> (up w \<longrightarrow> done' \<and> up w') \<and>
      (\<exists>gone \<subseteq> set ks. held w' = held w |` (- gone) \<and> (done' \<longrightarrow> gone = set ks))"
    and get: "good w \<Longrightarrow> ClientGet R k w = (rg, w') \<Longrightarrow>
      good w' \<and> held w' = held w \<and> (\<forall>b. rg = Inr b \<longrightarrow> held w k = Some b)"
    and setk: "good w \<Longrightarrow> ClientSet R k b ttl w = (stored', w') \<Longrightarrow>
      good w' \<and> (held w' = held w \<and> \<not> stored' \<or> held w' = (held w)(k \<mapsto> b))"
    and glob_prefix: "list_all plainChar p \<Longrightarrow> glob (p @ ''*'') k \<longleftrightarrow> HasPrefix k p"
begin

text \<open>However a sweep ends, it only removes, and only what the pattern names.\<close>

lemma sweep_removes:
  "good w \<Longrightarrow> good (sweepLoop R rounds c pattern w) \<and>
     (\<exists>gone \<subseteq> {k. glob pattern k}. held (sweepLoop R rounds c pattern w) = held w |` (- gone))"
proof (induction rounds arbitrary: c w)
  case 0
  then show ?case by (auto intro!: exI [of _ "{}"])
next
  case (Suc rounds)
  obtain r w1 where s: "ClientScan R c pattern 200 w = (r, w1)" by force
  have w1: "good w1" "held w1 = held w"
    using scanning.scan_reads [OF scans Suc.prems s] scan_holds [OF Suc.prems s] by auto
  show ?case
  proof (cases r)
    case None
    then show ?thesis using s w1 by (auto intro!: exI [of _ "{}"])
  next
    case (Some a)
    then obtain ks n where a: "r = Some (ks, n)" by (cases a) auto
    have ks: "set ks \<subseteq> {k. glob pattern k}" using scanning.scan_page [OF scans Suc.prems s [unfolded a]] by auto
    obtain b w2 where d: "(if ks = [] then (True, w1) else ClientDel R ks w1) = (b, w2)" by force
    obtain gone where g: "good w2" "gone \<subseteq> set ks" "held w2 = held w |` (- gone)"
      using del [OF w1(1), of ks b w2] d w1 that [of "{}"] by (cases "ks = []") (auto simp: restrict_map_def)
    show ?thesis
    proof (cases "b \<and> n \<noteq> 0")
      case True
      then have run: "sweepLoop R (Suc rounds) c pattern w = sweepLoop R rounds n pattern w2" using s a d by simp
      from Suc.IH [OF g(1), of n] obtain gone' where
        "good (sweepLoop R rounds n pattern w2)" "gone' \<subseteq> {k. glob pattern k}"
        "held (sweepLoop R rounds n pattern w2) = held w2 |` (- gone')" by blast
      then show ?thesis unfolding run using g ks by (intro conjI exI [of _ "gone \<union> gone'"]) (auto simp: Compl_Un)
    next
      case False
      then have "sweepLoop R (Suc rounds) c pattern w = w2" using s a d by (cases b) auto
      then show ?thesis using g ks by auto
    qed
  qed
qed

text \<open>With the server up and rounds enough, nothing the pattern names is left.\<close>

lemma sweep_completes:
  "good w \<Longrightarrow> up w \<Longrightarrow> rank w c < rounds \<Longrightarrow> glob pattern k \<Longrightarrow> k \<in> ahead w c \<Longrightarrow>
     held (sweepLoop R rounds c pattern w) k = None"
proof (induction rounds arbitrary: c w)
  case (Suc rounds)
  obtain r w1 where s: "ClientScan R c pattern 200 w = (r, w1)" by force
  have w1: "good w1" "held w1 = held w" "ahead w1 = ahead w" "rank w1 = rank w" "up w1" "r \<noteq> None"
    using scanning.scan_reads [OF scans Suc.prems(1) s] scan_holds [OF Suc.prems(1) s]
      scanning.scan_up [OF scans Suc.prems(1,2) s] by auto
  then obtain ks n where a: "r = Some (ks, n)" by auto
  note page = scanning.scan_page [OF scans Suc.prems(1) s [unfolded a]]
  obtain b w2 where d: "(if ks = [] then (True, w1) else ClientDel R ks w1) = (b, w2)" by force
  have w2: "good w2" "up w2" "b" "ahead w2 = ahead w" "rank w2 = rank w" "held w2 = held w |` (- set ks)"
    using del [OF w1(1), of ks b w2] d w1 by (cases "ks = []"; auto)+
  show ?case
  proof (cases "n = 0")
    case True
    then have "held w k = None \<or> k \<in> set ks" using page Suc.prems(4,5) by auto
    then show ?thesis using s a d w2(3,6) True by (auto simp: restrict_map_def)
  next
    case False
    then have run: "sweepLoop R (Suc rounds) c pattern w = sweepLoop R rounds n pattern w2" using s a d w2(3) by simp
    have "held w k = None \<or> k \<in> set ks \<or> k \<in> ahead w n" using page Suc.prems(4,5) False by auto
    then consider "held w2 k = None" | "k \<in> ahead w2 n" unfolding w2(4,6) by (auto simp: restrict_map_def)
    then show ?thesis
    proof cases
      case 1
      then show ?thesis unfolding run using sweep_removes [OF w2(1), of rounds n pattern] by (auto simp: restrict_map_def)
    next
      case 2
      moreover have "rank w2 n < rounds" using page False Suc.prems(3) w2(5) by auto
      ultimately show ?thesis unfolding run using Suc.IH [OF w2(1,2)] Suc.prems(4) by blast
    qed
  qed
qed simp

end

section \<open>An executable server\<close>

text \<open>
  Slots that keep their place when their key is removed, scanned in pages. It reads a pattern as
  literal but for a star at the end.
\<close>

record KeySpace =
  slots :: "(string \<times> string option) list"
  reachable :: bool

definition slotGlob :: "string \<Rightarrow> string \<Rightarrow> bool" where
  "slotGlob pattern k \<longleftrightarrow>
     (if pattern \<noteq> [] \<and> last pattern = CHR ''*'' then HasPrefix k (butlast pattern) else k = pattern)"

definition slotHeld :: "KeySpace \<Rightarrow> string \<rightharpoonup> string" where
  "slotHeld w k = Option.bind (map_of (slots w) k) id"

definition slotGood :: "KeySpace \<Rightarrow> bool" where
  "slotGood w \<longleftrightarrow> distinct (map fst (slots w))"

definition slotAhead :: "KeySpace \<Rightarrow> nat \<Rightarrow> string set" where
  "slotAhead w c = - set (take c (map fst (slots w)))"

definition slotRank :: "KeySpace \<Rightarrow> nat \<Rightarrow> nat" where
  "slotRank w c = length (slots w) - c"

definition slotScan :: "nat \<Rightarrow> string \<Rightarrow> nat \<Rightarrow> KeySpace \<Rightarrow> (string list \<times> nat) option \<times> KeySpace" where
  "slotScan c pattern n w =
     (if \<not> reachable w then None
      else Some (map fst (filter (\<lambda>(k, b). b \<noteq> None \<and> slotGlob pattern k) (take n (drop c (slots w)))),
                 if c + n < length (slots w) then c + n else 0), w)"

definition slotDel :: "string list \<Rightarrow> KeySpace \<Rightarrow> bool \<times> KeySpace" where
  "slotDel ks w =
     (if reachable w then (True, w\<lparr>slots := map (\<lambda>(k, b). (k, if k \<in> set ks then None else b)) (slots w)\<rparr>) else (False, w))"

definition slotClient :: "(KeySpace, string) RedisClient" where
  "slotClient = \<lparr>
     ClientGet = (\<lambda>k w. (if \<not> reachable w then Inl RedisFailed
        else case slotHeld w k of None \<Rightarrow> Inl RedisNil | Some b \<Rightarrow> Inr b, w)),
     ClientSet = (\<lambda>k b ttl w. if reachable w then (True, w\<lparr>slots := AList.update k (Some b) (slots w)\<rparr>) else (False, w)),
     ClientDel = slotDel,
     ClientScan = slotScan,
     ClientIncrExpireNX = (\<lambda>k ttl w. (None, w)),
     ClientSetNX = (\<lambda>k b ttl w. if \<not> reachable w then (None, w)
        else if slotHeld w k \<noteq> None then (Some False, w)
        else (Some True, w\<lparr>slots := AList.update k (Some b) (slots w)\<rparr>)),
     ClientPublish = (\<lambda>ch b w. (reachable w, w)),
     ClientPing = (\<lambda>w. (reachable w, w))\<rparr>"

lemma slotHeld_Some: "slotGood w \<Longrightarrow> slotHeld w k = Some b \<longleftrightarrow> (k, Some b) \<in> set (slots w)"
  by (auto simp: slotHeld_def slotGood_def bind_eq_Some_conv)

lemma slot_page:
  assumes g: "slotGood w" and k: "slotHeld w k = Some b" "k \<in> slotAhead w c"
  shows "(k, Some b) \<in> set (take n (drop c (slots w))) \<or> c + n < length (slots w) \<and> k \<in> slotAhead w (c + n)"
proof -
  have s: "slots w = take c (slots w) @ take n (drop c (slots w)) @ drop (c + n) (slots w)"
    by (metis append_take_drop_id drop_drop add.commute)
  have mem: "(k, Some b) \<in> set (slots w)" using slotHeld_Some [OF g] k(1) by blast
  have "(k, Some b) \<notin> set (take c (slots w))" using k(2) by (force simp: slotAhead_def take_map)
  with mem s have "(k, Some b) \<in> set (take n (drop c (slots w))) \<or> (k, Some b) \<in> set (drop (c + n) (slots w))"
    by (metis Un_iff set_append)
  moreover have "c + n < length (slots w) \<and> k \<in> slotAhead w (c + n)" if d: "(k, Some b) \<in> set (drop (c + n) (slots w))"
  proof -
    have "c + n < length (slots w)" using d by (metis drop_all empty_iff empty_set not_le)
    moreover have "set (take (c + n) (map fst (slots w))) \<inter> set (drop (c + n) (map fst (slots w))) = {}"
      using g unfolding slotGood_def by (metis append_take_drop_id distinct_append)
    moreover have "k \<in> set (drop (c + n) (map fst (slots w)))" using d by (force simp: drop_map)
    ultimately show ?thesis by (auto simp: slotAhead_def)
  qed
  ultimately show ?thesis by blast
qed

interpretation slot: redis_server slotClient slotGood slotHeld reachable slotAhead slotRank slotGlob
proof (rule redis_server.intro)
  fix pattern
  show "scanning (\<lambda>c. ClientScan slotClient c pattern 200) slotGood reachable
      (\<lambda>w. {k \<in> dom (slotHeld w). slotGlob pattern k}) slotAhead slotRank"
  proof
    fix w c ks n w'
    assume g: "slotGood w" and s: "ClientScan slotClient c pattern 200 w = (Some (ks, n), w')"
    then have ks: "ks = map fst (filter (\<lambda>(k, b). b \<noteq> None \<and> slotGlob pattern k) (take 200 (drop c (slots w))))"
      and n: "n = (if c + 200 < length (slots w) then c + 200 else 0)"
      by (auto simp: slotClient_def slotScan_def split: if_splits)
    have "k \<in> dom (slotHeld w) \<and> slotGlob pattern k" if q: "k \<in> set ks" for k
    proof -
      obtain b where "(k, Some b) \<in> set (take 200 (drop c (slots w)))" "slotGlob pattern k" using q unfolding ks by force
      then have "(k, Some b) \<in> set (slots w)" by (blast dest: in_set_takeD in_set_dropD)
      then show ?thesis using slotHeld_Some [OF g] \<open>slotGlob pattern k\<close> by blast
    qed
    moreover have "k \<in> set ks \<union> (if n = 0 then {} else slotAhead w n)"
      if k: "k \<in> dom (slotHeld w)" "slotGlob pattern k" "k \<in> slotAhead w c" for k
    proof -
      obtain b where b: "slotHeld w k = Some b" using k(1) by blast
      from slot_page [OF g b k(3), of 200] k(2) show ?thesis unfolding ks n by (force simp: image_iff)
    qed
    moreover have "n \<noteq> 0 \<longrightarrow> slotRank w n < slotRank w c" by (auto simp: n slotRank_def)
    ultimately show "set ks \<subseteq> {k \<in> dom (slotHeld w). slotGlob pattern k} \<and>
        {k \<in> dom (slotHeld w). slotGlob pattern k} \<inter> slotAhead w c \<subseteq> set ks \<union> (if n = 0 then {} else slotAhead w n) \<and>
        (n \<noteq> 0 \<longrightarrow> slotRank w n < slotRank w c)" by blast
  qed (auto simp: slotAhead_def slotClient_def slotScan_def)
next
  fix w ks done' w' assume "slotGood w" "ClientDel slotClient ks w = (done', w')"
  moreover have "map fst (map (\<lambda>(k, b). (k, if k \<in> set ks then None else b)) l) = map fst l"
    for l :: "(string \<times> string option) list" by auto
  moreover have "Option.bind (map_of (map (\<lambda>(k, b). (k, if k \<in> set ks then None else b)) l) k) id =
      ((\<lambda>k. Option.bind (map_of l k) id) |` (- set ks)) k" for l :: "(string \<times> string option) list" and k
    by (induction l) (auto simp: restrict_map_def)
  ultimately show "slotGood w' \<and> slotAhead w' = slotAhead w \<and> slotRank w' = slotRank w \<and>
      (reachable w \<longrightarrow> done' \<and> reachable w') \<and>
      (\<exists>gone \<subseteq> set ks. slotHeld w' = slotHeld w |` (- gone) \<and> (done' \<longrightarrow> gone = set ks))"
    by (cases "reachable w")
      (auto simp: slotClient_def slotDel_def slotGood_def slotAhead_def slotRank_def slotHeld_def restrict_map_def fun_eq_iff simp del: map_map
        intro!: exI [of _ "{}"])
next
  fix p k assume "list_all plainChar p"
  then show "slotGlob (p @ ''*'') k \<longleftrightarrow> HasPrefix k p" by (simp add: slotGlob_def)
qed (auto simp: slotClient_def slotScan_def slotHeld_def slotGood_def distinct_update update_conv' fun_eq_iff
  split: if_splits option.splits)

section \<open>What the cache promises\<close>

lemma Join_set: "set (Join xs sep) \<subseteq> set (concat xs) \<union> set sep"
  by (induction xs sep rule: Join.induct) auto

lemma Prefix_plain: "list_all plainChar (concat ps) \<Longrightarrow> list_all plainChar (Cache.Prefix ps)"
proof -
  assume p: "list_all plainChar (concat ps)"
  have h: "list_all plainChar (Namespace @ SchemaVersion @ ''_:'')" by code_simp
  have "set (cleanPart x) \<subseteq> set x \<union> {CHR ''_''}" for x by (auto simp: cleanPart_def ReplaceChar_def)
  then have "set (concat (map cleanPart ps)) \<subseteq> set (concat ps) \<union> {CHR ''_''}" by fastforce
  moreover have "set (Cache.Prefix ps) \<subseteq>
      (set Namespace \<union> set SchemaVersion \<union> set (concat (map cleanPart ps))) \<union> set '':''"
    using Join_set [of "Namespace # SchemaVersion # map cleanPart ps" "'':''"] unfolding Cache.Prefix_def Cache.Key_def
    by (simp only: concat.simps set_append) blast
  ultimately have "set (Cache.Prefix ps) \<subseteq> set (Namespace @ SchemaVersion @ ''_:'') \<union> set (concat ps)"
    unfolding set_append by (fastforce simp del: set_concat)
  then show ?thesis using p h by (auto simp: list_all_iff)
qed


definition brandKeys :: KeySpace where
  "brandKeys = \<lparr>slots = [(Cache.Key [''masterdata'', ''catalog'', ''acme'', ''brand'', ''id'', ''1''], Some ''Hino''),
     (Cache.Key [''masterdata'', ''catalog'', ''rival'', ''brand'', ''id'', ''2''], Some ''Isuzu'')], reachable = True\<rparr>"

lemma brandKeys_good: "slotGood brandKeys"
  by (simp add: slotGood_def brandKeys_def Key_inj)


text \<open>The cache over Redis keeps the contract the services rely on, whatever Redis refuses.\<close>

lemma redis_cache:
  assumes "redis_server R good held up ahead rank glob"
  shows "cache good held (redisCache R rounds) (\<lambda>m. m) (\<lambda>m _. m)"
proof
  note s = redis_server.get [OF assms] redis_server.setk [OF assms]
  fix w assume g: "good w"
  show "CacheGet (redisCache R rounds) k w = (rg, w') \<Longrightarrow>
      good w' \<and> held w' = held w \<and> (\<forall>b. rg = Some b \<longrightarrow> held w k = Some b)" for k rg w'
    using redis_server.get [OF assms g, of k]
    by (auto simp: redisCache_def redisGet_def split: prod.splits sum.splits)
  show "CacheSet (redisCache R rounds) k b ttl w = (rs, w') \<Longrightarrow>
      good w' \<and> (held w' = held w \<or> held w' = (held w)(k \<mapsto> b))" for k b ttl rs w'
    using redis_server.setk [OF assms g, of k b ttl]
    by (cases "ClientSet R k b ttl w") (auto simp: redisCache_def redisSet_def)
  show "CacheDelete (redisCache R rounds) ks w = (rd, w') \<Longrightarrow> good w' \<and> (\<exists>K. held w' = held w |` K)" for ks rd w'
  proof (cases "ks = []")
    case True
    then show "CacheDelete (redisCache R rounds) ks w = (rd, w') \<Longrightarrow> good w' \<and> (\<exists>K. held w' = held w |` K)"
      using g by (auto simp: redisCache_def redisDelete_def restrict_map_def intro!: exI [of _ UNIV])
  next
    case False
    then show "CacheDelete (redisCache R rounds) ks w = (rd, w') \<Longrightarrow> good w' \<and> (\<exists>K. held w' = held w |` K)"
      using redis_server.del [OF assms g, of ks]
      by (cases "ClientDel R ks w") (auto simp: redisCache_def redisDelete_def)
  qed
  show "DeleteByPrefix (redisCache R rounds) p w = (rp, w') \<Longrightarrow> good w' \<and> (\<exists>K. held w' = held w |` K)" for p rp w'
    using redis_server.sweep_removes [OF assms g, of rounds 0 "p @ ''*''"]
    by (auto simp: redisCache_def redisDeleteByPrefix_def)
qed simp

interpretation slots: cache slotGood slotHeld "redisCache slotClient rounds" "\<lambda>m. m" "\<lambda>m _. m" for rounds
  by (rule redis_cache [OF slot.redis_server_axioms])

text \<open>C38. A cache failure is never more than a miss: whatever Redis answers, a read that answers gives
  what is held, a write stores that value under that key or nothing, and removals and invalidations
  remove, and never anything but what they name.\<close>

theorem cache_failures_only_miss:
  assumes "redis_server R good held up ahead rank glob" and "good w"
  shows "(\<forall>b w'. CacheGet (redisCache R rounds) k w = (Some b, w') \<longrightarrow> held w k = Some b) \<and>
    held (snd (CacheGet (redisCache R rounds) k w)) = held w \<and>
    held (snd (CacheSet (redisCache R rounds) k b ttl w)) \<in> {held w, (held w)(k \<mapsto> b)} \<and>
    (\<exists>gone \<subseteq> set ks. held (snd (CacheDelete (redisCache R rounds) ks w)) = held w |` (- gone)) \<and>
    (\<exists>gone \<subseteq> {k. glob (p @ ''*'') k}. held (snd (DeleteByPrefix (redisCache R rounds) p w)) = held w |` (- gone))"
proof (intro conjI)
  note get = redis_server.get [OF assms, of k]
  show "\<forall>b w'. CacheGet (redisCache R rounds) k w = (Some b, w') \<longrightarrow> held w k = Some b"
    using get by (auto simp: redisCache_def redisGet_def split: prod.splits sum.splits)
  show "held (snd (CacheGet (redisCache R rounds) k w)) = held w"
    using get by (auto simp: redisCache_def redisGet_def split: prod.splits sum.splits)
  show "held (snd (CacheSet (redisCache R rounds) k b ttl w)) \<in> {held w, (held w)(k \<mapsto> b)}"
    using redis_server.setk [OF assms, of k b ttl] by (cases "ClientSet R k b ttl w") (auto simp: redisCache_def redisSet_def)
  show "\<exists>gone \<subseteq> set ks. held (snd (CacheDelete (redisCache R rounds) ks w)) = held w |` (- gone)"
  proof (cases "ks = []")
    case True
    then show ?thesis by (simp add: redisCache_def redisDelete_def restrict_map_def)
  next
    case False
    obtain d w' where run: "ClientDel R ks w = (d, w')" by force
    then have "held (snd (CacheDelete (redisCache R rounds) ks w)) = held w'"
      using False by (simp add: redisCache_def redisDelete_def)
    then show ?thesis using redis_server.del [OF assms run] by metis
  qed
  show "\<exists>gone \<subseteq> {k. glob (p @ ''*'') k}. held (snd (DeleteByPrefix (redisCache R rounds) p w)) = held w |` (- gone)"
    using redis_server.sweep_removes [OF assms] by (simp add: redisCache_def redisDeleteByPrefix_def)
qed

lemma cache_failures_only_miss_witness:
  "slotHeld (snd (CacheSet (redisCache slotClient 3) ''k'' ''v'' 5 (brandKeys\<lparr>reachable := False\<rparr>))) \<in>
     {slotHeld (brandKeys\<lparr>reachable := False\<rparr>), (slotHeld (brandKeys\<lparr>reachable := False\<rparr>))(''k'' \<mapsto> ''v'')}"
proof -
  have "slotGood (brandKeys\<lparr>reachable := False\<rparr>)" using brandKeys_good by (simp add: slotGood_def)
  from cache_failures_only_miss [OF slot.redis_server_axioms this] show ?thesis by blast
qed

end
