(* ===== verification/Transport.thy ===== *)
theory Transport
  imports Gate
begin

text \<open>
  What travels with a request: the context of \<^verbatim>\<open>internal/platform/authctx\<close> and
  \<^verbatim>\<open>internal/platform/logger/requestid.go\<close>, the HTTP edge of
  \<^verbatim>\<open>internal/middleware/request_logger.go\<close>, the interceptors on both ends of a service call
  (\<^verbatim>\<open>grpc.go\<close>, \<^verbatim>\<open>internal/platform/grpcutil/server.go\<close>) and the client of the
  authentication service, \<^verbatim>\<open>internal/clients/auth.go\<close>. The transport is gRPC's: it delivers the
  metadata a client appends, in their order, as the incoming metadata of the call.
\<close>

section \<open>Contexts\<close>

type_synonym Metadata = "(string \<times> string) list"

text \<open>An empty token and an empty request id stand for values that are not in the context.\<close>

record CallContext =
  TokenOut :: string
  RequestIDIn :: string
  PrincipalIn :: "Principal option"
  IncomingMD :: "Metadata option"
  OutgoingMD :: Metadata

definition background :: CallContext where
  "background = \<lparr>TokenOut = [], RequestIDIn = [], PrincipalIn = None, IncomingMD = None, OutgoingMD = []\<rparr>"

definition mdGet :: "Metadata \<Rightarrow> string \<Rightarrow> string list" where
  "mdGet md k = map snd (filter (\<lambda>(k', _). k' = k) md)"

definition WithPrincipal :: "CallContext \<Rightarrow> Principal \<Rightarrow> CallContext" where
  "WithPrincipal ctx p = ctx\<lparr>PrincipalIn := Some p\<rparr>"

definition FromContext :: "CallContext \<Rightarrow> Principal option" where
  "FromContext ctx = PrincipalIn ctx"

definition WithOutgoingToken :: "CallContext \<Rightarrow> string \<Rightarrow> CallContext" where
  "WithOutgoingToken ctx token = ctx\<lparr>TokenOut := token\<rparr>"

definition OutgoingToken :: "CallContext \<Rightarrow> string option" where
  "OutgoingToken ctx = (if TokenOut ctx = [] then None else Some (TokenOut ctx))"

definition WithRequestID :: "CallContext \<Rightarrow> string \<Rightarrow> CallContext" where
  "WithRequestID ctx i = (if i = [] then ctx else ctx\<lparr>RequestIDIn := i\<rparr>)"

definition RequestID :: "CallContext \<Rightarrow> string" where
  "RequestID ctx = RequestIDIn ctx"

definition MetadataKey :: string where "MetadataKey = ''x-request-id''"
definition authorizationMD :: string where "authorizationMD = ''authorization''"
definition serviceTokenMD :: string where "serviceTokenMD = ''x-karlo-service-token''"
definition serviceNameMD :: string where "serviceNameMD = ''x-karlo-service''"

section \<open>The HTTP edge\<close>

text \<open>
  The context a request is served in: the id it came with, or else the one minted for it, and the
  token it carries. The line it logs is output.
\<close>

definition RequestLogger :: "string \<Rightarrow> string \<Rightarrow> string \<Rightarrow> CallContext \<Rightarrow> CallContext" where
  "RequestLogger header minted token ctx =
     (let requestID = (if header = [] then minted else header);
          ctx = WithRequestID ctx requestID
      in if token \<noteq> [] then WithOutgoingToken ctx token else ctx)"

section \<open>The calling side\<close>

definition AppendToOutgoingContext :: "CallContext \<Rightarrow> Metadata \<Rightarrow> CallContext" where
  "AppendToOutgoingContext ctx kv = ctx\<lparr>OutgoingMD := OutgoingMD ctx @ kv\<rparr>"

definition RequestIDClientInterceptor :: "(CallContext \<Rightarrow> 'r) \<Rightarrow> CallContext \<Rightarrow> 'r" where
  "RequestIDClientInterceptor invoker ctx =
     invoker (if RequestID ctx \<noteq> [] then AppendToOutgoingContext ctx [(MetadataKey, RequestID ctx)] else ctx)"

definition UnaryClientInterceptor :: "string \<Rightarrow> string \<Rightarrow> (CallContext \<Rightarrow> 'r) \<Rightarrow> CallContext \<Rightarrow> 'r" where
  "UnaryClientInterceptor serviceName serviceToken invoker ctx =
     (let ctx = AppendToOutgoingContext ctx [(serviceTokenMD, serviceToken), (serviceNameMD, serviceName)]
      in invoker (case OutgoingToken ctx of None \<Rightarrow> ctx
                  | Some raw \<Rightarrow> AppendToOutgoingContext ctx [(authorizationMD, ''Bearer '' @ raw)]))"

definition Dial :: "string \<Rightarrow> string \<Rightarrow> (CallContext \<Rightarrow> 'r) \<Rightarrow> CallContext \<Rightarrow> 'r" where
  "Dial service serviceToken invoker =
     RequestIDClientInterceptor (UnaryClientInterceptor service serviceToken invoker)"

section \<open>The answering side\<close>

text \<open>A handler panics, or returns a status (its code and message) or a response.\<close>

datatype 'a handled = Panicked | Returned "int \<times> string + 'a"

type_synonym ('w, 'a) handler = "CallContext \<Rightarrow> 'w \<Rightarrow> 'a handled \<times> 'w"

definition RecoveryInterceptor :: "('w, 'a) handler \<Rightarrow> ('w, 'a) handler" where
  "RecoveryInterceptor handler ctx w =
     (case handler ctx w of
        (Panicked, w') \<Rightarrow> (Returned (Inl (13, ''internal error'')), w')
      | (Returned r, w') \<Rightarrow> (Returned r, w'))"

definition RequestIDServerInterceptor :: "('w, 'a) handler \<Rightarrow> ('w, 'a) handler" where
  "RequestIDServerInterceptor handler ctx =
     handler (case IncomingMD ctx of None \<Rightarrow> ctx
              | Some md \<Rightarrow>
                  (case mdGet md MetadataKey of
                     i # _ \<Rightarrow> if i \<noteq> [] then WithRequestID ctx i else ctx
                   | [] \<Rightarrow> ctx))"

text \<open>The authentication of \<^verbatim>\<open>grpc.go\<close> as an interceptor.\<close>

definition authenticate ::
  "(string \<Rightarrow> Claims option) option \<Rightarrow> string list \<Rightarrow> string \<Rightarrow> ('w, 'a) handler \<Rightarrow> ('w, 'a) handler" where
  "authenticate v accepted method handler ctx w =
     (case UnaryServerInterceptor v accepted method
        (map_option (\<lambda>md. (mdGet md serviceTokenMD, mdGet md authorizationMD)) (IncomingMD ctx)) of
        Aborted code message \<Rightarrow> (Returned (Inl (code, message)), w)
      | Continues None \<Rightarrow> handler ctx w
      | Continues (Some p) \<Rightarrow> handler (WithPrincipal ctx p) w)"

text \<open>The chain of \<^verbatim>\<open>NewServer\<close>; the interceptor that logs passes the answer on.\<close>

definition NewServer ::
  "(string \<Rightarrow> Claims option) option \<Rightarrow> string list \<Rightarrow> string \<Rightarrow> ('w, 'a) handler \<Rightarrow> ('w, 'a) handler" where
  "NewServer v accepted method handler =
     RecoveryInterceptor (RequestIDServerInterceptor (authenticate v accepted method handler))"

text \<open>A call as the server sees it: only the metadata cross.\<close>

definition deliver :: "(CallContext \<Rightarrow> 'r) \<Rightarrow> CallContext \<Rightarrow> 'r" where
  "deliver serve ctx = serve (background\<lparr>IncomingMD := Some (OutgoingMD ctx)\<rparr>)"

section \<open>The authentication service\<close>

text \<open>The user of its answer, \<^verbatim>\<open>authv1.User\<close> as far as it is read.\<close>

record User =
  Id :: string
  CompanyId :: string
  Staffed :: bool
  AccessOf :: "string \<rightharpoonup> ProductAccess"

definition principalFrom :: "User \<Rightarrow> Principal" where
  "principalFrom user =
     \<lparr>UserID = Id user, Principal.CompanyID = CompanyId user, IsPlatformStaff = Staffed user,
      Access = (if AccessOf user = Map.empty then Map.empty
        else (\<lambda>product. map_option (\<lambda>a.
          \<lparr>Role = Role a, Permissions = Permissions a, Features = Features a, GrantsAll = GrantsAll a\<rparr>)
          (AccessOf user product))),
      SingleDevice = False, TokenID = []\<rparr>"

text \<open>\<open>None\<close> is a call that failed; otherwise the token is valid or not, with a user.\<close>

definition ValidateToken :: "(string \<Rightarrow> (bool \<times> User) option) \<Rightarrow> string \<Rightarrow> Principal option" where
  "ValidateToken ask token =
     (case ask token of
        None \<Rightarrow> None
      | Some (valid, user) \<Rightarrow> if \<not> valid then None else Some (principalFrom user))"

section \<open>What travels arrives\<close>

lemma stripBearer_Bearer [simplified]: "raw \<noteq> [] \<Longrightarrow> stripBearer (''Bearer '' @ raw) = raw"
  by (cases raw) (simp_all add: stripBearer_def)

lemma md_keys: "MetadataKey \<noteq> serviceTokenMD" "MetadataKey \<noteq> authorizationMD" "serviceTokenMD \<noteq> authorizationMD"
  "serviceNameMD \<noteq> MetadataKey" "serviceNameMD \<noteq> authorizationMD" "serviceNameMD \<noteq> serviceTokenMD"
  by (simp_all add: MetadataKey_def serviceTokenMD_def authorizationMD_def serviceNameMD_def)

text \<open>The metadata a served request sends on.\<close>

definition sentOn :: "string \<Rightarrow> string \<Rightarrow> string \<Rightarrow> string \<Rightarrow> Metadata" where
  "sentOn service serviceToken requestID raw =
     (if requestID = [] then [] else [(MetadataKey, requestID)]) @
     [(serviceTokenMD, serviceToken), (serviceNameMD, service)] @
     (if raw = [] then [] else [(authorizationMD, ''Bearer '' @ raw)])"

lemma Dial_sends:
  "Dial service serviceToken (deliver serve) (RequestLogger header minted raw background) =
     serve (background\<lparr>IncomingMD := Some (sentOn service serviceToken (if header = [] then minted else header) raw)\<rparr>)"
  by (simp add: Dial_def RequestIDClientInterceptor_def UnaryClientInterceptor_def deliver_def RequestLogger_def
      WithRequestID_def WithOutgoingToken_def OutgoingToken_def RequestID_def AppendToOutgoingContext_def
      background_def sentOn_def Let_def)

lemma sentOn_keys:
  "mdGet (sentOn service t i raw) MetadataKey = (if i = [] then [] else [i])"
  "mdGet (sentOn service t i raw) serviceTokenMD = [t]"
  "mdGet (sentOn service t i raw) authorizationMD = (if raw = [] then [] else [''Bearer '' @ raw])"
  using md_keys by (auto simp: mdGet_def sentOn_def)



text \<open>What the authentication service answers about the person a token vouches for.\<close>

definition userOf :: "Principal \<Rightarrow> User" where
  "userOf p = \<lparr>Id = UserID p, CompanyId = Principal.CompanyID p, Staffed = IsPlatformStaff p, AccessOf = Access p\<rparr>"

text \<open>Confirming a session with the authentication service decides every permission, product,
  entitlement and role as the token itself would: what a person may do does not depend on which of
  the two vouched for them. Only the device binding and the session id are lost on the way.\<close>

theorem remote_check_keeps_access:
  "let q = principalFrom (userOf p)
   in HasPermission q = HasPermission p \<and> HasProduct q = HasProduct p \<and> RoleIn q = RoleIn p \<and>
    CompanyHasFeature q = CompanyHasFeature p \<and> GrantablePermissions q = GrantablePermissions p \<and>
    HasModule q = HasModule p \<and> HasRole q = HasRole p \<and> UserID q = UserID p \<and>
    Principal.CompanyID q = Principal.CompanyID p \<and> IsPlatformStaff q = IsPlatformStaff p \<and>
    \<not> SingleDevice q \<and> TokenID q = []"
proof -
  define q where "q = principalFrom (userOf p)"
  have "map_option (\<lambda>a. \<lparr>Role = Role a, Permissions = Permissions a, Features = Features a, GrantsAll = GrantsAll a\<rparr>) x = x"
    for x :: "ProductAccess option" by (cases x) simp_all
  then have a: "Access q = Access p" by (auto simp: q_def principalFrom_def userOf_def fun_eq_iff)
  have s: "IsPlatformStaff q = IsPlatformStaff p" "UserID q = UserID p" "Principal.CompanyID q = Principal.CompanyID p"
    "\<not> SingleDevice q" "TokenID q = []"
    by (simp_all add: q_def principalFrom_def userOf_def)
  have perm: "HasPermission q = HasPermission p" by (auto simp: HasPermission_def fun_eq_iff a s)
  have role: "RoleIn q = RoleIn p" by (simp add: RoleIn_def accessIn_def fun_eq_iff a)
  show ?thesis
    unfolding q_def [symmetric] Let_def
    by (simp add: perm role s fun_eq_iff HasProduct_def CompanyHasFeature_def accessIn_def a GrantablePermissions_def
        HasModule_def HasRole_def)
qed

end
