(* ===== verification/Process.thy ===== *)
theory Process
  imports Startup Seeding RedisCache Transport
begin

text \<open>
  The process, \<^verbatim>\<open>cmd/server/main.go\<close>: what \<^verbatim>\<open>run\<close> does of its environment
  and arguments until it seeds or serves, with the loading of the key of
  \<^verbatim>\<open>internal/platform/authctx/verifier.go\<close>. Files, the parsing of a key, the dialling of
  Redis, MongoDB and the authentication service are parameters.
\<close>

section \<open>The key\<close>

text \<open>\<^verbatim>\<open>strings.ReplaceAll\<close> of a backslash and an \<^verbatim>\<open>n\<close> by a line feed.\<close>

fun restoreNewlines :: "string \<Rightarrow> string" where
  "restoreNewlines (a # b # s) =
     (if a = CHR 0x5C \<and> b = CHR ''n'' then CHR 0x0A # restoreNewlines s else a # restoreNewlines (b # s))"
| "restoreNewlines s = s"

text \<open>Parsing a key gives the library's parser of tokens under that key.\<close>

definition NewVerifier :: "(string \<Rightarrow> TokenParser option) \<Rightarrow> string \<Rightarrow> (string \<Rightarrow> Claims option) option" where
  "NewVerifier parsePEM pem = (if pem = [] then None else map_option ParseClaims (parsePEM pem))"

definition NewVerifierFromEnv ::
  "(string \<Rightarrow> TokenParser option) \<Rightarrow> (string \<Rightarrow> string option) \<Rightarrow> Env \<Rightarrow> (string \<Rightarrow> Claims option) option" where
  "NewVerifierFromEnv parsePEM readFile vars =
     (let inline = Getenv vars ''JWT_PUBLIC_KEY''; path = Getenv vars ''JWT_PUBLIC_KEY_FILE''
      in if inline \<noteq> [] then NewVerifier parsePEM (restoreNewlines inline)
         else if path \<noteq> [] then (case readFile path of None \<Rightarrow> None | Some b \<Rightarrow> NewVerifier parsePEM b)
         else None)"

section \<open>The run\<close>

text \<open>What the process is given from outside.\<close>

record ('w, 'b) Outside =
  Files :: "string \<Rightarrow> string option"
  ParsePEM :: "string \<Rightarrow> TokenParser option"
  Mongo :: "string \<Rightarrow> string \<Rightarrow> 'w SeedDB option"
  DialAuth :: "string \<Rightarrow> string \<Rightarrow> string \<Rightarrow> (string \<Rightarrow> (bool \<times> User) option) option"
  DialRedis :: "RedisOptions \<Rightarrow> ('w, 'b) RedisClient option"
  SweepRounds :: nat
  ReadSeed :: "string \<Rightarrow> seed_error + SeedFile"

text \<open>What it serves with.\<close>

record ('w, 'b) Serving =
  Settings :: Config
  Verifier :: "string \<Rightarrow> Claims option"
  Remote :: "(string \<Rightarrow> Principal option) option"
  CacheClient :: "('w, 'b) Cache"

datatype ('w, 'b) ran = Fatal | SeedRan "seed_error + unit" | Serves "('w, 'b) Serving"

definition run :: "('w, 'b) Outside \<Rightarrow> Env \<Rightarrow> string list \<Rightarrow> Time \<Rightarrow> 'w \<Rightarrow> ('w, 'b) ran \<times> 'w" where
  "run X vars args now w =
     (case startup vars of
        None \<Rightarrow> (Fatal, w)
      | Some cfg \<Rightarrow>
          (case Mongo X (MongoURI cfg) (MongoDatabase cfg) of
             None \<Rightarrow> (Fatal, w)
           | Some D \<Rightarrow>
               if ''seed'' \<in> set args
               then (let given = Getenv vars ''SEED_FILE'';
                         path = (if given = [] then ''/seed/catalog.json'' else given);
                         (r, w') = seedRun D (ReadSeed X path) now (''--dry-run'' \<in> set args) w
                     in (SeedRan r, w'))
               else (case NewVerifierFromEnv (ParsePEM X) (Files X) vars of
                       None \<Rightarrow> (Fatal, w)
                     | Some v \<Rightarrow>
                         (Serves \<lparr>Settings = cfg, Verifier = v,
                            Remote = map_option ValidateToken (DialAuth X (AuthGRPCAddr cfg) ''masterdata'' (ServiceToken cfg)),
                            CacheClient = CacheFromEnv (DialRedis X) (SweepRounds X) vars\<rparr>, w))))"

section \<open>What a run may do\<close>

text \<open>C40. Running the process writes only as a seed task that was asked for without a dry run, and only
  to a target the guard accepts; a company's documents it never touches. A process that serves has
  written nothing, has a key, and passed the guard.\<close>

theorem runs_write_only_as_asked:
  assumes "\<And>uri name D. Mongo X uri name = Some D \<Longrightarrow> seed_store D good vw" and "good w" and "run X vars args now w = (r, w')"
  shows "companiesKept (vw w) (vw w') \<and>
    (w' \<noteq> w \<longrightarrow> ''seed'' \<in> set args \<and> ''--dry-run'' \<notin> set args \<and>
       (\<exists>cfg. startup vars = Some cfg \<and> guardTarget (MongoURI cfg) (MongoDatabase cfg) = None)) \<and>
    (\<forall>s. r = Serves s \<longrightarrow> w' = w \<and> startup vars = Some (Settings s) \<and>
       NewVerifierFromEnv (ParsePEM X) (Files X) vars = Some (Verifier s))"
proof -
  have g: "guardTarget (MongoURI cfg) (MongoDatabase cfg) = None" if "startup vars = Some cfg" for cfg
    using that by (auto simp: startup_def split: sum.splits option.splits)
  show ?thesis
  proof (cases "startup vars")
    case None
    then show ?thesis using assms(3) by (simp add: run_def companiesKept_refl)
  next
    case cfg: (Some cfg)
    show ?thesis
    proof (cases "Mongo X (MongoURI cfg) (MongoDatabase cfg)")
      case None
      then show ?thesis using assms(3) cfg by (simp add: run_def companiesKept_refl)
    next
      case D: (Some D)
      show ?thesis
      proof (cases "''seed'' \<in> set args")
        case True
        define path where "path = (if Getenv vars ''SEED_FILE'' = [] then ''/seed/catalog.json'' else Getenv vars ''SEED_FILE'')"
        obtain res w1 where seed: "seedRun D (ReadSeed X path) now (''--dry-run'' \<in> set args) w = (res, w1)" by force
        have "run X vars args now w = (SeedRan res, w1)"
          using True unfolding run_def cfg option.case D Let_def path_def [symmetric] seed prod.case by (rule if_P)
        then have r: "r = SeedRan res" "w1 = w'" using assms(3) by simp_all
        note kept = seed_kept [OF assms(1) [OF D] assms(2) seed]
        have "companiesKept (vw w) (vw w')" using kept unfolding r(2) by (elim conjE)
        moreover have "w' \<noteq> w \<longrightarrow> ''--dry-run'' \<notin> set args" using kept unfolding r(2) by (elim conjE) (rule impI, erule contrapos_nn, erule mp)
        ultimately show ?thesis using g [OF cfg] cfg True by (simp add: r(1))
      next
        case False
        then show ?thesis using assms(3) cfg D by (auto simp: run_def companiesKept_refl split: option.splits)
      qed
    qed
  qed
qed

definition sampleOutside :: "(SeedWorld, string) Outside" where
  "sampleOutside = \<lparr>Files = (\<lambda>p. None), ParsePEM = (\<lambda>pem. None), Mongo = (\<lambda>uri name. Some seedDB),
     DialAuth = (\<lambda>addr name t. None), DialRedis = (\<lambda>opts. None), SweepRounds = 3, ReadSeed = (\<lambda>p. Inr sampleFile)\<rparr>"

lemma runs_write_only_as_asked_witness:
  "companiesKept (seedView seedWorld) (seedView (snd (run sampleOutside sampleEnv [''seed''] 5 seedWorld)))"
proof -
  have db: "seed_store D seedGood seedView" if "Mongo sampleOutside uri name = Some D" for uri name D
    using that sdb.seed_store_axioms by (simp add: sampleOutside_def)
  obtain r w' where q: "run sampleOutside sampleEnv [''seed''] 5 seedWorld = (r, w')" by force
  from conjunct1 [OF runs_write_only_as_asked [OF db seedWorld_good q]] show ?thesis by (simp add: q)
qed

end
